(* ===== verification/Prelude.thy ===== *)
theory Prelude
  imports Complex_Main "HOL-Library.Sublist"
begin

text \<open>
  Shared vocabulary of the development: identifiers and clock values, the exceptions the
  Python code raises, JSON values, the string operations of the standard library that the
  code uses, and the state-and-exception computations in which the stateful components are
  written. Strings are HOL strings; a character stands for one of the code points 0 to 255,
  so \<open>length\<close> counts code points as Python's \<open>len\<close> does.
\<close>

section \<open>Identifiers, time, proof collections\<close>

type_synonym uuid = nat
type_synonym time = nat

named_theorems safe_intros \<open>operations that keep the invariant and only move forward\<close>

section \<open>JSON values\<close>

datatype pyfloat = Fin rat | PosInf | NegInf | NaN

datatype json =
    JNull
  | JBool bool
  | JInt int
  | JFloat pyfloat
  | JStr string
  | JList "json list"
  | JObj "(string \<times> json) list"

section \<open>Exceptions\<close>

text \<open>\<open>ProviderErrorCode\<close> and \<open>ProviderError\<close> of xymphony_contracts/provider.py.\<close>

datatype provider_error_code =
  PE_TIMEOUT | PE_CANCELLED | PE_RATE_LIMIT | PE_AUTH | PE_INVALID_REQUEST | PE_PROVIDER | PE_UNKNOWN

fun provider_error_code_value :: "provider_error_code \<Rightarrow> string" where
  "provider_error_code_value PE_TIMEOUT = ''timeout''"
| "provider_error_code_value PE_CANCELLED = ''cancelled''"
| "provider_error_code_value PE_RATE_LIMIT = ''rate_limit''"
| "provider_error_code_value PE_AUTH = ''auth''"
| "provider_error_code_value PE_INVALID_REQUEST = ''invalid_request''"
| "provider_error_code_value PE_PROVIDER = ''provider''"
| "provider_error_code_value PE_UNKNOWN = ''unknown''"

record provider_error =
  pe_code :: provider_error_code
  pe_message :: string
  pe_provider_key :: string
  pe_retryable :: bool

text \<open>
  \<open>ValidationError\<close> is pydantic's error from a contract constructor; the next five are
  xymphony_runtime/errors.py; \<open>Tool...\<close> are xymphony_tools/errors.py; \<open>HandlerError\<close> is
  an arbitrary exception of a callback, with its type name and text. \<open>NotFoundErr\<close>,
  \<open>ConflictErr\<close> (code, message) and \<open>AppErr\<close> (code, message, HTTP status) are
  xymphony_api/errors.py; \<open>IntegrityErr\<close> and \<open>DataErr\<close> are what a flush raises when a
  constraint declared in xymphony_api/models.py is violated.
\<close>

datatype exn =
    ValidationError string
  | ValueErrorE string
  | InvalidRuntimeInput string
  | InvalidStateTransition string
  | RuntimeNotRunning string
  | StaleTurnEvent string
  | ContextBudgetExceeded string
  | ProviderErr provider_error
  | ToolNotFound string
  | ToolAlreadyRegistered string
  | ToolArgumentValidation string
  | HandlerError string string
  | KeyErrorE
  | TypeErrorE string
  | ConnectionErrorE string
  | CancelledErrorE
  | NotFoundErr string
  | ConflictErr string string
  | AppErr string string nat
  | IntegrityErr string
  | DataErr string
  | LookupErr string

type_synonym 'a result = "exn + 'a"

lemma seq_unit_iff:
  "(case r of Inl e \<Rightarrow> Inl e | Inr (_::unit) \<Rightarrow> m) = Inr x \<longleftrightarrow> r = Inr () \<and> m = Inr x"
  by (cases r) auto

definition and_then :: "'a result \<Rightarrow> ('a \<Rightarrow> 'b result) \<Rightarrow> 'b result" where
  "and_then r f = (case r of Inl e \<Rightarrow> Inl e | Inr x \<Rightarrow> f x)"

lemma and_then_simps [simp]: "and_then (Inl e) f = Inl e" "and_then (Inr x) f = f x"
  by (simp_all add: and_then_def)

lemma and_then_Inr: "and_then r f = Inr y \<longleftrightarrow> (\<exists>x. r = Inr x \<and> f x = Inr y)"
  by (cases r) auto

text \<open>Validating a list item by item, stopping at the first error.\<close>

fun validate_all :: "('j \<Rightarrow> 'a result) \<Rightarrow> 'j list \<Rightarrow> 'a list result" where
  "validate_all f [] = Inr []"
| "validate_all f (j # js) =
     (case f j of Inl e \<Rightarrow> Inl e | Inr x \<Rightarrow> map_sum id (\<lambda>xs. x # xs) (validate_all f js))"

lemma validate_all_dump:
  "\<forall>x \<in> set xs. f (g x) = Inr x \<Longrightarrow> validate_all f (map g xs) = Inr xs"
  by (induction xs) auto

lemma validate_all_append:
  "validate_all f (xs @ ys) = and_then (validate_all f xs) (\<lambda>as. map_sum id ((@) as) (validate_all f ys))"
  by (induction xs) (auto simp: and_then_def map_sum_def sum.map_id0 split: sum.splits)

lemma validate_all_length: "validate_all f xs = Inr ys \<Longrightarrow> length ys = length xs"
  by (induction xs arbitrary: ys) (auto simp: map_sum_def split: sum.splits)

lemma validate_all_Inr_all:
  assumes "validate_all f xs = Inr ys" and "\<And>x y. f x = Inr y \<Longrightarrow> P y"
  shows "list_all P ys"
  using assms(1)
  by (induction xs arbitrary: ys) (auto split: sum.splits simp: assms(2) map_sum_def)

lemma validate_all_map: "validate_all f (map g xs) = validate_all (\<lambda>x. f (g x)) xs"
  by (induction xs) (auto split: sum.split)

lemma validate_all_cong [cong]:
  "xs = ys \<Longrightarrow> (\<And>x. x \<in> set ys \<Longrightarrow> f x = g x) \<Longrightarrow> validate_all f xs = validate_all g ys"
  by (induction ys arbitrary: xs) (auto split: sum.split)

section \<open>Strings\<close>

definition py_isspace :: "char \<Rightarrow> bool" where
  "py_isspace c \<longleftrightarrow> c \<in> set [CHR '' '', CHR 0x09, CHR 0x0A, CHR 0x0B, CHR 0x0C, CHR 0x0D,
     CHR 0x1C, CHR 0x1D, CHR 0x1E, CHR 0x1F, CHR 0x85, CHR 0xA0]"

definition py_lstrip :: "string \<Rightarrow> string" where
  "py_lstrip s = dropWhile py_isspace s"

definition py_rstrip :: "string \<Rightarrow> string" where
  "py_rstrip s = rev (dropWhile py_isspace (rev s))"

definition py_strip :: "string \<Rightarrow> string" where
  "py_strip s = py_rstrip (py_lstrip s)"

fun py_join :: "string \<Rightarrow> string list \<Rightarrow> string" where
  "py_join sep [] = []"
| "py_join sep [x] = x"
| "py_join sep (x # y # zs) = x @ sep @ py_join sep (y # zs)"

function py_split :: "string \<Rightarrow> string list" where
  "py_split s =
     (let t = dropWhile py_isspace s in
      if t = [] then []
      else takeWhile (\<lambda>c. \<not> py_isspace c) t # py_split (dropWhile (\<lambda>c. \<not> py_isspace c) t))"
  by pat_completeness auto
termination
proof (relation "measure length", goal_cases)
  case (2 s t)
  show ?case
  proof (cases t)
    case Nil
    with 2 show ?thesis by simp
  next
    case (Cons c u)
    with 2 have "\<not> py_isspace c" using hd_dropWhile [of py_isspace s] by force
    then have "length (dropWhile (\<lambda>c. \<not> py_isspace c) t) \<le> length u"
      using Cons by (simp add: length_dropWhile_le)
    moreover have "length t \<le> length s" using 2 by (simp add: length_dropWhile_le)
    ultimately show ?thesis using Cons by simp
  qed
qed simp

declare py_split.simps [simp del]

text \<open>\<open>s.rfind(sub, 0, end)\<close>: the largest start of an occurrence that ends by \<open>end\<close>.\<close>

definition occurs_at :: "string \<Rightarrow> string \<Rightarrow> nat \<Rightarrow> bool" where
  "occurs_at sub s i \<longleftrightarrow> take (length sub) (drop i s) = sub"

fun rfind_down :: "string \<Rightarrow> string \<Rightarrow> nat \<Rightarrow> nat option" where
  "rfind_down sub s 0 = (if occurs_at sub s 0 then Some 0 else None)"
| "rfind_down sub s (Suc i) = (if occurs_at sub s (Suc i) then Some (Suc i) else rfind_down sub s i)"

definition py_rfind :: "string \<Rightarrow> string \<Rightarrow> nat \<Rightarrow> nat option" where
  "py_rfind sub s bound =
     (let b = min bound (length s) in
      if length sub \<le> b then rfind_down sub s (b - length sub) else None)"

text \<open>ASCII and Latin-1 lower casing, as \<open>str.lower\<close> does on these code points.\<close>

definition py_lower_char :: "char \<Rightarrow> char" where
  "py_lower_char c =
     (let n = (of_char c :: nat) in
      if (65 \<le> n \<and> n \<le> 90) \<or> (192 \<le> n \<and> n \<le> 222 \<and> n \<noteq> 215) then char_of (n + 32) else c)"

definition py_lower :: "string \<Rightarrow> string" where
  "py_lower s = map py_lower_char s"

text \<open>\<open>x or default\<close> for an optional string, and the truth value of an optional string.\<close>

definition str_or :: "string option \<Rightarrow> string \<Rightarrow> string" where
  "str_or x d = (case x of None \<Rightarrow> d | Some s \<Rightarrow> if s = [] then d else s)"

definition str_truthy :: "string option \<Rightarrow> bool" where
  "str_truthy x = (case x of None \<Rightarrow> False | Some s \<Rightarrow> s \<noteq> [])"

definition quoted :: "string \<Rightarrow> string" where
  "quoted s = [CHR 0x27] @ s @ [CHR 0x27]"

fun digit_char :: "nat \<Rightarrow> char" where
  "digit_char n = char_of (48 + n mod 10)"

function nat_str :: "nat \<Rightarrow> string" where
  "nat_str n = (if n < 10 then [digit_char n] else nat_str (n div 10) @ [digit_char n])"
  by pat_completeness auto
termination by (relation "measure id") auto

declare nat_str.simps [simp del]

definition int_str :: "int \<Rightarrow> string" where
  "int_str n = (if n < 0 then CHR ''-'' # nat_str (nat (- n)) else nat_str (nat n))"

lemma length_py_strip: "length (py_strip s) \<le> length s"
proof -
  have "length (py_strip s) \<le> length (dropWhile py_isspace s)"
    using length_dropWhile_le [of py_isspace "rev (dropWhile py_isspace s)"]
    by (simp add: py_strip_def py_lstrip_def py_rstrip_def)
  also have "\<dots> \<le> length s" by (rule length_dropWhile_le)
  finally show ?thesis .
qed

lemma py_strip_Nil_iff: "py_strip s = [] \<longleftrightarrow> (\<forall>c \<in> set s. py_isspace c)"
proof
  assume "py_strip s = []"
  then have "\<forall>c \<in> set (dropWhile py_isspace s). py_isspace c"
    by (simp add: py_strip_def py_lstrip_def py_rstrip_def)
  then have "dropWhile py_isspace s = []"
    using hd_dropWhile [of py_isspace s] by (meson list.set_sel(1))
  then show "\<forall>c \<in> set s. py_isspace c" by simp
next
  assume "\<forall>c \<in> set s. py_isspace c"
  then have "\<forall>c \<in> set (dropWhile py_isspace s). py_isspace c" by (auto dest: set_dropWhileD)
  then show "py_strip s = []" by (simp add: py_strip_def py_lstrip_def py_rstrip_def)
qed

lemma py_strip_Nil [simp]: "py_strip [] = []"
  by (simp add: py_strip_Nil_iff)

lemma py_strip_suffix_prefix: "\<exists>a b. s = a @ py_strip s @ b"
proof -
  let ?t = "dropWhile py_isspace s"
  have "s = takeWhile py_isspace s @ ?t" by simp
  moreover have "?t = py_strip s @ rev (takeWhile py_isspace (rev ?t))"
    unfolding py_strip_def py_lstrip_def py_rstrip_def rev_append [symmetric] by simp
  ultimately show ?thesis by metis
qed

subsection \<open>Trimmed strings\<close>

definition trimmed :: "string \<Rightarrow> bool" where
  "trimmed s \<longleftrightarrow> s \<noteq> [] \<longrightarrow> \<not> py_isspace (hd s) \<and> \<not> py_isspace (last s)"

lemma lstrip_drop: "py_lstrip s = drop (length (takeWhile py_isspace s)) s"
  by (simp add: py_lstrip_def dropWhile_eq_drop)

lemma rstrip_take: "py_rstrip s = take (length s - length (takeWhile py_isspace (rev s))) s"
  by (simp add: py_rstrip_def dropWhile_eq_drop rev_drop)

lemma rstrip_trimmed_end:
  assumes "s \<noteq> []" and "\<not> py_isspace (last s)"
  shows "py_rstrip s = s"
proof -
  have "dropWhile py_isspace (rev s) = rev s"
    using assms by (cases s rule: rev_cases) auto
  then show ?thesis by (simp add: py_rstrip_def)
qed

lemma last_py_rstrip: "py_rstrip s \<noteq> [] \<Longrightarrow> \<not> py_isspace (last (py_rstrip s))"
  unfolding py_rstrip_def by (simp add: last_rev hd_dropWhile)

text \<open>Cutting a trimmed string at the front and stripping drops a run of spaces.\<close>

lemma strip_drop:
  assumes "trimmed s" and "k < length s"
  shows "py_strip (drop k s) = drop (k + length (takeWhile py_isspace (drop k s))) s"
    and "k + length (takeWhile py_isspace (drop k s)) < length s"
    and "trimmed (py_strip (drop k s))"
proof -
  let ?d = "drop k s" and ?m = "length (takeWhile py_isspace (drop k s))"
  have "?d \<noteq> []" and "last ?d = last s" and "\<not> py_isspace (last s)" and "s \<noteq> []"
    using assms by (auto simp: trimmed_def last_drop)
  then have "last ?d \<in> set ?d" by (metis last_in_set)
  then have ne: "dropWhile py_isspace ?d \<noteq> []"
    using \<open>last ?d = last s\<close> \<open>\<not> py_isspace (last s)\<close> by auto
  moreover have "?d = takeWhile py_isspace ?d @ dropWhile py_isspace ?d" by simp
  ultimately have l: "last (dropWhile py_isspace ?d) = last s"
    using \<open>last ?d = last s\<close> by (metis last_appendR)
  have d: "dropWhile py_isspace ?d = drop (k + ?m) s"
    by (simp add: dropWhile_eq_drop add.commute)
  have r: "py_strip ?d = dropWhile py_isspace ?d"
    using rstrip_trimmed_end [OF ne] l \<open>\<not> py_isspace (last s)\<close> by (simp add: py_strip_def py_lstrip_def)
  show "py_strip ?d = drop (k + ?m) s" using r d by simp
  show "k + ?m < length s" using ne d by (metis drop_eq_Nil not_le)
  show "trimmed (py_strip ?d)"
    using r l ne \<open>\<not> py_isspace (last s)\<close> by (simp add: trimmed_def hd_dropWhile)
qed

text \<open>Cutting it at the back and stripping leaves a prefix and drops only spaces.\<close>

lemma strip_take:
  assumes "trimmed s" and "0 < k" and "k \<le> length s"
  obtains m where "py_strip (take k s) = take m s" and "0 < m" and "m \<le> k"
    and "\<forall>j. m \<le> j \<and> j < k \<longrightarrow> py_isspace (s ! j)"
proof -
  let ?t = "take k s"
  let ?w = "takeWhile py_isspace (rev ?t)"
  have ne: "?t \<noteq> []" and h: "\<not> py_isspace (hd ?t)"
    using assms by (auto simp: trimmed_def)
  then have "py_lstrip ?t = ?t" unfolding py_lstrip_def by (cases ?t) auto
  then have e: "py_strip ?t = take (k - length ?w) s"
    using assms by (simp add: py_strip_def rstrip_take)
  have lw: "length ?w \<le> k" using length_takeWhile_le [of py_isspace "rev ?t"] by simp
  have sp: "py_isspace (s ! j)" if "k - length ?w \<le> j" "j < k" for j
  proof -
    have i: "k - 1 - j < length ?w" using that by linarith
    then have "py_isspace (?w ! (k - 1 - j))" using nth_mem set_takeWhileD by metis
    moreover have "?w ! (k - 1 - j) = rev ?t ! (k - 1 - j)" using i by (rule takeWhile_nth)
    moreover have "rev ?t ! (k - 1 - j) = s ! j"
      using that assms(3) by (simp add: rev_nth)
    ultimately show ?thesis by simp
  qed
  have "0 < k - length ?w"
  proof (rule ccontr)
    assume "\<not> ?thesis"
    then have "py_isspace (s ! 0)" using sp [of 0] assms(2) by simp
    moreover have "s ! 0 = hd s" using assms by (cases s) auto
    ultimately show False using assms by (auto simp: trimmed_def)
  qed
  then show thesis using that [OF e] sp by simp
qed

lemma trimmed_py_strip: "trimmed (py_strip s)"
  unfolding trimmed_def
proof
  let ?u = "py_lstrip s"
  assume ne: "py_strip s \<noteq> []"
  then have "?u \<noteq> []" by (auto simp: py_strip_def py_rstrip_def)
  then have "\<not> py_isspace (hd ?u)" unfolding py_lstrip_def by (rule hd_dropWhile)
  moreover have "hd (py_strip s) = hd ?u"
    using ne unfolding py_strip_def rstrip_take by (auto simp: hd_take)
  moreover have "\<not> py_isspace (last (py_strip s))"
    using ne unfolding py_strip_def by (rule last_py_rstrip)
  ultimately show "\<not> py_isspace (hd (py_strip s)) \<and> \<not> py_isspace (last (py_strip s))" by simp
qed

lemma py_strip_trimmed: "trimmed s \<Longrightarrow> py_strip s = s"
  using rstrip_trimmed_end [of s] dropWhile_eq_self_iff [of py_isspace s]
  by (cases "s = []") (simp_all add: py_strip_def py_lstrip_def py_rstrip_def trimmed_def)

lemma py_strip_idem [simp]: "py_strip (py_strip s) = py_strip s"
  by (simp add: py_strip_trimmed trimmed_py_strip)

section \<open>Computations with state and exceptions\<close>

text \<open>
  A Python method body is a function from the state to its result, or the exception it
  raises, and the state it leaves; what was written before an exception stays written.
\<close>

type_synonym ('s, 'a) eff = "'s \<Rightarrow> 'a result \<times> 's"

definition ret :: "'a \<Rightarrow> ('s, 'a) eff" where
  "ret a = (\<lambda>s. (Inr a, s))"

definition throw :: "exn \<Rightarrow> ('s, 'a) eff" where
  "throw e = (\<lambda>s. (Inl e, s))"

definition bind_eff :: "('s, 'a) eff \<Rightarrow> ('a \<Rightarrow> ('s, 'b) eff) \<Rightarrow> ('s, 'b) eff" where
  "bind_eff m f = (\<lambda>s. case m s of (Inl e, s') \<Rightarrow> (Inl e, s') | (Inr a, s') \<Rightarrow> f a s')"

definition then_eff :: "('s, 'a) eff \<Rightarrow> ('s, 'b) eff \<Rightarrow> ('s, 'b) eff" where
  "then_eff m n = bind_eff m (\<lambda>_. n)"

definition gets_eff :: "('s \<Rightarrow> 'a) \<Rightarrow> ('s, 'a) eff" where
  "gets_eff f = (\<lambda>s. (Inr (f s), s))"

definition modify_eff :: "('s \<Rightarrow> 's) \<Rightarrow> ('s, unit) eff" where
  "modify_eff f = (\<lambda>s. (Inr (), f s))"

definition lift_eff :: "'a result \<Rightarrow> ('s, 'a) eff" where
  "lift_eff r = (\<lambda>s. (r, s))"

definition with_state :: "('s \<Rightarrow> ('s, 'a) eff) \<Rightarrow> ('s, 'a) eff" where
  "with_state f = (\<lambda>s. f s s)"

text \<open>\<open>try: m finally: cleanup\<close>, for a cleanup that does not raise.\<close>

definition finally_eff :: "('s, 'a) eff \<Rightarrow> ('s \<Rightarrow> 's) \<Rightarrow> ('s, 'a) eff" where
  "finally_eff m cleanup = (\<lambda>s. case m s of (r, s') \<Rightarrow> (r, cleanup s'))"

lemmas eff_defs = ret_def throw_def bind_eff_def then_eff_def gets_eff_def modify_eff_def
  lift_eff_def with_state_def finally_eff_def

text \<open>
  An invariant and a transitive relation between earlier and later states: the shape of
  every safety argument about the stateful components. \<open>safe s m Q\<close> says that running
  \<open>m\<close> in \<open>s\<close> keeps the invariant and only moves forward, whether it returns or raises,
  and that a returned value satisfies \<open>Q\<close>. It composes along the computations above.
\<close>

locale forward_invariant =
  fixes inv :: "'s \<Rightarrow> bool"
    and le :: "'s \<Rightarrow> 's \<Rightarrow> bool"
  assumes le_refl: "le s s"
    and le_trans: "le s t \<Longrightarrow> le t u \<Longrightarrow> le s u"
begin

definition safe :: "'s \<Rightarrow> ('s, 'a) eff \<Rightarrow> ('a \<Rightarrow> 's \<Rightarrow> bool) \<Rightarrow> bool" where
  "safe s m Q \<longleftrightarrow> inv (snd (m s)) \<and> le s (snd (m s)) \<and> (\<forall>a. fst (m s) = Inr a \<longrightarrow> Q a (snd (m s)))"

lemma safeI:
  assumes "m s = (r, s')" and "inv s'" and "le s s'" and "\<And>a. r = Inr a \<Longrightarrow> Q a s'"
  shows "safe s m Q"
  using assms by (simp add: safe_def)

lemma safeD:
  assumes "safe s m Q" and "m s = (r, s')"
  shows "inv s'" and "le s s'" and "r = Inr a \<Longrightarrow> Q a s'"
  using assms by (auto simp: safe_def)

lemma safe_ret: "inv s \<Longrightarrow> Q a s \<Longrightarrow> safe s (ret a) Q"
  by (simp add: safe_def ret_def le_refl)

lemma safe_throw: "inv s \<Longrightarrow> safe s (throw e) Q"
  by (simp add: safe_def throw_def le_refl)

lemma safe_lift: "inv s \<Longrightarrow> (\<And>a. r = Inr a \<Longrightarrow> Q a s) \<Longrightarrow> safe s (lift_eff r) Q"
  by (simp add: safe_def lift_eff_def le_refl)

lemma safe_gets: "inv s \<Longrightarrow> Q (f s) s \<Longrightarrow> safe s (gets_eff f) Q"
  by (simp add: safe_def gets_eff_def le_refl)

lemma safe_modify: "inv (f s) \<Longrightarrow> le s (f s) \<Longrightarrow> Q () (f s) \<Longrightarrow> safe s (modify_eff f) Q"
  by (simp add: safe_def modify_eff_def)

lemma safe_with: "safe s (f s) Q \<Longrightarrow> safe s (with_state f) Q"
  by (simp add: safe_def with_state_def)

lemma safe_bind:
  assumes "safe s m P" and "\<And>a s'. inv s' \<Longrightarrow> le s s' \<Longrightarrow> P a s' \<Longrightarrow> safe s' (f a) Q"
  shows "safe s (bind_eff m f) Q"
proof (cases "m s")
  case (Pair r s')
  note m = safeD [OF assms(1) Pair]
  show ?thesis
  proof (cases r)
    case (Inl e)
    with m Pair show ?thesis by (simp add: safe_def bind_eff_def)
  next
    case (Inr a)
    with assms(2) [OF m(1,2) m(3)] m(2) Pair show ?thesis
      by (auto simp: safe_def bind_eff_def intro: le_trans)
  qed
qed

lemma safe_then:
  assumes "safe s m P" and "\<And>a s'. inv s' \<Longrightarrow> le s s' \<Longrightarrow> P a s' \<Longrightarrow> safe s' n Q"
  shows "safe s (then_eff m n) Q"
  unfolding then_eff_def using assms by (rule safe_bind)

lemma safe_if:
  assumes "c \<Longrightarrow> safe s m Q" and "\<not> c \<Longrightarrow> safe s n Q"
  shows "safe s (if c then m else n) Q"
  using assms by simp

lemma safe_weaken:
  assumes "safe s m P" and "\<And>a s'. inv s' \<Longrightarrow> le s s' \<Longrightarrow> P a s' \<Longrightarrow> Q a s'"
  shows "safe s m Q"
  using assms by (auto simp: safe_def)

end

end
