(* ===== verification/Contracts.thy ===== *)
theory Contracts
  imports Prelude
begin

text \<open>
  The data contracts shared by all parts (packages/contracts): the enumerations, the
  session, turn and message models with the validators pydantic runs on construction, the
  language-model, speech and tool port types. A \<open>check_...\<close> function is the constructor's
  validation: it returns the value unchanged or raises \<open>ValidationError\<close>.
\<close>

section \<open>enums.py\<close>

datatype session_status = SS_INITIALIZING | SS_ACTIVE | SS_COMPLETED | SS_FAILED | SS_TERMINATED

datatype turn_status = TS_IN_PROGRESS | TS_COMMITTED | TS_CANCELLED | TS_FAILED

datatype message_status = MS_COMMITTED | MS_INTERRUPTED

datatype message_role = MR_USER | MR_ASSISTANT | MR_SYSTEM | MR_TOOL

fun message_role_value :: "message_role \<Rightarrow> string" where
  "message_role_value MR_USER = ''user''"
| "message_role_value MR_ASSISTANT = ''assistant''"
| "message_role_value MR_SYSTEM = ''system''"
| "message_role_value MR_TOOL = ''tool''"

datatype channel = CH_PLAYGROUND | CH_WEB_EMBED | CH_PUBLIC_API | CH_TELEPHONY

datatype content_part_type = CP_TEXT | CP_AUDIO_REF | CP_IMAGE | CP_FILE | CP_VIDEO

datatype event_type =
    ET_AUDIO_FRAME
  | ET_USER_SPEECH_STARTED
  | ET_USER_SPEECH_ENDED
  | ET_TRANSCRIPT_FRAME
  | ET_LLM_TOKEN
  | ET_LLM_RESPONSE
  | ET_TTS_CHUNK
  | ET_AGENT_INTERRUPTED
  | ET_ERROR
  | ET_SESSION_STARTED
  | ET_SESSION_ENDED

datatype event_source =
  SRC_VAD | SRC_STT | SRC_RUNTIME | SRC_LLM | SRC_TTS | SRC_TOOL | SRC_WORKFLOW | SRC_TRANSPORT | SRC_SYSTEM

datatype usage_unit = UU_TOKENS | UU_CHARACTERS | UU_SECONDS | UU_BYTES

datatype interrupt_reason = IR_USER_SPEECH

datatype session_end_reason =
    SE_USER_STOP
  | SE_MAX_DURATION
  | SE_MAX_TURNS
  | SE_DISCONNECT
  | SE_PROVIDER_FAILED
  | SE_WORKER_DRAINING
  | SE_ERROR

section \<open>content.py, usage.py\<close>

type_synonym json_dict = "(string \<times> json) list"

record content_part =
  cp_type :: content_part_type
  cp_payload :: json_dict
  cp_metadata :: json_dict

record usage =
  us_input_units :: int
  us_output_units :: int
  us_unit :: usage_unit
  us_estimated_cost_usd :: "rat option"

definition check_usage :: "usage \<Rightarrow> usage result" where
  "check_usage u =
     (if us_input_units u < 0 then Inl (ValidationError ''input_units'')
      else if us_output_units u < 0 then Inl (ValidationError ''output_units'')
      else case us_estimated_cost_usd u of
             None \<Rightarrow> Inr u
           | Some c \<Rightarrow> if c < 0 then Inl (ValidationError ''estimated_cost_usd'') else Inr u)"

section \<open>session.py\<close>

definition max_len_ok :: "nat \<Rightarrow> string option \<Rightarrow> bool" where
  "max_len_ok n x = (case x of None \<Rightarrow> True | Some s \<Rightarrow> length s \<le> n)"

definition config_hash_ok :: "string \<Rightarrow> bool" where
  "config_hash_ok h \<longleftrightarrow> length h = 64 \<and> list_all (\<lambda>c. c \<in> set ''0123456789abcdef'') h"

record session =
  ss_id :: uuid
  ss_organization_id :: uuid
  ss_project_id :: uuid
  ss_agent_id :: uuid
  ss_agent_version_id :: uuid
  ss_deployment_id :: "uuid option"
  ss_status :: session_status
  ss_channel :: channel
  ss_livekit_room :: "string option"
  ss_config_hash :: string
  ss_started_at :: time
  ss_ended_at :: "time option"
  ss_end_reason :: "session_end_reason option"
  ss_usage :: "usage option"
  ss_error_code :: "string option"

definition session_terminal :: "session_status \<Rightarrow> bool" where
  "session_terminal st \<longleftrightarrow> st \<in> {SS_COMPLETED, SS_FAILED, SS_TERMINATED}"

definition terminal_fields_match_status :: "session \<Rightarrow> session result" where
  "terminal_fields_match_status s =
     (if session_terminal (ss_status s) \<and> ss_ended_at s = None
      then Inl (ValidationError ''terminal session requires ended_at'')
      else if \<not> session_terminal (ss_status s) \<and> ss_ended_at s \<noteq> None
      then Inl (ValidationError ''non-terminal session must not set ended_at'')
      else if ss_status s \<noteq> SS_FAILED \<and> ss_error_code s \<noteq> None
      then Inl (ValidationError ''error_code is only valid when status is failed'')
      else if ss_status s = SS_FAILED \<and> ss_error_code s = None
      then Inl (ValidationError ''failed session requires error_code'')
      else Inr s)"

definition check_session :: "session \<Rightarrow> session result" where
  "check_session s =
     (if \<not> max_len_ok 256 (ss_livekit_room s) then Inl (ValidationError ''livekit_room'')
      else if \<not> config_hash_ok (ss_config_hash s)
      then Inl (ValidationError ''config_hash must be a lowercase SHA-256 hex digest'')
      else if \<not> max_len_ok 128 (ss_error_code s) then Inl (ValidationError ''error_code'')
      else terminal_fields_match_status s)"

record turn =
  tn_id :: uuid
  tn_session_id :: uuid
  tn_organization_id :: uuid
  tn_sequence :: int
  tn_status :: turn_status
  tn_started_at :: time
  tn_ended_at :: "time option"
  tn_interrupted :: bool

definition check_turn :: "turn \<Rightarrow> turn result" where
  "check_turn t =
     (if tn_sequence t < 1 then Inl (ValidationError ''sequence'')
      else if tn_interrupted t \<and> tn_status t \<noteq> TS_CANCELLED
      then Inl (ValidationError ''interrupted turns must have status cancelled'')
      else if tn_status t \<in> {TS_COMMITTED, TS_CANCELLED, TS_FAILED} \<and> tn_ended_at t = None
      then Inl (ValidationError ''finished turn requires ended_at'')
      else Inr t)"

record message =
  ms_id :: uuid
  ms_session_id :: uuid
  ms_turn_id :: uuid
  ms_organization_id :: uuid
  ms_role :: message_role
  ms_status :: message_status
  ms_parts :: "content_part list"
  ms_created_at :: time
  ms_metadata :: json_dict

definition check_message :: "message \<Rightarrow> message result" where
  "check_message m =
     (if length (ms_parts m) < 1
      then Inl (ValidationError ''message requires at least one content part'') else Inr m)"

section \<open>summary.py\<close>

record conversation_summary =
  su_id :: uuid
  su_session_id :: uuid
  su_organization_id :: uuid
  su_agent_version_id :: uuid
  su_through_sequence :: int
  su_summary_text :: string
  su_source_message_count :: int
  su_created_at :: time

definition check_summary :: "conversation_summary \<Rightarrow> conversation_summary result" where
  "check_summary s =
     (if su_through_sequence s < 0 then Inl (ValidationError ''through_sequence'')
      else if su_summary_text s = [] \<or> 32000 < length (su_summary_text s)
      then Inl (ValidationError ''summary_text'')
      else if su_source_message_count s < 0 then Inl (ValidationError ''source_message_count'')
      else Inr s)"

section \<open>llm.py\<close>

datatype llm_role = LR_SYSTEM | LR_USER | LR_ASSISTANT | LR_TOOL

fun llm_role_value :: "llm_role \<Rightarrow> string" where
  "llm_role_value LR_SYSTEM = ''system''"
| "llm_role_value LR_USER = ''user''"
| "llm_role_value LR_ASSISTANT = ''assistant''"
| "llm_role_value LR_TOOL = ''tool''"

record llm_tool_call =
  tc_id :: string
  tc_name :: string
  tc_arguments :: string

definition check_llm_tool_call :: "llm_tool_call \<Rightarrow> llm_tool_call result" where
  "check_llm_tool_call c =
     (if tc_id c = [] \<or> 128 < length (tc_id c) then Inl (ValidationError ''id'')
      else if tc_name c = [] \<or> 128 < length (tc_name c) then Inl (ValidationError ''name'')
      else if 16000 < length (tc_arguments c) then Inl (ValidationError ''arguments'')
      else Inr c)"

record llm_message =
  lm_role :: llm_role
  lm_content :: string
  lm_tool_call_id :: "string option"
  lm_tool_calls :: "llm_tool_call list"

definition check_llm_message :: "llm_message \<Rightarrow> llm_message result" where
  "check_llm_message m =
     (if 32000 < length (lm_content m) then Inl (ValidationError ''content'') else Inr m)"

definition llm_text_message :: "llm_role \<Rightarrow> string \<Rightarrow> llm_message" where
  "llm_text_message r t = \<lparr>lm_role = r, lm_content = t, lm_tool_call_id = None, lm_tool_calls = []\<rparr>"

record llm_tool_definition =
  td_name :: string
  td_description :: string
  td_parameters :: json_dict

definition check_llm_tool_definition :: "llm_tool_definition \<Rightarrow> llm_tool_definition result" where
  "check_llm_tool_definition d =
     (if td_name d = [] \<or> 128 < length (td_name d) then Inl (ValidationError ''name'')
      else if 4000 < length (td_description d) then Inl (ValidationError ''description'')
      else Inr d)"

record llm_request =
  rq_provider_key :: string
  rq_model :: string
  rq_messages :: "llm_message list"
  rq_system :: string
  rq_params :: json_dict
  rq_tools :: "llm_tool_definition list"
  rq_temperature :: "pyfloat option"
  rq_max_output_tokens :: "int option"
  rq_top_p :: "pyfloat option"

text \<open>\<open>Field(ge=lo, le=hi)\<close> on a float; no comparison with NaN holds.\<close>

fun float_within :: "rat \<Rightarrow> rat \<Rightarrow> pyfloat \<Rightarrow> bool" where
  "float_within lo hi (Fin x) = (lo \<le> x \<and> x \<le> hi)"
| "float_within lo hi _ = False"

definition check_llm_request :: "llm_request \<Rightarrow> llm_request result" where
  "check_llm_request r =
     (if rq_provider_key r = [] \<or> 64 < length (rq_provider_key r)
      then Inl (ValidationError ''provider_key'')
      else if rq_model r = [] \<or> 256 < length (rq_model r) then Inl (ValidationError ''model'')
      else if 32000 < length (rq_system r) then Inl (ValidationError ''system'')
      else if (case rq_temperature r of None \<Rightarrow> False | Some t \<Rightarrow> \<not> float_within 0 2 t)
      then Inl (ValidationError ''temperature'')
      else if (case rq_max_output_tokens r of None \<Rightarrow> False | Some n \<Rightarrow> n < 1)
      then Inl (ValidationError ''max_output_tokens'')
      else if (case rq_top_p r of None \<Rightarrow> False | Some p \<Rightarrow> \<not> float_within 0 1 p)
      then Inl (ValidationError ''top_p'')
      else Inr r)"

record llm_stream_chunk =
  lc_delta :: string
  lc_finish_reason :: "string option"
  lc_tool_calls :: "llm_tool_call list"

section \<open>stt.py, tts.py\<close>

record stt_audio_frame =
  af_data :: "nat list"
  af_sample_rate_hz :: int
  af_channels :: int
  af_duration_ms :: int

definition check_stt_audio_frame :: "stt_audio_frame \<Rightarrow> stt_audio_frame result" where
  "check_stt_audio_frame f =
     (if 65536 < length (af_data f) then Inl (ValidationError ''data'')
      else if af_sample_rate_hz f < 8000 \<or> 48000 < af_sample_rate_hz f
      then Inl (ValidationError ''sample_rate_hz'')
      else if af_channels f < 1 \<or> 2 < af_channels f then Inl (ValidationError ''channels'')
      else if af_duration_ms f < 0 then Inl (ValidationError ''duration_ms'')
      else Inr f)"

record stt_request =
  sq_provider_key :: string
  sq_model :: string
  sq_language :: string
  sq_params :: json_dict

definition check_stt_request :: "stt_request \<Rightarrow> stt_request result" where
  "check_stt_request r =
     (if sq_provider_key r = [] \<or> 64 < length (sq_provider_key r)
      then Inl (ValidationError ''provider_key'')
      else if sq_model r = [] \<or> 256 < length (sq_model r) then Inl (ValidationError ''model'')
      else if 32 < length (sq_language r) then Inl (ValidationError ''language'')
      else Inr r)"

record stt_transcript_chunk =
  sc_text :: string
  sc_is_final :: bool
  sc_start_ms :: int
  sc_end_ms :: int
  sc_confidence :: "rat option"

record tts_text_range =
  tr_start :: int
  tr_end :: int

record tts_request =
  tq_provider_key :: string
  tq_voice_ref :: string
  tq_text :: string
  tq_params :: json_dict

definition check_tts_request :: "tts_request \<Rightarrow> tts_request result" where
  "check_tts_request r =
     (if tq_provider_key r = [] \<or> 64 < length (tq_provider_key r)
      then Inl (ValidationError ''provider_key'')
      else if tq_voice_ref r = [] \<or> 256 < length (tq_voice_ref r)
      then Inl (ValidationError ''voice_ref'')
      else if tq_text r = [] \<or> 32000 < length (tq_text r) then Inl (ValidationError ''text'')
      else Inr r)"

record tts_stream_chunk =
  tk_audio_ref :: string
  tk_index :: int
  tk_is_final :: bool
  tk_text_range :: "tts_text_range option"

section \<open>tools.py\<close>

datatype tool_error_code =
  TE_TOOL_NOT_FOUND | TE_INVALID_ARGUMENTS | TE_VALIDATION_FAILED | TE_EXECUTION_FAILED | TE_CANCELLED

record tool_result =
  res_tool_call_id :: string
  res_tool_name :: string
  res_success :: bool
  res_output :: string
  res_result :: "json option"
  res_error :: "string option"
  res_error_code :: "tool_error_code option"

definition check_tool_result :: "tool_result \<Rightarrow> tool_result result" where
  "check_tool_result r =
     (if res_tool_call_id r = [] \<or> 128 < length (res_tool_call_id r)
      then Inl (ValidationError ''tool_call_id'')
      else if res_tool_name r = [] \<or> 128 < length (res_tool_name r)
      then Inl (ValidationError ''tool_name'')
      else if 32000 < length (res_output r) then Inl (ValidationError ''output'')
      else if \<not> max_len_ok 4000 (res_error r) then Inl (ValidationError ''error'')
      else Inr r)"

definition success_result :: "string \<Rightarrow> string \<Rightarrow> string \<Rightarrow> json option \<Rightarrow> tool_result result" where
  "success_result call_id name output result =
     check_tool_result \<lparr>res_tool_call_id = call_id, res_tool_name = name, res_success = True,
       res_output = output, res_result = result, res_error = None, res_error_code = None\<rparr>"

definition failure_result ::
  "string \<Rightarrow> string \<Rightarrow> string \<Rightarrow> tool_error_code \<Rightarrow> string option \<Rightarrow> tool_result result" where
  "failure_result call_id name err code output =
     check_tool_result \<lparr>res_tool_call_id = call_id, res_tool_name = name, res_success = False,
       res_output = (case output of Some s \<Rightarrow> s | None \<Rightarrow> ''Error: '' @ err),
       res_result = None, res_error = Some err, res_error_code = Some code\<rparr>"

section \<open>Facts about the contract constructors\<close>

lemma check_session_Inr:
  assumes "check_session s = Inr s'"
  shows "s' = s" and "session_terminal (ss_status s) \<longleftrightarrow> ss_ended_at s \<noteq> None"
    and "ss_status s = SS_FAILED \<longleftrightarrow> ss_error_code s \<noteq> None"
    and "config_hash_ok (ss_config_hash s)"
  using assms by (auto simp: check_session_def terminal_fields_match_status_def split: if_splits)

lemma check_turn_Inr:
  "check_turn t = Inr t' \<longleftrightarrow>
     t' = t \<and> 1 \<le> tn_sequence t \<and> (tn_interrupted t \<longrightarrow> tn_status t = TS_CANCELLED) \<and>
     (tn_status t \<noteq> TS_IN_PROGRESS \<longrightarrow> tn_ended_at t \<noteq> None)"
  by (cases "tn_status t") (auto simp: check_turn_def)

lemma failure_result_Inr:
  assumes "failure_result i n e c None = Inr r"
  shows "\<not> res_success r" and "res_error r = Some e" and "res_error_code r = Some c"
    and "res_output r = ''Error: '' @ e" and "res_tool_call_id r = i" and "res_tool_name r = n"
    and "length e \<le> 4000"
  using assms by (auto simp: failure_result_def check_tool_result_def max_len_ok_def split: if_splits)

lemma failure_result_ok:
  assumes "i \<noteq> []" "length i \<le> 128" "n \<noteq> []" "length n \<le> 128" "length e \<le> 4000"
  shows "\<exists>r. failure_result i n e c None = Inr r"
  using assms by (simp add: failure_result_def check_tool_result_def max_len_ok_def)

end
