(* ===== verification/Tools.thy ===== *)
theory Tools
  imports Contracts "HOL-Library.List_Lexorder" "HOL-Library.Char_ord"
begin

text \<open>
  The tool subsystem (packages/tools): tools and their registry, the agent-specific
  restriction of a catalog, the parameter-schema validator, and the execution boundary.
  Reading and printing JSON text is the standard library's and enters as the functions of
  \<open>tool_env\<close>; a handler is an arbitrary Python callable and enters as \<open>handler\<close>.
\<close>

section \<open>Tools and registries\<close>

record exec_context =
  ec_tool_call_id :: string
  ec_session_id :: "string option"

datatype kwarg = KJson json | KContext exec_context | KCancel

text \<open>
  What a handler call gives: an exception with its type name and text, or a value, sorted
  as the executor sorts it: \<open>None\<close>, a string, a JSON-like value, any other object with
  its \<open>str\<close>.
\<close>

datatype pyval = PVNone | PVStr string | PVJson json | PVOther string

datatype outcome = HRaise string string | HReturn pyval

text \<open>\<open>hd_params\<close> is \<open>None\<close> when \<open>inspect.signature\<close> raises.\<close>

record handler =
  hd_params :: "string list option"
  hd_var_keyword :: bool
  hd_run :: "(string \<times> kwarg) list \<Rightarrow> outcome"

record tool =
  tl_name :: string
  tl_description :: string
  tl_parameters :: json_dict
  tl_handler :: handler

definition create_tool :: "string \<Rightarrow> string \<Rightarrow> json_dict option \<Rightarrow> handler \<Rightarrow> tool result" where
  "create_tool name description parameters h =
     (if py_strip name = [] then Inl (ValueErrorE ''Tool name must not be empty.'')
      else if 128 < length name then Inl (ValueErrorE ''Tool name must not exceed 128 characters.'')
      else if 4000 < length description
      then Inl (ValueErrorE ''Tool description must not exceed 4000 characters.'')
      else Inr \<lparr>tl_name = py_strip name, tl_description = description,
        tl_parameters = (case parameters of Some p \<Rightarrow> p
           | None \<Rightarrow> [(''type'', JStr ''object''), (''properties'', JObj [])]),
        tl_handler = h\<rparr>)"

definition to_definition :: "tool \<Rightarrow> llm_tool_definition result" where
  "to_definition t = check_llm_tool_definition
     \<lparr>td_name = tl_name t, td_description = tl_description t, td_parameters = tl_parameters t\<rparr>"

type_synonym registry = "(string \<times> tool) list"

definition registry_get :: "string \<Rightarrow> registry \<Rightarrow> tool option" where
  "registry_get name r = map_of r name"

definition registry_has :: "string \<Rightarrow> registry \<Rightarrow> bool" where
  "registry_has name r \<longleftrightarrow> name \<in> set (map fst r)"

definition registry_register :: "tool \<Rightarrow> registry \<Rightarrow> registry result" where
  "registry_register t r =
     (if registry_has (tl_name t) r then Inl (ToolAlreadyRegistered (tl_name t))
      else Inr (r @ [(tl_name t, t)]))"

definition registry_unregister :: "string \<Rightarrow> registry \<Rightarrow> bool \<times> registry" where
  "registry_unregister name r =
     (if registry_has name r then (True, filter (\<lambda>(k, _). k \<noteq> name) r) else (False, r))"

definition list_tools :: "registry \<Rightarrow> tool list" where
  "list_tools r = map (\<lambda>n. the (map_of r n)) (sort (map fst r))"

fun definitions_of :: "tool list \<Rightarrow> llm_tool_definition list result" where
  "definitions_of [] = Inr []"
| "definitions_of (t # ts) =
     (case to_definition t of
        Inl e \<Rightarrow> Inl e
      | Inr d \<Rightarrow> map_sum id (\<lambda>ds. d # ds) (definitions_of ts))"

definition get_definitions :: "registry \<Rightarrow> llm_tool_definition list result" where
  "get_definitions r = definitions_of (list_tools r)"

record tool_binding =
  tb_tool_name :: string
  tb_enabled :: bool
  tb_params :: json_dict

fun build_agent_registry :: "registry \<Rightarrow> tool_binding list \<Rightarrow> bool \<Rightarrow> registry \<Rightarrow> registry result" where
  "build_agent_registry catalog [] strict acc = Inr acc"
| "build_agent_registry catalog (b # bs) strict acc =
     (if \<not> tb_enabled b then build_agent_registry catalog bs strict acc
      else case registry_get (tb_tool_name b) catalog of
             None \<Rightarrow> if strict then Inl (ToolNotFound (tb_tool_name b))
                     else build_agent_registry catalog bs strict acc
           | Some t \<Rightarrow>
               (case registry_register t acc of
                  Inl e \<Rightarrow> Inl e
                | Inr acc' \<Rightarrow> build_agent_registry catalog bs strict acc'))"

definition build_agent_tool_registry :: "registry \<Rightarrow> tool_binding list \<Rightarrow> bool \<Rightarrow> registry result" where
  "build_agent_tool_registry catalog bindings strict = build_agent_registry catalog bindings strict []"

section \<open>Schema validation\<close>

record tool_env =
  te_loads :: "string \<Rightarrow> string + json"
  te_dumps :: "json \<Rightarrow> string option"
  te_str :: "json \<Rightarrow> string"
  te_repr :: "json \<Rightarrow> string"

fun json_type_name :: "json \<Rightarrow> string" where
  "json_type_name JNull = ''NoneType''"
| "json_type_name (JBool _) = ''bool''"
| "json_type_name (JInt _) = ''int''"
| "json_type_name (JFloat _) = ''float''"
| "json_type_name (JStr _) = ''str''"
| "json_type_name (JList _) = ''list''"
| "json_type_name (JObj _) = ''dict''"

text \<open>Python truth value and equality of JSON values (\<open>True == 1 == 1.0\<close>).\<close>

fun json_truthy :: "json \<Rightarrow> bool" where
  "json_truthy JNull = False"
| "json_truthy (JBool b) = b"
| "json_truthy (JInt n) = (n \<noteq> 0)"
| "json_truthy (JFloat f) = (f \<noteq> Fin 0)"
| "json_truthy (JStr s) = (s \<noteq> [])"
| "json_truthy (JList xs) = (xs \<noteq> [])"
| "json_truthy (JObj d) = (d \<noteq> [])"

fun json_number :: "json \<Rightarrow> pyfloat option" where
  "json_number (JBool b) = Some (Fin (if b then 1 else 0))"
| "json_number (JInt n) = Some (Fin (of_int n))"
| "json_number (JFloat f) = Some f"
| "json_number _ = None"

fun py_eq :: "json \<Rightarrow> json \<Rightarrow> bool"
  and py_eq_list :: "json list \<Rightarrow> json list \<Rightarrow> bool"
  and py_eq_items :: "(string \<times> json) list \<Rightarrow> (string \<times> json) list \<Rightarrow> bool" where
  "py_eq JNull y = (y = JNull)"
| "py_eq (JStr s) y = (y = JStr s)"
| "py_eq (JList xs) y = (case y of JList ys \<Rightarrow> py_eq_list xs ys | _ \<Rightarrow> False)"
| "py_eq (JObj d) y = (case y of JObj e \<Rightarrow> length d = length e \<and> py_eq_items d e | _ \<Rightarrow> False)"
| "py_eq x y = (json_number x \<noteq> Some NaN \<and> json_number x = json_number y)"
| "py_eq_list [] ys = (ys = [])"
| "py_eq_list (x # xs) ys = (case ys of [] \<Rightarrow> False | y # ys' \<Rightarrow> py_eq x y \<and> py_eq_list xs ys')"
| "py_eq_items [] e = True"
| "py_eq_items ((k, v) # d) e =
     ((case map_of e k of None \<Rightarrow> False | Some w \<Rightarrow> py_eq v w) \<and> py_eq_items d e)"

definition py_in :: "json \<Rightarrow> json list \<Rightarrow> bool" where
  "py_in v xs \<longleftrightarrow> list_ex (\<lambda>x. py_eq v x) xs"

definition type_check :: "string \<Rightarrow> json \<Rightarrow> bool" where
  "type_check t v =
     (if t = ''string'' then (case v of JStr _ \<Rightarrow> True | _ \<Rightarrow> False)
      else if t = ''integer'' then (case v of JInt _ \<Rightarrow> True | _ \<Rightarrow> False)
      else if t = ''number'' then (case v of JInt _ \<Rightarrow> True | JFloat _ \<Rightarrow> True | _ \<Rightarrow> False)
      else if t = ''boolean'' then (case v of JBool _ \<Rightarrow> True | _ \<Rightarrow> False)
      else if t = ''array'' then (case v of JList _ \<Rightarrow> True | _ \<Rightarrow> False)
      else if t = ''object'' then (case v of JObj _ \<Rightarrow> True | _ \<Rightarrow> False)
      else if t = ''null'' then v = JNull
      else True)"

text \<open>
  \<open>_matches_type\<close>: a dict as a declared type is unhashable, so the table lookup raises;
  \<open>any\<close> stops at the first match.
\<close>

fun matches_type :: "json \<Rightarrow> json \<Rightarrow> bool result"
  and matches_any :: "json \<Rightarrow> json list \<Rightarrow> bool result" where
  "matches_type v (JList ts) = matches_any v ts"
| "matches_type v (JStr t) = Inr (type_check t v)"
| "matches_type v (JObj d) = Inl (TypeErrorE ''unhashable type: dict'')"
| "matches_type v t = Inr True"
| "matches_any v [] = Inr False"
| "matches_any v (t # ts) =
     (case matches_type v t of Inl e \<Rightarrow> Inl e | Inr b \<Rightarrow> if b then Inr True else matches_any v ts)"

fun join_types :: "json list \<Rightarrow> string list result" where
  "join_types [] = Inr []"
| "join_types (JStr t # ts) = map_sum id (\<lambda>r. t # r) (join_types ts)"
| "join_types (t # ts) = Inl (TypeErrorE ''sequence item: expected str instance'')"

fun check_required :: "tool_env \<Rightarrow> json_dict \<Rightarrow> json list \<Rightarrow> unit result" where
  "check_required env args [] = Inr ()"
| "check_required env args (r # rs) =
     (case r of
        JStr name \<Rightarrow>
          if name \<in> set (map fst args) then check_required env args rs
          else Inl (ToolArgumentValidation (''Missing required argument '' @ quoted name @ ''.''))
      | JList _ \<Rightarrow> Inl (TypeErrorE ''unhashable type: list'')
      | JObj _ \<Rightarrow> Inl (TypeErrorE ''unhashable type: dict'')
      | v \<Rightarrow> Inl (ToolArgumentValidation (''Missing required argument '' @ quoted (te_str env v) @ ''.'')))"

definition check_property :: "tool_env \<Rightarrow> string \<Rightarrow> json \<Rightarrow> json_dict \<Rightarrow> unit result" where
  "check_property env key v spec =
     (let prop_type = (case map_of spec ''type'' of None \<Rightarrow> JNull | Some t \<Rightarrow> t);
          enum_check =
            (case map_of spec ''enum'' of
               Some (JList vs) \<Rightarrow>
                 if py_in v vs then Inr ()
                 else Inl (ToolArgumentValidation (''Argument '' @ quoted key @ '' with value '' @
                    te_repr env v @ '' is not one of allowed enum values: '' @ te_repr env (JList vs) @ ''.''))
             | _ \<Rightarrow> Inr ())
      in if \<not> json_truthy prop_type then enum_check
         else case matches_type v prop_type of
                Inl e \<Rightarrow> Inl e
              | Inr True \<Rightarrow> enum_check
              | Inr False \<Rightarrow>
                  (case (case prop_type of
                           JList ts \<Rightarrow> map_sum id (py_join ''/'') (join_types ts)
                         | t \<Rightarrow> Inr (te_str env t)) of
                     Inl e \<Rightarrow> Inl e
                   | Inr type_str \<Rightarrow>
                       Inl (ToolArgumentValidation (''Argument '' @ quoted key @ '' expected type '' @
                         quoted type_str @ '', got '' @ quoted (json_type_name v) @ ''.''))))"

fun check_items :: "tool_env \<Rightarrow> json_dict \<Rightarrow> bool \<Rightarrow> json_dict \<Rightarrow> unit result" where
  "check_items env props no_extra [] = Inr ()"
| "check_items env props no_extra ((key, v) # rest) =
     (case (case map_of props key of
              Some (JObj spec) \<Rightarrow> check_property env key v spec
            | Some _ \<Rightarrow> Inr ()
            | None \<Rightarrow> if no_extra
                then Inl (ToolArgumentValidation (''Unexpected argument '' @ quoted key @ '' is not permitted by parameter schema.''))
                else Inr ()) of
        Inl e \<Rightarrow> Inl e
      | Inr _ \<Rightarrow> check_items env props no_extra rest)"

definition schema_properties :: "json_dict \<Rightarrow> json_dict" where
  "schema_properties schema = (case map_of schema ''properties'' of Some (JObj p) \<Rightarrow> p | _ \<Rightarrow> [])"

definition schema_required :: "json_dict \<Rightarrow> json list" where
  "schema_required schema = (case map_of schema ''required'' of Some (JList rs) \<Rightarrow> rs | _ \<Rightarrow> [])"

definition schema_closed :: "json_dict \<Rightarrow> bool" where
  "schema_closed schema \<longleftrightarrow> map_of schema ''additionalProperties'' = Some (JBool False)"

definition validate_tool_arguments :: "tool_env \<Rightarrow> json_dict \<Rightarrow> json_dict \<Rightarrow> unit result" where
  "validate_tool_arguments env schema args =
     (case check_required env args (schema_required schema) of
        Inl e \<Rightarrow> Inl e
      | Inr _ \<Rightarrow> check_items env (schema_properties schema) (schema_closed schema) args)"

section \<open>The executor\<close>

text \<open>
  \<open>execute\<close> awaits only the handler. \<open>execute_begin\<close> is the segment before it: either a
  finished result or the call to make. \<open>cancel\<close> is \<open>None\<close> when no token was passed.
\<close>

datatype exec_step = ExecDone tool_result | ExecInvoke tool "(string \<times> kwarg) list"

definition exec_fail :: "llm_tool_call \<Rightarrow> string \<Rightarrow> tool_error_code \<Rightarrow> exec_step result" where
  "exec_fail call err code =
     map_sum id ExecDone (failure_result (tc_id call) (tc_name call) err code None)"

definition parse_arguments :: "tool_env \<Rightarrow> string \<Rightarrow> string + json_dict" where
  "parse_arguments env raw =
     (let s = py_strip raw in
      if s = [] then Inr []
      else case te_loads env s of
             Inl msg \<Rightarrow> Inl (''Malformed JSON arguments: '' @ msg)
           | Inr (JObj d) \<Rightarrow> Inr d
           | Inr v \<Rightarrow> Inl (''Tool arguments must be a JSON object, got '' @ json_type_name v @ ''.''))"

definition invocation_kwargs ::
  "handler \<Rightarrow> exec_context option \<Rightarrow> bool \<Rightarrow> json_dict \<Rightarrow> (string \<times> kwarg) list" where
  "invocation_kwargs h ctx has_cancel args =
     (let kw = map (\<lambda>(k, v). (k, KJson v)) args in
      case hd_params h of
        None \<Rightarrow> kw
      | Some ps \<Rightarrow>
          let kw1 = (case ctx of
                Some c \<Rightarrow> if (''context'' \<in> set ps \<or> hd_var_keyword h) \<and> ''context'' \<notin> set (map fst kw)
                           then kw @ [(''context'', KContext c)] else kw
              | None \<Rightarrow> kw)
          in if has_cancel \<and> (''cancel'' \<in> set ps \<or> hd_var_keyword h) \<and> ''cancel'' \<notin> set (map fst kw1)
             then kw1 @ [(''cancel'', KCancel)] else kw1)"

definition execute_begin ::
  "tool_env \<Rightarrow> registry \<Rightarrow> llm_tool_call \<Rightarrow> exec_context option \<Rightarrow> bool option \<Rightarrow> exec_step result" where
  "execute_begin env reg call ctx cancel =
     (if cancel = Some True then exec_fail call ''Tool execution was cancelled before start.'' TE_CANCELLED
      else case registry_get (tc_name call) reg of
        None \<Rightarrow> exec_fail call (''Tool '' @ quoted (tc_name call) @ '' is not registered.'') TE_TOOL_NOT_FOUND
      | Some t \<Rightarrow>
     (case parse_arguments env (tc_arguments call) of
        Inl msg \<Rightarrow> exec_fail call msg TE_INVALID_ARGUMENTS
      | Inr args \<Rightarrow>
     (case validate_tool_arguments env (tl_parameters t) args of
        Inl (ToolArgumentValidation msg) \<Rightarrow> exec_fail call msg TE_VALIDATION_FAILED
      | Inl e \<Rightarrow> Inl e
      | Inr _ \<Rightarrow> Inr (ExecInvoke t (invocation_kwargs (tl_handler t) ctx (cancel \<noteq> None) args)))))"

text \<open>The segment after the handler, with the token's state at that moment.\<close>

definition execute_end :: "tool_env \<Rightarrow> llm_tool_call \<Rightarrow> outcome \<Rightarrow> bool option \<Rightarrow> tool_result result" where
  "execute_end env call out cancel =
     (case out of
        HRaise ty msg \<Rightarrow>
          failure_result (tc_id call) (tc_name call) (ty @ '': '' @ msg) TE_EXECUTION_FAILED None
      | HReturn raw \<Rightarrow>
          if cancel = Some True
          then failure_result (tc_id call) (tc_name call) ''Tool execution was cancelled.'' TE_CANCELLED None
          else let (text, structured) =
                 (case raw of
                    PVNone \<Rightarrow> ('''', None)
                  | PVStr s \<Rightarrow> (s, None)
                  | PVJson j \<Rightarrow> (case te_dumps env j of Some s \<Rightarrow> (s, Some j) | None \<Rightarrow> (te_str env j, None))
                  | PVOther s \<Rightarrow> (s, None))
               in success_result (tc_id call) (tc_name call) text structured)"

definition execute ::
  "tool_env \<Rightarrow> registry \<Rightarrow> llm_tool_call \<Rightarrow> exec_context option \<Rightarrow> (bool \<times> bool) option \<Rightarrow> tool_result result" where
  "execute env reg call ctx cancel =
     (case execute_begin env reg call ctx (map_option fst cancel) of
        Inl e \<Rightarrow> Inl e
      | Inr (ExecDone r) \<Rightarrow> Inr r
      | Inr (ExecInvoke t kw) \<Rightarrow>
          execute_end env call (hd_run (tl_handler t) kw) (map_option snd cancel))"

section \<open>Registry invariant and lookups\<close>

definition registry_ok :: "registry \<Rightarrow> bool" where
  "registry_ok r \<longleftrightarrow> distinct (map fst r) \<and> (\<forall>(k, t) \<in> set r. tl_name t = k)"

lemma registry_ok_Nil [simp]: "registry_ok []"
  by (simp add: registry_ok_def)

lemma registry_register_Inr:
  assumes "registry_register t r = Inr r'"
  shows "r' = r @ [(tl_name t, t)]" and "registry_get (tl_name t) r = None"
    and "registry_ok r \<Longrightarrow> registry_ok r'"
  using assms
  by (auto simp: registry_register_def registry_has_def registry_get_def registry_ok_def
      map_of_eq_None_iff split: if_splits)

lemma registry_get_register:
  assumes "registry_register t r = Inr r'"
  shows "registry_get n r' = (if n = tl_name t then Some t else registry_get n r)"
  using registry_register_Inr(1,2) [OF assms]
  by (auto simp: registry_get_def map_add_def split: option.splits)

lemma registry_unregister_ok:
  assumes "registry_ok r"
  shows "registry_ok (snd (registry_unregister n r))"
    and "registry_get m (snd (registry_unregister n r)) = (if m = n then None else registry_get m r)"
proof -
  have sub: "set (map fst (filter P r)) \<subseteq> set (map fst r)" for P by auto
  have "distinct (map fst (filter P r))" for P
    using assms by (simp add: registry_ok_def distinct_map_filter)
  with assms show "registry_ok (snd (registry_unregister n r))"
    by (auto simp: registry_unregister_def registry_ok_def)
  have "map_of (filter (\<lambda>(k, _). k \<noteq> n) xs) m = (if m = n then None else map_of xs m)"
    for xs :: registry by (induction xs) auto
  then show "registry_get m (snd (registry_unregister n r)) = (if m = n then None else registry_get m r)"
    by (auto simp: registry_unregister_def registry_get_def registry_has_def map_of_eq_None_iff)
qed

lemma registry_get_name: "registry_ok r \<Longrightarrow> registry_get n r = Some t \<Longrightarrow> tl_name t = n"
  by (auto simp: registry_ok_def registry_get_def dest: map_of_SomeD)

lemma list_tools_names:
  assumes "registry_ok r"
  shows "map tl_name (list_tools r) = sort (map fst r)"
proof -
  have "tl_name (the (map_of r n)) = n" if "n \<in> set (map fst r)" for n
    using that assms by (auto simp: registry_ok_def map_of_eq_Some_iff)
  then have "map (\<lambda>n. tl_name (the (map_of r n))) (sort (map fst r)) = map id (sort (map fst r))"
    by (intro map_cong) auto
  then show ?thesis by (simp add: list_tools_def comp_def)
qed

text \<open>
  The tool definitions offered to the model are deterministic: they are listed in
  strictly increasing order of name, and two registries holding the same tools list the
  same definitions, in whatever order the tools were registered.
\<close>

theorem definitions_deterministic:
  assumes "registry_ok r" and "registry_ok r'" and "\<forall>n. registry_get n r = registry_get n r'"
  shows "get_definitions r = get_definitions r' \<and> sorted_wrt (<) (map tl_name (list_tools r))"
proof -
  have maps: "map_of r = map_of r'" using assms(3) by (auto simp: registry_get_def)
  then have "set (map fst r) = set (map fst r')"
    by (metis dom_map_of_conv_image_fst set_map)
  then have "sort (map fst r) = sort (map fst r')"
    using assms(1,2) by (intro sorted_distinct_set_unique) (auto simp: registry_ok_def)
  then have "list_tools r = list_tools r'" by (simp add: list_tools_def maps)
  moreover have "sorted_wrt (<) (sort (map fst r))"
    using assms(1) by (simp add: strict_sorted_iff registry_ok_def)
  ultimately show ?thesis
    unfolding list_tools_names [OF assms(1)] by (simp add: get_definitions_def)
qed

lemma create_tool_definition:
  assumes "create_tool n d p h = Inr t"
  shows "\<exists>x. to_definition t = Inr x \<and> td_name x = tl_name t"
  using assms length_py_strip [of n]
  by (auto simp: create_tool_def to_definition_def check_llm_tool_definition_def split: if_splits)

section \<open>A sample catalog\<close>

definition sample_tool :: "string \<Rightarrow> outcome \<Rightarrow> tool" where
  "sample_tool name out =
     \<lparr>tl_name = name, tl_description = ''sample'',
      tl_parameters = [(''type'', JStr ''object''),
        (''properties'', JObj [(''q'', JObj [(''type'', JStr ''string'')])]),
        (''required'', JList [JStr ''q'']), (''additionalProperties'', JBool False)],
      tl_handler = \<lparr>hd_params = Some [''q''], hd_var_keyword = False, hd_run = (\<lambda>kw. out)\<rparr>\<rparr>"

definition sample_catalog :: "outcome \<Rightarrow> registry" where
  "sample_catalog out = map (\<lambda>n. (n, sample_tool n out)) [''echo'', ''ask'']"

definition sample_env :: tool_env where
  "sample_env = \<lparr>te_loads = (\<lambda>s. if s = ''{q}'' then Inr (JObj [(''q'', JStr ''hi'')]) else Inl ''bad''),
     te_dumps = (\<lambda>j. None), te_str = (\<lambda>j. ''v''), te_repr = (\<lambda>j. ''v'')\<rparr>"

definition sample_call :: llm_tool_call where
  "sample_call = \<lparr>tc_id = ''c7'', tc_name = ''echo'', tc_arguments = ''{q}''\<rparr>"

lemma sample_catalog_ok: "registry_ok (sample_catalog out)"
  by (simp add: sample_catalog_def sample_tool_def registry_ok_def)

lemma sample_catalog_get:
  "registry_get n (sample_catalog out) =
     (if n = ''echo'' \<or> n = ''ask'' then Some (sample_tool n out) else None)"
  by (simp add: sample_catalog_def registry_get_def)

lemma sample_begin:
  "execute_begin sample_env (sample_catalog out) sample_call None None =
     Inr (ExecInvoke (sample_tool ''echo'' out) [(''q'', KJson (JStr ''hi''))])"
  by (simp add: execute_begin_def sample_catalog_get sample_call_def parse_arguments_def Let_def
      sample_env_def py_strip_def py_lstrip_def py_rstrip_def py_isspace_def sample_tool_def
      validate_tool_arguments_def schema_required_def schema_properties_def schema_closed_def
      check_property_def type_check_def invocation_kwargs_def)

lemma definitions_deterministic_witness:
  "get_definitions (sample_catalog (HReturn PVNone)) =
     get_definitions (rev (sample_catalog (HReturn PVNone))) \<and>
   sorted_wrt (<) (map tl_name (list_tools (sample_catalog (HReturn PVNone))))"
  by (rule definitions_deterministic)
    (auto simp: sample_catalog_ok registry_get_def sample_catalog_def registry_ok_def sample_tool_def)

section \<open>Restricting a catalog\<close>

lemma build_agent_registry_Inr:
  assumes "build_agent_registry cat bs strict acc = Inr r" and "registry_ok cat" and "registry_ok acc"
  shows "registry_ok r \<and>
     (\<forall>n. registry_get n r = (if registry_get n acc \<noteq> None then registry_get n acc
        else if \<exists>b \<in> set bs. tb_enabled b \<and> tb_tool_name b = n then registry_get n cat else None))"
  using assms
proof (induction bs arbitrary: acc)
  case (Cons b bs)
  show ?case
  proof (cases "tb_enabled b \<and> registry_get (tb_tool_name b) cat \<noteq> None")
    case True
    then obtain t where t: "registry_get (tb_tool_name b) cat = Some t" by auto
    with True Cons.prems obtain acc' where acc': "registry_register t acc = Inr acc'"
      "build_agent_registry cat bs strict acc' = Inr r"
      by (auto split: sum.splits)
    have name: "tl_name t = tb_tool_name b" using registry_get_name Cons.prems(2) t by blast
    have "registry_ok acc'" using registry_register_Inr(3) acc'(1) Cons.prems(3) by blast
    from Cons.IH [OF acc'(2) Cons.prems(2) this] show ?thesis
      using registry_get_register [OF acc'(1)] registry_register_Inr(2) [OF acc'(1)] t True name
      by (auto split: if_splits)
  next
    case False
    then have "build_agent_registry cat bs strict acc = Inr r"
      using Cons.prems(1) by (auto split: option.splits if_splits)
    from Cons.IH [OF this Cons.prems(2,3)] False show ?thesis by auto
  qed
qed simp

lemma build_agent_registry_strict:
  assumes "build_agent_registry cat bs True acc = Inr r" and "b \<in> set bs" and "tb_enabled b"
  shows "registry_get (tb_tool_name b) cat \<noteq> None"
  using assms by (induction bs arbitrary: acc) (auto split: option.splits sum.splits if_splits)

text \<open>
  An agent's registry holds exactly its enabled bindings that the approved catalog
  knows, with the catalog's own tools; nothing else is ever registered, and in strict mode
  every enabled binding is resolved.
\<close>

theorem agent_registry_exact:
  assumes "build_agent_tool_registry catalog bindings strict = Inr r" and "registry_ok catalog"
  shows "registry_ok r \<and>
     (\<forall>n t. registry_get n r = Some t \<longleftrightarrow>
        registry_get n catalog = Some t \<and> (\<exists>b \<in> set bindings. tb_enabled b \<and> tb_tool_name b = n)) \<and>
     (strict \<longrightarrow> (\<forall>b \<in> set bindings. tb_enabled b \<longrightarrow> registry_get (tb_tool_name b) r \<noteq> None))"
proof -
  have b: "build_agent_registry catalog bindings strict [] = Inr r"
    using assms(1) by (simp add: build_agent_tool_registry_def)
  note exact = build_agent_registry_Inr [OF b assms(2) registry_ok_Nil]
  show ?thesis
    using exact build_agent_registry_strict [of catalog bindings "[]" r] b
    by (auto simp: registry_get_def split: if_splits)
qed

lemma agent_registry_exact_witness:
  "registry_ok [(''ask'', sample_tool ''ask'' (HReturn PVNone))] \<and>
   registry_get ''echo'' [(''ask'', sample_tool ''ask'' (HReturn PVNone))] = None"
  using agent_registry_exact [of "sample_catalog (HReturn PVNone)"
    "[\<lparr>tb_tool_name = ''echo'', tb_enabled = False, tb_params = []\<rparr>,
      \<lparr>tb_tool_name = ''ask'', tb_enabled = True, tb_params = []\<rparr>]" True
    "[(''ask'', sample_tool ''ask'' (HReturn PVNone))]"]
  by (simp add: build_agent_tool_registry_def sample_catalog_get registry_register_def
      registry_has_def sample_catalog_ok) (simp add: sample_tool_def registry_get_def)

section \<open>The validator decides conformance\<close>

definition property_conforms :: "json \<Rightarrow> json_dict \<Rightarrow> bool" where
  "property_conforms v spec \<longleftrightarrow>
     (case map_of spec ''type'' of None \<Rightarrow> True
        | Some t \<Rightarrow> \<not> json_truthy t \<or> matches_type v t = Inr True) \<and>
     (case map_of spec ''enum'' of Some (JList vs) \<Rightarrow> py_in v vs | _ \<Rightarrow> True)"

definition conforms :: "json_dict \<Rightarrow> json_dict \<Rightarrow> bool" where
  "conforms schema args \<longleftrightarrow>
     (\<forall>r \<in> set (schema_required schema). \<exists>n. r = JStr n \<and> n \<in> set (map fst args)) \<and>
     (\<forall>(k, v) \<in> set args.
        case map_of (schema_properties schema) k of
          None \<Rightarrow> \<not> schema_closed schema
        | Some (JObj spec) \<Rightarrow> property_conforms v spec
        | Some _ \<Rightarrow> True)"

lemma check_required_iff:
  "check_required env args rs = Inr () \<longleftrightarrow> (\<forall>r \<in> set rs. \<exists>n. r = JStr n \<and> n \<in> set (map fst args))"
  by (induction rs) (auto split: json.splits)

lemma check_property_iff: "check_property env k v spec = Inr () \<longleftrightarrow> property_conforms v spec"
  by (auto simp: check_property_def property_conforms_def Let_def
      split: option.splits json.splits sum.splits bool.splits)

lemma check_items_iff:
  "check_items env props no_extra args = Inr () \<longleftrightarrow>
     (\<forall>(k, v) \<in> set args.
        case map_of props k of
          None \<Rightarrow> \<not> no_extra
        | Some (JObj spec) \<Rightarrow> property_conforms v spec
        | Some _ \<Rightarrow> True)"
proof (induction args)
  case (Cons kv args)
  obtain k v where kv: "kv = (k, v)" by (cases kv)
  show ?case
    unfolding kv check_items.simps seq_unit_iff Cons.IH
    using check_property_iff [of env k v] by (auto split: option.splits json.splits)
qed simp

text \<open>
  C23. The argument validator decides exactly the schema rules: it accepts a call if and
  only if every required argument is present, every declared argument has its declared type
  and, where an enumeration is given, one of its values, and undeclared arguments occur
  only where the schema does not forbid them. This holds for every schema, malformed ones
  included (those accept nothing that reaches the malformed part).
\<close>

theorem validator_decides_conformance:
  "validate_tool_arguments env schema args = Inr () \<longleftrightarrow> conforms schema args"
  unfolding validate_tool_arguments_def seq_unit_iff check_required_iff check_items_iff conforms_def ..

section \<open>The execution boundary\<close>

lemma execute_begin_Invoke:
  assumes "execute_begin env reg call ctx cancel = Inr (ExecInvoke t kw)"
  shows "cancel \<noteq> Some True" and "registry_get (tc_name call) reg = Some t"
    and "\<exists>args. parse_arguments env (tc_arguments call) = Inr args \<and>
       validate_tool_arguments env (tl_parameters t) args = Inr () \<and>
       kw = invocation_kwargs (tl_handler t) ctx (cancel \<noteq> None) args"
  using assms
  by (auto simp: execute_begin_def exec_fail_def map_sum_def
      split: if_splits option.splits sum.splits exn.splits)

lemma execute_begin_Done:
  assumes "execute_begin env reg call ctx cancel = Inr (ExecDone r)"
  shows "\<not> res_success r \<and> res_tool_call_id r = tc_id call \<and> res_tool_name r = tc_name call \<and>
    (res_error_code r = Some TE_TOOL_NOT_FOUND \<longleftrightarrow>
       cancel \<noteq> Some True \<and> registry_get (tc_name call) reg = None)"
  using assms
  by (auto simp: execute_begin_def exec_fail_def map_sum_def failure_result_def check_tool_result_def
      split: if_splits option.splits sum.splits exn.splits)

lemma invocation_kwargs_json:
  "(k, KJson v) \<in> set (invocation_kwargs h ctx hc args) \<longleftrightarrow> (k, v) \<in> set args"
  by (auto simp: invocation_kwargs_def Let_def split: option.splits if_splits)

lemma invocation_kwargs_extra:
  "(k, x) \<in> set (invocation_kwargs h ctx hc args) \<Longrightarrow> \<forall>v. x \<noteq> KJson v \<Longrightarrow>
     k = ''context'' \<and> k \<notin> set (map fst args) \<or> k = ''cancel'' \<and> hc \<and> k \<notin> set (map fst args)"
  by (auto simp: invocation_kwargs_def Let_def image_iff split: option.splits if_splits)

text \<open>
  C22. A handler runs only after every guard of the boundary has passed: the call is not
  cancelled, the tool is registered, the argument text parses to an object that conforms to
  the tool's schema, and the handler receives exactly those arguments, plus at most the
  execution context and the cancellation token under names the model did not use itself.
\<close>

theorem handler_invoked_only_conforming:
  assumes "execute_begin env reg call ctx cancel = Inr (ExecInvoke t kw)"
  shows "cancel \<noteq> Some True \<and> registry_get (tc_name call) reg = Some t \<and>
     (\<exists>args. parse_arguments env (tc_arguments call) = Inr args \<and> conforms (tl_parameters t) args \<and>
        (\<forall>k v. (k, KJson v) \<in> set kw \<longleftrightarrow> (k, v) \<in> set args) \<and>
        (\<forall>(k, x) \<in> set kw. (\<forall>v. x \<noteq> KJson v) \<longrightarrow>
           k \<in> {''context'', ''cancel''} \<and> k \<notin> set (map fst args)))"
proof -
  obtain args where args: "parse_arguments env (tc_arguments call) = Inr args"
    "validate_tool_arguments env (tl_parameters t) args = Inr ()"
    "kw = invocation_kwargs (tl_handler t) ctx (cancel \<noteq> None) args"
    using execute_begin_Invoke(3) [OF assms] by blast
  have "conforms (tl_parameters t) args"
    using args(2) unfolding validate_tool_arguments_def seq_unit_iff check_required_iff
      check_items_iff conforms_def .
  moreover have "\<forall>k v. (k, KJson v) \<in> set kw \<longleftrightarrow> (k, v) \<in> set args"
    unfolding args(3) by (simp add: invocation_kwargs_json)
  moreover have "\<forall>(k, x) \<in> set kw. (\<forall>v. x \<noteq> KJson v) \<longrightarrow>
      k \<in> {''context'', ''cancel''} \<and> k \<notin> set (map fst args)"
    unfolding args(3) using invocation_kwargs_extra by fast
  ultimately show ?thesis using args(1) execute_begin_Invoke(1,2) [OF assms] by blast
qed

lemma handler_invoked_only_conforming_witness:
  "conforms (tl_parameters (sample_tool ''echo'' (HReturn PVNone))) [(''q'', JStr ''hi'')]"
  using handler_invoked_only_conforming [OF sample_begin [of "HReturn PVNone"]]
  by (simp add: parse_arguments_def Let_def sample_call_def sample_env_def py_strip_def py_lstrip_def
      py_rstrip_def py_isspace_def)

text \<open>Schemas whose declared types are hashable: the validator raises nothing else on them.\<close>

fun type_decl_ok :: "json \<Rightarrow> bool"
  and type_decls_ok :: "json list \<Rightarrow> bool" where
  "type_decl_ok (JObj d) = False"
| "type_decl_ok (JList ts) = (type_decls_ok ts \<and> list_all (\<lambda>t. \<exists>s. t = JStr s) ts)"
| "type_decl_ok t = True"
| "type_decls_ok [] = True"
| "type_decls_ok (t # ts) = (type_decl_ok t \<and> type_decls_ok ts)"

definition schema_ok :: "json_dict \<Rightarrow> bool" where
  "schema_ok schema \<longleftrightarrow>
     (\<forall>r \<in> set (schema_required schema). \<exists>n. r = JStr n) \<and>
     (\<forall>(k, p) \<in> set (schema_properties schema). \<forall>spec t.
        p = JObj spec \<longrightarrow> map_of spec ''type'' = Some t \<longrightarrow> type_decl_ok t)"

lemma matches_type_ok:
  "type_decl_ok t \<Longrightarrow> \<exists>b. matches_type v t = Inr b"
  "type_decls_ok ts \<Longrightarrow> \<exists>b. matches_any v ts = Inr b"
  by (induction t and ts rule: type_decl_ok_type_decls_ok.induct) auto

lemma join_types_ok: "list_all (\<lambda>t. \<exists>s. t = JStr s) ts \<Longrightarrow> \<exists>r. join_types ts = Inr r"
  by (induction ts) auto

definition is_validation_error :: "exn \<Rightarrow> bool" where
  "is_validation_error e = (case e of ToolArgumentValidation _ \<Rightarrow> True | _ \<Rightarrow> False)"

lemma check_property_error:
  assumes "check_property env k v spec = Inl e"
    and "\<And>t. map_of spec ''type'' = Some t \<Longrightarrow> type_decl_ok t"
  shows "is_validation_error e"
proof (cases "map_of spec ''type''")
  case None
  with assms(1) show ?thesis
    by (auto simp: check_property_def Let_def is_validation_error_def
        split: option.splits json.splits if_splits)
next
  case (Some t)
  then have ok: "type_decl_ok t" by (rule assms(2))
  then obtain b where b: "matches_type v t = Inr b" using matches_type_ok(1) by blast
  have "\<exists>r. join_types ts = Inr r" if "t = JList ts" for ts
    using ok that join_types_ok by auto
  with Some b assms(1) show ?thesis
    by (cases t; cases b)
      (auto simp: check_property_def Let_def is_validation_error_def
        split: option.splits json.splits if_splits sum.splits)
qed

lemma check_items_error:
  assumes "check_items env props no_extra args = Inl e"
    and "\<And>k spec t. (k, JObj spec) \<in> set props \<Longrightarrow> map_of spec ''type'' = Some t \<Longrightarrow> type_decl_ok t"
  shows "is_validation_error e"
  using assms(1)
proof (induction args)
  case (Cons kv args)
  obtain k v where kv: "kv = (k, v)" by (cases kv)
  have "is_validation_error x" if "map_of props k = Some (JObj spec)" "check_property env k v spec = Inl x" for spec x
    using check_property_error [OF that(2)] assms(2) map_of_SomeD [OF that(1)] by blast
  with Cons kv show ?case
    by (auto simp: is_validation_error_def split: option.splits json.splits sum.splits if_splits)
qed simp

lemma validator_error_kind:
  assumes "schema_ok schema" and "validate_tool_arguments env schema args = Inl e"
  shows "is_validation_error e"
proof (cases "check_required env args (schema_required schema)")
  case (Inl x)
  have "is_validation_error x" if "check_required env args rs = Inl x" "\<forall>r \<in> set rs. \<exists>n. r = JStr n" for rs
    using that by (induction rs) (auto simp: is_validation_error_def split: if_splits)
  with Inl assms show ?thesis by (auto simp: validate_tool_arguments_def schema_ok_def)
next
  case (Inr u)
  with assms(2) have "check_items env (schema_properties schema) (schema_closed schema) args = Inl e"
    by (simp add: validate_tool_arguments_def)
  then show ?thesis
    by (rule check_items_error) (use assms(1) in \<open>auto simp: schema_ok_def\<close>)
qed

definition outcome_text_length :: "tool_env \<Rightarrow> outcome \<Rightarrow> nat" where
  "outcome_text_length env out =
     (case out of
        HRaise ty msg \<Rightarrow> length ty + 2 + length msg
      | HReturn PVNone \<Rightarrow> 0
      | HReturn (PVStr s) \<Rightarrow> length s
      | HReturn (PVJson j) \<Rightarrow> length (case te_dumps env j of Some s \<Rightarrow> s | None \<Rightarrow> te_str env j)
      | HReturn (PVOther s) \<Rightarrow> length s)"

lemma call_ok_nonempty:
  assumes "check_llm_tool_call c = Inr c'"
  shows "tc_id c \<noteq> []" "length (tc_id c) \<le> 128" "tc_name c \<noteq> []" "length (tc_name c) \<le> 128"
  using assms by (auto simp: check_llm_tool_call_def split: if_splits)

lemma exec_fail_Inl:
  assumes "exec_fail c err code = Inl e" and "check_llm_tool_call c = Inr c'"
  shows "4000 < length err"
  using failure_result_ok [OF call_ok_nonempty [OF assms(2)], of err code] assms(1)
  by (cases "length err \<le> 4000") (auto simp: exec_fail_def)

lemma exec_fail_not_Invoke [simp]: "exec_fail c err code \<noteq> Inr (ExecInvoke t kw)"
  by (simp add: exec_fail_def map_sum_def split: sum.splits)

lemma execute_begin_Inl:
  assumes "check_llm_tool_call call = Inr call'" and "registry_get (tc_name call) reg = Some t"
    and "execute_begin env reg call ctx cancel = Inl e"
  obtains (unparsed) m where "parse_arguments env (tc_arguments call) = Inl m" "4000 < length m"
    | (rejected) args m where "parse_arguments env (tc_arguments call) = Inr args"
        "validate_tool_arguments env (tl_parameters t) args = Inl (ToolArgumentValidation m)"
        "4000 < length m"
    | (malformed) args where "validate_tool_arguments env (tl_parameters t) args = Inl e" "\<not> is_validation_error e"
proof (cases "parse_arguments env (tc_arguments call)")
  case (Inl m)
  have "cancel \<noteq> Some True" using assms(3) exec_fail_Inl [OF _ assms(1)] by (force simp: execute_begin_def)
  with Inl assms(2,3) exec_fail_Inl [OF _ assms(1)] that(1) show thesis
    by (auto simp: execute_begin_def)
next
  case (Inr args)
  have nc: "cancel \<noteq> Some True" using assms(3) exec_fail_Inl [OF _ assms(1)] by (force simp: execute_begin_def)
  show thesis
  proof (cases "validate_tool_arguments env (tl_parameters t) args")
    case (Inl x)
    show thesis
    proof (cases "is_validation_error x")
      case True
      then obtain m where "x = ToolArgumentValidation m"
        by (auto simp: is_validation_error_def split: exn.splits)
      with Inl Inr nc assms(2,3) exec_fail_Inl [OF _ assms(1)] that(2) show thesis
        by (auto simp: execute_begin_def)
    next
      case False
      with Inl Inr nc assms(2,3) that(3) show thesis
        by (auto simp: execute_begin_def is_validation_error_def split: exn.splits)
    qed
  next
    case (Inr u)
    with \<open>parse_arguments env (tc_arguments call) = Inr args\<close> nc assms(2,3) show thesis
      by (simp add: execute_begin_def)
  qed
qed

definition normal_result :: "llm_tool_call \<Rightarrow> tool_result result \<Rightarrow> bool" where
  "normal_result call res \<longleftrightarrow>
     (case res of Inl e \<Rightarrow> False
      | Inr r \<Rightarrow> res_tool_call_id r = tc_id call \<and> res_tool_name r = tc_name call \<and>
          (res_success r \<longleftrightarrow> res_error_code r = None))"

lemma failure_normal:
  assumes "check_llm_tool_call call = Inr c'" and "length e \<le> 4000"
  shows "normal_result call (failure_result (tc_id call) (tc_name call) e c None)"
  using failure_result_ok [OF call_ok_nonempty [OF assms(1)] assms(2), of c] failure_result_Inr
  unfolding normal_result_def by (auto split: sum.splits)

lemma execute_end_normal:
  assumes "check_llm_tool_call call = Inr c'" and "outcome_text_length env out \<le> 4000"
  shows "normal_result call (execute_end env call out cn)"
  using assms(2) failure_normal [OF assms(1)] call_ok_nonempty [OF assms(1)]
  by (auto simp: execute_end_def outcome_text_length_def success_result_def check_tool_result_def
      max_len_ok_def normal_result_def split: outcome.splits pyval.splits option.splits)

lemma execute_done_normal:
  assumes "execute_begin env reg call ctx cancel = Inr (ExecDone r)"
  shows "normal_result call (Inr r)"
proof -
  have "res_error_code r \<noteq> None"
    using assms by (auto simp: execute_begin_def exec_fail_def map_sum_def failure_result_def
        check_tool_result_def split: if_splits option.splits sum.splits exn.splits)
  with execute_begin_Done [OF assms] show ?thesis by (simp add: normal_result_def)
qed

lemma parse_arguments_length:
  assumes "\<And>s m. te_loads env s = Inl m \<Longrightarrow> length m \<le> 3900" and "parse_arguments env s = Inl m"
  shows "length m \<le> 4000"
  using assms by (force simp: parse_arguments_def Let_def split: if_splits sum.splits json.splits)

text \<open>
  The execution boundary normalizes every failure: on a contract-valid call, a
  well-typed schema and texts within the limits of \<open>ToolResult\<close> (4000 characters for the
  parser's, validator's and handler's error text, 32000 for the output), \<open>execute\<close>
  returns a result whatever the handler does, for this very call, with an error code
  exactly when it is not a success.
\<close>

theorem execute_normalizes:
  assumes "check_llm_tool_call call = Inr call" and "registry_get (tc_name call) reg = Some t"
    and "schema_ok (tl_parameters t)"
    and "\<And>s m. te_loads env s = Inl m \<Longrightarrow> length m \<le> 3900"
    and "\<And>args m. parse_arguments env (tc_arguments call) = Inr args \<Longrightarrow>
       validate_tool_arguments env (tl_parameters t) args = Inl (ToolArgumentValidation m) \<Longrightarrow> length m \<le> 4000"
    and "\<And>kw. outcome_text_length env (hd_run (tl_handler t) kw) \<le> 4000"
  shows "\<exists>r. execute env reg call ctx cancel = Inr r \<and> res_tool_call_id r = tc_id call \<and>
     res_tool_name r = tc_name call \<and> (res_success r \<longleftrightarrow> res_error_code r = None)"
proof -
  have "normal_result call (execute env reg call ctx cancel)"
  proof (cases "execute_begin env reg call ctx (map_option fst cancel)")
    case (Inl e)
    from assms(1,2) Inl have False
    proof (cases rule: execute_begin_Inl)
      case (unparsed m)
      with parse_arguments_length [OF assms(4) unparsed(1)] show ?thesis by simp
    next
      case (rejected args m)
      with assms(5) [OF rejected(1,2)] show ?thesis by simp
    next
      case (malformed args)
      with validator_error_kind [OF assms(3)] show ?thesis by blast
    qed
    then show ?thesis ..
  next
    case (Inr st)
    show ?thesis
    proof (cases st)
      case (ExecDone r)
      with execute_done_normal Inr show ?thesis by (simp add: execute_def)
    next
      case (ExecInvoke t' kw)
      then have "t' = t" using execute_begin_Invoke(2) Inr assms(2) by fastforce
      with Inr ExecInvoke execute_end_normal [OF assms(1,6)] show ?thesis by (simp add: execute_def)
    qed
  qed
  then show ?thesis by (auto simp: normal_result_def split: sum.splits)
qed

lemma execute_normalizes_witness:
  "\<exists>r. execute sample_env (sample_catalog (HRaise ''OSError'' ''disk'')) sample_call None None = Inr r \<and>
     res_tool_call_id r = ''c7'' \<and> res_tool_name r = ''echo'' \<and>
     (res_success r \<longleftrightarrow> res_error_code r = None)"
proof -
  let ?t = "sample_tool ''echo'' (HRaise ''OSError'' ''disk'')"
  have args: "parse_arguments sample_env (tc_arguments sample_call) = Inr args \<Longrightarrow>
      validate_tool_arguments sample_env (tl_parameters ?t) args = Inr ()" for args
    using execute_begin_Invoke(3) [OF sample_begin] by auto
  have "schema_ok (tl_parameters ?t)"
    by (simp add: schema_ok_def sample_tool_def schema_required_def schema_properties_def)
  moreover have "check_llm_tool_call sample_call = Inr sample_call"
    by (simp add: sample_call_def check_llm_tool_call_def)
  moreover have "length m \<le> 3900" if "te_loads sample_env s = Inl m" for s m
    using that by (auto simp: sample_env_def split: if_splits)
  moreover have "outcome_text_length sample_env (hd_run (tl_handler ?t) kw) \<le> 4000" for kw
    by (simp add: sample_tool_def outcome_text_length_def)
  moreover have "registry_get (tc_name sample_call) (sample_catalog (HRaise ''OSError'' ''disk'')) = Some ?t"
    by (simp add: sample_call_def sample_catalog_get)
  moreover have "tc_id sample_call = ''c7''" "tc_name sample_call = ''echo''"
    by (simp_all add: sample_call_def)
  ultimately show ?thesis
    using execute_normalizes [of sample_call _ ?t sample_env None None] args by fastforce
qed

text \<open>
  The boundary does leak exceptions, against its documentation: a handler that returns
  a string of more than 32000 characters makes \<open>execute\<close> raise the contract's
  \<open>ValidationError\<close> instead of returning a failed result.
\<close>

theorem execute_leaks_on_long_output:
  assumes "execute_begin env reg call ctx (map_option fst cancel) = Inr (ExecInvoke t kw)"
    and "hd_run (tl_handler t) kw = HReturn (PVStr s)" and "32000 < length s"
    and "check_llm_tool_call call = Inr call" and "map_option snd cancel \<noteq> Some True"
  shows "execute env reg call ctx cancel = Inl (ValidationError ''output'')"
  using assms call_ok_nonempty [OF assms(4)]
  by (auto simp: execute_def execute_end_def success_result_def check_tool_result_def)

lemma execute_leaks_on_long_output_witness:
  "execute sample_env (sample_catalog (HReturn (PVStr (replicate 40000 CHR ''x'')))) sample_call None None =
     Inl (ValidationError ''output'')"
  by (rule execute_leaks_on_long_output [where kw = "[(''q'', KJson (JStr ''hi''))]"
        and t = "sample_tool ''echo'' (HReturn (PVStr (replicate 40000 CHR ''x'')))"])
    (auto simp: sample_begin, auto simp: sample_tool_def sample_call_def check_llm_tool_call_def)

end
