(* ===== verification/PyNumbers.thy ===== *)
theory PyNumbers
  imports Prelude "HOL-Library.Log_Nat"
begin

text \<open>
  Python's floats as far as the sources compute with them: a \<open>float\<close> is an IEEE double, its
  arithmetic is the exact rational result rounded to the nearest double, ties to even. Signed
  zeros are not distinguished. \<open>py_float\<close> is \<open>float(n)\<close> on an integer, which raises
  \<open>OverflowError\<close> where rounding leaves the range of doubles.
\<close>

section \<open>Rounding to a double\<close>

definition pow2 :: "int \<Rightarrow> rat" where
  "pow2 k = (if 0 \<le> k then 2 ^ nat k else 1 / 2 ^ nat (- k))"

definition round_half_even :: "rat \<Rightarrow> int" where
  "round_half_even x =
     (let f = \<lfloor>x\<rfloor>; d = x - of_int f in
      if d < 1 / 2 then f else if 1 / 2 < d then f + 1 else if even f then f else f + 1)"

text \<open>The exponent of the leading bit of a positive rational.\<close>

definition ilog2 :: "rat \<Rightarrow> int" where
  "ilog2 x =
     (let (p, q) = quotient_of x; k = bitlen p - bitlen q in if pow2 k \<le> x then k else k - 1)"

text \<open>The nearest multiple of the spacing of doubles at a positive rational.\<close>

definition nearest_double :: "rat \<Rightarrow> rat" where
  "nearest_double x =
     (let e = max (ilog2 x - 52) (- 1074) in of_int (round_half_even (x / pow2 e)) * pow2 e)"

definition round_double :: "rat \<Rightarrow> pyfloat" where
  "round_double x =
     (if x = 0 then Fin 0
      else let v = nearest_double \<bar>x\<bar>
           in if 2 ^ 1024 \<le> v then (if 0 < x then PosInf else NegInf) else Fin (sgn x * v))"

definition py_float :: "int \<Rightarrow> pyfloat result" where
  "py_float n =
     (case round_double (of_int n) of
        Fin r \<Rightarrow> Inr (Fin r)
      | _ \<Rightarrow> Inl (HandlerError ''OverflowError'' ''int too large to convert to float''))"

section \<open>Small integers are exact\<close>

lemma pow2_pos [simp]: "0 < pow2 k"
  by (simp add: pow2_def)

lemma round_half_even_int [simp]: "round_half_even (of_int n) = n"
  by (simp add: round_half_even_def)

lemma round_half_even_near: "\<bar>of_int (round_half_even x) - x\<bar> \<le> 1 / 2"
proof -
  have "of_int \<lfloor>x\<rfloor> \<le> x" and "x < of_int \<lfloor>x\<rfloor> + 1" by linarith+
  then show ?thesis unfolding round_half_even_def Let_def by (auto simp: abs_le_iff)
qed

lemma ilog2_nat:
  assumes "0 < n"
  shows "ilog2 (of_int n) = bitlen n - 1"
proof -
  have "bitlen (1::int) = 1" by (subst compute_bitlen) simp
  moreover have "n < 2 ^ nat (bitlen n)" using assms bitlen_bounds [of n] by simp
  then have "(of_int n :: rat) < 2 ^ nat (bitlen n)" by (metis of_int_less_iff of_int_numeral of_int_power)
  moreover have "0 < bitlen n" using assms bitlen_eq_zero_iff [of n] bitlen_nonneg [of n] by linarith
  moreover have "2 ^ nat (bitlen n - 1) \<le> n" using assms bitlen_bounds [of n] by simp
  then have "(2 ^ nat (bitlen n - 1) :: rat) \<le> of_int n" by (metis of_int_le_iff of_int_numeral of_int_power)
  ultimately show ?thesis using assms
    by (auto simp: ilog2_def quotient_of_int pow2_def Let_def)
qed

lemma nearest_double_int:
  assumes "0 < n" and "n < 2 ^ 53"
  shows "nearest_double (of_int n) = of_int n"
proof -
  let ?k = "bitlen n - 1"
  have "0 \<le> ?k" using assms bitlen_eq_zero_iff [of n] bitlen_nonneg [of n] by linarith
  moreover have "bitlen n \<le> 53" using assms by (intro bitlen_le_iff_power [THEN iffD2]) simp_all
  ultimately have e: "max (?k - 52) (- 1074) = ?k - 52" "?k - 52 \<le> 0" by linarith+
  have "(of_int n :: rat) / pow2 (?k - 52) = of_int (n * 2 ^ nat (- (?k - 52)))"
    using e(2) by (simp add: pow2_def)
  moreover have "of_int (n * 2 ^ nat (- (?k - 52))) * pow2 (?k - 52) = (of_int n :: rat)"
    using e(2) by (simp add: pow2_def)
  ultimately show ?thesis
    unfolding nearest_double_def Let_def ilog2_nat [OF assms(1)] e(1)
    by (simp only: round_half_even_int)
qed

lemma round_double_int:
  assumes "\<bar>n\<bar> < 2 ^ 53"
  shows "round_double (of_int n) = Fin (of_int n)"
proof (cases "n = 0")
  case False
  have "\<bar>n\<bar> < 2 ^ 1024" using assms by (rule less_trans) simp
  then have "\<not> 2 ^ 1024 \<le> (of_int \<bar>n\<bar> :: rat)"
    by (metis not_le of_int_less_iff of_int_numeral of_int_power)
  moreover have "nearest_double (of_int \<bar>n\<bar>) = of_int \<bar>n\<bar>"
    using False assms by (intro nearest_double_int) simp_all
  ultimately have "round_double (of_int n) = Fin (sgn (of_int n) * \<bar>of_int n\<bar>)"
    using False by (simp add: round_double_def)
  then show ?thesis by (simp only: sgn_mult_abs)
qed (simp add: round_double_def)

lemma py_float_small: "\<bar>n\<bar> < 2 ^ 53 \<Longrightarrow> py_float n = Inr (Fin (of_int n))"
  by (simp add: py_float_def round_double_int)

end
