(* ===== verification/Builtins.thy ===== *)
theory Builtins
  imports Tools PyNumbers
begin

text \<open>
  The built-in tools: xymphony_tools/builtins.py (calculator, clock, text statistics and the
  default registry) and xymphony_tools/handlers (a second calculator, customer and weather
  lookup, their catalog), wired into the tools of theory Tools. \<open>ast.parse\<close>, the zone database
  with the clock, MD5 and title casing are functions of a \<open>library\<close>, as are the power of two
  floats and arithmetic on complex numbers. Floats have one zero.
\<close>

section \<open>Numbers\<close>

datatype pynum = PInt int | PFloat pyfloat | PComplex pyfloat pyfloat

fun float_neg :: "pyfloat \<Rightarrow> pyfloat" where
  "float_neg (Fin x) = Fin (- x)"
| "float_neg PosInf = NegInf"
| "float_neg NegInf = PosInf"
| "float_neg NaN = NaN"

fun float_add :: "pyfloat \<Rightarrow> pyfloat \<Rightarrow> pyfloat" where
  "float_add (Fin x) (Fin y) = round_double (x + y)"
| "float_add NaN y = NaN"
| "float_add x NaN = NaN"
| "float_add PosInf NegInf = NaN"
| "float_add NegInf PosInf = NaN"
| "float_add PosInf y = PosInf"
| "float_add NegInf y = NegInf"
| "float_add (Fin x) y = y"

definition float_sub :: "pyfloat \<Rightarrow> pyfloat \<Rightarrow> pyfloat" where
  "float_sub x y = float_add x (float_neg y)"

fun float_sign :: "pyfloat \<Rightarrow> rat" where
  "float_sign (Fin x) = sgn x"
| "float_sign PosInf = 1"
| "float_sign NegInf = - 1"
| "float_sign NaN = 0"

definition signed_inf :: "rat \<Rightarrow> pyfloat" where
  "signed_inf s = (if 0 < s then PosInf else if s < 0 then NegInf else NaN)"

fun float_mul :: "pyfloat \<Rightarrow> pyfloat \<Rightarrow> pyfloat" where
  "float_mul (Fin x) (Fin y) = round_double (x * y)"
| "float_mul NaN y = NaN"
| "float_mul x NaN = NaN"
| "float_mul x y = signed_inf (float_sign x * float_sign y)"

text \<open>The divisor of the next three is not zero.\<close>

fun float_div :: "pyfloat \<Rightarrow> pyfloat \<Rightarrow> pyfloat" where
  "float_div (Fin x) (Fin y) = round_double (x / y)"
| "float_div NaN y = NaN"
| "float_div x NaN = NaN"
| "float_div (Fin x) y = Fin 0"
| "float_div x (Fin y) = signed_inf (float_sign x * sgn y)"
| "float_div x y = NaN"

text \<open>C's \<open>fmod\<close>, which is exact and has the sign of the dividend.\<close>

fun c_fmod :: "pyfloat \<Rightarrow> pyfloat \<Rightarrow> pyfloat" where
  "c_fmod (Fin x) (Fin y) = Fin (x - y * sgn (x / y) * of_int \<lfloor>\<bar>x / y\<bar>\<rfloor>)"
| "c_fmod (Fin x) NaN = NaN"
| "c_fmod (Fin x) y = Fin x"
| "c_fmod x y = NaN"

definition wrong_sign :: "pyfloat \<Rightarrow> pyfloat \<Rightarrow> bool" where
  "wrong_sign m y \<longleftrightarrow> m \<noteq> Fin 0 \<and> (float_sign y < 0) \<noteq> (float_sign m < 0)"

definition float_mod :: "pyfloat \<Rightarrow> pyfloat \<Rightarrow> pyfloat" where
  "float_mod x y = (let m = c_fmod x y in if wrong_sign m y then float_add m y else m)"

fun float_floor :: "pyfloat \<Rightarrow> pyfloat" where
  "float_floor (Fin x) = Fin (of_int \<lfloor>x\<rfloor>)"
| "float_floor x = x"

fun float_gt :: "pyfloat \<Rightarrow> rat \<Rightarrow> bool" where
  "float_gt (Fin x) c = (c < x)"
| "float_gt PosInf c = True"
| "float_gt _ c = False"

definition float_floordiv :: "pyfloat \<Rightarrow> pyfloat \<Rightarrow> pyfloat" where
  "float_floordiv x y =
     (let m = c_fmod x y;
          d0 = float_div (float_sub x m) y;
          d = (if wrong_sign m y then float_sub d0 (Fin 1) else d0);
          f = float_floor d
      in if float_gt (float_sub d f) (1 / 2) then float_add f (Fin 1) else f)"

section \<open>Expressions\<close>

datatype unop = U_Neg | U_Pos | U_Other string

datatype binop = B_Add | B_Sub | B_Mult | B_Div | B_FloorDiv | B_Mod | B_Pow | B_Other string

text \<open>A node of another class carries the name of the class; so does a constant of another type.\<close>

datatype literal = K_Num pynum | K_Other string

datatype expr =
    E_Const literal
  | E_Unary unop expr
  | E_Bin expr binop expr
  | E_Other string

record zoned_now =
  zn_iso :: string
  zn_date :: string
  zn_time :: string
  zn_day_of_week :: string

text \<open>
  \<open>li_parse\<close> is the body of \<open>ast.parse(s, mode="eval")\<close>; \<open>li_pow\<close> the power of two floats, which
  may be complex; \<open>li_complex\<close> an operation with a complex operand; \<open>li_now\<close> the current time in
  a zone, \<open>None\<close> for an unknown zone; \<open>li_digest\<close> the first 32 bits of an MD5 sum.
\<close>

record library =
  li_parse :: "string \<Rightarrow> expr result"
  li_pow :: "pyfloat \<Rightarrow> pyfloat \<Rightarrow> pynum result"
  li_complex :: "binop \<Rightarrow> pynum \<Rightarrow> pynum \<Rightarrow> pynum result"
  li_now :: "string \<Rightarrow> zoned_now option"
  li_digest :: "string \<Rightarrow> nat"
  li_title :: "string \<Rightarrow> string"
  li_repr :: "json_dict \<Rightarrow> pynum \<Rightarrow> string"

fun num_neg :: "pynum \<Rightarrow> pynum" where
  "num_neg (PInt n) = PInt (- n)"
| "num_neg (PFloat x) = PFloat (float_neg x)"
| "num_neg (PComplex x y) = PComplex (float_neg x) (float_neg y)"

fun unary :: "unop \<Rightarrow> pynum \<Rightarrow> pynum" where
  "unary U_Neg x = num_neg x"
| "unary _ x = x"

definition overflow :: "string \<Rightarrow> exn" where
  "overflow m = HandlerError ''OverflowError'' m"

fun float_op :: "library \<Rightarrow> binop \<Rightarrow> pyfloat \<Rightarrow> pyfloat \<Rightarrow> pynum result" where
  "float_op lib B_Add x y = Inr (PFloat (float_add x y))"
| "float_op lib B_Sub x y = Inr (PFloat (float_sub x y))"
| "float_op lib B_Mult x y = Inr (PFloat (float_mul x y))"
| "float_op lib B_Div x y = Inr (PFloat (float_div x y))"
| "float_op lib B_FloorDiv x y = Inr (PFloat (float_floordiv x y))"
| "float_op lib B_Mod x y = Inr (PFloat (float_mod x y))"
| "float_op lib B_Pow x y = li_pow lib x y"
| "float_op lib (B_Other n) x y = Inl (TypeErrorE n)"

definition int_truediv :: "int \<Rightarrow> int \<Rightarrow> pynum result" where
  "int_truediv m n =
     (case round_double (of_int m / of_int n) of
        Fin r \<Rightarrow> Inr (PFloat (Fin r))
      | _ \<Rightarrow> Inl (overflow ''integer division result too large for a float''))"

definition int_pow :: "library \<Rightarrow> int \<Rightarrow> int \<Rightarrow> pynum result" where
  "int_pow lib m n =
     (if 0 \<le> n then Inr (PInt (m ^ nat n))
      else and_then (py_float m) (\<lambda>x. and_then (py_float n) (\<lambda>y. li_pow lib x y)))"

fun int_op :: "library \<Rightarrow> binop \<Rightarrow> int \<Rightarrow> int \<Rightarrow> pynum result" where
  "int_op lib B_Add m n = Inr (PInt (m + n))"
| "int_op lib B_Sub m n = Inr (PInt (m - n))"
| "int_op lib B_Mult m n = Inr (PInt (m * n))"
| "int_op lib B_Div m n = int_truediv m n"
| "int_op lib B_FloorDiv m n = Inr (PInt (m div n))"
| "int_op lib B_Mod m n = Inr (PInt (m mod n))"
| "int_op lib B_Pow m n = int_pow lib m n"
| "int_op lib (B_Other s) m n = Inl (TypeErrorE s)"

text \<open>\<open>_SAFE_OPERATORS[op](left, right)\<close>: an integer next to a float is converted first.\<close>

fun arith :: "library \<Rightarrow> binop \<Rightarrow> pynum \<Rightarrow> pynum \<Rightarrow> pynum result" where
  "arith lib b (PInt m) (PInt n) = int_op lib b m n"
| "arith lib b (PFloat x) (PFloat y) = float_op lib b x y"
| "arith lib b (PInt m) (PFloat y) = and_then (py_float m) (\<lambda>x. float_op lib b x y)"
| "arith lib b (PFloat x) (PInt n) = and_then (py_float n) (\<lambda>y. float_op lib b x y)"
| "arith lib b x y = li_complex lib b x y"

fun num_zero :: "pynum \<Rightarrow> bool" where
  "num_zero (PInt n) = (n = 0)"
| "num_zero (PFloat x) = (x = Fin 0)"
| "num_zero (PComplex x y) = (x = Fin 0 \<and> y = Fin 0)"

fun num_gt :: "pynum \<Rightarrow> rat \<Rightarrow> bool" where
  "num_gt (PInt n) c = (c < of_int n)"
| "num_gt (PFloat x) c = float_gt x c"
| "num_gt (PComplex x y) c = False"

text \<open>\<open>abs(x) > c\<close> for a real number.\<close>

definition abs_gt :: "pynum \<Rightarrow> rat \<Rightarrow> bool" where
  "abs_gt x c \<longleftrightarrow> num_gt x c \<or> num_gt (num_neg x) c"

fun is_complex :: "pynum \<Rightarrow> bool" where
  "is_complex (PComplex x y) = True"
| "is_complex _ = False"

section \<open>builtins.py: the calculator\<close>

definition max_expression_length :: nat where "max_expression_length = 256"
definition max_exponent :: rat where "max_exponent = 1000"
definition max_abs_value :: rat where "max_abs_value = nearest_double (10 ^ 100)"

definition divides :: "binop \<Rightarrow> bool" where
  "divides b \<longleftrightarrow> b = B_Div \<or> b = B_FloorDiv \<or> b = B_Mod"

definition checked_op :: "library \<Rightarrow> binop \<Rightarrow> pynum \<Rightarrow> pynum \<Rightarrow> pynum result" where
  "checked_op lib b x y =
     (if divides b \<and> num_zero y then Inl (ValueErrorE ''Division by zero'')
      else if b = B_Pow \<and> abs_gt y max_exponent
      then Inl (ValueErrorE ''Exponent exceeds maximum allowed limit of 1000'')
      else if b = B_Pow \<and> abs_gt x 1 \<and> num_gt y 500
      then Inl (ValueErrorE ''Calculation result exceeds maximum allowed magnitude'')
      else and_then (arith lib b x y) (\<lambda>z.
        if is_complex z \<or> abs_gt z max_abs_value
        then Inl (ValueErrorE ''Calculation result exceeds maximum allowed magnitude'')
        else Inr z))"

fun constant_value :: "literal \<Rightarrow> pynum result" where
  "constant_value (K_Num (PComplex x y)) = Inl (ValueErrorE ''Unsupported constant type: complex'')"
| "constant_value (K_Num x) = Inr x"
| "constant_value (K_Other ty) = Inl (ValueErrorE (''Unsupported constant type: '' @ ty))"

fun evaluate :: "library \<Rightarrow> expr \<Rightarrow> pynum result" where
  "evaluate lib (E_Const k) = constant_value k"
| "evaluate lib (E_Unary u e) =
     (case u of
        U_Other n \<Rightarrow> Inl (ValueErrorE (''Unsupported unary operator: '' @ n))
      | _ \<Rightarrow> and_then (evaluate lib e) (\<lambda>x. Inr (unary u x)))"
| "evaluate lib (E_Bin l b r) =
     (case b of
        B_Other n \<Rightarrow> Inl (ValueErrorE (''Unsupported binary operator: '' @ n))
      | _ \<Rightarrow> and_then (evaluate lib l) (\<lambda>x. and_then (evaluate lib r) (\<lambda>y. checked_op lib b x y)))"
| "evaluate lib (E_Other n) = Inl (ValueErrorE (''Unsupported expression syntax: '' @ n))"

text \<open>\<open>except SyntaxError\<close>.\<close>

definition parsed :: "library \<Rightarrow> (string \<Rightarrow> string) \<Rightarrow> string \<Rightarrow> expr result" where
  "parsed lib msg s =
     (case li_parse lib s of
        Inl (HandlerError ty m) \<Rightarrow>
          if ty = ''SyntaxError'' then Inl (ValueErrorE (msg m)) else Inl (HandlerError ty m)
      | r \<Rightarrow> r)"

definition calculate_handler :: "library \<Rightarrow> json \<Rightarrow> pynum result" where
  "calculate_handler lib v =
     (case v of
        JStr expression \<Rightarrow>
          let cleaned = py_strip expression in
          if cleaned = [] then Inl (ValueErrorE ''Expression cannot be empty'')
          else if max_expression_length < length cleaned
          then Inl (ValueErrorE ''Expression exceeds maximum length of 256 characters'')
          else and_then (parsed lib (\<lambda>m. ''Invalid mathematical syntax: '' @ m) cleaned) (evaluate lib)
      | _ \<Rightarrow> Inl (ValueErrorE (''Expression must be a string, got '' @ json_type_name v)))"

section \<open>builtins.py: the clock and text statistics\<close>

definition current_time_handler :: "library \<Rightarrow> json \<Rightarrow> json_dict result" where
  "current_time_handler lib v =
     (case v of
        JStr timezone \<Rightarrow>
          let tz = py_strip timezone in
          if tz = [] then Inl (ValueErrorE ''Timezone must be a non-empty string'')
          else (case li_now lib tz of
             None \<Rightarrow> Inl (ValueErrorE (''Unknown or invalid timezone: '' @ quoted tz))
           | Some n \<Rightarrow> Inr [(''iso'', JStr (zn_iso n)), (''date'', JStr (zn_date n)), (''time'', JStr (zn_time n)),
               (''timezone'', JStr tz), (''day_of_week'', JStr (zn_day_of_week n))])
      | _ \<Rightarrow> Inl (ValueErrorE ''Timezone must be a non-empty string''))"

text \<open>
  \<open>str.splitlines\<close>: a line feed after a carriage return belongs to it (\<open>cr\<close>), \<open>acc\<close> is the line
  read so far, and a break at the very end starts no further line.
\<close>

definition line_break :: "char \<Rightarrow> bool" where
  "line_break c \<longleftrightarrow> c \<in> set [CHR 0x0A, CHR 0x0B, CHR 0x0C, CHR 0x0D, CHR 0x1C, CHR 0x1D, CHR 0x1E, CHR 0x85]"

fun split_lines :: "bool \<Rightarrow> string \<Rightarrow> string \<Rightarrow> string list" where
  "split_lines cr acc [] = (if acc = [] then [] else [acc])"
| "split_lines cr acc (c # s) =
     (if cr \<and> c = CHR 0x0A then split_lines False [] s
      else if line_break c then acc # split_lines (c = CHR 0x0D) [] s
      else split_lines False (acc @ [c]) s)"

definition text_stats_handler :: "json \<Rightarrow> json_dict result" where
  "text_stats_handler v =
     (case v of
        JStr text_arg \<Rightarrow>
          let words = py_split text_arg; ls = split_lines False [] text_arg in
          Inr [(''character_count'', JInt (int (length text_arg))),
               (''character_count_no_spaces'', JInt (int (length (concat words)))),
               (''word_count'', JInt (int (length words))),
               (''line_count'', JInt (if text_arg = [] then 0 else int (length ls)))]
      | _ \<Rightarrow> Inl (ValueErrorE (''Expected text to be a string, got '' @ json_type_name v)))"


section \<open>handlers/calculator.py\<close>

definition safe_op :: "library \<Rightarrow> binop \<Rightarrow> pynum \<Rightarrow> pynum \<Rightarrow> pynum result" where
  "safe_op lib b x y =
     (if divides b \<and> num_zero y then Inl (ValueErrorE ''Division by zero'')
      else if b = B_Pow \<and> num_gt y max_exponent
      then Inl (ValueErrorE ''Exponent exceeds maximum allowed limit (1000)'')
      else arith lib b x y)"

fun safe_eval :: "library \<Rightarrow> expr \<Rightarrow> pynum result" where
  "safe_eval lib (E_Const k) = constant_value k"
| "safe_eval lib (E_Unary u e) =
     (case u of
        U_Other n \<Rightarrow> Inl (ValueErrorE (''Unsupported unary operator: '' @ n))
      | _ \<Rightarrow> and_then (safe_eval lib e) (\<lambda>x. Inr (unary u x)))"
| "safe_eval lib (E_Bin l b r) =
     (case b of
        B_Other n \<Rightarrow> Inl (ValueErrorE (''Unsupported binary operator: '' @ n))
      | _ \<Rightarrow> and_then (safe_eval lib l) (\<lambda>x. and_then (safe_eval lib r) (\<lambda>y. safe_op lib b x y)))"
| "safe_eval lib (E_Other n) = Inl (ValueErrorE (''Unsupported expression element: '' @ n))"

text \<open>A method call on a value that is not a string.\<close>

definition no_method :: "json \<Rightarrow> string \<Rightarrow> exn" where
  "no_method v m = HandlerError ''AttributeError''
     (quoted (json_type_name v) @ '' object has no attribute '' @ quoted m)"

fun whole :: "pynum \<Rightarrow> pynum" where
  "whole (PFloat (Fin x)) = (if of_int \<lfloor>x\<rfloor> = x then PInt \<lfloor>x\<rfloor> else PFloat (Fin x))"
| "whole z = z"

definition calculate :: "library \<Rightarrow> json \<Rightarrow> (string \<times> pynum) result" where
  "calculate lib v =
     (case v of
        JStr expression \<Rightarrow>
          let clean = py_strip expression in
          if clean = [] then Inl (ValueErrorE ''Expression cannot be empty'')
          else and_then (parsed lib (\<lambda>m. ''Invalid arithmetic expression: '' @ clean) clean) (\<lambda>e.
            and_then (safe_eval lib e) (\<lambda>z. Inr (clean, whole z)))
      | _ \<Rightarrow> Inl (no_method v ''strip''))"

section \<open>handlers/customer_lookup.py\<close>

definition default_customers :: "json_dict list" where
  "default_customers =
     [[(''id'', JStr ''cust_101''), (''name'', JStr ''Alice Johnson''), (''email'', JStr ''alice@example.com''),
       (''phone'', JStr ''+1-555-0101''), (''status'', JStr ''active''), (''plan'', JStr ''enterprise''),
       (''balance_due'', JFloat (Fin 0)), (''currency'', JStr ''USD'')],
      [(''id'', JStr ''cust_102''), (''name'', JStr ''Bob Smith''), (''email'', JStr ''bob@example.com''),
       (''phone'', JStr ''+1-555-0102''), (''status'', JStr ''active''), (''plan'', JStr ''pro''),
       (''balance_due'', JFloat (round_double (4999 / 100))), (''currency'', JStr ''USD'')],
      [(''id'', JStr ''cust_103''), (''name'', JStr ''Carol Williams''), (''email'', JStr ''carol@example.com''),
       (''phone'', JStr ''+1-555-0103''), (''status'', JStr ''past_due''), (''plan'', JStr ''starter''),
       (''balance_due'', JFloat (Fin 15)), (''currency'', JStr ''USD'')]]"

definition customer_field :: "json_dict \<Rightarrow> string \<Rightarrow> string \<Rightarrow> string result" where
  "customer_field c k meth =
     (case map_of c k of
        Some (JStr s) \<Rightarrow> Inr s
      | Some v \<Rightarrow> Inl (no_method v meth)
      | None \<Rightarrow> Inl (HandlerError ''KeyError'' (quoted k)))"

definition squeeze :: "string \<Rightarrow> string" where
  "squeeze s = filter (\<lambda>c. c \<noteq> CHR '' '' \<and> c \<noteq> CHR ''-'') s"

definition matches_key :: "json_dict \<Rightarrow> string \<Rightarrow> string \<Rightarrow> bool result" where
  "matches_key c q k =
     (if k = ''phone'' then map_sum id (\<lambda>p. squeeze p = squeeze q) (customer_field c k ''replace'')
      else map_sum id (\<lambda>s. py_lower s = q) (customer_field c k ''lower''))"

fun matches_some :: "json_dict \<Rightarrow> string \<Rightarrow> string list \<Rightarrow> bool result" where
  "matches_some c q [] = Inr False"
| "matches_some c q (k # ks) = and_then (matches_key c q k) (\<lambda>b. if b then Inr True else matches_some c q ks)"

definition lookup_keys :: "json \<Rightarrow> string list" where
  "lookup_keys lookup_by =
     (if lookup_by = JNull then [''id'', ''email'', ''phone'']
      else filter (\<lambda>k. lookup_by = JStr k) [''id'', ''email'', ''phone''])"

fun find_customer :: "string \<Rightarrow> string list \<Rightarrow> json_dict list \<Rightarrow> json_dict option result" where
  "find_customer q ks [] = Inr None"
| "find_customer q ks (c # cs) =
     and_then (matches_some c q ks) (\<lambda>b. if b then Inr (Some c) else find_customer q ks cs)"

definition lookup_customer :: "json_dict list option \<Rightarrow> json \<Rightarrow> json \<Rightarrow> json result" where
  "lookup_customer customers query lookup_by =
     (case query of
        JStr q \<Rightarrow>
          map_sum id (\<lambda>r. case r of
              Some c \<Rightarrow> JObj [(''found'', JBool True), (''customer'', JObj c)]
            | None \<Rightarrow> JObj [(''found'', JBool False),
                (''message'', JStr (''Customer not found for query: '' @ quoted q))])
            (find_customer (py_lower (py_strip q)) (lookup_keys lookup_by)
              (case customers of Some cs \<Rightarrow> cs | None \<Rightarrow> default_customers))
      | _ \<Rightarrow> Inl (no_method query ''strip''))"

section \<open>handlers/weather_lookup.py\<close>

record city_weather =
  cw_city :: string
  cw_temperature_c :: int
  cw_condition :: string
  cw_humidity_percent :: int
  cw_wind_speed_kmh :: int

definition known_cities :: "(string \<times> city_weather) list" where
  "known_cities =
     [(''san francisco'', \<lparr>cw_city = ''San Francisco'', cw_temperature_c = 16, cw_condition = ''Foggy'',
        cw_humidity_percent = 82, cw_wind_speed_kmh = 18\<rparr>),
      (''new york'', \<lparr>cw_city = ''New York'', cw_temperature_c = 22, cw_condition = ''Partly Cloudy'',
        cw_humidity_percent = 65, cw_wind_speed_kmh = 12\<rparr>),
      (''london'', \<lparr>cw_city = ''London'', cw_temperature_c = 15, cw_condition = ''Light Rain'',
        cw_humidity_percent = 88, cw_wind_speed_kmh = 15\<rparr>),
      (''tokyo'', \<lparr>cw_city = ''Tokyo'', cw_temperature_c = 24, cw_condition = ''Clear'',
        cw_humidity_percent = 58, cw_wind_speed_kmh = 8\<rparr>),
      (''paris'', \<lparr>cw_city = ''Paris'', cw_temperature_c = 19, cw_condition = ''Sunny'',
        cw_humidity_percent = 50, cw_wind_speed_kmh = 10\<rparr>),
      (''sydney'', \<lparr>cw_city = ''Sydney'', cw_temperature_c = 20, cw_condition = ''Sunny'',
        cw_humidity_percent = 60, cw_wind_speed_kmh = 16\<rparr>)]"

definition conditions :: "string list" where
  "conditions = [''Sunny'', ''Partly Cloudy'', ''Cloudy'', ''Light Rain'', ''Clear'', ''Breezy'']"

definition derive_city_weather :: "library \<Rightarrow> string \<Rightarrow> city_weather" where
  "derive_city_weather lib city =
     (let normalized = py_lower (py_strip city) in
      case map_of known_cities normalized of
        Some w \<Rightarrow> w
      | None \<Rightarrow>
          let digest = li_digest lib normalized in
          \<lparr>cw_city = li_title lib (py_strip city), cw_temperature_c = 10 + int (digest mod 25),
           cw_condition = conditions ! (digest mod length conditions),
           cw_humidity_percent = 40 + int (digest mod 50), cw_wind_speed_kmh = 5 + int (digest mod 25)\<rparr>)"

text \<open>\<open>round(x, 1)\<close>: the double next to the decimal with one digit that is next to \<open>x\<close>.\<close>

fun round_one :: "pyfloat \<Rightarrow> pyfloat" where
  "round_one (Fin x) = round_double (of_int (round_half_even (10 * x)) / 10)"
| "round_one x = x"

definition fahrenheit :: "int \<Rightarrow> pynum" where
  "fahrenheit c = whole (PFloat (round_one (float_add (round_double (of_int (c * 9) / 5)) (Fin 32))))"

fun num_json :: "pynum \<Rightarrow> json" where
  "num_json (PInt n) = JInt n"
| "num_json (PFloat x) = JFloat x"
| "num_json (PComplex x y) = JNull"

definition chosen_units :: "json \<Rightarrow> string result" where
  "chosen_units units =
     (if \<not> json_truthy units then Inr ''celsius''
      else case units of JStr s \<Rightarrow> Inr (py_lower (py_strip s)) | _ \<Rightarrow> Inl (no_method units ''strip''))"

definition units_text :: "json \<Rightarrow> string" where
  "units_text units = (case units of JStr s \<Rightarrow> s | _ \<Rightarrow> [])"

definition lookup_weather :: "library \<Rightarrow> json \<Rightarrow> json \<Rightarrow> json result" where
  "lookup_weather lib city units =
     (case city of
        JStr c \<Rightarrow>
          let clean = py_strip c in
          if clean = [] then Inl (ValueErrorE ''City name cannot be empty.'')
          else and_then (chosen_units units) (\<lambda>u.
            if u \<noteq> ''celsius'' \<and> u \<noteq> ''fahrenheit''
            then Inl (ValueErrorE (''Unsupported units '' @ quoted (units_text units) @
                   ''. Must be '' @ quoted ''celsius'' @ '' or '' @ quoted ''fahrenheit'' @ ''.''))
            else let base = derive_city_weather lib clean in
              Inr (JObj [(''city'', JStr (cw_city base)),
                (''temperature'', num_json (if u = ''fahrenheit'' then fahrenheit (cw_temperature_c base)
                                           else PInt (cw_temperature_c base))),
                (''units'', JStr u), (''condition'', JStr (cw_condition base)),
                (''humidity_percent'', JInt (cw_humidity_percent base)),
                (''wind_speed_kmh'', JInt (cw_wind_speed_kmh base))]))
      | _ \<Rightarrow> Inl (no_method city ''strip''))"

section \<open>The tools and their registries\<close>

text \<open>Calling a Python function by keyword: an unknown or a missing argument is a \<open>TypeError\<close>.\<close>

definition bind_kwargs :: "string \<Rightarrow> string list \<Rightarrow> string list \<Rightarrow> (string \<times> kwarg) list \<Rightarrow> unit result" where
  "bind_kwargs fname required params kw =
     (case filter (\<lambda>k. k \<notin> set params) (map fst kw) of
        k # _ \<Rightarrow> Inl (TypeErrorE (fname @ ''() got an unexpected keyword argument '' @ quoted k))
      | [] \<Rightarrow>
          (case filter (\<lambda>p. p \<notin> set (map fst kw)) required of
             p # _ \<Rightarrow> Inl (TypeErrorE (fname @ ''() missing 1 required positional argument: '' @ quoted p))
           | [] \<Rightarrow> Inr ()))"

definition kwarg_or :: "json \<Rightarrow> (string \<times> kwarg) list \<Rightarrow> string \<Rightarrow> json" where
  "kwarg_or dflt kw k = (case map_of kw k of Some (KJson v) \<Rightarrow> v | _ \<Rightarrow> dflt)"

definition raise_outcome :: "exn \<Rightarrow> outcome" where
  "raise_outcome e =
     (case e of
        ValueErrorE m \<Rightarrow> HRaise ''ValueError'' m
      | TypeErrorE m \<Rightarrow> HRaise ''TypeError'' m
      | HandlerError ty m \<Rightarrow> HRaise ty m
      | _ \<Rightarrow> HRaise ''Exception'' [])"

definition outcome_of :: "('a \<Rightarrow> pyval) \<Rightarrow> 'a result \<Rightarrow> outcome" where
  "outcome_of f r = (case r of Inl e \<Rightarrow> raise_outcome e | Inr x \<Rightarrow> HReturn (f x))"

definition function_handler ::
  "string \<Rightarrow> string list \<Rightarrow> string list \<Rightarrow> ((string \<times> kwarg) list \<Rightarrow> outcome) \<Rightarrow> handler" where
  "function_handler fname required params f =
     \<lparr>hd_params = Some params, hd_var_keyword = False,
      hd_run = (\<lambda>kw. case bind_kwargs fname required params kw of Inl e \<Rightarrow> raise_outcome e | Inr _ \<Rightarrow> f kw)\<rparr>"

definition string_param :: "string \<Rightarrow> json" where
  "string_param description = JObj [(''type'', JStr ''string''), (''description'', JStr description)]"

definition choice_param :: "string list \<Rightarrow> string \<Rightarrow> json" where
  "choice_param choices description =
     JObj [(''type'', JStr ''string''), (''enum'', JList (map JStr choices)), (''description'', JStr description)]"

definition object_schema :: "(string \<times> json) list \<Rightarrow> string list \<Rightarrow> json_dict" where
  "object_schema props required =
     [(''type'', JStr ''object''), (''properties'', JObj props)] @
     (if required = [] then [] else [(''required'', JList (map JStr required))]) @
     [(''additionalProperties'', JBool False)]"

definition calculator_parameters :: json_dict where
  "calculator_parameters = object_schema
     [(''expression'', string_param (''Mathematical expression to evaluate, e.g. '' @ quoted ''(15 * 4) + 2'' @ ''.''))]
     [''expression'']"

definition current_time_parameters :: json_dict where
  "current_time_parameters = object_schema
     [(''timezone'', string_param (''Optional IANA timezone name (e.g. '' @ quoted ''UTC'' @ '', '' @
         quoted ''America/New_York'' @ ''). Defaults to '' @ quoted ''UTC'' @ ''.''))] []"

definition text_stats_parameters :: json_dict where
  "text_stats_parameters = object_schema [(''text'', string_param ''Text to analyze for statistics.'')] [''text'']"

definition create_calculator_tool :: "library \<Rightarrow> tool result" where
  "create_calculator_tool lib = create_tool ''calculate''
     (''Evaluate a mathematical expression deterministically. '' @
      ''Supports +, -, *, /, %, ** and parentheses.'')
     (Some calculator_parameters)
     (function_handler ''calculate_handler'' [''expression''] [''expression'']
        (\<lambda>kw. outcome_of (\<lambda>z. PVJson (num_json z)) (calculate_handler lib (kwarg_or JNull kw ''expression''))))"

definition create_current_time_tool :: "library \<Rightarrow> tool result" where
  "create_current_time_tool lib = create_tool ''get_current_time''
     ''Get the current date and time. Optionally specify an IANA timezone name.''
     (Some current_time_parameters)
     (function_handler ''create_current_time_tool.<locals>._handler'' [] [''timezone'']
        (\<lambda>kw. outcome_of (\<lambda>d. PVJson (JObj d)) (current_time_handler lib (kwarg_or (JStr ''UTC'') kw ''timezone''))))"

definition create_text_stats_tool :: "tool result" where
  "create_text_stats_tool = create_tool ''text_stats''
     ''Compute text statistics including character count, word count, and lines.''
     (Some text_stats_parameters)
     (function_handler ''text_stats_handler'' [''text''] [''text'']
        (\<lambda>kw. outcome_of (\<lambda>d. PVJson (JObj d)) (text_stats_handler (kwarg_or JNull kw ''text''))))"

definition create_builtin_tools :: "library \<Rightarrow> tool list result" where
  "create_builtin_tools lib =
     validate_all id [create_calculator_tool lib, create_current_time_tool lib, create_text_stats_tool]"

fun register_all :: "tool list \<Rightarrow> registry \<Rightarrow> registry result" where
  "register_all [] r = Inr r"
| "register_all (t # ts) r = and_then (registry_register t r) (register_all ts)"

definition create_default_tool_registry :: "library \<Rightarrow> registry result" where
  "create_default_tool_registry lib = and_then (create_builtin_tools lib) (\<lambda>ts. register_all ts [])"


text \<open>A result with a complex number is not JSON; \<open>li_repr\<close> is the \<open>str\<close> of such a dictionary.\<close>

definition calculation :: "library \<Rightarrow> string \<times> pynum \<Rightarrow> pyval" where
  "calculation lib r =
     (case r of (s, z) \<Rightarrow>
        if is_complex z then PVOther (li_repr lib [(''expression'', JStr s)] z)
        else PVJson (JObj [(''expression'', JStr s), (''result'', num_json z)]))"

definition create_handlers_calculator_tool :: "library \<Rightarrow> tool result" where
  "create_handlers_calculator_tool lib = create_tool ''calculator''
     ''Safely evaluates a mathematical arithmetic expression and returns the result.''
     (Some (object_schema
        [(''expression'', string_param (''The arithmetic expression to evaluate (e.g., '' @ quoted ''14 * 6 + 5'' @ '').''))]
        [''expression'']))
     (function_handler ''calculate'' [''expression''] [''expression'']
        (\<lambda>kw. outcome_of (calculation lib) (calculate lib (kwarg_or JNull kw ''expression''))))"

definition create_customer_lookup_tool :: "json_dict list option \<Rightarrow> tool result" where
  "create_customer_lookup_tool customers = create_tool ''customer_lookup''
     (''Looks up customer profile, account details, and subscription status by customer ID, '' @
      ''email, or phone number.'')
     (Some (object_schema
        [(''query'', string_param (''Identifier to search for (e.g., customer ID, email address, '' @ ''or phone number).'')),
         (''lookup_by'', choice_param [''id'', ''email'', ''phone'']
            (''Explicit identifier field to search. Defaults to searching '' @ ''all identifiers.''))]
        [''query'']))
     (function_handler ''create_customer_lookup_tool.<locals>._handler'' [''query''] [''query'', ''lookup_by'']
        (\<lambda>kw. outcome_of PVJson
           (lookup_customer customers (kwarg_or JNull kw ''query'') (kwarg_or JNull kw ''lookup_by''))))"

definition create_weather_lookup_tool :: "library \<Rightarrow> tool result" where
  "create_weather_lookup_tool lib = create_tool ''weather_lookup''
     (''Retrieves current weather conditions, temperature, humidity, and wind speed '' @ ''for a specified city.'')
     (Some (object_schema
        [(''city'', string_param ''Name of the city to look up weather for.''),
         (''units'', choice_param [''celsius'', ''fahrenheit'']
            ''Temperature units (celsius or fahrenheit). Defaults to celsius.'')]
        [''city'']))
     (function_handler ''lookup_weather'' [''city''] [''city'', ''units'']
        (\<lambda>kw. outcome_of PVJson
           (lookup_weather lib (kwarg_or JNull kw ''city'') (kwarg_or (JStr ''celsius'') kw ''units''))))"

definition get_builtin_tools :: "library \<Rightarrow> tool list result" where
  "get_builtin_tools lib = validate_all id
     [create_handlers_calculator_tool lib, create_customer_lookup_tool None, create_weather_lookup_tool lib]"

definition register_builtin_tools :: "library \<Rightarrow> registry \<Rightarrow> registry result" where
  "register_builtin_tools lib r = and_then (get_builtin_tools lib) (\<lambda>ts. register_all ts r)"

end
