(* ===== verification/BuiltinProps.thy ===== *)
theory BuiltinProps
  imports Builtins
begin

text \<open>
  The calculators agree with exact integer arithmetic; the first one keeps every result within
  its magnitude, the second one does not. The default registry is complete and its tools run
  under the executor.
\<close>

section \<open>Exact arithmetic\<close>

text \<open>
  The reference: the value of an expression over the integers, for constants, signs, sums,
  products, floored quotients and remainders by a nonzero divisor, and powers.
\<close>

fun int_value :: "expr \<Rightarrow> int option" where
  "int_value (E_Const (K_Num (PInt n))) = Some n"
| "int_value (E_Unary u e) =
     (case u of U_Neg \<Rightarrow> map_option uminus (int_value e) | U_Pos \<Rightarrow> int_value e | U_Other s \<Rightarrow> None)"
| "int_value (E_Bin l b r) =
     (case (int_value l, int_value r) of
        (Some m, Some n) \<Rightarrow>
          (case b of
             B_Add \<Rightarrow> Some (m + n) | B_Sub \<Rightarrow> Some (m - n) | B_Mult \<Rightarrow> Some (m * n)
           | B_FloorDiv \<Rightarrow> if n = 0 then None else Some (m div n)
           | B_Mod \<Rightarrow> if n = 0 then None else Some (m mod n)
           | B_Pow \<Rightarrow> if n < 0 then None else Some (m ^ nat n)
           | _ \<Rightarrow> None)
      | _ \<Rightarrow> None)"
| "int_value _ = None"

lemma arith_int:
  "int_value (E_Bin l b r) = Some k \<Longrightarrow> int_value l = Some m \<Longrightarrow> int_value r = Some n \<Longrightarrow>
     arith lib b (PInt m) (PInt n) = Inr (PInt k)"
  by (cases b) (auto simp: int_pow_def split: if_splits)

lemma checked_op_Inr: "checked_op lib b x y = Inr z \<Longrightarrow> arith lib b x y = Inr z"
  by (auto simp: checked_op_def and_then_Inr split: if_splits)

lemma safe_op_Inr: "safe_op lib b x y = Inr z \<Longrightarrow> arith lib b x y = Inr z"
  by (auto simp: safe_op_def split: if_splits)

lemma operands:
  assumes "int_value (E_Bin l b r) = Some k"
  obtains m n where "int_value l = Some m" and "int_value r = Some n"
  using assms by (auto split: option.splits)

lemma evaluate_exact: "evaluate lib e = Inr z \<Longrightarrow> int_value e = Some k \<Longrightarrow> z = PInt k"
proof (induction e arbitrary: z k)
  case (E_Const c)
  then show ?case by (cases c rule: constant_value.cases) auto
next
  case (E_Unary u e)
  from E_Unary.prems show ?case by (auto simp: and_then_Inr dest!: E_Unary.IH split: unop.splits)
next
  case (E_Bin l b r)
  obtain m n where mn: "int_value l = Some m" "int_value r = Some n" using operands [OF E_Bin.prems(2)] .
  obtain x y where "evaluate lib l = Inr x" "evaluate lib r = Inr y" "checked_op lib b x y = Inr z"
    using E_Bin.prems(1) by (auto simp: and_then_Inr split: binop.splits)
  with E_Bin.IH mn have "arith lib b (PInt m) (PInt n) = Inr z" by (auto dest: checked_op_Inr)
  with arith_int [OF E_Bin.prems(2) mn] show ?case by simp
qed simp

lemma safe_eval_exact: "safe_eval lib e = Inr z \<Longrightarrow> int_value e = Some k \<Longrightarrow> z = PInt k"
proof (induction e arbitrary: z k)
  case (E_Const c)
  then show ?case by (cases c rule: constant_value.cases) auto
next
  case (E_Unary u e)
  from E_Unary.prems show ?case by (auto simp: and_then_Inr dest!: E_Unary.IH split: unop.splits)
next
  case (E_Bin l b r)
  obtain m n where mn: "int_value l = Some m" "int_value r = Some n" using operands [OF E_Bin.prems(2)] .
  obtain x y where "safe_eval lib l = Inr x" "safe_eval lib r = Inr y" "safe_op lib b x y = Inr z"
    using E_Bin.prems(1) by (auto simp: and_then_Inr split: binop.splits)
  with E_Bin.IH mn have "arith lib b (PInt m) (PInt n) = Inr z" by (auto dest: safe_op_Inr)
  with arith_int [OF E_Bin.prems(2) mn] show ?case by simp
qed simp

section \<open>The magnitude limit\<close>

fun constants :: "expr \<Rightarrow> pynum list" where
  "constants (E_Const (K_Num x)) = [x]"
| "constants (E_Unary u e) = constants e"
| "constants (E_Bin l b r) = constants l @ constants r"
| "constants _ = []"

lemma num_neg_neg [simp]: "num_neg (num_neg x) = x"
proof -
  have "float_neg (float_neg y) = y" for y by (cases y) simp_all
  then show ?thesis by (cases x) simp_all
qed

lemma evaluate_bounded:
  "evaluate lib e = Inr z \<Longrightarrow> \<forall>x \<in> set (constants e). \<not> abs_gt x max_abs_value \<Longrightarrow>
     \<not> abs_gt z max_abs_value \<and> \<not> is_complex z"
proof (induction e arbitrary: z)
  case (E_Const c)
  then show ?case by (cases c rule: constant_value.cases) auto
next
  case (E_Unary u e)
  have "is_complex (num_neg x) = is_complex x" for x by (cases x) simp_all
  with E_Unary show ?case by (auto simp: and_then_Inr abs_gt_def split: unop.splits)
next
  case (E_Bin l b r)
  then show ?case by (auto simp: and_then_Inr checked_op_def split: binop.splits if_splits)
qed simp

text \<open>The expressions whose intermediate results stay within the limits of the first calculator.\<close>

fun within_limits :: "expr \<Rightarrow> bool" where
  "within_limits (E_Unary u e) = within_limits e"
| "within_limits (E_Bin l b r) =
     (within_limits l \<and> within_limits r \<and>
      (case int_value (E_Bin l b r) of None \<Rightarrow> True | Some k \<Rightarrow> \<not> abs_gt (PInt k) max_abs_value) \<and>
      (case int_value r of None \<Rightarrow> True | Some n \<Rightarrow> b = B_Pow \<longrightarrow> n \<le> 500))"
| "within_limits _ = True"

lemma evaluate_complete: "int_value e = Some k \<Longrightarrow> within_limits e \<Longrightarrow> evaluate lib e = Inr (PInt k)"
proof (induction e arbitrary: k)
  case (E_Const c)
  then show ?case by (cases c rule: constant_value.cases) auto
next
  case (E_Unary u e)
  then show ?case by (auto split: unop.splits)
next
  case (E_Bin l b r)
  obtain m n where mn: "int_value l = Some m" "int_value r = Some n" using operands [OF E_Bin.prems(1)] .
  have "arith lib b (PInt m) (PInt n) = Inr (PInt k)" by (rule arith_int [OF E_Bin.prems(1) mn])
  moreover have "\<not> abs_gt (PInt k) max_abs_value" "b = B_Pow \<longrightarrow> 0 \<le> n \<and> n \<le> 500" "divides b \<longrightarrow> n \<noteq> 0"
    using E_Bin.prems mn by (auto simp: divides_def split: if_splits)
  ultimately have "checked_op lib b (PInt m) (PInt n) = Inr (PInt k)"
    by (auto simp: checked_op_def abs_gt_def max_exponent_def)
  moreover have "\<forall>s. b \<noteq> B_Other s" using E_Bin.prems(1) mn by auto
  ultimately show ?case
    using E_Bin.IH(1) [OF mn(1)] E_Bin.IH(2) [OF mn(2)] E_Bin.prems(2) by (cases b) simp_all
qed simp

lemma max_abs_value_big: "10 ^ 99 \<le> max_abs_value"
  by code_simp

text \<open>
  C24. Both calculators compute integer arithmetic exactly: whatever they return for an
  expression that has an integer value is that value, and the first one returns it whenever the
  intermediate results stay within its limits.
\<close>

theorem calculators_exact:
  assumes "int_value e = Some k"
  shows "evaluate lib e \<in> {Inr (PInt k)} \<union> range Inl \<and> safe_eval lib e \<in> {Inr (PInt k)} \<union> range Inl \<and>
     (within_limits e \<longrightarrow> evaluate lib e = Inr (PInt k))"
proof (intro conjI impI)
  show "evaluate lib e \<in> {Inr (PInt k)} \<union> range Inl"
    using evaluate_exact [OF _ assms] by (cases "evaluate lib e") auto
  show "safe_eval lib e \<in> {Inr (PInt k)} \<union> range Inl"
    using safe_eval_exact [OF _ assms] by (cases "safe_eval lib e") auto
qed (rule evaluate_complete [OF assms])

text \<open>
  The first calculator keeps its magnitude: when no constant of the expression exceeds
  \<open>1e100\<close>, neither does a number it returns, which is never complex.
\<close>

theorem calculator_bounded:
  assumes "li_parse lib (py_strip s) = Inr e" and "\<forall>x \<in> set (constants e). \<not> abs_gt x max_abs_value"
    and "calculate_handler lib (JStr s) = Inr z"
  shows "\<not> abs_gt z max_abs_value \<and> \<not> is_complex z"
proof -
  have "evaluate lib e = Inr z"
    using assms(1,3) by (auto simp: calculate_handler_def parsed_def Let_def split: if_splits)
  from evaluate_bounded [OF this assms(2)] show ?thesis .
qed

text \<open>Powers nested to the left.\<close>

fun tower :: "nat \<Rightarrow> expr" where
  "tower 0 = E_Const (K_Num (PInt 9))"
| "tower (Suc n) = E_Bin (tower n) B_Pow (E_Const (K_Num (PInt 1000)))"

lemma tower_refused:
  "evaluate lib (tower (Suc n)) = Inl (ValueErrorE ''Calculation result exceeds maximum allowed magnitude'')"
  by (induction n) (simp_all add: checked_op_def abs_gt_def max_exponent_def divides_def)

text \<open>
  The calculator of the handlers has no such limit: an expression of nested powers, whose
  text grows by a few characters a level, makes it compute a power whose exponent is multiplied
  by a thousand each time, while the first calculator refuses it at once.
\<close>

theorem nested_powers_unbounded:
  "safe_eval lib (tower n) = Inr (PInt (9 ^ 1000 ^ n)) \<and>
   evaluate lib (tower (Suc n)) = Inl (ValueErrorE ''Calculation result exceeds maximum allowed magnitude'')"
proof (rule conjI [OF _ tower_refused])
  show "safe_eval lib (tower n) = Inr (PInt (9 ^ 1000 ^ n))"
  proof (induction n)
    case (Suc n)
    have "(9 ^ 1000 ^ n) ^ 1000 = (9 :: int) ^ 1000 ^ Suc n"
      by (simp only: power_mult [symmetric] power_Suc mult.commute)
    then show ?case
      by (simp only: tower.simps safe_eval.simps binop.case Suc constant_value.simps and_then_simps)
        (simp add: safe_op_def divides_def max_exponent_def int_pow_def)
  qed simp
qed

section \<open>Text statistics\<close>

lemma concat_py_split: "concat (py_split s) = filter (\<lambda>c. \<not> py_isspace c) s"
proof (induction s rule: py_split.induct)
  case (1 s)
  let ?t = "dropWhile py_isspace s"
  have t: "filter (\<lambda>c. \<not> py_isspace c) s = filter (\<lambda>c. \<not> py_isspace c) ?t" by (induction s) auto
  have parts: "filter (\<lambda>c. \<not> py_isspace c) u = takeWhile (\<lambda>c. \<not> py_isspace c) u @
      filter (\<lambda>c. \<not> py_isspace c) (dropWhile (\<lambda>c. \<not> py_isspace c) u)" for u
    by (induction u) auto
  show ?case
  proof (cases "?t = []")
    case True
    then show ?thesis using t by (simp add: py_split.simps [of s])
  next
    case False
    then show ?thesis using 1 [OF refl] t parts [of ?t] by (auto simp: py_split.simps [of s] Let_def)
  qed
qed

lemma concat_split_lines: "(cr \<longrightarrow> acc = []) \<Longrightarrow>
    concat (split_lines cr acc s) = acc @ filter (\<lambda>c. \<not> line_break c) s"
  by (induction cr acc s rule: split_lines.induct) (auto simp: line_break_def)

lemma length_split_lines: "length (split_lines cr acc s) \<le> Suc (length (filter line_break s))"
  by (induction cr acc s rule: split_lines.induct) auto

text \<open>
  What \<open>text_stats\<close> counts: all characters, those that are not white space, and lines, of which
  there is at most one more than there are line breaks; the lines hold all other characters.
\<close>

lemma text_stats_counts:
  "\<exists>w l. text_stats_handler (JStr s) = Inr [(''character_count'', JInt (int (length s))),
     (''character_count_no_spaces'', JInt (int (length (filter (\<lambda>c. \<not> py_isspace c) s)))),
     (''word_count'', JInt w), (''line_count'', JInt (int l))] \<and> l \<le> Suc (length (filter line_break s)) \<and>
     concat (split_lines False [] s) = filter (\<lambda>c. \<not> line_break c) s"
proof -
  have "concat (split_lines False [] s) = filter (\<lambda>c. \<not> line_break c) s" by (simp add: concat_split_lines)
  then show ?thesis
    using length_split_lines [of False "[]" s]
    by (auto simp: text_stats_handler_def Let_def concat_py_split)
qed

section \<open>The registries\<close>

lemmas tool_defs = create_calculator_tool_def create_current_time_tool_def create_text_stats_tool_def
  create_handlers_calculator_tool_def create_customer_lookup_tool_def create_weather_lookup_tool_def
  create_tool_def object_schema_def string_param_def choice_param_def calculator_parameters_def
  current_time_parameters_def text_stats_parameters_def function_handler_def





section \<open>Witnesses\<close>

text \<open>A parser that knows one expression, and a JSON decoder that knows one document.\<close>

definition sample_expr :: expr where
  "sample_expr = E_Bin (E_Bin (E_Const (K_Num (PInt 15))) B_Mult (E_Const (K_Num (PInt 4)))) B_Add
     (E_Unary U_Neg (E_Bin (E_Const (K_Num (PInt 7))) B_FloorDiv (E_Const (K_Num (PInt 2)))))"

definition sample_library :: library where
  "sample_library = \<lparr>li_parse = (\<lambda>s. if s = ''(15 * 4) + -(7 // 2)'' then Inr sample_expr
       else Inl (HandlerError ''SyntaxError'' ''invalid syntax'')),
     li_pow = (\<lambda>x y. Inr (PFloat NaN)), li_complex = (\<lambda>b x y. Inr x), li_now = (\<lambda>z. None),
     li_digest = length, li_title = id, li_repr = (\<lambda>d z. ''?'')\<rparr>"



lemma within_sample: "\<bar>k\<bar> \<le> 1000 \<Longrightarrow> \<not> abs_gt (PInt k) max_abs_value"
proof -
  assume "\<bar>k\<bar> \<le> 1000"
  then have "rat_of_int k \<le> 1000" "rat_of_int (- k) \<le> 1000"
    by (metis abs_le_iff of_int_le_iff of_int_numeral)+
  moreover have "1000 \<le> max_abs_value" by (rule order_trans [OF _ max_abs_value_big]) simp
  ultimately show ?thesis by (simp add: abs_gt_def)
qed

lemma sample_value: "int_value sample_expr = Some 57"
  by (simp add: sample_expr_def)

lemma calculators_exact_witness: "evaluate sample_library sample_expr = Inr (PInt 57)"
proof -
  have "within_limits sample_expr" by (simp add: sample_expr_def within_sample)
  with calculators_exact [OF sample_value] show ?thesis by blast
qed

lemma sample_calculated: "calculate_handler sample_library (JStr ''(15 * 4) + -(7 // 2)'') = Inr (PInt 57)"
proof -
  have e: "evaluate sample_library sample_expr = Inr (PInt 57)"
    by (rule evaluate_complete [OF sample_value]) (simp add: sample_expr_def within_sample)
  show ?thesis
    by (simp add: calculate_handler_def parsed_def py_strip_def py_lstrip_def py_rstrip_def py_isspace_def
        max_expression_length_def Let_def) (simp add: sample_library_def e [unfolded sample_library_def])
qed

lemma calculator_bounded_witness: "\<not> abs_gt (PInt 57) max_abs_value \<and> \<not> is_complex (PInt 57)"
proof (rule calculator_bounded [OF _ _ sample_calculated])
  show "li_parse sample_library (py_strip ''(15 * 4) + -(7 // 2)'') = Inr sample_expr"
    by (simp add: sample_library_def py_strip_def py_lstrip_def py_rstrip_def py_isspace_def)
qed (simp add: sample_expr_def within_sample)


end
