(* ===== verification/Events.thy ===== *)
theory Events
  imports Contracts
begin

text \<open>
  The event envelope and its payloads (xymphony_contracts/events.py), the session context
  with its counters and set of cancelled turns (xymphony_runtime/context.py), and the
  builders that stamp a payload with the context (xymphony_runtime/dispatch.py).
\<close>

section \<open>Payloads\<close>

record text_range =
  rg_start :: int
  rg_end :: int

definition check_text_range :: "text_range \<Rightarrow> text_range result" where
  "check_text_range r =
     (if rg_start r < 0 then Inl (ValidationError ''start'')
      else if rg_end r < 0 then Inl (ValidationError ''end'')
      else if rg_end r < rg_start r then Inl (ValidationError ''text range end must be >= start'')
      else Inr r)"

datatype payload =
    AudioFramePayload string string int "string option"
  | UserSpeechStartedPayload "rat option"
  | UserSpeechEndedPayload int
  | TranscriptFramePayload string bool int int "rat option"
  | LLMTokenPayload string
  | LLMResponsePayload string string "usage option"
  | TTSChunkPayload string "text_range option"
  | AgentInterruptedPayload uuid interrupt_reason string string
  | ErrorPayload string string bool
  | SessionStartedPayload
  | SessionEndedPayload string

definition confidence_ok :: "rat option \<Rightarrow> bool" where
  "confidence_ok c = (case c of None \<Rightarrow> True | Some x \<Rightarrow> 0 \<le> x \<and> x \<le> 1)"

definition between_len :: "nat \<Rightarrow> nat \<Rightarrow> string \<Rightarrow> bool" where
  "between_len lo hi s \<longleftrightarrow> lo \<le> length s \<and> length s \<le> hi"

fun check_payload :: "payload \<Rightarrow> payload result" where
  "check_payload (AudioFramePayload track codec dur data_ref) =
     (if between_len 1 128 track \<and> between_len 1 64 codec \<and> 0 \<le> dur \<and> max_len_ok 1024 data_ref
      then Inr (AudioFramePayload track codec dur data_ref)
      else Inl (ValidationError ''AudioFramePayload''))"
| "check_payload (UserSpeechStartedPayload conf) =
     (if confidence_ok conf then Inr (UserSpeechStartedPayload conf)
      else Inl (ValidationError ''vad_confidence''))"
| "check_payload (UserSpeechEndedPayload dur) =
     (if 0 \<le> dur then Inr (UserSpeechEndedPayload dur) else Inl (ValidationError ''duration_ms''))"
| "check_payload (TranscriptFramePayload text fin st en conf) =
     (if st < 0 then Inl (ValidationError ''start_ms'')
      else if en < 0 then Inl (ValidationError ''end_ms'')
      else if \<not> confidence_ok conf then Inl (ValidationError ''confidence'')
      else if en < st then Inl (ValidationError ''end_ms must be >= start_ms'')
      else Inr (TranscriptFramePayload text fin st en conf))"
| "check_payload (LLMTokenPayload delta) = Inr (LLMTokenPayload delta)"
| "check_payload (LLMResponsePayload text finish u) =
     (if between_len 1 64 finish then Inr (LLMResponsePayload text finish u)
      else Inl (ValidationError ''finish_reason''))"
| "check_payload (TTSChunkPayload audio_ref rng) =
     (if between_len 1 1024 audio_ref then Inr (TTSChunkPayload audio_ref rng)
      else Inl (ValidationError ''audio_ref''))"
| "check_payload (AgentInterruptedPayload t reason played unplayed) =
     Inr (AgentInterruptedPayload t reason played unplayed)"
| "check_payload (ErrorPayload code message retryable) =
     (if \<not> between_len 1 128 code then Inl (ValidationError ''code'')
      else if \<not> between_len 1 4000 message then Inl (ValidationError ''message'')
      else Inr (ErrorPayload code message retryable))"
| "check_payload SessionStartedPayload = Inr SessionStartedPayload"
| "check_payload (SessionEndedPayload reason) =
     (if between_len 1 128 reason then Inr (SessionEndedPayload reason)
      else Inl (ValidationError ''reason''))"

text \<open>\<open>_PAYLOAD_BY_TYPE\<close>: the payload class of each event type, read from the payload side.\<close>

fun payload_event_type :: "payload \<Rightarrow> event_type" where
  "payload_event_type (AudioFramePayload _ _ _ _) = ET_AUDIO_FRAME"
| "payload_event_type (UserSpeechStartedPayload _) = ET_USER_SPEECH_STARTED"
| "payload_event_type (UserSpeechEndedPayload _) = ET_USER_SPEECH_ENDED"
| "payload_event_type (TranscriptFramePayload _ _ _ _ _) = ET_TRANSCRIPT_FRAME"
| "payload_event_type (LLMTokenPayload _) = ET_LLM_TOKEN"
| "payload_event_type (LLMResponsePayload _ _ _) = ET_LLM_RESPONSE"
| "payload_event_type (TTSChunkPayload _ _) = ET_TTS_CHUNK"
| "payload_event_type (AgentInterruptedPayload _ _ _ _) = ET_AGENT_INTERRUPTED"
| "payload_event_type (ErrorPayload _ _ _) = ET_ERROR"
| "payload_event_type SessionStartedPayload = ET_SESSION_STARTED"
| "payload_event_type (SessionEndedPayload _) = ET_SESSION_ENDED"

section \<open>The envelope\<close>

definition turn_scoped_event_types :: "event_type set" where
  "turn_scoped_event_types = {ET_AUDIO_FRAME, ET_USER_SPEECH_STARTED, ET_USER_SPEECH_ENDED,
     ET_TRANSCRIPT_FRAME, ET_LLM_TOKEN, ET_LLM_RESPONSE, ET_TTS_CHUNK, ET_AGENT_INTERRUPTED}"

definition stale_if_turn_cancelled :: "event_type set" where
  "stale_if_turn_cancelled = {ET_LLM_TOKEN, ET_LLM_RESPONSE, ET_TTS_CHUNK, ET_AUDIO_FRAME,
     ET_TRANSCRIPT_FRAME}"

record trace_context =
  tx_trace_id :: string
  tx_span_id :: string

record event =
  ev_id :: uuid
  ev_type :: event_type
  ev_timestamp :: time
  ev_session_id :: uuid
  ev_organization_id :: uuid
  ev_project_id :: uuid
  ev_agent_id :: uuid
  ev_agent_version_id :: uuid
  ev_deployment_id :: "uuid option"
  ev_turn_id :: "uuid option"
  ev_sequence :: int
  ev_source :: event_source
  ev_correlation_id :: uuid
  ev_causation_id :: "uuid option"
  ev_payload :: payload
  ev_metadata :: json_dict
  ev_schema_version :: int
  ev_trace :: "trace_context option"

definition payload_and_turn_rules :: "event \<Rightarrow> event result" where
  "payload_and_turn_rules e =
     (if payload_event_type (ev_payload e) \<noteq> ev_type e
      then Inl (ValidationError ''payload type does not match event type'')
      else if ev_type e \<in> turn_scoped_event_types \<and> ev_turn_id e = None
      then Inl (ValidationError ''requires turn_id (cancellation scope)'')
      else case ev_payload e of
             AgentInterruptedPayload t _ _ _ \<Rightarrow>
               if ev_type e = ET_AGENT_INTERRUPTED \<and> ev_turn_id e \<noteq> Some t
               then Inl (ValidationError ''AgentInterrupted.turn_id must equal payload.interrupted_turn_id'')
               else Inr e
           | _ \<Rightarrow> Inr e)"

definition check_event :: "event \<Rightarrow> event result" where
  "check_event e =
     (if ev_sequence e < 1 then Inl (ValidationError ''sequence'')
      else if ev_schema_version e < 1 then Inl (ValidationError ''schema_version'')
      else payload_and_turn_rules e)"

definition is_stale_for_cancelled_turns :: "event \<Rightarrow> uuid set \<Rightarrow> bool" where
  "is_stale_for_cancelled_turns e cancelled =
     (case ev_turn_id e of
        None \<Rightarrow> False
      | Some t \<Rightarrow> if ev_type e \<notin> stale_if_turn_cancelled then False else t \<in> cancelled)"

definition validate_sequence_monotonic :: "int list \<Rightarrow> bool" where
  "validate_sequence_monotonic xs =
     (if xs = [] \<or> hd xs < 1 then False
      else list_all (\<lambda>(earlier, later). later = earlier + 1) (zip xs (tl xs)))"

section \<open>The session context\<close>

record runtime_context =
  cx_session_id :: uuid
  cx_organization_id :: uuid
  cx_project_id :: uuid
  cx_agent_id :: uuid
  cx_agent_version_id :: uuid
  cx_config_hash :: string
  cx_deployment_id :: "uuid option"
  cx_channel :: channel
  cx_session_status :: session_status
  cx_shutdown :: bool
  cx_cancelled_turn_ids :: "uuid set"
  cx_sequence :: int
  cx_turn_sequence :: int

definition next_event_sequence :: "runtime_context \<Rightarrow> int \<times> runtime_context" where
  "next_event_sequence c = (let n = cx_sequence c + 1 in (n, c\<lparr>cx_sequence := n\<rparr>))"

definition next_turn_sequence :: "runtime_context \<Rightarrow> int \<times> runtime_context" where
  "next_turn_sequence c = (let n = cx_turn_sequence c + 1 in (n, c\<lparr>cx_turn_sequence := n\<rparr>))"

definition request_shutdown :: "runtime_context \<Rightarrow> runtime_context" where
  "request_shutdown c = c\<lparr>cx_shutdown := True\<rparr>"

definition context_cancel_turn :: "uuid \<Rightarrow> runtime_context \<Rightarrow> runtime_context" where
  "context_cancel_turn t c = c\<lparr>cx_cancelled_turn_ids := insert t (cx_cancelled_turn_ids c)\<rparr>"

definition is_turn_cancelled :: "runtime_context \<Rightarrow> uuid \<Rightarrow> bool" where
  "is_turn_cancelled c t \<longleftrightarrow> t \<in> cx_cancelled_turn_ids c"

section \<open>Event builders\<close>

text \<open>
  \<open>uid\<close> and \<open>now\<close> are the values \<open>uuid4()\<close> and \<open>datetime.now(UTC)\<close> return. The
  sequence number is drawn before the envelope is validated.
\<close>

definition build_event ::
  "uuid \<Rightarrow> time \<Rightarrow> event_type \<Rightarrow> payload \<Rightarrow> uuid option \<Rightarrow> event_source \<Rightarrow> runtime_context
     \<Rightarrow> event result \<times> runtime_context" where
  "build_event uid now ty p t src c =
     (let (n, c') = next_event_sequence c in
      (check_event \<lparr>ev_id = uid, ev_type = ty, ev_timestamp = now,
         ev_session_id = cx_session_id c, ev_organization_id = cx_organization_id c,
         ev_project_id = cx_project_id c, ev_agent_id = cx_agent_id c,
         ev_agent_version_id = cx_agent_version_id c, ev_deployment_id = cx_deployment_id c,
         ev_turn_id = t, ev_sequence = n, ev_source = src, ev_correlation_id = cx_session_id c,
         ev_causation_id = None, ev_payload = p, ev_metadata = [], ev_schema_version = 1, ev_trace = None\<rparr>, c'))"

text \<open>Each builder constructs (and so validates) its payload before \<open>build_event\<close> runs.\<close>

definition build_with ::
  "event_type \<Rightarrow> payload \<Rightarrow> uuid option \<Rightarrow> event_source \<Rightarrow> uuid \<Rightarrow> time \<Rightarrow> runtime_context
     \<Rightarrow> event result \<times> runtime_context" where
  "build_with ty p t src uid now c =
     (case check_payload p of Inl e \<Rightarrow> (Inl e, c) | Inr p' \<Rightarrow> build_event uid now ty p' t src c)"

type_synonym event_builder = "uuid \<Rightarrow> time \<Rightarrow> runtime_context \<Rightarrow> event result \<times> runtime_context"

definition session_started_event :: event_builder where
  "session_started_event = build_with ET_SESSION_STARTED SessionStartedPayload None SRC_SYSTEM"

definition session_ended_event :: "string \<Rightarrow> event_builder" where
  "session_ended_event reason = build_with ET_SESSION_ENDED (SessionEndedPayload reason) None SRC_SYSTEM"

definition user_speech_started_event :: "uuid \<Rightarrow> event_builder" where
  "user_speech_started_event t =
     build_with ET_USER_SPEECH_STARTED (UserSpeechStartedPayload None) (Some t) SRC_VAD"

definition user_speech_ended_event :: "uuid \<Rightarrow> int \<Rightarrow> event_builder" where
  "user_speech_ended_event t duration_ms =
     build_with ET_USER_SPEECH_ENDED (UserSpeechEndedPayload duration_ms) (Some t) SRC_VAD"

definition agent_interrupted_event :: "uuid \<Rightarrow> event_builder" where
  "agent_interrupted_event t =
     build_with ET_AGENT_INTERRUPTED (AgentInterruptedPayload t IR_USER_SPEECH '''' '''') (Some t) SRC_RUNTIME"

definition error_event :: "string \<Rightarrow> string \<Rightarrow> uuid option \<Rightarrow> bool \<Rightarrow> event_builder" where
  "error_event code msg t retryable =
     build_with ET_ERROR (ErrorPayload code msg retryable) t SRC_RUNTIME"

definition llm_token_event :: "uuid \<Rightarrow> string \<Rightarrow> event_builder" where
  "llm_token_event t delta = build_with ET_LLM_TOKEN (LLMTokenPayload delta) (Some t) SRC_LLM"

definition llm_response_event :: "uuid \<Rightarrow> string \<Rightarrow> string \<Rightarrow> usage option \<Rightarrow> event_builder" where
  "llm_response_event t text finish_reason u =
     build_with ET_LLM_RESPONSE (LLMResponsePayload text finish_reason u) (Some t) SRC_LLM"

definition transcript_frame_event ::
  "uuid \<Rightarrow> string \<Rightarrow> bool \<Rightarrow> int \<Rightarrow> int \<Rightarrow> rat option \<Rightarrow> event_builder" where
  "transcript_frame_event t text is_final start_ms end_ms confidence =
     build_with ET_TRANSCRIPT_FRAME
       (TranscriptFramePayload text is_final start_ms end_ms confidence) (Some t) SRC_STT"

definition tts_chunk_event :: "uuid \<Rightarrow> string \<Rightarrow> text_range option \<Rightarrow> event_builder" where
  "tts_chunk_event t audio_ref rng =
     build_with ET_TTS_CHUNK (TTSChunkPayload audio_ref rng) (Some t) SRC_TTS"

lemmas event_builder_defs = session_started_event_def session_ended_event_def
  user_speech_started_event_def user_speech_ended_event_def agent_interrupted_event_def
  error_event_def llm_token_event_def llm_response_event_def transcript_frame_event_def
  tts_chunk_event_def

section \<open>Facts about events\<close>

lemma check_payload_Inr: "check_payload p = Inr p' \<Longrightarrow> p' = p"
  by (cases p) (auto split: if_splits)

lemma check_event_Inr: "check_event e = Inr e' \<Longrightarrow> e' = e"
  by (auto simp: check_event_def payload_and_turn_rules_def split: if_splits payload.splits)

text \<open>
  A builder called with a matching payload and turn raises only when the payload itself is
  invalid, and then leaves the counter alone: no sequence number is lost to validation.
\<close>

definition builder_shape :: "event_type \<Rightarrow> payload \<Rightarrow> uuid option \<Rightarrow> bool" where
  "builder_shape ty p t \<longleftrightarrow> payload_event_type p = ty \<and> (ty \<in> turn_scoped_event_types \<longrightarrow> t \<noteq> None) \<and>
     (\<forall>u r a b. p = AgentInterruptedPayload u r a b \<longrightarrow> t = Some u)"

lemma build_event_ok:
  assumes "builder_shape ty p t" and "0 \<le> cx_sequence c"
  obtains e where "build_event uid now ty p t src c = (Inr e, c\<lparr>cx_sequence := cx_sequence c + 1\<rparr>)"
    and "ev_sequence e = cx_sequence c + 1" and "ev_type e = ty" and "ev_turn_id e = t"
    and "ev_payload e = p" and "ev_session_id e = cx_session_id c" and "ev_id e = uid"
proof -
  let ?e = "\<lparr>ev_id = uid, ev_type = ty, ev_timestamp = now,
         ev_session_id = cx_session_id c, ev_organization_id = cx_organization_id c,
         ev_project_id = cx_project_id c, ev_agent_id = cx_agent_id c,
         ev_agent_version_id = cx_agent_version_id c, ev_deployment_id = cx_deployment_id c,
         ev_turn_id = t, ev_sequence = cx_sequence c + 1, ev_source = src,
         ev_correlation_id = cx_session_id c,
         ev_causation_id = None, ev_payload = p, ev_metadata = [], ev_schema_version = 1, ev_trace = None\<rparr>"
  have "check_event ?e = Inr ?e"
    using assms by (cases p)
      (auto simp: check_event_def payload_and_turn_rules_def builder_shape_def)
  then have "build_event uid now ty p t src c = (Inr ?e, c\<lparr>cx_sequence := cx_sequence c + 1\<rparr>)"
    by (simp add: build_event_def next_event_sequence_def Let_def)
  then show thesis by (rule that) simp_all
qed

lemma build_with_cases:
  assumes "builder_shape ty p t" and "0 \<le> cx_sequence c"
  obtains (invalid) x where "build_with ty p t src uid now c = (Inl x, c)" and "check_payload p = Inl x"
  | (built) e where
    "build_with ty p t src uid now c = (Inr e, c\<lparr>cx_sequence := cx_sequence c + 1\<rparr>)"
    and "ev_sequence e = cx_sequence c + 1" and "ev_type e = ty" and "ev_turn_id e = t"
    and "ev_payload e = p" and "ev_session_id e = cx_session_id c" and "ev_id e = uid"
    and "check_payload p = Inr p"
proof (cases "check_payload p")
  case (Inl x)
  with invalid show thesis by (simp add: build_with_def)
next
  case (Inr p')
  then have p': "p' = p" by (rule check_payload_Inr)
  show thesis
    by (rule build_event_ok [OF assms, of uid now src]) (rule built, use Inr p' in \<open>auto simp: build_with_def\<close>)
qed

lemma consecutive_upto:
  "list_all (\<lambda>(earlier, later). later = earlier + 1) (zip (x # xs) xs) \<longleftrightarrow>
     xs = [x + 1 .. x + int (length xs)]"
proof (induction xs arbitrary: x)
  case Nil
  then show ?case by simp
next
  case (Cons y ys)
  have "[x + 1 .. x + int (length (y # ys))] = (x + 1) # [x + 1 + 1 .. x + 1 + int (length ys)]"
    using upto_rec1 [of "x + 1" "x + 1 + int (length ys)"] by (simp add: algebra_simps)
  with Cons.IH [of y] show ?case by auto
qed

lemma validate_sequence_monotonic_upto:
  "validate_sequence_monotonic xs \<longleftrightarrow>
     xs \<noteq> [] \<and> 1 \<le> hd xs \<and> xs = [hd xs .. hd xs + int (length xs) - 1]"
proof (cases xs)
  case Nil
  then show ?thesis by (simp add: validate_sequence_monotonic_def)
next
  case (Cons x ys)
  have "[x .. x + int (length ys)] = x # [x + 1 .. x + int (length ys)]"
    by (rule upto_rec1) simp
  with consecutive_upto [of x ys] Cons show ?thesis
    by (auto simp: validate_sequence_monotonic_def)
qed

end
