(* ===== verification/Turns.thy ===== *)
theory Turns
  imports Events
begin

text \<open>
  The in-process turn state machine (xymphony_runtime/turn.py) and the worker lifecycle
  states (xymphony_runtime/lifecycle.py): the transition table, the four operations, and
  the fact that a turn driven only through them is always a valid \<open>Turn\<close> contract.
\<close>

section \<open>Lifecycle states\<close>

datatype turn_state = T_CREATED | T_ACTIVE | T_COMPLETED | T_CANCELLED | T_FAILED

fun turn_state_value :: "turn_state \<Rightarrow> string" where
  "turn_state_value T_CREATED = ''created''"
| "turn_state_value T_ACTIVE = ''active''"
| "turn_state_value T_COMPLETED = ''completed''"
| "turn_state_value T_CANCELLED = ''cancelled''"
| "turn_state_value T_FAILED = ''failed''"

fun to_turn_status :: "turn_state \<Rightarrow> turn_status" where
  "to_turn_status T_CREATED = TS_IN_PROGRESS"
| "to_turn_status T_ACTIVE = TS_IN_PROGRESS"
| "to_turn_status T_COMPLETED = TS_COMMITTED"
| "to_turn_status T_CANCELLED = TS_CANCELLED"
| "to_turn_status T_FAILED = TS_FAILED"

definition is_terminal :: "turn_state \<Rightarrow> bool" where
  "is_terminal st \<longleftrightarrow> st \<in> {T_COMPLETED, T_CANCELLED, T_FAILED}"

lemma is_terminal_simps [simp]:
  "\<not> is_terminal T_CREATED" "\<not> is_terminal T_ACTIVE"
  "is_terminal T_COMPLETED" "is_terminal T_CANCELLED" "is_terminal T_FAILED"
  by (simp_all add: is_terminal_def)

fun turn_allowed :: "turn_state \<Rightarrow> turn_state set" where
  "turn_allowed T_CREATED = {T_ACTIVE}"
| "turn_allowed T_ACTIVE = {T_COMPLETED, T_CANCELLED, T_FAILED}"
| "turn_allowed _ = {}"

datatype lifecycle_state =
  L_INITIALIZING | L_CONNECTING | L_CONNECTED | L_STOPPING | L_STOPPED | L_FAILED

fun to_session_status :: "lifecycle_state \<Rightarrow> session_status option" where
  "to_session_status L_INITIALIZING = Some SS_INITIALIZING"
| "to_session_status L_CONNECTED = Some SS_ACTIVE"
| "to_session_status L_STOPPED = Some SS_TERMINATED"
| "to_session_status L_FAILED = Some SS_FAILED"
| "to_session_status _ = None"

section \<open>Turns\<close>

record runtime_turn =
  rt_id :: uuid
  rt_session_id :: uuid
  rt_organization_id :: uuid
  rt_sequence :: int
  rt_state :: turn_state
  rt_started_at :: time
  rt_ended_at :: "time option"
  rt_interrupted :: bool
  rt_error_code :: "string option"

definition create_turn :: "uuid \<Rightarrow> uuid \<Rightarrow> uuid \<Rightarrow> int \<Rightarrow> time \<Rightarrow> runtime_turn" where
  "create_turn turn_id session_id organization_id sequence now =
     \<lparr>rt_id = turn_id, rt_session_id = session_id, rt_organization_id = organization_id,
      rt_sequence = sequence, rt_state = T_CREATED, rt_started_at = now, rt_ended_at = None,
      rt_interrupted = False, rt_error_code = None\<rparr>"

definition turn_transition :: "turn_state \<Rightarrow> (runtime_turn, unit) eff" where
  "turn_transition target t =
     (if is_terminal (rt_state t)
      then (Inl (InvalidStateTransition (''cannot leave terminal state '' @ turn_state_value (rt_state t))), t)
      else if target \<notin> turn_allowed (rt_state t)
      then (Inl (InvalidStateTransition (''cannot transition '' @ turn_state_value (rt_state t) @ '' -> ''
              @ turn_state_value target)), t)
      else (Inr (), t\<lparr>rt_state := target\<rparr>))"

definition turn_activate :: "(runtime_turn, unit) eff" where
  "turn_activate = turn_transition T_ACTIVE"

definition turn_complete :: "time \<Rightarrow> (runtime_turn, unit) eff" where
  "turn_complete now =
     then_eff (turn_transition T_COMPLETED) (modify_eff (\<lambda>t. t\<lparr>rt_ended_at := Some now\<rparr>))"

definition turn_cancel :: "bool \<Rightarrow> time \<Rightarrow> (runtime_turn, unit) eff" where
  "turn_cancel interrupted now =
     then_eff (turn_transition T_CANCELLED)
       (modify_eff (\<lambda>t. t\<lparr>rt_interrupted := interrupted, rt_ended_at := Some now\<rparr>))"

definition turn_fail :: "string \<Rightarrow> time \<Rightarrow> (runtime_turn, unit) eff" where
  "turn_fail error_code now =
     then_eff (turn_transition T_FAILED)
       (modify_eff (\<lambda>t. t\<lparr>rt_error_code := Some error_code, rt_ended_at := Some now\<rparr>))"

definition to_contract :: "runtime_turn \<Rightarrow> turn result" where
  "to_contract t = check_turn \<lparr>tn_id = rt_id t, tn_session_id = rt_session_id t,
     tn_organization_id = rt_organization_id t, tn_sequence = rt_sequence t,
     tn_status = to_turn_status (rt_state t), tn_started_at = rt_started_at t,
     tn_ended_at = rt_ended_at t, tn_interrupted = rt_interrupted t\<rparr>"

section \<open>Every operation sequence leaves a valid contract\<close>

datatype turn_op = OpActivate | OpComplete time | OpCancel bool time | OpFail string time

fun turn_apply :: "turn_op \<Rightarrow> (runtime_turn, unit) eff" where
  "turn_apply OpActivate = turn_activate"
| "turn_apply (OpComplete now) = turn_complete now"
| "turn_apply (OpCancel i now) = turn_cancel i now"
| "turn_apply (OpFail c now) = turn_fail c now"

text \<open>A caller may catch the error and go on, so a run continues after a raise.\<close>

fun turn_run :: "turn_op list \<Rightarrow> runtime_turn \<Rightarrow> runtime_turn" where
  "turn_run [] t = t"
| "turn_run (x # xs) t = turn_run xs (snd (turn_apply x t))"

definition turn_ok :: "runtime_turn \<Rightarrow> bool" where
  "turn_ok t \<longleftrightarrow> (is_terminal (rt_state t) \<longleftrightarrow> rt_ended_at t \<noteq> None) \<and>
     (rt_interrupted t \<longrightarrow> rt_state t = T_CANCELLED) \<and>
     (rt_error_code t \<noteq> None \<longleftrightarrow> rt_state t = T_FAILED)"

lemmas turn_op_defs = turn_activate_def turn_complete_def turn_cancel_def turn_fail_def
  turn_transition_def eff_defs

lemma turn_ok_create: "turn_ok (create_turn i s g n now)"
  by (simp add: turn_ok_def create_turn_def)

lemma turn_apply_ok: "turn_ok t \<Longrightarrow> turn_ok (snd (turn_apply x t))"
  by (cases x; cases "rt_state t") (auto simp: turn_op_defs turn_ok_def)

lemma turn_run_ok: "turn_ok t \<Longrightarrow> turn_ok (turn_run xs t)"
  by (induction xs arbitrary: t) (auto intro: turn_apply_ok)

lemma turn_apply_ids:
  "rt_id (snd (turn_apply x t)) = rt_id t" "rt_sequence (snd (turn_apply x t)) = rt_sequence t"
  by (cases x; cases "rt_state t"; simp add: turn_op_defs)+

lemma turn_run_ids: "rt_id (turn_run xs t) = rt_id t \<and> rt_sequence (turn_run xs t) = rt_sequence t"
  by (induction xs arbitrary: t) (auto simp: turn_apply_ids)

lemma turn_ok_to_contract:
  assumes "turn_ok t" and "1 \<le> rt_sequence t"
  obtains c where "to_contract t = Inr c" and "tn_status c = to_turn_status (rt_state t)"
proof
  show "to_contract t = Inr \<lparr>tn_id = rt_id t, tn_session_id = rt_session_id t,
     tn_organization_id = rt_organization_id t, tn_sequence = rt_sequence t,
     tn_status = to_turn_status (rt_state t), tn_started_at = rt_started_at t,
     tn_ended_at = rt_ended_at t, tn_interrupted = rt_interrupted t\<rparr>"
    unfolding to_contract_def check_turn_Inr
    using assms by (cases "rt_state t") (auto simp: turn_ok_def)
qed simp

lemma turn_apply_terminal:
  assumes "is_terminal (rt_state t)"
  shows "\<exists>m. turn_apply x t = (Inl (InvalidStateTransition m), t)"
  using assms by (cases x) (auto simp: turn_op_defs)

lemma turn_run_terminal: "is_terminal (rt_state t) \<Longrightarrow> turn_run xs t = t"
proof (induction xs)
  case (Cons x xs)
  then obtain m where "turn_apply x t = (Inl (InvalidStateTransition m), t)"
    using turn_apply_terminal by blast
  with Cons show ?case by simp
qed simp

lemma turn_run_append: "turn_run (xs @ ys) t = turn_run ys (turn_run xs t)"
  by (induction xs arbitrary: t) simp_all

text \<open>
  C25. However the operations of a freshly created turn are called, in any order and with
  any errors caught, the turn converts to a valid \<open>Turn\<close> contract (an ended turn has its
  end time, only a cancelled one is interrupted), and once terminal it never changes again.
\<close>

theorem turn_run_valid_contract:
  assumes "1 \<le> n"
  shows "(\<exists>c. to_contract (turn_run xs (create_turn i s g n now)) = Inr c \<and>
            tn_id c = i \<and> tn_sequence c = n) \<and>
     (is_terminal (rt_state (turn_run xs (create_turn i s g n now))) \<longrightarrow>
        turn_run (xs @ ys) (create_turn i s g n now) = turn_run xs (create_turn i s g n now))"
proof
  let ?t = "create_turn i s g n now"
  have ids: "rt_id (turn_run xs ?t) = i \<and> rt_sequence (turn_run xs ?t) = n"
    using turn_run_ids [of xs ?t] by (simp add: create_turn_def)
  then obtain c where c: "to_contract (turn_run xs ?t) = Inr c"
    using turn_ok_to_contract [of "turn_run xs ?t"] turn_run_ok [OF turn_ok_create] assms by metis
  then have "tn_id c = i \<and> tn_sequence c = n"
    using ids by (auto simp: to_contract_def check_turn_Inr)
  with c show "\<exists>c. to_contract (turn_run xs ?t) = Inr c \<and> tn_id c = i \<and> tn_sequence c = n"
    by blast
  show "is_terminal (rt_state (turn_run xs ?t)) \<longrightarrow> turn_run (xs @ ys) ?t = turn_run xs ?t"
    by (simp add: turn_run_append turn_run_terminal)
qed

theorem turn_run_valid_contract_witness:
  "(\<exists>c. to_contract (turn_run [OpActivate, OpCancel True 9] (create_turn 5 1 2 1 7)) = Inr c \<and>
      tn_id c = 5 \<and> tn_sequence c = 1) \<and>
   turn_run ([OpActivate, OpCancel True 9] @ [OpComplete 10]) (create_turn 5 1 2 1 7) =
     turn_run [OpActivate, OpCancel True 9] (create_turn 5 1 2 1 7)"
proof -
  have "is_terminal (rt_state (turn_run [OpActivate, OpCancel True 9] (create_turn 5 1 2 1 7)))"
    by (simp add: turn_op_defs create_turn_def)
  with turn_run_valid_contract [of 1 "[OpActivate, OpCancel True 9]" 5 1 2 7 "[OpComplete 10]"]
  show ?thesis by blast
qed

end
