(* ===== verification/Conversation.thy ===== *)
theory Conversation
  imports Turns
begin

text \<open>
  Conversation messages and their translation to language-model messages
  (xymphony_runtime/conversation.py).
\<close>

definition text_content_part :: "string \<Rightarrow> content_part" where
  "text_content_part text =
     \<lparr>cp_type = CP_TEXT, cp_payload = [(''text'', JStr text)], cp_metadata = []\<rparr>"

definition build_text_message ::
  "uuid \<Rightarrow> time \<Rightarrow> uuid \<Rightarrow> uuid \<Rightarrow> uuid \<Rightarrow> message_role \<Rightarrow> string \<Rightarrow> message result" where
  "build_text_message uid now session_id turn_id organization_id role text =
     check_message \<lparr>ms_id = uid, ms_session_id = session_id, ms_turn_id = turn_id,
       ms_organization_id = organization_id, ms_role = role, ms_status = MS_COMMITTED,
       ms_parts = [text_content_part text], ms_created_at = now, ms_metadata = []\<rparr>"

fun text_parts :: "content_part list \<Rightarrow> string list" where
  "text_parts [] = []"
| "text_parts (p # ps) =
     (if cp_type p \<noteq> CP_TEXT then text_parts ps
      else case map_of (cp_payload p) ''text'' of
             Some (JStr t) \<Rightarrow> if t \<noteq> [] then t # text_parts ps else text_parts ps
           | _ \<Rightarrow> text_parts ps)"

definition message_text :: "message \<Rightarrow> string option" where
  "message_text m =
     (let parts = text_parts (ms_parts m) in if parts = [] then None else Some (concat parts))"

definition message_sequence :: "message \<Rightarrow> int option \<Rightarrow> int option" where
  "message_sequence m fallback =
     (case map_of (ms_metadata m) ''sequence'' of Some (JInt n) \<Rightarrow> Some n | _ \<Rightarrow> fallback)"

fun llm_role_of :: "message_role \<Rightarrow> llm_role option" where
  "llm_role_of MR_USER = Some LR_USER"
| "llm_role_of MR_ASSISTANT = Some LR_ASSISTANT"
| "llm_role_of MR_SYSTEM = Some LR_SYSTEM"
| "llm_role_of MR_TOOL = None"

definition message_to_llm :: "message \<Rightarrow> llm_message option result" where
  "message_to_llm m =
     (case message_text m of
        None \<Rightarrow> Inr None
      | Some text \<Rightarrow>
          (case llm_role_of (ms_role m) of
             None \<Rightarrow> Inr None
           | Some r \<Rightarrow> map_sum id Some (check_llm_message (llm_text_message r text))))"

fun committed_messages_to_llm :: "message list \<Rightarrow> llm_message list result" where
  "committed_messages_to_llm [] = Inr []"
| "committed_messages_to_llm (m # ms) =
     (if ms_status m \<noteq> MS_COMMITTED then committed_messages_to_llm ms
      else case message_to_llm m of
             Inl e \<Rightarrow> Inl e
           | Inr conv \<Rightarrow>
               (case committed_messages_to_llm ms of
                  Inl e \<Rightarrow> Inl e
                | Inr rest \<Rightarrow> Inr (case conv of None \<Rightarrow> rest | Some l \<Rightarrow> l # rest)))"

section \<open>Facts\<close>

lemma build_text_message_Inr [simp]:
  "build_text_message uid now s t g r text = Inr \<lparr>ms_id = uid, ms_session_id = s, ms_turn_id = t,
       ms_organization_id = g, ms_role = r, ms_status = MS_COMMITTED,
       ms_parts = [text_content_part text], ms_created_at = now, ms_metadata = []\<rparr>"
  by (simp add: build_text_message_def check_message_def)

lemma text_parts_nonempty: "t \<in> set (text_parts ps) \<Longrightarrow> t \<noteq> []"
  by (induction ps) (auto split: if_splits option.splits json.splits)

lemma message_text_nonempty: "message_text m = Some t \<Longrightarrow> t \<noteq> []"
  using text_parts_nonempty [of "hd (text_parts (ms_parts m))" "ms_parts m"]
  by (cases "text_parts (ms_parts m)") (auto simp: message_text_def Let_def)

lemma message_text_build:
  "build_text_message uid now s t g r text = Inr m \<Longrightarrow>
     message_text m = (if text = [] then None else Some text)"
  by (auto simp: message_text_def text_content_part_def)

lemma message_to_llm_Some:
  assumes "message_to_llm m = Inr (Some l)"
  shows "message_text m = Some (lm_content l)" and "llm_role_of (ms_role m) = Some (lm_role l)"
    and "lm_tool_calls l = []" and "lm_role l \<noteq> LR_TOOL"
  using assms by (cases "ms_role m"; auto simp: message_to_llm_def check_llm_message_def
      llm_text_message_def split: option.splits if_splits)+

lemma committed_messages_to_llm_Inr:
  assumes "committed_messages_to_llm ms = Inr ls" and "l \<in> set ls"
  shows "\<exists>m \<in> set ms. ms_status m = MS_COMMITTED \<and> message_to_llm m = Inr (Some l)"
  using assms
proof (induction ms arbitrary: ls)
  case (Cons m ms)
  then show ?case
    by (cases "ms_status m"; cases "message_to_llm m")
      (fastforce split: sum.splits option.splits if_splits)+
qed simp

lemma committed_messages_to_llm_append:
  "committed_messages_to_llm (xs @ ys) =
     (case committed_messages_to_llm xs of Inl e \<Rightarrow> Inl e
      | Inr a \<Rightarrow> (case committed_messages_to_llm ys of Inl e \<Rightarrow> Inl e | Inr b \<Rightarrow> Inr (a @ b)))"
  by (induction xs) (auto split: sum.splits option.splits)

text \<open>
  A text exchange written to the history is read back by the language model unchanged:
  a non-empty user or assistant text of at most 32000 characters, stored as a message and
  converted with the rest of the history, is the last message of the converted history,
  with the same role and text.
\<close>

theorem text_message_roundtrip:
  assumes "build_text_message uid now s t g r text = Inr m"
    and "r = MR_USER \<or> r = MR_ASSISTANT" and "text \<noteq> []" and "length text \<le> 32000"
    and "committed_messages_to_llm hist = Inr ls"
  shows "committed_messages_to_llm (hist @ [m]) =
     Inr (ls @ [llm_text_message (if r = MR_USER then LR_USER else LR_ASSISTANT) text])"
proof -
  have "message_text m = Some text" using message_text_build [OF assms(1)] assms(3) by simp
  moreover have "ms_role m = r" "ms_status m = MS_COMMITTED" using assms(1) by auto
  ultimately have "message_to_llm m =
      Inr (Some (llm_text_message (if r = MR_USER then LR_USER else LR_ASSISTANT) text))"
    using assms(2,4) by (auto simp: message_to_llm_def check_llm_message_def llm_text_message_def)
  with \<open>ms_status m = MS_COMMITTED\<close> assms(5) show ?thesis
    by (simp add: committed_messages_to_llm_append)
qed

theorem text_message_roundtrip_witness:
  "\<exists>m. build_text_message 1 2 3 4 5 MR_USER ''hello'' = Inr m \<and>
     committed_messages_to_llm ([] @ [m]) = Inr ([] @ [llm_text_message LR_USER ''hello''])"
proof -
  obtain m where m: "build_text_message 1 2 3 4 5 MR_USER ''hello'' = Inr m" by simp
  have "committed_messages_to_llm ([] @ [m]) =
      Inr ([] @ [llm_text_message (if MR_USER = MR_USER then LR_USER else LR_ASSISTANT) ''hello''])"
    by (rule text_message_roundtrip [OF m]) simp_all
  with m show ?thesis by simp
qed

end
