(* ===== verification/Budget.thy ===== *)
theory Budget
  imports Conversation
begin

text \<open>
  Context budgeting and request assembly: the token estimate (token_estimate.py), the
  system prompt and the history selection (context_budget.py), and the assembler with its
  soft-fail ladder (llm_context.py, llm_config.py).
\<close>

section \<open>Estimate and system prompt\<close>

definition approximate_token_count :: "string \<Rightarrow> int" where
  "approximate_token_count text =
     (if text = [] then 0 else max 1 ((int (length text) + 3) div 4))"

definition summary_section_header :: string where
  "summary_section_header = ''[Conversation summary]''"

definition knowledge_section_header :: string where
  "knowledge_section_header = ''[Retrieved context]''"

definition memory_section_header :: string where
  "memory_section_header = ''[Agent memory]''"

definition newline :: string where
  "newline = [CHR 0x0A]"

definition optional_section :: "string \<Rightarrow> string option \<Rightarrow> string list" where
  "optional_section header text =
     (case text of
        None \<Rightarrow> []
      | Some t \<Rightarrow> if t \<noteq> [] \<and> py_strip t \<noteq> [] then [header @ newline @ py_strip t] else [])"

definition build_system_prompt ::
  "string \<Rightarrow> string option \<Rightarrow> string option \<Rightarrow> string option \<Rightarrow> string" where
  "build_system_prompt instructions summary knowledge memory =
     py_join (newline @ newline)
       ((if py_strip instructions \<noteq> [] then [py_strip instructions] else []) @
        optional_section memory_section_header memory @
        optional_section summary_section_header summary @
        optional_section knowledge_section_header knowledge)"

definition build_system_with_summary :: "string \<Rightarrow> string option \<Rightarrow> string" where
  "build_system_with_summary instructions summary = build_system_prompt instructions summary None None"

section \<open>History selection\<close>

fun select_newest :: "(string \<Rightarrow> int) \<Rightarrow> int \<Rightarrow> llm_message list \<Rightarrow> llm_message list" where
  "select_newest est remaining [] = []"
| "select_newest est remaining (m # ms) =
     (if est (lm_content m) > remaining then []
      else m # select_newest est (remaining - est (lm_content m)) ms)"

definition select_history ::
  "(string \<Rightarrow> int) \<Rightarrow> llm_message list \<Rightarrow> string \<Rightarrow> string \<Rightarrow> int \<Rightarrow>
     string option \<Rightarrow> string option \<Rightarrow> string option \<Rightarrow> llm_message list result" where
  "select_history est history user_text instructions max_tokens summary knowledge memory =
     (if max_tokens < 1
      then Inl (ContextBudgetExceeded ''max_input_tokens must be a positive integer when budgeting is enabled'')
      else
        let system_tokens = est (build_system_prompt instructions summary knowledge memory) in
        if system_tokens > max_tokens
        then Inl (ContextBudgetExceeded
              (if \<not> str_truthy summary \<and> \<not> str_truthy knowledge \<and> \<not> str_truthy memory
               then ''system instructions exceed the configured context budget''
               else ''system instructions and context exceed the context budget''))
        else
          let remaining = max_tokens - system_tokens; user_tokens = est user_text in
          if user_tokens > remaining
          then Inl (ContextBudgetExceeded ''current user message exceeds the available context budget'')
          else Inr (rev (select_newest est (remaining - user_tokens) (rev history))))"

definition would_drop_history ::
  "(string \<Rightarrow> int) \<Rightarrow> llm_message list \<Rightarrow> string \<Rightarrow> string \<Rightarrow> int \<Rightarrow> bool result" where
  "would_drop_history est history user_text instructions max_tokens =
     map_sum id (\<lambda>selected. length selected < length history)
       (select_history est history user_text instructions max_tokens None None None)"

section \<open>Request assembly\<close>

record llm_runtime_config =
  lg_provider_key :: string
  lg_model :: string
  lg_system_instructions :: string
  lg_params :: json_dict
  lg_max_input_tokens :: "int option"
  lg_temperature :: "pyfloat option"
  lg_max_output_tokens :: "int option"
  lg_top_p :: "pyfloat option"
  lg_max_tool_iterations :: int

definition is_budget_error :: "exn \<Rightarrow> bool" where
  "is_budget_error e = (case e of ContextBudgetExceeded _ \<Rightarrow> True | _ \<Rightarrow> False)"

text \<open>\<open>try: r except ContextBudgetExceededError: handler\<close>.\<close>

definition except_budget :: "'a result \<Rightarrow> (exn \<Rightarrow> 'a result) \<Rightarrow> 'a result" where
  "except_budget r h = (case r of Inl e \<Rightarrow> if is_budget_error e then h e else Inl e | Inr a \<Rightarrow> Inr a)"

text \<open>
  The selection with its nested handlers; \<open>sel s k m\<close> is \<open>select_history\<close> on the
  converted history with the given sections. The result carries the history and the
  sections that survived (summary, knowledge, memory).
\<close>

type_synonym sections = "string option \<times> string option \<times> string option"

definition soft_fail ::
  "(string option \<Rightarrow> string option \<Rightarrow> string option \<Rightarrow> llm_message list result) \<Rightarrow>
     string option \<Rightarrow> string option \<Rightarrow> string option \<Rightarrow> (llm_message list \<times> sections) result" where
  "soft_fail sel summary knowledge memory =
     except_budget (map_sum id (\<lambda>h. (h, summary, knowledge, memory)) (sel summary knowledge memory))
       (\<lambda>e0.
          if memory \<noteq> None then
            except_budget (map_sum id (\<lambda>h. (h, summary, knowledge, None)) (sel summary knowledge None))
              (\<lambda>e1.
                 if knowledge \<noteq> None then
                   except_budget (map_sum id (\<lambda>h. (h, summary, None, None)) (sel summary None None))
                     (\<lambda>e2.
                        if summary \<noteq> None
                        then map_sum id (\<lambda>h. (h, None, None, None)) (sel None None None)
                        else Inl e2)
                 else if summary \<noteq> None
                 then map_sum id (\<lambda>h. (h, None, None, None)) (sel None None None)
                 else Inl e1)
          else if knowledge \<noteq> None then
            except_budget (map_sum id (\<lambda>h. (h, summary, None, None)) (sel summary None None))
              (\<lambda>e1.
                 if summary \<noteq> None
                 then map_sum id (\<lambda>h. (h, None, None, None)) (sel None None None)
                 else Inl e1)
          else if summary \<noteq> None
          then map_sum id (\<lambda>h. (h, None, None, None)) (sel None None None)
          else Inl e0)"

definition assemble ::
  "(string \<Rightarrow> int) \<Rightarrow> message list \<Rightarrow> string \<Rightarrow> llm_runtime_config \<Rightarrow>
     string option \<Rightarrow> string option \<Rightarrow> string option \<Rightarrow>
     llm_tool_definition list \<Rightarrow> llm_message list \<Rightarrow> llm_request result" where
  "assemble est history user_text config summary knowledge memory tools extra_messages =
     (case committed_messages_to_llm history of
        Inl e \<Rightarrow> Inl e
      | Inr llm_history \<Rightarrow>
          (case (case lg_max_input_tokens config of
                   None \<Rightarrow> Inr (llm_history, summary, knowledge, memory)
                 | Some n \<Rightarrow>
                     soft_fail (select_history est llm_history user_text (lg_system_instructions config) n)
                       summary knowledge memory) of
             Inl e \<Rightarrow> Inl e
           | Inr (selected, s, k, m) \<Rightarrow>
               (case check_llm_message (llm_text_message LR_USER user_text) of
                  Inl e \<Rightarrow> Inl e
                | Inr user_message \<Rightarrow>
                    check_llm_request
                      \<lparr>rq_provider_key = lg_provider_key config, rq_model = lg_model config,
                       rq_messages = selected @ [user_message] @ extra_messages,
                       rq_system = build_system_prompt (lg_system_instructions config) s k m,
                       rq_params = lg_params config, rq_tools = tools,
                       rq_temperature = lg_temperature config,
                       rq_max_output_tokens = lg_max_output_tokens config,
                       rq_top_p = lg_top_p config\<rparr>)))"

section \<open>Facts about the selection\<close>

definition total_cost :: "(string \<Rightarrow> int) \<Rightarrow> llm_message list \<Rightarrow> int" where
  "total_cost est ms = sum_list (map (\<lambda>m. est (lm_content m)) ms)"

lemma total_cost_simps [simp]:
  "total_cost est [] = 0" "total_cost est (m # ms) = est (lm_content m) + total_cost est ms"
  "total_cost est (xs @ ys) = total_cost est xs + total_cost est ys"
  "total_cost est (rev xs) = total_cost est xs"
  by (simp_all add: total_cost_def rev_map [symmetric] sum_list_rev)

lemma approximate_token_count_nonneg: "0 \<le> approximate_token_count t"
  by (simp add: approximate_token_count_def le_max_iff_disj)

lemma select_newest_prefix: "prefix (select_newest est r ms) ms"
  by (induction ms arbitrary: r) auto

lemma select_newest_cost: "0 \<le> r \<Longrightarrow> total_cost est (select_newest est r ms) \<le> r"
proof (induction ms arbitrary: r)
  case (Cons m ms)
  from Cons.IH [of "r - est (lm_content m)"] show ?case using Cons.prems by auto
qed simp

lemma select_newest_maximal:
  assumes "\<And>t. 0 \<le> est t" and "prefix p ms" and "total_cost est p \<le> r"
  shows "prefix p (select_newest est r ms)"
  using assms(2,3)
proof (induction ms arbitrary: p r)
  case (Cons m ms)
  show ?case
  proof (cases p)
    case Nil
    then show ?thesis by simp
  next
    case (Cons q qs)
    with Cons.prems(1) have "q = m" and "prefix qs ms" by auto
    have "0 \<le> total_cost est qs"
      unfolding total_cost_def using assms(1) by (intro sum_list_nonneg) auto
    with Cons.prems(2) Cons \<open>q = m\<close> have "est (lm_content m) \<le> r"
      and "total_cost est qs \<le> r - est (lm_content m)" by auto
    with Cons.IH [OF \<open>prefix qs ms\<close>] Cons \<open>q = m\<close> show ?thesis by simp
  qed
qed simp

lemma select_history_Inr:
  assumes "select_history est history user instr n s k m = Inr sel"
  shows "1 \<le> n" and "suffix sel history"
    and "est (build_system_prompt instr s k m) + est user + total_cost est sel \<le> n"
    and "sel = rev (select_newest est (n - est (build_system_prompt instr s k m) - est user) (rev history))"
proof -
  let ?sys = "est (build_system_prompt instr s k m)"
  have *: "1 \<le> n" "?sys \<le> n" "est user \<le> n - ?sys"
    "sel = rev (select_newest est (n - ?sys - est user) (rev history))"
    using assms by (auto simp: select_history_def Let_def split: if_splits)
  then show "1 \<le> n" and "sel = rev (select_newest est (n - ?sys - est user) (rev history))"
    by simp_all
  show "suffix sel history"
    using select_newest_prefix [of est "n - ?sys - est user" "rev history"] *
    by (simp add: suffix_to_prefix)
  show "?sys + est user + total_cost est sel \<le> n"
    using select_newest_cost [of "n - ?sys - est user" est "rev history"] * by simp
qed

lemma select_history_error_iff:
  "(\<exists>e. select_history est history user instr n s k m = Inl e) \<longleftrightarrow>
     n < 1 \<or> n < est (build_system_prompt instr s k m) \<or>
     n < est (build_system_prompt instr s k m) + est user"
  by (auto simp: select_history_def Let_def)

lemma select_history_error_kind:
  "select_history est history user instr n s k m = Inl e \<Longrightarrow> is_budget_error e"
  by (auto simp: select_history_def Let_def is_budget_error_def split: if_splits)

text \<open>
  The budget policy keeps exactly the longest run of newest messages that fits: the
  selection is a suffix of the history, the prompt, the user message and the selection
  together stay within the budget, and every other suffix that fits is part of it.
\<close>

theorem select_history_longest_fitting_suffix:
  assumes "select_history est history user instr n s k m = Inr sel"
    and "\<And>t. 0 \<le> est t"
  shows "suffix sel history \<and>
     est (build_system_prompt instr s k m) + est user + total_cost est sel \<le> n \<and>
     (\<forall>t. suffix t history \<longrightarrow>
        est (build_system_prompt instr s k m) + est user + total_cost est t \<le> n \<longrightarrow> suffix t sel)"
proof (intro conjI allI impI)
  show "suffix sel history"
    and "est (build_system_prompt instr s k m) + est user + total_cost est sel \<le> n"
    using select_history_Inr [OF assms(1)] by simp_all
  fix t
  assume t: "suffix t history"
    and fits: "est (build_system_prompt instr s k m) + est user + total_cost est t \<le> n"
  have "prefix (rev t) (select_newest est
      (n - est (build_system_prompt instr s k m) - est user) (rev history))"
    by (rule select_newest_maximal [OF assms(2)]) (use t fits in \<open>auto simp: suffix_to_prefix\<close>)
  then show "suffix t sel"
    unfolding select_history_Inr(4) [OF assms(1)] by (simp add: suffix_to_prefix)
qed

theorem select_history_longest_fitting_suffix_witness:
  "select_history approximate_token_count
     [llm_text_message LR_USER ''old old old'', llm_text_message LR_ASSISTANT ''new'']
     ''hi'' ''sys'' 4 None None None = Inr [llm_text_message LR_ASSISTANT ''new''] \<and>
   suffix [llm_text_message LR_ASSISTANT ''new'']
     [llm_text_message LR_USER ''old old old'', llm_text_message LR_ASSISTANT ''new'']"
proof -
  have sel: "select_history approximate_token_count
     [llm_text_message LR_USER ''old old old'', llm_text_message LR_ASSISTANT ''new'']
     ''hi'' ''sys'' 4 None None None = Inr [llm_text_message LR_ASSISTANT ''new'']"
    by code_simp
  from select_history_longest_fitting_suffix [OF sel approximate_token_count_nonneg] sel
  show ?thesis by blast
qed

section \<open>The soft-fail ladder\<close>

text \<open>
  The reference reading of the nested handlers: try the sections in a fixed order, memory
  dropped first, then knowledge, then the summary; the first attempt within the budget wins.
\<close>

definition ladder :: "string option \<Rightarrow> string option \<Rightarrow> string option \<Rightarrow> sections list" where
  "ladder s k m =
     [(s, k, m)] @ (if m \<noteq> None then [(s, k, None)] else []) @
     (if k \<noteq> None then [(s, None, None)] else []) @
     (if s \<noteq> None then [(None, None, None)] else [])"

fun try_ladder ::
  "(string option \<Rightarrow> string option \<Rightarrow> string option \<Rightarrow> llm_message list result) \<Rightarrow>
     sections list \<Rightarrow> (llm_message list \<times> sections) result" where
  "try_ladder sel [] = Inl KeyErrorE"
| "try_ladder sel [(s, k, m)] = map_sum id (\<lambda>h. (h, s, k, m)) (sel s k m)"
| "try_ladder sel ((s, k, m) # x # xs) =
     except_budget (map_sum id (\<lambda>h. (h, s, k, m)) (sel s k m)) (\<lambda>_. try_ladder sel (x # xs))"

lemma except_budget_Inl: "except_budget r Inl = r"
  by (simp add: except_budget_def split: sum.splits)

lemma soft_fail_eq_try_ladder: "soft_fail sel s k m = try_ladder sel (ladder s k m)"
  by (cases s; cases k; cases m) (simp_all add: soft_fail_def ladder_def except_budget_Inl)

lemma ladder_nonempty: "ladder s k m \<noteq> []"
  by (simp add: ladder_def)

lemma last_ladder: "last (ladder s k m) = (None, None, None)"
  by (cases s; cases k; cases m) (simp_all add: ladder_def)

lemma try_ladder_Inr:
  "try_ladder sel xs = Inr (h, s, k, m) \<Longrightarrow> (s, k, m) \<in> set xs \<and> sel s k m = Inr h"
proof (induction sel xs rule: try_ladder.induct)
  case (2 sel s' k' m')
  then show ?case by (cases "sel s' k' m'") auto
next
  case (3 sel s' k' m' x xs)
  then show ?case by (cases "sel s' k' m'") (auto simp: except_budget_def split: if_splits)
qed simp

lemma try_ladder_last_ok:
  assumes "\<And>s k m e. sel s k m = Inl e \<Longrightarrow> is_budget_error e"
    and "xs \<noteq> []" and "last xs = (s0, k0, m0)" and "sel s0 k0 m0 = Inr h0"
  shows "\<exists>r. try_ladder sel xs = Inr r"
  using assms
proof (induction sel xs rule: try_ladder.induct)
  case (3 sel s' k' m' x xs)
  have "\<exists>r. try_ladder sel (x # xs) = Inr r"
    by (rule 3) (use "3.prems" in auto)
  with "3.prems"(1) [of s' k' m'] show ?case
    by (cases "sel s' k' m'") (auto simp: except_budget_def)
qed auto

lemma build_system_prompt_bare: "build_system_prompt instr None None None = py_strip instr"
  by (simp add: build_system_prompt_def optional_section_def)

lemma soft_fail_Inr:
  assumes "soft_fail sel s k m = Inr (h, s', k', m')"
  shows "sel s' k' m' = Inr h" and "s' \<in> {s, None}" and "k' \<in> {k, None}" and "m' \<in> {m, None}"
  using try_ladder_Inr [OF assms [unfolded soft_fail_eq_try_ladder]]
  by (auto simp: ladder_def split: if_splits)

text \<open>
  C19. Optional context is never the reason to refuse a turn: whatever summary, retrieved
  knowledge and memory are offered, the nested handlers of the assembler behave as the
  drop ladder memory, knowledge, summary, and when the bare instructions and the user
  message fit the budget the selection succeeds.
\<close>

theorem soft_fail_refines_ladder:
  assumes "1 \<le> n" and "est (py_strip instr) \<le> n" and "est (py_strip instr) + est user \<le> n"
  shows "soft_fail (select_history est hist user instr n) s k m =
           try_ladder (select_history est hist user instr n) (ladder s k m) \<and>
         (\<exists>h s' k' m'. soft_fail (select_history est hist user instr n) s k m = Inr (h, s', k', m') \<and>
            (s', k', m') \<in> set (ladder s k m) \<and>
            est (build_system_prompt instr s' k' m') + est user + total_cost est h \<le> n)"
proof
  let ?sel = "select_history est hist user instr n"
  show "soft_fail ?sel s k m = try_ladder ?sel (ladder s k m)" by (rule soft_fail_eq_try_ladder)
  obtain h0 where "?sel None None None = Inr h0"
    using select_history_error_iff [of est hist user instr n None None None] assms
    by (cases "?sel None None None") (auto simp: build_system_prompt_bare)
  then have "\<exists>r. try_ladder ?sel (ladder s k m) = Inr r"
    by (intro try_ladder_last_ok [OF _ ladder_nonempty last_ladder]) (rule select_history_error_kind)
  then obtain h s' k' m' where r: "try_ladder ?sel (ladder s k m) = Inr (h, s', k', m')"
    by auto
  then show "\<exists>h s' k' m'. soft_fail ?sel s k m = Inr (h, s', k', m') \<and>
      (s', k', m') \<in> set (ladder s k m) \<and>
      est (build_system_prompt instr s' k' m') + est user + total_cost est h \<le> n"
    using try_ladder_Inr [OF r] select_history_Inr(3) by (metis soft_fail_eq_try_ladder)
qed

theorem soft_fail_refines_ladder_witness:
  "\<exists>h s' k' m'. soft_fail (select_history approximate_token_count [] ''hi'' ''sys'' 4)
     (Some ''summary of the talk'') (Some ''a long retrieved passage'') None = Inr (h, s', k', m')"
proof -
  have "(1::int) \<le> 4" and "approximate_token_count (py_strip ''sys'') \<le> 4"
    and "approximate_token_count (py_strip ''sys'') + approximate_token_count ''hi'' \<le> 4"
    by (simp_all add: approximate_token_count_def py_strip_def py_lstrip_def py_rstrip_def
        py_isspace_def)
  from soft_fail_refines_ladder [OF this, of "[]" "Some ''summary of the talk''"
      "Some ''a long retrieved passage''" None] show ?thesis by blast
qed

text \<open>
  C20. What the budget bounds of an assembled request: its messages are a suffix of the converted
  committed history, then the user message, then the tool messages of the current rounds; system
  prompt, history and user message cost at most the budget, so the text of the whole request
  exceeds it by no more than the cost of the tool messages, and not at all before the first tool
  round. The tool messages and the definitions of the tools are handed on uncounted.
\<close>

theorem assemble_within_budget:
  assumes "assemble est history user config summary knowledge memory tools extra = Inr r"
    and "lg_max_input_tokens config = Some n"
  shows "\<exists>ls sel. committed_messages_to_llm history = Inr ls \<and> suffix sel ls \<and>
     rq_messages r = sel @ [llm_text_message LR_USER user] @ extra \<and> rq_tools r = tools \<and>
     est (rq_system r) + est user + total_cost est sel \<le> n \<and> 1 \<le> n \<and>
     est (rq_system r) + total_cost est (rq_messages r) \<le> n + total_cost est extra"
proof -
  obtain ls where ls: "committed_messages_to_llm history = Inr ls"
    using assms(1) by (auto simp: assemble_def split: sum.splits)
  let ?sel = "select_history est ls user (lg_system_instructions config) n"
  obtain sel s k m where soft: "soft_fail ?sel summary knowledge memory = Inr (sel, s, k, m)"
    using assms ls by (auto simp: assemble_def split: sum.splits)
  then have "?sel s k m = Inr sel" by (rule soft_fail_Inr)
  note fits = select_history_Inr [OF this]
  have "rq_messages r = sel @ [llm_text_message LR_USER user] @ extra"
    and "rq_system r = build_system_prompt (lg_system_instructions config) s k m" and "rq_tools r = tools"
    using assms ls soft
    by (auto simp: assemble_def check_llm_message_def check_llm_request_def split: if_splits)
  with ls fits show ?thesis by (auto simp: llm_text_message_def)
qed

theorem assemble_within_budget_witness:
  "\<exists>r ls sel. assemble approximate_token_count [] ''hi''
     \<lparr>lg_provider_key = ''p'', lg_model = ''m'', lg_system_instructions = ''sys'', lg_params = [],
      lg_max_input_tokens = Some 4, lg_temperature = None, lg_max_output_tokens = None,
      lg_top_p = None, lg_max_tool_iterations = 4\<rparr>
     (Some ''summary of the talk'') None None [] [] = Inr r \<and>
     committed_messages_to_llm [] = Inr ls \<and> suffix sel ls \<and>
     approximate_token_count (rq_system r) + approximate_token_count ''hi'' +
       total_cost approximate_token_count sel \<le> 4"
proof -
  let ?c = "\<lparr>lg_provider_key = ''p'', lg_model = ''m'', lg_system_instructions = ''sys'', lg_params = [],
      lg_max_input_tokens = Some 4, lg_temperature = None, lg_max_output_tokens = None,
      lg_top_p = None, lg_max_tool_iterations = 4\<rparr>"
  have "\<exists>r. assemble approximate_token_count [] ''hi'' ?c (Some ''summary of the talk'') None None [] [] = Inr r"
    by (simp add: assemble_def soft_fail_def except_budget_def select_history_def is_budget_error_def
        build_system_prompt_def optional_section_def approximate_token_count_def py_strip_def
        py_lstrip_def py_rstrip_def py_isspace_def check_llm_message_def check_llm_request_def
        llm_text_message_def summary_section_header_def newline_def)
  then obtain r where r:
    "assemble approximate_token_count [] ''hi'' ?c (Some ''summary of the talk'') None None [] [] = Inr r"
    by blast
  from assemble_within_budget [OF r, of 4] r show ?thesis by auto
qed

end
