(* ===== verification/Persistence.thy ===== *)
theory Persistence
  imports Budget "HOL-Library.AList"
begin

text \<open>
  The persistence ports (xymphony_contracts/persistence.py) as locales, and the in-memory
  adapters (xymphony_runtime/persistence/memory.py) as the state \<open>mem_store\<close> with one
  function per method, interpreted against those ports.
\<close>

record create_session_request =
  cr_organization_id :: uuid
  cr_project_id :: uuid
  cr_agent_id :: uuid
  cr_agent_version_id :: uuid
  cr_config_hash :: string
  cr_channel :: channel
  cr_deployment_id :: "uuid option"
  cr_livekit_room :: "string option"
  cr_session_id :: "uuid option"

section \<open>In-memory adapters\<close>

record mem_store =
  mem_sessions :: "uuid \<rightharpoonup> session"
  mem_messages :: "uuid \<rightharpoonup> message list"
  mem_summaries :: "uuid \<rightharpoonup> conversation_summary"

definition empty_store :: mem_store where
  "empty_store = \<lparr>mem_sessions = Map.empty, mem_messages = Map.empty, mem_summaries = Map.empty\<rparr>"

text \<open>\<open>request.session_id or uuid4()\<close>: a UUID is always true, so only \<open>None\<close> draws one.\<close>

definition create_session ::
  "uuid \<Rightarrow> time \<Rightarrow> create_session_request \<Rightarrow> mem_store \<Rightarrow> session result \<times> mem_store" where
  "create_session uid now r st =
     (case check_session \<lparr>ss_id = (case cr_session_id r of None \<Rightarrow> uid | Some i \<Rightarrow> i),
            ss_organization_id = cr_organization_id r, ss_project_id = cr_project_id r,
            ss_agent_id = cr_agent_id r, ss_agent_version_id = cr_agent_version_id r,
            ss_deployment_id = cr_deployment_id r, ss_status = SS_INITIALIZING,
            ss_channel = cr_channel r, ss_livekit_room = cr_livekit_room r,
            ss_config_hash = cr_config_hash r, ss_started_at = now, ss_ended_at = None,
            ss_end_reason = None, ss_usage = None, ss_error_code = None\<rparr> of
        Inl e \<Rightarrow> (Inl e, st)
      | Inr s \<Rightarrow> (Inr s, st\<lparr>mem_sessions := (mem_sessions st)(ss_id s \<mapsto> s)\<rparr>))"

definition get_session :: "uuid \<Rightarrow> uuid option \<Rightarrow> uuid option \<Rightarrow> mem_store \<Rightarrow> session option" where
  "get_session sid org proj st =
     (case mem_sessions st sid of
        None \<Rightarrow> None
      | Some s \<Rightarrow>
          if org \<noteq> None \<and> Some (ss_organization_id s) \<noteq> org then None
          else if proj \<noteq> None \<and> Some (ss_project_id s) \<noteq> proj then None
          else Some s)"

definition update_session :: "session \<Rightarrow> mem_store \<Rightarrow> mem_store" where
  "update_session s st = st\<lparr>mem_sessions := (mem_sessions st)(ss_id s \<mapsto> s)\<rparr>"

definition bucket :: "mem_store \<Rightarrow> uuid \<Rightarrow> message list" where
  "bucket st sid = (case mem_messages st sid of None \<Rightarrow> [] | Some ms \<Rightarrow> ms)"

definition stamp_sequence :: "int \<Rightarrow> message \<Rightarrow> message" where
  "stamp_sequence n m = m\<lparr>ms_metadata := AList.update ''sequence'' (JInt n) (ms_metadata m)\<rparr>"

definition append_message :: "message \<Rightarrow> mem_store \<Rightarrow> message \<times> mem_store" where
  "append_message m st =
     (let b = bucket st (ms_session_id m);
          stored = stamp_sequence (int (length b) + 1) m
      in (stored, st\<lparr>mem_messages := (mem_messages st)(ms_session_id m \<mapsto> b @ [stored])\<rparr>))"

definition list_messages :: "uuid \<Rightarrow> uuid option \<Rightarrow> mem_store \<Rightarrow> message list" where
  "list_messages sid org st =
     (case org of
        None \<Rightarrow> bucket st sid
      | Some g \<Rightarrow> filter (\<lambda>m. ms_organization_id m = g) (bucket st sid))"

definition next_sequence :: "uuid \<Rightarrow> mem_store \<Rightarrow> int" where
  "next_sequence sid st = int (length (bucket st sid)) + 1"

definition get_latest :: "uuid \<Rightarrow> uuid option \<Rightarrow> mem_store \<Rightarrow> conversation_summary option" where
  "get_latest sid org st =
     (case mem_summaries st sid of
        None \<Rightarrow> None
      | Some s \<Rightarrow> if org \<noteq> None \<and> Some (su_organization_id s) \<noteq> org then None else Some s)"

definition upsert_summary :: "conversation_summary \<Rightarrow> mem_store \<Rightarrow> mem_store" where
  "upsert_summary s st = st\<lparr>mem_summaries := (mem_summaries st)(su_session_id s \<mapsto> s)\<rparr>"

lemma message_sequence_stamp [simp]: "message_sequence (stamp_sequence n m) fb = Some n"
  by (simp add: message_sequence_def stamp_sequence_def update_conv)

lemma stamp_sequence_fields [simp]:
  "ms_session_id (stamp_sequence n m) = ms_session_id m"
  "ms_organization_id (stamp_sequence n m) = ms_organization_id m"
  "ms_turn_id (stamp_sequence n m) = ms_turn_id m" "ms_role (stamp_sequence n m) = ms_role m"
  "ms_parts (stamp_sequence n m) = ms_parts m" "ms_status (stamp_sequence n m) = ms_status m"
  by (simp_all add: stamp_sequence_def)

lemma bucket_append [simp]:
  "bucket (snd (append_message m st)) sid =
     (if sid = ms_session_id m
      then bucket st sid @ [stamp_sequence (int (length (bucket st sid)) + 1) m] else bucket st sid)"
  by (simp add: append_message_def bucket_def Let_def)

lemma mem_frames [simp]:
  "mem_sessions (snd (append_message m st)) = mem_sessions st"
  "mem_summaries (snd (append_message m st)) = mem_summaries st"
  "mem_messages (update_session s st) = mem_messages st"
  "mem_summaries (update_session s st) = mem_summaries st"
  "mem_messages (upsert_summary u st) = mem_messages st"
  "mem_sessions (upsert_summary u st) = mem_sessions st"
  "bucket (update_session s st) sid = bucket st sid"
  "bucket (upsert_summary u st) sid = bucket st sid"
  by (simp_all add: append_message_def Let_def update_session_def upsert_summary_def bucket_def)

section \<open>The ports\<close>

text \<open>A session port: what a lookup returns after an update, and tenant scoping.\<close>

locale session_port =
  fixes get :: "uuid \<Rightarrow> uuid option \<Rightarrow> uuid option \<Rightarrow> 's \<Rightarrow> session option"
    and update :: "session \<Rightarrow> 's \<Rightarrow> 's"
  assumes get_update_same:
      "get (ss_id x) (Some (ss_organization_id x)) (Some (ss_project_id x)) (update x s) = Some x"
    and get_update_other: "sid \<noteq> ss_id x \<Longrightarrow> get sid og pj (update x s) = get sid og pj s"
    and get_scoped: "get sid (Some org) (Some proj) s = Some x \<Longrightarrow>
      ss_organization_id x = org \<and> ss_project_id x = proj"
begin

text \<open>Read, change some fields other than the keys, write back, read again.\<close>

lemma read_modify_write:
  assumes "get sid (Some org) (Some proj) s = Some x" and "ss_id x = sid"
    and "ss_id (f x) = ss_id x" "ss_organization_id (f x) = ss_organization_id x"
    and "ss_project_id (f x) = ss_project_id x"
  shows "get sid (Some org) (Some proj) (update (f x) s) = Some (f x)"
  using get_update_same [of "f x" s] get_scoped [OF assms(1)] assms by simp

end

text \<open>A conversation port: an append-only ledger per session, numbered from 1.\<close>

locale conversation_port =
  fixes append :: "message \<Rightarrow> 's \<Rightarrow> 's"
    and list :: "uuid \<Rightarrow> uuid option \<Rightarrow> 's \<Rightarrow> message list"
    and next_seq :: "uuid \<Rightarrow> 's \<Rightarrow> int"
  assumes list_append_same: "list (ms_session_id m) None (append m s) =
      list (ms_session_id m) None s @ [stamp_sequence (next_seq (ms_session_id m) s) m]"
    and list_append_other: "sid \<noteq> ms_session_id m \<Longrightarrow> list sid None (append m s) = list sid None s"
    and next_seq_length: "next_seq sid s = int (length (list sid None s)) + 1"
    and list_scoped: "list sid (Some g) s = filter (\<lambda>m. ms_organization_id m = g) (list sid None s)"
begin

definition dense :: "'s \<Rightarrow> bool" where
  "dense s \<longleftrightarrow> (\<forall>sid. (\<forall>m \<in> set (list sid None s). ms_session_id m = sid) \<and>
     (\<forall>i < length (list sid None s). message_sequence (list sid None s ! i) None = Some (int i + 1)))"

lemma dense_append: "dense s \<Longrightarrow> dense (append m s)"
  unfolding dense_def
proof (intro allI)
  fix sid
  assume d: "\<forall>sid. (\<forall>m \<in> set (list sid None s). ms_session_id m = sid) \<and>
     (\<forall>i < length (list sid None s). message_sequence (list sid None s ! i) None = Some (int i + 1))"
  show "(\<forall>x \<in> set (list sid None (append m s)). ms_session_id x = sid) \<and>
     (\<forall>i < length (list sid None (append m s)).
        message_sequence (list sid None (append m s) ! i) None = Some (int i + 1))"
  proof (cases "sid = ms_session_id m")
    case True
    with d show ?thesis
      by (auto simp: list_append_same next_seq_length nth_append less_Suc_eq)
  next
    case False
    with d show ?thesis by (simp add: list_append_other)
  qed
qed

lemma dense_fold: "dense s \<Longrightarrow> dense (fold append ms s)"
  by (induction ms arbitrary: s) (auto intro: dense_append)

lemma list_fold: "map ms_parts (list sid None (fold append ms s)) =
    map ms_parts (list sid None s) @ map ms_parts (filter (\<lambda>m. ms_session_id m = sid) ms)"
proof (induction ms arbitrary: s)
  case (Cons m ms)
  then show ?case
    by (cases "sid = ms_session_id m") (auto simp: list_append_same list_append_other)
qed simp

end

text \<open>A summary port: one active summary per session.\<close>

locale summary_port =
  fixes latest :: "uuid \<Rightarrow> uuid option \<Rightarrow> 's \<Rightarrow> conversation_summary option"
    and upsert :: "conversation_summary \<Rightarrow> 's \<Rightarrow> 's"
  assumes latest_upsert_same:
      "latest (su_session_id x) (Some (su_organization_id x)) (upsert x s) = Some x"
    and latest_upsert_other: "sid \<noteq> su_session_id x \<Longrightarrow> latest sid og (upsert x s) = latest sid og s"
    and latest_scoped: "latest sid (Some org) s = Some x \<Longrightarrow> su_organization_id x = org"
begin

lemma upsert_replaces:
  assumes "su_session_id y = su_session_id x"
  shows "latest (su_session_id x) (Some (su_organization_id y)) (upsert y (upsert x s)) = Some y"
  using latest_upsert_same [of y] assms by simp

end

interpretation mem_session: session_port get_session update_session
  by unfold_locales (auto simp: get_session_def update_session_def split: option.splits if_splits)

interpretation mem_conversation:
  conversation_port "\<lambda>m s. snd (append_message m s)" list_messages next_sequence
  by unfold_locales (auto simp: list_messages_def next_sequence_def)

interpretation mem_summary: summary_port get_latest upsert_summary
  by unfold_locales (auto simp: get_latest_def upsert_summary_def split: option.splits if_splits)

section \<open>Properties of the in-memory ledger\<close>

fun append_all :: "message list \<Rightarrow> mem_store \<Rightarrow> mem_store" where
  "append_all [] st = st"
| "append_all (m # ms) st = append_all ms (snd (append_message m st))"

lemma append_all_fold: "append_all ms st = fold (\<lambda>m s. snd (append_message m s)) ms st"
  by (induction ms arbitrary: st) simp_all

text \<open>
  The in-memory conversation ledger is dense and ordered: after any messages of any
  sessions are appended to an empty store, a session lists exactly its own messages in the
  order they came, with unchanged content, numbered 1, 2, 3 and so on without a gap, and
  the next sequence number is the one the next append stores.
\<close>

theorem ledger_dense:
  "map ms_parts (list_messages sid None (append_all ms empty_store)) =
     map ms_parts (filter (\<lambda>m. ms_session_id m = sid) ms) \<and>
   map (\<lambda>m. message_sequence m None) (list_messages sid None (append_all ms empty_store)) =
     map (\<lambda>i. Some (int i + 1)) [0..<length (filter (\<lambda>m. ms_session_id m = sid) ms)] \<and>
   next_sequence sid (append_all ms empty_store) =
     int (length (filter (\<lambda>m. ms_session_id m = sid) ms)) + 1"
proof -
  let ?l = "list_messages sid None (append_all ms empty_store)"
  have "mem_conversation.dense empty_store"
    by (simp add: mem_conversation.dense_def list_messages_def bucket_def empty_store_def)
  then have "mem_conversation.dense (append_all ms empty_store)"
    unfolding append_all_fold by (rule mem_conversation.dense_fold)
  then have num: "\<forall>i < length ?l. message_sequence (?l ! i) None = Some (int i + 1)"
    by (simp add: mem_conversation.dense_def)
  have parts: "map ms_parts ?l = map ms_parts (filter (\<lambda>m. ms_session_id m = sid) ms)"
    unfolding append_all_fold mem_conversation.list_fold
    by (simp add: list_messages_def bucket_def empty_store_def)
  then have len: "length ?l = length (filter (\<lambda>m. ms_session_id m = sid) ms)"
    by (metis length_map)
  have seqs: "map (\<lambda>m. message_sequence m None) ?l = map (\<lambda>i. Some (int i + 1)) [0..<length ?l]"
    by (rule nth_equalityI) (use num in auto)
  show ?thesis
    using parts seqs mem_conversation.next_seq_length [of sid "append_all ms empty_store"]
    unfolding len by blast
qed

text \<open>
  Tenant scoping of the in-memory adapters: a lookup scoped to an organization never
  returns another organization's session, messages or summary.
\<close>

theorem memory_tenant_isolation:
  "(\<forall>s. get_session sid (Some org) proj st = Some s \<longrightarrow> ss_organization_id s = org) \<and>
   (\<forall>m \<in> set (list_messages sid (Some org) st). ms_organization_id m = org) \<and>
   (\<forall>u. get_latest sid (Some org) st = Some u \<longrightarrow> su_organization_id u = org)"
  by (auto simp: get_session_def list_messages_def get_latest_def split: option.splits if_splits)

theorem memory_tenant_isolation_witness:
  "list_all (\<lambda>m. ms_organization_id m = 5) (list_messages 3 (Some 5) (append_all
     [\<lparr>ms_id = 1, ms_session_id = 3, ms_turn_id = 4, ms_organization_id = 5, ms_role = MR_USER,
       ms_status = MS_COMMITTED, ms_parts = [text_content_part ''hi''], ms_created_at = 2,
       ms_metadata = []\<rparr>] empty_store))"
  unfolding list_all_iff using memory_tenant_isolation by blast

end
