(* ===== verification/Runtime.thy ===== *)
theory Runtime
  imports Summarization Tools
begin

text \<open>
  The agent runtime (xymphony_runtime/runtime.py): its state and the operations that run
  without suspending. Each Python method is a computation on the state \<open>rts\<close>. Python
  objects shared by reference (cancellation tokens, audio queues, tasks) live in the state
  under an address. Listeners are recorded by identity, and \<open>rs_delivered\<close> is the log of
  the calls made to them.
\<close>

section \<open>Configuration: rag_config.py, memory_config.py, stt_config.py, tts_config.py\<close>

record retrieval_result =
  rr_content :: string
  rr_score :: rat
  rr_document_id :: string
  rr_chunk_id :: string

record rag_config =
  ra_enabled :: bool
  ra_limit :: int
  ra_timeout :: rat

record memory_entry =
  me_content :: string
  me_memory_id :: string
  me_score :: rat

record memory_config =
  mc_enabled :: bool
  mc_recall_limit :: int
  mc_recall_timeout :: rat

definition check_memory_config :: "memory_config \<Rightarrow> memory_config result" where
  "check_memory_config c =
     (if mc_recall_limit c < 1 then Inl (ValueErrorE ''recall_limit must be a positive integer'')
      else if mc_recall_timeout c \<le> 0
      then Inl (ValueErrorE ''recall_timeout_seconds must be positive'')
      else Inr c)"

record memory_identity =
  mi_agent_id :: uuid
  mi_session_id :: uuid
  mi_organization_id :: "uuid option"
  mi_project_id :: "uuid option"
  mi_user_id :: "uuid option"

record memory_request =
  mq_agent_id :: uuid
  mq_session_id :: uuid
  mq_query :: string
  mq_limit :: int
  mq_identity :: "memory_identity option"

text \<open>
  The loop shared by \<open>format_retrieval_context\<close> and \<open>format_memory_context\<close>: blank
  entries are skipped and keep their number.
\<close>

fun numbered_blocks :: "nat \<Rightarrow> string list \<Rightarrow> string list" where
  "numbered_blocks i [] = []"
| "numbered_blocks i (c # cs) =
     (if py_strip c \<noteq> [] then (''['' @ nat_str i @ ''] '' @ py_strip c) # numbered_blocks (i + 1) cs
      else numbered_blocks (i + 1) cs)"

definition format_retrieval_context :: "retrieval_result list \<Rightarrow> string" where
  "format_retrieval_context rs = py_join (newline @ newline) (numbered_blocks 1 (map rr_content rs))"

definition format_memory_context :: "memory_entry list \<Rightarrow> string" where
  "format_memory_context es = py_join (newline @ newline) (numbered_blocks 1 (map me_content es))"

record stt_runtime_config =
  sg_provider_key :: string
  sg_model :: string
  sg_language :: string
  sg_params :: json_dict

record tts_runtime_config =
  tg_provider_key :: string
  tg_voice_ref :: string
  tg_params :: json_dict

text \<open>
  The constructor's collaborators. A provider and its configuration are always tested
  together, so they are one optional field; a memory store carries whether its
  \<open>recall\<close> accepts an \<open>identity\<close> argument.
\<close>

record runtime_config =
  rc_llm :: "llm_runtime_config option"
  rc_stt :: "stt_runtime_config option"
  rc_tts :: "tts_runtime_config option"
  rc_session_repository :: bool
  rc_conversation_repository :: bool
  rc_summary_repository :: bool
  rc_tools :: "registry option"
  rc_tool_env :: tool_env
  rc_retriever :: bool
  rc_rag :: rag_config
  rc_memory_store :: "bool option"
  rc_memory :: memory_config

definition rag_enabled :: "runtime_config \<Rightarrow> bool" where
  "rag_enabled cfg \<longleftrightarrow> rc_retriever cfg \<and> ra_enabled (rc_rag cfg)"

definition memory_enabled :: "runtime_config \<Rightarrow> bool" where
  "memory_enabled cfg \<longleftrightarrow> rc_memory_store cfg \<noteq> None \<and> mc_enabled (rc_memory cfg)"

definition summarizer_present :: "runtime_config \<Rightarrow> bool" where
  "summarizer_present cfg \<longleftrightarrow> rc_llm cfg \<noteq> None \<and> rc_summary_repository cfg"

section \<open>Inputs: input.py\<close>

datatype runtime_input_kind =
  RI_TEXT_INPUT | RI_USER_SPEECH_STARTED | RI_USER_SPEECH_ENDED | RI_AUDIO_FRAME
  | RI_CANCEL_TURN | RI_SHUTDOWN | RI_ERROR

record runtime_input =
  in_kind :: runtime_input_kind
  in_text :: "string option"
  in_turn_id :: "uuid option"
  in_error_code :: "string option"
  in_error_message :: "string option"
  in_audio_data :: "nat list option"
  in_audio_duration_ms :: "int option"
  in_audio_sample_rate_hz :: "int option"
  in_audio_channels :: "int option"

definition input_of_kind :: "runtime_input_kind \<Rightarrow> runtime_input" where
  "input_of_kind k = \<lparr>in_kind = k, in_text = None, in_turn_id = None, in_error_code = None,
     in_error_message = None, in_audio_data = None, in_audio_duration_ms = None,
     in_audio_sample_rate_hz = None, in_audio_channels = None\<rparr>"

definition text_input :: "string \<Rightarrow> runtime_input" where
  "text_input v = (input_of_kind RI_TEXT_INPUT)\<lparr>in_text := Some v\<rparr>"

definition audio_frame_input :: "nat list \<Rightarrow> int \<Rightarrow> int \<Rightarrow> int \<Rightarrow> runtime_input" where
  "audio_frame_input data duration_ms rate channels =
     (input_of_kind RI_AUDIO_FRAME)\<lparr>in_audio_data := Some data, in_audio_duration_ms := Some duration_ms,
        in_audio_sample_rate_hz := Some rate, in_audio_channels := Some channels\<rparr>"

definition cancel_turn_input :: "uuid option \<Rightarrow> runtime_input" where
  "cancel_turn_input t = (input_of_kind RI_CANCEL_TURN)\<lparr>in_turn_id := t\<rparr>"

definition error_input :: "string \<Rightarrow> string \<Rightarrow> runtime_input" where
  "error_input code message =
     (input_of_kind RI_ERROR)\<lparr>in_error_code := Some code, in_error_message := Some message\<rparr>"

text \<open>\<open>x or default\<close> for an optional integer.\<close>

definition int_or :: "int option \<Rightarrow> int \<Rightarrow> int" where
  "int_or x d = (case x of None \<Rightarrow> d | Some n \<Rightarrow> if n = 0 then d else n)"

section \<open>Suspended tasks\<close>

text \<open>
  A suspended coroutine is the await it stands at with the locals it still needs.
  \<open>origin\<close> is what a pipeline or finalization returns to: the text handler, the
  end-of-speech handler, or the speech-to-text task with its token and task id.
\<close>

datatype origin = FromText | FromSpeech | FromStt nat nat

record pipe =
  pp_turn :: uuid
  pp_text :: string
  pp_token :: nat
  pp_origin :: origin

record llm_loop =
  ll_pipe :: pipe
  ll_history :: "message list"
  ll_summary :: "string option"
  ll_knowledge :: "string option"
  ll_memory :: "string option"
  ll_tools :: "llm_tool_definition list"
  ll_extra :: "llm_message list"
  ll_iteration :: int

record tool_wait =
  tw_parts :: "string list"
  tw_calls :: "llm_tool_call list"
  tw_call :: llm_tool_call
  tw_rest :: "llm_tool_call list"
  tw_results :: "tool_result list"
  tw_tool :: tool
  tw_kwargs :: "(string \<times> kwarg) list"

datatype wait =
    W_Summary pipe prep_ctx bool string
  | W_Retrieve pipe summary_preparation int
  | W_Recall pipe summary_preparation "string option" memory_request
  | W_Llm llm_loop llm_request "string list" string "llm_tool_call list"
  | W_Tool llm_loop tool_wait
  | W_Tts pipe string tts_request
  | W_SttStart uuid nat nat
  | W_Stt uuid nat nat stt_request
  | W_Join uuid nat origin
  | W_Stop string "nat list"

section \<open>State\<close>

record rts =
  rs_ctx :: runtime_context
  rs_running :: bool
  rs_turns :: "uuid \<rightharpoonup> runtime_turn"
  rs_current :: "uuid option"
  rs_events :: "event list"
  rs_listeners :: "nat list"
  rs_delivered :: "(nat \<times> event) list"
  rs_tokens :: "nat \<Rightarrow> bool"
  rs_next_token :: nat
  rs_llm_tokens :: "uuid \<rightharpoonup> nat"
  rs_stt_tokens :: "uuid \<rightharpoonup> nat"
  rs_tts_tokens :: "uuid \<rightharpoonup> nat"
  rs_queues :: "uuid \<rightharpoonup> nat"
  rs_queue_items :: "nat \<Rightarrow> stt_audio_frame option list"
  rs_next_queue :: nat
  rs_stt_tasks :: "uuid \<rightharpoonup> nat"
  rs_active_tasks :: "nat list"
  rs_finalizing :: "uuid set"
  rs_speech_ended :: "uuid set"
  rs_store :: mem_store
  rs_clock :: time
  rs_fresh :: uuid
  rs_tasks :: "nat \<rightharpoonup> wait"
  rs_done :: "nat \<rightharpoonup> unit result"
  rs_next_task :: nat

text \<open>A context as its constructor leaves it, and a runtime as \<open>__init__\<close> leaves it.\<close>

definition fresh_context :: "runtime_context \<Rightarrow> bool" where
  "fresh_context c \<longleftrightarrow> \<not> cx_shutdown c \<and> cx_cancelled_turn_ids c = {} \<and> cx_sequence c = 0 \<and>
     cx_turn_sequence c = 0"

definition init_runtime :: "runtime_context \<Rightarrow> nat list \<Rightarrow> mem_store \<Rightarrow> rts" where
  "init_runtime c listeners store =
     \<lparr>rs_ctx = c, rs_running = False, rs_turns = Map.empty, rs_current = None, rs_events = [],
      rs_listeners = listeners, rs_delivered = [], rs_tokens = (\<lambda>_. False), rs_next_token = 0,
      rs_llm_tokens = Map.empty, rs_stt_tokens = Map.empty, rs_tts_tokens = Map.empty,
      rs_queues = Map.empty, rs_queue_items = (\<lambda>_. []), rs_next_queue = 0,
      rs_stt_tasks = Map.empty, rs_active_tasks = [], rs_finalizing = {}, rs_speech_ended = {},
      rs_store = store, rs_clock = 0, rs_fresh = 0, rs_tasks = Map.empty, rs_done = Map.empty,
      rs_next_task = 0\<rparr>"

definition turn_terminal :: "rts \<Rightarrow> uuid \<Rightarrow> bool" where
  "turn_terminal s t \<longleftrightarrow> (\<exists>x. rs_turns s t = Some x \<and> is_terminal (rt_state x))"

definition turn_live :: "rts \<Rightarrow> uuid \<Rightarrow> bool" where
  "turn_live s t \<longleftrightarrow> (\<exists>x. rs_turns s t = Some x \<and> \<not> is_terminal (rt_state x))"

text \<open>\<open>cancel.cancelled or self._context.is_turn_cancelled(turn.id)\<close>\<close>

definition stopped :: "rts \<Rightarrow> nat \<Rightarrow> uuid \<Rightarrow> bool" where
  "stopped s tok t \<longleftrightarrow> rs_tokens s tok \<or> is_turn_cancelled (rs_ctx s) t"

section \<open>Events\<close>

definition admit_event :: "event \<Rightarrow> (rts, bool) eff" where
  "admit_event e = (\<lambda>s.
     if is_stale_for_cancelled_turns e (cx_cancelled_turn_ids (rs_ctx s)) then (Inr False, s)
     else (Inr True, s\<lparr>rs_events := rs_events s @ [e],
             rs_delivered := rs_delivered s @ map (\<lambda>l. (l, e)) (rs_listeners s)\<rparr>))"

text \<open>\<open>self.admit_event(builder(self._context, ...))\<close>\<close>

definition emit :: "event_builder \<Rightarrow> (rts, bool) eff" where
  "emit b = (\<lambda>s.
     case b (rs_fresh s) (rs_clock s) (rs_ctx s) of
       (Inl e, c) \<Rightarrow> (Inl e, s\<lparr>rs_ctx := c, rs_fresh := rs_fresh s + 1\<rparr>)
     | (Inr ev, c) \<Rightarrow> admit_event ev (s\<lparr>rs_ctx := c, rs_fresh := rs_fresh s + 1\<rparr>))"

definition on_event :: "nat \<Rightarrow> rts \<Rightarrow> rts" where
  "on_event l s = s\<lparr>rs_listeners := rs_listeners s @ [l]\<rparr>"

section \<open>Turn operations\<close>

definition on_turn :: "uuid \<Rightarrow> (runtime_turn, unit) eff \<Rightarrow> (rts, unit) eff" where
  "on_turn t f = (\<lambda>s.
     case rs_turns s t of
       None \<Rightarrow> (Inl KeyErrorE, s)
     | Some x \<Rightarrow> (case f x of (r, x') \<Rightarrow> (r, s\<lparr>rs_turns := (rs_turns s)(t \<mapsto> x')\<rparr>)))"

definition clear_current :: "uuid \<Rightarrow> (rts, unit) eff" where
  "clear_current t = modify_eff (\<lambda>s. if rs_current s = Some t then s\<lparr>rs_current := None\<rparr> else s)"

definition begin_turn :: "(rts, uuid) eff" where
  "begin_turn = (\<lambda>s.
     case (case rs_current s of
             None \<Rightarrow> Inr ()
           | Some c \<Rightarrow>
               (case rs_turns s c of
                  None \<Rightarrow> Inl KeyErrorE
                | Some x \<Rightarrow> if is_terminal (rt_state x) then Inr ()
                            else Inl (InvalidRuntimeInput ''a turn is already active''))) of
       Inl e \<Rightarrow> (Inl e, s)
     | Inr _ \<Rightarrow>
         let t = rs_fresh s; (n, c) = next_turn_sequence (rs_ctx s);
             s1 = s\<lparr>rs_fresh := t + 1, rs_ctx := c\<rparr>
         in (case turn_activate (create_turn t (cx_session_id c) (cx_organization_id c) n (rs_clock s)) of
               (Inl e, _) \<Rightarrow> (Inl e, s1)
             | (Inr _, x) \<Rightarrow> (Inr t, s1\<lparr>rs_turns := (rs_turns s1)(t \<mapsto> x), rs_current := Some t\<rparr>)))"

definition complete_turn :: "uuid \<Rightarrow> (rts, unit) eff" where
  "complete_turn t = with_state (\<lambda>s.
     if turn_terminal s t then throw (InvalidStateTransition ''turn is already terminal'')
     else if is_turn_cancelled (rs_ctx s) t then throw (StaleTurnEvent ''turn is cancelled'')
     else then_eff (on_turn t (turn_complete (rs_clock s))) (clear_current t))"

definition cancel_token_of :: "nat option \<Rightarrow> rts \<Rightarrow> rts" where
  "cancel_token_of k s = (case k of None \<Rightarrow> s | Some n \<Rightarrow> s\<lparr>rs_tokens := (rs_tokens s)(n := True)\<rparr>)"

definition cancel_turn :: "uuid \<Rightarrow> (rts, unit) eff" where
  "cancel_turn t = with_state (\<lambda>s.
     if rs_turns s t = None then throw (InvalidRuntimeInput ''unknown turn_id'')
     else if turn_terminal s t then ret ()
     else then_eff (modify_eff (\<lambda>s. cancel_token_of (rs_llm_tokens s t) s))
         (then_eff (modify_eff (\<lambda>s. cancel_token_of (rs_stt_tokens s t) s))
         (then_eff (modify_eff (\<lambda>s. cancel_token_of (rs_tts_tokens s t) s))
         (then_eff (modify_eff (\<lambda>s. s\<lparr>rs_ctx := context_cancel_turn t (rs_ctx s)\<rparr>))
         (then_eff (on_turn t (turn_cancel True (rs_clock s)))
         (then_eff (emit (agent_interrupted_event t))
           (clear_current t)))))))"

definition cancel_active_turn :: "(rts, unit) eff" where
  "cancel_active_turn = with_state (\<lambda>s.
     case rs_current s of
       None \<Rightarrow> ret ()
     | Some t \<Rightarrow> if turn_live s t then cancel_turn t else ret ())"

text \<open>The five places that fail a turn for a reason and report it share this sequence.\<close>

definition fail_turn :: "uuid \<Rightarrow> string \<Rightarrow> string \<Rightarrow> bool \<Rightarrow> (rts, unit) eff" where
  "fail_turn t code msg retryable = with_state (\<lambda>s.
     then_eff (on_turn t (turn_fail code (rs_clock s)))
     (then_eff (emit (error_event code msg (Some t) retryable))
       (clear_current t)))"

definition fail_turn_provider :: "uuid \<Rightarrow> provider_error \<Rightarrow> (rts, unit) eff" where
  "fail_turn_provider t e =
     fail_turn t (provider_error_code_value (pe_code e)) (pe_message e) (pe_retryable e)"

definition handle_cancel_turn :: "uuid option \<Rightarrow> (rts, unit) eff" where
  "handle_cancel_turn turn_id = with_state (\<lambda>s.
     case (case turn_id of Some t \<Rightarrow> Some t | None \<Rightarrow> rs_current s) of
       None \<Rightarrow> throw (InvalidRuntimeInput ''no turn to cancel'')
     | Some t \<Rightarrow> cancel_turn t)"

definition handle_error :: "runtime_input \<Rightarrow> (rts, unit) eff" where
  "handle_error i = with_state (\<lambda>s.
     let code = str_or (in_error_code i) ''runtime_error'';
         msg = str_or (in_error_message i) ''runtime error''
     in case rs_current s of
          Some t \<Rightarrow>
            if turn_live s t then
              then_eff (on_turn t (turn_fail code (rs_clock s)))
              (then_eff (modify_eff (\<lambda>s. s\<lparr>rs_ctx := context_cancel_turn t (rs_ctx s)\<rparr>))
              (then_eff (emit (error_event code msg (Some t) False))
                (clear_current t)))
            else then_eff (emit (error_event code msg None False)) (ret ())
        | None \<Rightarrow> then_eff (emit (error_event code msg None False)) (ret ()))"

section \<open>Session status and history\<close>

definition map_stop_reason :: "string \<Rightarrow> session_end_reason" where
  "map_stop_reason reason =
     (if reason = ''user_stop'' then SE_USER_STOP
      else if reason = ''worker_draining'' then SE_WORKER_DRAINING
      else if reason = ''disconnect'' then SE_DISCONNECT
      else SE_ERROR)"

definition sync_session_status ::
  "runtime_config \<Rightarrow> session_status \<Rightarrow> time option \<Rightarrow> session_end_reason option \<Rightarrow> (rts, unit) eff" where
  "sync_session_status cfg status ended_at end_reason = with_state (\<lambda>s.
     if \<not> rc_session_repository cfg then ret ()
     else case get_session (cx_session_id (rs_ctx s)) (Some (cx_organization_id (rs_ctx s)))
                 (Some (cx_project_id (rs_ctx s))) (rs_store s) of
            None \<Rightarrow> ret ()
          | Some x \<Rightarrow>
              let y = x\<lparr>ss_status := status,
                        ss_ended_at := (if ended_at \<noteq> None then ended_at else ss_ended_at x),
                        ss_end_reason := (if end_reason \<noteq> None then end_reason else ss_end_reason x)\<rparr>
              in modify_eff (\<lambda>s. s\<lparr>rs_store := update_session y (rs_store s)\<rparr>))"

definition conversation_messages :: "runtime_config \<Rightarrow> rts \<Rightarrow> message list" where
  "conversation_messages cfg s =
     (if \<not> rc_conversation_repository cfg then []
      else list_messages (cx_session_id (rs_ctx s)) (Some (cx_organization_id (rs_ctx s))) (rs_store s))"

text \<open>Both messages are built before either is appended.\<close>

definition persist_turn_exchange :: "runtime_config \<Rightarrow> uuid \<Rightarrow> string \<Rightarrow> string \<Rightarrow> (rts, unit) eff" where
  "persist_turn_exchange cfg t user_text assistant_text = (\<lambda>s.
     if \<not> rc_conversation_repository cfg then (Inr (), s)
     else if is_turn_cancelled (rs_ctx s) t then (Inr (), s)
     else
       let sid = cx_session_id (rs_ctx s); org = cx_organization_id (rs_ctx s); u = rs_fresh s;
           s1 = s\<lparr>rs_fresh := u + 2\<rparr>
       in case build_text_message u (rs_clock s) sid t org MR_USER user_text of
            Inl e \<Rightarrow> (Inl e, s1)
          | Inr um \<Rightarrow>
         (case build_text_message (u + 1) (rs_clock s) sid t org MR_ASSISTANT assistant_text of
            Inl e \<Rightarrow> (Inl e, s1)
          | Inr am \<Rightarrow>
              (Inr (), s1\<lparr>rs_store := snd (append_message am (snd (append_message um (rs_store s1))))\<rparr>)))"

fun last_final_text :: "uuid \<Rightarrow> event list \<Rightarrow> string option \<Rightarrow> string option" where
  "last_final_text t [] acc = acc"
| "last_final_text t (e # es) acc =
     (if ev_turn_id e \<noteq> Some t \<or> ev_type e \<noteq> ET_TRANSCRIPT_FRAME then last_final_text t es acc
      else case ev_payload e of
             TranscriptFramePayload text is_final _ _ _ \<Rightarrow>
               last_final_text t es (if is_final then Some text else acc)
           | _ \<Rightarrow> last_final_text t es acc)"

definition final_transcript_for_turn :: "rts \<Rightarrow> uuid \<Rightarrow> string option" where
  "final_transcript_for_turn s t = last_final_text t (rs_events s) None"

definition cleanup_stt_turn :: "uuid \<Rightarrow> (rts, unit) eff" where
  "cleanup_stt_turn t = modify_eff (\<lambda>s.
     s\<lparr>rs_queues := (rs_queues s)(t := None), rs_stt_tasks := (rs_stt_tasks s)(t := None),
       rs_stt_tokens := (rs_stt_tokens s)(t := None),
       rs_finalizing := rs_finalizing s - {t}, rs_speech_ended := rs_speech_ended s - {t}\<rparr>)"

section \<open>Audio input\<close>

definition queue_put :: "nat \<Rightarrow> stt_audio_frame option \<Rightarrow> rts \<Rightarrow> rts" where
  "queue_put q f s = s\<lparr>rs_queue_items := (rs_queue_items s)(q := rs_queue_items s q @ [f])\<rparr>"

definition handle_audio_frame :: "runtime_input \<Rightarrow> (rts, unit) eff" where
  "handle_audio_frame i = with_state (\<lambda>s.
     case in_audio_data i of
       None \<Rightarrow> throw (InvalidRuntimeInput ''audio frame must include audio_data'')
     | Some data \<Rightarrow>
    (case in_audio_duration_ms i of
       None \<Rightarrow> throw (InvalidRuntimeInput ''audio frame must include audio_duration_ms'')
     | Some dur \<Rightarrow>
    (case rs_current s of
       None \<Rightarrow> ret ()
     | Some t \<Rightarrow>
    (case rs_queues s t of
       None \<Rightarrow> ret ()
     | Some q \<Rightarrow>
         bind_eff (lift_eff (check_stt_audio_frame
            \<lparr>af_data = data, af_sample_rate_hz = int_or (in_audio_sample_rate_hz i) 16000,
             af_channels = int_or (in_audio_channels i) 1, af_duration_ms = dur\<rparr>))
           (\<lambda>f. modify_eff (queue_put q (Some f)))))))"

text \<open>
  \<open>_audio_from_queue\<close>, one pull by the provider: the generator ends (\<open>Some None\<close>), yields
  a frame (\<open>Some (Some f)\<close>), or blocks on the empty queue (\<open>None\<close>).
\<close>

definition audio_next :: "nat \<Rightarrow> nat \<Rightarrow> rts \<Rightarrow> stt_audio_frame option option \<times> rts" where
  "audio_next q tok s =
     (if rs_tokens s tok then (Some None, s)
      else case rs_queue_items s q of
             [] \<Rightarrow> (None, s)
           | f # fs \<Rightarrow> (Some f, s\<lparr>rs_queue_items := (rs_queue_items s)(q := fs)\<rparr>))"

definition new_token :: "(rts, nat) eff" where
  "new_token = (\<lambda>s. (Inr (rs_next_token s),
     s\<lparr>rs_tokens := (rs_tokens s)(rs_next_token s := False), rs_next_token := rs_next_token s + 1\<rparr>))"

text \<open>\<open>emit_stream_chunk\<close> of streaming.py, with the chunk's turn: whether the sink is called.\<close>

datatype stream_chunk_kind = SC_LLM_TOKEN | SC_LLM_RESPONSE | SC_TTS_CHUNK | SC_TRANSCRIPT_FRAME

record stream_chunk =
  sk_turn_id :: uuid
  sk_session_sequence :: int
  sk_kind :: stream_chunk_kind
  sk_payload :: string

definition emit_stream_chunk :: "stream_chunk \<Rightarrow> rts \<Rightarrow> bool" where
  "emit_stream_chunk c s \<longleftrightarrow> \<not> is_turn_cancelled (rs_ctx s) (sk_turn_id c)"

end
