(* ===== verification/Pipeline.thy ===== *)
theory Pipeline
  imports Runtime
begin

text \<open>
  The suspending methods of the runtime (xymphony_runtime/runtime.py): the assistant
  pipeline (summary, retrieval, memory, language model with its tool loop, speech output),
  speech finalization, the speech-to-text task, input dispatch and shutdown, cut at their
  awaits. A segment runs from one await to the next: it returns \<open>Some w\<close> when the
  coroutine suspends at \<open>w\<close>, \<open>None\<close> when it returns, and raises otherwise.
  \<open>resume\<close> is the segment a stimulus of the environment starts; what a provider, a tool
  or a store answers, and when, is the environment's choice.
\<close>

type_synonym seg = "(rts, wait option) eff"

text \<open>\<open>finally\<close> and \<open>except\<close>: \<open>h\<close> sees how a segment left, unless it suspended.\<close>

definition on_exit :: "seg \<Rightarrow> (unit result \<Rightarrow> (rts, unit) eff) \<Rightarrow> seg" where
  "on_exit m h = (\<lambda>s.
     case m s of
       (Inr (Some w), s') \<Rightarrow> (Inr (Some w), s')
     | (Inr None, s') \<Rightarrow> then_eff (h (Inr ())) (ret None) s'
     | (Inl e, s') \<Rightarrow> then_eff (h (Inl e)) (ret None) s')"

definition finished :: "(rts, unit) eff \<Rightarrow> seg" where
  "finished m = then_eff m (ret None)"

section \<open>Returning from a pipeline or a finalization\<close>

text \<open>The \<open>except ProviderError\<close> clause of \<open>_run_stt_stream\<close>.\<close>

definition stt_except :: "uuid \<Rightarrow> nat \<Rightarrow> unit result \<Rightarrow> (rts, unit) eff" where
  "stt_except t tok r =
     (case r of
        Inl (ProviderErr e) \<Rightarrow>
          with_state (\<lambda>s. if stopped s tok t then ret () else fail_turn_provider t e)
      | _ \<Rightarrow> lift_eff r)"

text \<open>\<open>_finalize_speech_turn\<close>'s \<open>finally\<close>, and its caller.\<close>

definition leave_finalize :: "uuid \<Rightarrow> origin \<Rightarrow> unit result \<Rightarrow> (rts, unit) eff" where
  "leave_finalize t org r =
     (case org of
        FromText \<Rightarrow> lift_eff r
      | FromSpeech \<Rightarrow>
          then_eff (modify_eff (\<lambda>s. s\<lparr>rs_finalizing := rs_finalizing s - {t}\<rparr>)) (lift_eff r)
      | FromStt tok k \<Rightarrow>
          then_eff (modify_eff (\<lambda>s. s\<lparr>rs_finalizing := rs_finalizing s - {t}\<rparr>)) (stt_except t tok r))"

text \<open>\<open>_run_assistant_pipeline\<close>'s \<open>finally\<close>.\<close>

definition leave_pipeline :: "uuid \<Rightarrow> unit result \<Rightarrow> (rts, unit) eff" where
  "leave_pipeline t r =
     then_eff (modify_eff (\<lambda>s. s\<lparr>rs_llm_tokens := (rs_llm_tokens s)(t := None),
                                rs_tts_tokens := (rs_tts_tokens s)(t := None)\<rparr>))
       (lift_eff r)"

definition in_pipeline :: "pipe \<Rightarrow> seg \<Rightarrow> seg" where
  "in_pipeline p m = on_exit m (leave_pipeline (pp_turn p))"

definition in_origin :: "uuid \<Rightarrow> origin \<Rightarrow> seg \<Rightarrow> seg" where
  "in_origin t org m = on_exit m (leave_finalize t org)"

definition pipe_stopped :: "rts \<Rightarrow> pipe \<Rightarrow> bool" where
  "pipe_stopped s p \<longleftrightarrow> stopped s (pp_token p) (pp_turn p)"

section \<open>After the language model: speech output, persistence, completion\<close>

definition finish_exchange :: "runtime_config \<Rightarrow> pipe \<Rightarrow> string \<Rightarrow> seg" where
  "finish_exchange cfg p reply = with_state (\<lambda>s.
     if turn_terminal s (pp_turn p) then ret None
     else finished (then_eff (persist_turn_exchange cfg (pp_turn p) (pp_text p) reply)
                             (complete_turn (pp_turn p))))"

definition after_llm :: "runtime_config \<Rightarrow> pipe \<Rightarrow> string \<Rightarrow> seg" where
  "after_llm cfg p reply = with_state (\<lambda>s.
     if turn_terminal s (pp_turn p) then ret None
     else case rc_tts cfg of
            None \<Rightarrow> finish_exchange cfg p reply
          | Some tc \<Rightarrow>
              bind_eff (lift_eff (check_tts_request
                 \<lparr>tq_provider_key = tg_provider_key tc, tq_voice_ref = tg_voice_ref tc,
                  tq_text = reply, tq_params = tg_params tc\<rparr>))
                (\<lambda>rq. ret (Some (W_Tts p reply rq))))"

definition tts_chunk :: "runtime_config \<Rightarrow> pipe \<Rightarrow> string \<Rightarrow> tts_request \<Rightarrow> tts_stream_chunk \<Rightarrow> seg" where
  "tts_chunk cfg p reply rq c = with_state (\<lambda>s.
     if pipe_stopped s p then finish_exchange cfg p reply
     else
       bind_eff (lift_eff (case tk_text_range c of
                    None \<Rightarrow> Inr None
                  | Some r \<Rightarrow> map_sum id Some
                      (check_text_range \<lparr>rg_start = tr_start r, rg_end = tr_end r\<rparr>)))
         (\<lambda>rng. then_eff (emit (tts_chunk_event (pp_turn p) (tk_audio_ref c) rng))
                  (ret (Some (W_Tts p reply rq)))))"

definition tts_raise :: "runtime_config \<Rightarrow> pipe \<Rightarrow> string \<Rightarrow> exn \<Rightarrow> seg" where
  "tts_raise cfg p reply e =
     (case e of
        ProviderErr pe \<Rightarrow> with_state (\<lambda>s.
          if pipe_stopped s p then finish_exchange cfg p reply
          else then_eff (fail_turn_provider (pp_turn p) pe) (finish_exchange cfg p reply))
      | _ \<Rightarrow> throw e)"

section \<open>The language-model loop\<close>

definition llm_iterate :: "runtime_config \<Rightarrow> llm_runtime_config \<Rightarrow> llm_loop \<Rightarrow> seg" where
  "llm_iterate cfg lc l = with_state (\<lambda>s.
     let p = ll_pipe l in
     if lg_max_tool_iterations lc \<le> ll_iteration l
     then finished (fail_turn (pp_turn p) ''tool_loop_limit_exceeded''
                      ''Tool loop iteration limit exceeded'' False)
     else if pipe_stopped s p then ret None
     else case assemble approximate_token_count (ll_history l) (pp_text p) lc (ll_summary l)
                 (ll_knowledge l) (ll_memory l) (ll_tools l) (ll_extra l) of
            Inl (ContextBudgetExceeded m) \<Rightarrow>
              finished (fail_turn (pp_turn p) ''context_budget_exceeded'' m False)
          | Inl e \<Rightarrow> throw e
          | Inr rq \<Rightarrow> ret (Some (W_Llm l rq [] ''stop'' [])))"

text \<open>The tool messages appended after a round, in the order of the calls.\<close>

fun tool_messages :: "tool_result list \<Rightarrow> llm_message list result" where
  "tool_messages [] = Inr []"
| "tool_messages (r # rs) =
     (case check_llm_message \<lparr>lm_role = LR_TOOL, lm_content = res_output r,
              lm_tool_call_id = Some (res_tool_call_id r), lm_tool_calls = []\<rparr> of
        Inl e \<Rightarrow> Inl e
      | Inr m \<Rightarrow> map_sum id (\<lambda>ms. m # ms) (tool_messages rs))"

definition round_messages ::
  "string list \<Rightarrow> llm_tool_call list \<Rightarrow> tool_result list \<Rightarrow> llm_message list result" where
  "round_messages parts calls results =
     (case check_llm_message \<lparr>lm_role = LR_ASSISTANT, lm_content = concat parts,
              lm_tool_call_id = None, lm_tool_calls = calls\<rparr> of
        Inl e \<Rightarrow> Inl e
      | Inr m \<Rightarrow> map_sum id (\<lambda>ms. m # ms) (tool_messages results))"

definition finish_round ::
  "runtime_config \<Rightarrow> llm_runtime_config \<Rightarrow> llm_loop \<Rightarrow> string list \<Rightarrow> llm_tool_call list \<Rightarrow>
     tool_result list \<Rightarrow> seg" where
  "finish_round cfg lc l parts calls results = with_state (\<lambda>s.
     if pipe_stopped s (ll_pipe l) then ret None
     else bind_eff (lift_eff (round_messages parts calls results))
            (\<lambda>ms. llm_iterate cfg lc
               (l\<lparr>ll_extra := ll_extra l @ ms, ll_iteration := ll_iteration l + 1\<rparr>)))"

fun run_tools ::
  "runtime_config \<Rightarrow> llm_runtime_config \<Rightarrow> llm_loop \<Rightarrow> string list \<Rightarrow> llm_tool_call list \<Rightarrow>
     llm_tool_call list \<Rightarrow> tool_result list \<Rightarrow> seg" where
  "run_tools cfg lc l parts calls [] results = finish_round cfg lc l parts calls results"
| "run_tools cfg lc l parts calls (c # rest) results = with_state (\<lambda>s.
     if pipe_stopped s (ll_pipe l) then ret None
     else case rc_tools cfg of
            None \<Rightarrow>
              bind_eff (lift_eff (failure_result (tc_id c) (tc_name c)
                 (''Tool '' @ quoted (tc_name c) @ '' cannot be executed: no tool registry is configured.'')
                 TE_TOOL_NOT_FOUND None))
                (\<lambda>r. run_tools cfg lc l parts calls rest (results @ [r]))
          | Some reg \<Rightarrow>
              bind_eff (lift_eff (execute_begin (rc_tool_env cfg) reg c
                 (Some \<lparr>ec_tool_call_id = tc_id c, ec_session_id = Some (nat_str (cx_session_id (rs_ctx s)))\<rparr>)
                 (Some (rs_tokens s (pp_token (ll_pipe l))))))
                (\<lambda>st. case st of
                    ExecDone r \<Rightarrow> run_tools cfg lc l parts calls rest (results @ [r])
                  | ExecInvoke t kw \<Rightarrow> ret (Some (W_Tool l
                      \<lparr>tw_parts = parts, tw_calls = calls, tw_call = c, tw_rest = rest,
                       tw_results = results, tw_tool = t, tw_kwargs = kw\<rparr>))))"

definition tool_outcome ::
  "runtime_config \<Rightarrow> llm_runtime_config \<Rightarrow> llm_loop \<Rightarrow> tool_wait \<Rightarrow> outcome \<Rightarrow> seg" where
  "tool_outcome cfg lc l w out = with_state (\<lambda>s.
     bind_eff (lift_eff (execute_end (rc_tool_env cfg) (tw_call w) out
                 (Some (rs_tokens s (pp_token (ll_pipe l))))))
       (\<lambda>r. run_tools cfg lc l (tw_parts w) (tw_calls w) (tw_rest w) (tw_results w @ [r])))"

definition llm_chunk ::
  "runtime_config \<Rightarrow> llm_loop \<Rightarrow> llm_request \<Rightarrow> string list \<Rightarrow> string \<Rightarrow> llm_tool_call list \<Rightarrow>
     llm_stream_chunk \<Rightarrow> seg" where
  "llm_chunk cfg l rq parts fin calls c = with_state (\<lambda>s.
     if pipe_stopped s (ll_pipe l) then ret None
     else
       then_eff (if lc_delta c \<noteq> []
                 then then_eff (emit (llm_token_event (pp_turn (ll_pipe l)) (lc_delta c))) (ret ())
                 else ret ())
         (ret (Some (W_Llm l rq (if lc_delta c \<noteq> [] then parts @ [lc_delta c] else parts)
                       (str_or (lc_finish_reason c) fin) (calls @ lc_tool_calls c)))))"

definition llm_end ::
  "runtime_config \<Rightarrow> llm_runtime_config \<Rightarrow> llm_loop \<Rightarrow> string list \<Rightarrow> string \<Rightarrow> llm_tool_call list \<Rightarrow> seg" where
  "llm_end cfg lc l parts fin calls = with_state (\<lambda>s.
     if pipe_stopped s (ll_pipe l) then ret None
     else if calls = []
     then then_eff (emit (llm_response_event (pp_turn (ll_pipe l)) (concat parts) fin None))
            (after_llm cfg (ll_pipe l) (concat parts))
     else run_tools cfg lc l parts calls calls [])"

definition llm_raise :: "pipe \<Rightarrow> exn \<Rightarrow> seg" where
  "llm_raise p e =
     (case e of
        ProviderErr pe \<Rightarrow> with_state (\<lambda>s.
          if pipe_stopped s p then ret None else finished (fail_turn_provider (pp_turn p) pe))
      | _ \<Rightarrow> throw e)"

section \<open>Before the language model: summary, retrieval, memory\<close>

definition start_loop ::
  "runtime_config \<Rightarrow> llm_runtime_config \<Rightarrow> pipe \<Rightarrow> summary_preparation \<Rightarrow> string option \<Rightarrow>
     string option \<Rightarrow> seg" where
  "start_loop cfg lc p prep knowledge memory =
     bind_eff (lift_eff (case rc_tools cfg of None \<Rightarrow> Inr [] | Some reg \<Rightarrow> get_definitions reg))
       (\<lambda>defs. llm_iterate cfg lc \<lparr>ll_pipe = p, ll_history = sp_history prep,
          ll_summary = sp_summary_text prep, ll_knowledge = knowledge, ll_memory = memory,
          ll_tools = defs, ll_extra = [], ll_iteration = 0\<rparr>)"

definition recall_request :: "runtime_config \<Rightarrow> rts \<Rightarrow> string \<Rightarrow> memory_request" where
  "recall_request cfg s query =
     (let c = rs_ctx s in
      \<lparr>mq_agent_id = cx_agent_id c, mq_session_id = cx_session_id c, mq_query = query,
       mq_limit = mc_recall_limit (rc_memory cfg),
       mq_identity = (if rc_memory_store cfg = Some True
         then Some \<lparr>mi_agent_id = cx_agent_id c, mi_session_id = cx_session_id c,
                    mi_organization_id = Some (cx_organization_id c),
                    mi_project_id = Some (cx_project_id c), mi_user_id = None\<rparr>
         else None)\<rparr>)"

definition begin_memory ::
  "runtime_config \<Rightarrow> llm_runtime_config \<Rightarrow> pipe \<Rightarrow> summary_preparation \<Rightarrow> string option \<Rightarrow> seg" where
  "begin_memory cfg lc p prep knowledge = with_state (\<lambda>s.
     if memory_enabled cfg \<and> py_strip (pp_text p) \<noteq> []
     then if pipe_stopped s p then ret None
          else ret (Some (W_Recall p prep knowledge (recall_request cfg s (pp_text p))))
     else start_loop cfg lc p prep knowledge None)"

text \<open>\<open>answer\<close> is \<open>None\<close> for a timeout or an exception of the memory store.\<close>

definition after_memory ::
  "runtime_config \<Rightarrow> llm_runtime_config \<Rightarrow> pipe \<Rightarrow> summary_preparation \<Rightarrow> string option \<Rightarrow>
     memory_entry list option \<Rightarrow> seg" where
  "after_memory cfg lc p prep knowledge answer = with_state (\<lambda>s.
     if pipe_stopped s p then ret None
     else start_loop cfg lc p prep knowledge
            (case answer of None \<Rightarrow> None | Some es \<Rightarrow> if es = [] then None else Some (format_memory_context es)))"

definition begin_retrieval ::
  "runtime_config \<Rightarrow> llm_runtime_config \<Rightarrow> pipe \<Rightarrow> summary_preparation \<Rightarrow> seg" where
  "begin_retrieval cfg lc p prep = with_state (\<lambda>s.
     if rag_enabled cfg \<and> py_strip (pp_text p) \<noteq> []
     then if pipe_stopped s p then ret None
          else ret (Some (W_Retrieve p prep (ra_limit (rc_rag cfg))))
     else begin_memory cfg lc p prep None)"

definition after_retrieval ::
  "runtime_config \<Rightarrow> llm_runtime_config \<Rightarrow> pipe \<Rightarrow> summary_preparation \<Rightarrow>
     retrieval_result list option \<Rightarrow> seg" where
  "after_retrieval cfg lc p prep answer = with_state (\<lambda>s.
     if pipe_stopped s p then ret None
     else begin_memory cfg lc p prep
            (case answer of None \<Rightarrow> None | Some rs \<Rightarrow> if rs = [] then None else Some (format_retrieval_context rs)))"

definition after_summary ::
  "runtime_config \<Rightarrow> llm_runtime_config \<Rightarrow> pipe \<Rightarrow> summary_preparation \<Rightarrow> seg" where
  "after_summary cfg lc p prep = with_state (\<lambda>s.
     if pipe_stopped s p then ret None else begin_retrieval cfg lc p prep)"

text \<open>\<open>_generate_summary\<close> up to its first await.\<close>

definition begin_generate :: "llm_runtime_config \<Rightarrow> pipe \<Rightarrow> prep_ctx \<Rightarrow> bool \<Rightarrow> seg" where
  "begin_generate lc p c short =
     bind_eff (lift_eff (summary_request lc (map_option su_summary_text (pc_existing c))
                           (pc_newly_uncovered c) short))
       (\<lambda>_. ret (Some (W_Summary p c short [])))"

definition accept_summary ::
  "runtime_config \<Rightarrow> llm_runtime_config \<Rightarrow> pipe \<Rightarrow> prep_ctx \<Rightarrow> string \<Rightarrow> seg" where
  "accept_summary cfg lc p c text = (\<lambda>s.
     case prepare_finish (rs_fresh s) (cx_session_id (rs_ctx s)) (cx_organization_id (rs_ctx s))
            (cx_agent_version_id (rs_ctx s)) (rs_clock s) c text (pipe_stopped s p) (rs_store s) of
       (Inl e, st) \<Rightarrow> (Inl e, s\<lparr>rs_store := st, rs_fresh := rs_fresh s + 1\<rparr>)
     | (Inr prep, st) \<Rightarrow> after_summary cfg lc p prep (s\<lparr>rs_store := st, rs_fresh := rs_fresh s + 1\<rparr>))"

text \<open>A generation ended with \<open>r\<close>; the second one runs only after the first.\<close>

definition generated ::
  "runtime_config \<Rightarrow> llm_runtime_config \<Rightarrow> pipe \<Rightarrow> prep_ctx \<Rightarrow> bool \<Rightarrow> string result \<Rightarrow> seg" where
  "generated cfg lc p c short r = with_state (\<lambda>s.
     if short then
       bind_eff (lift_eff (prepare_after_second approximate_token_count lc c r (pipe_stopped s p)))
         (\<lambda>x. case x of Inl prep \<Rightarrow> after_summary cfg lc p prep
                      | Inr text \<Rightarrow> accept_summary cfg lc p c text)
     else
       bind_eff (lift_eff (prepare_after_first approximate_token_count lc c r (pipe_stopped s p)))
         (\<lambda>x. case x of FirstDone prep \<Rightarrow> after_summary cfg lc p prep
                      | FirstShort \<Rightarrow> begin_generate lc p c True
                      | FirstAccept text \<Rightarrow> accept_summary cfg lc p c text))"

text \<open>\<open>_generate_summary\<close> tests only the token, not the context.\<close>

definition summary_chunk ::
  "runtime_config \<Rightarrow> llm_runtime_config \<Rightarrow> pipe \<Rightarrow> prep_ctx \<Rightarrow> bool \<Rightarrow> string \<Rightarrow> string \<Rightarrow> seg" where
  "summary_chunk cfg lc p c short acc delta = with_state (\<lambda>s.
     if rs_tokens s (pp_token p) then generated cfg lc p c short (Inr acc)
     else ret (Some (W_Summary p c short (if delta \<noteq> [] then acc @ delta else acc))))"

definition begin_llm :: "runtime_config \<Rightarrow> pipe \<Rightarrow> seg" where
  "begin_llm cfg p = with_state (\<lambda>s.
     case rc_llm cfg of
       None \<Rightarrow> ret None
     | Some lc \<Rightarrow>
         let history = conversation_messages cfg s in
         if summarizer_present cfg
         then bind_eff (lift_eff (prepare_begin approximate_token_count lc (cx_session_id (rs_ctx s))
                  (cx_organization_id (rs_ctx s)) history (pp_text p) (pipe_stopped s p) (rs_store s)))
                (\<lambda>st. case st of PrepDone prep \<Rightarrow> after_summary cfg lc p prep
                               | PrepGenerate c \<Rightarrow> begin_generate lc p c False)
         else begin_retrieval cfg lc p (prep_full history))"

definition run_assistant_pipeline :: "runtime_config \<Rightarrow> uuid \<Rightarrow> string \<Rightarrow> origin \<Rightarrow> seg" where
  "run_assistant_pipeline cfg t text org =
     bind_eff new_token (\<lambda>tok.
       then_eff (modify_eff (\<lambda>s. s\<lparr>rs_llm_tokens := (rs_llm_tokens s)(t \<mapsto> tok),
                                  rs_tts_tokens := (rs_tts_tokens s)(t \<mapsto> tok)\<rparr>))
         (let p = \<lparr>pp_turn = t, pp_text = text, pp_token = tok, pp_origin = org\<rparr>
          in in_pipeline p (begin_llm cfg p)))"

end
