(* ===== verification/System.thy ===== *)
theory System
  imports Pipeline
begin

text \<open>
  The runtime as a system of tasks (xymphony_runtime/runtime.py): the handlers that start
  or join coroutines (speech turns, dispatch, shutdown), the segment each stimulus resumes,
  and the interleaving of all tasks. Between two segments anything may happen: another
  client call, another task's segment, a provider's answer, or an exception at an await.
\<close>

section \<open>Speech turns\<close>

definition after_join :: "runtime_config \<Rightarrow> uuid \<Rightarrow> origin \<Rightarrow> seg" where
  "after_join cfg t org =
     then_eff (cleanup_stt_turn t) (with_state (\<lambda>s.
       if turn_terminal s t then ret None
       else let transcript = py_strip (str_or (final_transcript_for_turn s t) '''')
            in if transcript \<noteq> [] \<and> rc_llm cfg \<noteq> None
               then run_assistant_pipeline cfg t transcript org
               else finished (complete_turn t)))"

text \<open>
  \<open>_finalize_speech_turn\<close>. Its early return is outside the \<open>try\<close>; the guard
  \<open>FromStt _ k\<close> names the task it may be running in.
\<close>

definition finalize_body :: "runtime_config \<Rightarrow> uuid \<Rightarrow> origin \<Rightarrow> seg" where
  "finalize_body cfg t org =
     then_eff (with_state (\<lambda>s.
        if t \<in> rs_speech_ended s then ret ()
        else then_eff (modify_eff (\<lambda>s. s\<lparr>rs_speech_ended := insert t (rs_speech_ended s)\<rparr>))
               (then_eff (emit (user_speech_ended_event t 0)) (ret ()))))
       (with_state (\<lambda>s.
          if rc_stt cfg = None then finished (complete_turn t)
          else
            then_eff (case rs_queues s t of None \<Rightarrow> ret () | Some q \<Rightarrow> modify_eff (queue_put q None))
              (case rs_stt_tasks s t of
                 None \<Rightarrow> after_join cfg t org
               | Some k \<Rightarrow> if (\<exists>tok. org = FromStt tok k) then after_join cfg t org
                            else ret (Some (W_Join t k org)))))"

definition finalize_speech_turn :: "runtime_config \<Rightarrow> uuid \<Rightarrow> origin \<Rightarrow> seg" where
  "finalize_speech_turn cfg t org = with_state (\<lambda>s.
     if turn_terminal s t \<or> t \<in> rs_finalizing s
     then ret None
     else then_eff (modify_eff (\<lambda>s. s\<lparr>rs_finalizing := insert t (rs_finalizing s)\<rparr>))
            (in_origin t org (finalize_body cfg t org)))"

text \<open>\<open>_handle_user_speech_started\<close>, with \<open>asyncio.create_task\<close> and \<open>_track_task\<close>.\<close>

definition spawn_stt :: "uuid \<Rightarrow> (rts, unit) eff" where
  "spawn_stt t = bind_eff new_token (\<lambda>tok. modify_eff (\<lambda>s.
     let q = rs_next_queue s; k = rs_next_task s in
     s\<lparr>rs_queue_items := (rs_queue_items s)(q := []), rs_next_queue := q + 1,
       rs_queues := (rs_queues s)(t \<mapsto> q), rs_stt_tokens := (rs_stt_tokens s)(t \<mapsto> tok),
       rs_tasks := (rs_tasks s)(k \<mapsto> W_SttStart t q tok), rs_next_task := k + 1,
       rs_active_tasks := rs_active_tasks s @ [k], rs_stt_tasks := (rs_stt_tasks s)(t \<mapsto> k)\<rparr>))"

definition handle_user_speech_started :: "runtime_config \<Rightarrow> (rts, unit) eff" where
  "handle_user_speech_started cfg =
     bind_eff begin_turn (\<lambda>t.
       then_eff (emit (user_speech_started_event t))
         (if rc_stt cfg = None then ret () else spawn_stt t))"

definition handle_user_speech_ended :: "runtime_config \<Rightarrow> seg" where
  "handle_user_speech_ended cfg = with_state (\<lambda>s.
     case rs_current s of
       None \<Rightarrow> throw (InvalidRuntimeInput ''user speech ended without an active turn'')
     | Some t \<Rightarrow>
         if turn_live s t then finalize_speech_turn cfg t FromSpeech
         else throw (InvalidRuntimeInput ''user speech ended without an active turn''))"

definition stt_start :: "runtime_config \<Rightarrow> uuid \<Rightarrow> nat \<Rightarrow> nat \<Rightarrow> seg" where
  "stt_start cfg t q tok =
     (case rc_stt cfg of
        None \<Rightarrow> ret None
      | Some sc \<Rightarrow>
          bind_eff (lift_eff (check_stt_request
             \<lparr>sq_provider_key = sg_provider_key sc, sq_model = sg_model sc,
              sq_language = sg_language sc, sq_params = sg_params sc\<rparr>))
            (\<lambda>rq. ret (Some (W_Stt t q tok rq))))"

definition stt_chunk ::
  "runtime_config \<Rightarrow> nat \<Rightarrow> uuid \<Rightarrow> nat \<Rightarrow> nat \<Rightarrow> stt_request \<Rightarrow> stt_transcript_chunk \<Rightarrow> seg" where
  "stt_chunk cfg k t q tok rq c = with_state (\<lambda>s.
     if stopped s tok t then ret None
     else then_eff (emit (transcript_frame_event t (sc_text c) (sc_is_final c) (sc_start_ms c)
                            (sc_end_ms c) (sc_confidence c)))
            (if sc_is_final c then finalize_speech_turn cfg t (FromStt tok k)
             else ret (Some (W_Stt t q tok rq))))"

definition stt_end :: "runtime_config \<Rightarrow> nat \<Rightarrow> uuid \<Rightarrow> nat \<Rightarrow> seg" where
  "stt_end cfg k t tok = with_state (\<lambda>s.
     if stopped s tok t then ret None else finalize_speech_turn cfg t (FromStt tok k))"

section \<open>Text input, dispatch, start and stop\<close>

definition handle_text_input :: "runtime_config \<Rightarrow> runtime_input \<Rightarrow> seg" where
  "handle_text_input cfg i =
     (let text = py_strip (str_or (in_text i) '''') in
      if text = [] then throw (InvalidRuntimeInput ''text input must be non-empty'')
      else bind_eff begin_turn (\<lambda>t.
        if rc_llm cfg = None then finished (complete_turn t)
        else run_assistant_pipeline cfg t text FromText))"

definition start :: "runtime_config \<Rightarrow> (rts, unit) eff" where
  "start cfg = with_state (\<lambda>s.
     if rs_running s then ret ()
     else then_eff (modify_eff (\<lambda>s. s\<lparr>rs_running := True,
                rs_ctx := (rs_ctx s)\<lparr>cx_session_status := SS_ACTIVE\<rparr>\<rparr>))
         (then_eff (sync_session_status cfg SS_ACTIVE None None)
         (then_eff (emit session_started_event) (ret ()))))"

definition stop_finish :: "runtime_config \<Rightarrow> string \<Rightarrow> (rts, unit) eff" where
  "stop_finish cfg reason =
     then_eff (emit (session_ended_event reason))
     (then_eff (modify_eff (\<lambda>s. s\<lparr>rs_ctx := (rs_ctx s)\<lparr>cx_session_status := SS_TERMINATED\<rparr>\<rparr>))
     (then_eff (with_state (\<lambda>s. sync_session_status cfg SS_TERMINATED (Some (rs_clock s))
                  (Some (map_stop_reason reason))))
       (modify_eff (\<lambda>s. s\<lparr>rs_running := False, rs_current := None\<rparr>))))"

text \<open>
  \<open>_cancel_active_tasks\<close> requests the cancellation of the pending tasks and waits for
  them; the \<open>CancelledError\<close> each receives at its await is a stimulus.
\<close>

definition stop :: "runtime_config \<Rightarrow> string \<Rightarrow> seg" where
  "stop cfg reason = with_state (\<lambda>s.
     if \<not> rs_running s then ret None
     else then_eff (modify_eff (\<lambda>s. s\<lparr>rs_ctx := request_shutdown (rs_ctx s)\<rparr>))
         (then_eff cancel_active_turn
         (with_state (\<lambda>s.
            let pending = filter (\<lambda>k. rs_tasks s k \<noteq> None) (rs_active_tasks s)
            in if pending = [] then finished (stop_finish cfg reason)
               else ret (Some (W_Stop reason pending))))))"

definition handle_input :: "runtime_config \<Rightarrow> runtime_input \<Rightarrow> seg" where
  "handle_input cfg i = with_state (\<lambda>s.
     if \<not> rs_running s then throw (RuntimeNotRunning ''runtime is not running'')
     else if cx_shutdown (rs_ctx s) then ret None
     else case in_kind i of
            RI_TEXT_INPUT \<Rightarrow> handle_text_input cfg i
          | RI_USER_SPEECH_STARTED \<Rightarrow> finished (handle_user_speech_started cfg)
          | RI_USER_SPEECH_ENDED \<Rightarrow> handle_user_speech_ended cfg
          | RI_AUDIO_FRAME \<Rightarrow> finished (handle_audio_frame i)
          | RI_CANCEL_TURN \<Rightarrow> finished (handle_cancel_turn (in_turn_id i))
          | RI_SHUTDOWN \<Rightarrow> stop cfg ''user_stop''
          | RI_ERROR \<Rightarrow> finished (handle_error i))"

section \<open>Resuming a task\<close>

datatype stimulus =
    S_Continue
  | S_SummaryChunk string | S_SummaryEnd
  | S_Retrieved "retrieval_result list option"
  | S_Recalled "memory_entry list option"
  | S_LlmChunk llm_stream_chunk | S_LlmEnd
  | S_Tool outcome
  | S_TtsChunk tts_stream_chunk | S_TtsEnd
  | S_SttChunk stt_transcript_chunk | S_SttEnd
  | S_Raise exn

definition in_both :: "pipe \<Rightarrow> seg \<Rightarrow> seg" where
  "in_both p m = in_origin (pp_turn p) (pp_origin p) (in_pipeline p m)"

definition with_llm :: "runtime_config \<Rightarrow> (llm_runtime_config \<Rightarrow> seg) \<Rightarrow> seg" where
  "with_llm cfg f = (case rc_llm cfg of None \<Rightarrow> ret None | Some lc \<Rightarrow> f lc)"

text \<open>
  A stimulus that does not belong to the await leaves the task waiting. Exceptions of a
  retriever or memory store are absorbed (\<open>except Exception\<close>); a task cancellation is not.
\<close>

fun resume :: "runtime_config \<Rightarrow> nat \<Rightarrow> wait \<Rightarrow> stimulus \<Rightarrow> seg" where
  "resume cfg k (W_Summary p c short acc) st =
     (case st of
        S_SummaryChunk d \<Rightarrow> in_both p (with_llm cfg (\<lambda>lc. summary_chunk cfg lc p c short acc d))
      | S_SummaryEnd \<Rightarrow> in_both p (with_llm cfg (\<lambda>lc. generated cfg lc p c short (Inr acc)))
      | S_Raise e \<Rightarrow> in_both p (with_llm cfg (\<lambda>lc. generated cfg lc p c short (Inl e)))
      | _ \<Rightarrow> ret (Some (W_Summary p c short acc)))"
| "resume cfg k (W_Retrieve p prep lm) st =
     (case st of
        S_Retrieved a \<Rightarrow> in_both p (with_llm cfg (\<lambda>lc. after_retrieval cfg lc p prep a))
      | S_Raise e \<Rightarrow> in_both p (if e = CancelledErrorE then throw e
                                else with_llm cfg (\<lambda>lc. after_retrieval cfg lc p prep None))
      | _ \<Rightarrow> ret (Some (W_Retrieve p prep lm)))"
| "resume cfg k (W_Recall p prep kn rq) st =
     (case st of
        S_Recalled a \<Rightarrow> in_both p (with_llm cfg (\<lambda>lc. after_memory cfg lc p prep kn a))
      | S_Raise e \<Rightarrow> in_both p (if e = CancelledErrorE then throw e
                                else with_llm cfg (\<lambda>lc. after_memory cfg lc p prep kn None))
      | _ \<Rightarrow> ret (Some (W_Recall p prep kn rq)))"
| "resume cfg k (W_Llm l rq parts fin calls) st =
     (case st of
        S_LlmChunk c \<Rightarrow> in_both (ll_pipe l) (llm_chunk cfg l rq parts fin calls c)
      | S_LlmEnd \<Rightarrow> in_both (ll_pipe l) (with_llm cfg (\<lambda>lc. llm_end cfg lc l parts fin calls))
      | S_Raise e \<Rightarrow> in_both (ll_pipe l) (llm_raise (ll_pipe l) e)
      | _ \<Rightarrow> ret (Some (W_Llm l rq parts fin calls)))"
| "resume cfg k (W_Tool l w) st =
     (case st of
        S_Tool out \<Rightarrow> in_both (ll_pipe l) (with_llm cfg (\<lambda>lc. tool_outcome cfg lc l w out))
      | S_Raise e \<Rightarrow> in_both (ll_pipe l) (throw e)
      | _ \<Rightarrow> ret (Some (W_Tool l w)))"
| "resume cfg k (W_Tts p reply rq) st =
     (case st of
        S_TtsChunk c \<Rightarrow> in_both p (tts_chunk cfg p reply rq c)
      | S_TtsEnd \<Rightarrow> in_both p (finish_exchange cfg p reply)
      | S_Raise e \<Rightarrow> in_both p (tts_raise cfg p reply e)
      | _ \<Rightarrow> ret (Some (W_Tts p reply rq)))"
| "resume cfg k (W_SttStart t q tok) st =
     (case st of
        S_Continue \<Rightarrow> stt_start cfg t q tok
      | S_Raise e \<Rightarrow> throw e
      | _ \<Rightarrow> ret (Some (W_SttStart t q tok)))"
| "resume cfg k (W_Stt t q tok rq) st =
     (case st of
        S_SttChunk c \<Rightarrow> stt_chunk cfg k t q tok rq c
      | S_SttEnd \<Rightarrow> stt_end cfg k t tok
      | S_Raise e \<Rightarrow> finished (stt_except t tok (Inl e))
      | _ \<Rightarrow> ret (Some (W_Stt t q tok rq)))"
| "resume cfg k (W_Join t j org) st = with_state (\<lambda>s.
     case st of
       S_Continue \<Rightarrow>
         (case rs_done s j of
            None \<Rightarrow> ret (Some (W_Join t j org))
          | Some r \<Rightarrow> in_origin t org (then_eff (lift_eff r) (after_join cfg t org)))
     | S_Raise e \<Rightarrow> in_origin t org (throw e)
     | _ \<Rightarrow> ret (Some (W_Join t j org)))"
| "resume cfg k (W_Stop reason pending) st = with_state (\<lambda>s.
     case st of
       S_Continue \<Rightarrow>
         (if (\<forall>j \<in> set pending. rs_tasks s j = None) then finished (stop_finish cfg reason)
          else ret (Some (W_Stop reason pending)))
     | S_Raise e \<Rightarrow> throw e
     | _ \<Rightarrow> ret (Some (W_Stop reason pending)))"

section \<open>The system\<close>

datatype action =
    Act_Start
  | Act_Stop string
  | Act_Input runtime_input
  | Act_Resume nat stimulus
  | Act_Pull nat
  | Act_Clock time

definition settle :: "nat \<Rightarrow> seg \<Rightarrow> rts \<Rightarrow> rts" where
  "settle k m s =
     (case m s of
        (Inr (Some w), s') \<Rightarrow> s'\<lparr>rs_tasks := (rs_tasks s')(k \<mapsto> w)\<rparr>
      | (Inr None, s') \<Rightarrow>
          s'\<lparr>rs_tasks := (rs_tasks s')(k := None), rs_done := (rs_done s')(k \<mapsto> Inr ())\<rparr>
      | (Inl e, s') \<Rightarrow>
          s'\<lparr>rs_tasks := (rs_tasks s')(k := None), rs_done := (rs_done s')(k \<mapsto> Inl e)\<rparr>)"

text \<open>A client call is a task of its own, run at once to its first await.\<close>

definition client_call :: "seg \<Rightarrow> rts \<Rightarrow> rts" where
  "client_call m s = settle (rs_next_task s) m (s\<lparr>rs_next_task := rs_next_task s + 1\<rparr>)"

fun perform :: "runtime_config \<Rightarrow> action \<Rightarrow> rts \<Rightarrow> rts" where
  "perform cfg Act_Start s = client_call (finished (start cfg)) s"
| "perform cfg (Act_Stop reason) s = client_call (stop cfg reason) s"
| "perform cfg (Act_Input i) s = client_call (handle_input cfg i) s"
| "perform cfg (Act_Resume k st) s =
     (case rs_tasks s k of None \<Rightarrow> s | Some w \<Rightarrow> settle k (resume cfg k w st) s)"
| "perform cfg (Act_Pull k) s =
     (case rs_tasks s k of Some (W_Stt t q tok rq) \<Rightarrow> snd (audio_next q tok s) | _ \<Rightarrow> s)"
| "perform cfg (Act_Clock now) s = s\<lparr>rs_clock := max now (rs_clock s)\<rparr>"

fun run :: "runtime_config \<Rightarrow> action list \<Rightarrow> rts \<Rightarrow> rts" where
  "run cfg [] s = s"
| "run cfg (a # acts) s = run cfg acts (perform cfg a s)"

inductive reachable :: "runtime_config \<Rightarrow> rts \<Rightarrow> rts \<Rightarrow> bool" for cfg and s0 where
  reach_init: "reachable cfg s0 s0"
| reach_step: "reachable cfg s0 s \<Longrightarrow> reachable cfg s0 (perform cfg a s)"

lemma reachable_run: "reachable cfg s0 s \<Longrightarrow> reachable cfg s0 (run cfg acts s)"
  by (induction acts arbitrary: s) (auto intro: reach_step)

lemma reachable_iff_run: "reachable cfg s0 s \<longleftrightarrow> (\<exists>acts. s = run cfg acts s0)"
proof
  have snoc: "run cfg (acts @ [a]) x = perform cfg a (run cfg acts x)" for acts a x
    by (induction acts arbitrary: x) simp_all
  show "reachable cfg s0 s \<Longrightarrow> \<exists>acts. s = run cfg acts s0"
    by (induction rule: reachable.induct) (metis run.simps(1), metis snoc)
next
  show "\<exists>acts. s = run cfg acts s0 \<Longrightarrow> reachable cfg s0 s"
    using reachable_run reach_init by blast
qed

end
