(* ===== verification/VoiceAdapters.thy ===== *)
theory VoiceAdapters
  imports Contracts "HOL-Library.Sublist"
begin

text \<open>
  The speech adapters of packages/providers: assemblyai_stt.py, which buffers the microphone's
  frames before it sends them, and elevenlabs_tts.py, which keeps the bytes of every chunk
  under a reference until the transport asks for them. The SDKs are parameters: whether a
  transmission fails, which transcripts arrive, which chunks of audio are generated. An
  exception of an SDK is a value of \<open>exn\<close>, its text \<open>exn_text e\<close>.
\<close>

section \<open>Errors\<close>

definition contains :: "string \<Rightarrow> string \<Rightarrow> bool" where
  "contains sub s \<longleftrightarrow> py_rfind sub s (length s) \<noteq> None"

definition error_with_key :: "string \<Rightarrow> provider_error_code \<Rightarrow> string \<Rightarrow> bool \<Rightarrow> provider_error" where
  "error_with_key key code msg retry =
     \<lparr>pe_code = code, pe_message = msg, pe_provider_key = key, pe_retryable = retry\<rparr>"

text \<open>Both adapters classify an exception by its text.\<close>

definition normalize_by_text :: "string \<Rightarrow> string \<Rightarrow> provider_error" where
  "normalize_by_text key msg =
     (let m = py_lower msg in
      if contains ''401'' m \<or> contains ''unauthorized'' m \<or> contains ''authentication'' m
      then error_with_key key PE_AUTH ''authentication failed'' False
      else if contains ''429'' m \<or> contains ''rate limit'' m
      then error_with_key key PE_RATE_LIMIT ''rate limit exceeded'' True
      else if contains ''timeout'' m \<or> contains ''connection'' m
      then error_with_key key PE_TIMEOUT ''connection failed'' True
      else error_with_key key PE_UNKNOWN msg False)"

definition normalize_assemblyai_error :: "string \<Rightarrow> provider_error" where
  "normalize_assemblyai_error = normalize_by_text ''assemblyai''"

definition normalize_elevenlabs_error :: "string \<Rightarrow> provider_error" where
  "normalize_elevenlabs_error = normalize_by_text ''elevenlabs''"

text \<open>\<open>except ProviderError: raise\<close>, \<open>except Exception\<close>; a cancellation is neither.\<close>

definition reraise :: "(string \<Rightarrow> provider_error) \<Rightarrow> (exn \<Rightarrow> string) \<Rightarrow> exn \<Rightarrow> exn" where
  "reraise norm_error exn_text e =
     (case e of
        ProviderErr pe \<Rightarrow> ProviderErr pe
      | CancelledErrorE \<Rightarrow> CancelledErrorE
      | _ \<Rightarrow> ProviderErr (norm_error (exn_text e)))"

section \<open>AssemblyAI: sending\<close>

definition min_chunk_ms :: int where "min_chunk_ms = 50"
definition target_chunk_ms :: int where "target_chunk_ms = 100"

record send_buffer =
  sb_data :: "nat list"
  sb_duration_ms :: int
  sb_sample_rate_hz :: int
  sb_channels :: int

definition empty_buffer :: send_buffer where
  "empty_buffer = \<lparr>sb_data = [], sb_duration_ms = 0, sb_sample_rate_hz = 16000, sb_channels = 1\<rparr>"

definition buffer_frame :: "stt_audio_frame \<Rightarrow> send_buffer \<Rightarrow> send_buffer" where
  "buffer_frame f b =
     \<lparr>sb_data = sb_data b @ af_data f, sb_duration_ms = sb_duration_ms b + af_duration_ms f,
      sb_sample_rate_hz = (if sb_data b = [] then af_sample_rate_hz f else sb_sample_rate_hz b),
      sb_channels = (if sb_data b = [] then af_channels f else sb_channels b)\<rparr>"

definition buffered_frame :: "send_buffer \<Rightarrow> stt_audio_frame result" where
  "buffered_frame b = check_stt_audio_frame
     \<lparr>af_data = sb_data b, af_sample_rate_hz = sb_sample_rate_hz b, af_channels = sb_channels b,
      af_duration_ms = sb_duration_ms b\<rparr>"

text \<open>
  \<open>transmit sent f\<close> is the outcome of \<open>session.send(f)\<close> after the frames \<open>sent\<close>. A send task ends
  with the frames sent and an exception, or whether it reached \<open>session.finish()\<close>.
\<close>

type_synonym transmitter = "stt_audio_frame list \<Rightarrow> stt_audio_frame \<Rightarrow> unit result"

definition send_buffered ::
  "transmitter \<Rightarrow> stt_audio_frame list \<Rightarrow> send_buffer \<Rightarrow> stt_audio_frame list result" where
  "send_buffered transmit sent b =
     and_then (buffered_frame b) (\<lambda>f. and_then (transmit sent f) (\<lambda>_. Inr (sent @ [f])))"

fun send_audio ::
  "transmitter \<Rightarrow> bool \<Rightarrow> stt_audio_frame list \<Rightarrow> send_buffer \<Rightarrow> (bool \<times> stt_audio_frame) list \<Rightarrow>
     stt_audio_frame list \<times> bool result" where
  "send_audio transmit cancelled_at_end sent b [] =
     (if min_chunk_ms \<le> sb_duration_ms b \<and> \<not> cancelled_at_end
      then (case send_buffered transmit sent b of Inl e \<Rightarrow> (sent, Inl e) | Inr sent' \<Rightarrow> (sent', Inr True))
      else (sent, Inr True))"
| "send_audio transmit cancelled_at_end sent b ((cancelled, f) # fs) =
     (if cancelled then (sent, Inr False)
      else
        (let b' = buffer_frame f b in
         if target_chunk_ms \<le> sb_duration_ms b'
         then (case send_buffered transmit sent b' of
                 Inl e \<Rightarrow> (sent, Inl e)
               | Inr sent' \<Rightarrow>
                   send_audio transmit cancelled_at_end sent'
                     (b'\<lparr>sb_data := [], sb_duration_ms := 0\<rparr>) fs)
         else send_audio transmit cancelled_at_end sent b' fs))"

section \<open>AssemblyAI: transcripts\<close>

record turn_event =
  te_transcript :: "string option"
  te_end_of_turn :: bool
  te_start_ms :: "int option"
  te_end_ms :: "int option"
  te_confidence :: "rat option"

definition check_stt_transcript_chunk :: "stt_transcript_chunk \<Rightarrow> stt_transcript_chunk result" where
  "check_stt_transcript_chunk c =
     (if sc_start_ms c < 0 then Inl (ValidationError ''start_ms'')
      else if sc_end_ms c < 0 then Inl (ValidationError ''end_ms'')
      else if (case sc_confidence c of None \<Rightarrow> False | Some x \<Rightarrow> x < 0 \<or> 1 < x)
      then Inl (ValidationError ''confidence'')
      else Inr c)"

definition on_turn_event :: "turn_event \<Rightarrow> stt_transcript_chunk option result" where
  "on_turn_event ev =
     (if \<not> str_truthy (te_transcript ev) then Inr None
      else map_sum id Some (check_stt_transcript_chunk
        \<lparr>sc_text = str_or (te_transcript ev) [], sc_is_final = te_end_of_turn ev,
         sc_start_ms = (case te_start_ms ev of None \<Rightarrow> 0 | Some n \<Rightarrow> n),
         sc_end_ms = (case te_end_ms ev of None \<Rightarrow> 0 | Some n \<Rightarrow> n), sc_confidence = te_confidence ev\<rparr>))"

text \<open>
  \<open>transcribe\<close>: \<open>start\<close> is the outcome of \<open>session.start\<close>, \<open>chunks\<close> the transcripts that arrive
  until the session's queue ends, each with the token's value, \<open>sent\<close> how the send task ends.
\<close>

fun until_cancelled :: "(bool \<times> 'a) list \<Rightarrow> 'a list \<times> bool" where
  "until_cancelled [] = ([], False)"
| "until_cancelled ((cancelled, x) # xs) =
     (if cancelled then ([], True) else (case until_cancelled xs of (ys, c) \<Rightarrow> (x # ys, c)))"

definition transcribe ::
  "(exn \<Rightarrow> string) \<Rightarrow> unit result \<Rightarrow> (bool \<times> stt_transcript_chunk) list \<Rightarrow> bool result \<Rightarrow>
     stt_transcript_chunk list \<times> unit result" where
  "transcribe exn_text start chunks sent =
     (case start of
        Inl e \<Rightarrow> ([], Inl (reraise normalize_assemblyai_error exn_text e))
      | Inr _ \<Rightarrow>
          (case until_cancelled chunks of (ys, cancelled) \<Rightarrow>
             if cancelled then (ys, Inr ())
             else (ys, case sent of Inl e \<Rightarrow> Inl (reraise normalize_assemblyai_error exn_text e)
                                  | Inr _ \<Rightarrow> Inr ())))"

section \<open>ElevenLabs\<close>

type_synonym chunk_audio = "string \<rightharpoonup> nat list"

record tts_output_frame =
  of_data :: "nat list"
  of_sample_rate_hz :: int
  of_channels :: int
  of_duration_ms :: int

definition check_tts_output_frame :: "tts_output_frame \<Rightarrow> tts_output_frame result" where
  "check_tts_output_frame f =
     (if 65536 < length (of_data f) then Inl (ValidationError ''data'')
      else if of_sample_rate_hz f < 8000 \<or> 48000 < of_sample_rate_hz f
      then Inl (ValidationError ''sample_rate_hz'')
      else if of_channels f < 1 \<or> 2 < of_channels f then Inl (ValidationError ''channels'')
      else if of_duration_ms f < 0 then Inl (ValidationError ''duration_ms'')
      else Inr f)"

text \<open>16-bit mono samples at 16 kHz.\<close>

definition pcm_duration_ms :: "nat list \<Rightarrow> int" where
  "pcm_duration_ms d = max 1 (int (length d) div 2 * 1000 div 16000)"

definition pcm_frame :: "nat list \<Rightarrow> tts_output_frame result" where
  "pcm_frame d = check_tts_output_frame
     \<lparr>of_data = d, of_sample_rate_hz = 16000, of_channels = 1, of_duration_ms = pcm_duration_ms d\<rparr>"

definition resolve_output_audio :: "chunk_audio \<Rightarrow> string \<Rightarrow> tts_output_frame option result" where
  "resolve_output_audio m r =
     (case m r of None \<Rightarrow> Inr None | Some d \<Rightarrow> map_sum id Some (pcm_frame d))"

definition check_tts_stream_chunk :: "tts_stream_chunk \<Rightarrow> tts_stream_chunk result" where
  "check_tts_stream_chunk c =
     (if tk_audio_ref c = [] \<or> 1024 < length (tk_audio_ref c) then Inl (ValidationError ''audio_ref'')
      else if tk_index c < 0 then Inl (ValidationError ''index'')
      else Inr c)"

definition chunk_ref :: "string \<Rightarrow> nat \<Rightarrow> string" where
  "chunk_ref voice i = ''elevenlabs:'' @ voice @ '':'' @ nat_str i"

definition final_ref :: "string \<Rightarrow> nat \<Rightarrow> string" where
  "final_ref voice i = chunk_ref voice i @ '':final''"

text \<open>
  The loop over the generated audio from index \<open>i\<close>: the yielded chunks, the map afterwards and
  how the loop was left: \<open>None\<close> by the token, \<open>Some (Inr i)\<close> at the end with \<open>i\<close> chunks,
  \<open>Some (Inl e)\<close> by an exception.
\<close>

fun tts_loop ::
  "string \<Rightarrow> nat \<Rightarrow> (bool \<times> nat list) list \<Rightarrow> exn option \<Rightarrow> chunk_audio \<Rightarrow>
     tts_stream_chunk list \<times> chunk_audio \<times> nat result option" where
  "tts_loop voice i [] failure m = ([], m, Some (case failure of None \<Rightarrow> Inr i | Some e \<Rightarrow> Inl e))"
| "tts_loop voice i ((cancelled, d) # ds) failure m =
     (if cancelled then ([], m, None)
      else
        (let m' = m(chunk_ref voice i \<mapsto> d) in
         case check_tts_stream_chunk
                \<lparr>tk_audio_ref = chunk_ref voice i, tk_index = int i, tk_is_final = False, tk_text_range = None\<rparr> of
           Inl e \<Rightarrow> ([], m', Some (Inl e))
         | Inr c \<Rightarrow> (case tts_loop voice (i + 1) ds failure m' of (cs, m'', out) \<Rightarrow> (c # cs, m'', out))))"

text \<open>After the loop over \<open>n\<close> chunks: the final chunk repeats the last one under its own reference.\<close>

definition tts_final :: "string \<Rightarrow> nat \<Rightarrow> chunk_audio \<Rightarrow> tts_stream_chunk result \<times> chunk_audio" where
  "tts_final voice n m =
     (let i = n - 1; r = final_ref voice i;
          m' = (if m r = None \<and> 0 < n
                then (case m (chunk_ref voice i) of None \<Rightarrow> m | Some d \<Rightarrow> m(r \<mapsto> d))
                else m)
      in (check_tts_stream_chunk
            \<lparr>tk_audio_ref = r, tk_index = int i, tk_is_final = True, tk_text_range = None\<rparr>, m'))"

definition elevenlabs_stream ::
  "(exn \<Rightarrow> string) \<Rightarrow> string \<Rightarrow> tts_request \<Rightarrow> (bool \<times> nat list) list \<Rightarrow> exn option \<Rightarrow> bool \<Rightarrow>
     chunk_audio \<Rightarrow> tts_stream_chunk list \<times> unit result \<times> chunk_audio" where
  "elevenlabs_stream exn_text default_voice rq ds failure cancelled_at_end m =
     (let voice = (if tq_voice_ref rq = [] then default_voice else tq_voice_ref rq);
          wrap = reraise normalize_elevenlabs_error exn_text
      in case tts_loop voice 0 ds failure m of
           (cs, m', None) \<Rightarrow> (cs, Inr (), m')
         | (cs, m', Some (Inl e)) \<Rightarrow> (cs, Inl (wrap e), m')
         | (cs, m', Some (Inr n)) \<Rightarrow>
             if cancelled_at_end then (cs, Inr (), m')
             else (case tts_final voice n m' of
                     (Inl e, m'') \<Rightarrow> (cs, Inl (wrap e), m'')
                   | (Inr c, m'') \<Rightarrow> (cs @ [c], Inr (), m'')))"

end
