(* ===== verification/Bridge.thy ===== *)
theory Bridge
  imports System VoiceAdapters
begin

text \<open>
  xymphony_runtime/bridge.py with observations.py and the frames of media_transport.py: the
  adapter that connects a media transport to a runtime. The runtime is the transition system
  of theory System and the bridge reaches it only through its actions. The bridge's own
  coroutine \<open>run\<close> is cut at its awaits into phases. The transport is the environment: its
  connection state, its callbacks and the outcomes of \<open>connect\<close>, \<open>disconnect\<close> and
  \<open>wait_until_disconnected\<close> are actions; \<open>publish_audio_output\<close> is the list of frames it has
  been handed. The moments at which cancelled background tasks are gathered are not
  interleaved with other callbacks.
\<close>

section \<open>media_transport.py, observations.py\<close>

datatype connection_state = TC_DISCONNECTED | TC_CONNECTING | TC_CONNECTED | TC_RECONNECTING | TC_FAILED

datatype participant_kind = PK_CONNECTED | PK_DISCONNECTED | PK_LEFT

record participant_event =
  px_kind :: participant_kind
  px_identity :: string
  px_room_name :: string

record transport_error =
  xe_code :: string
  xe_message :: string
  xe_retryable :: bool

datatype audio_input_kind = AI_STARTED | AI_ENDED

record transport_frame =
  xf_participant :: string
  xf_room_name :: string
  xf_data :: "nat list"
  xf_sample_rate_hz :: int
  xf_channels :: int
  xf_duration_ms :: int

record output_frame =
  xo_room_name :: string
  xo_audio :: tts_output_frame
  xo_chunk_index :: nat
  xo_is_final :: bool
  xo_turn_id :: "uuid option"

text \<open>The text of a turn's UUID always fits the 36 characters allowed.\<close>

definition check_output_frame :: "output_frame \<Rightarrow> output_frame result" where
  "check_output_frame f =
     (if xo_room_name f = [] \<or> 256 < length (xo_room_name f) then Inl (ValidationError ''room_name'')
      else map_sum id (\<lambda>_. f) (check_tts_output_frame (xo_audio f)))"

datatype observation =
  ObsLifecycle lifecycle_state | ObsParticipant participant_event | ObsError transport_error

section \<open>The bridge's state\<close>

datatype phase =
    BP_New
  | BP_Connecting
  | BP_Waiting
  | BP_Stopping nat "unit result"
  | BP_Disconnecting "unit result"
  | BP_Ended "unit result"

record bridge =
  br_rt :: rts
  br_conn :: connection_state
  br_shutdown :: bool
  br_lifecycle :: lifecycle_state
  br_observations :: "observation list"
  br_events :: "event list"
  br_publishing :: "event list"
  br_indexes :: "uuid \<rightharpoonup> nat"
  br_room :: "string option"
  br_published :: "output_frame list"
  br_conn_states :: "connection_state list"
  br_participants :: "participant_event list"
  br_errors :: "transport_error list"
  br_registered :: bool
  br_phase :: phase

text \<open>
  The configuration: the runtime's, whether a resolver of audio references exists (given, or
  the speech provider of the runtime itself), the text of an exception, and the identity the
  runtime knows the bridge's listener by.
\<close>

record bridge_config =
  bc_runtime :: runtime_config
  bc_resolver :: bool
  bc_exn_text :: "exn \<Rightarrow> string"
  bc_listener :: nat

definition init_bridge :: "rts \<Rightarrow> bridge" where
  "init_bridge s = \<lparr>br_rt = s, br_conn = TC_DISCONNECTED, br_shutdown = False, br_lifecycle = L_INITIALIZING,
     br_observations = [], br_events = [], br_publishing = [], br_indexes = (\<lambda>_. None), br_room = None,
     br_published = [], br_conn_states = [], br_participants = [], br_errors = [], br_registered = False,
     br_phase = BP_New\<rparr>"

section \<open>Calls to the runtime\<close>

text \<open>
  \<open>_listener\<close>: every event delivered to the bridge's listener is recorded, and one that
  announces synthesized audio starts a background task that publishes it.
\<close>

definition observe :: "bridge_config \<Rightarrow> rts \<Rightarrow> bridge \<Rightarrow> bridge" where
  "observe bc s b =
     (let heard = map snd (filter (\<lambda>(l, e). l = bc_listener bc)
                    (drop (length (rs_delivered (br_rt b))) (rs_delivered s)))
      in b\<lparr>br_rt := s, br_events := br_events b @ heard,
           br_publishing := br_publishing b @ filter (\<lambda>e. ev_type e = ET_TTS_CHUNK) heard\<rparr>)"

text \<open>
  An awaited call of the runtime. A call that suspends leaves its task to the runtime; where
  the bridge awaits more than that, its phase names the task.
\<close>

definition runtime_call :: "bridge_config \<Rightarrow> action \<Rightarrow> (bridge, unit) eff" where
  "runtime_call bc a = (\<lambda>b.
     let s = br_rt b; s' = perform (bc_runtime bc) a s in
     (case rs_done s' (rs_next_task s) of Some (Inl e) \<Rightarrow> Inl e | _ \<Rightarrow> Inr (), observe bc s' b))"

definition forward_input :: "bridge_config \<Rightarrow> runtime_input \<Rightarrow> (bridge, unit) eff" where
  "forward_input bc i = runtime_call bc (Act_Input i)"

definition bridge_handle_input :: "bridge_config \<Rightarrow> runtime_input \<Rightarrow> (bridge, unit) eff" where
  "bridge_handle_input bc i = with_state (\<lambda>b.
     if \<not> rs_running (br_rt b) then throw (RuntimeNotRunning ''runtime is not running'')
     else forward_input bc i)"

definition current_live :: "rts \<Rightarrow> uuid option" where
  "current_live s = (case rs_current s of Some t \<Rightarrow> if turn_live s t then Some t else None | None \<Rightarrow> None)"

definition voice_input_enabled :: "bridge_config \<Rightarrow> bridge \<Rightarrow> bool" where
  "voice_input_enabled bc b \<longleftrightarrow>
     rs_running (br_rt b) \<and> \<not> cx_shutdown (rs_ctx (br_rt b)) \<and> rc_stt (bc_runtime bc) \<noteq> None"

definition voice_output_enabled :: "bridge_config \<Rightarrow> bridge \<Rightarrow> bool" where
  "voice_output_enabled bc b \<longleftrightarrow>
     rs_running (br_rt b) \<and> \<not> cx_shutdown (rs_ctx (br_rt b)) \<and> rc_tts (bc_runtime bc) \<noteq> None \<and> bc_resolver bc"

section \<open>Observations and lifecycle\<close>

definition transition :: "lifecycle_state \<Rightarrow> (bridge, unit) eff" where
  "transition l = modify_eff (\<lambda>b. b\<lparr>br_lifecycle := l, br_observations := br_observations b @ [ObsLifecycle l]\<rparr>)"

definition on_connection_state :: "connection_state \<Rightarrow> (bridge, unit) eff" where
  "on_connection_state c = modify_eff (\<lambda>b. b\<lparr>br_conn_states := br_conn_states b @ [c]\<rparr>)"

definition on_participant_event :: "participant_event \<Rightarrow> (bridge, unit) eff" where
  "on_participant_event p = modify_eff (\<lambda>b. b\<lparr>br_participants := br_participants b @ [p],
     br_observations := br_observations b @ [ObsParticipant p]\<rparr>)"

definition record_transport_error :: "transport_error \<Rightarrow> (bridge, unit) eff" where
  "record_transport_error x = modify_eff (\<lambda>b. b\<lparr>br_errors := br_errors b @ [x],
     br_observations := br_observations b @ [ObsError x]\<rparr>)"

definition report_error :: "bridge_config \<Rightarrow> transport_error \<Rightarrow> (bridge, unit) eff" where
  "report_error bc x = then_eff (record_transport_error x) (with_state (\<lambda>b.
     if rs_running (br_rt b) then forward_input bc (error_input (xe_code x) (xe_message x)) else ret ()))"

definition on_transport_error :: "bridge_config \<Rightarrow> transport_error \<Rightarrow> (bridge, unit) eff" where
  "on_transport_error bc x = then_eff (report_error bc x) (with_state (\<lambda>b.
     if br_lifecycle b \<in> {L_STOPPING, L_STOPPED} then ret () else transition L_FAILED))"

definition handle_connect_failure :: "bridge_config \<Rightarrow> string \<Rightarrow> (bridge, unit) eff" where
  "handle_connect_failure bc msg = with_state (\<lambda>b.
     if br_lifecycle b = L_FAILED then ret ()
     else then_eff (report_error bc \<lparr>xe_code = ''session_connect_failed'', xe_message = msg, xe_retryable = False\<rparr>)
            (transition L_FAILED))"

section \<open>Audio from the transport\<close>

definition speech_started_input :: runtime_input where
  "speech_started_input = input_of_kind RI_USER_SPEECH_STARTED"

definition on_audio_input :: "bridge_config \<Rightarrow> audio_input_kind \<Rightarrow> (bridge, unit) eff" where
  "on_audio_input bc kind = with_state (\<lambda>b.
     if \<not> voice_input_enabled bc b then ret ()
     else case kind of
            AI_STARTED \<Rightarrow>
              then_eff (case current_live (br_rt b) of
                          Some t \<Rightarrow> forward_input bc (cancel_turn_input (Some t))
                        | None \<Rightarrow> ret ())
                (forward_input bc speech_started_input)
          | AI_ENDED \<Rightarrow>
              (case current_live (br_rt b) of
                 None \<Rightarrow> ret ()
               | Some _ \<Rightarrow> forward_input bc (input_of_kind RI_USER_SPEECH_ENDED)))"

definition on_audio_frame :: "bridge_config \<Rightarrow> transport_frame \<Rightarrow> (bridge, unit) eff" where
  "on_audio_frame bc f = with_state (\<lambda>b.
     if \<not> voice_input_enabled bc b then ret ()
     else then_eff (if current_live (br_rt b) = None then forward_input bc speech_started_input else ret ())
            (with_state (\<lambda>b.
               if current_live (br_rt b) = None then ret ()
               else forward_input bc (audio_frame_input (xf_data f) (xf_duration_ms f)
                      (xf_sample_rate_hz f) (xf_channels f)))))"

section \<open>Audio to the transport\<close>

definition silent_states :: "lifecycle_state set" where
  "silent_states = {L_STOPPING, L_STOPPED, L_FAILED}"

definition next_index :: "bridge \<Rightarrow> uuid \<Rightarrow> nat" where
  "next_index b t = (case br_indexes b t of None \<Rightarrow> 0 | Some n \<Rightarrow> n)"

definition hand_over :: "tts_output_frame \<Rightarrow> uuid \<Rightarrow> (bridge, unit) eff" where
  "hand_over d t = with_state (\<lambda>b.
     let i = next_index b t in
     then_eff (modify_eff (\<lambda>b. b\<lparr>br_indexes := (br_indexes b)(t \<mapsto> i + 1)\<rparr>))
       (bind_eff (lift_eff (check_output_frame
          \<lparr>xo_room_name = (case br_room b of None \<Rightarrow> [] | Some n \<Rightarrow> n), xo_audio = d,
           xo_chunk_index = i, xo_is_final = False, xo_turn_id = Some t\<rparr>))
         (\<lambda>f. modify_eff (\<lambda>b. b\<lparr>br_published := br_published b @ [f]\<rparr>))))"

definition publish_tts_output ::
  "bridge_config \<Rightarrow> (string \<Rightarrow> tts_output_frame option result) \<Rightarrow> event \<Rightarrow> (bridge, unit) eff" where
  "publish_tts_output bc resolve e = with_state (\<lambda>b.
     if \<not> voice_output_enabled bc b then ret ()
     else case ev_turn_id e of
            None \<Rightarrow> ret ()
          | Some t \<Rightarrow>
              if is_turn_cancelled (rs_ctx (br_rt b)) t then ret ()
              else if br_lifecycle b \<in> silent_states \<or> br_conn b \<noteq> TC_CONNECTED then ret ()
              else case ev_payload e of
                     TTSChunkPayload r _ \<Rightarrow>
                       bind_eff (lift_eff (resolve r)) (\<lambda>audio.
                         case audio of None \<Rightarrow> ret () | Some d \<Rightarrow> hand_over d t)
                   | _ \<Rightarrow> ret ())"

section \<open>run\<close>

definition end_run :: "unit result \<Rightarrow> bridge \<Rightarrow> bridge" where
  "end_run r b =
     (let b' = b\<lparr>br_publishing := []\<rparr>;
          b'' = (if br_lifecycle b = L_FAILED then b' else snd (transition L_STOPPED b'))
      in b''\<lparr>br_phase := BP_Ended r\<rparr>)"

definition begin_disconnect :: "unit result \<Rightarrow> bridge \<Rightarrow> bridge" where
  "begin_disconnect r b =
     (if br_conn b = TC_DISCONNECTED then end_run r b else b\<lparr>br_phase := BP_Disconnecting r\<rparr>)"

text \<open>
  The runtime's \<open>stop\<close> ended with \<open>x\<close>, \<open>r\<close> being the outcome \<open>run\<close> was about to have; an
  exception leaves \<open>_teardown\<close> before the transport is disconnected.
\<close>

definition after_stop :: "unit result \<Rightarrow> unit result \<Rightarrow> bridge \<Rightarrow> bridge" where
  "after_stop x r b = (case x of Inl e \<Rightarrow> b\<lparr>br_phase := BP_Ended (Inl e)\<rparr> | Inr _ \<Rightarrow> begin_disconnect r b)"

definition teardown :: "bridge_config \<Rightarrow> unit result \<Rightarrow> bridge \<Rightarrow> bridge" where
  "teardown bc r b =
     (let b1 = b\<lparr>br_publishing := []\<rparr>;
          b2 = (if br_lifecycle b \<in> {L_FAILED, L_STOPPING} then b1 else snd (transition L_STOPPING b1));
          k = rs_next_task (br_rt b2)
      in if \<not> rs_running (br_rt b2) then begin_disconnect r b2
         else (case runtime_call bc (Act_Stop ''transport_session_ended'') b2 of (x, b3) \<Rightarrow>
                 if rs_tasks (br_rt b3) k \<noteq> None then b3\<lparr>br_phase := BP_Stopping k r\<rparr>
                 else after_stop x r b3))"

definition run_failed :: "bridge_config \<Rightarrow> exn \<Rightarrow> bridge \<Rightarrow> bridge" where
  "run_failed bc e b =
     (case handle_connect_failure bc (bc_exn_text bc e) b of (r, b') \<Rightarrow> teardown bc r b')"

text \<open>The two \<open>except\<close> clauses of \<open>run\<close>, each followed by its \<open>finally\<close>.\<close>

definition run_cancelled :: "bridge_config \<Rightarrow> bridge \<Rightarrow> bridge" where
  "run_cancelled bc b = teardown bc (Inl CancelledErrorE) (snd (transition L_STOPPING b))"

definition run_raised :: "bridge_config \<Rightarrow> exn \<Rightarrow> bridge \<Rightarrow> bridge" where
  "run_raised bc e b = (if e = CancelledErrorE then run_cancelled bc b else run_failed bc e b)"

definition register_listener :: "bridge_config \<Rightarrow> (bridge, unit) eff" where
  "register_listener bc = modify_eff (\<lambda>b.
     if br_registered b then b
     else b\<lparr>br_registered := True, br_rt := on_event (bc_listener bc) (br_rt b)\<rparr>)"

definition begin_run :: "bridge_config \<Rightarrow> string \<Rightarrow> bridge \<Rightarrow> bridge" where
  "begin_run bc room b =
     (case then_eff (transition L_INITIALIZING) (then_eff (register_listener bc)
             (then_eff (runtime_call bc Act_Start)
             (then_eff (transition L_CONNECTING)
               (modify_eff (\<lambda>b. b\<lparr>br_room := Some room, br_phase := BP_Connecting\<rparr>))))) b of
        (Inl e, b') \<Rightarrow> run_raised bc e b'
      | (Inr _, b') \<Rightarrow> b')"

definition connected :: "bridge_config \<Rightarrow> unit result \<Rightarrow> bridge \<Rightarrow> bridge" where
  "connected bc x b =
     (case x of
        Inl e \<Rightarrow> run_raised bc e b
      | Inr _ \<Rightarrow> (snd (transition L_CONNECTED b))\<lparr>br_phase := BP_Waiting\<rparr>)"

text \<open>\<open>asyncio.wait\<close> returned: by the shutdown event alone (\<open>None\<close>) or with the transport's outcome.\<close>

definition woken :: "bridge_config \<Rightarrow> unit result option \<Rightarrow> bridge \<Rightarrow> bridge" where
  "woken bc x b =
     (case x of
        Some (Inl e) \<Rightarrow> run_raised bc e b
      | _ \<Rightarrow> teardown bc (Inr ()) (if br_shutdown b then snd (transition L_STOPPING b) else b))"

section \<open>Steps\<close>

datatype bridge_action =
    BA_Run string
  | BA_Connected "unit result"
  | BA_Woken "unit result option"
  | BA_Stopped
  | BA_Disconnected "unit result"
  | BA_Cancel
  | BA_Shutdown
  | BA_Input runtime_input
  | BA_Runtime action
  | BA_State connection_state
  | BA_Participant participant_event
  | BA_Error transport_error
  | BA_AudioInput audio_input_kind
  | BA_AudioFrame transport_frame
  | BA_Publish "string \<Rightarrow> tts_output_frame option result"

text \<open>What the runtime's own tasks do between two callbacks.\<close>

fun internal :: "action \<Rightarrow> bool" where
  "internal (Act_Resume k st) = True"
| "internal (Act_Pull k) = True"
| "internal (Act_Clock now) = True"
| "internal _ = False"

definition callback :: "(bridge, unit) eff \<Rightarrow> bridge \<Rightarrow> bridge" where
  "callback m b = (if br_registered b then snd (m b) else b)"

fun bridge_step :: "bridge_config \<Rightarrow> bridge_action \<Rightarrow> bridge \<Rightarrow> bridge" where
  "bridge_step bc (BA_Run room) b = (if br_phase b = BP_New then begin_run bc room b else b)"
| "bridge_step bc (BA_Connected x) b = (if br_phase b = BP_Connecting then connected bc x b else b)"
| "bridge_step bc (BA_Woken x) b =
     (if br_phase b = BP_Waiting \<and> (x = None \<longrightarrow> br_shutdown b) then woken bc x b else b)"
| "bridge_step bc BA_Stopped b =
     (case br_phase b of
        BP_Stopping k r \<Rightarrow> (case rs_done (br_rt b) k of None \<Rightarrow> b | Some x \<Rightarrow> after_stop x r b)
      | _ \<Rightarrow> b)"
| "bridge_step bc (BA_Disconnected x) b =
     (case br_phase b of
        BP_Disconnecting r \<Rightarrow> end_run (case x of Inl e \<Rightarrow> Inl e | Inr _ \<Rightarrow> r) b
      | _ \<Rightarrow> b)"
| "bridge_step bc BA_Cancel b =
     (case br_phase b of
        BP_Connecting \<Rightarrow> run_cancelled bc b
      | BP_Waiting \<Rightarrow> run_cancelled bc b
      | BP_Stopping k r \<Rightarrow>
          after_stop (Inl CancelledErrorE) r
            (observe bc (perform (bc_runtime bc) (Act_Resume k (S_Raise CancelledErrorE)) (br_rt b)) b)
      | BP_Disconnecting r \<Rightarrow> end_run (Inl CancelledErrorE) b
      | _ \<Rightarrow> b)"
| "bridge_step bc BA_Shutdown b = b\<lparr>br_shutdown := True\<rparr>"
| "bridge_step bc (BA_Input i) b = snd (bridge_handle_input bc i b)"
| "bridge_step bc (BA_Runtime a) b =
     (if internal a then observe bc (perform (bc_runtime bc) a (br_rt b)) b else b)"
| "bridge_step bc (BA_State c) b = callback (on_connection_state c) (b\<lparr>br_conn := c\<rparr>)"
| "bridge_step bc (BA_Participant p) b = callback (on_participant_event p) b"
| "bridge_step bc (BA_Error x) b = callback (on_transport_error bc x) b"
| "bridge_step bc (BA_AudioInput k) b = callback (on_audio_input bc k) b"
| "bridge_step bc (BA_AudioFrame f) b = callback (on_audio_frame bc f) b"
| "bridge_step bc (BA_Publish resolve) b =
     (case br_publishing b of
        [] \<Rightarrow> b
      | e # es \<Rightarrow> snd (publish_tts_output bc resolve e (b\<lparr>br_publishing := es\<rparr>)))"

fun bridge_run :: "bridge_config \<Rightarrow> bridge_action list \<Rightarrow> bridge \<Rightarrow> bridge" where
  "bridge_run bc [] b = b"
| "bridge_run bc (a # acts) b = bridge_run bc acts (bridge_step bc a b)"

inductive bridge_reachable :: "bridge_config \<Rightarrow> bridge \<Rightarrow> bridge \<Rightarrow> bool" for bc and b0 where
  bridge_init: "bridge_reachable bc b0 b0"
| bridge_next: "bridge_reachable bc b0 b \<Longrightarrow> bridge_reachable bc b0 (bridge_step bc a b)"

lemma bridge_reachable_run: "bridge_reachable bc b0 b \<Longrightarrow> bridge_reachable bc b0 (bridge_run bc acts b)"
  by (induction acts arbitrary: b) (auto intro: bridge_next)

end
