(* ===== verification/Transports.thy ===== *)
theory Transports
  imports Bridge PyNumbers "HOL-Library.AList"
begin

text \<open>
  The media transports of packages/realtime: fake_transport.py, whose operations are atomic, and
  livekit_transport.py, cut at its awaits. A transport calls the handlers its client has
  registered and waits for them; they act on the client's state \<open>'w\<close> and may raise. The room of
  the LiveKit SDK is the environment: its events, its audio streams and the outcomes of its
  calls are actions. An awaited handler is one step.
\<close>

section \<open>Events, configuration and handlers\<close>

record audio_input_event =
  ai_kind :: audio_input_kind
  ai_participant :: string
  ai_room_name :: string

record media_config =
  md_url :: string
  md_room_name :: string
  md_identity :: string
  md_token :: string

definition check_audio_input :: "audio_input_event \<Rightarrow> audio_input_event result" where
  "check_audio_input e =
     (if \<not> between_len 1 256 (ai_participant e) then Inl (ValidationError ''participant_identity'')
      else if \<not> between_len 1 256 (ai_room_name e) then Inl (ValidationError ''room_name'')
      else Inr e)"

definition check_transport_frame :: "transport_frame \<Rightarrow> transport_frame result" where
  "check_transport_frame f =
     (if \<not> between_len 1 256 (xf_participant f) then Inl (ValidationError ''participant_identity'')
      else if \<not> between_len 1 256 (xf_room_name f) then Inl (ValidationError ''room_name'')
      else if 65536 < length (xf_data f) then Inl (ValidationError ''data'')
      else if xf_sample_rate_hz f < 8000 \<or> 48000 < xf_sample_rate_hz f
      then Inl (ValidationError ''sample_rate_hz'')
      else if xf_channels f < 1 \<or> 2 < xf_channels f then Inl (ValidationError ''channels'')
      else if xf_duration_ms f < 0 then Inl (ValidationError ''duration_ms'')
      else Inr f)"

type_synonym ('w, 'a) listener = "'a \<Rightarrow> ('w, unit) eff"

record 'w handlers =
  hs_participant :: "('w, participant_event) listener list"
  hs_state :: "('w, connection_state) listener list"
  hs_error :: "('w, transport_error) listener list"
  hs_frame :: "('w, transport_frame) listener list"
  hs_input :: "('w, audio_input_event) listener list"

definition no_handlers :: "'w handlers" where
  "no_handlers = \<lparr>hs_participant = [], hs_state = [], hs_error = [], hs_frame = [], hs_input = []\<rparr>"

text \<open>Handlers are called in the order of their registration; one that raises ends the call.\<close>

fun notify :: "('w, 'a) listener list \<Rightarrow> ('w, 'a) listener" where
  "notify [] x = ret ()"
| "notify (h # hs) x = then_eff (h x) (notify hs x)"

section \<open>fake_transport.py\<close>

record 'w fake =
  fk_state :: connection_state
  fk_config :: "media_config option"
  fk_handlers :: "'w handlers"
  fk_disconnected :: bool
  fk_connect_calls :: nat
  fk_disconnect_calls :: nat
  fk_join_identity :: "string option"
  fk_fail_on_connect :: bool
  fk_fail_message :: string
  fk_published :: "output_frame list"
  fk_client :: 'w

definition init_fake :: "'w \<Rightarrow> 'w fake" where
  "init_fake w = \<lparr>fk_state = TC_DISCONNECTED, fk_config = None, fk_handlers = no_handlers,
     fk_disconnected = False, fk_connect_calls = 0, fk_disconnect_calls = 0, fk_join_identity = None,
     fk_fail_on_connect = False, fk_fail_message = ''connect failed'', fk_published = [], fk_client = w\<rparr>"

definition fake_call :: "('w handlers \<Rightarrow> ('w, unit) eff) \<Rightarrow> ('w fake, unit) eff" where
  "fake_call m = (\<lambda>t. case m (fk_handlers t) (fk_client t) of (r, w) \<Rightarrow> (r, t\<lparr>fk_client := w\<rparr>))"

definition fake_set_state :: "connection_state \<Rightarrow> ('w fake, unit) eff" where
  "fake_set_state c =
     then_eff (modify_eff (\<lambda>t. t\<lparr>fk_state := c\<rparr>)) (fake_call (\<lambda>h. notify (hs_state h) c))"

definition fake_emit_error :: "string \<Rightarrow> string \<Rightarrow> bool \<Rightarrow> ('w fake, unit) eff" where
  "fake_emit_error code msg retryable =
     fake_call (\<lambda>h. notify (hs_error h) \<lparr>xe_code = code, xe_message = msg, xe_retryable = retryable\<rparr>)"

definition fake_emit_participant :: "participant_event \<Rightarrow> ('w fake, unit) eff" where
  "fake_emit_participant p = fake_call (\<lambda>h. notify (hs_participant h) p)"

definition fake_connect :: "media_config \<Rightarrow> ('w fake, unit) eff" where
  "fake_connect cfg =
     then_eff (modify_eff (\<lambda>t. t\<lparr>fk_connect_calls := fk_connect_calls t + 1\<rparr>))
     (then_eff (fake_set_state TC_CONNECTING)
     (with_state (\<lambda>t.
        if fk_fail_on_connect t then
          then_eff (fake_emit_error ''connect_failed'' (fk_fail_message t) False)
          (then_eff (fake_set_state TC_FAILED) (throw (ConnectionErrorE (fk_fail_message t))))
        else
          then_eff (modify_eff (\<lambda>t. t\<lparr>fk_config := Some cfg\<rparr>))
          (then_eff (fake_set_state TC_CONNECTED)
          (with_state (\<lambda>t.
             if str_truthy (fk_join_identity t)
             then fake_emit_participant \<lparr>px_kind = PK_CONNECTED,
                    px_identity = str_or (fk_join_identity t) [], px_room_name = md_room_name cfg\<rparr>
             else ret ()))))))"

definition fake_disconnect :: "('w fake, unit) eff" where
  "fake_disconnect = with_state (\<lambda>t.
     if fk_state t = TC_DISCONNECTED then ret ()
     else then_eff (modify_eff (\<lambda>t. t\<lparr>fk_disconnect_calls := fk_disconnect_calls t + 1\<rparr>))
          (then_eff (fake_set_state TC_DISCONNECTED)
             (modify_eff (\<lambda>t. t\<lparr>fk_disconnected := True\<rparr>))))"

definition fake_publish :: "output_frame \<Rightarrow> ('w fake, unit) eff" where
  "fake_publish f = modify_eff (\<lambda>t. t\<lparr>fk_published := fk_published t @ [f]\<rparr>)"

text \<open>The methods by which a test plays the room; without a configuration they do nothing.\<close>

definition configured :: "(media_config \<Rightarrow> ('w fake, unit) eff) \<Rightarrow> ('w fake, unit) eff" where
  "configured f = with_state (\<lambda>t. case fk_config t of None \<Rightarrow> ret () | Some c \<Rightarrow> f c)"

definition simulate_remote_leave :: "string \<Rightarrow> ('w fake, unit) eff" where
  "simulate_remote_leave i = configured (\<lambda>c.
     fake_emit_participant \<lparr>px_kind = PK_LEFT, px_identity = i, px_room_name = md_room_name c\<rparr>)"

definition simulate_error :: "string \<Rightarrow> string \<Rightarrow> bool \<Rightarrow> ('w fake, unit) eff" where
  "simulate_error code msg retryable =
     then_eff (fake_emit_error code msg retryable)
     (then_eff (fake_set_state TC_FAILED) (modify_eff (\<lambda>t. t\<lparr>fk_disconnected := True\<rparr>)))"

definition simulate_audio_input :: "audio_input_kind \<Rightarrow> string \<Rightarrow> ('w fake, unit) eff" where
  "simulate_audio_input k i = configured (\<lambda>c.
     bind_eff (lift_eff (check_audio_input \<lparr>ai_kind = k, ai_participant = i, ai_room_name = md_room_name c\<rparr>))
       (\<lambda>e. fake_call (\<lambda>h. notify (hs_input h) e)))"

definition simulate_audio_frame :: "string \<Rightarrow> nat list \<Rightarrow> int \<Rightarrow> int \<Rightarrow> int \<Rightarrow> ('w fake, unit) eff" where
  "simulate_audio_frame i d duration rate channels = configured (\<lambda>c.
     bind_eff (lift_eff (check_transport_frame
         \<lparr>xf_participant = i, xf_room_name = md_room_name c, xf_data = d, xf_sample_rate_hz = rate,
          xf_channels = channels, xf_duration_ms = duration\<rparr>))
       (\<lambda>f. fake_call (\<lambda>h. notify (hs_frame h) f)))"

definition simulate_speech_utterance :: "string \<Rightarrow> nat list \<Rightarrow> int \<Rightarrow> int \<Rightarrow> ('w fake, unit) eff" where
  "simulate_speech_utterance i d duration rate =
     then_eff (simulate_audio_input AI_STARTED i)
     (then_eff (simulate_audio_frame i d duration rate 1) (simulate_audio_input AI_ENDED i))"


section \<open>livekit_transport.py: state\<close>

text \<open>
  A task that consumes one remote audio track: created, or streaming after it has announced
  STARTED. \<open>at_cancel\<close> is a requested cancellation, delivered at the task's next step.
\<close>

record audio_task =
  at_sid :: string
  at_identity :: string
  at_room_name :: string
  at_streaming :: bool
  at_cancel :: bool

text \<open>Tasks created by room events, not yet run.\<close>

datatype pending =
    PD_Participant participant_event
  | PD_State connection_state
  | PD_RoomGone

text \<open>
  Where a call of the transport waits: for \<open>room.connect\<close>, for the publication of its track, for
  cancelled audio tasks (\<open>True\<close>: in \<open>_handle_room_disconnected\<close>), for \<open>room.disconnect\<close>.
\<close>

datatype call_wait = CW_Connect | CW_Publish | CW_Gather "nat list" bool | CW_Leave

record captured =
  cp_data :: "nat list"
  cp_sample_rate_hz :: int
  cp_channels :: int
  cp_samples_per_channel :: int

record 'w livekit =
  lk_state :: connection_state
  lk_config :: "media_config option"
  lk_handlers :: "'w handlers"
  lk_disconnected :: bool
  lk_registered :: bool
  lk_tasks :: "(nat \<times> audio_task) list"
  lk_tracked :: "(string \<times> nat) list"
  lk_next_task :: nat
  lk_source :: bool
  lk_captured :: "captured list"
  lk_pending :: "pending list"
  lk_calls :: "nat \<rightharpoonup> call_wait"
  lk_results :: "nat \<rightharpoonup> unit result"
  lk_next_call :: nat
  lk_client :: 'w

definition init_livekit :: "'w handlers \<Rightarrow> 'w \<Rightarrow> 'w livekit" where
  "init_livekit hs w = \<lparr>lk_state = TC_DISCONNECTED, lk_config = None, lk_handlers = hs,
     lk_disconnected = False, lk_registered = False, lk_tasks = [], lk_tracked = [], lk_next_task = 0,
     lk_source = False, lk_captured = [], lk_pending = [], lk_calls = Map.empty, lk_results = Map.empty,
     lk_next_call = 0, lk_client = w\<rparr>"

definition room_name_of :: "'w livekit \<Rightarrow> string" where
  "room_name_of t = (case lk_config t of None \<Rightarrow> [] | Some c \<Rightarrow> md_room_name c)"

definition lk_call :: "('w handlers \<Rightarrow> ('w, unit) eff) \<Rightarrow> ('w livekit, unit) eff" where
  "lk_call m = (\<lambda>t. case m (lk_handlers t) (lk_client t) of (r, w) \<Rightarrow> (r, t\<lparr>lk_client := w\<rparr>))"

definition lk_set_state :: "connection_state \<Rightarrow> ('w livekit, unit) eff" where
  "lk_set_state c =
     then_eff (modify_eff (\<lambda>t. t\<lparr>lk_state := c\<rparr>)) (lk_call (\<lambda>h. notify (hs_state h) c))"

definition lk_emit_error :: "string \<Rightarrow> string \<Rightarrow> bool \<Rightarrow> ('w livekit, unit) eff" where
  "lk_emit_error code msg retryable =
     lk_call (\<lambda>h. notify (hs_error h) \<lparr>xe_code = code, xe_message = msg, xe_retryable = retryable\<rparr>)"

definition lk_emit_participant :: "participant_event \<Rightarrow> ('w livekit, unit) eff" where
  "lk_emit_participant p = lk_call (\<lambda>h. notify (hs_participant h) p)"

definition lk_emit_frame :: "transport_frame \<Rightarrow> ('w livekit, unit) eff" where
  "lk_emit_frame f =
     bind_eff (lift_eff (check_transport_frame f)) (\<lambda>f. lk_call (\<lambda>h. notify (hs_frame h) f))"

definition lk_emit_input :: "audio_input_kind \<Rightarrow> string \<Rightarrow> string \<Rightarrow> ('w livekit, unit) eff" where
  "lk_emit_input k i room =
     bind_eff (lift_eff (check_audio_input \<lparr>ai_kind = k, ai_participant = i, ai_room_name = room\<rparr>))
       (\<lambda>e. lk_call (\<lambda>h. notify (hs_input h) e))"

section \<open>Remote audio\<close>

record raw_frame =
  rw_data :: "nat list"
  rw_sample_rate :: int
  rw_num_channels :: int
  rw_samples :: int

definition nonzero_or :: "int \<Rightarrow> int \<Rightarrow> int" where
  "nonzero_or n d = (if n = 0 then d else n)"

text \<open>\<open>int(samples * 1000 / sample_rate)\<close>; the sample rate is not zero.\<close>

definition frame_duration_ms :: "int \<Rightarrow> int \<Rightarrow> int" where
  "frame_duration_ms samples rate =
     (case round_double (of_int (samples * 1000) / of_int rate) of
        Fin x \<Rightarrow> (if 0 \<le> x then \<lfloor>x\<rfloor> else \<lceil>x\<rceil>)
      | _ \<Rightarrow> 0)"

definition frame_of :: "audio_task \<Rightarrow> raw_frame \<Rightarrow> transport_frame" where
  "frame_of a f =
     (let rate = nonzero_or (rw_sample_rate f) 16000 in
      \<lparr>xf_participant = at_identity a, xf_room_name = at_room_name a, xf_data = rw_data f,
       xf_sample_rate_hz = rate, xf_channels = nonzero_or (rw_num_channels f) 1,
       xf_duration_ms = frame_duration_ms (rw_samples f) rate\<rparr>)"

text \<open>The task is done: its callback takes the track off the table, whichever task is there.\<close>

definition drop_task :: "nat \<Rightarrow> audio_task \<Rightarrow> 'w livekit \<Rightarrow> 'w livekit" where
  "drop_task k a t = t\<lparr>lk_tasks := AList.delete k (lk_tasks t), lk_tracked := AList.delete (at_sid a) (lk_tracked t)\<rparr>"

text \<open>
  The \<open>except\<close> and \<open>finally\<close> clauses of \<open>_consume_remote_audio\<close>, for a body that ended with \<open>r\<close>.
  Nobody awaits the task, so its own outcome is lost.
\<close>

definition end_audio :: "(exn \<Rightarrow> string) \<Rightarrow> nat \<Rightarrow> audio_task \<Rightarrow> unit result \<Rightarrow> 'w livekit \<Rightarrow> 'w livekit" where
  "end_audio exn_text k a r t =
     (let t1 = (case r of
             Inl e \<Rightarrow> if e = CancelledErrorE then t
                      else snd (lk_emit_error ''audio_ingestion_failed'' (exn_text e) False t)
           | Inr _ \<Rightarrow> t)
      in drop_task k a (snd (lk_emit_input AI_ENDED (at_identity a) (at_room_name a) t1)))"

datatype audio_stimulus = AS_Continue | AS_Frame raw_frame | AS_End | AS_Raise exn

definition begin_audio :: "nat \<Rightarrow> audio_task \<Rightarrow> 'w livekit \<Rightarrow> 'w livekit" where
  "begin_audio k a t =
     (let room = room_name_of t in
      case lk_emit_input AI_STARTED (at_identity a) room t of
        (Inl e, t') \<Rightarrow> drop_task k a t'
      | (Inr _, t') \<Rightarrow>
          t'\<lparr>lk_tasks := AList.update k (a\<lparr>at_room_name := room, at_streaming := True\<rparr>) (lk_tasks t')\<rparr>)"

definition audio_frame :: "(exn \<Rightarrow> string) \<Rightarrow> nat \<Rightarrow> audio_task \<Rightarrow> raw_frame \<Rightarrow> 'w livekit \<Rightarrow> 'w livekit" where
  "audio_frame exn_text k a f t =
     (if lk_state t = TC_DISCONNECTED then end_audio exn_text k a (Inr ()) t
      else case lk_emit_frame (frame_of a f) t of
             (Inl e, t') \<Rightarrow> end_audio exn_text k a (Inl e) t'
           | (Inr _, t') \<Rightarrow> t')"

definition audio_step :: "(exn \<Rightarrow> string) \<Rightarrow> nat \<Rightarrow> audio_stimulus \<Rightarrow> 'w livekit \<Rightarrow> 'w livekit" where
  "audio_step exn_text k st t =
     (case map_of (lk_tasks t) k of
        None \<Rightarrow> t
      | Some a \<Rightarrow>
          if at_cancel a then
            (if at_streaming a then end_audio exn_text k a (Inl CancelledErrorE) t else drop_task k a t)
          else if at_streaming a then
            (case st of
               AS_Continue \<Rightarrow> t
             | AS_Frame f \<Rightarrow> audio_frame exn_text k a f t
             | AS_End \<Rightarrow> end_audio exn_text k a (Inr ()) t
             | AS_Raise e \<Rightarrow> end_audio exn_text k a (Inl e) t)
          else (case st of AS_Continue \<Rightarrow> begin_audio k a t | _ \<Rightarrow> t))"

section \<open>Room events\<close>

datatype rtc_state = RTC_DISCONNECTED | RTC_CONNECTED | RTC_RECONNECTING | RTC_OTHER

fun map_connection_state :: "rtc_state \<Rightarrow> connection_state" where
  "map_connection_state RTC_CONNECTED = TC_CONNECTED"
| "map_connection_state RTC_RECONNECTING = TC_RECONNECTING"
| "map_connection_state RTC_DISCONNECTED = TC_DISCONNECTED"
| "map_connection_state RTC_OTHER = TC_CONNECTING"

datatype room_event =
    RE_ParticipantConnected string
  | RE_ParticipantDisconnected string
  | RE_Disconnected
  | RE_StateChanged rtc_state
  | RE_Subscribed bool string string
  | RE_Unsubscribed string

definition create_pending :: "pending \<Rightarrow> 'w livekit \<Rightarrow> 'w livekit" where
  "create_pending p t = t\<lparr>lk_pending := lk_pending t @ [p]\<rparr>"

text \<open>\<open>task.cancel()\<close>, without effect on a task that is done.\<close>

definition request_cancel :: "nat \<Rightarrow> 'w livekit \<Rightarrow> 'w livekit" where
  "request_cancel k t = t\<lparr>lk_tasks := map (\<lambda>(j, a). (j, if j = k then a\<lparr>at_cancel := True\<rparr> else a)) (lk_tasks t)\<rparr>"

definition track_subscribed :: "string \<Rightarrow> string \<Rightarrow> 'w livekit \<Rightarrow> 'w livekit" where
  "track_subscribed sid i t =
     (let k = lk_next_task t in
      t\<lparr>lk_tasks := lk_tasks t @ [(k, \<lparr>at_sid = sid, at_identity = i, at_room_name = [], at_streaming = False, at_cancel = False\<rparr>)],
        lk_tracked := AList.update sid k (lk_tracked t), lk_next_task := k + 1\<rparr>)"

definition track_unsubscribed :: "string \<Rightarrow> 'w livekit \<Rightarrow> 'w livekit" where
  "track_unsubscribed sid t =
     (case map_of (lk_tracked t) sid of
        None \<Rightarrow> t
      | Some k \<Rightarrow> request_cancel k (t\<lparr>lk_tracked := AList.delete sid (lk_tracked t)\<rparr>))"

fun on_room_event :: "room_event \<Rightarrow> 'w livekit \<Rightarrow> 'w livekit" where
  "on_room_event (RE_ParticipantConnected i) t =
     create_pending (PD_Participant \<lparr>px_kind = PK_CONNECTED, px_identity = i, px_room_name = room_name_of t\<rparr>) t"
| "on_room_event (RE_ParticipantDisconnected i) t =
     create_pending (PD_Participant \<lparr>px_kind = PK_LEFT, px_identity = i, px_room_name = room_name_of t\<rparr>) t"
| "on_room_event RE_Disconnected t = create_pending PD_RoomGone t"
| "on_room_event (RE_StateChanged s) t = create_pending (PD_State (map_connection_state s)) t"
| "on_room_event (RE_Subscribed audio sid i) t = (if audio then track_subscribed sid i t else t)"
| "on_room_event (RE_Unsubscribed sid) t = track_unsubscribed sid t"

section \<open>The transport's calls\<close>

definition call_result :: "nat \<Rightarrow> unit result \<Rightarrow> 'w livekit \<Rightarrow> 'w livekit" where
  "call_result n r t = t\<lparr>lk_calls := (lk_calls t)(n := None), lk_results := (lk_results t)(n \<mapsto> r)\<rparr>"

definition call_wait_at :: "nat \<Rightarrow> call_wait \<Rightarrow> 'w livekit \<Rightarrow> 'w livekit" where
  "call_wait_at n w t = t\<lparr>lk_calls := (lk_calls t)(n \<mapsto> w)\<rparr>"

definition lk_connect :: "media_config \<Rightarrow> 'w livekit \<Rightarrow> 'w livekit" where
  "lk_connect cfg t =
     (let n = lk_next_call t in
      case lk_set_state TC_CONNECTING
             (t\<lparr>lk_config := Some cfg, lk_registered := True, lk_next_call := n + 1\<rparr>) of
        (Inl e, t') \<Rightarrow> call_result n (Inl e) t'
      | (Inr _, t') \<Rightarrow> call_wait_at n CW_Connect t')"

definition room_connected :: "(exn \<Rightarrow> string) \<Rightarrow> nat \<Rightarrow> unit result \<Rightarrow> 'w livekit \<Rightarrow> 'w livekit" where
  "room_connected exn_text n x t =
     (case x of
        Inl e \<Rightarrow>
          if e = CancelledErrorE then call_result n (Inl e) t
          else (case then_eff (lk_emit_error ''connect_failed'' (exn_text e) True)
                       (then_eff (lk_set_state TC_FAILED) (throw e)) t of
                  (r, t') \<Rightarrow> call_result n r t')
      | Inr _ \<Rightarrow>
          (case lk_set_state TC_CONNECTED t of
             (Inl e, t') \<Rightarrow> call_result n (Inl e) t'
           | (Inr _, t') \<Rightarrow> call_wait_at n CW_Publish (t'\<lparr>lk_source := True\<rparr>)))"

definition cancel_audio_tasks :: "'w livekit \<Rightarrow> nat list \<times> 'w livekit" where
  "cancel_audio_tasks t =
     (let ks = map snd (lk_tracked t) in (ks, fold request_cancel ks (t\<lparr>lk_tracked := []\<rparr>)))"

text \<open>After the audio tasks are gathered: the rest of \<open>disconnect\<close> or of the room's disappearance.\<close>

definition after_gather :: "nat \<Rightarrow> bool \<Rightarrow> 'w livekit \<Rightarrow> 'w livekit" where
  "after_gather n gone t =
     (let t1 = t\<lparr>lk_source := False\<rparr> in
      if gone then
        (case lk_set_state TC_DISCONNECTED t1 of
           (Inl e, t') \<Rightarrow> call_result n (Inl e) t'
         | (Inr _, t') \<Rightarrow> call_result n (Inr ()) (t'\<lparr>lk_disconnected := True\<rparr>))
      else call_wait_at n CW_Leave t1)"

definition begin_gather :: "bool \<Rightarrow> 'w livekit \<Rightarrow> 'w livekit" where
  "begin_gather gone t =
     (let n = lk_next_call t;
          (ks, t') = cancel_audio_tasks (t\<lparr>lk_next_call := n + 1\<rparr>)
      in if ks = [] then after_gather n gone t' else call_wait_at n (CW_Gather ks gone) t')"

definition lk_disconnect :: "'w livekit \<Rightarrow> 'w livekit" where
  "lk_disconnect t =
     (if lk_state t = TC_DISCONNECTED
      then call_result (lk_next_call t) (Inr ()) (t\<lparr>lk_next_call := lk_next_call t + 1\<rparr>)
      else begin_gather False t)"

definition room_left :: "nat \<Rightarrow> unit result \<Rightarrow> 'w livekit \<Rightarrow> 'w livekit" where
  "room_left n x t =
     (case lk_set_state TC_DISCONNECTED t of
        (Inl e, t') \<Rightarrow> call_result n (Inl e) t'
      | (Inr _, t') \<Rightarrow> call_result n x (t'\<lparr>lk_disconnected := True\<rparr>))"

text \<open>
  The awaited operation of call \<open>n\<close> ended with \<open>x\<close>. Gathered tasks must all be done; the gathering
  itself does not fail, but a cancelled caller learns of its cancellation when they are done.
\<close>

definition resume_call :: "(exn \<Rightarrow> string) \<Rightarrow> nat \<Rightarrow> unit result \<Rightarrow> 'w livekit \<Rightarrow> 'w livekit" where
  "resume_call exn_text n x t =
     (case lk_calls t n of
        None \<Rightarrow> t
      | Some CW_Connect \<Rightarrow> room_connected exn_text n x t
      | Some CW_Publish \<Rightarrow> call_result n x t
      | Some (CW_Gather ks gone) \<Rightarrow>
          if (\<exists>k \<in> set ks. map_of (lk_tasks t) k \<noteq> None) then t
          else (case x of Inl e \<Rightarrow> call_result n (Inl e) t | Inr _ \<Rightarrow> after_gather n gone t)
      | Some CW_Leave \<Rightarrow> room_left n x t)"

definition run_pending :: "'w livekit \<Rightarrow> 'w livekit" where
  "run_pending t =
     (case lk_pending t of
        [] \<Rightarrow> t
      | p # ps \<Rightarrow>
          let t' = t\<lparr>lk_pending := ps\<rparr> in
          case p of
            PD_Participant e \<Rightarrow> snd (lk_emit_participant e t')
          | PD_State c \<Rightarrow> snd (lk_set_state c t')
          | PD_RoomGone \<Rightarrow> begin_gather True t')"

text \<open>\<open>x\<close> is the outcome of \<open>capture_frame\<close>, and \<open>c\<close> the connection state when it is known.\<close>

definition lk_publish ::
  "(exn \<Rightarrow> string) \<Rightarrow> unit result \<Rightarrow> connection_state \<Rightarrow> output_frame \<Rightarrow> ('w livekit, unit) eff" where
  "lk_publish exn_text x c f = with_state (\<lambda>t.
     let bytes_per_sample = 2 * of_channels (xo_audio f) in
     if \<not> lk_source t \<or> lk_state t \<noteq> TC_CONNECTED then ret ()
     else if bytes_per_sample \<le> 0 \<or> int (length (of_data (xo_audio f))) < bytes_per_sample then ret ()
     else case x of
            Inl e \<Rightarrow>
              if e \<noteq> CancelledErrorE \<and> (c \<noteq> TC_CONNECTED \<or> contains ''InvalidState'' (exn_text e)) then ret ()
              else throw e
          | Inr _ \<Rightarrow> modify_eff (\<lambda>t. t\<lparr>lk_captured := lk_captured t @
              [\<lparr>cp_data = of_data (xo_audio f), cp_sample_rate_hz = of_sample_rate_hz (xo_audio f),
                cp_channels = of_channels (xo_audio f),
                cp_samples_per_channel = int (length (of_data (xo_audio f))) div bytes_per_sample\<rparr>]\<rparr>))"

section \<open>Steps of the transport\<close>

datatype lk_action =
    LA_Connect media_config
  | LA_Disconnect
  | LA_Resume nat "unit result"
  | LA_Room room_event
  | LA_Pending
  | LA_Audio nat audio_stimulus
  | LA_Publish "unit result" connection_state output_frame

fun lk_step :: "(exn \<Rightarrow> string) \<Rightarrow> lk_action \<Rightarrow> 'w livekit \<Rightarrow> 'w livekit" where
  "lk_step exn_text (LA_Connect cfg) t = lk_connect cfg t"
| "lk_step exn_text LA_Disconnect t = lk_disconnect t"
| "lk_step exn_text (LA_Resume n x) t = resume_call exn_text n x t"
| "lk_step exn_text (LA_Room ev) t = (if lk_registered t then on_room_event ev t else t)"
| "lk_step exn_text LA_Pending t = run_pending t"
| "lk_step exn_text (LA_Audio k st) t = audio_step exn_text k st t"
| "lk_step exn_text (LA_Publish x c f) t = snd (lk_publish exn_text x c f t)"

fun lk_run :: "(exn \<Rightarrow> string) \<Rightarrow> lk_action list \<Rightarrow> 'w livekit \<Rightarrow> 'w livekit" where
  "lk_run exn_text [] t = t"
| "lk_run exn_text (a # acts) t = lk_run exn_text acts (lk_step exn_text a t)"

section \<open>livekit_token.py and the worker's transport configuration\<close>

record video_grants =
  vg_room_join :: bool
  vg_room :: string
  vg_can_publish :: bool
  vg_can_subscribe :: bool

record token_claims =
  tg_api_key :: string
  tg_api_secret :: string
  tg_identity :: string
  tg_name :: string
  tg_ttl_seconds :: int
  tg_grants :: video_grants

record livekit_credentials =
  lv_url :: string
  lv_api_key :: string
  lv_api_secret :: string

record participant_token =
  ptk_url :: string
  ptk_room_name :: string
  ptk_identity :: string
  ptk_token :: string

text \<open>\<open>to_jwt\<close> signs the claims.\<close>

definition mint_participant_token ::
  "(token_claims \<Rightarrow> string) \<Rightarrow> livekit_credentials \<Rightarrow> string \<Rightarrow> string \<Rightarrow> string option \<Rightarrow> int \<Rightarrow> bool \<Rightarrow> bool \<Rightarrow>
     participant_token" where
  "mint_participant_token to_jwt cred room identity name ttl can_publish can_subscribe =
     \<lparr>ptk_url = lv_url cred, ptk_room_name = room, ptk_identity = identity,
      ptk_token = to_jwt \<lparr>tg_api_key = lv_api_key cred, tg_api_secret = lv_api_secret cred, tg_identity = identity,
        tg_name = str_or name identity, tg_ttl_seconds = ttl,
        tg_grants = \<lparr>vg_room_join = True, vg_room = room, vg_can_publish = can_publish, vg_can_subscribe = can_subscribe\<rparr>\<rparr>\<rparr>"

definition check_media_config :: "media_config \<Rightarrow> media_config result" where
  "check_media_config c =
     (if md_url c = [] then Inl (ValidationError ''url'')
      else if md_room_name c = [] then Inl (ValidationError ''room_name'')
      else if md_identity c = [] then Inl (ValidationError ''participant_identity'')
      else if md_token c = [] then Inl (ValidationError ''token'')
      else Inr c)"

definition build_transport_config ::
  "(token_claims \<Rightarrow> string) \<Rightarrow> livekit_credentials \<Rightarrow> string \<Rightarrow> string \<Rightarrow> media_config result" where
  "build_transport_config to_jwt cred room identity =
     (let p = mint_participant_token to_jwt cred room identity (Some identity) 3600 True True in
      check_media_config \<lparr>md_url = ptk_url p, md_room_name = ptk_room_name p, md_identity = ptk_identity p, md_token = ptk_token p\<rparr>)"

text \<open>The room a worker joins: the one it is told to, the session's, or a default.\<close>

definition resolved_room :: "string option \<Rightarrow> string option \<Rightarrow> string" where
  "resolved_room room session_room = str_or room (str_or session_room ''xymphony-dev'')"

lemma resolved_room_nonempty: "resolved_room r s \<noteq> []"
  by (cases r; cases s) (auto simp: resolved_room_def str_or_def)

text \<open>A worker with credentials, an identity and a signed token always has a configuration.\<close>

lemma worker_config_built:
  assumes "lv_url cred \<noteq> []" and "identity \<noteq> []" and "\<And>c. to_jwt c \<noteq> []"
  shows "\<exists>c. build_transport_config to_jwt cred (resolved_room r s) identity = Inr c \<and>
     md_room_name c = resolved_room r s \<and> md_identity c = identity"
  using assms resolved_room_nonempty
  by (simp add: build_transport_config_def mint_participant_token_def check_media_config_def Let_def)

text \<open>The process reads its credentials from the environment and exits without them.\<close>

definition load_credentials :: "(string \<Rightarrow> string option) \<Rightarrow> livekit_credentials result" where
  "load_credentials getenv =
     (let missing = filter (\<lambda>k. \<not> str_truthy (getenv k)) [''LIVEKIT_URL'', ''LIVEKIT_API_KEY'', ''LIVEKIT_API_SECRET''] in
      if missing \<noteq> []
      then Inl (HandlerError ''SystemExit'' (''Missing required environment variables: '' @ py_join '', '' missing))
      else Inr \<lparr>lv_url = str_or (getenv ''LIVEKIT_URL'') [], lv_api_key = str_or (getenv ''LIVEKIT_API_KEY'') [],
                lv_api_secret = str_or (getenv ''LIVEKIT_API_SECRET'') []\<rparr>)"

lemma load_credentials_Inr:
  "load_credentials getenv = Inr cred \<Longrightarrow> lv_url cred \<noteq> [] \<and> lv_api_key cred \<noteq> [] \<and> lv_api_secret cred \<noteq> []"
  by (auto simp: load_credentials_def str_truthy_def str_or_def Let_def split: if_splits option.splits)

end
