(* ===== verification/Media.thy ===== *)
theory Media
  imports Transports
begin

text \<open>
  A voice session: the media bridge of theory Bridge over the LiveKit transport of theory
  Transports. The bridge is the transport's client; its coroutine calls \<open>connect\<close>, \<open>disconnect\<close> and
  \<open>publish_audio_output\<close> and goes on with their outcomes. What remains of the environment is the
  room, the runtime's providers and the process that starts, stops or cancels the session.
\<close>

section \<open>The bridge as a client\<close>

text \<open>
  The bridge registers its handlers once, when it runs. Its view of \<open>connection_state\<close>, a property
  of the transport, changes with the transport's.
\<close>

definition delivered :: "(bridge, unit) eff \<Rightarrow> (bridge, unit) eff" where
  "delivered m = with_state (\<lambda>b. if br_registered b then m else ret ())"

definition bridge_handlers :: "bridge_config \<Rightarrow> bridge handlers" where
  "bridge_handlers bc =
     \<lparr>hs_participant = [\<lambda>p. delivered (on_participant_event p)],
      hs_state = [\<lambda>c. then_eff (modify_eff (\<lambda>b. b\<lparr>br_conn := c\<rparr>)) (delivered (on_connection_state c))],
      hs_error = [\<lambda>x. delivered (on_transport_error bc x)],
      hs_frame = [\<lambda>f. delivered (on_audio_frame bc f)],
      hs_input = [\<lambda>e. delivered (on_audio_input bc (ai_kind e))]\<rparr>"

text \<open>The session and the numbers of the bridge's calls of \<open>connect\<close> and \<open>disconnect\<close>.\<close>

record media =
  me_transport :: "bridge livekit"
  me_connecting :: "nat option"
  me_closing :: "nat option"

definition init_media :: "bridge_config \<Rightarrow> rts \<Rightarrow> media" where
  "init_media bc s =
     \<lparr>me_transport = init_livekit (bridge_handlers bc) (init_bridge s), me_connecting = None, me_closing = None\<rparr>"

abbreviation media_bridge :: "media \<Rightarrow> bridge" where
  "media_bridge m \<equiv> lk_client (me_transport m)"

section \<open>Steps\<close>

definition with_client :: "bridge \<Rightarrow> media \<Rightarrow> media" where
  "with_client b m = m\<lparr>me_transport := (me_transport m)\<lparr>lk_client := b\<rparr>\<rparr>"

fun disconnecting :: "phase \<Rightarrow> bool" where
  "disconnecting (BP_Disconnecting r) = True"
| "disconnecting _ = False"

text \<open>A step of the bridge; one that comes to \<open>transport.disconnect()\<close> calls it at once.\<close>

definition bridge_acts :: "bridge_config \<Rightarrow> bridge_action \<Rightarrow> media \<Rightarrow> media" where
  "bridge_acts bc a m =
     (let m' = with_client (bridge_step bc a (media_bridge m)) m in
      if disconnecting (br_phase (media_bridge m')) \<and> \<not> disconnecting (br_phase (media_bridge m))
      then m'\<lparr>me_transport := lk_disconnect (me_transport m'), me_closing := Some (lk_next_call (me_transport m'))\<rparr>
      else m')"

definition run_session :: "bridge_config \<Rightarrow> media_config \<Rightarrow> media \<Rightarrow> media" where
  "run_session bc cfg m =
     (let m' = bridge_acts bc (BA_Run (md_room_name cfg)) m in
      if br_phase (media_bridge m) = BP_New \<and> br_phase (media_bridge m') = BP_Connecting
      then m'\<lparr>me_transport := lk_connect cfg (me_transport m'), me_connecting := Some (lk_next_call (me_transport m'))\<rparr>
      else m')"

text \<open>The outcome of a call the bridge waits for.\<close>

definition outcome_at :: "nat option \<Rightarrow> media \<Rightarrow> unit result option" where
  "outcome_at n m = (case n of None \<Rightarrow> None | Some n \<Rightarrow> lk_results (me_transport m) n)"

definition settle_call :: "bridge_config \<Rightarrow> media \<Rightarrow> media" where
  "settle_call bc m =
     (case br_phase (media_bridge m) of
        BP_Connecting \<Rightarrow>
          (case outcome_at (me_connecting m) m of None \<Rightarrow> m | Some x \<Rightarrow> bridge_acts bc (BA_Connected x) m)
      | BP_Disconnecting r \<Rightarrow>
          (case outcome_at (me_closing m) m of None \<Rightarrow> m | Some x \<Rightarrow> bridge_acts bc (BA_Disconnected x) m)
      | _ \<Rightarrow> m)"

text \<open>
  A background task publishes synthesized audio; the transport's exceptions end there. \<open>x\<close> and \<open>c\<close>
  are the outcome of the room's capture and the connection state at that moment.
\<close>

definition publish_audio ::
  "bridge_config \<Rightarrow> (string \<Rightarrow> tts_output_frame option result) \<Rightarrow> unit result \<Rightarrow> connection_state \<Rightarrow> media \<Rightarrow> media" where
  "publish_audio bc resolve x c m =
     (let b = media_bridge m; m' = bridge_acts bc (BA_Publish resolve) m in
      case drop (length (br_published b)) (br_published (media_bridge m')) of
        [] \<Rightarrow> m'
      | f # _ \<Rightarrow> m'\<lparr>me_transport := snd (lk_publish (bc_exn_text bc) x c f (me_transport m'))\<rparr>)"

text \<open>What the room and the transport's own tasks do.\<close>

fun room_driven :: "lk_action \<Rightarrow> bool" where
  "room_driven (LA_Connect cfg) = False"
| "room_driven LA_Disconnect = False"
| "room_driven (LA_Publish x c f) = False"
| "room_driven _ = True"

text \<open>
  \<open>MA_Woken True\<close>: \<open>wait_until_disconnected\<close> has returned. A cancellation of the session arrives in
  the bridge's own wait (\<open>MA_Cancel\<close>) or as the outcome of the call of the transport it is in.
\<close>

datatype media_action =
    MA_Run media_config
  | MA_Room lk_action
  | MA_Woken bool
  | MA_Stopped
  | MA_Cancel
  | MA_Shutdown
  | MA_Input runtime_input
  | MA_Runtime action
  | MA_Publish "string \<Rightarrow> tts_output_frame option result" "unit result" connection_state

fun media_step :: "bridge_config \<Rightarrow> media_action \<Rightarrow> media \<Rightarrow> media" where
  "media_step bc (MA_Run cfg) m = settle_call bc (run_session bc cfg m)"
| "media_step bc (MA_Room a) m =
     (if room_driven a then settle_call bc (m\<lparr>me_transport := lk_step (bc_exn_text bc) a (me_transport m)\<rparr>) else m)"
| "media_step bc (MA_Woken gone) m =
     (if \<not> gone then bridge_acts bc (BA_Woken None) m
      else if lk_disconnected (me_transport m) then bridge_acts bc (BA_Woken (Some (Inr ()))) m
      else m)"
| "media_step bc MA_Stopped m = bridge_acts bc BA_Stopped m"
| "media_step bc MA_Cancel m =
     (case br_phase (media_bridge m) of
        BP_Waiting \<Rightarrow> bridge_acts bc BA_Cancel m
      | BP_Stopping k r \<Rightarrow> bridge_acts bc BA_Cancel m
      | _ \<Rightarrow> m)"
| "media_step bc MA_Shutdown m = bridge_acts bc BA_Shutdown m"
| "media_step bc (MA_Input i) m = bridge_acts bc (BA_Input i) m"
| "media_step bc (MA_Runtime a) m = bridge_acts bc (BA_Runtime a) m"
| "media_step bc (MA_Publish resolve x c) m = publish_audio bc resolve x c m"

fun media_run :: "bridge_config \<Rightarrow> media_action list \<Rightarrow> media \<Rightarrow> media" where
  "media_run bc [] m = m"
| "media_run bc (a # acts) m = media_run bc acts (media_step bc a m)"

end
