(* ===== verification/TransportProps.thy ===== *)
theory TransportProps
  imports Transports
begin

text \<open>
  The contract between a transport and its client, stated once and kept by both transports; the
  audio a client hears, which comes in brackets of STARTED and ENDED; and what \<open>disconnect\<close>
  leaves behind.
\<close>

section \<open>What each operation leaves alone\<close>

text \<open>Everything but the fields of the connection, its handlers and its client.\<close>

definition same_link :: "'w livekit \<Rightarrow> 'w livekit \<Rightarrow> bool" where
  "same_link t t' \<longleftrightarrow> lk_handlers t' = lk_handlers t \<and> lk_state t' = lk_state t \<and> lk_client t' = lk_client t"

lemma same_link_ops [simp]:
  "same_link t (call_result n r t)" "same_link t (call_wait_at n w t)" "same_link t (drop_task k a t)"
  "same_link t (request_cancel k t)" "same_link t (create_pending p t)" "same_link t (track_subscribed sid i t)"
  by (simp_all add: same_link_def call_result_def call_wait_at_def drop_task_def request_cancel_def
      create_pending_def track_subscribed_def Let_def)

lemma same_link_cancel [simp]: "same_link t (fold request_cancel ks (t\<lparr>lk_tracked := tr\<rparr>))"
proof -
  have "same_link u (fold request_cancel ks u)" for u :: "'a livekit"
  proof (induction ks arbitrary: u)
    case (Cons k ks)
    with same_link_ops(4) [of u k] Cons.IH [of "request_cancel k u"] show ?case by (simp add: same_link_def)
  qed (simp add: same_link_def)
  from this [of "t\<lparr>lk_tracked := tr\<rparr>"] show ?thesis by (simp add: same_link_def)
qed

lemma same_link_room_event [simp]: "same_link t (on_room_event ev t)"
proof (cases ev)
  case (RE_Unsubscribed sid)
  have "same_link t (request_cancel k (t\<lparr>lk_tracked := tr\<rparr>))" for k tr by (simp add: same_link_def request_cancel_def)
  with RE_Unsubscribed show ?thesis
    by (simp add: track_unsubscribed_def same_link_def split: option.split)
qed (simp_all, simp add: same_link_def)

section \<open>What a transport does to its client\<close>

text \<open>
  A client keeps an invariant that may mention the connection state if each of its handlers does;
  the handlers of a state change find the new state. Then every operation of a transport keeps it.
\<close>

locale transport_client =
  fixes hs :: "'w handlers"
    and inv :: "connection_state \<Rightarrow> 'w \<Rightarrow> bool"
  assumes keeps_state: "inv s w \<Longrightarrow> inv c (snd (notify (hs_state hs) c w))"
    and keeps_participant: "inv s w \<Longrightarrow> inv s (snd (notify (hs_participant hs) p w))"
    and keeps_error: "inv s w \<Longrightarrow> inv s (snd (notify (hs_error hs) x w))"
    and keeps_frame: "inv s w \<Longrightarrow> inv s (snd (notify (hs_frame hs) f w))"
    and keeps_input: "inv s w \<Longrightarrow> inv s (snd (notify (hs_input hs) e w))"
begin

lemma notify_keeps:
  "notify (hs_participant hs) p w = (r, w') \<Longrightarrow> inv s w \<Longrightarrow> inv s w'"
  "notify (hs_error hs) x w = (r, w') \<Longrightarrow> inv s w \<Longrightarrow> inv s w'"
  "notify (hs_frame hs) f w = (r, w') \<Longrightarrow> inv s w \<Longrightarrow> inv s w'"
  "notify (hs_input hs) e w = (r, w') \<Longrightarrow> inv s w \<Longrightarrow> inv s w'"
  "notify (hs_state hs) c w = (r, w') \<Longrightarrow> inv s w \<Longrightarrow> inv c w'"
  using keeps_participant [of s w p] keeps_error [of s w x] keeps_frame [of s w f] keeps_input [of s w e]
    keeps_state [of s w c] by auto

definition holds :: "'w livekit \<Rightarrow> bool" where
  "holds t \<longleftrightarrow> lk_handlers t = hs \<and> inv (lk_state t) (lk_client t)"

lemma holds_link: "same_link t t' \<Longrightarrow> holds t' \<longleftrightarrow> holds t"
  by (auto simp: same_link_def holds_def)

lemma holds_ops [simp]:
  "holds (call_result n r t) = holds t" "holds (call_wait_at n w t) = holds t" "holds (drop_task k a t) = holds t"
  "holds (t\<lparr>lk_source := b\<rparr>) = holds t" "holds (t\<lparr>lk_disconnected := b\<rparr>) = holds t"
  "holds (t\<lparr>lk_next_call := n\<rparr>) = holds t" "holds (t\<lparr>lk_tasks := ts\<rparr>) = holds t"
  "holds (t\<lparr>lk_pending := ps\<rparr>) = holds t" "holds (t\<lparr>lk_captured := cs\<rparr>) = holds t"
  "holds (on_room_event ev t) = holds t"
  "holds (t\<lparr>lk_config := cfg\<rparr>) = holds t" "holds (t\<lparr>lk_registered := b\<rparr>) = holds t"
  by (simp_all add: holds_link [OF same_link_ops(1)] holds_link [OF same_link_ops(2)] holds_link [OF same_link_ops(3)]
      holds_link [OF same_link_room_event]) (simp_all add: holds_def)

lemma call_keeps:
  assumes "\<And>s w r w'. m hs w = (r, w') \<Longrightarrow> inv s w \<Longrightarrow> inv s w'" and "lk_call m t = (r, t')" and "holds t"
  shows "holds t'"
proof -
  obtain q w where q: "m hs (lk_client t) = (q, w)" by fastforce
  with assms(1) [OF q, of "lk_state t"] assms(2,3) show ?thesis by (auto simp: lk_call_def holds_def)
qed

lemma emits_keep:
  "lk_set_state c t = (r, t') \<Longrightarrow> holds t \<Longrightarrow> holds t'"
  "lk_emit_error code msg b t = (r, t') \<Longrightarrow> holds t \<Longrightarrow> holds t'"
  "lk_emit_participant p t = (r, t') \<Longrightarrow> holds t \<Longrightarrow> holds t'"
  "lk_emit_frame f t = (r, t') \<Longrightarrow> holds t \<Longrightarrow> holds t'"
  "lk_emit_input k i room t = (r, t') \<Longrightarrow> holds t \<Longrightarrow> holds t'"
proof -
  obtain q w where q: "notify (hs_state hs) c (lk_client t) = (q, w)" by fastforce
  show "lk_set_state c t = (r, t') \<Longrightarrow> holds t \<Longrightarrow> holds t'"
    using notify_keeps(5) [OF q, of "lk_state t"] q by (auto simp: holds_def lk_set_state_def lk_call_def eff_defs)
qed (auto simp: lk_emit_error_def lk_emit_participant_def lk_emit_frame_def lk_emit_input_def bind_eff_def lift_eff_def
    intro: notify_keeps elim!: call_keeps [rotated] split: sum.splits)

lemma snd_emits_keep [simp]:
  "holds t \<Longrightarrow> holds (snd (lk_set_state c t))" "holds t \<Longrightarrow> holds (snd (lk_emit_error code msg b t))"
  "holds t \<Longrightarrow> holds (snd (lk_emit_participant p t))" "holds t \<Longrightarrow> holds (snd (lk_emit_input k i room t))"
  by (metis emits_keep prod.collapse)+

lemma cancel_keeps: "cancel_audio_tasks t = (ks, t') \<Longrightarrow> holds t \<Longrightarrow> holds t'"
  using holds_link [OF same_link_cancel [of t ks "[]"]] by (auto simp: cancel_audio_tasks_def Let_def)

lemma after_gather_keeps: "holds t \<Longrightarrow> holds (after_gather n gone t)"
  using emits_keep(1) [of TC_DISCONNECTED "t\<lparr>lk_source := False\<rparr>"]
  by (auto simp: after_gather_def Let_def split: prod.split sum.split)

lemma begin_gather_keeps: "holds t \<Longrightarrow> holds (begin_gather gone t)"
  using cancel_keeps [of "t\<lparr>lk_next_call := lk_next_call t + 1\<rparr>"]
  by (auto simp: begin_gather_def Let_def after_gather_keeps split: prod.split)

lemma resume_keeps: "holds t \<Longrightarrow> holds (resume_call exn_text n x t)"
  by (auto simp: resume_call_def room_connected_def room_left_def after_gather_keeps Let_def eff_defs
      dest: emits_keep split: option.split call_wait.split sum.splits prod.splits)

lemma end_audio_keeps: "holds t \<Longrightarrow> holds (end_audio exn_text k a r t)"
  by (auto simp: end_audio_def Let_def split: sum.split)

lemma audio_keeps: "holds t \<Longrightarrow> holds (audio_step exn_text k st t)"
  by (auto simp: audio_step_def begin_audio_def audio_frame_def Let_def end_audio_keeps dest: emits_keep
      split: option.split audio_stimulus.split prod.split sum.split)

lemma connect_keeps: "holds t \<Longrightarrow> holds (lk_connect cfg t)"
  using emits_keep(1) [of TC_CONNECTING "t\<lparr>lk_config := Some cfg, lk_registered := True, lk_next_call := lk_next_call t + 1\<rparr>"]
  by (auto simp: lk_connect_def Let_def split: prod.split sum.split)

lemma lk_step_keeps: "holds t \<Longrightarrow> holds (lk_step exn_text a t)"
proof (cases a)
  case (LA_Publish x c f)
  then show "holds t \<Longrightarrow> ?thesis" by (auto simp: lk_publish_def eff_defs Let_def split: sum.split)
qed (auto simp: connect_keeps lk_disconnect_def run_pending_def Let_def begin_gather_keeps resume_keeps audio_keeps
    split: list.split pending.split)

lemma lk_run_keeps: "holds t \<Longrightarrow> holds (lk_run exn_text acts t)"
  by (induction acts arbitrary: t) (simp_all add: lk_step_keeps)

text \<open>The in-memory transport.\<close>

definition fake_holds :: "'w fake \<Rightarrow> bool" where
  "fake_holds t \<longleftrightarrow> fk_handlers t = hs \<and> inv (fk_state t) (fk_client t)"

end

sublocale transport_client \<subseteq> fk: forward_invariant fake_holds "\<lambda>_ _. True"
  by unfold_locales simp_all

context transport_client
begin

lemma fake_call_safe:
  assumes "fake_holds t" and "\<And>s w r w'. m hs w = (r, w') \<Longrightarrow> inv s w \<Longrightarrow> inv s w'"
  shows "fk.safe t (fake_call m) (\<lambda>_ _. True)"
proof -
  obtain q w where q: "m hs (fk_client t) = (q, w)" by fastforce
  with assms(2) [OF q, of "fk_state t"] assms(1) show ?thesis
    by (auto simp: fk.safe_def fake_call_def fake_holds_def split: sum.split)
qed

lemma fake_set_state_safe: "fake_holds t \<Longrightarrow> fk.safe t (fake_set_state c) (\<lambda>_ _. True)"
proof -
  obtain q w where q: "notify (hs_state hs) c (fk_client t) = (q, w)" by fastforce
  with notify_keeps(5) [OF q, of "fk_state t"] show "fake_holds t \<Longrightarrow> ?thesis"
    by (auto simp: fk.safe_def fake_set_state_def fake_call_def eff_defs fake_holds_def split: sum.split)
qed

lemma fake_modify_safe: "fake_holds (f t) \<Longrightarrow> fk.safe t (modify_eff f) (\<lambda>_ _. True)"
  by (simp add: fk.safe_modify)

lemma fake_holds_ops [simp]:
  "fake_holds (t\<lparr>fk_config := cfg\<rparr>) = fake_holds t" "fake_holds (t\<lparr>fk_disconnected := b\<rparr>) = fake_holds t"
  "fake_holds (t\<lparr>fk_connect_calls := n\<rparr>) = fake_holds t" "fake_holds (t\<lparr>fk_disconnect_calls := n\<rparr>) = fake_holds t"
  by (simp_all add: fake_holds_def)

lemmas fake_safe = fk.safe_then fk.safe_with fk.safe_if fk.safe_ret fk.safe_throw fake_set_state_safe
  fake_modify_safe fake_call_safe

lemma fake_emits_safe:
  "fake_holds t \<Longrightarrow> fk.safe t (fake_emit_error code msg b) (\<lambda>_ _. True)"
  "fake_holds t \<Longrightarrow> fk.safe t (fake_emit_participant p) (\<lambda>_ _. True)"
  "fake_holds t \<Longrightarrow> fk.safe t (simulate_audio_input k i) (\<lambda>_ _. True)"
  "fake_holds t \<Longrightarrow> fk.safe t (simulate_audio_frame i d duration rate channels) (\<lambda>_ _. True)"
  unfolding fake_emit_error_def fake_emit_participant_def simulate_audio_input_def simulate_audio_frame_def configured_def
  by (auto intro!: fake_call_safe fk.safe_with fk.safe_ret fk.safe_bind [OF fk.safe_lift [where Q = "\<lambda>_ _. True"]]
      dest: notify_keeps split: option.split)

lemma fake_ops_safe:
  "fake_holds t \<Longrightarrow> fk.safe t (fake_connect cfg) (\<lambda>_ _. True)"
  "fake_holds t \<Longrightarrow> fk.safe t fake_disconnect (\<lambda>_ _. True)"
  "fake_holds t \<Longrightarrow> fk.safe t (simulate_error code msg b) (\<lambda>_ _. True)"
  "fake_holds t \<Longrightarrow> fk.safe t (simulate_remote_leave i) (\<lambda>_ _. True)"
  "fake_holds t \<Longrightarrow> fk.safe t (simulate_speech_utterance i d duration rate) (\<lambda>_ _. True)"
  unfolding fake_connect_def fake_disconnect_def simulate_error_def simulate_remote_leave_def
    simulate_speech_utterance_def configured_def
  by (auto intro!: fake_safe fake_emits_safe split: option.split)

end


section \<open>The audio a client hears\<close>

text \<open>
  Any client, with a tap before its own handlers that writes down what it is told. Its handlers
  act on its state \<open>'w\<close> and may raise.
\<close>

datatype heard =
    H_State connection_state
  | H_Participant participant_event
  | H_Error transport_error
  | H_Frame transport_frame
  | H_Input audio_input_event

definition tap :: "('a \<Rightarrow> heard) \<Rightarrow> (heard list \<times> 'w, 'a) listener" where
  "tap f x = modify_eff (map_prod (\<lambda>h. h @ [f x]) id)"

definition beneath :: "('w, 'a) listener \<Rightarrow> (heard list \<times> 'w, 'a) listener" where
  "beneath l x = (\<lambda>(h, w). map_prod id (Pair h) (l x w))"

definition watched :: "'w handlers \<Rightarrow> (heard list \<times> 'w) handlers" where
  "watched hs =
     \<lparr>hs_participant = tap H_Participant # map beneath (hs_participant hs),
      hs_state = tap H_State # map beneath (hs_state hs), hs_error = tap H_Error # map beneath (hs_error hs),
      hs_frame = tap H_Frame # map beneath (hs_frame hs), hs_input = tap H_Input # map beneath (hs_input hs)\<rparr>"

text \<open>
  STARTED is announced outside the \<open>try\<close> of \<open>_consume_remote_audio\<close>: a client whose handlers
  refuse it hears no ENDED. Every other callback may raise.
\<close>

definition takes_starts :: "'w handlers \<Rightarrow> bool" where
  "takes_starts hs \<longleftrightarrow> (\<forall>e w. ai_kind e = AI_STARTED \<longrightarrow> fst (notify (hs_input hs) e w) = Inr ())"

fun opens :: "string \<Rightarrow> string \<Rightarrow> heard \<Rightarrow> int" where
  "opens i room (H_Input e) =
     (if ai_participant e = i \<and> ai_room_name e = room then (case ai_kind e of AI_STARTED \<Rightarrow> 1 | AI_ENDED \<Rightarrow> - 1) else 0)"
| "opens i room _ = 0"

text \<open>How often the participant's audio has been started and not yet ended.\<close>

definition open_audio :: "heard list \<Rightarrow> string \<Rightarrow> string \<Rightarrow> int" where
  "open_audio w i room = sum_list (map (opens i room) w)"

lemma open_audio_simps [simp]:
  "open_audio [] i room = 0" "open_audio (w @ [h]) i room = open_audio w i room + opens i room h"
  by (simp_all add: open_audio_def)

definition frames_inside :: "heard list \<Rightarrow> bool" where
  "frames_inside w \<longleftrightarrow>
     (\<forall>pre f post. w = pre @ H_Frame f # post \<longrightarrow> 0 < open_audio pre (xf_participant f) (xf_room_name f))"

lemma frames_inside_snoc:
  "frames_inside (w @ [h]) \<longleftrightarrow>
     frames_inside w \<and> (case h of H_Frame f \<Rightarrow> 0 < open_audio w (xf_participant f) (xf_room_name f) | _ \<Rightarrow> True)"
proof -
  have "(w @ [h] = pre @ H_Frame f # post) \<longleftrightarrow>
      (post = [] \<and> w = pre \<and> h = H_Frame f) \<or> (\<exists>p. post = p @ [h] \<and> w = pre @ H_Frame f # p)" for pre f post
    by (cases post rule: rev_cases) auto
  then show ?thesis by (fastforce simp: frames_inside_def split: heard.split)
qed

text \<open>The tasks that have announced the participant's audio, and the invariant that ties them to the record.\<close>

definition streaming :: "(nat \<rightharpoonup> audio_task) \<Rightarrow> string \<Rightarrow> string \<Rightarrow> nat set" where
  "streaming m i room = {k. \<exists>a. m k = Some a \<and> at_streaming a \<and> at_identity a = i \<and> at_room_name a = room}"

definition bracketed :: "nat \<Rightarrow> (nat \<rightharpoonup> audio_task) \<Rightarrow> heard list \<Rightarrow> bool" where
  "bracketed n m w \<longleftrightarrow> dom m \<subseteq> {..< n} \<and>
     (\<forall>k a. m k = Some a \<longrightarrow> at_streaming a \<longrightarrow> between_len 1 256 (at_identity a) \<and> between_len 1 256 (at_room_name a)) \<and>
     (\<forall>i room. open_audio w i room = int (card (streaming m i room))) \<and> frames_inside w"

definition brackets :: "'w handlers \<Rightarrow> (heard list \<times> 'w) livekit \<Rightarrow> bool" where
  "brackets hs t \<longleftrightarrow>
     lk_handlers t = watched hs \<and> bracketed (lk_next_task t) (map_of (lk_tasks t)) (fst (lk_client t))"

lemma streaming_finite: "bracketed n m w \<Longrightarrow> finite (streaming m i room)"
  by (rule finite_subset [of _ "{..< n}"]) (auto simp: streaming_def bracketed_def)

lemma streaming_member:
  "m k = Some a \<Longrightarrow> k \<in> streaming m i room \<longleftrightarrow> at_streaming a \<and> at_identity a = i \<and> at_room_name a = room"
  by (simp add: streaming_def)

lemma streaming_upd:
  "streaming (m(k \<mapsto> a)) i room =
     (if at_streaming a \<and> at_identity a = i \<and> at_room_name a = room then insert k (streaming m i room)
      else streaming m i room - {k})"
  "streaming (m(k := None)) i room = streaming m i room - {k}"
  by (auto simp: streaming_def)

lemma bracketed_note:
  assumes "bracketed n m w" and "\<And>i room. opens i room h = 0" and "\<forall>f. h \<noteq> H_Frame f"
  shows "bracketed n m (w @ [h])"
  using assms by (auto simp: bracketed_def frames_inside_snoc split: heard.split)

lemma bracketed_frame:
  assumes "bracketed n m w" and "m k = Some a" and "at_streaming a"
    and "xf_participant f = at_identity a" and "xf_room_name f = at_room_name a"
  shows "bracketed n m (w @ [H_Frame f])"
proof -
  have "k \<in> streaming m (at_identity a) (at_room_name a)" using assms(2,3) by (simp add: streaming_member)
  with streaming_finite [OF assms(1)] have "0 < card (streaming m (at_identity a) (at_room_name a))"
    by (metis card_gt_0_iff empty_iff)
  with assms show ?thesis by (simp add: bracketed_def frames_inside_snoc)
qed

lemma bracketed_start:
  assumes "bracketed n m w" and "m k = Some a" and "\<not> at_streaming a"
    and "between_len 1 256 (at_identity a)" and "between_len 1 256 room"
  shows "bracketed n (m(k \<mapsto> a\<lparr>at_room_name := room, at_streaming := True\<rparr>))
     (w @ [H_Input \<lparr>ai_kind = AI_STARTED, ai_participant = at_identity a, ai_room_name = room\<rparr>])"
proof -
  have "k \<notin> streaming m i r" for i r using assms(2,3) by (simp add: streaming_def)
  with assms show ?thesis
    using streaming_finite [OF assms(1)]
    by (auto simp: bracketed_def frames_inside_snoc streaming_upd)
qed

lemma bracketed_end:
  assumes "bracketed n m w" and "m k = Some a" and "at_streaming a"
  shows "bracketed n (m(k := None))
     (w @ [H_Input \<lparr>ai_kind = AI_ENDED, ai_participant = at_identity a, ai_room_name = at_room_name a\<rparr>])"
proof -
  have "k \<in> streaming m i r \<longleftrightarrow> i = at_identity a \<and> r = at_room_name a" for i r
    using assms(2,3) by (auto simp: streaming_def)
  moreover note streaming_finite [OF assms(1)]
  ultimately have "int (card (streaming m i r - {k})) =
      int (card (streaming m i r)) - (if i = at_identity a \<and> r = at_room_name a then 1 else 0)" for i r
    by (auto simp: card_Diff_singleton_if) (metis One_nat_def Suc_leI card_gt_0_iff empty_iff of_nat_1 of_nat_diff)
  with assms show ?thesis by (auto simp: bracketed_def frames_inside_snoc streaming_upd)
qed

lemma bracketed_drop:
  assumes "bracketed n m w" and "\<forall>a. m k = Some a \<longrightarrow> \<not> at_streaming a"
  shows "bracketed n (m(k := None)) w"
proof -
  have "k \<notin> streaming m i r" for i r using assms(2) by (auto simp: streaming_def)
  with assms(1) show ?thesis by (auto simp: bracketed_def streaming_upd)
qed

lemma bracketed_new: "bracketed n m w \<Longrightarrow> \<not> at_streaming a \<Longrightarrow> bracketed (n + 1) (m(n \<mapsto> a)) w"
proof -
  assume b: "bracketed n m w" and a: "\<not> at_streaming a"
  then have "n \<notin> streaming m i r" for i r by (auto simp: bracketed_def streaming_def)
  with a b show ?thesis by (auto simp: bracketed_def streaming_upd subset_iff dest!: less_SucI)
qed

lemma bracketed_cancel:
  assumes "bracketed n m w"
  shows "bracketed n (m(k := map_option (at_cancel_update (\<lambda>_. True)) (m k))) w"
proof (cases "m k")
  case (Some a)
  then have "streaming (m(k \<mapsto> a\<lparr>at_cancel := True\<rparr>)) i r = streaming m i r" for i r
    by (auto simp: streaming_def)
  with Some assms show ?thesis by (auto simp: bracketed_def)
qed (simp add: assms fun_upd_idem)

section \<open>Every step keeps the brackets\<close>

text \<open>The tap writes the call down before the client's own handlers see it.\<close>

definition told :: "heard \<Rightarrow> 'w \<Rightarrow> (heard list \<times> 'w) livekit \<Rightarrow> (heard list \<times> 'w) livekit" where
  "told h v t = t\<lparr>lk_client := (fst (lk_client t) @ [h], v)\<rparr>"

lemma notify_beneath: "notify (map beneath ls) x (h, w) = map_prod id (Pair h) (notify ls x w)"
  by (induction ls arbitrary: w) (simp_all add: eff_defs beneath_def split: prod.split sum.split)

lemma notify_tap:
  "notify (tap f # map beneath ls) x c = map_prod id (Pair (fst c @ [f x])) (notify ls x (snd c))"
  by (cases c) (simp add: then_eff_def bind_eff_def modify_eff_def tap_def notify_beneath)

lemma notify_watched:
  "notify (hs_participant (watched hs)) p c = map_prod id (Pair (fst c @ [H_Participant p])) (notify (hs_participant hs) p (snd c))"
  "notify (hs_state (watched hs)) s c = map_prod id (Pair (fst c @ [H_State s])) (notify (hs_state hs) s (snd c))"
  "notify (hs_error (watched hs)) x c = map_prod id (Pair (fst c @ [H_Error x])) (notify (hs_error hs) x (snd c))"
  "notify (hs_frame (watched hs)) f c = map_prod id (Pair (fst c @ [H_Frame f])) (notify (hs_frame hs) f (snd c))"
  "notify (hs_input (watched hs)) e c = map_prod id (Pair (fst c @ [H_Input e])) (notify (hs_input hs) e (snd c))"
  unfolding watched_def handlers.simps by (rule notify_tap)+

lemma watched_emits:
  assumes "lk_handlers t = watched hs"
  shows "lk_set_state c t = (fst (notify (hs_state hs) c (snd (lk_client t))),
           told (H_State c) (snd (notify (hs_state hs) c (snd (lk_client t)))) (t\<lparr>lk_state := c\<rparr>))"
    and "lk_emit_error code msg b t = (let x = \<lparr>xe_code = code, xe_message = msg, xe_retryable = b\<rparr> in
           (fst (notify (hs_error hs) x (snd (lk_client t))),
            told (H_Error x) (snd (notify (hs_error hs) x (snd (lk_client t)))) t))"
    and "lk_emit_participant p t = (fst (notify (hs_participant hs) p (snd (lk_client t))),
           told (H_Participant p) (snd (notify (hs_participant hs) p (snd (lk_client t)))) t)"
    and "lk_emit_frame f t = (case check_transport_frame f of Inl e \<Rightarrow> (Inl e, t)
         | Inr g \<Rightarrow> (fst (notify (hs_frame hs) g (snd (lk_client t))),
             told (H_Frame g) (snd (notify (hs_frame hs) g (snd (lk_client t)))) t))"
    and "lk_emit_input k i room t =
           (case check_audio_input \<lparr>ai_kind = k, ai_participant = i, ai_room_name = room\<rparr> of Inl e \<Rightarrow> (Inl e, t)
            | Inr e \<Rightarrow> (fst (notify (hs_input hs) e (snd (lk_client t))),
                told (H_Input e) (snd (notify (hs_input hs) e (snd (lk_client t)))) t))"
  using assms
  by (simp_all add: lk_set_state_def lk_emit_error_def lk_emit_participant_def lk_emit_frame_def lk_emit_input_def
      lk_call_def eff_defs notify_watched told_def Let_def case_prod_beta split: sum.split)

lemma check_transport_frame_Inr: "check_transport_frame f = Inr g \<Longrightarrow> g = f"
  by (simp add: check_transport_frame_def split: if_splits)

lemma check_audio_input_Inr:
  "check_audio_input e = Inr e' \<longleftrightarrow>
     e' = e \<and> between_len 1 256 (ai_participant e) \<and> between_len 1 256 (ai_room_name e)"
  by (auto simp: check_audio_input_def)

text \<open>The changes of the table of tasks, as changes of the map it stands for.\<close>

lemma tasks_request_cancel:
  "map_of (lk_tasks (request_cancel k t)) =
     (map_of (lk_tasks t))(k := map_option (at_cancel_update (\<lambda>_. True)) (map_of (lk_tasks t) k))"
proof -
  have "map_of (map (\<lambda>(j, a). (j, if j = k then f a else a)) xs) = (map_of xs)(k := map_option f (map_of xs k))"
    for f :: "audio_task \<Rightarrow> audio_task" and xs
    by (induction xs) (auto simp: fun_eq_iff)
  from this [of "at_cancel_update (\<lambda>_. True)"] show ?thesis by (simp add: request_cancel_def)
qed

lemma brackets_request_cancel [simp]: "brackets hs t \<Longrightarrow> brackets hs (request_cancel k t)"
  using bracketed_cancel [of "lk_next_task t" "map_of (lk_tasks t)" "fst (lk_client t)" k]
  by (simp add: brackets_def tasks_request_cancel) (simp add: request_cancel_def)

lemma brackets_fold_cancel: "brackets hs t \<Longrightarrow> brackets hs (fold request_cancel ks t)"
  by (induction ks arbitrary: t) simp_all

text \<open>Fields that do not matter.\<close>

lemma brackets_ops [simp]:
  "brackets hs (call_result n r t) = brackets hs t" "brackets hs (call_wait_at n w t) = brackets hs t"
  "brackets hs (create_pending p t) = brackets hs t" "brackets hs (t\<lparr>lk_source := b\<rparr>) = brackets hs t"
  "brackets hs (t\<lparr>lk_disconnected := b\<rparr>) = brackets hs t" "brackets hs (t\<lparr>lk_next_call := n\<rparr>) = brackets hs t"
  "brackets hs (t\<lparr>lk_pending := ps\<rparr>) = brackets hs t" "brackets hs (t\<lparr>lk_captured := cs\<rparr>) = brackets hs t"
  "brackets hs (t\<lparr>lk_config := cfg\<rparr>) = brackets hs t" "brackets hs (t\<lparr>lk_registered := b\<rparr>) = brackets hs t"
  "brackets hs (t\<lparr>lk_tracked := tr\<rparr>) = brackets hs t" "brackets hs (t\<lparr>lk_state := c\<rparr>) = brackets hs t"
  by (simp_all add: brackets_def call_result_def call_wait_at_def create_pending_def)

lemma brackets_handlers: "brackets hs t \<Longrightarrow> lk_handlers t = watched hs"
  by (simp add: brackets_def)

lemma told_tasks [simp]: "lk_tasks (told h v t) = lk_tasks t" "lk_tracked (told h v t) = lk_tracked t"
  by (simp_all add: told_def)

lemma brackets_note [simp]:
  "brackets hs t \<Longrightarrow> brackets hs (told (H_State c) v t)"
  "brackets hs t \<Longrightarrow> brackets hs (told (H_Error x) v t)"
  "brackets hs t \<Longrightarrow> brackets hs (told (H_Participant p) v t)"
  by (auto simp: brackets_def told_def intro!: bracketed_note)

lemma brackets_emit:
  "lk_set_state c t = (r, t') \<Longrightarrow> brackets hs t \<Longrightarrow> brackets hs t'"
  "lk_emit_error code msg b t = (r, t') \<Longrightarrow> brackets hs t \<Longrightarrow> brackets hs t' \<and> lk_tasks t' = lk_tasks t"
  "lk_emit_participant p t = (r, t') \<Longrightarrow> brackets hs t \<Longrightarrow> brackets hs t'"
  by (auto simp: watched_emits brackets_handlers Let_def)

lemma brackets_emits [simp]:
  assumes "brackets hs t"
  shows "brackets hs (snd (lk_set_state c t))" and "brackets hs (snd (lk_emit_error code msg b t))"
    and "brackets hs (snd (lk_emit_participant p t))"
  using assms by (metis brackets_emit prod.collapse)+

lemma brackets_drop:
  assumes "brackets hs t" and "map_of (lk_tasks t) k = Some a" and "\<not> at_streaming a"
  shows "brackets hs (drop_task k a t)"
  using assms bracketed_drop [of "lk_next_task t" "map_of (lk_tasks t)" "fst (lk_client t)" k]
  by (simp add: brackets_def drop_task_def delete_conv')

text \<open>Whatever the handlers of an error or of ENDED do, the end of a streaming task is announced.\<close>

lemma brackets_end_audio:
  assumes "brackets hs t" and "map_of (lk_tasks t) k = Some a" and "at_streaming a"
  shows "brackets hs (end_audio exn_text k a r t)"
proof -
  have ends: "brackets hs (drop_task k a (snd (lk_emit_input AI_ENDED (at_identity a) (at_room_name a) u)))"
    if "brackets hs u" and "lk_tasks u = lk_tasks t" for u
  proof -
    have "between_len 1 256 (at_identity a) \<and> between_len 1 256 (at_room_name a)"
      using that assms(2,3) by (simp add: brackets_def bracketed_def)
    with that assms(2,3) bracketed_end [of "lk_next_task u" "map_of (lk_tasks u)" "fst (lk_client u)" k a]
    show ?thesis
      by (simp add: brackets_def watched_emits drop_task_def told_def delete_conv' check_audio_input_def)
  qed
  have "brackets hs (snd (lk_emit_error code msg b t)) \<and> lk_tasks (snd (lk_emit_error code msg b t)) = lk_tasks t"
    for code msg b
    using brackets_emit(2) [of code msg b t] assms(1) by (metis prod.collapse)
  with assms(1) ends show ?thesis by (auto simp: end_audio_def Let_def split: sum.split)
qed

lemma brackets_start:
  assumes "takes_starts hs" and t: "brackets hs t" and a: "map_of (lk_tasks t) k = Some a" "\<not> at_streaming a"
  shows "brackets hs (begin_audio k a t)"
proof (cases "check_audio_input \<lparr>ai_kind = AI_STARTED, ai_participant = at_identity a, ai_room_name = room_name_of t\<rparr>")
  case (Inl e)
  then show ?thesis
    using brackets_drop [OF t a] t by (simp add: begin_audio_def Let_def watched_emits brackets_handlers)
next
  case (Inr e)
  then have "e = \<lparr>ai_kind = AI_STARTED, ai_participant = at_identity a, ai_room_name = room_name_of t\<rparr>"
    and "between_len 1 256 (at_identity a)" "between_len 1 256 (room_name_of t)"
    by (simp_all add: check_audio_input_Inr)
  with Inr t a assms(1)
    bracketed_start [of "lk_next_task t" "map_of (lk_tasks t)" "fst (lk_client t)" k a "room_name_of t"]
  show ?thesis
    by (simp add: begin_audio_def Let_def brackets_def watched_emits takes_starts_def told_def update_conv')
qed

lemma brackets_audio_frame:
  assumes t: "brackets hs t" and a: "map_of (lk_tasks t) k = Some a" "at_streaming a"
  shows "brackets hs (audio_frame exn_text k a f t)"
proof (cases "check_transport_frame (frame_of a f)")
  case (Inl e)
  then show ?thesis
    using brackets_end_audio [OF t a] by (simp add: audio_frame_def watched_emits brackets_handlers [OF t])
next
  case (Inr g)
  then have g: "g = frame_of a f" by (rule check_transport_frame_Inr)
  have told: "brackets hs (told (H_Frame (frame_of a f)) v t)" for v
    using t a bracketed_frame [of "lk_next_task t" "map_of (lk_tasks t)" "fst (lk_client t)" k a "frame_of a f"]
    by (simp add: brackets_def told_def frame_of_def Let_def)
  with Inr g a brackets_end_audio [OF t a] brackets_end_audio [OF told] show ?thesis
    by (simp add: audio_frame_def watched_emits brackets_handlers [OF t] split: sum.split)
qed

lemma brackets_audio: "takes_starts hs \<Longrightarrow> brackets hs t \<Longrightarrow> brackets hs (audio_step exn_text k st t)"
  by (auto simp: audio_step_def brackets_start brackets_audio_frame brackets_drop brackets_end_audio
      split: option.split audio_stimulus.split)

text \<open>The calls of the transport and the events of the room only pass notes to the client.\<close>

lemma brackets_after_gather: "brackets hs t \<Longrightarrow> brackets hs (after_gather n gone t)"
  using brackets_emit(1) [of TC_DISCONNECTED "t\<lparr>lk_source := False\<rparr>"]
  by (auto simp: after_gather_def Let_def split: prod.split sum.split)

lemma brackets_gather: "brackets hs t \<Longrightarrow> brackets hs (begin_gather gone t)"
  by (simp add: begin_gather_def cancel_audio_tasks_def Let_def brackets_fold_cancel brackets_after_gather)

lemma brackets_resume: "brackets hs t \<Longrightarrow> brackets hs (resume_call exn_text n x t)"
  by (auto simp: resume_call_def room_connected_def room_left_def brackets_after_gather Let_def eff_defs
      dest: brackets_emit split: option.split call_wait.split sum.splits prod.splits)

lemma brackets_subscribed: "brackets hs t \<Longrightarrow> brackets hs (track_subscribed sid i t)"
proof -
  assume t: "brackets hs t"
  define a where "a = \<lparr>at_sid = sid, at_identity = i, at_room_name = [], at_streaming = False, at_cancel = False\<rparr>"
  have "map_of (lk_tasks t) (lk_next_task t) = None" using t by (auto simp: brackets_def bracketed_def)
  then have "[lk_next_task t \<mapsto> a] ++ map_of (lk_tasks t) = (map_of (lk_tasks t))(lk_next_task t \<mapsto> a)"
    by (auto simp: fun_eq_iff map_add_def split: option.split)
  then show ?thesis
    using t bracketed_new [of "lk_next_task t" "map_of (lk_tasks t)" "fst (lk_client t)" a]
    by (simp add: brackets_def track_subscribed_def Let_def a_def)
qed

lemma brackets_room_event: "brackets hs t \<Longrightarrow> brackets hs (on_room_event ev t)"
  by (cases ev) (simp_all add: track_unsubscribed_def brackets_subscribed split: option.split)

lemma brackets_connect: "brackets hs t \<Longrightarrow> brackets hs (lk_connect cfg t)"
  using brackets_emit(1) [of TC_CONNECTING "t\<lparr>lk_config := Some cfg, lk_registered := True, lk_next_call := lk_next_call t + 1\<rparr>"]
  by (auto simp: lk_connect_def Let_def split: prod.split sum.split)

lemma brackets_step:
  assumes "takes_starts hs" and "brackets hs t"
  shows "brackets hs (lk_step exn_text a t)"
proof (cases a)
  case (LA_Publish x c f)
  then show ?thesis using assms(2) by (auto simp: lk_publish_def eff_defs Let_def split: sum.split)
qed (use assms in \<open>auto simp: brackets_connect lk_disconnect_def run_pending_def Let_def brackets_gather brackets_resume
    brackets_room_event brackets_audio split: list.split pending.split\<close>)

lemma brackets_run: "takes_starts hs \<Longrightarrow> brackets hs t \<Longrightarrow> brackets hs (lk_run exn_text acts t)"
  by (induction acts arbitrary: t) (simp_all add: brackets_step)

lemma brackets_init: "brackets hs (init_livekit (watched hs) ([], w))"
  by (simp add: brackets_def bracketed_def init_livekit_def streaming_def frames_inside_def)

text \<open>
  C12. A client whose handlers take STARTED without raising hears a participant's audio in
  brackets, whatever its other callbacks do or raise, and whatever the room, the calls of the
  transport and the tasks do: the STARTED events it has been given for a participant exceed the
  ENDED events by the number of tasks that are streaming, and a frame comes only inside a bracket.
\<close>

theorem audio_in_brackets:
  assumes "takes_starts hs"
  shows "let t = lk_run exn_text acts (init_livekit (watched hs) ([], w)) in
     open_audio (fst (lk_client t)) i room = int (card (streaming (map_of (lk_tasks t)) i room)) \<and>
     frames_inside (fst (lk_client t))"
  using brackets_run [OF assms brackets_init, of exn_text acts w]
  by (simp add: Let_def brackets_def bracketed_def)

text \<open>
  Without that condition the brackets fail: a client that raises on STARTED has heard it, the task
  is gone, and no ENDED follows.
\<close>

lemma refused_start_stays_open:
  assumes "map_of (lk_tasks t) k = Some a" and "\<not> at_streaming a" and "\<not> at_cancel a"
    and "lk_handlers t = watched hs" and "fst (notify (hs_input hs) e (snd (lk_client t))) = Inl x"
    and "check_audio_input \<lparr>ai_kind = AI_STARTED, ai_participant = at_identity a, ai_room_name = room_name_of t\<rparr> = Inr e"
  shows "let u = audio_step exn_text k AS_Continue t in
     fst (lk_client u) = fst (lk_client t) @ [H_Input e] \<and> map_of (lk_tasks u) k = None"
  using assms by (simp add: audio_step_def begin_audio_def watched_emits Let_def told_def drop_task_def delete_conv')

section \<open>Disconnecting\<close>

text \<open>Nothing an emission does reaches beyond the client.\<close>

lemma emit_client:
  "\<exists>w. snd (lk_emit_error code msg b t) = t\<lparr>lk_client := w\<rparr>"
  "\<exists>w. snd (lk_emit_input k i room t) = t\<lparr>lk_client := w\<rparr>"
proof -
  have same: "\<exists>w. t = t\<lparr>lk_client := w\<rparr>" by (rule exI [of _ "lk_client t"]) simp
  show "\<exists>w. snd (lk_emit_error code msg b t) = t\<lparr>lk_client := w\<rparr>"
    by (auto simp: lk_emit_error_def lk_call_def split: prod.split)
  show "\<exists>w. snd (lk_emit_input k i room t) = t\<lparr>lk_client := w\<rparr>"
    using same by (auto simp: lk_emit_input_def lk_call_def eff_defs split: prod.split sum.split)
qed

lemma end_audio_client: "\<exists>w. end_audio exn_text k a r t = drop_task k a (t\<lparr>lk_client := w\<rparr>)"
proof -
  have "\<exists>w. (case r of Inl e \<Rightarrow> if e = CancelledErrorE then t
       else snd (lk_emit_error ''audio_ingestion_failed'' (exn_text e) False t) | Inr _ \<Rightarrow> t) = t\<lparr>lk_client := w\<rparr>"
  proof -
    have "\<exists>w. t = t\<lparr>lk_client := w\<rparr>" by (rule exI [of _ "lk_client t"]) simp
    then show ?thesis using emit_client(1) [of "''audio_ingestion_failed''" _ False t] by (auto split: sum.split)
  qed
  then obtain w where w: "(case r of Inl e \<Rightarrow> if e = CancelledErrorE then t
       else snd (lk_emit_error ''audio_ingestion_failed'' (exn_text e) False t) | Inr _ \<Rightarrow> t) = t\<lparr>lk_client := w\<rparr>" ..
  obtain v where "snd (lk_emit_input AI_ENDED (at_identity a) (at_room_name a) (t\<lparr>lk_client := w\<rparr>)) =
      t\<lparr>lk_client := w\<rparr>\<lparr>lk_client := v\<rparr>"
    using emit_client(2) [of AI_ENDED "at_identity a" "at_room_name a" "t\<lparr>lk_client := w\<rparr>"] by blast
  then show ?thesis by (auto simp: end_audio_def Let_def w)
qed

text \<open>A cancelled task ends at its next step, whatever wakes it.\<close>

lemma cancelled_audio:
  assumes "\<And>a. map_of (lk_tasks t) k = Some a \<Longrightarrow> at_cancel a" and "lk_tracked t = []"
  shows "\<exists>w. audio_step exn_text k st t = t\<lparr>lk_tasks := AList.delete k (lk_tasks t), lk_client := w\<rparr>"
proof (cases "map_of (lk_tasks t) k")
  case None
  then have "AList.delete k (lk_tasks t) = lk_tasks t"
    by (simp add: map_of_eq_None_iff AList.delete_id)
  then show ?thesis using None by (auto simp: audio_step_def intro!: exI [of _ "lk_client t"])
next
  case (Some a)
  obtain w where "end_audio exn_text k a (Inl CancelledErrorE) t = drop_task k a (t\<lparr>lk_client := w\<rparr>)"
    using end_audio_client [of exn_text k a "Inl CancelledErrorE" t] by blast
  moreover have "drop_task k a (t\<lparr>lk_client := v\<rparr>) = t\<lparr>lk_tasks := AList.delete k (lk_tasks t), lk_client := v\<rparr>" for v
    using assms(2) by (cases t) (simp add: drop_task_def)
  moreover have "drop_task k a t = t\<lparr>lk_tasks := AList.delete k (lk_tasks t), lk_client := lk_client t\<rparr>"
    using assms(2) by (cases t) (simp add: drop_task_def)
  ultimately have "audio_step exn_text k st t =
      t\<lparr>lk_tasks := AList.delete k (lk_tasks t), lk_client := (if at_streaming a then w else lk_client t)\<rparr>"
    using assms(1) [OF Some] Some by (simp add: audio_step_def)
  then show ?thesis ..
qed

lemma cancelled_run:
  assumes "\<forall>k \<in> set ks. \<forall>a. map_of (lk_tasks t) k = Some a \<longrightarrow> at_cancel a" and "lk_tracked t = []"
  shows "\<exists>w ts. lk_run exn_text (map (\<lambda>k. LA_Audio k AS_Continue) ks) t = t\<lparr>lk_tasks := ts, lk_client := w\<rparr> \<and>
     map_of ts = map_of (lk_tasks t) |` (- set ks)"
  using assms
proof (induction ks arbitrary: t)
  case Nil
  then show ?case by (auto intro!: exI [of _ "lk_client t"] exI [of _ "lk_tasks t"])
next
  case (Cons k ks)
  obtain w where w: "audio_step exn_text k AS_Continue t = t\<lparr>lk_tasks := AList.delete k (lk_tasks t), lk_client := w\<rparr>"
    using cancelled_audio [of t k exn_text AS_Continue] Cons.prems by auto
  let ?u = "t\<lparr>lk_tasks := AList.delete k (lk_tasks t), lk_client := w\<rparr>"
  have "\<forall>j \<in> set ks. \<forall>a. map_of (lk_tasks ?u) j = Some a \<longrightarrow> at_cancel a"
    using Cons.prems(1) by (auto simp: delete_conv')
  from Cons.IH [OF this] Cons.prems(2) obtain v ts where
    u: "lk_run exn_text (map (\<lambda>k. LA_Audio k AS_Continue) ks) ?u = ?u\<lparr>lk_tasks := ts, lk_client := v\<rparr>"
    and ts: "map_of ts = map_of (lk_tasks ?u) |` (- set ks)" by auto
  have "map_of ts = map_of (lk_tasks t) |` (- set (k # ks))"
    by (auto simp: ts delete_conv' restrict_map_def fun_eq_iff)
  with u show ?case by (auto simp: w intro!: exI [of _ v] exI [of _ ts])
qed

text \<open>\<open>disconnect\<close> asks every tracked task to end.\<close>

lemma fold_request_cancel:
  "map_of (lk_tasks (fold request_cancel ks t)) =
     (\<lambda>k. if k \<in> set ks then map_option (at_cancel_update (\<lambda>_. True)) (map_of (lk_tasks t) k) else map_of (lk_tasks t) k) \<and>
   fold request_cancel ks t = t\<lparr>lk_tasks := lk_tasks (fold request_cancel ks t)\<rparr>"
proof (induction ks arbitrary: t)
  case (Cons k ks)
  have "request_cancel k t = t\<lparr>lk_tasks := lk_tasks (request_cancel k t)\<rparr>" by (simp add: request_cancel_def)
  with Cons.IH [of "request_cancel k t"] show ?case
    by (auto simp: tasks_request_cancel fun_eq_iff option.map_comp comp_def) (metis livekit.surjective livekit.update_convs(6))
qed simp

text \<open>
  The schedule of an undisturbed \<open>disconnect\<close>: the call, each tracked task ending, the gathering,
  and \<open>room.disconnect\<close> ending with \<open>x\<close>.
\<close>

definition disconnect_schedule :: "'w livekit \<Rightarrow> unit result \<Rightarrow> lk_action list" where
  "disconnect_schedule t x =
     (let ks = map snd (lk_tracked t) in
      LA_Disconnect # (if ks = [] then [] else map (\<lambda>k. LA_Audio k AS_Continue) ks @ [LA_Resume (lk_next_call t) (Inr ())]) @
      [LA_Resume (lk_next_call t) x])"

definition quiet_state :: "'w handlers \<Rightarrow> bool" where
  "quiet_state hs \<longleftrightarrow> (\<forall>c w. fst (notify (hs_state hs) c w) = Inr ())"

lemma quiet_set_state:
  assumes "quiet_state (lk_handlers t)"
  obtains w where "lk_set_state c t = (Inr (), t\<lparr>lk_state := c, lk_client := w\<rparr>)"
proof -
  obtain r w where "notify (hs_state (lk_handlers t)) c (lk_client t) = (r, w)" by fastforce
  with assms that [of w] show thesis
    by (simp add: quiet_state_def lk_set_state_def lk_call_def eff_defs) (metis fst_conv)
qed

lemma leave_completes:
  assumes "quiet_state (lk_handlers t)" and "lk_calls t n = Some CW_Leave"
  shows "\<exists>w. resume_call exn_text n x t =
     call_result n x (t\<lparr>lk_state := TC_DISCONNECTED, lk_client := w, lk_disconnected := True\<rparr>)"
proof -
  obtain w where "lk_set_state TC_DISCONNECTED t = (Inr (), t\<lparr>lk_state := TC_DISCONNECTED, lk_client := w\<rparr>)"
    using quiet_set_state [OF assms(1)] .
  with assms(2) show ?thesis by (auto simp: resume_call_def room_left_def)
qed

lemma lk_run_append: "lk_run exn_text (xs @ ys) t = lk_run exn_text ys (lk_run exn_text xs t)"
  by (induction xs arbitrary: t) simp_all

text \<open>The call up to the point where only the room is left to leave.\<close>

lemma disconnect_gathers:
  fixes t :: "'w livekit"
  assumes "lk_state t \<noteq> TC_DISCONNECTED"
  defines "ks \<equiv> map snd (lk_tracked t)" and "n \<equiv> lk_next_call t"
  shows "\<exists>u. lk_run exn_text (LA_Disconnect # (if ks = [] then [] else map (\<lambda>k. LA_Audio k AS_Continue) ks @ [LA_Resume n (Inr ())])) t = u \<and>
     lk_calls u n = Some CW_Leave \<and> \<not> lk_source u \<and> lk_handlers u = lk_handlers t \<and>
     map_of (lk_tasks u) = map_of (lk_tasks t) |` (- set ks)"
proof -
  let ?t1 = "t\<lparr>lk_next_call := n + 1, lk_tracked := []\<rparr>"
  let ?c = "fold request_cancel ks ?t1"
  define ts where "ts = lk_tasks ?c"
  have c: "?c = ?t1\<lparr>lk_tasks := ts\<rparr>" unfolding ts_def by (rule fold_request_cancel [THEN conjunct2])
  have ts: "map_of ts = (\<lambda>k. if k \<in> set ks then map_option (at_cancel_update (\<lambda>_. True)) (map_of (lk_tasks t) k)
      else map_of (lk_tasks t) k)"
    using fold_request_cancel [of ks ?t1] by (simp add: ts_def cong: if_cong)
  have cancel: "cancel_audio_tasks (t\<lparr>lk_next_call := lk_next_call t + 1\<rparr>) = (ks, ?t1\<lparr>lk_tasks := ts\<rparr>)"
    using c by (simp add: cancel_audio_tasks_def ks_def n_def)
  have leave: "lk_calls (after_gather n False u) n = Some CW_Leave \<and> \<not> lk_source (after_gather n False u) \<and>
      lk_handlers (after_gather n False u) = lk_handlers u \<and> lk_tasks (after_gather n False u) = lk_tasks u"
    for u :: "'w livekit"
    by (simp add: after_gather_def call_wait_at_def Let_def)
  show ?thesis
  proof (cases "ks = []")
    case True
    then have "lk_disconnect t = after_gather n False (?t1\<lparr>lk_tasks := ts\<rparr>)"
      using assms(1) cancel by (simp add: lk_disconnect_def begin_gather_def n_def Let_def)
    with True leave [of "?t1\<lparr>lk_tasks := ts\<rparr>"] show ?thesis by (simp add: ts restrict_map_def fun_eq_iff)
  next
    case False
    let ?t2 = "call_wait_at n (CW_Gather ks False) (?t1\<lparr>lk_tasks := ts\<rparr>)"
    have d: "lk_disconnect t = ?t2"
      using assms(1) cancel False by (simp add: lk_disconnect_def begin_gather_def n_def Let_def)
    have "\<forall>k \<in> set ks. \<forall>a. map_of (lk_tasks ?t2) k = Some a \<longrightarrow> at_cancel a"
      by (auto simp: call_wait_at_def ts)
    moreover have "lk_tracked ?t2 = []" by (simp add: call_wait_at_def)
    ultimately obtain w ts' where
      r: "lk_run exn_text (map (\<lambda>k. LA_Audio k AS_Continue) ks) ?t2 = ?t2\<lparr>lk_tasks := ts', lk_client := w\<rparr>"
      and ts': "map_of ts' = map_of (lk_tasks ?t2) |` (- set ks)"
      using cancelled_run [of ks ?t2 exn_text] by blast
    let ?t3 = "?t2\<lparr>lk_tasks := ts', lk_client := w\<rparr>"
    have gone: "map_of ts' = map_of (lk_tasks t) |` (- set ks)"
      by (auto simp: ts' call_wait_at_def ts restrict_map_def fun_eq_iff)
    have "resume_call exn_text n (Inr ()) ?t3 = after_gather n False ?t3"
      by (simp add: resume_call_def call_wait_at_def gone restrict_map_def)
    with False d r leave [of ?t3] gone show ?thesis
      by (simp add: lk_run_append call_wait_at_def)
  qed
qed

lemma disconnected_by_schedule:
  assumes "lk_state t \<noteq> TC_DISCONNECTED" and "quiet_state (lk_handlers t)"
  shows "let u = lk_run exn_text (disconnect_schedule t x) t in
     lk_handlers u = lk_handlers t \<and> lk_state u = TC_DISCONNECTED \<and> lk_disconnected u \<and> \<not> lk_source u \<and> lk_results u (lk_next_call t) = Some x \<and>
     map_of (lk_tasks u) = map_of (lk_tasks t) |` (- snd ` set (lk_tracked t))"
proof -
  let ?n = "lk_next_call t" and ?ks = "map snd (lk_tracked t)"
  let ?s = "LA_Disconnect # (if ?ks = [] then [] else map (\<lambda>k. LA_Audio k AS_Continue) ?ks @ [LA_Resume ?n (Inr ())])"
  obtain u where u: "lk_run exn_text ?s t = u" "lk_calls u ?n = Some CW_Leave" "\<not> lk_source u"
    "lk_handlers u = lk_handlers t" "map_of (lk_tasks u) = map_of (lk_tasks t) |` (- set ?ks)"
    using disconnect_gathers [OF assms(1), of exn_text] by blast
  obtain w where "resume_call exn_text ?n x u =
      call_result ?n x (u\<lparr>lk_state := TC_DISCONNECTED, lk_client := w, lk_disconnected := True\<rparr>)"
    using leave_completes [of u ?n exn_text x] u(2,4) assms(2) by auto
  moreover have "disconnect_schedule t x = ?s @ [LA_Resume ?n x]" by (simp add: disconnect_schedule_def Let_def)
  then have "lk_run exn_text (disconnect_schedule t x) t = resume_call exn_text ?n x u"
    by (simp only: lk_run_append u(1)) simp
  ultimately show ?thesis using u(3-5) by (simp add: Let_def call_result_def)
qed

text \<open>
  C13. \<open>disconnect\<close> completes: once the cancelled tasks have run and the room has been left,
  whatever the room answered, the transport is disconnected, those who wait for the end are
  woken, no tracked audio task is left and every other task is untouched.
\<close>

theorem disconnect_completes:
  assumes "lk_state t \<noteq> TC_DISCONNECTED" and "quiet_state (lk_handlers t)"
  shows "let u = lk_run exn_text (disconnect_schedule t x) t in
     lk_state u = TC_DISCONNECTED \<and> lk_disconnected u \<and> \<not> lk_source u \<and> lk_results u (lk_next_call t) = Some x \<and>
     map_of (lk_tasks u) = map_of (lk_tasks t) |` (- snd ` set (lk_tracked t))"
  using disconnected_by_schedule [OF assms, of exn_text x] by (simp add: Let_def)

text \<open>
  When the room has reported that it is disconnected before \<open>disconnect\<close> is called, the call
  returns at once and does nothing: the audio tasks go on, the room is not left, and those who
  wait for the end are not woken.
\<close>

theorem disconnect_skipped:
  assumes "lk_registered t" and "lk_pending t = []" and "quiet_state (lk_handlers t)"
  shows "let u = lk_run exn_text [LA_Room (RE_StateChanged RTC_DISCONNECTED), LA_Pending, LA_Disconnect] t in
     lk_results u (lk_next_call t) = Some (Inr ()) \<and> lk_disconnected u = lk_disconnected t \<and>
     lk_tasks u = lk_tasks t \<and> lk_tracked u = lk_tracked t \<and> lk_source u = lk_source t"
proof -
  obtain w where "lk_set_state TC_DISCONNECTED (t\<lparr>lk_pending := []\<rparr>) =
      (Inr (), t\<lparr>lk_pending := [], lk_state := TC_DISCONNECTED, lk_client := w\<rparr>)"
    using quiet_set_state [of "t\<lparr>lk_pending := []\<rparr>" TC_DISCONNECTED] assms(3) by auto
  then show ?thesis
    using assms(1,2) by (simp add: create_pending_def run_pending_def lk_disconnect_def call_result_def Let_def)
qed

section \<open>The port both transports serve\<close>

text \<open>
  What a caller may expect of \<open>disconnect\<close> (\<open>close\<close>), of \<open>connection_state\<close> (\<open>conn\<close>) and of the event
  behind \<open>wait_until_disconnected\<close> (\<open>over\<close>), for transports whose state handlers do not raise (\<open>ok\<close>).
\<close>

locale transport_port =
  fixes conn :: "'t \<Rightarrow> connection_state" and over :: "'t \<Rightarrow> bool" and close :: "'t \<Rightarrow> 't" and ok :: "'t \<Rightarrow> bool"
  assumes close_ends: "ok t \<Longrightarrow> conn t \<noteq> TC_DISCONNECTED \<Longrightarrow> conn (close t) = TC_DISCONNECTED \<and> over (close t)"
    and close_idle: "ok t \<Longrightarrow> conn t = TC_DISCONNECTED \<Longrightarrow> conn (close t) = TC_DISCONNECTED \<and> over (close t) = over t"
    and close_ok: "ok t \<Longrightarrow> ok (close t)"
begin

lemma close_disconnects: "ok t \<Longrightarrow> conn (close t) = TC_DISCONNECTED"
  using close_ends close_idle by blast

lemma close_again: "ok t \<Longrightarrow> conn (close (close t)) = TC_DISCONNECTED \<and> over (close (close t)) = over (close t)"
  using close_disconnects close_idle close_ok by blast

end

interpretation fk: transport_port fk_state fk_disconnected "\<lambda>t. snd (fake_disconnect t)" "\<lambda>t. quiet_state (fk_handlers t)"
proof
  have run: "\<exists>w. fake_disconnect t = (Inr (), t\<lparr>fk_disconnect_calls := fk_disconnect_calls t + 1,
      fk_state := TC_DISCONNECTED, fk_client := w, fk_disconnected := True\<rparr>)"
    if "quiet_state (fk_handlers t)" and "fk_state t \<noteq> TC_DISCONNECTED" for t :: "'a fake"
  proof -
    obtain r w where "notify (hs_state (fk_handlers t)) TC_DISCONNECTED (fk_client t) = (r, w)" by fastforce
    moreover from this that(1) have "r = Inr ()" by (metis quiet_state_def fst_conv)
    ultimately show ?thesis using that(2)
      by (simp add: fake_disconnect_def fake_set_state_def fake_call_def eff_defs) (rule exI [of _ w], rule refl)
  qed
  fix t :: "'a fake"
  assume ok: "quiet_state (fk_handlers t)"
  have idle: "fake_disconnect t = (Inr (), t)" if "fk_state t = TC_DISCONNECTED"
    using that by (simp add: fake_disconnect_def eff_defs)
  show "fk_state t \<noteq> TC_DISCONNECTED \<Longrightarrow>
      fk_state (snd (fake_disconnect t)) = TC_DISCONNECTED \<and> fk_disconnected (snd (fake_disconnect t))"
    using run [OF ok] by force
  show "fk_state t = TC_DISCONNECTED \<Longrightarrow> fk_state (snd (fake_disconnect t)) = TC_DISCONNECTED \<and>
      fk_disconnected (snd (fake_disconnect t)) = fk_disconnected t"
    by (simp add: idle)
  show "quiet_state (fk_handlers (snd (fake_disconnect t)))"
    using run [OF ok] idle ok by (cases "fk_state t = TC_DISCONNECTED") force+
qed

definition lk_close :: "(exn \<Rightarrow> string) \<Rightarrow> 'w livekit \<Rightarrow> 'w livekit" where
  "lk_close exn_text t =
     (if lk_state t = TC_DISCONNECTED then lk_disconnect t else lk_run exn_text (disconnect_schedule t (Inr ())) t)"

interpretation lk: transport_port lk_state lk_disconnected "lk_close exn_text" "\<lambda>t. quiet_state (lk_handlers t)"
  for exn_text
proof
  fix t :: "'a livekit"
  assume ok: "quiet_state (lk_handlers t)"
  note run = disconnected_by_schedule [OF _ ok, of exn_text "Inr ()", unfolded Let_def]
  show "lk_state t \<noteq> TC_DISCONNECTED \<Longrightarrow>
      lk_state (lk_close exn_text t) = TC_DISCONNECTED \<and> lk_disconnected (lk_close exn_text t)"
    using run by (simp add: lk_close_def)
  show "lk_state t = TC_DISCONNECTED \<Longrightarrow> lk_state (lk_close exn_text t) = TC_DISCONNECTED \<and>
      lk_disconnected (lk_close exn_text t) = lk_disconnected t"
    by (simp add: lk_close_def lk_disconnect_def call_result_def)
  show "quiet_state (lk_handlers (lk_close exn_text t))"
    using run ok by (cases "lk_state t = TC_DISCONNECTED") (simp_all add: lk_close_def lk_disconnect_def call_result_def)
qed

section \<open>Witnesses\<close>

text \<open>A connected transport that hears one participant.\<close>

definition sample_media_config :: media_config where
  "sample_media_config = \<lparr>md_url = ''wss'', md_room_name = ''room'', md_identity = ''agent'', md_token = ''t''\<rparr>"

definition sample_livekit :: "(heard list \<times> unit) livekit" where
  "sample_livekit = lk_run (\<lambda>e. [])
     [LA_Connect sample_media_config, LA_Resume 0 (Inr ()), LA_Resume 0 (Inr ()),
      LA_Room (RE_Subscribed True ''TR1'' ''alice''), LA_Audio 0 AS_Continue] (init_livekit (watched no_handlers) ([], ()))"

lemma sample_livekit_state:
  "lk_state sample_livekit = TC_CONNECTED" "lk_handlers sample_livekit = watched no_handlers" "lk_pending sample_livekit = []"
  "lk_registered sample_livekit" "\<exists>a. map_of (lk_tasks sample_livekit) 0 = Some a" "lk_tracked sample_livekit = [(''TR1'', 0)]"
  "lk_next_call sample_livekit = 1" "\<not> lk_disconnected sample_livekit"
  by (simp_all add: sample_livekit_def sample_media_config_def init_livekit_def lk_connect_def call_wait_at_def call_result_def
      resume_call_def room_connected_def track_subscribed_def audio_step_def begin_audio_def room_name_of_def
      check_audio_input_def between_len_def watched_emits told_def no_handlers_def eff_defs Let_def)

lemma quiet_watched: "quiet_state (watched no_handlers)"
  by (simp add: quiet_state_def watched_def no_handlers_def tap_def eff_defs)

text \<open>
  A client that raises on everything but STARTED: the stream of its participant ends at the first
  frame, and the bracket is closed.
\<close>

definition touchy :: "nat handlers" where
  "touchy = \<lparr>hs_participant = [\<lambda>_. throw (ConnectionErrorE [])], hs_state = [\<lambda>_. throw (ConnectionErrorE [])],
     hs_error = [\<lambda>_. throw (ConnectionErrorE [])], hs_frame = [\<lambda>_. throw (ConnectionErrorE [])],
     hs_input = [\<lambda>e. if ai_kind e = AI_STARTED then modify_eff Suc else throw (ConnectionErrorE [])]\<rparr>"

lemma takes_starts_touchy: "takes_starts touchy"
  by (simp add: takes_starts_def touchy_def eff_defs)

definition touchy_actions :: "lk_action list" where
  "touchy_actions =
     [LA_Connect sample_media_config, LA_Room (RE_Subscribed True ''TR1'' ''alice''), LA_Audio 0 AS_Continue,
      LA_Audio 0 (AS_Frame \<lparr>rw_data = [0, 0], rw_sample_rate = 0, rw_num_channels = 0, rw_samples = 0\<rparr>)]"

lemma audio_in_brackets_witness:
  "let t = lk_run (\<lambda>e. []) touchy_actions (init_livekit (watched touchy) ([], 0)) in
     open_audio (fst (lk_client t)) ''alice'' ''room'' = 0 \<and> frames_inside (fst (lk_client t)) \<and>
     length (fst (lk_client t)) = 5 \<and> snd (lk_client t) = 1"
proof -
  let ?t = "lk_run (\<lambda>e. []) touchy_actions (init_livekit (watched touchy) ([], 0))"
  have "map_of (lk_tasks ?t) = Map.empty \<and> length (fst (lk_client ?t)) = 5 \<and> snd (lk_client ?t) = 1"
    by (simp add: touchy_actions_def sample_media_config_def init_livekit_def lk_connect_def call_result_def
        track_subscribed_def audio_step_def begin_audio_def audio_frame_def end_audio_def drop_task_def
        room_name_of_def frame_of_def nonzero_or_def watched_emits touchy_def told_def eff_defs
        check_audio_input_def check_transport_frame_def between_len_def frame_duration_ms_def round_double_def Let_def)
  with audio_in_brackets [OF takes_starts_touchy, of "\<lambda>e. []" touchy_actions 0 "''alice''" "''room''"] show ?thesis
    by (simp add: Let_def streaming_def)
qed

lemma disconnect_completes_witness:
  "let u = lk_run (\<lambda>e. []) (disconnect_schedule sample_livekit (Inr ())) sample_livekit in
     lk_state u = TC_DISCONNECTED \<and> lk_disconnected u \<and> map_of (lk_tasks u) 0 = None"
  using disconnect_completes [of sample_livekit "\<lambda>e. []" "Inr ()"]
  by (simp add: quiet_watched Let_def sample_livekit_state restrict_map_def)

lemma disconnect_skipped_witness:
  "let u = lk_run (\<lambda>e. []) [LA_Room (RE_StateChanged RTC_DISCONNECTED), LA_Pending, LA_Disconnect] sample_livekit in
     lk_results u 1 = Some (Inr ()) \<and> \<not> lk_disconnected u \<and> map_of (lk_tasks u) 0 \<noteq> None"
  using disconnect_skipped [of sample_livekit "\<lambda>e. []"]
  by (simp add: quiet_watched Let_def sample_livekit_state del: lk_run.simps)

end
