(* ===== verification/RuntimeInv.thy ===== *)
theory RuntimeInv
  imports System
begin

text \<open>
  The invariant of the runtime's states and the relation between earlier and later states,
  interpreted as a \<open>forward_invariant\<close>, and the proof that the operations that do not
  suspend keep it.
\<close>

section \<open>The invariant\<close>

text \<open>The turns of a history made of user/assistant pairs.\<close>

fun exchanges :: "message list \<Rightarrow> uuid list option" where
  "exchanges [] = Some []"
| "exchanges [m] = None"
| "exchanges (u # a # ms) =
     (if ms_role u = MR_USER \<and> ms_role a = MR_ASSISTANT \<and> ms_turn_id u = ms_turn_id a
      then map_option (\<lambda>ts. ms_turn_id u # ts) (exchanges ms) else None)"

definition events_inv :: "rts \<Rightarrow> bool" where
  "events_inv s \<longleftrightarrow> 0 \<le> cx_sequence (rs_ctx s) \<and>
     map ev_sequence (rs_events s) = [1..cx_sequence (rs_ctx s)] \<and>
     (\<forall>e \<in> set (rs_events s). ev_session_id e = cx_session_id (rs_ctx s) \<and>
        (\<forall>t. ev_turn_id e = Some t \<longrightarrow> t \<in> dom (rs_turns s)))"

definition turn_entry_ok :: "rts \<Rightarrow> uuid \<Rightarrow> runtime_turn \<Rightarrow> bool" where
  "turn_entry_ok s t x \<longleftrightarrow> rt_id x = t \<and> t < rs_fresh s \<and> turn_ok x \<and> rt_state x \<noteq> T_CREATED \<and>
     rt_session_id x = cx_session_id (rs_ctx s) \<and> 1 \<le> rt_sequence x \<and>
     rt_sequence x \<le> cx_turn_sequence (rs_ctx s)"

definition turns_inv :: "rts \<Rightarrow> bool" where
  "turns_inv s \<longleftrightarrow> 0 \<le> cx_turn_sequence (rs_ctx s) \<and>
     (\<forall>t x. rs_turns s t = Some x \<longrightarrow> turn_entry_ok s t x) \<and>
     (\<forall>t u x y. rs_turns s t = Some x \<longrightarrow> rs_turns s u = Some y \<longrightarrow> rt_sequence x = rt_sequence y \<longrightarrow> t = u) \<and>
     (\<forall>t. turn_live s t \<longrightarrow> rs_current s = Some t) \<and>
     (\<forall>t. rs_current s = Some t \<longrightarrow> t \<in> dom (rs_turns s))"

definition cancel_inv :: "rts \<Rightarrow> bool" where
  "cancel_inv s \<longleftrightarrow>
     (\<forall>t \<in> cx_cancelled_turn_ids (rs_ctx s). \<exists>x. rs_turns s t = Some x \<and> rt_state x \<in> {T_CANCELLED, T_FAILED}) \<and>
     (\<forall>t x. rs_turns s t = Some x \<longrightarrow> rt_state x = T_CANCELLED \<longrightarrow> t \<in> cx_cancelled_turn_ids (rs_ctx s))"

definition history_inv :: "message list \<Rightarrow> rts \<Rightarrow> bool" where
  "history_inv base s \<longleftrightarrow> (\<exists>ms ts. bucket (rs_store s) (cx_session_id (rs_ctx s)) = base @ ms \<and>
     exchanges ms = Some ts \<and> distinct ts \<and>
     (\<forall>t \<in> set ts. \<exists>x. rs_turns s t = Some x \<and> rt_state x = T_COMPLETED))"

text \<open>
  A tool round: an assistant message with its calls, answered by one tool message per call
  in the same order.
\<close>

definition is_round :: "llm_message list \<Rightarrow> bool" where
  "is_round ms \<longleftrightarrow> (\<exists>a ts. ms = a # ts \<and> lm_role a = LR_ASSISTANT \<and> lm_tool_calls a \<noteq> [] \<and>
     map (\<lambda>m. (lm_role m, lm_tool_call_id m, lm_tool_calls m)) ts =
       map (\<lambda>c. (LR_TOOL, Some (tc_id c), [])) (lm_tool_calls a))"

definition rounds :: "nat \<Rightarrow> llm_message list \<Rightarrow> bool" where
  "rounds n extra \<longleftrightarrow> (\<exists>rs. extra = concat rs \<and> length rs = n \<and> (\<forall>r \<in> set rs. is_round r))"

text \<open>
  The messages of a request: converted history, none of it part of a tool round, the user's
  text, the rounds.
\<close>

definition plain_message :: "llm_message \<Rightarrow> bool" where
  "plain_message m \<longleftrightarrow> lm_role m \<noteq> LR_TOOL \<and> lm_tool_calls m = []"

definition request_shape :: "string \<Rightarrow> llm_message list \<Rightarrow> llm_message list \<Rightarrow> bool" where
  "request_shape user extra ms \<longleftrightarrow>
     (\<exists>front. ms = front @ llm_text_message LR_USER user # extra \<and> list_all plain_message front)"

definition loop_ok :: "llm_loop \<Rightarrow> bool" where
  "loop_ok l \<longleftrightarrow> 0 \<le> ll_iteration l \<and> rounds (nat (ll_iteration l)) (ll_extra l)"

definition loop_bounded :: "runtime_config \<Rightarrow> llm_loop \<Rightarrow> bool" where
  "loop_bounded cfg l \<longleftrightarrow> loop_ok l \<and>
     (\<exists>lc. rc_llm cfg = Some lc \<and> ll_iteration l < lg_max_tool_iterations lc)"

fun wait_ok :: "runtime_config \<Rightarrow> uuid set \<Rightarrow> bool \<Rightarrow> wait \<Rightarrow> bool" where
  "wait_ok cfg D sh (W_Summary p c short acc) = (pp_turn p \<in> D)"
| "wait_ok cfg D sh (W_Retrieve p prep n) = (pp_turn p \<in> D)"
| "wait_ok cfg D sh (W_Recall p prep kn rq) = (pp_turn p \<in> D)"
| "wait_ok cfg D sh (W_Llm l rq parts fin calls) = (pp_turn (ll_pipe l) \<in> D \<and> loop_bounded cfg l \<and>
     request_shape (pp_text (ll_pipe l)) (ll_extra l) (rq_messages rq))"
| "wait_ok cfg D sh (W_Tool l w) = (pp_turn (ll_pipe l) \<in> D \<and> loop_bounded cfg l \<and>
     map tc_id (tw_calls w) =
       map res_tool_call_id (tw_results w) @ tc_id (tw_call w) # map tc_id (tw_rest w))"
| "wait_ok cfg D sh (W_Tts p reply rq) = (pp_turn p \<in> D)"
| "wait_ok cfg D sh (W_SttStart t q tok) = (t \<in> D)"
| "wait_ok cfg D sh (W_Stt t q tok rq) = (t \<in> D)"
| "wait_ok cfg D sh (W_Join t k org) = (t \<in> D)"
| "wait_ok cfg D sh (W_Stop reason pending) = sh"

definition tasks_inv :: "runtime_config \<Rightarrow> rts \<Rightarrow> bool" where
  "tasks_inv cfg s \<longleftrightarrow> (\<forall>k w. rs_tasks s k = Some w \<longrightarrow> wait_ok cfg (dom (rs_turns s)) (cx_shutdown (rs_ctx s)) w)"

definition quiet :: "rts \<Rightarrow> bool" where
  "quiet s \<longleftrightarrow> (cx_shutdown (rs_ctx s) \<longrightarrow> (\<forall>t. \<not> turn_live s t))"

definition rt_core :: "runtime_config \<Rightarrow> message list \<Rightarrow> rts \<Rightarrow> bool" where
  "rt_core cfg base s \<longleftrightarrow> events_inv s \<and> turns_inv s \<and> cancel_inv s \<and> history_inv base s \<and> tasks_inv cfg s"

definition rt_inv :: "runtime_config \<Rightarrow> message list \<Rightarrow> rts \<Rightarrow> bool" where
  "rt_inv cfg base s \<longleftrightarrow> rt_core cfg base s \<and> quiet s"

section \<open>Moving forward\<close>

definition deliveries :: "nat list \<Rightarrow> event list \<Rightarrow> (nat \<times> event) list" where
  "deliveries ls es = concat (map (\<lambda>e. map (\<lambda>l. (l, e)) ls) es)"

definition turns_le :: "(uuid \<rightharpoonup> runtime_turn) \<Rightarrow> (uuid \<rightharpoonup> runtime_turn) \<Rightarrow> bool" where
  "turns_le m m' \<longleftrightarrow> (\<forall>t x. m t = Some x \<longrightarrow>
     (\<exists>y. m' t = Some y \<and> rt_sequence y = rt_sequence x \<and> (is_terminal (rt_state x) \<longrightarrow> y = x)))"

lemma turns_le_refl [simp]: "turns_le m m"
  by (simp add: turns_le_def)

lemma turns_le_trans: "turns_le m m' \<Longrightarrow> turns_le m' m'' \<Longrightarrow> turns_le m m''"
  unfolding turns_le_def by (metis option.inject)

lemma turns_le_D: "turns_le m m' \<Longrightarrow> m t = Some x \<Longrightarrow> \<exists>y. m' t = Some y"
  by (auto simp: turns_le_def)

definition rt_le :: "rts \<Rightarrow> rts \<Rightarrow> bool" where
  "rt_le s s' \<longleftrightarrow>
     cx_session_id (rs_ctx s') = cx_session_id (rs_ctx s) \<and>
     rs_listeners s' = rs_listeners s \<and>
     (\<exists>new. rs_events s' = rs_events s @ new \<and>
        rs_delivered s' = rs_delivered s @ deliveries (rs_listeners s) new \<and>
        (\<forall>e \<in> set new. \<not> is_stale_for_cancelled_turns e (cx_cancelled_turn_ids (rs_ctx s)))) \<and>
     cx_cancelled_turn_ids (rs_ctx s) \<subseteq> cx_cancelled_turn_ids (rs_ctx s') \<and>
     (cx_shutdown (rs_ctx s) \<longrightarrow> cx_shutdown (rs_ctx s') \<and> dom (rs_turns s') = dom (rs_turns s)) \<and>
     turns_le (rs_turns s) (rs_turns s') \<and>
     prefix (bucket (rs_store s) (cx_session_id (rs_ctx s))) (bucket (rs_store s') (cx_session_id (rs_ctx s)))"

lemma stale_mono:
  "\<not> is_stale_for_cancelled_turns e D \<Longrightarrow> C \<subseteq> D \<Longrightarrow> \<not> is_stale_for_cancelled_turns e C"
  by (auto simp: is_stale_for_cancelled_turns_def split: option.splits if_splits)

lemma deliveries_simps [simp]:
  "deliveries ls [] = []" "deliveries ls (es @ fs) = deliveries ls es @ deliveries ls fs"
  "deliveries ls [e] = map (\<lambda>l. (l, e)) ls"
  by (simp_all add: deliveries_def)

lemma rt_le_refl: "rt_le s s"
  by (auto simp: rt_le_def)

lemma rt_le_trans:
  assumes "rt_le s t" and "rt_le t u"
  shows "rt_le s u"
proof -
  obtain new1 where n1: "rs_events t = rs_events s @ new1"
      "rs_delivered t = rs_delivered s @ deliveries (rs_listeners s) new1"
      "\<forall>e \<in> set new1. \<not> is_stale_for_cancelled_turns e (cx_cancelled_turn_ids (rs_ctx s))"
    using assms(1) by (auto simp: rt_le_def)
  obtain new2 where n2: "rs_events u = rs_events t @ new2"
      "rs_delivered u = rs_delivered t @ deliveries (rs_listeners t) new2"
      "\<forall>e \<in> set new2. \<not> is_stale_for_cancelled_turns e (cx_cancelled_turn_ids (rs_ctx t))"
    using assms(2) by (auto simp: rt_le_def)
  have sub: "cx_cancelled_turn_ids (rs_ctx s) \<subseteq> cx_cancelled_turn_ids (rs_ctx t)"
    using assms(1) by (simp add: rt_le_def)
  have "rs_listeners t = rs_listeners s" using assms(1) by (simp add: rt_le_def)
  then have "\<exists>new. rs_events u = rs_events s @ new \<and>
      rs_delivered u = rs_delivered s @ deliveries (rs_listeners s) new \<and>
      (\<forall>e \<in> set new. \<not> is_stale_for_cancelled_turns e (cx_cancelled_turn_ids (rs_ctx s)))"
    using n1 n2 stale_mono [OF _ sub] by (intro exI [of _ "new1 @ new2"]) auto
  moreover have "turns_le (rs_turns s) (rs_turns u)"
    using assms turns_le_trans unfolding rt_le_def by blast
  ultimately show ?thesis
    using assms unfolding rt_le_def by (auto intro: prefix_order.order_trans)
qed

interpretation rt: forward_invariant "rt_inv cfg base" rt_le for cfg base
  by unfold_locales (rule rt_le_refl, rule rt_le_trans)

lemma le_dom: "rt_le s s' \<Longrightarrow> t \<in> dom (rs_turns s) \<Longrightarrow> t \<in> dom (rs_turns s')"
  using turns_le_D by (fastforce simp: rt_le_def)

lemma le_terminal: "rt_le s s' \<Longrightarrow> turn_terminal s t \<Longrightarrow> turn_terminal s' t"
  by (fastforce simp: rt_le_def turns_le_def turn_terminal_def)

lemma wait_ok_mono: "wait_ok cfg D sh w \<Longrightarrow> D \<subseteq> E \<Longrightarrow> (sh \<longrightarrow> sh') \<Longrightarrow> wait_ok cfg E sh' w"
  by (cases w) auto

text \<open>Fields outside this list matter to neither the invariant nor the relation.\<close>

definition same_core :: "rts \<Rightarrow> rts \<Rightarrow> bool" where
  "same_core s s' \<longleftrightarrow> rs_ctx s' = rs_ctx s \<and> rs_turns s' = rs_turns s \<and> rs_current s' = rs_current s \<and>
     rs_events s' = rs_events s \<and> rs_listeners s' = rs_listeners s \<and> rs_delivered s' = rs_delivered s \<and>
     bucket (rs_store s') (cx_session_id (rs_ctx s)) = bucket (rs_store s) (cx_session_id (rs_ctx s)) \<and>
     rs_fresh s \<le> rs_fresh s' \<and>
     (\<forall>k w. rs_tasks s' k = Some w \<longrightarrow> rs_tasks s k = Some w)"

lemma same_core_inv:
  assumes "same_core s s'" and "rt_inv cfg base s"
  shows "rt_inv cfg base s'"
proof -
  have live: "turn_live s' t = turn_live s t" for t
    using assms(1) by (simp add: turn_live_def same_core_def)
  have "events_inv s'" "cancel_inv s'" "history_inv base s'" "quiet s'"
    using assms by (auto simp: rt_inv_def rt_core_def same_core_def events_inv_def cancel_inv_def
        history_inv_def quiet_def live)
  moreover have "tasks_inv cfg s'"
    unfolding tasks_inv_def
  proof (intro allI impI)
    fix k w
    assume "rs_tasks s' k = Some w"
    then have "rs_tasks s k = Some w" using assms(1) by (simp add: same_core_def)
    with assms show "wait_ok cfg (dom (rs_turns s')) (cx_shutdown (rs_ctx s')) w"
      by (simp add: rt_inv_def rt_core_def tasks_inv_def same_core_def)
  qed
  moreover have "turns_inv s'"
  proof -
    have "turn_entry_ok s' t x" if "turn_entry_ok s t x" for t x
      using that assms(1) by (auto simp: same_core_def turn_entry_ok_def)
    moreover have "turns_inv s" using assms(2) by (simp add: rt_inv_def rt_core_def)
    moreover have "rs_turns s' = rs_turns s" "rs_current s' = rs_current s" "rs_ctx s' = rs_ctx s"
      using assms(1) by (simp_all add: same_core_def)
    ultimately show ?thesis by (simp add: turns_inv_def live)
  qed
  ultimately show ?thesis by (simp add: rt_inv_def rt_core_def)
qed

lemma same_core_le: "same_core s s' \<Longrightarrow> rt_le s s'"
  by (auto simp: same_core_def rt_le_def)

lemma safe_same_core:
  assumes "rt_inv cfg base s" and "same_core s (f s)" and "Q () (f s)"
  shows "rt.safe cfg base s (modify_eff f) Q"
  using assms same_core_inv same_core_le by (intro rt.safe_modify) blast+

section \<open>Operations that keep the invariant\<close>

lemma core_emit:
  assumes "rt_core cfg base s" and "ev_sequence e = cx_sequence (rs_ctx s) + 1"
    and "ev_session_id e = cx_session_id (rs_ctx s)" and "\<And>t. ev_turn_id e = Some t \<Longrightarrow> t \<in> dom (rs_turns s)"
  shows "rt_core cfg base (s\<lparr>rs_ctx := (rs_ctx s)\<lparr>cx_sequence := cx_sequence (rs_ctx s) + 1\<rparr>,
           rs_fresh := rs_fresh s + 1, rs_events := rs_events s @ [e], rs_delivered := d\<rparr>)"
    (is "rt_core cfg base ?s")
proof -
  have "[1..cx_sequence (rs_ctx s) + 1] = [1..cx_sequence (rs_ctx s)] @ [cx_sequence (rs_ctx s) + 1]"
    using assms(1) upto_rec2 [of 1 "cx_sequence (rs_ctx s) + 1"] by (simp add: rt_core_def events_inv_def)
  then have "events_inv ?s" using assms by (auto simp: rt_core_def events_inv_def)
  moreover have "turns_inv ?s"
    using assms(1) unfolding rt_core_def turns_inv_def turn_live_def turn_entry_ok_def by fastforce
  ultimately show ?thesis
    using assms(1) by (simp add: rt_core_def cancel_inv_def history_inv_def tasks_inv_def)
qed

text \<open>What emitting an event changes.\<close>

definition emitted :: "rts \<Rightarrow> event \<Rightarrow> rts \<Rightarrow> bool" where
  "emitted s e s' \<longleftrightarrow> s' = s\<lparr>rs_ctx := (rs_ctx s)\<lparr>cx_sequence := cx_sequence (rs_ctx s) + 1\<rparr>,
     rs_fresh := rs_fresh s + 1, rs_events := rs_events s @ [e],
     rs_delivered := rs_delivered s @ map (\<lambda>l. (l, e)) (rs_listeners s)\<rparr>"

lemma emit_cases:
  assumes "builder_shape ty p t" and "0 \<le> cx_sequence (rs_ctx s)"
    and "\<forall>u. t = Some u \<longrightarrow> ty \<in> stale_if_turn_cancelled \<longrightarrow> u \<notin> cx_cancelled_turn_ids (rs_ctx s)"
  obtains (invalid) x where "emit (build_with ty p t src) s = (Inl x, s\<lparr>rs_fresh := rs_fresh s + 1\<rparr>)"
      and "check_payload p = Inl x"
  | (built) e s' where "emit (build_with ty p t src) s = (Inr True, s')" and "emitted s e s'"
      and "ev_sequence e = cx_sequence (rs_ctx s) + 1" and "ev_type e = ty" and "ev_turn_id e = t"
      and "ev_payload e = p" and "ev_session_id e = cx_session_id (rs_ctx s)"
      and "check_payload p = Inr p"
      and "\<not> is_stale_for_cancelled_turns e (cx_cancelled_turn_ids (rs_ctx s))"
proof (cases rule: build_with_cases [OF assms(1,2), of src "rs_fresh s" "rs_clock s"])
  case (1 x)
  then show thesis by (intro invalid) (simp_all add: emit_def)
next
  case (2 e)
  have ns: "\<not> is_stale_for_cancelled_turns e (cx_cancelled_turn_ids (rs_ctx s))"
    using 2 assms(3) by (auto simp: is_stale_for_cancelled_turns_def split: option.splits)
  show thesis
    by (rule built [of _ e]) (use 2 ns in \<open>auto simp: emit_def admit_event_def emitted_def\<close>)
qed

lemma emitted_inv:
  assumes "rt_inv cfg base s" and "emitted s e s'" and "ev_sequence e = cx_sequence (rs_ctx s) + 1"
    and "ev_session_id e = cx_session_id (rs_ctx s)" and "\<And>t. ev_turn_id e = Some t \<Longrightarrow> t \<in> dom (rs_turns s)"
    and "\<not> is_stale_for_cancelled_turns e (cx_cancelled_turn_ids (rs_ctx s))"
  shows "rt_inv cfg base s'" and "rt_le s s'"
proof -
  have "quiet s'" using assms(1,2) by (auto simp: rt_inv_def emitted_def quiet_def turn_live_def)
  with core_emit [OF _ assms(3-5)] assms(1,2) show "rt_inv cfg base s'"
    by (auto simp: rt_inv_def emitted_def)
  show "rt_le s s'" using assms(2,6) by (auto simp: rt_le_def emitted_def)
qed

lemma safe_emit:
  assumes "rt_inv cfg base s" and "builder_shape ty p t"
    and "\<And>u. t = Some u \<Longrightarrow> u \<in> dom (rs_turns s)"
    and "\<And>u. t = Some u \<Longrightarrow> ty \<in> stale_if_turn_cancelled \<Longrightarrow> u \<notin> cx_cancelled_turn_ids (rs_ctx s)"
  shows "rt.safe cfg base s (emit (build_with ty p t src))
     (\<lambda>a s'. \<exists>e. emitted s e s' \<and> ev_type e = ty \<and> ev_turn_id e = t)"
proof -
  have "0 \<le> cx_sequence (rs_ctx s)" using assms(1) by (simp add: rt_inv_def rt_core_def events_inv_def)
  have "\<forall>u. t = Some u \<longrightarrow> ty \<in> stale_if_turn_cancelled \<longrightarrow> u \<notin> cx_cancelled_turn_ids (rs_ctx s)"
    using assms(4) by blast
  note nc = this
  from assms(2) \<open>0 \<le> cx_sequence (rs_ctx s)\<close> nc show ?thesis
  proof (cases rule: emit_cases [where src = src])
    case (invalid x)
    have "same_core s (s\<lparr>rs_fresh := rs_fresh s + 1\<rparr>)" by (simp add: same_core_def)
    then have "rt_inv cfg base (s\<lparr>rs_fresh := rs_fresh s + 1\<rparr>)" "rt_le s (s\<lparr>rs_fresh := rs_fresh s + 1\<rparr>)"
      using same_core_inv [OF _ assms(1)] same_core_le by blast+
    with invalid(1) show ?thesis by (intro rt.safeI) auto
  next
    case (built e s')
    note i = emitted_inv [OF assms(1) built(2,3,7) _ built(9)]
    have "rt_inv cfg base s'" "rt_le s s'" using i assms(3) built(5) by auto
    with built show ?thesis by (intro rt.safeI) auto
  qed
qed

lemma live_state: "rt_inv cfg base s \<or> rt_core cfg base s \<Longrightarrow> turn_live s t \<longleftrightarrow> (\<exists>x. rs_turns s t = Some x \<and> rt_state x = T_ACTIVE)"
proof -
  assume "rt_inv cfg base s \<or> rt_core cfg base s"
  then have "\<And>x. rs_turns s t = Some x \<Longrightarrow> rt_state x \<noteq> T_CREATED"
    by (auto simp: rt_inv_def rt_core_def turns_inv_def turn_entry_ok_def)
  then show ?thesis unfolding turn_live_def is_terminal_def
    by (metis (full_types) insertE singletonD turn_state.distinct turn_state.exhaust insertCI)
qed

lemma core_end_turn:
  assumes "rt_core cfg base s" and "rs_turns s t = Some x" and "rt_state x = T_ACTIVE"
    and "rt_id y = rt_id x" "rt_sequence y = rt_sequence x" "rt_session_id y = rt_session_id x"
    and "turn_ok y" and "rt_state y = T_COMPLETED \<or> rt_state y = T_FAILED"
  shows "rt_core cfg base (s\<lparr>rs_turns := (rs_turns s)(t \<mapsto> y)\<rparr>)"
    and "t \<notin> cx_cancelled_turn_ids (rs_ctx s)"
proof -
  let ?s = "s\<lparr>rs_turns := (rs_turns s)(t \<mapsto> y)\<rparr>"
  have dom: "dom (rs_turns ?s) = dom (rs_turns s)" using assms(2) by auto
  show nc: "t \<notin> cx_cancelled_turn_ids (rs_ctx s)"
    using assms(1-3) unfolding rt_core_def cancel_inv_def by fastforce
  have "turns_inv ?s"
    using assms unfolding rt_core_def turns_inv_def turn_live_def turn_entry_ok_def
    by (auto split: if_splits)
  moreover have "cancel_inv ?s" using assms nc unfolding rt_core_def cancel_inv_def by auto
  moreover have "history_inv base ?s" using assms unfolding rt_core_def history_inv_def by fastforce
  ultimately show "rt_core cfg base ?s"
    using assms(1) unfolding rt_core_def events_inv_def tasks_inv_def dom by simp
qed

lemma le_end_turn:
  assumes "rs_turns s t = Some x" and "\<not> is_terminal (rt_state x)" and "rt_sequence y = rt_sequence x"
  shows "rt_le s (s\<lparr>rs_turns := (rs_turns s)(t \<mapsto> y)\<rparr>)"
  using assms by (auto simp: rt_le_def turns_le_def)

definition ends_turn :: "(runtime_turn, unit) eff \<Rightarrow> bool" where
  "ends_turn f \<longleftrightarrow> (\<forall>x. (is_terminal (rt_state x) \<longrightarrow> (\<exists>m. f x = (Inl m, x))) \<and>
     (rt_state x = T_ACTIVE \<longrightarrow> (\<exists>y. f x = (Inr (), y) \<and> rt_id y = rt_id x \<and>
        rt_sequence y = rt_sequence x \<and> rt_session_id y = rt_session_id x \<and>
        (turn_ok x \<longrightarrow> turn_ok y) \<and> (rt_state y = T_COMPLETED \<or> rt_state y = T_FAILED))))"

lemma ends_turn_complete: "ends_turn (turn_complete now)"
  by (auto simp: ends_turn_def turn_op_defs turn_ok_def)

lemma ends_turn_fail: "ends_turn (turn_fail c now)"
  by (auto simp: ends_turn_def turn_op_defs turn_ok_def)

lemma safe_on_turn:
  assumes inv: "rt_inv cfg base s" and "t \<in> dom (rs_turns s)" and f: "ends_turn f"
  shows "rt.safe cfg base s (on_turn t f) (\<lambda>_ s'. turn_terminal s' t \<and>
     (\<exists>x y. f x = (Inr (), y) \<and> rs_turns s' t = Some y))"
proof -
  obtain x where x: "rs_turns s t = Some x" using assms(2) by auto
  show ?thesis
  proof (cases "is_terminal (rt_state x)")
    case True
    then obtain m where "f x = (Inl m, x)" using f by (auto simp: ends_turn_def)
    moreover have "s\<lparr>rs_turns := (rs_turns s)(t \<mapsto> x)\<rparr> = s" using x by (simp add: fun_upd_idem)
    ultimately have "on_turn t f s = (Inl m, s)" using x by (simp add: on_turn_def)
    then show ?thesis by (rule rt.safeI) (simp_all add: inv rt_le_refl)
  next
    case False
    then have act: "rt_state x = T_ACTIVE"
      using live_state [of cfg base s t] inv x by (simp add: turn_live_def)
    then obtain y where y: "f x = (Inr (), y)" "rt_id y = rt_id x" "rt_sequence y = rt_sequence x"
      "rt_session_id y = rt_session_id x" "turn_ok x \<longrightarrow> turn_ok y"
      "rt_state y = T_COMPLETED \<or> rt_state y = T_FAILED"
      using f unfolding ends_turn_def by blast
    have ok: "turn_ok y"
      using inv x y(5) by (auto simp: rt_inv_def rt_core_def turns_inv_def turn_entry_ok_def)
    let ?s = "s\<lparr>rs_turns := (rs_turns s)(t \<mapsto> y)\<rparr>"
    have "rt_core cfg base ?s"
      using core_end_turn(1) [OF _ x act y(2,3,4) ok y(6)] inv by (simp add: rt_inv_def)
    moreover have "quiet ?s"
      using inv y(6) unfolding rt_inv_def quiet_def turn_live_def by auto
    ultimately have "rt_inv cfg base ?s" by (simp add: rt_inv_def)
    moreover have "rt_le s ?s" using le_end_turn [OF x False y(3)] .
    moreover have "on_turn t f s = (Inr (), ?s)" using x y(1) by (simp add: on_turn_def)
    moreover have "turn_terminal ?s t" using y(6) by (auto simp: turn_terminal_def)
    moreover have "\<exists>x y. f x = (Inr (), y) \<and> rs_turns ?s t = Some y" using y(1) by auto
    ultimately show ?thesis by (intro rt.safeI) auto
  qed
qed

lemma terminal_not_live: "turn_terminal s t \<Longrightarrow> \<not> turn_live s t"
  by (auto simp: turn_terminal_def turn_live_def)

lemma core_clear_current:
  assumes "rt_core cfg base s" and "\<not> turn_live s t" and "rs_current s = Some t"
  shows "rt_core cfg base (s\<lparr>rs_current := None\<rparr>)"
proof -
  have "\<not> turn_live s u" for u using assms unfolding rt_core_def turns_inv_def by force
  then show ?thesis
    using assms(1) unfolding rt_core_def
    by (simp add: events_inv_def turns_inv_def cancel_inv_def history_inv_def tasks_inv_def
        turn_live_def turn_entry_ok_def)
qed

lemma safe_clear_current:
  assumes "rt_inv cfg base s" and "turn_terminal s t"
  shows "rt.safe cfg base s (clear_current t) (\<lambda>_ s'. True)"
proof -
  let ?s = "if rs_current s = Some t then s\<lparr>rs_current := None\<rparr> else s"
  have "rt_core cfg base ?s"
    using assms core_clear_current [OF _ terminal_not_live] by (auto simp: rt_inv_def)
  moreover have "quiet ?s" using assms(1) by (auto simp: rt_inv_def quiet_def turn_live_def)
  moreover have "rt_le s ?s" by (auto simp: rt_le_def)
  ultimately show ?thesis
    by (intro rt.safeI [where r = "Inr ()" and s' = ?s]) (simp_all add: clear_current_def modify_eff_def rt_inv_def)
qed

lemma safe_complete_turn:
  assumes "rt_inv cfg base s" and "t \<in> dom (rs_turns s)"
  shows "rt.safe cfg base s (complete_turn t) (\<lambda>_ s'. True)"
  unfolding complete_turn_def
  by (intro rt.safe_with rt.safe_if rt.safe_throw rt.safe_then [OF safe_on_turn [OF _ _ ends_turn_complete]]
      safe_clear_current assms) simp_all

lemma shape_error: "builder_shape ET_ERROR (ErrorPayload code msg r) t"
  by (simp add: builder_shape_def turn_scoped_event_types_def)

lemma safe_error_event:
  assumes "rt_inv cfg base s" and "\<And>u. t = Some u \<Longrightarrow> u \<in> dom (rs_turns s)"
  shows "rt.safe cfg base s (emit (error_event code msg t r)) (\<lambda>_ s'. True)"
  unfolding error_event_def
  by (rule rt.safe_weaken [OF safe_emit [OF assms(1) shape_error]])
    (use assms(2) in \<open>auto simp: stale_if_turn_cancelled_def\<close>)

lemma safe_fail_turn:
  assumes "rt_inv cfg base s" and "t \<in> dom (rs_turns s)"
  shows "rt.safe cfg base s (fail_turn t code msg r) (\<lambda>_ s'. turn_terminal s' t)"
  unfolding fail_turn_def
proof (rule rt.safe_with, rule rt.safe_then [OF safe_on_turn [OF assms ends_turn_fail]])
  fix a s'
  assume s': "rt_inv cfg base s'" "rt_le s s'"
    "turn_terminal s' t \<and> (\<exists>x y. turn_fail code (rs_clock s) x = (Inr (), y) \<and> rs_turns s' t = Some y)"
  have "rt.safe cfg base s' (emit (error_event code msg (Some t) r)) (\<lambda>_ s''. turn_terminal s'' t)"
    by (rule rt.safe_weaken [OF safe_error_event])
      (use s' le_dom [OF s'(2) assms(2)] le_terminal in auto)
  then show "rt.safe cfg base s' (then_eff (emit (error_event code msg (Some t) r)) (clear_current t))
      (\<lambda>_ s'. turn_terminal s' t)"
    by (rule rt.safe_then) (rule rt.safe_weaken [OF safe_clear_current], auto intro: le_terminal)
qed

text \<open>Cancelling a live turn, in one piece: the intermediate states are not observable.\<close>

lemma core_cancel:
  assumes "rt_core cfg base s" and "rs_turns s t = Some x" and "rt_state x = T_ACTIVE"
  shows "rt_core cfg base (s\<lparr>rs_ctx := context_cancel_turn t (rs_ctx s),
     rs_turns := (rs_turns s)(t \<mapsto> x\<lparr>rt_state := T_CANCELLED, rt_interrupted := True, rt_ended_at := Some now\<rparr>)\<rparr>)"
    (is "rt_core cfg base ?s")
proof -
  have dom: "dom (rs_turns ?s) = dom (rs_turns s)" using assms(2) by auto
  have "turn_entry_ok s t x" using assms unfolding rt_core_def turns_inv_def by blast
  then have "turns_inv ?s"
    using assms unfolding rt_core_def turns_inv_def turn_live_def turn_entry_ok_def
    by (auto simp: context_cancel_turn_def turn_ok_def split: if_splits)
  moreover have "cancel_inv ?s"
    using assms unfolding rt_core_def cancel_inv_def by (auto simp: context_cancel_turn_def)
  moreover have "history_inv base ?s"
    using assms unfolding rt_core_def history_inv_def by (fastforce simp: context_cancel_turn_def)
  ultimately show ?thesis
    using assms(1) unfolding rt_core_def events_inv_def tasks_inv_def dom
    by (simp add: context_cancel_turn_def)
qed

text \<open>The cancelled tokens after the three tokens of a turn have been signalled.\<close>

definition signalled :: "rts \<Rightarrow> uuid \<Rightarrow> nat \<Rightarrow> bool" where
  "signalled s t = (\<lambda>n. rs_tokens s n \<or>
     Some n \<in> {rs_llm_tokens s t, rs_stt_tokens s t, rs_tts_tokens s t})"

lemma cancel_token_frame:
  "cancel_token_of (rs_tts_tokens s t) (cancel_token_of (rs_stt_tokens s t)
     (cancel_token_of (rs_llm_tokens s t) s)) = s\<lparr>rs_tokens := signalled s t\<rparr>"
  by (cases "rs_tts_tokens s t"; cases "rs_stt_tokens s t"; cases "rs_llm_tokens s t")
    (auto simp: cancel_token_of_def signalled_def fun_eq_iff intro!: rts.equality)

definition cancelled_turn :: "time \<Rightarrow> runtime_turn \<Rightarrow> runtime_turn" where
  "cancelled_turn now x = x\<lparr>rt_state := T_CANCELLED, rt_interrupted := True, rt_ended_at := Some now\<rparr>"

lemma cancel_token_of_simps [simp]:
  "rs_llm_tokens (cancel_token_of k s) = rs_llm_tokens s"
  "rs_stt_tokens (cancel_token_of k s) = rs_stt_tokens s"
  "rs_tts_tokens (cancel_token_of k s) = rs_tts_tokens s"
  by (simp_all add: cancel_token_of_def split: option.splits)

text \<open>Cancelling an active turn as one explicit state change.\<close>

lemma cancel_turn_active:
  assumes x: "rs_turns s t = Some x" "rt_state x = T_ACTIVE" and "0 \<le> cx_sequence (rs_ctx s)"
  obtains e s2 where
    "cancel_turn t s = (Inr (), if rs_current s2 = Some t then s2\<lparr>rs_current := None\<rparr> else s2)"
    and "emitted (s\<lparr>rs_tokens := signalled s t, rs_ctx := context_cancel_turn t (rs_ctx s),
           rs_turns := (rs_turns s)(t \<mapsto> cancelled_turn (rs_clock s) x)\<rparr>) e s2"
    and "ev_sequence e = cx_sequence (rs_ctx s) + 1" and "ev_type e = ET_AGENT_INTERRUPTED"
    and "ev_turn_id e = Some t" and "ev_session_id e = cx_session_id (rs_ctx s)"
proof -
  note toks = cancel_token_frame [of s t]
  let ?s1 = "s\<lparr>rs_tokens := signalled s t, rs_ctx := context_cancel_turn t (rs_ctx s),
           rs_turns := (rs_turns s)(t \<mapsto> cancelled_turn (rs_clock s) x)\<rparr>"
  have eq: "cancel_turn t s = then_eff (emit (agent_interrupted_event t)) (clear_current t) ?s1"
    using x toks
    by (simp add: cancel_turn_def turn_terminal_def on_turn_def turn_cancel_def turn_transition_def
        eff_defs cancelled_turn_def)
  have shape: "builder_shape ET_AGENT_INTERRUPTED (AgentInterruptedPayload t IR_USER_SPEECH '''' '''') (Some t)"
    by (simp add: builder_shape_def)
  have c0: "0 \<le> cx_sequence (rs_ctx ?s1)" using assms(3) by (simp add: context_cancel_turn_def)
  have c1: "\<forall>u. Some t = Some u \<longrightarrow> ET_AGENT_INTERRUPTED \<in> stale_if_turn_cancelled \<longrightarrow>
      u \<notin> cx_cancelled_turn_ids (rs_ctx ?s1)"
    by (simp add: stale_if_turn_cancelled_def)
  from shape c0 c1 show thesis
  proof (cases rule: emit_cases [where src = SRC_RUNTIME])
    case (invalid y)
    then show thesis by simp
  next
    case (built e s2)
    then have "emit (agent_interrupted_event t) ?s1 = (Inr True, s2)"
      by (simp add: agent_interrupted_event_def)
    then have "cancel_turn t s = (Inr (), if rs_current s2 = Some t then s2\<lparr>rs_current := None\<rparr> else s2)"
      unfolding eq by (simp add: then_eff_def bind_eff_def clear_current_def modify_eff_def)
    with built show thesis by (intro that) (auto simp: context_cancel_turn_def)
  qed
qed

lemma core_cancel_turn:
  assumes core: "rt_core cfg base s" and x: "rs_turns s t = Some x" "rt_state x = T_ACTIVE"
    and run: "cancel_turn t s = (r, s')"
  shows "rt_core cfg base s'" and "rt_le s s'" and "turn_live s' u \<longleftrightarrow> turn_live s u \<and> u \<noteq> t"
    and "cx_shutdown (rs_ctx s') = cx_shutdown (rs_ctx s)"
proof -
  have "0 \<le> cx_sequence (rs_ctx s)" using core by (simp add: rt_core_def events_inv_def)
  from cancel_turn_active [OF x this] obtain e s2 where s2:
    "cancel_turn t s = (Inr (), if rs_current s2 = Some t then s2\<lparr>rs_current := None\<rparr> else s2)"
    "emitted (s\<lparr>rs_tokens := signalled s t, rs_ctx := context_cancel_turn t (rs_ctx s),
           rs_turns := (rs_turns s)(t \<mapsto> cancelled_turn (rs_clock s) x)\<rparr>) e s2"
    "ev_sequence e = cx_sequence (rs_ctx s) + 1" "ev_type e = ET_AGENT_INTERRUPTED"
    "ev_turn_id e = Some t" "ev_session_id e = cx_session_id (rs_ctx s)" by blast
  let ?s0 = "s\<lparr>rs_tokens := signalled s t\<rparr>"
  let ?s1 = "s\<lparr>rs_tokens := signalled s t, rs_ctx := context_cancel_turn t (rs_ctx s),
           rs_turns := (rs_turns s)(t \<mapsto> cancelled_turn (rs_clock s) x)\<rparr>"
  have "rt_core cfg base ?s0"
    using core by (simp add: rt_core_def events_inv_def turns_inv_def cancel_inv_def history_inv_def
        tasks_inv_def turn_live_def turn_entry_ok_def)
  from core_cancel [OF this, of t x] x have c1: "rt_core cfg base ?s1"
    by (simp add: cancelled_turn_def)
  have c2: "rt_core cfg base s2"
    using core_emit [OF c1, of e] s2 by (auto simp: emitted_def context_cancel_turn_def)
  have live: "turn_live s2 u \<longleftrightarrow> turn_live s u \<and> u \<noteq> t" for u
    using s2(2) x by (auto simp: emitted_def turn_live_def cancelled_turn_def)
  have s': "s' = (if rs_current s2 = Some t then s2\<lparr>rs_current := None\<rparr> else s2)"
    using run s2(1) by simp
  have "\<not> turn_live s2 t" using live by simp
  with c2 core_clear_current show "rt_core cfg base s'" unfolding s' by auto
  show "turn_live s' u \<longleftrightarrow> turn_live s u \<and> u \<noteq> t" using live unfolding s' by (simp add: turn_live_def)
  show "cx_shutdown (rs_ctx s') = cx_shutdown (rs_ctx s)"
    using s2(2) unfolding s' by (simp add: emitted_def context_cancel_turn_def)
  have "rt_le s ?s1"
    using x by (auto simp: rt_le_def turns_le_def context_cancel_turn_def cancelled_turn_def)
  moreover have "\<not> is_stale_for_cancelled_turns e C" for C
    using s2(4) by (auto simp: is_stale_for_cancelled_turns_def stale_if_turn_cancelled_def split: option.splits)
  then have "rt_le ?s1 s2" using s2(2) by (auto simp: emitted_def rt_le_def)
  moreover have "rt_le s2 s'" unfolding s' by (auto simp: rt_le_def)
  ultimately show "rt_le s s'" using rt_le_trans by blast
qed

lemma safe_cancel_turn:
  assumes inv: "rt_inv cfg base s"
  shows "rt.safe cfg base s (cancel_turn t) (\<lambda>_ s'. \<not> turn_live s' t)"
proof (cases "rs_turns s t")
  case None
  then show ?thesis by (intro rt.safeI [of _ _ _ s]) (auto simp: cancel_turn_def eff_defs inv rt_le_refl)
next
  case (Some x)
  show ?thesis
  proof (cases "is_terminal (rt_state x)")
    case True
    with Some have "turn_terminal s t" by (simp add: turn_terminal_def)
    with Some inv show ?thesis
      by (intro rt.safeI [of _ _ _ s]) (auto simp: cancel_turn_def eff_defs rt_le_refl terminal_not_live)
  next
    case False
    then have act: "rt_state x = T_ACTIVE"
      using live_state [of cfg base s t] inv Some by (simp add: turn_live_def)
    obtain r s' where run: "cancel_turn t s = (r, s')" by force
    have core: "rt_core cfg base s" using inv by (simp add: rt_inv_def)
    note c = core_cancel_turn [OF core Some act run]
    have "quiet s'" using inv c(3,4) by (auto simp: rt_inv_def quiet_def)
    with c run show ?thesis by (intro rt.safeI [of _ _ r s']) (auto simp: rt_inv_def)
  qed
qed

lemma safe_cancel_active_turn:
  "rt_inv cfg base s \<Longrightarrow> rt.safe cfg base s cancel_active_turn (\<lambda>_ s'. True)"
  unfolding cancel_active_turn_def
  by (rule rt.safe_with)
    (auto split: option.split intro: rt.safe_ret rt.safe_weaken [OF safe_cancel_turn])

text \<open>\<open>stop\<close> first requests shutdown; then the only turn that can be live is cancelled.\<close>

lemma stop_prefix:
  assumes inv: "rt_inv cfg base s"
    and run: "cancel_active_turn (s\<lparr>rs_ctx := request_shutdown (rs_ctx s)\<rparr>) = (r, s')"
  shows "rt_inv cfg base s'" and "rt_le s s'" and "cx_shutdown (rs_ctx s')"
proof -
  let ?s = "s\<lparr>rs_ctx := request_shutdown (rs_ctx s)\<rparr>"
  have live: "turn_live ?s = turn_live s" by (rule ext) (simp add: turn_live_def)
  have core: "rt_core cfg base ?s"
    using inv live wait_ok_mono [of cfg "dom (rs_turns s)" "cx_shutdown (rs_ctx s)" _ "dom (rs_turns s)" True]
    unfolding rt_inv_def rt_core_def
    by (simp add: events_inv_def turns_inv_def cancel_inv_def history_inv_def tasks_inv_def
        turn_entry_ok_def request_shutdown_def)
  have le: "rt_le s ?s" by (simp add: rt_le_def request_shutdown_def)
  have only: "turn_live s u \<Longrightarrow> rs_current s = Some u" for u
    using inv by (simp add: rt_inv_def rt_core_def turns_inv_def)
  have "rt_inv cfg base s' \<and> rt_le s s' \<and> cx_shutdown (rs_ctx s')"
  proof (cases "\<exists>t. rs_current s = Some t \<and> turn_live s t")
    case True
    then obtain t where t: "rs_current s = Some t" "turn_live s t" by blast
    obtain x where x: "rs_turns ?s t = Some x" "rt_state x = T_ACTIVE"
      using live_state [of cfg base s t] inv t(2) by auto
    have "cancel_turn t ?s = (r, s')"
      using run t live by (simp add: cancel_active_turn_def with_state_def)
    note c = core_cancel_turn [OF core x this]
    have "quiet s'" using c(3) only t(1) by (auto simp: quiet_def live)
    moreover have "cx_shutdown (rs_ctx s')" using c(4) by (simp add: request_shutdown_def)
    ultimately show ?thesis using c(1,2) le rt_le_trans by (auto simp: rt_inv_def)
  next
    case False
    then have nolive: "\<not> turn_live s u" for u using only by blast
    have "s' = ?s"
      using run False live by (auto simp: cancel_active_turn_def eff_defs split: option.splits if_splits)
    moreover have "quiet ?s" using nolive by (simp add: quiet_def live)
    moreover have "cx_shutdown (rs_ctx ?s)" by (simp add: request_shutdown_def)
    ultimately show ?thesis using core le by (simp add: rt_inv_def)
  qed
  then show "rt_inv cfg base s'" and "rt_le s s'" and "cx_shutdown (rs_ctx s')" by auto
qed

lemma safe_context_cancel:
  assumes inv: "rt_inv cfg base s" and "rs_turns s t = Some x" and "rt_state x = T_FAILED"
  shows "rt.safe cfg base s (modify_eff (\<lambda>s. s\<lparr>rs_ctx := context_cancel_turn t (rs_ctx s)\<rparr>))
     (\<lambda>_ s'. turn_terminal s' t)"
proof -
  let ?s = "s\<lparr>rs_ctx := context_cancel_turn t (rs_ctx s)\<rparr>"
  have live: "turn_live ?s = turn_live s" by (rule ext) (simp add: turn_live_def)
  have "cancel_inv ?s"
    using assms unfolding rt_inv_def rt_core_def cancel_inv_def by (simp add: context_cancel_turn_def)
  then have "rt_inv cfg base ?s"
    using inv live unfolding rt_inv_def rt_core_def
    by (simp add: events_inv_def turns_inv_def history_inv_def tasks_inv_def
        turn_entry_ok_def context_cancel_turn_def quiet_def)
  moreover have "rt_le s ?s" by (auto simp: rt_le_def context_cancel_turn_def)
  moreover have "turn_terminal ?s t" using assms(2,3) by (simp add: turn_terminal_def)
  ultimately show ?thesis by (rule rt.safe_modify)
qed

lemma turn_fail_state: "turn_fail c now x = (Inr (), y) \<Longrightarrow> rt_state y = T_FAILED"
  by (auto simp: turn_op_defs split: if_splits)

lemma live_dom: "turn_live s t \<Longrightarrow> t \<in> dom (rs_turns s)"
  by (auto simp: turn_live_def)

lemma terminal_dom: "turn_terminal s t \<Longrightarrow> t \<in> dom (rs_turns s)"
  by (auto simp: turn_terminal_def)

lemma safe_handle_error:
  assumes inv: "rt_inv cfg base s"
  shows "rt.safe cfg base s (handle_error i) (\<lambda>_ s'. True)"
proof -
  let ?code = "str_or (in_error_code i) ''runtime_error''"
  let ?msg = "str_or (in_error_message i) ''runtime error''"
  have noturn: "rt.safe cfg base s (then_eff (emit (error_event ?code ?msg None False)) (ret ())) (\<lambda>_ s'. True)"
    by (intro rt.safe_then [OF safe_error_event [OF inv]] rt.safe_ret) auto
  have turn: "rt.safe cfg base s
      (then_eff (on_turn t (turn_fail ?code (rs_clock s)))
        (then_eff (modify_eff (\<lambda>s. s\<lparr>rs_ctx := context_cancel_turn t (rs_ctx s)\<rparr>))
          (then_eff (emit (error_event ?code ?msg (Some t) False)) (clear_current t)))) (\<lambda>_ s'. True)"
    if live: "turn_live s t" for t
  proof (rule rt.safe_then [OF safe_on_turn [OF inv live_dom [OF live] ends_turn_fail]])
    fix a s1
    assume s1: "rt_inv cfg base s1" "turn_terminal s1 t \<and>
      (\<exists>x y. turn_fail ?code (rs_clock s) x = (Inr (), y) \<and> rs_turns s1 t = Some y)"
    then obtain y where y: "rs_turns s1 t = Some y" "rt_state y = T_FAILED"
      using turn_fail_state by blast
    show "rt.safe cfg base s1 (then_eff (modify_eff (\<lambda>s. s\<lparr>rs_ctx := context_cancel_turn t (rs_ctx s)\<rparr>))
          (then_eff (emit (error_event ?code ?msg (Some t) False)) (clear_current t))) (\<lambda>_ s'. True)"
    proof (rule rt.safe_then [OF safe_context_cancel [OF s1(1) y]])
      fix b s2
      assume s2: "rt_inv cfg base s2" "turn_terminal s2 t"
      have "rt.safe cfg base s2 (emit (error_event ?code ?msg (Some t) False)) (\<lambda>_ s'. turn_terminal s' t)"
        by (rule rt.safe_weaken [OF safe_error_event])
          (use s2 terminal_dom [OF s2(2)] in \<open>auto intro: le_terminal\<close>)
      then show "rt.safe cfg base s2 (then_eff (emit (error_event ?code ?msg (Some t) False)) (clear_current t)) (\<lambda>_ s'. True)"
        by (rule rt.safe_then) (rule safe_clear_current)
    qed
  qed
  show ?thesis
    unfolding handle_error_def Let_def
    by (rule rt.safe_with) (auto split: option.split intro: noturn turn)
qed

section \<open>Beginning a turn, recording an exchange\<close>

lemma safe_begin_turn:
  assumes inv: "rt_inv cfg base s" and run: "\<not> cx_shutdown (rs_ctx s)"
  shows "rt.safe cfg base s begin_turn (\<lambda>t s'. t \<in> dom (rs_turns s'))"
proof -
  let ?t = "rs_fresh s" and ?n = "cx_turn_sequence (rs_ctx s) + 1"
  let ?x = "(create_turn ?t (cx_session_id (rs_ctx s)) (cx_organization_id (rs_ctx s)) ?n (rs_clock s))
     \<lparr>rt_state := T_ACTIVE\<rparr>"
  let ?s = "s\<lparr>rs_fresh := ?t + 1, rs_ctx := (rs_ctx s)\<lparr>cx_turn_sequence := ?n\<rparr>,
     rs_turns := (rs_turns s)(?t \<mapsto> ?x), rs_current := Some ?t\<rparr>"
  have parts: "events_inv s" "turns_inv s" "cancel_inv s" "history_inv base s" "tasks_inv cfg s"
    using inv by (simp_all add: rt_inv_def rt_core_def)
  have old: "t < ?t" "rt_sequence x < ?n" if "rs_turns s t = Some x" for t x
    using parts(2) that unfolding turns_inv_def turn_entry_ok_def by (blast, fastforce)
  then have fresh: "rs_turns s ?t = None" by (metis less_irrefl not_Some_eq)
  have nolive: "\<not> turn_live s t"
    if "rs_current s = None \<or> (\<exists>c. rs_current s = Some c \<and> turn_terminal s c)" for t
    using that parts(2) terminal_not_live unfolding turns_inv_def by fastforce
  have fin: "rt_inv cfg base ?s" if "\<And>t. \<not> turn_live s t"
  proof -
    have live: "turn_live ?s t \<longleftrightarrow> t = ?t" for t
      using that [of t] by (auto simp: turn_live_def create_turn_def)
    have entry: "turn_entry_ok ?s t x" if "turn_entry_ok s t x" for t x
      using that by (auto simp: turn_entry_ok_def)
    have new: "turn_entry_ok ?s ?t ?x"
      using parts(2) by (auto simp: turn_entry_ok_def create_turn_def turn_ok_def turns_inv_def)
    have "turns_inv ?s"
      unfolding turns_inv_def live
    proof (intro conjI allI impI)
      fix t u x y
      assume "rs_turns ?s t = Some x" "rs_turns ?s u = Some y" "rt_sequence x = rt_sequence y"
      then show "t = u"
        using parts(2) old(2) [of t x] old(2) [of u y] unfolding turns_inv_def
        by (auto simp: create_turn_def split: if_splits)
    qed (use parts(2) entry new in \<open>auto simp: turns_inv_def split: if_splits\<close>)
    moreover have "events_inv ?s" using parts(1) by (auto simp: events_inv_def)
    moreover have "cancel_inv ?s"
      using parts(3) fresh by (auto simp: cancel_inv_def create_turn_def)
    moreover have "history_inv base ?s" using parts(4) fresh unfolding history_inv_def by fastforce
    moreover have "tasks_inv cfg ?s"
      using parts(5) wait_ok_mono [of cfg "dom (rs_turns s)" "cx_shutdown (rs_ctx s)" _
          "dom (rs_turns ?s)" "cx_shutdown (rs_ctx s)"]
      by (auto simp: tasks_inv_def)
    ultimately show ?thesis using run by (simp add: rt_inv_def rt_core_def quiet_def)
  qed
  have le: "rt_le s ?s" using run fresh by (auto simp: rt_le_def turns_le_def)
  have act: "turn_activate (create_turn ?t i g n now) = (Inr (), (create_turn ?t i g n now)\<lparr>rt_state := T_ACTIVE\<rparr>)"
    for i g n now by (simp add: turn_op_defs create_turn_def)
  have ok: "begin_turn s = (Inr ?t, ?s)"
    if "rs_current s = None \<or> (\<exists>c. rs_current s = Some c \<and> turn_terminal s c)"
    using that by (auto simp: begin_turn_def turn_terminal_def act next_turn_sequence_def Let_def)
  show ?thesis
  proof (cases "rs_current s = None \<or> (\<exists>c. rs_current s = Some c \<and> turn_terminal s c)")
    case True
    with ok fin [OF nolive] le show ?thesis by (intro rt.safeI [of begin_turn s "Inr ?t" ?s]) auto
  next
    case False
    then obtain c where c: "rs_current s = Some c" "\<not> turn_terminal s c" by auto
    then have "\<exists>e. begin_turn s = (Inl e, s)"
      by (cases "rs_turns s c") (auto simp: begin_turn_def turn_terminal_def)
    then obtain e where "begin_turn s = (Inl e, s)" ..
    then show ?thesis by (rule rt.safeI) (simp_all add: inv rt_le_refl)
  qed
qed

lemma exchanges_snoc:
  assumes "exchanges ms = Some ts" and "ms_role u = MR_USER" "ms_role a = MR_ASSISTANT"
    and "ms_turn_id u = t" "ms_turn_id a = t"
  shows "exchanges (ms @ [u, a]) = Some (ts @ [t])"
  using assms by (induction ms arbitrary: ts rule: exchanges.induct) (auto split: if_splits)

text \<open>Persisting the exchange of a live turn and completing it, in one piece.\<close>

definition exchange_message :: "rts \<Rightarrow> uuid \<Rightarrow> uuid \<Rightarrow> message_role \<Rightarrow> string \<Rightarrow> message" where
  "exchange_message s uid t r text = \<lparr>ms_id = uid, ms_session_id = cx_session_id (rs_ctx s), ms_turn_id = t,
     ms_organization_id = cx_organization_id (rs_ctx s), ms_role = r, ms_status = MS_COMMITTED,
     ms_parts = [text_content_part text], ms_created_at = rs_clock s, ms_metadata = []\<rparr>"

definition exchange_store :: "runtime_config \<Rightarrow> rts \<Rightarrow> uuid \<Rightarrow> string \<Rightarrow> string \<Rightarrow> mem_store" where
  "exchange_store cfg s t user reply =
     (if rc_conversation_repository cfg
      then snd (append_message (exchange_message s (rs_fresh s + 1) t MR_ASSISTANT reply)
             (snd (append_message (exchange_message s (rs_fresh s) t MR_USER user) (rs_store s))))
      else rs_store s)"

definition completed_turn :: "time \<Rightarrow> runtime_turn \<Rightarrow> runtime_turn" where
  "completed_turn now x = x\<lparr>rt_state := T_COMPLETED, rt_ended_at := Some now\<rparr>"

lemma exchange_active:
  assumes "rs_turns s t = Some x" and "rt_state x = T_ACTIVE" and "t \<notin> cx_cancelled_turn_ids (rs_ctx s)"
  obtains n where "then_eff (persist_turn_exchange cfg t user reply) (complete_turn t) s =
     (Inr (), s\<lparr>rs_fresh := rs_fresh s + n, rs_store := exchange_store cfg s t user reply,
        rs_turns := (rs_turns s)(t \<mapsto> completed_turn (rs_clock s) x),
        rs_current := (if rs_current s = Some t then None else rs_current s)\<rparr>)"
proof
  show "then_eff (persist_turn_exchange cfg t user reply) (complete_turn t) s =
     (Inr (), s\<lparr>rs_fresh := rs_fresh s + (if rc_conversation_repository cfg then 2 else 0),
        rs_store := exchange_store cfg s t user reply,
        rs_turns := (rs_turns s)(t \<mapsto> completed_turn (rs_clock s) x),
        rs_current := (if rs_current s = Some t then None else rs_current s)\<rparr>)"
    using assms
    by (auto simp: persist_turn_exchange_def complete_turn_def exchange_store_def exchange_message_def
        eff_defs Let_def is_turn_cancelled_def turn_terminal_def on_turn_def turn_complete_def
        turn_transition_def clear_current_def completed_turn_def)
qed

lemma exchange_bucket:
  "\<exists>ms. bucket (exchange_store cfg s t user reply) (cx_session_id (rs_ctx s)) =
      bucket (rs_store s) (cx_session_id (rs_ctx s)) @ ms \<and>
    (rc_conversation_repository cfg \<longrightarrow> (\<exists>u a. ms = [u, a] \<and> ms_role u = MR_USER \<and> ms_role a = MR_ASSISTANT \<and>
       ms_turn_id u = t \<and> ms_turn_id a = t)) \<and> (\<not> rc_conversation_repository cfg \<longrightarrow> ms = [])"
  by (simp add: exchange_store_def exchange_message_def)

lemma safe_exchange:
  assumes inv: "rt_inv cfg base s" and live: "turn_live s t"
  shows "rt.safe cfg base s (then_eff (persist_turn_exchange cfg t user reply) (complete_turn t)) (\<lambda>_ s'. True)"
proof -
  have parts: "events_inv s" "turns_inv s" "cancel_inv s" "history_inv base s" "tasks_inv cfg s" "quiet s"
    using inv by (simp_all add: rt_inv_def rt_core_def)
  obtain x where x: "rs_turns s t = Some x" "rt_state x = T_ACTIVE"
    using live_state [of cfg base s t] inv live by auto
  have nc: "t \<notin> cx_cancelled_turn_ids (rs_ctx s)" using parts(3) x by (auto simp: cancel_inv_def)
  let ?y = "completed_turn (rs_clock s) x"
  obtain n where eq: "then_eff (persist_turn_exchange cfg t user reply) (complete_turn t) s =
     (Inr (), s\<lparr>rs_fresh := rs_fresh s + n, rs_store := exchange_store cfg s t user reply,
        rs_turns := (rs_turns s)(t \<mapsto> ?y),
        rs_current := (if rs_current s = Some t then None else rs_current s)\<rparr>)" (is "_ = (_, ?s)")
    using exchange_active [OF x nc] by blast
  have dom: "dom (rs_turns ?s) = dom (rs_turns s)" using x by auto
  have livs: "turn_live ?s u \<longleftrightarrow> turn_live s u \<and> u \<noteq> t" for u
    by (auto simp: turn_live_def completed_turn_def)
  have "turn_entry_ok s t x" using parts(2) x by (auto simp: turns_inv_def)
  then have "turn_entry_ok ?s t ?y" using x by (auto simp: turn_entry_ok_def completed_turn_def turn_ok_def)
  moreover have "turn_entry_ok ?s u z" if "turn_entry_ok s u z" for u z
    using that by (auto simp: turn_entry_ok_def)
  moreover have "rt_sequence ?y = rt_sequence x" by (simp add: completed_turn_def)
  ultimately have "turns_inv ?s"
    using parts(2) x(1) unfolding turns_inv_def livs by (auto split: if_splits)
  moreover have "history_inv base ?s"
  proof -
    obtain ms ts where h: "bucket (rs_store s) (cx_session_id (rs_ctx s)) = base @ ms"
      "exchanges ms = Some ts" "distinct ts" "\<forall>u \<in> set ts. \<exists>z. rs_turns s u = Some z \<and> rt_state z = T_COMPLETED"
      using parts(4) by (auto simp: history_inv_def)
    have tn: "t \<notin> set ts" using h(4) x by force
    have compl: "\<exists>z. rs_turns ?s u = Some z \<and> rt_state z = T_COMPLETED" if "u \<in> set ts \<union> {t}" for u
      using h(4) that x by (auto simp: completed_turn_def)
    obtain new where new: "bucket (exchange_store cfg s t user reply) (cx_session_id (rs_ctx s)) = (base @ ms) @ new"
      "rc_conversation_repository cfg \<Longrightarrow> \<exists>u a. new = [u, a] \<and> ms_role u = MR_USER \<and> ms_role a = MR_ASSISTANT \<and>
       ms_turn_id u = t \<and> ms_turn_id a = t" "\<not> rc_conversation_repository cfg \<Longrightarrow> new = []"
      using exchange_bucket [of cfg s t user reply] h(1) by auto
    show ?thesis
    proof (cases "rc_conversation_repository cfg")
      case True
      then have "exchanges (ms @ new) = Some (ts @ [t])" using new(2) exchanges_snoc [OF h(2)] by blast
      with new(1) h(3) tn compl show ?thesis
        unfolding history_inv_def by (intro exI [of _ "ms @ new"] exI [of _ "ts @ [t]"]) auto
    next
      case False
      with new(1,3) h compl show ?thesis
        unfolding history_inv_def by (intro exI [of _ ms] exI [of _ ts]) auto
    qed
  qed
  moreover have "cancel_inv ?s" using parts(3) nc by (auto simp: cancel_inv_def completed_turn_def)
  moreover have "events_inv ?s" using parts(1) unfolding events_inv_def dom by simp
  moreover have "tasks_inv cfg ?s" using parts(5) unfolding tasks_inv_def dom by simp
  moreover have "quiet ?s" using parts(6) unfolding quiet_def livs by simp
  ultimately have "rt_inv cfg base ?s" by (simp add: rt_inv_def rt_core_def)
  moreover have "rt_le s ?s"
    using x exchange_bucket [of cfg s t user reply]
    by (auto simp: rt_le_def turns_le_def completed_turn_def)
  ultimately show ?thesis using eq by (intro rt.safeI) auto
qed

end
