(* ===== verification/RuntimeSafety.thy ===== *)
theory RuntimeSafety
  imports RuntimeInv
begin

text \<open>
  Every segment of every task keeps the runtime's invariant and moves forward, whatever the
  interleaving and whatever the environment answers; and the properties of the runtime that
  follow.
\<close>

declare domIff [iff del]

section \<open>Segments\<close>

definition seg_post :: "runtime_config \<Rightarrow> wait option \<Rightarrow> rts \<Rightarrow> bool" where
  "seg_post cfg r s \<longleftrightarrow> (\<forall>w. r = Some w \<longrightarrow> wait_ok cfg (dom (rs_turns s)) (cx_shutdown (rs_ctx s)) w)"

abbreviation seg_safe :: "runtime_config \<Rightarrow> message list \<Rightarrow> rts \<Rightarrow> seg \<Rightarrow> bool" where
  "seg_safe cfg base s m \<equiv> rt.safe cfg base s m (seg_post cfg)"

abbreviation op_safe :: "runtime_config \<Rightarrow> message list \<Rightarrow> rts \<Rightarrow> (rts, 'a) eff \<Rightarrow> bool" where
  "op_safe cfg base s m \<equiv> rt.safe cfg base s m (\<lambda>_ _. True)"

lemma seg_post_simps [simp]:
  "seg_post cfg None s" "seg_post cfg (Some w) s \<longleftrightarrow> wait_ok cfg (dom (rs_turns s)) (cx_shutdown (rs_ctx s)) w"
  by (simp_all add: seg_post_def)

lemma seg_none: "rt_inv cfg base s \<Longrightarrow> seg_safe cfg base s (ret None)"
  by (rule rt.safe_ret) simp_all

lemma seg_some: "rt_inv cfg base s \<Longrightarrow> wait_ok cfg (dom (rs_turns s)) (cx_shutdown (rs_ctx s)) w \<Longrightarrow> seg_safe cfg base s (ret (Some w))"
  by (rule rt.safe_ret) simp_all

lemma seg_finished: "rt.safe cfg base s m Q \<Longrightarrow> seg_safe cfg base s (finished m)"
  unfolding finished_def by (erule rt.safe_then) (rule seg_none)

lemma op_any: "rt.safe cfg base s m Q \<Longrightarrow> op_safe cfg base s m"
  by (rule rt.safe_weaken) simp_all

text \<open>Sequencing after an operation of which only the safety matters.\<close>

lemma seg_then:
  assumes "rt.safe cfg base s m P" and "\<And>s'. rt_inv cfg base s' \<Longrightarrow> rt_le s s' \<Longrightarrow> rt.safe cfg base s' n Q"
  shows "rt.safe cfg base s (then_eff m n) Q"
  by (rule rt.safe_then [OF assms(1)]) (rule assms(2))

lemma seg_lift:
  assumes "rt_inv cfg base s" and "\<And>a. r = Inr a \<Longrightarrow> rt.safe cfg base s (f a) Q"
  shows "rt.safe cfg base s (bind_eff (lift_eff r) f) Q"
  using assms by (cases r) (auto simp: rt.safe_def bind_eff_def lift_eff_def rt_le_refl)

lemma seg_exit:
  assumes m: "seg_safe cfg base s m"
    and h: "\<And>r s'. rt_inv cfg base s' \<Longrightarrow> rt_le s s' \<Longrightarrow> op_safe cfg base s' (h r)"
  shows "seg_safe cfg base s (on_exit m h)"
proof (cases "m s")
  case (Pair r s')
  note m = rt.safeD [OF m Pair]
  have leave: "seg_safe cfg base s' (then_eff (h x) (ret None))" for x
    by (rule seg_then [OF h [OF m(1,2)]]) (rule seg_none)
  show ?thesis
  proof (cases "\<exists>w. r = Inr (Some w)")
    case True
    then show ?thesis using m Pair by (auto simp: rt.safe_def on_exit_def)
  next
    case False
    then have "(\<exists>e. r = Inl e) \<or> r = Inr None" by (cases r) auto
    then obtain x where x: "on_exit m h s = then_eff (h x) (ret None) s'"
      using Pair by (auto simp: on_exit_def)
    let ?leave = "then_eff (h x) (ret None) :: seg"
    obtain r2 s2 where run: "?leave s' = (r2, s2)" by force
    note l = rt.safeD [OF leave [of x] run]
    show ?thesis
      using l m(2) x run by (intro rt.safeI [of _ s r2 s2]) (auto intro: rt_le_trans)
  qed
qed

lemma not_stopped: "\<not> stopped s tok t \<Longrightarrow> t \<notin> cx_cancelled_turn_ids (rs_ctx s)"
  by (simp add: stopped_def is_turn_cancelled_def)

lemma not_pipe_stopped: "\<not> pipe_stopped s p \<Longrightarrow> pp_turn p \<notin> cx_cancelled_turn_ids (rs_ctx s)"
  unfolding pipe_stopped_def by (rule not_stopped)

lemma live_if: "t \<in> dom (rs_turns s) \<Longrightarrow> \<not> turn_terminal s t \<Longrightarrow> turn_live s t"
  by (auto simp: turn_live_def turn_terminal_def dom_def)

section \<open>Leaving\<close>

lemma safe_bookkeeping:
  assumes "rt_inv cfg base s" and "same_core s (f s)"
  shows "op_safe cfg base s (modify_eff f)"
  using assms by (rule safe_same_core) simp

lemma safe_leave_pipeline:
  assumes "rt_inv cfg base s" shows "op_safe cfg base s (leave_pipeline t r)"
  unfolding leave_pipeline_def
  by (intro seg_then [OF safe_bookkeeping [OF assms]] rt.safe_lift) (simp_all add: same_core_def)

lemma safe_fail_turn_provider:
  assumes "rt_inv cfg base s" and "t \<in> dom (rs_turns s)"
  shows "op_safe cfg base s (fail_turn_provider t e)"
  unfolding fail_turn_provider_def by (rule op_any [OF safe_fail_turn [OF assms]])

lemma safe_stt_except:
  assumes "rt_inv cfg base s" and "t \<in> dom (rs_turns s)"
  shows "op_safe cfg base s (stt_except t tok r)"
  unfolding stt_except_def using assms
  by (auto split: sum.split exn.split
      intro!: rt.safe_lift rt.safe_with rt.safe_if rt.safe_ret safe_fail_turn_provider)

lemma safe_leave_finalize:
  assumes "rt_inv cfg base s" and "t \<in> dom (rs_turns s)"
  shows "op_safe cfg base s (leave_finalize t org r)"
proof -
  have disc: "op_safe cfg base s (modify_eff (\<lambda>s. s\<lparr>rs_finalizing := rs_finalizing s - {t}\<rparr>))"
    by (rule safe_bookkeeping [OF assms(1)]) (simp add: same_core_def)
  show ?thesis
    unfolding leave_finalize_def
    by (cases org) (auto intro!: rt.safe_lift assms seg_then [OF disc] safe_stt_except le_dom [OF _ assms(2)])
qed

lemma seg_in_pipeline: "seg_safe cfg base s m \<Longrightarrow> seg_safe cfg base s (in_pipeline p m)"
  unfolding in_pipeline_def by (erule seg_exit) (rule safe_leave_pipeline)

lemma seg_in_origin:
  "t \<in> dom (rs_turns s) \<Longrightarrow> seg_safe cfg base s m \<Longrightarrow> seg_safe cfg base s (in_origin t org m)"
  unfolding in_origin_def by (erule seg_exit, rule safe_leave_finalize, assumption, erule (1) le_dom)

lemma seg_in_both:
  "pp_turn p \<in> dom (rs_turns s) \<Longrightarrow> seg_safe cfg base s m \<Longrightarrow> seg_safe cfg base s (in_both p m)"
  unfolding in_both_def by (intro seg_in_origin seg_in_pipeline)

section \<open>Events of a turn\<close>

text \<open>Output events are emitted only after the cancellation test of the same segment.\<close>

lemma safe_turn_event:
  assumes "rt_inv cfg base s" and "t \<in> dom (rs_turns s)" and "t \<notin> cx_cancelled_turn_ids (rs_ctx s)"
  shows "op_safe cfg base s (emit (llm_token_event t d))"
    and "op_safe cfg base s (emit (llm_response_event t x f u))"
    and "op_safe cfg base s (emit (tts_chunk_event t a rng))"
    and "op_safe cfg base s (emit (transcript_frame_event t y fin st en c))"
    and "op_safe cfg base s (emit (user_speech_started_event t))"
    and "op_safe cfg base s (emit (user_speech_ended_event t n))"
  unfolding event_builder_defs
  by (rule op_any, rule safe_emit, use assms in \<open>auto simp: builder_shape_def\<close>)+

lemma safe_speech_ended_event:
  assumes "rt_inv cfg base s" and "t \<in> dom (rs_turns s)"
  shows "op_safe cfg base s (emit (user_speech_ended_event t n))"
  unfolding event_builder_defs
  by (rule op_any, rule safe_emit, use assms in \<open>auto simp: builder_shape_def stale_if_turn_cancelled_def\<close>)

lemma safe_speech_started_event:
  assumes "rt_inv cfg base s" and "t \<in> dom (rs_turns s)"
  shows "op_safe cfg base s (emit (user_speech_started_event t))"
  unfolding event_builder_defs
  by (rule op_any, rule safe_emit, use assms in \<open>auto simp: builder_shape_def stale_if_turn_cancelled_def\<close>)

lemma safe_session_event:
  assumes "rt_inv cfg base s"
  shows "op_safe cfg base s (emit session_started_event)"
    and "op_safe cfg base s (emit (session_ended_event reason))"
  unfolding event_builder_defs
  by (rule op_any, rule safe_emit,
      use assms in \<open>auto simp: builder_shape_def turn_scoped_event_types_def\<close>)+

section \<open>The pipeline\<close>

lemma seg_finish_exchange:
  assumes "rt_inv cfg base s" and "pp_turn p \<in> dom (rs_turns s)"
  shows "seg_safe cfg base s (finish_exchange cfg p reply)"
  unfolding finish_exchange_def
  by (intro rt.safe_with rt.safe_if seg_none seg_finished [OF safe_exchange] live_if assms)

lemma seg_after_llm:
  assumes "rt_inv cfg base s" and "pp_turn p \<in> dom (rs_turns s)"
  shows "seg_safe cfg base s (after_llm cfg p reply)"
  unfolding after_llm_def
  by (rule rt.safe_with)
    (auto split: option.split intro!: seg_none seg_finish_exchange seg_lift seg_some assms)

lemma seg_tts_chunk:
  assumes "rt_inv cfg base s" and "pp_turn p \<in> dom (rs_turns s)"
  shows "seg_safe cfg base s (tts_chunk cfg p reply rq c)"
  unfolding tts_chunk_def
  by (intro rt.safe_with rt.safe_if seg_finish_exchange seg_lift seg_then [OF safe_turn_event(3)] seg_some
      assms not_pipe_stopped) (simp_all add: le_dom [OF _ assms(2)])

lemma seg_tts_raise:
  assumes "rt_inv cfg base s" and "pp_turn p \<in> dom (rs_turns s)"
  shows "seg_safe cfg base s (tts_raise cfg p reply e)"
  unfolding tts_raise_def
  by (cases e)
    (auto intro!: rt.safe_throw rt.safe_with rt.safe_if seg_finish_exchange assms
        seg_then [OF safe_fail_turn_provider] le_dom [OF _ assms(2)])

lemma assemble_messages:
  assumes "assemble est history user lc su kn me tools extra = Inr rq"
  shows "request_shape user extra (rq_messages rq)"
proof -
  obtain ls sel s k m where ls: "committed_messages_to_llm history = Inr ls"
    and sel: "(case lg_max_input_tokens lc of None \<Rightarrow> Inr (ls, su, kn, me)
      | Some n \<Rightarrow> soft_fail (select_history est ls user (lg_system_instructions lc) n) su kn me) = Inr (sel, s, k, m)"
    and ms: "rq_messages rq = sel @ llm_text_message LR_USER user # extra"
    using assms
    by (auto simp: assemble_def check_llm_request_def check_llm_message_def
        split: sum.splits if_splits prod.splits)
  have "set sel \<subseteq> set ls"
  proof (cases "lg_max_input_tokens lc")
    case (Some n)
    then obtain s' k' m' where "select_history est ls user (lg_system_instructions lc) n s' k' m' = Inr sel"
      using sel by (auto dest: soft_fail_Inr(1))
    then show ?thesis by (metis select_history_Inr(2) set_mono_suffix)
  qed (use sel in simp)
  then have "list_all plain_message sel"
    using committed_messages_to_llm_Inr [OF ls] message_to_llm_Some(3,4)
    by (fastforce simp: list_all_iff plain_message_def)
  with ms show ?thesis by (auto simp: request_shape_def)
qed

lemma seg_llm_iterate:
  assumes "rt_inv cfg base s" and "pp_turn (ll_pipe l) \<in> dom (rs_turns s)"
    and "loop_ok l" and "rc_llm cfg = Some lc"
  shows "seg_safe cfg base s (llm_iterate cfg lc l)"
proof -
  have await: "wait_ok cfg (dom (rs_turns s)) (cx_shutdown (rs_ctx s)) (W_Llm l rq [] ''stop'' [])"
    if "assemble approximate_token_count (ll_history l) (pp_text (ll_pipe l)) lc (ll_summary l)
          (ll_knowledge l) (ll_memory l) (ll_tools l) (ll_extra l) = Inr rq"
      "ll_iteration l < lg_max_tool_iterations lc" for rq
    using assms that assemble_messages [OF that(1)] by (simp add: loop_bounded_def)
  show ?thesis
    unfolding llm_iterate_def Let_def
    by (rule rt.safe_with)
      (auto split: sum.split exn.split
        intro!: rt.safe_if seg_none seg_finished [OF safe_fail_turn] rt.safe_throw seg_some assms await)
qed
subsection \<open>Tool rounds\<close>

lemma rounds_0: "rounds 0 []"
  by (simp add: rounds_def)

lemma rounds_Suc: "rounds n xs \<Longrightarrow> is_round r \<Longrightarrow> rounds (Suc n) (xs @ r)"
  unfolding rounds_def by (elim exE conjE, rule_tac x = "rs @ [r]" in exI) auto

lemma tool_messages_shape:
  "tool_messages rs = Inr ms \<Longrightarrow>
     map (\<lambda>m. (lm_role m, lm_tool_call_id m, lm_tool_calls m)) ms =
       map (\<lambda>r. (LR_TOOL, Some (res_tool_call_id r), [])) rs"
proof (induction rs arbitrary: ms)
  case (Cons r rs)
  then show ?case by (cases "tool_messages rs") (auto simp: check_llm_message_def split: if_splits)
qed simp

lemma round_messages_round:
  assumes "round_messages parts calls results = Inr ms" and "calls \<noteq> []"
    and "map res_tool_call_id results = map tc_id calls"
  shows "is_round ms"
proof -
  obtain ts where ts: "tool_messages results = Inr ts"
    and ms: "ms = \<lparr>lm_role = LR_ASSISTANT, lm_content = concat parts, lm_tool_call_id = None, lm_tool_calls = calls\<rparr> # ts"
    using assms(1) by (cases "tool_messages results") (auto simp: round_messages_def check_llm_message_def split: if_splits)
  have "map (\<lambda>r. (LR_TOOL, Some (res_tool_call_id r), [])) results =
      map (\<lambda>c. (LR_TOOL, Some (tc_id c), [])) calls"
    using arg_cong [OF assms(3), of "map (\<lambda>i. (LR_TOOL, Some i, []))"] by (simp add: comp_def)
  with tool_messages_shape [OF ts] assms(2) ms show ?thesis by (simp add: is_round_def)
qed

lemma execute_end_id:
  "execute_end env call out cn = Inr r \<Longrightarrow> res_tool_call_id r = tc_id call"
  by (auto simp: execute_end_def success_result_def failure_result_def check_tool_result_def
      split: outcome.splits pyval.splits option.splits if_splits)

lemma seg_finish_round:
  assumes "rt_inv cfg base s" and "pp_turn (ll_pipe l) \<in> dom (rs_turns s)"
    and "loop_ok l" and "rc_llm cfg = Some lc" and "calls \<noteq> []"
    and "map res_tool_call_id results = map tc_id calls"
  shows "seg_safe cfg base s (finish_round cfg lc l parts calls results)"
proof -
  have "loop_ok (l\<lparr>ll_extra := ll_extra l @ ms, ll_iteration := ll_iteration l + 1\<rparr>)"
    if "round_messages parts calls results = Inr ms" for ms
    using assms(3) rounds_Suc [OF _ round_messages_round [OF that assms(5,6)]]
    by (simp add: loop_ok_def nat_add_distrib)
  then show ?thesis
    unfolding finish_round_def
    by (intro rt.safe_with rt.safe_if seg_none seg_lift seg_llm_iterate) (use assms in simp_all)
qed

lemma seg_run_tools:
  assumes "rt_inv cfg base s" and "pp_turn (ll_pipe l) \<in> dom (rs_turns s)"
    and "loop_bounded cfg l" and "rc_llm cfg = Some lc" and "calls \<noteq> []"
    and "map tc_id calls = map res_tool_call_id results @ map tc_id rest"
  shows "seg_safe cfg base s (run_tools cfg lc l parts calls rest results)"
  using assms(6)
proof (induction rest arbitrary: results)
  case Nil
  with assms(1-5) show ?case by (simp add: loop_bounded_def seg_finish_round)
next
  case (Cons c rest)
  have go: "seg_safe cfg base s (run_tools cfg lc l parts calls rest (results @ [r]))"
    if "res_tool_call_id r = tc_id c" for r
    using Cons that by simp
  have wait: "wait_ok cfg (dom (rs_turns s)) (cx_shutdown (rs_ctx s)) (W_Tool l \<lparr>tw_parts = parts, tw_calls = calls, tw_call = c,
      tw_rest = rest, tw_results = results, tw_tool = t, tw_kwargs = kw\<rparr>)" for t kw
    using assms Cons.prems by simp
  show ?case
    unfolding run_tools.simps
    by (rule rt.safe_with)
      (auto split: option.split exec_step.split
        intro!: rt.safe_if seg_none seg_lift seg_some assms(1) go wait
        dest: failure_result_Inr(5) execute_begin_Done)
qed

lemma seg_tool_outcome:
  assumes "rt_inv cfg base s" and "wait_ok cfg (dom (rs_turns s)) (cx_shutdown (rs_ctx s)) (W_Tool l w)" and "rc_llm cfg = Some lc"
  shows "seg_safe cfg base s (tool_outcome cfg lc l w out)"
proof -
  have "tw_calls w \<noteq> []" using assms(2) by auto
  then show ?thesis
    unfolding tool_outcome_def
    by (intro rt.safe_with seg_lift seg_run_tools) (use assms in \<open>auto dest: execute_end_id\<close>)
qed

lemma loop_bounded_llm: "loop_bounded cfg l \<Longrightarrow> loop_ok l"
  by (simp add: loop_bounded_def)

lemma seg_llm_chunk:
  assumes "rt_inv cfg base s" and w: "wait_ok cfg (dom (rs_turns s)) (cx_shutdown (rs_ctx s)) (W_Llm l rq parts fin calls)"
  shows "seg_safe cfg base s (llm_chunk cfg l rq parts fin calls c)"
proof -
  have D: "pp_turn (ll_pipe l) \<in> dom (rs_turns s)" using w by simp
  have wait: "wait_ok cfg (dom (rs_turns s')) (cx_shutdown (rs_ctx s')) (W_Llm l rq parts' fin' calls')" if "rt_le s s'" for s' parts' fin' calls'
    using w le_dom [OF that D] by simp
  show ?thesis
    unfolding llm_chunk_def
    by (intro rt.safe_with rt.safe_if seg_none seg_then [where P = "\<lambda>_ _. True"] seg_some wait
        seg_then [OF safe_turn_event(1)] rt.safe_ret assms(1) D not_pipe_stopped) simp_all
qed

lemma seg_llm_end:
  assumes "rt_inv cfg base s" and w: "wait_ok cfg (dom (rs_turns s)) (cx_shutdown (rs_ctx s)) (W_Llm l rq parts fin calls)"
    and "rc_llm cfg = Some lc"
  shows "seg_safe cfg base s (llm_end cfg lc l parts fin calls)"
proof -
  have D: "pp_turn (ll_pipe l) \<in> dom (rs_turns s)" and L: "loop_bounded cfg l" using w by simp_all
  show ?thesis
    unfolding llm_end_def
    by (intro rt.safe_with rt.safe_if seg_none seg_then [OF safe_turn_event(2)] seg_after_llm seg_run_tools
        assms(1,3) D L not_pipe_stopped) (simp_all add: le_dom [OF _ D])
qed

lemma seg_llm_raise:
  assumes "rt_inv cfg base s" and "pp_turn p \<in> dom (rs_turns s)"
  shows "seg_safe cfg base s (llm_raise p e)"
  unfolding llm_raise_def
  by (cases e) (auto intro!: rt.safe_throw rt.safe_with rt.safe_if seg_none
      seg_finished [OF safe_fail_turn_provider] assms)

subsection \<open>Before the model\<close>

lemma seg_start_loop:
  assumes "rt_inv cfg base s" and "pp_turn p \<in> dom (rs_turns s)" and "rc_llm cfg = Some lc"
  shows "seg_safe cfg base s (start_loop cfg lc p prep kn mem)"
  unfolding start_loop_def
  by (intro seg_lift seg_llm_iterate) (simp_all add: assms loop_ok_def rounds_0)

lemma seg_begin_memory:
  assumes "rt_inv cfg base s" and "pp_turn p \<in> dom (rs_turns s)" and "rc_llm cfg = Some lc"
  shows "seg_safe cfg base s (begin_memory cfg lc p prep kn)"
  unfolding begin_memory_def
  by (intro rt.safe_with rt.safe_if seg_none seg_some seg_start_loop) (simp_all add: assms)

lemma seg_after_memory:
  assumes "rt_inv cfg base s" and "pp_turn p \<in> dom (rs_turns s)" and "rc_llm cfg = Some lc"
  shows "seg_safe cfg base s (after_memory cfg lc p prep kn a)"
  unfolding after_memory_def
  by (intro rt.safe_with rt.safe_if seg_none seg_start_loop) (simp_all add: assms)

lemma seg_begin_retrieval:
  assumes "rt_inv cfg base s" and "pp_turn p \<in> dom (rs_turns s)" and "rc_llm cfg = Some lc"
  shows "seg_safe cfg base s (begin_retrieval cfg lc p prep)"
  unfolding begin_retrieval_def
  by (intro rt.safe_with rt.safe_if seg_none seg_some seg_begin_memory) (simp_all add: assms)

lemma seg_after_retrieval:
  assumes "rt_inv cfg base s" and "pp_turn p \<in> dom (rs_turns s)" and "rc_llm cfg = Some lc"
  shows "seg_safe cfg base s (after_retrieval cfg lc p prep a)"
  unfolding after_retrieval_def
  by (intro rt.safe_with rt.safe_if seg_none seg_begin_memory) (simp_all add: assms)

lemma seg_after_summary:
  assumes "rt_inv cfg base s" and "pp_turn p \<in> dom (rs_turns s)" and "rc_llm cfg = Some lc"
  shows "seg_safe cfg base s (after_summary cfg lc p prep)"
  unfolding after_summary_def
  by (intro rt.safe_with rt.safe_if seg_none seg_begin_retrieval) (simp_all add: assms)

lemma seg_begin_generate:
  assumes "rt_inv cfg base s" and "pp_turn p \<in> dom (rs_turns s)"
  shows "seg_safe cfg base s (begin_generate lc p c short)"
  unfolding begin_generate_def by (intro seg_lift seg_some) (simp_all add: assms)

lemma prepare_finish_bucket:
  "bucket (snd (prepare_finish uid sid og ver now c text cn st)) i = bucket st i"
  by (auto simp: prepare_finish_def Let_def split: sum.splits)

lemma seg_accept_summary:
  assumes inv: "rt_inv cfg base s" and "pp_turn p \<in> dom (rs_turns s)" and "rc_llm cfg = Some lc"
  shows "seg_safe cfg base s (accept_summary cfg lc p c text)"
proof -
  obtain r st where f: "prepare_finish (rs_fresh s) (cx_session_id (rs_ctx s)) (cx_organization_id (rs_ctx s))
      (cx_agent_version_id (rs_ctx s)) (rs_clock s) c text (pipe_stopped s p) (rs_store s) = (r, st)"
    by force
  let ?s = "s\<lparr>rs_store := st, rs_fresh := rs_fresh s + 1\<rparr>"
  have "bucket st i = bucket (rs_store s) i" for i
    using arg_cong [OF f, of "\<lambda>z. bucket (snd z) i"] by (simp add: prepare_finish_bucket)
  then have core: "same_core s ?s" by (simp add: same_core_def)
  have inv': "rt_inv cfg base ?s" and le: "rt_le s ?s"
    using same_core_inv [OF core inv] same_core_le [OF core] by auto
  show ?thesis
  proof (cases r)
    case (Inl e)
    with f inv' le show ?thesis
      by (intro rt.safeI [of _ s "Inl e" ?s]) (simp_all add: accept_summary_def)
  next
    case (Inr prep)
    obtain r2 s2 where run: "after_summary cfg lc p prep ?s = (r2, s2)" by force
    have "seg_safe cfg base ?s (after_summary cfg lc p prep)"
      by (rule seg_after_summary [OF inv']) (use assms in simp_all)
    note a = rt.safeD [OF this run]
    show ?thesis
      using a rt_le_trans [OF le] run f Inr
      by (intro rt.safeI [of _ s r2 s2]) (auto simp: accept_summary_def)
  qed
qed

lemma seg_generated:
  assumes "rt_inv cfg base s" and "pp_turn p \<in> dom (rs_turns s)" and "rc_llm cfg = Some lc"
  shows "seg_safe cfg base s (generated cfg lc p c short r)"
  unfolding generated_def
  by (rule rt.safe_with)
    (auto split: after_first.split sum.split
      intro!: seg_lift seg_after_summary seg_accept_summary seg_begin_generate assms)

lemma seg_summary_chunk:
  assumes "rt_inv cfg base s" and "pp_turn p \<in> dom (rs_turns s)" and "rc_llm cfg = Some lc"
  shows "seg_safe cfg base s (summary_chunk cfg lc p c short acc d)"
  unfolding summary_chunk_def
  by (intro rt.safe_with rt.safe_if seg_generated seg_some) (simp_all add: assms)

lemma seg_begin_llm:
  assumes "rt_inv cfg base s" and "pp_turn p \<in> dom (rs_turns s)"
  shows "seg_safe cfg base s (begin_llm cfg p)"
  unfolding begin_llm_def Let_def
  by (rule rt.safe_with)
    (auto split: option.split prep_step.split
      intro!: seg_none seg_lift seg_after_summary seg_begin_generate seg_begin_retrieval assms)

lemma safe_new_token:
  assumes "rt_inv cfg base s" shows "op_safe cfg base s new_token"
proof -
  let ?s = "s\<lparr>rs_tokens := (rs_tokens s)(rs_next_token s := False), rs_next_token := rs_next_token s + 1\<rparr>"
  have "same_core s ?s" by (simp add: same_core_def)
  then show ?thesis
    using same_core_inv [OF _ assms] same_core_le
    by (intro rt.safeI [of _ s "Inr (rs_next_token s)" ?s]) (simp_all add: new_token_def)
qed

lemma seg_run_assistant_pipeline:
  assumes "rt_inv cfg base s" and "t \<in> dom (rs_turns s)"
  shows "seg_safe cfg base s (run_assistant_pipeline cfg t text org)"
  unfolding run_assistant_pipeline_def Let_def
proof (rule rt.safe_bind [OF safe_new_token [OF assms(1)]])
  fix tok s1
  assume s1: "rt_inv cfg base s1" "rt_le s s1"
  have book: "op_safe cfg base s1 (modify_eff (\<lambda>s. s\<lparr>rs_llm_tokens := (rs_llm_tokens s)(t \<mapsto> tok),
      rs_tts_tokens := (rs_tts_tokens s)(t \<mapsto> tok)\<rparr>))"
    by (rule safe_bookkeeping [OF s1(1)]) (simp add: same_core_def)
  show "seg_safe cfg base s1 (then_eff (modify_eff (\<lambda>s. s\<lparr>rs_llm_tokens := (rs_llm_tokens s)(t \<mapsto> tok),
      rs_tts_tokens := (rs_tts_tokens s)(t \<mapsto> tok)\<rparr>))
      (in_pipeline \<lparr>pp_turn = t, pp_text = text, pp_token = tok, pp_origin = org\<rparr>
        (begin_llm cfg \<lparr>pp_turn = t, pp_text = text, pp_token = tok, pp_origin = org\<rparr>)))"
    by (rule seg_then [OF book], rule seg_in_pipeline, rule seg_begin_llm)
      (auto intro: le_dom [OF _ assms(2)] rt_le_trans [OF s1(2)])
qed

section \<open>Speech turns, dispatch, start and stop\<close>

lemma safe_cleanup_stt_turn:
  assumes "rt_inv cfg base s" shows "op_safe cfg base s (cleanup_stt_turn t)"
  unfolding cleanup_stt_turn_def by (rule safe_bookkeeping [OF assms]) (simp add: same_core_def)

lemma seg_after_join:
  assumes "rt_inv cfg base s" and "t \<in> dom (rs_turns s)"
  shows "seg_safe cfg base s (after_join cfg t org)"
  unfolding after_join_def Let_def
  by (intro seg_then [OF safe_cleanup_stt_turn] rt.safe_with rt.safe_if seg_none
      seg_run_assistant_pipeline seg_finished [OF safe_complete_turn])
    (simp_all add: assms le_dom [OF _ assms(2)])

lemma safe_queue_put: "rt_inv cfg base s \<Longrightarrow> op_safe cfg base s (modify_eff (queue_put q f))"
  by (rule safe_bookkeeping) (simp_all add: same_core_def queue_put_def)

lemma seg_finalize_body:
  assumes "rt_inv cfg base s" and D: "t \<in> dom (rs_turns s)"
  shows "seg_safe cfg base s (finalize_body cfg t org)"
proof -
  have mark: "op_safe cfg base s (modify_eff (\<lambda>s. s\<lparr>rs_speech_ended := insert t (rs_speech_ended s)\<rparr>))"
    by (rule safe_bookkeeping [OF assms(1)]) (simp add: same_core_def)
  have announce: "op_safe cfg base s (with_state (\<lambda>s.
        if t \<in> rs_speech_ended s then ret ()
        else then_eff (modify_eff (\<lambda>s. s\<lparr>rs_speech_ended := insert t (rs_speech_ended s)\<rparr>))
               (then_eff (emit (user_speech_ended_event t 0)) (ret ()))))"
    by (intro rt.safe_with rt.safe_if rt.safe_ret seg_then [OF mark] seg_then [OF safe_speech_ended_event]
        assms(1)) (simp_all add: le_dom [OF _ D])
  show ?thesis
    unfolding finalize_body_def
  proof (rule seg_then [OF announce], rule rt.safe_with)
    fix s1
    assume s1: "rt_inv cfg base s1" "rt_le s s1"
    have D1: "t \<in> dom (rs_turns s1)" by (rule le_dom [OF s1(2) D])
    have put: "op_safe cfg base s1 (case rs_queues s1 t of None \<Rightarrow> ret () | Some q \<Rightarrow> modify_eff (queue_put q None))"
      using s1(1) by (auto split: option.split intro: rt.safe_ret safe_queue_put)
    show "seg_safe cfg base s1 (if rc_stt cfg = None then finished (complete_turn t)
          else then_eff (case rs_queues s1 t of None \<Rightarrow> ret () | Some q \<Rightarrow> modify_eff (queue_put q None))
              (case rs_stt_tasks s1 t of
                 None \<Rightarrow> after_join cfg t org
               | Some k \<Rightarrow> if (\<exists>tok. org = FromStt tok k) then after_join cfg t org
                            else ret (Some (W_Join t k org))))"
      by (intro rt.safe_if seg_finished [OF safe_complete_turn] seg_then [OF put])
        (auto split: option.split intro!: seg_after_join seg_some s1(1) D1 intro: le_dom [OF _ D1])
  qed
qed

lemma seg_finalize_speech_turn:
  assumes "rt_inv cfg base s" and D: "t \<in> dom (rs_turns s)"
  shows "seg_safe cfg base s (finalize_speech_turn cfg t org)"
proof -
  have mark: "op_safe cfg base s (modify_eff (\<lambda>s. s\<lparr>rs_finalizing := insert t (rs_finalizing s)\<rparr>))"
    by (rule safe_bookkeeping [OF assms(1)]) (simp add: same_core_def)
  show ?thesis
    unfolding finalize_speech_turn_def
    by (intro rt.safe_with rt.safe_if seg_none seg_then [OF mark] seg_in_origin seg_finalize_body assms(1))
      (simp_all add: le_dom [OF _ D])
qed

lemma safe_spawn_stt:
  assumes "rt_inv cfg base s" and D: "t \<in> dom (rs_turns s)"
  shows "op_safe cfg base s (spawn_stt t)"
  unfolding spawn_stt_def
proof (rule rt.safe_bind [OF safe_new_token [OF assms(1)]])
  fix tok s1
  assume s1: "rt_inv cfg base s1" "rt_le s s1"
  have D1: "t \<in> dom (rs_turns s1)" by (rule le_dom [OF s1(2) D])
  let ?f = "\<lambda>s. let q = rs_next_queue s; k = rs_next_task s in
     s\<lparr>rs_queue_items := (rs_queue_items s)(q := []), rs_next_queue := q + 1,
       rs_queues := (rs_queues s)(t \<mapsto> q), rs_stt_tokens := (rs_stt_tokens s)(t \<mapsto> tok),
       rs_tasks := (rs_tasks s)(k \<mapsto> W_SttStart t q tok), rs_next_task := k + 1,
       rs_active_tasks := rs_active_tasks s @ [k], rs_stt_tasks := (rs_stt_tasks s)(t \<mapsto> k)\<rparr>"
  have "rt_inv cfg base (?f s1)"
    using s1(1) D1
    by (simp add: rt_inv_def rt_core_def Let_def events_inv_def turns_inv_def cancel_inv_def
        history_inv_def tasks_inv_def quiet_def turn_live_def turn_entry_ok_def)
  moreover have "rt_le s1 (?f s1)" by (simp add: rt_le_def Let_def)
  ultimately show "op_safe cfg base s1 (modify_eff ?f)" by (rule rt.safe_modify) simp
qed

lemma safe_handle_user_speech_started:
  assumes "rt_inv cfg base s" and "\<not> cx_shutdown (rs_ctx s)"
  shows "op_safe cfg base s (handle_user_speech_started cfg)"
  unfolding handle_user_speech_started_def
proof (rule rt.safe_bind [OF safe_begin_turn [OF assms]])
  fix t s1
  assume s1: "rt_inv cfg base s1" "t \<in> dom (rs_turns s1)"
  show "op_safe cfg base s1 (then_eff (emit (user_speech_started_event t))
         (if rc_stt cfg = None then ret () else spawn_stt t))"
    by (intro seg_then [OF safe_speech_started_event] rt.safe_if rt.safe_ret safe_spawn_stt s1)
      (simp_all add: le_dom [OF _ s1(2)])
qed

lemma seg_handle_user_speech_ended:
  assumes "rt_inv cfg base s" shows "seg_safe cfg base s (handle_user_speech_ended cfg)"
  unfolding handle_user_speech_ended_def
  by (rule rt.safe_with)
    (auto split: option.split intro!: rt.safe_throw rt.safe_if seg_finalize_speech_turn live_dom assms)

lemma seg_stt_start:
  assumes "rt_inv cfg base s" and "t \<in> dom (rs_turns s)"
  shows "seg_safe cfg base s (stt_start cfg t q tok)"
  unfolding stt_start_def by (auto split: option.split intro!: seg_none seg_lift seg_some assms)

lemma seg_stt_chunk:
  assumes "rt_inv cfg base s" and D: "t \<in> dom (rs_turns s)"
  shows "seg_safe cfg base s (stt_chunk cfg k t q tok rq c)"
  unfolding stt_chunk_def
  by (intro rt.safe_with rt.safe_if seg_none seg_then [OF safe_turn_event(4)] seg_finalize_speech_turn
      seg_some assms not_stopped) (simp_all add: le_dom [OF _ D])

lemma seg_stt_end:
  assumes "rt_inv cfg base s" and "t \<in> dom (rs_turns s)"
  shows "seg_safe cfg base s (stt_end cfg k t tok)"
  unfolding stt_end_def
  by (intro rt.safe_with rt.safe_if seg_none seg_finalize_speech_turn assms)

lemma seg_handle_text_input:
  assumes "rt_inv cfg base s" and "\<not> cx_shutdown (rs_ctx s)"
  shows "seg_safe cfg base s (handle_text_input cfg i)"
  unfolding handle_text_input_def Let_def
  by (intro rt.safe_if rt.safe_throw rt.safe_bind [OF safe_begin_turn] seg_finished [OF safe_complete_turn]
      seg_run_assistant_pipeline assms)

lemma update_session_bucket [simp]: "bucket (update_session y st) i = bucket st i"
  by simp

lemma safe_sync_session_status:
  assumes "rt_inv cfg base s"
  shows "op_safe cfg base s (sync_session_status cfg status ended reason)"
  unfolding sync_session_status_def Let_def
  by (rule rt.safe_with)
    (auto split: option.split intro!: rt.safe_if rt.safe_ret safe_bookkeeping assms simp: same_core_def)

text \<open>The session status in the context matters to no part of the invariant.\<close>

lemma status_inv:
  assumes "rt_inv cfg base s"
  shows "rt_inv cfg base (s\<lparr>rs_running := r, rs_ctx := (rs_ctx s)\<lparr>cx_session_status := st\<rparr>\<rparr>)"
    and "rt_le s (s\<lparr>rs_running := r, rs_ctx := (rs_ctx s)\<lparr>cx_session_status := st\<rparr>\<rparr>)"
  using assms
  by (simp_all add: rt_inv_def rt_core_def events_inv_def turns_inv_def cancel_inv_def history_inv_def
      tasks_inv_def quiet_def turn_live_def turn_entry_ok_def rt_le_def)

lemma safe_start:
  assumes "rt_inv cfg base s" shows "op_safe cfg base s (start cfg)"
proof -
  have up: "op_safe cfg base s (modify_eff (\<lambda>s. s\<lparr>rs_running := True,
      rs_ctx := (rs_ctx s)\<lparr>cx_session_status := SS_ACTIVE\<rparr>\<rparr>))"
    by (rule rt.safe_modify) (use status_inv [OF assms] in simp_all)
  show ?thesis
    unfolding start_def
    by (intro rt.safe_with rt.safe_if rt.safe_ret seg_then [OF up]
        seg_then [OF safe_sync_session_status] seg_then [OF safe_session_event(1)] assms TrueI)
qed

lemma safe_stop_finish:
  assumes "rt_inv cfg base s" and "cx_shutdown (rs_ctx s)"
  shows "op_safe cfg base s (stop_finish cfg reason)"
proof -
  have st: "op_safe cfg base s' (modify_eff (\<lambda>s. s\<lparr>rs_ctx := (rs_ctx s)\<lparr>cx_session_status := SS_TERMINATED\<rparr>\<rparr>))"
    if "rt_inv cfg base s'" for s'
    using status_inv [OF that, where r = "rs_running s'" and st = SS_TERMINATED] by (intro rt.safe_modify) simp_all
  have sync: "op_safe cfg base s' (with_state (\<lambda>s. sync_session_status cfg SS_TERMINATED (Some (rs_clock s))
      (Some (map_stop_reason reason))))" if "rt_inv cfg base s'" for s'
    by (rule rt.safe_with) (rule safe_sync_session_status [OF that])
  have fin: "op_safe cfg base s' (modify_eff (\<lambda>s. s\<lparr>rs_running := False, rs_current := None\<rparr>))"
    if "rt_inv cfg base s'" "rt_le s s'" for s'
  proof (rule rt.safe_modify)
    have "cx_shutdown (rs_ctx s')" using that(2) assms(2) by (simp add: rt_le_def)
    with that(1) show "rt_inv cfg base (s'\<lparr>rs_running := False, rs_current := None\<rparr>)"
      by (simp add: rt_inv_def rt_core_def events_inv_def turns_inv_def cancel_inv_def history_inv_def
          tasks_inv_def quiet_def turn_live_def turn_entry_ok_def)
  qed (simp_all add: rt_le_def)
  show ?thesis
    unfolding stop_finish_def
    by (intro seg_then [OF safe_session_event(2)] seg_then [OF st] seg_then [OF sync] fin assms(1))
      (auto intro: rt_le_trans)
qed

lemma seg_stop:
  assumes inv: "rt_inv cfg base s"
  shows "seg_safe cfg base s (stop cfg reason)"
proof (cases "rs_running s")
  case False
  then have "stop cfg reason s = ret None s" by (simp add: stop_def with_state_def)
  then show ?thesis using inv by (simp add: rt.safe_def ret_def rt_le_refl)
next
  case True
  let ?rest = "with_state (\<lambda>s. let pending = filter (\<lambda>k. rs_tasks s k \<noteq> None) (rs_active_tasks s)
            in if pending = [] then finished (stop_finish cfg reason)
               else ret (Some (W_Stop reason pending)))"
  obtain r s1 where run: "cancel_active_turn (s\<lparr>rs_ctx := request_shutdown (rs_ctx s)\<rparr>) = (r, s1)" by force
  note p = stop_prefix [OF inv run]
  have rest: "seg_safe cfg base s1 ?rest"
    unfolding Let_def
    by (intro rt.safe_with rt.safe_if seg_finished [OF safe_stop_finish] seg_some p) (simp add: p)
  have eq: "stop cfg reason s = (case r of Inl e \<Rightarrow> (Inl e, s1) | Inr _ \<Rightarrow> ?rest s1)"
    using True run
    by (simp add: stop_def with_state_def then_eff_def bind_eff_def modify_eff_def Let_def split: sum.split)
  show ?thesis
  proof (cases r)
    case (Inl e)
    with eq p show ?thesis by (intro rt.safeI [of _ s "Inl e" s1]) simp_all
  next
    case (Inr u)
    obtain r2 s2 where run2: "?rest s1 = (r2, s2)" by force
    show ?thesis
      using rt.safeD [OF rest run2] rt_le_trans [OF p(2)] eq Inr run2
      by (intro rt.safeI [of _ s r2 s2]) simp_all
  qed
qed

lemma safe_handle_cancel_turn:
  assumes "rt_inv cfg base s" shows "op_safe cfg base s (handle_cancel_turn t)"
  unfolding handle_cancel_turn_def
  by (rule rt.safe_with)
    (auto split: option.split intro!: rt.safe_throw op_any [OF safe_cancel_turn] assms)

lemma safe_handle_audio_frame:
  assumes "rt_inv cfg base s" shows "op_safe cfg base s (handle_audio_frame i)"
  unfolding handle_audio_frame_def
  by (rule rt.safe_with)
    (auto split: option.split intro!: rt.safe_throw rt.safe_ret seg_lift safe_queue_put assms)

lemma seg_handle_input:
  assumes "rt_inv cfg base s" shows "seg_safe cfg base s (handle_input cfg i)"
proof -
  have "seg_safe cfg base s
     (case in_kind i of
            RI_TEXT_INPUT \<Rightarrow> handle_text_input cfg i
          | RI_USER_SPEECH_STARTED \<Rightarrow> finished (handle_user_speech_started cfg)
          | RI_USER_SPEECH_ENDED \<Rightarrow> handle_user_speech_ended cfg
          | RI_AUDIO_FRAME \<Rightarrow> finished (handle_audio_frame i)
          | RI_CANCEL_TURN \<Rightarrow> finished (handle_cancel_turn (in_turn_id i))
          | RI_SHUTDOWN \<Rightarrow> stop cfg ''user_stop''
          | RI_ERROR \<Rightarrow> finished (handle_error i))" if "\<not> cx_shutdown (rs_ctx s)"
    using that assms
    by (cases "in_kind i")
      (simp_all add: seg_handle_text_input seg_handle_user_speech_ended seg_stop
        seg_finished [OF safe_handle_user_speech_started] seg_finished [OF safe_handle_audio_frame]
        seg_finished [OF safe_handle_cancel_turn] seg_finished [OF safe_handle_error])
  then show ?thesis
    unfolding handle_input_def
    by (intro rt.safe_with rt.safe_if rt.safe_throw seg_none assms)
qed

section \<open>Every step\<close>

lemma seg_with_llm:
  assumes "rt_inv cfg base s" and "\<And>lc. rc_llm cfg = Some lc \<Longrightarrow> seg_safe cfg base s (f lc)"
  shows "seg_safe cfg base s (with_llm cfg f)"
  using assms by (auto simp: with_llm_def split: option.split intro: seg_none)

lemma seg_resume:
  assumes inv: "rt_inv cfg base s" and w: "wait_ok cfg (dom (rs_turns s)) (cx_shutdown (rs_ctx s)) w"
  shows "seg_safe cfg base s (resume cfg k w st)"
proof (cases w)
  case (W_Summary p c short acc)
  with inv w show ?thesis
    by (cases st) (simp_all add: seg_some seg_in_both seg_with_llm seg_summary_chunk seg_generated)
next
  case (W_Retrieve p prep n)
  with inv w show ?thesis
    by (cases st) (simp_all add: seg_some seg_in_both seg_with_llm seg_after_retrieval rt.safe_throw)
next
  case (W_Recall p prep kn rq)
  with inv w show ?thesis
    by (cases st) (simp_all add: seg_some seg_in_both seg_with_llm seg_after_memory rt.safe_throw)
next
  case (W_Llm l rq parts fin calls)
  note wl = w [unfolded W_Llm]
  then have D: "pp_turn (ll_pipe l) \<in> dom (rs_turns s)" by simp
  show ?thesis
    unfolding W_Llm using inv wl D
    by (cases st) (simp_all add: seg_some seg_in_both seg_with_llm seg_llm_chunk seg_llm_end [OF inv wl] seg_llm_raise)
next
  case (W_Tool l tw)
  note wl = w [unfolded W_Tool]
  then have D: "pp_turn (ll_pipe l) \<in> dom (rs_turns s)" by simp
  show ?thesis
    unfolding W_Tool using inv wl D
    by (cases st) (simp_all add: seg_some seg_in_both seg_with_llm seg_tool_outcome [OF inv wl] rt.safe_throw)
next
  case (W_Tts p reply rq)
  with inv w show ?thesis
    by (cases st) (simp_all add: seg_some seg_in_both seg_tts_chunk seg_finish_exchange seg_tts_raise)
next
  case (W_SttStart t q tok)
  with inv w show ?thesis by (cases st) (simp_all add: seg_some seg_stt_start rt.safe_throw)
next
  case (W_Stt t q tok rq)
  with inv w show ?thesis
    by (cases st) (simp_all add: seg_some seg_stt_chunk seg_stt_end seg_finished [OF safe_stt_except])
next
  case (W_Join t j org)
  then have D: "t \<in> dom (rs_turns s)" using w by simp
  show ?thesis
    unfolding W_Join resume.simps
    by (rule rt.safe_with, cases st)
      (use inv w W_Join in \<open>auto split: option.split intro!: seg_some seg_in_origin rt.safe_throw D
         seg_then [OF rt.safe_lift] seg_after_join le_dom [OF _ D]\<close>)
next
  case (W_Stop reason pending)
  then have "cx_shutdown (rs_ctx s)" using w by simp
  with inv show ?thesis
    unfolding W_Stop resume.simps
    by (intro rt.safe_with, cases st)
      (auto intro!: seg_some rt.safe_throw seg_finished [OF safe_stop_finish])
qed

lemma settle_safe:
  assumes "seg_safe cfg base s m"
  shows "rt_inv cfg base (settle k m s)" and "rt_le s (settle k m s)"
proof -
  obtain r s' where run: "m s = (r, s')" by force
  note a = rt.safeD [OF assms run]
  have upd: "rt_inv cfg base (s'\<lparr>rs_tasks := (rs_tasks s')(k := v), rs_done := d\<rparr>)"
    if "\<forall>w. v = Some w \<longrightarrow> wait_ok cfg (dom (rs_turns s')) (cx_shutdown (rs_ctx s')) w" for v d
    using a(1) that
    by (simp add: rt_inv_def rt_core_def events_inv_def turns_inv_def cancel_inv_def
        history_inv_def tasks_inv_def quiet_def turn_live_def turn_entry_ok_def)
  have eq: "\<exists>v d. settle k m s = s'\<lparr>rs_tasks := (rs_tasks s')(k := v), rs_done := d\<rparr> \<and>
      (\<forall>w. v = Some w \<longrightarrow> r = Inr (Some w))"
  proof (cases r)
    case (Inl e)
    with run show ?thesis
      by (intro exI [of _ None] exI [of _ "(rs_done s')(k \<mapsto> Inl e)"]) (simp add: settle_def)
  next
    case (Inr ow)
    show ?thesis
    proof (cases ow)
      case None
      with run Inr show ?thesis
        by (intro exI [of _ None] exI [of _ "(rs_done s')(k \<mapsto> Inr ())"]) (simp add: settle_def)
    next
      case (Some w)
      with run Inr show ?thesis
        by (intro exI [of _ "Some w"] exI [of _ "rs_done s'"]) (simp add: settle_def)
    qed
  qed
  then obtain v d where vd: "settle k m s = s'\<lparr>rs_tasks := (rs_tasks s')(k := v), rs_done := d\<rparr>"
    "\<forall>w. v = Some w \<longrightarrow> r = Inr (Some w)" by blast
  have "\<forall>w. v = Some w \<longrightarrow> wait_ok cfg (dom (rs_turns s')) (cx_shutdown (rs_ctx s')) w"
    using vd(2) a(3) by auto
  with upd show "rt_inv cfg base (settle k m s)" unfolding vd(1) by blast
  have "rt_le s' (s'\<lparr>rs_tasks := (rs_tasks s')(k := v), rs_done := d\<rparr>)" by (simp add: rt_le_def)
  with a(2) show "rt_le s (settle k m s)" unfolding vd(1) by (rule rt_le_trans)
qed

lemma client_call_safe:
  assumes inv: "rt_inv cfg base s" and m: "\<And>s'. rt_inv cfg base s' \<Longrightarrow> seg_safe cfg base s' m"
  shows "rt_inv cfg base (client_call m s) \<and> rt_le s (client_call m s)"
proof -
  let ?s = "s\<lparr>rs_next_task := rs_next_task s + 1\<rparr>"
  have core: "same_core s ?s" by (simp add: same_core_def)
  note i = same_core_inv [OF core inv]
  note st = settle_safe [OF m [OF i], of "rs_next_task s"]
  show ?thesis
    unfolding client_call_def using st rt_le_trans [OF same_core_le [OF core]] by blast
qed

lemma perform_safe:
  assumes inv: "rt_inv cfg base s"
  shows "rt_inv cfg base (perform cfg a s) \<and> rt_le s (perform cfg a s)"
proof (cases a)
  case Act_Start
  then show ?thesis using client_call_safe [OF inv] seg_finished [OF safe_start] by simp
next
  case (Act_Stop reason)
  then show ?thesis using client_call_safe [OF inv] seg_stop by simp
next
  case (Act_Input i)
  then show ?thesis using client_call_safe [OF inv] seg_handle_input by simp
next
  case (Act_Resume k st)
  show ?thesis
  proof (cases "rs_tasks s k")
    case None
    with Act_Resume inv show ?thesis by (simp add: rt_le_refl)
  next
    case (Some w)
    then have "wait_ok cfg (dom (rs_turns s)) (cx_shutdown (rs_ctx s)) w"
      using inv by (simp add: rt_inv_def rt_core_def tasks_inv_def)
    with Act_Resume Some settle_safe [OF seg_resume [OF inv]] show ?thesis by simp
  qed
next
  case (Act_Pull k)
  have "same_core s (perform cfg a s)"
    using Act_Pull by (auto simp: same_core_def audio_next_def split: option.split wait.split list.split)
  then show ?thesis using same_core_inv [OF _ inv] same_core_le by blast
next
  case (Act_Clock now)
  have "same_core s (perform cfg a s)" using Act_Clock by (simp add: same_core_def)
  then show ?thesis using same_core_inv [OF _ inv] same_core_le by blast
qed

lemma run_safe: "rt_inv cfg base s \<Longrightarrow> rt_inv cfg base (run cfg acts s) \<and> rt_le s (run cfg acts s)"
proof (induction acts arbitrary: s)
  case (Cons a acts)
  with perform_safe [of cfg base s a] rt_le_trans show ?case by fastforce
qed (simp add: rt_le_refl)

lemma init_inv:
  assumes "fresh_context c" and "base = bucket store (cx_session_id c)"
  shows "rt_inv cfg base (init_runtime c ls store)"
  using assms
  by (auto simp: rt_inv_def rt_core_def events_inv_def turns_inv_def cancel_inv_def history_inv_def
      tasks_inv_def quiet_def turn_live_def init_runtime_def fresh_context_def)

lemma reachable_inv:
  assumes "reachable cfg (init_runtime c ls store) s" and "fresh_context c"
  shows "rt_inv cfg (bucket store (cx_session_id c)) s" and "rt_le (init_runtime c ls store) s"
proof -
  let ?s0 = "init_runtime c ls store"
  obtain acts where s: "s = run cfg acts ?s0" using assms(1) by (auto simp: reachable_iff_run)
  have "rt_inv cfg (bucket store (cx_session_id c)) ?s0" using init_inv assms(2) by blast
  from run_safe [OF this] show "rt_inv cfg (bucket store (cx_session_id c)) s" "rt_le ?s0 s"
    unfolding s by auto
qed

end
