(* ===== verification/RuntimeProps.thy ===== *)
theory RuntimeProps
  imports RuntimeSafety
begin

text \<open>
  The properties of the runtime that hold in every reachable state, the functional
  behaviour of the main paths, and the executions that show where it does not do what it
  means to; with a sample configuration on which they are evaluated.
\<close>

section \<open>A sample configuration\<close>

definition sample_context :: runtime_context where
  "sample_context = \<lparr>cx_session_id = 900, cx_organization_id = 901, cx_project_id = 902,
     cx_agent_id = 903, cx_agent_version_id = 904, cx_config_hash = ''h'', cx_deployment_id = None,
     cx_channel = CH_PLAYGROUND, cx_session_status = SS_INITIALIZING, cx_shutdown = False,
     cx_cancelled_turn_ids = {}, cx_sequence = 0, cx_turn_sequence = 0\<rparr>"

definition sample_llm_config :: llm_runtime_config where
  "sample_llm_config = \<lparr>lg_provider_key = ''groq'', lg_model = ''m'', lg_system_instructions = '''',
     lg_params = [], lg_max_input_tokens = None, lg_temperature = None, lg_max_output_tokens = None,
     lg_top_p = None, lg_max_tool_iterations = 4\<rparr>"

definition sample_runtime_config :: "tts_runtime_config option \<Rightarrow> runtime_config" where
  "sample_runtime_config tts = \<lparr>rc_llm = Some sample_llm_config,
     rc_stt = Some \<lparr>sg_provider_key = ''stt'', sg_model = ''m'', sg_language = '''', sg_params = []\<rparr>,
     rc_tts = tts, rc_session_repository = True, rc_conversation_repository = True,
     rc_summary_repository = False, rc_tools = None, rc_tool_env = sample_env,
     rc_retriever = False, rc_rag = \<lparr>ra_enabled = True, ra_limit = 5, ra_timeout = 2\<rparr>,
     rc_memory_store = None,
     rc_memory = \<lparr>mc_enabled = True, mc_recall_limit = 10, mc_recall_timeout = 3 / 2\<rparr>\<rparr>"

definition sample_tts :: tts_runtime_config where
  "sample_tts = \<lparr>tg_provider_key = ''tts'', tg_voice_ref = ''v'', tg_params = []\<rparr>"

definition sample_session :: session where
  "sample_session = \<lparr>ss_id = 900, ss_organization_id = 901, ss_project_id = 902, ss_agent_id = 903,
     ss_agent_version_id = 904, ss_deployment_id = None, ss_status = SS_INITIALIZING,
     ss_channel = CH_PLAYGROUND, ss_livekit_room = None, ss_config_hash = replicate 64 CHR ''a'',
     ss_started_at = 0, ss_ended_at = None, ss_end_reason = None, ss_usage = None,
     ss_error_code = None\<rparr>"

definition sample_init :: rts where
  "sample_init = init_runtime sample_context [5] (update_session sample_session empty_store)"

abbreviation sample_run :: "tts_runtime_config option \<Rightarrow> action list \<Rightarrow> rts" where
  "sample_run tts acts \<equiv> run (sample_runtime_config tts) acts sample_init"

abbreviation speech_started :: action where
  "speech_started \<equiv> Act_Input (input_of_kind RI_USER_SPEECH_STARTED)"

abbreviation speech_ended :: action where
  "speech_ended \<equiv> Act_Input (input_of_kind RI_USER_SPEECH_ENDED)"

lemma fresh_sample: "fresh_context sample_context"
  by (simp add: fresh_context_def sample_context_def)

lemma reachable_sample: "reachable (sample_runtime_config tts)
    (init_runtime sample_context [5] (update_session sample_session empty_store)) (sample_run tts acts)"
  unfolding sample_init_def by (rule reachable_run [OF reach_init])

lemmas run_defs = sample_context_def sample_llm_config_def sample_runtime_config_def sample_init_def
  sample_session_def init_runtime_def client_call_def settle_def finished_def eff_defs Let_def
  start_def sync_session_status_def get_session_def update_session_def empty_store_def
  emit_def event_builder_defs build_with_def build_event_def check_event_def
  next_event_sequence_def payload_and_turn_rules_def turn_scoped_event_types_def admit_event_def
  is_stale_for_cancelled_turns_def stale_if_turn_cancelled_def between_len_def confidence_ok_def
  handle_input_def input_of_kind_def handle_user_speech_started_def begin_turn_def next_turn_sequence_def
  turn_op_defs create_turn_def spawn_stt_def new_token_def stt_start_def check_stt_request_def
  stt_chunk_def stopped_def is_turn_cancelled_def finalize_speech_turn_def turn_terminal_def
  turn_live_def finalize_body_def in_origin_def on_exit_def queue_put_def after_join_def
  cleanup_stt_turn_def final_transcript_for_turn_def str_or_def run_assistant_pipeline_def
  in_pipeline_def begin_llm_def conversation_messages_def list_messages_def bucket_def
  summarizer_present_def begin_retrieval_def rag_enabled_def begin_memory_def memory_enabled_def
  start_loop_def llm_iterate_def pipe_stopped_def assemble_def check_llm_message_def
  llm_text_message_def build_system_prompt_def optional_section_def check_llm_request_def
  handle_user_speech_ended_def prep_full_def handle_text_input_def text_input_def
  py_strip_def py_lstrip_def py_rstrip_def py_isspace_def cancel_turn_input_def
  handle_cancel_turn_def cancel_turn_def cancel_token_of_def on_turn_def clear_current_def
  context_cancel_turn_def stop_def request_shutdown_def cancel_active_turn_def stop_finish_def
  map_stop_reason_def after_llm_def finish_exchange_def persist_turn_exchange_def append_message_def
  stamp_sequence_def in_both_def with_llm_def llm_end_def llm_chunk_def leave_pipeline_def
  leave_finalize_def complete_turn_def text_content_part_def

abbreviation cancel_now :: action where
  "cancel_now \<equiv> Act_Input (cancel_turn_input None)"

section \<open>What holds in every reachable state\<close>

text \<open>
  C3. The event stream of a session has no gap and no reordering: in every reachable state
  the admitted events carry exactly the sequence numbers 1, 2, ..., n of the session's
  context, so the stream passes \<open>validate_sequence_monotonic\<close>, and every event belongs to
  the session. No number is lost to a dropped stale event or to a rejected payload.
\<close>

theorem events_gapless:
  assumes "fresh_context c" and "reachable cfg (init_runtime c ls store) s"
  shows "map ev_sequence (rs_events s) = [1..int (length (rs_events s))] \<and>
     cx_sequence (rs_ctx s) = int (length (rs_events s)) \<and>
     (rs_events s \<noteq> [] \<longrightarrow> validate_sequence_monotonic (map ev_sequence (rs_events s))) \<and>
     list_all (\<lambda>e. ev_session_id e = cx_session_id c) (rs_events s)"
proof -
  note inv = reachable_inv [OF assms(2,1)]
  have ev: "map ev_sequence (rs_events s) = [1..cx_sequence (rs_ctx s)]" "0 \<le> cx_sequence (rs_ctx s)"
    and ids: "\<forall>e \<in> set (rs_events s). ev_session_id e = cx_session_id (rs_ctx s)"
    using inv(1) by (auto simp: rt_inv_def rt_core_def events_inv_def)
  have "cx_session_id (rs_ctx s) = cx_session_id c" using inv(2) by (simp add: rt_le_def init_runtime_def)
  moreover have len: "int (length (rs_events s)) = cx_sequence (rs_ctx s)"
    using arg_cong [OF ev(1), of length] ev(2) by simp
  moreover have "validate_sequence_monotonic [1..n]" if "1 \<le> n" for n
    using that upto_rec1 [of 1 n] by (simp add: validate_sequence_monotonic_upto)
  moreover have "1 \<le> int (length (rs_events s))" if "rs_events s \<noteq> []"
    using that by (cases "rs_events s") auto
  ultimately show ?thesis using ev ids by (auto simp: list_all_iff)
qed

lemma events_gapless_witness:
  "map ev_sequence (rs_events (sample_run None [Act_Start, speech_started])) = [1, 2]"
proof -
  have "length (rs_events (sample_run None [Act_Start, speech_started])) = 2" by (simp add: run_defs)
  with events_gapless [OF fresh_sample reachable_sample, of None "[Act_Start, speech_started]"]
  show ?thesis by (simp add: upto_rec1)
qed

text \<open>
  C4. There is at most one live turn: in every reachable state any two turns that have not
  ended are the same turn, which is the current one; every turn is a well-formed turn of
  the session, and turn numbers are never reused.
\<close>

theorem one_live_turn:
  assumes "fresh_context c" and "reachable cfg (init_runtime c ls store) s"
    and "rs_turns s t = Some x" and "rs_turns s u = Some y"
  shows "(turn_live s t \<longrightarrow> rs_current s = Some t) \<and> (turn_live s t \<and> turn_live s u \<longrightarrow> t = u) \<and>
     (rt_sequence x = rt_sequence y \<longrightarrow> t = u) \<and> (\<exists>k. to_contract x = Inr k \<and> tn_id k = t)"
proof -
  have inv: "turns_inv s" using reachable_inv(1) [OF assms(2,1)] by (simp add: rt_inv_def rt_core_def)
  have entry: "turn_entry_ok s t x" using inv assms(3) unfolding turns_inv_def by blast
  then obtain k where "to_contract x = Inr k"
    using turn_ok_to_contract [of x] by (auto simp: turn_entry_ok_def)
  with entry have "\<exists>k. to_contract x = Inr k \<and> tn_id k = t"
    by (auto simp: to_contract_def check_turn_Inr turn_entry_ok_def)
  moreover have "turn_live s t \<longrightarrow> rs_current s = Some t" "turn_live s u \<longrightarrow> rs_current s = Some u"
    using inv unfolding turns_inv_def by blast+
  moreover have "rt_sequence x = rt_sequence y \<longrightarrow> t = u"
    using inv assms(3,4) unfolding turns_inv_def by blast
  ultimately show ?thesis by auto
qed

lemma sample_live: "\<exists>x. rs_turns (sample_run None [Act_Start, speech_started]) 1 = Some x \<and> rt_state x = T_ACTIVE"
  by (simp add: run_defs)

lemma one_live_turn_witness:
  "rs_current (sample_run None [Act_Start, speech_started]) = Some 1"
proof -
  obtain x where x: "rs_turns (sample_run None [Act_Start, speech_started]) 1 = Some x" "rt_state x = T_ACTIVE"
    using sample_live by blast
  then have "turn_live (sample_run None [Act_Start, speech_started]) 1" by (simp add: turn_live_def)
  with one_live_turn [OF fresh_sample reachable_sample x(1) x(1)] show ?thesis by simp
qed

text \<open>
  The cancellation record is exact: the context holds a turn's id only when that turn
  was cancelled or failed by a runtime error, it holds the id of every cancelled turn, and
  a turn that has ended never changes again, whatever happens afterwards.
\<close>

theorem cancellation_record_exact:
  assumes "fresh_context c" and "reachable cfg (init_runtime c ls store) s" and "rs_turns s t = Some x"
  shows "(is_turn_cancelled (rs_ctx s) t \<longrightarrow> rt_state x = T_CANCELLED \<or> rt_state x = T_FAILED) \<and>
     (rt_state x = T_CANCELLED \<longrightarrow> is_turn_cancelled (rs_ctx s) t) \<and>
     (is_terminal (rt_state x) \<longrightarrow> rs_turns (run cfg acts s) t = Some x)"
proof -
  note inv = reachable_inv(1) [OF assms(2,1)]
  have "cancel_inv s" using inv by (simp add: rt_inv_def rt_core_def)
  moreover have "turns_le (rs_turns s) (rs_turns (run cfg acts s))"
    using run_safe [OF inv] by (simp add: rt_le_def)
  ultimately show ?thesis
    using assms(3) unfolding cancel_inv_def turns_le_def is_turn_cancelled_def by fastforce
qed

lemma sample_cancelled:
  "\<exists>x. rs_turns (sample_run None [Act_Start, speech_started, cancel_now]) 1 = Some x \<and> rt_state x = T_CANCELLED"
  by (simp add: run_defs)

lemma cancellation_record_exact_witness:
  "is_turn_cancelled (rs_ctx (sample_run None [Act_Start, speech_started, cancel_now])) 1"
proof -
  obtain x where x: "rs_turns (sample_run None [Act_Start, speech_started, cancel_now]) 1 = Some x"
    "rt_state x = T_CANCELLED"
    using sample_cancelled by blast
  with cancellation_record_exact [OF fresh_sample reachable_sample x(1)] show ?thesis by simp
qed



text \<open>
  C2. The history holds completed exchanges only: in every reachable state the messages the
  runtime has added to the session are user/assistant pairs, one pair per turn at most, and
  each of those turns is completed; a cancelled or failed turn leaves no message.
\<close>

theorem history_only_completed:
  assumes "fresh_context c" and "reachable cfg (init_runtime c ls store) s"
  shows "\<exists>ms ts. bucket (rs_store s) (cx_session_id c) = bucket store (cx_session_id c) @ ms \<and>
     exchanges ms = Some ts \<and> distinct ts \<and>
     list_all (\<lambda>t. \<exists>x. rs_turns s t = Some x \<and> rt_state x = T_COMPLETED) ts"
proof -
  note inv = reachable_inv [OF assms(2,1)]
  have "cx_session_id (rs_ctx s) = cx_session_id c" using inv(2) by (simp add: rt_le_def init_runtime_def)
  with inv(1) show ?thesis
    unfolding rt_inv_def rt_core_def history_inv_def list_all_iff by auto
qed

abbreviation sample_reply :: action where
  "sample_reply \<equiv> Act_Resume 1 (S_LlmChunk \<lparr>lc_delta = ''yes'', lc_finish_reason = None, lc_tool_calls = []\<rparr>)"

abbreviation sample_dialogue :: "action list" where
  "sample_dialogue \<equiv> [Act_Start, Act_Input (text_input ''hello''), sample_reply, Act_Resume 1 S_LlmEnd]"

lemma sample_dialogue_messages:
  "map message_text (bucket (rs_store (sample_run None sample_dialogue)) 900) = [Some ''hello'', Some ''yes'']"
  by (simp add: run_defs message_text_def)

lemma history_only_completed_witness:
  "\<exists>ms ts. ms \<noteq> [] \<and> bucket (rs_store (sample_run None sample_dialogue)) 900 = ms \<and>
     exchanges ms = Some ts"
  using history_only_completed [OF fresh_sample reachable_sample, of None sample_dialogue]
    sample_dialogue_messages
  by (auto simp: sample_context_def bucket_def update_session_def empty_store_def)

text \<open>
  C5. The tool loop is bounded and well formed: whenever a task waits for the language
  model, it has made fewer rounds than \<open>max_tool_iterations\<close>, and its request ends with
  the user's text followed by exactly those rounds, each an assistant message with its tool
  calls answered by one tool message per call, in order.
\<close>

theorem tool_loop_bounded:
  assumes "fresh_context c" and "reachable cfg (init_runtime c ls store) s"
    and "rs_tasks s k = Some (W_Llm l rq parts fin calls)"
  shows "\<exists>lc n. rc_llm cfg = Some lc \<and> ll_iteration l = int n \<and> int n < lg_max_tool_iterations lc \<and>
     rounds n (ll_extra l) \<and>
     request_shape (pp_text (ll_pipe l)) (ll_extra l) (rq_messages rq)"
proof -
  have "wait_ok cfg (dom (rs_turns s)) (cx_shutdown (rs_ctx s)) (W_Llm l rq parts fin calls)"
    using reachable_inv(1) [OF assms(2,1)] assms(3) unfolding rt_inv_def rt_core_def tasks_inv_def by blast
  then obtain lc where "rc_llm cfg = Some lc" "ll_iteration l < lg_max_tool_iterations lc"
    "0 \<le> ll_iteration l" "rounds (nat (ll_iteration l)) (ll_extra l)"
    "request_shape (pp_text (ll_pipe l)) (ll_extra l) (rq_messages rq)"
    by (auto simp: loop_bounded_def loop_ok_def)
  then show ?thesis by (intro exI [of _ lc] exI [of _ "nat (ll_iteration l)"]) simp
qed

lemma sample_waiting:
  "\<exists>l rq. rs_tasks (sample_run None [Act_Start, Act_Input (text_input ''hello'')]) 1 =
     Some (W_Llm l rq [] ''stop'' []) \<and> pp_text (ll_pipe l) = ''hello'' \<and> pp_turn (ll_pipe l) = 1"
  by (simp add: run_defs)

lemma tool_loop_bounded_witness:
  "\<exists>l rq. rs_tasks (sample_run None [Act_Start, Act_Input (text_input ''hello'')]) 1 =
     Some (W_Llm l rq [] ''stop'' []) \<and> ll_iteration l < 4"
proof -
  obtain l rq where w: "rs_tasks (sample_run None [Act_Start, Act_Input (text_input ''hello'')]) 1 =
     Some (W_Llm l rq [] ''stop'' [])"
    using sample_waiting by blast
  from tool_loop_bounded [OF fresh_sample reachable_sample w] have "ll_iteration l < 4"
    by (auto simp: sample_runtime_config_def sample_llm_config_def)
  with w show ?thesis by blast
qed

text \<open>
  C17. Shutdown is final: once it has been requested no turn is live and no turn is ever
  begun again, whatever the clients do, including calling \<open>start\<close> again (the flag is never
  cleared, so a restarted runtime ignores its input).
\<close>

theorem shutdown_is_final:
  assumes "fresh_context c" and "reachable cfg (init_runtime c ls store) s" and "cx_shutdown (rs_ctx s)"
  shows "\<not> turn_live (run cfg acts s) t \<and> dom (rs_turns (run cfg acts s)) = dom (rs_turns s)"
proof -
  note r = run_safe [OF reachable_inv(1) [OF assms(2,1)], of acts]
  then have "cx_shutdown (rs_ctx (run cfg acts s))" using assms(3) by (simp add: rt_le_def)
  with r assms(3) show ?thesis by (simp add: rt_inv_def quiet_def rt_le_def)
qed

lemma shutdown_is_final_witness:
  "\<not> turn_live (run (sample_runtime_config None) [Act_Start, Act_Input (text_input ''hello'')]
     (sample_run None [Act_Start, Act_Stop ''user_stop''])) 1"
proof -
  have "cx_shutdown (rs_ctx (sample_run None [Act_Start, Act_Stop ''user_stop'']))"
    by (simp add: run_defs)
  from shutdown_is_final [OF fresh_sample reachable_sample this] show ?thesis by blast
qed

section \<open>The main path\<close>

lemma message_text_exchange:
  "message_text (stamp_sequence n (exchange_message s uid t r text)) = (if text = [] then None else Some text)"
  by (simp add: message_text_def exchange_message_def text_content_part_def)

lemma llm_response_emitted:
  assumes "rt_inv cfg base s" and "t \<notin> cx_cancelled_turn_ids (rs_ctx s)" and "between_len 1 64 fin"
  obtains e s1 where "emit (llm_response_event t text fin None) s = (Inr True, s1)" and "emitted s e s1"
    and "ev_payload e = LLMResponsePayload text fin None"
proof -
  have c0: "0 \<le> cx_sequence (rs_ctx s)" using assms(1) by (simp add: rt_inv_def rt_core_def events_inv_def)
  have shape: "builder_shape ET_LLM_RESPONSE (LLMResponsePayload text fin None) (Some t)"
    by (simp add: builder_shape_def)
  have "\<forall>u. Some t = Some u \<longrightarrow> ET_LLM_RESPONSE \<in> stale_if_turn_cancelled \<longrightarrow> u \<notin> cx_cancelled_turn_ids (rs_ctx s)"
    using assms(2) by simp
  from shape c0 this show thesis
  proof (cases rule: emit_cases [where src = SRC_LLM])
    case (invalid x)
    then show thesis using assms(3) by simp
  next
    case (built e s1)
    then show thesis by (intro that [of s1 e]) (simp_all add: llm_response_event_def)
  qed
qed

lemma leave_text_pipeline:
  assumes "pp_origin p = FromText" and "m s = (r, s')" and "r = Inr None \<or> (\<exists>e. r = Inl e)"
  shows "in_both p m s = (r, s'\<lparr>rs_llm_tokens := (rs_llm_tokens s')(pp_turn p := None),
           rs_tts_tokens := (rs_tts_tokens s')(pp_turn p := None)\<rparr>)"
  using assms
  by (auto simp: in_both_def in_origin_def in_pipeline_def on_exit_def leave_pipeline_def leave_finalize_def eff_defs)

lemma reply_completes:
  assumes "fresh_context c" and "reachable cfg (init_runtime c ls store) s"
    and "rs_tasks s k = Some (W_Llm l rq parts fin [])" and "pp_origin (ll_pipe l) = FromText"
    and "turn_live s (pp_turn (ll_pipe l))" and "\<not> pipe_stopped s (ll_pipe l)"
    and "rc_llm cfg \<noteq> None" "rc_tts cfg = None" "rc_conversation_repository cfg" and "between_len 1 64 fin"
    and "pp_text (ll_pipe l) \<noteq> []" "concat parts \<noteq> []" and "s' = perform cfg (Act_Resume k S_LlmEnd) s"
  shows "rs_done s' k = Some (Inr ()) \<and> rs_tasks s' k = None \<and> rs_current s' = None \<and>
     (\<exists>x. rs_turns s' (pp_turn (ll_pipe l)) = Some x \<and> rt_state x = T_COMPLETED) \<and>
     (\<exists>e. rs_events s' = rs_events s @ [e] \<and> ev_payload e = LLMResponsePayload (concat parts) fin None) \<and>
     map message_text (bucket (rs_store s') (cx_session_id c)) =
       map message_text (bucket (rs_store s) (cx_session_id c)) @ [Some (pp_text (ll_pipe l)), Some (concat parts)]"
proof -
  let ?p = "ll_pipe l" and ?t = "pp_turn (ll_pipe l)"
  note inv = reachable_inv [OF assms(2,1)]
  obtain lc where lc: "rc_llm cfg = Some lc" using assms(7) by blast
  have sid: "cx_session_id (rs_ctx s) = cx_session_id c" using inv(2) by (simp add: rt_le_def init_runtime_def)
  obtain x where x: "rs_turns s ?t = Some x" "rt_state x = T_ACTIVE"
    using live_state [of cfg _ s ?t] inv(1) assms(5) by blast
  have cur: "rs_current s = Some ?t" using inv(1) assms(5) by (simp add: rt_inv_def rt_core_def turns_inv_def)
  note nc = not_pipe_stopped [OF assms(6)]
  obtain e s1 where e: "emit (llm_response_event ?t (concat parts) fin None) s = (Inr True, s1)" "emitted s e s1"
    "ev_payload e = LLMResponsePayload (concat parts) fin None"
    using llm_response_emitted [OF inv(1) nc assms(10)] by blast
  have s1: "rs_turns s1 ?t = Some x" "?t \<notin> cx_cancelled_turn_ids (rs_ctx s1)" "\<not> turn_terminal s1 ?t"
    using e(2) x nc by (auto simp: emitted_def turn_terminal_def)
  obtain n where ex: "then_eff (persist_turn_exchange cfg ?t (pp_text ?p) (concat parts)) (complete_turn ?t) s1 =
     (Inr (), s1\<lparr>rs_fresh := rs_fresh s1 + n, rs_store := exchange_store cfg s1 ?t (pp_text ?p) (concat parts),
        rs_turns := (rs_turns s1)(?t \<mapsto> completed_turn (rs_clock s1) x),
        rs_current := (if rs_current s1 = Some ?t then None else rs_current s1)\<rparr>)" (is "_ = (_, ?s2)")
    using exchange_active [OF s1(1) x(2) s1(2)] by blast
  let ?m = "with_llm cfg (\<lambda>lc. llm_end cfg lc l parts fin [])"
  have m: "?m s = (Inr None, ?s2)"
    using lc assms(6,8) e(1) ex s1(3)
    by (simp add: with_llm_def llm_end_def after_llm_def finish_exchange_def finished_def with_state_def
        then_eff_def bind_eff_def ret_def)
  let ?s3 = "?s2\<lparr>rs_llm_tokens := (rs_llm_tokens ?s2)(?t := None), rs_tts_tokens := (rs_tts_tokens ?s2)(?t := None)\<rparr>"
  have b: "in_both ?p ?m s = (Inr None, ?s3)"
    by (rule leave_text_pipeline, rule assms(4), rule m) simp
  have s': "s' = ?s3\<lparr>rs_tasks := (rs_tasks ?s3)(k := None), rs_done := (rs_done ?s3)(k \<mapsto> Inr ())\<rparr>"
    unfolding assms(13) perform.simps assms(3) option.case resume.simps stimulus.case settle_def b by simp
  have "map message_text (bucket (exchange_store cfg s1 ?t (pp_text ?p) (concat parts)) (cx_session_id c)) =
      map message_text (bucket (rs_store s) (cx_session_id c)) @ [Some (pp_text ?p), Some (concat parts)]"
    using e(2) sid assms(9,11,12)
    by (simp add: exchange_store_def message_text_exchange)
      (simp add: exchange_message_def emitted_def)
  then show ?thesis
    using e(2,3) cur unfolding s' by (simp add: emitted_def completed_turn_def)
qed

text \<open>
  A text turn that gets its answer is completed: when the model's stream ends without
  tool calls on a live, uncancelled text turn and no voice is configured, the segment
  returns, admits exactly one event, the response with the concatenated text, completes the
  turn, frees the current turn, and appends the user's text and the answer to the history.
\<close>

theorem reply_completes_turn:
  assumes "fresh_context c" and "reachable cfg (init_runtime c ls store) s"
    and "rs_tasks s k = Some (W_Llm l rq parts fin [])" and "pp_origin (ll_pipe l) = FromText"
    and "turn_live s (pp_turn (ll_pipe l))" and "\<not> pipe_stopped s (ll_pipe l)"
    and "rc_llm cfg \<noteq> None" "rc_tts cfg = None" "rc_conversation_repository cfg" and "between_len 1 64 fin"
    and "pp_text (ll_pipe l) \<noteq> []" "concat parts \<noteq> []" and "s' = perform cfg (Act_Resume k S_LlmEnd) s"
  shows "rs_done s' k = Some (Inr ()) \<and> rs_tasks s' k = None \<and> rs_current s' = None \<and>
     (\<exists>x. rs_turns s' (pp_turn (ll_pipe l)) = Some x \<and> rt_state x = T_COMPLETED) \<and>
     (\<exists>e. rs_events s' = rs_events s @ [e] \<and> ev_payload e = LLMResponsePayload (concat parts) fin None) \<and>
     map message_text (bucket (rs_store s') (cx_session_id c)) =
       map message_text (bucket (rs_store s) (cx_session_id c)) @ [Some (pp_text (ll_pipe l)), Some (concat parts)]"
  using reply_completes [OF assms] .

abbreviation sample_replied :: rts where
  "sample_replied \<equiv> sample_run None [Act_Start, Act_Input (text_input ''hello''), sample_reply]"

lemma sample_replied_waits:
  "\<exists>l rq. rs_tasks sample_replied 1 = Some (W_Llm l rq [''yes''] ''stop'' []) \<and>
     pp_origin (ll_pipe l) = FromText \<and> turn_live sample_replied (pp_turn (ll_pipe l)) \<and>
     \<not> pipe_stopped sample_replied (ll_pipe l) \<and> pp_text (ll_pipe l) = ''hello''"
  by (simp add: run_defs)

lemma reply_completes_turn_witness:
  "rs_done (perform (sample_runtime_config None) (Act_Resume 1 S_LlmEnd) sample_replied) 1 = Some (Inr ())"
proof -
  obtain l rq where w: "rs_tasks sample_replied 1 = Some (W_Llm l rq [''yes''] ''stop'' [])"
    "pp_origin (ll_pipe l) = FromText" "turn_live sample_replied (pp_turn (ll_pipe l))"
    "\<not> pipe_stopped sample_replied (ll_pipe l)" "pp_text (ll_pipe l) = ''hello''"
    using sample_replied_waits by blast
  have cfg: "rc_llm (sample_runtime_config None) \<noteq> None" "rc_tts (sample_runtime_config None) = None"
    "rc_conversation_repository (sample_runtime_config None)"
    by (simp_all add: sample_runtime_config_def)
  have "between_len 1 64 ''stop''" "pp_text (ll_pipe l) \<noteq> []" "concat [''yes''] \<noteq> []"
    using w(5) by (simp_all add: between_len_def)
  from reply_completes_turn [OF fresh_sample reachable_sample w(1-4) cfg this refl]
  show ?thesis by blast
qed

text \<open>
  Cancelling takes effect at once: when a client cancels the live turn, by its name or not, the
  call returns with the turn cancelled and marked interrupted, the runtime free for the next turn,
  exactly one event admitted (the interruption of that turn), and every token that was
  handed to the turn's language-model, recognizer and voice streams signalled.
\<close>

theorem cancel_takes_effect:
  assumes "fresh_context c" and "reachable cfg (init_runtime c ls store) s"
    and "rs_running s" and "turn_live s t" and "u = None \<or> u = Some t"
    and "s' = perform cfg (Act_Input (cancel_turn_input u)) s"
  shows "(\<exists>x. rs_turns s' t = Some x \<and> rt_state x = T_CANCELLED \<and> rt_interrupted x) \<and>
     rs_current s' = None \<and> rs_done s' (rs_next_task s) = Some (Inr ()) \<and>
     (\<exists>e. rs_events s' = rs_events s @ [e] \<and> ev_type e = ET_AGENT_INTERRUPTED \<and> ev_turn_id e = Some t) \<and>
     rs_tokens s' = signalled s t \<and> rs_running s' \<and> \<not> cx_shutdown (rs_ctx s')"
proof -
  note inv = reachable_inv(1) [OF assms(2,1)]
  obtain x where x: "rs_turns s t = Some x" "rt_state x = T_ACTIVE"
    using live_state [of cfg _ s t] inv assms(4) by blast
  have cur: "rs_current s = Some t" and seq: "0 \<le> cx_sequence (rs_ctx s)"
    using inv assms(4) by (simp_all add: rt_inv_def rt_core_def turns_inv_def events_inv_def)
  have up: "\<not> cx_shutdown (rs_ctx s)" using inv assms(4) by (auto simp: rt_inv_def quiet_def)
  let ?s = "s\<lparr>rs_next_task := rs_next_task s + 1\<rparr>"
  have xs: "rs_turns ?s t = Some x" "0 \<le> cx_sequence (rs_ctx ?s)" using x seq by simp_all
  from cancel_turn_active [OF xs(1) x(2) xs(2)] obtain e s2 where c:
    "cancel_turn t ?s = (Inr (), if rs_current s2 = Some t then s2\<lparr>rs_current := None\<rparr> else s2)"
    "emitted (?s\<lparr>rs_tokens := signalled ?s t, rs_ctx := context_cancel_turn t (rs_ctx ?s),
       rs_turns := (rs_turns ?s)(t \<mapsto> cancelled_turn (rs_clock ?s) x)\<rparr>) e s2"
    "ev_type e = ET_AGENT_INTERRUPTED" "ev_turn_id e = Some t" by blast
  have "handle_input cfg (cancel_turn_input u) ?s =
      (Inr None, if rs_current s2 = Some t then s2\<lparr>rs_current := None\<rparr> else s2)"
    using c(1) cur assms(3,5) up
    by (auto simp add: handle_input_def cancel_turn_input_def input_of_kind_def handle_cancel_turn_def
        finished_def with_state_def then_eff_def bind_eff_def ret_def)
  then have "s' = (let z = (if rs_current s2 = Some t then s2\<lparr>rs_current := None\<rparr> else s2)
      in z\<lparr>rs_tasks := (rs_tasks z)(rs_next_task s := None),
           rs_done := (rs_done z)(rs_next_task s \<mapsto> Inr ())\<rparr>)"
    unfolding assms(6) perform.simps client_call_def settle_def by (simp add: Let_def)
  moreover have "signalled ?s t = signalled s t" by (simp add: signalled_def)
  ultimately show ?thesis using c(2-4) cur assms(3) up
    by (auto simp: emitted_def cancelled_turn_def context_cancel_turn_def Let_def)
qed

lemma cancel_takes_effect_witness:
  "rs_current (perform (sample_runtime_config None) cancel_now (sample_run None [Act_Start, speech_started])) = None"
proof -
  have r: "rs_running (sample_run None [Act_Start, speech_started])" by (simp add: run_defs)
  have l: "turn_live (sample_run None [Act_Start, speech_started]) 1"
    using sample_live by (auto simp: turn_live_def)
  from cancel_takes_effect [OF fresh_sample reachable_sample r l _ refl] show ?thesis by blast
qed

lemma emit_frame:
  "rs_store (snd (emit (build_with ty p t src) s)) = rs_store s"
  "rs_clock (snd (emit (build_with ty p t src) s)) = rs_clock s"
  "cx_session_id (rs_ctx (snd (emit (build_with ty p t src) s))) = cx_session_id (rs_ctx s)"
  "cx_organization_id (rs_ctx (snd (emit (build_with ty p t src) s))) = cx_organization_id (rs_ctx s)"
  "cx_project_id (rs_ctx (snd (emit (build_with ty p t src) s))) = cx_project_id (rs_ctx s)"
  by (auto simp: emit_def build_with_def build_event_def next_event_sequence_def admit_event_def Let_def
      split: sum.splits)

lemma sync_found:
  assumes "rc_session_repository cfg"
    and "get_session (cx_session_id (rs_ctx s)) (Some (cx_organization_id (rs_ctx s)))
           (Some (cx_project_id (rs_ctx s))) (rs_store s) = Some x"
  shows "sync_session_status cfg st en er s = (Inr (), s\<lparr>rs_store := update_session
     (x\<lparr>ss_status := st, ss_ended_at := (if en \<noteq> None then en else ss_ended_at x),
        ss_end_reason := (if er \<noteq> None then er else ss_end_reason x)\<rparr>) (rs_store s)\<rparr>)"
  using assms by (simp add: sync_session_status_def with_state_def modify_eff_def Let_def)

text \<open>
  The stored session follows the runtime: with a session repository that knows the
  session, \<open>start\<close> stores it as active, and \<open>stop\<close> with no recognizer task pending stores
  it as terminated with the time and the mapped reason; nothing else of it is changed.
\<close>

theorem session_record_follows:
  assumes "rc_session_repository cfg"
    and "get_session (cx_session_id (rs_ctx s)) (Some (cx_organization_id (rs_ctx s)))
           (Some (cx_project_id (rs_ctx s))) (rs_store s) = Some x" and "ss_id x = cx_session_id (rs_ctx s)"
    and "start cfg s = (r, s1)" and "stop_finish cfg reason s = (Inr (), s2)"
  shows "(\<not> rs_running s \<longrightarrow> get_session (cx_session_id (rs_ctx s)) (Some (cx_organization_id (rs_ctx s)))
           (Some (cx_project_id (rs_ctx s))) (rs_store s1) = Some (x\<lparr>ss_status := SS_ACTIVE\<rparr>)) \<and>
     get_session (cx_session_id (rs_ctx s)) (Some (cx_organization_id (rs_ctx s)))
           (Some (cx_project_id (rs_ctx s))) (rs_store s2) =
       Some (x\<lparr>ss_status := SS_TERMINATED, ss_ended_at := Some (rs_clock s),
               ss_end_reason := Some (map_stop_reason reason)\<rparr>)"
proof -
  let ?key = "\<lambda>st. get_session (cx_session_id (rs_ctx s)) (Some (cx_organization_id (rs_ctx s)))
           (Some (cx_project_id (rs_ctx s))) st"
  have rmw: "?key (update_session (x\<lparr>ss_status := a, ss_ended_at := b, ss_end_reason := d\<rparr>) (rs_store s)) =
      Some (x\<lparr>ss_status := a, ss_ended_at := b, ss_end_reason := d\<rparr>)" for a b d
    using mem_session.read_modify_write [OF assms(2,3), of "\<lambda>x. x\<lparr>ss_status := a, ss_ended_at := b, ss_end_reason := d\<rparr>"]
    by simp
  have "?key (rs_store s1) = Some (x\<lparr>ss_status := SS_ACTIVE\<rparr>)" if "\<not> rs_running s"
  proof -
    let ?a = "s\<lparr>rs_running := True, rs_ctx := (rs_ctx s)\<lparr>cx_session_status := SS_ACTIVE\<rparr>\<rparr>"
    let ?b = "?a\<lparr>rs_store := update_session (x\<lparr>ss_status := SS_ACTIVE\<rparr>) (rs_store s)\<rparr>"
    have sync: "sync_session_status cfg SS_ACTIVE None None ?a = (Inr (), ?b)"
      using sync_found [of cfg ?a x SS_ACTIVE None None] assms by simp
    obtain q z where z: "emit session_started_event ?b = (q, z)" by force
    have "s1 = z"
      using that assms(4) sync z
      by (auto simp: start_def with_state_def then_eff_def bind_eff_def modify_eff_def ret_def
          split: sum.splits)
    then have "rs_store s1 = update_session (x\<lparr>ss_status := SS_ACTIVE\<rparr>) (rs_store s)"
      using emit_frame(1) [of ET_SESSION_STARTED SessionStartedPayload None SRC_SYSTEM ?b] z
      by (simp add: session_started_event_def)
    with rmw [where a = SS_ACTIVE and b = "ss_ended_at x" and d = "ss_end_reason x"] show ?thesis by simp
  qed
  moreover have "?key (rs_store s2) = Some (x\<lparr>ss_status := SS_TERMINATED, ss_ended_at := Some (rs_clock s),
               ss_end_reason := Some (map_stop_reason reason)\<rparr>)"
  proof -
    obtain q z where z: "emit (session_ended_event reason) s = (q, z)" by force
    note f = emit_frame [of ET_SESSION_ENDED "SessionEndedPayload reason" None SRC_SYSTEM s]
    let ?a = "z\<lparr>rs_ctx := (rs_ctx z)\<lparr>cx_session_status := SS_TERMINATED\<rparr>\<rparr>"
    have "sync_session_status cfg SS_TERMINATED (Some (rs_clock ?a)) (Some (map_stop_reason reason)) ?a =
        (Inr (), ?a\<lparr>rs_store := update_session (x\<lparr>ss_status := SS_TERMINATED,
           ss_ended_at := Some (rs_clock ?a), ss_end_reason := Some (map_stop_reason reason)\<rparr>) (rs_store ?a)\<rparr>)"
      using sync_found [of cfg ?a x SS_TERMINATED "Some (rs_clock ?a)" "Some (map_stop_reason reason)"]
        assms(1,2) f z by (simp add: session_ended_event_def)
    then have "rs_store s2 = update_session (x\<lparr>ss_status := SS_TERMINATED,
           ss_ended_at := Some (rs_clock s), ss_end_reason := Some (map_stop_reason reason)\<rparr>) (rs_store s)"
      using assms(5) f z
      by (auto simp: stop_finish_def session_ended_event_def with_state_def then_eff_def bind_eff_def
          modify_eff_def split: sum.splits)
    with rmw show ?thesis by simp
  qed
  ultimately show ?thesis by blast
qed

lemma session_record_follows_witness:
  "get_session 900 (Some 901) (Some 902) (rs_store (snd (stop_finish (sample_runtime_config None) ''user_stop'' sample_init))) =
     Some (sample_session\<lparr>ss_status := SS_TERMINATED, ss_ended_at := Some 0, ss_end_reason := Some SE_USER_STOP\<rparr>)"
proof -
  have get: "get_session (cx_session_id (rs_ctx sample_init)) (Some (cx_organization_id (rs_ctx sample_init)))
           (Some (cx_project_id (rs_ctx sample_init))) (rs_store sample_init) = Some sample_session"
    "rc_session_repository (sample_runtime_config None)" "ss_id sample_session = cx_session_id (rs_ctx sample_init)"
    by (simp_all add: run_defs)
  have fin: "stop_finish (sample_runtime_config None) ''user_stop'' sample_init =
      (Inr (), snd (stop_finish (sample_runtime_config None) ''user_stop'' sample_init))"
    by (simp add: run_defs)
  have ids: "cx_session_id (rs_ctx sample_init) = 900" "cx_organization_id (rs_ctx sample_init) = 901"
    "cx_project_id (rs_ctx sample_init) = 902" "rs_clock sample_init = 0"
    by (simp_all add: sample_init_def init_runtime_def sample_context_def)
  show ?thesis
    using session_record_follows [OF get(2,1,3) surjective_pairing fin] unfolding ids
    by (simp add: map_stop_reason_def)
qed

text \<open>
  C18. An empty answer wedges a voice session: when the model's stream ends without any text
  and a voice is configured, building the speech request raises \<open>ValidationError\<close>, which
  leaves the handler; the turn stays live and current, no error event is admitted, and
  every later attempt to begin a turn is refused.
\<close>

theorem empty_reply_wedges_turn:
  assumes "fresh_context c" and "reachable cfg (init_runtime c ls store) s"
    and "rs_tasks s k = Some (W_Llm l rq [] fin [])" and "pp_origin (ll_pipe l) = FromText"
    and "turn_live s (pp_turn (ll_pipe l))" and "\<not> pipe_stopped s (ll_pipe l)"
    and "rc_llm cfg \<noteq> None" "rc_tts cfg = Some tc" and "between_len 1 64 fin"
    and "s' = perform cfg (Act_Resume k S_LlmEnd) s"
  shows "(\<exists>m. rs_done s' k = Some (Inl (ValidationError m))) \<and> turn_live s' (pp_turn (ll_pipe l)) \<and>
     (\<exists>e. rs_events s' = rs_events s @ [e] \<and> ev_payload e = LLMResponsePayload '''' fin None) \<and>
     fst (begin_turn s') = Inl (InvalidRuntimeInput ''a turn is already active'')"
proof -
  let ?p = "ll_pipe l" and ?t = "pp_turn (ll_pipe l)"
  note inv = reachable_inv [OF assms(2,1)]
  obtain lc where lc: "rc_llm cfg = Some lc" using assms(7) by blast
  obtain x where x: "rs_turns s ?t = Some x" "rt_state x = T_ACTIVE"
    using live_state [of cfg _ s ?t] inv(1) assms(5) by blast
  have cur: "rs_current s = Some ?t" using inv(1) assms(5) by (simp add: rt_inv_def rt_core_def turns_inv_def)
  note nc = not_pipe_stopped [OF assms(6)]
  obtain e s1 where e: "emit (llm_response_event ?t '''' fin None) s = (Inr True, s1)" "emitted s e s1"
    "ev_payload e = LLMResponsePayload '''' fin None"
    using llm_response_emitted [OF inv(1) nc assms(9)] by blast
  have s1: "\<not> turn_terminal s1 ?t" using e(2) x by (auto simp: emitted_def turn_terminal_def)
  have "\<exists>m. check_tts_request \<lparr>tq_provider_key = tg_provider_key tc, tq_voice_ref = tg_voice_ref tc,
      tq_text = '''', tq_params = tg_params tc\<rparr> = Inl (ValidationError m)"
    by (simp add: check_tts_request_def)
  then obtain m where "check_tts_request \<lparr>tq_provider_key = tg_provider_key tc, tq_voice_ref = tg_voice_ref tc,
      tq_text = '''', tq_params = tg_params tc\<rparr> = Inl (ValidationError m)" by blast
  note tts = this
  let ?m = "with_llm cfg (\<lambda>lc. llm_end cfg lc l [] fin [])"
  have m: "?m s = (Inl (ValidationError m), s1)"
    using tts lc assms(6,8) e(1) s1
    by (simp add: with_llm_def llm_end_def after_llm_def with_state_def then_eff_def bind_eff_def lift_eff_def)
  let ?s3 = "s1\<lparr>rs_llm_tokens := (rs_llm_tokens s1)(?t := None), rs_tts_tokens := (rs_tts_tokens s1)(?t := None)\<rparr>"
  have b: "in_both ?p ?m s = (Inl (ValidationError m), ?s3)"
    by (rule leave_text_pipeline, rule assms(4), rule m) simp
  have s': "s' = ?s3\<lparr>rs_tasks := (rs_tasks ?s3)(k := None), rs_done := (rs_done ?s3)(k \<mapsto> Inl (ValidationError m))\<rparr>"
    unfolding assms(10) perform.simps assms(3) option.case resume.simps stimulus.case settle_def b by simp
  show ?thesis
    using e(2,3) x cur unfolding s' by (auto simp: emitted_def turn_live_def begin_turn_def Let_def)
qed

lemma sample_voice_waits:
  "\<exists>l rq. rs_tasks (sample_run (Some sample_tts) [Act_Start, Act_Input (text_input ''hello'')]) 1 =
       Some (W_Llm l rq [] ''stop'' []) \<and>
     pp_origin (ll_pipe l) = FromText \<and>
     turn_live (sample_run (Some sample_tts) [Act_Start, Act_Input (text_input ''hello'')]) (pp_turn (ll_pipe l)) \<and>
     \<not> pipe_stopped (sample_run (Some sample_tts) [Act_Start, Act_Input (text_input ''hello'')]) (ll_pipe l)"
  by (simp add: run_defs)

lemma empty_reply_wedges_turn_witness:
  "fst (begin_turn (perform (sample_runtime_config (Some sample_tts)) (Act_Resume 1 S_LlmEnd)
      (sample_run (Some sample_tts) [Act_Start, Act_Input (text_input ''hello'')]))) =
     Inl (InvalidRuntimeInput ''a turn is already active'')"
proof -
  let ?s = "sample_run (Some sample_tts) [Act_Start, Act_Input (text_input ''hello'')]"
  obtain l rq where w: "rs_tasks ?s 1 = Some (W_Llm l rq [] ''stop'' [])"
    "pp_origin (ll_pipe l) = FromText" "turn_live ?s (pp_turn (ll_pipe l))" "\<not> pipe_stopped ?s (ll_pipe l)"
    using sample_voice_waits by blast
  have cfg: "rc_llm (sample_runtime_config (Some sample_tts)) \<noteq> None"
    "rc_tts (sample_runtime_config (Some sample_tts)) = Some sample_tts"
    by (simp_all add: sample_runtime_config_def)
  have "between_len 1 64 ''stop''" by (simp add: between_len_def)
  from empty_reply_wedges_turn [OF fresh_sample reachable_sample w cfg this refl]
  show ?thesis by blast
qed

text \<open>What an observer sees of two tasks and of the events of one type.\<close>

definition watch :: "nat \<Rightarrow> nat \<Rightarrow> event_type \<Rightarrow> rts \<Rightarrow> wait option \<times> wait option \<times> nat" where
  "watch k j ty s = (rs_tasks s k, rs_tasks s j, length (filter (\<lambda>e. ev_type e = ty) (rs_events s)))"

text \<open>
  One utterance can be answered twice: when the recognizer delivers its final transcript
  and the client then reports the end of speech, as a normal call does, the speech turn is
  finalized a second time, because the first finalization clears its own guards before it
  starts the assistant. Two assistant pipelines of the same turn then wait for the language
  model at once, and USER_SPEECH_ENDED is admitted twice.
\<close>

theorem double_finalization:
  "\<exists>s k j l rq m rq'.
     s = sample_run None [Act_Start, speech_started, Act_Resume 2 S_Continue,
       Act_Resume 2 (S_SttChunk \<lparr>sc_text = ''hello'', sc_is_final = True, sc_start_ms = 0, sc_end_ms = 9,
         sc_confidence = None\<rparr>), speech_ended] \<and>
     k \<noteq> j \<and> rs_tasks s k = Some (W_Llm l rq [] ''stop'' []) \<and> rs_tasks s j = Some (W_Llm m rq' [] ''stop'' []) \<and>
     pp_turn (ll_pipe l) = pp_turn (ll_pipe m) \<and>
     length (filter (\<lambda>e. ev_type e = ET_USER_SPEECH_ENDED) (rs_events s)) = 2"
proof -
  let ?s = "sample_run None [Act_Start, speech_started, Act_Resume 2 S_Continue,
       Act_Resume 2 (S_SttChunk \<lparr>sc_text = ''hello'', sc_is_final = True, sc_start_ms = 0, sc_end_ms = 9,
         sc_confidence = None\<rparr>), speech_ended]"
  have "\<exists>l rq m rq'. watch 2 3 ET_USER_SPEECH_ENDED ?s =
      (Some (W_Llm l rq [] ''stop'' []), Some (W_Llm m rq' [] ''stop'' []), 2) \<and>
      pp_turn (ll_pipe l) = pp_turn (ll_pipe m)"
    by (simp add: run_defs watch_def)
  then obtain l rq m rq' where "rs_tasks ?s 2 = Some (W_Llm l rq [] ''stop'' [])"
    "rs_tasks ?s 3 = Some (W_Llm m rq' [] ''stop'' [])"
    "length (filter (\<lambda>e. ev_type e = ET_USER_SPEECH_ENDED) (rs_events ?s)) = 2"
    "pp_turn (ll_pipe l) = pp_turn (ll_pipe m)"
    unfolding watch_def prod.inject by blast
  moreover have "(2::nat) \<noteq> 3" by simp
  ultimately show ?thesis by blast
qed

end
