(* ===== verification/BridgeInv.thy ===== *)
theory BridgeInv
  imports RuntimeProps Bridge
begin

text \<open>
  The media bridge is safe on top of the runtime: it sees every event once, the audio it hands
  to the transport belongs to announced, uncancelled turns and is numbered upwards, and a
  participant who speaks up takes over the conversation. Its invariant is a second
  interpretation of \<open>forward_invariant\<close>.
\<close>

section \<open>The invariant\<close>

definition dormant :: "rts \<Rightarrow> bool" where
  "dormant s \<longleftrightarrow> \<not> rs_running s \<and> rs_tasks s = Map.empty \<and> rs_events s = [] \<and> rs_delivered s = []"

definition heard_inv :: "bridge_config \<Rightarrow> bridge \<Rightarrow> bool" where
  "heard_inv bc b \<longleftrightarrow>
     (if br_registered b
      then filter (\<lambda>l. l = bc_listener bc) (rs_listeners (br_rt b)) = [bc_listener bc] \<and>
           br_events b = rs_events (br_rt b)
      else dormant (br_rt b) \<and> bc_listener bc \<notin> set (rs_listeners (br_rt b)) \<and> br_events b = [] \<and>
           br_phase b = BP_New)"

definition announced :: "bridge \<Rightarrow> uuid \<Rightarrow> bool" where
  "announced b t \<longleftrightarrow> (\<exists>e \<in> set (br_events b). ev_type e = ET_TTS_CHUNK \<and> ev_turn_id e = Some t)"

definition publish_inv :: "bridge \<Rightarrow> bool" where
  "publish_inv b \<longleftrightarrow> (\<forall>e \<in> set (br_publishing b). e \<in> set (br_events b) \<and> ev_type e = ET_TTS_CHUNK) \<and>
     (\<forall>f \<in> set (br_published b). \<exists>t. xo_turn_id f = Some t \<and> announced b t)"

definition chunk_indexes :: "uuid \<Rightarrow> output_frame list \<Rightarrow> nat list" where
  "chunk_indexes t fs = map xo_chunk_index (filter (\<lambda>f. xo_turn_id f = Some t) fs)"

definition index_inv :: "bridge \<Rightarrow> bool" where
  "index_inv b \<longleftrightarrow> (\<forall>t. sorted_wrt (<) (chunk_indexes t (br_published b)) \<and>
     (\<forall>i \<in> set (chunk_indexes t (br_published b)). i < next_index b t))"

definition ended_inv :: "bridge \<Rightarrow> bool" where
  "ended_inv b \<longleftrightarrow> (br_phase b = BP_Ended (Inr ()) \<longrightarrow> br_lifecycle b \<in> {L_STOPPED, L_FAILED})"

text \<open>
  Once the listener is registered, the runtime of the bridge is in a state the runtime alone
  can reach from its initial state \<open>base\<close>, the one with the bridge's listener.
\<close>

abbreviation history_of :: "rts \<Rightarrow> message list" where
  "history_of base \<equiv> bucket (rs_store base) (cx_session_id (rs_ctx base))"

definition listening :: "bridge_config \<Rightarrow> bridge \<Rightarrow> rts" where
  "listening bc b = (if br_registered b then br_rt b else on_event (bc_listener bc) (br_rt b))"

definition bridge_inv :: "bridge_config \<Rightarrow> rts \<Rightarrow> bridge \<Rightarrow> bool" where
  "bridge_inv bc base b \<longleftrightarrow> rt_inv (bc_runtime bc) (history_of base) (br_rt b) \<and>
     reachable (bc_runtime bc) base (listening bc b) \<and> heard_inv bc b \<and> publish_inv b \<and> index_inv b \<and> ended_inv b"

abbreviation cancelled_turns :: "bridge \<Rightarrow> uuid set" where
  "cancelled_turns b \<equiv> cx_cancelled_turn_ids (rs_ctx (br_rt b))"

definition bridge_le :: "bridge \<Rightarrow> bridge \<Rightarrow> bool" where
  "bridge_le b b' \<longleftrightarrow> (br_registered b \<longrightarrow> br_registered b') \<and> cancelled_turns b \<subseteq> cancelled_turns b' \<and>
     prefix (br_events b) (br_events b') \<and>
     (\<exists>new. br_published b' = br_published b @ new \<and>
        (\<forall>f \<in> set new. \<forall>t. xo_turn_id f = Some t \<longrightarrow> t \<notin> cancelled_turns b))"

lemma bridge_le_refl: "bridge_le b b"
  by (simp add: bridge_le_def)

lemma bridge_le_trans: "bridge_le b c \<Longrightarrow> bridge_le c d \<Longrightarrow> bridge_le b d"
  unfolding bridge_le_def by (auto intro: prefix_order.trans) blast+

interpretation br: forward_invariant "bridge_inv bc base" bridge_le for bc base
  by unfold_locales (auto intro: bridge_le_refl bridge_le_trans)

text \<open>A change that touches neither the runtime nor the audio.\<close>

definition same_audio :: "bridge \<Rightarrow> bridge \<Rightarrow> bool" where
  "same_audio b b' \<longleftrightarrow> br_rt b' = br_rt b \<and> br_events b' = br_events b \<and> br_registered b' = br_registered b \<and>
     br_published b' = br_published b \<and> br_indexes b' = br_indexes b \<and>
     set (br_publishing b') \<subseteq> set (br_publishing b)"

lemma same_audio_ok:
  assumes "same_audio b b'" and "bridge_inv bc base b" and "ended_inv b'" and "br_registered b \<or> br_phase b' = BP_New"
  shows "bridge_inv bc base b' \<and> bridge_le b b'"
  using assms
  by (auto simp: same_audio_def bridge_inv_def bridge_le_def heard_inv_def publish_inv_def announced_def
      index_inv_def next_index_def listening_def)

lemma safe_same_audio:
  assumes "bridge_inv bc base b" and "same_audio b (f b)" and "ended_inv (f b)"
    and "br_registered b \<or> br_phase (f b) = BP_New" and "Q () (f b)"
  shows "br.safe bc base b (modify_eff f) Q"
  using same_audio_ok [OF assms(2,1,3,4)] assms(5) by (intro br.safe_modify) simp_all

lemma filter_deliveries:
  assumes "filter (\<lambda>l. l = x) ls = [x]"
  shows "map snd (filter (\<lambda>(l, e). l = x) (deliveries ls es)) = es"
proof -
  have "map snd (filter (\<lambda>(l, e). l = x) (map (\<lambda>l. (l, e)) ls)) = map (\<lambda>_. e) (filter (\<lambda>l. l = x) ls)" for e :: event
    by (induction ls) auto
  then show ?thesis using assms by (induction es) (simp_all add: deliveries_def)
qed

text \<open>The state of the bridge after the runtime has moved on to \<open>s\<close>.\<close>

lemma observe_ok:
  assumes "bridge_inv bc base b" and "br_registered b" and "s = perform (bc_runtime bc) a (br_rt b)"
  shows "bridge_inv bc base (observe bc s b) \<and> bridge_le b (observe bc s b)"
proof -
  have s: "rt_inv (bc_runtime bc) (history_of base) s" "rt_le (br_rt b) s" "reachable (bc_runtime bc) base s"
    using perform_safe [of "bc_runtime bc" "history_of base" "br_rt b" a] assms(1,2)
    by (auto simp: assms(3) bridge_inv_def listening_def intro: reach_step)
  obtain new where new: "rs_events s = rs_events (br_rt b) @ new"
    "rs_delivered s = rs_delivered (br_rt b) @ deliveries (rs_listeners (br_rt b)) new"
    using s(2) by (auto simp: rt_le_def)
  have h: "filter (\<lambda>l. l = bc_listener bc) (rs_listeners (br_rt b)) = [bc_listener bc]"
    "br_events b = rs_events (br_rt b)"
    using assms(1,2) by (simp_all add: bridge_inv_def heard_inv_def)
  have o: "observe bc s b = b\<lparr>br_rt := s, br_events := br_events b @ new,
      br_publishing := br_publishing b @ filter (\<lambda>e. ev_type e = ET_TTS_CHUNK) new\<rparr>"
    using filter_deliveries [OF h(1), of new] by (simp add: observe_def new(2) Let_def)
  have le: "rs_listeners s = rs_listeners (br_rt b)" "cancelled_turns b \<subseteq> cx_cancelled_turn_ids (rs_ctx s)"
    using s(2) by (simp_all add: rt_le_def)
  have "publish_inv b" using assms(1) by (simp add: bridge_inv_def)
  moreover have "announced b t \<Longrightarrow> announced (observe bc s b) t" for t by (auto simp: announced_def o)
  ultimately have "publish_inv (observe bc s b)"
    unfolding publish_inv_def by (simp add: o) blast
  moreover have "index_inv (observe bc s b)" "ended_inv (observe bc s b)"
    using assms(1) by (simp_all add: bridge_inv_def index_inv_def next_index_def ended_inv_def o)
  moreover have "heard_inv bc (observe bc s b)" "bridge_le b (observe bc s b)"
    using assms(2) h le new(1) by (simp_all add: heard_inv_def bridge_le_def o)
  ultimately show ?thesis using s(1,3) assms(2) by (simp add: bridge_inv_def) (simp add: o listening_def)
qed

definition same_place :: "bridge \<Rightarrow> unit \<Rightarrow> bridge \<Rightarrow> bool" where
  "same_place b x b' \<longleftrightarrow> br_registered b' \<and> br_phase b' = br_phase b \<and> br_lifecycle b' = br_lifecycle b"

lemma safe_runtime_call:
  assumes "bridge_inv bc base b" and "br_registered b"
  shows "br.safe bc base b (runtime_call bc a) (same_place b)"
proof -
  let ?s = "perform (bc_runtime bc) a (br_rt b)"
  from observe_ok [OF assms refl] show ?thesis
    by (intro br.safeI [of "runtime_call bc a" b _ "observe bc ?s b"])
      (use assms(2) in \<open>auto simp: runtime_call_def Let_def same_place_def observe_def\<close>)
qed

lemma safe_forward:
  "bridge_inv bc base b \<Longrightarrow> br_registered b \<Longrightarrow> br.safe bc base b (forward_input bc i) (same_place b)"
  unfolding forward_input_def by (rule safe_runtime_call)

lemma safe_skip: "bridge_inv bc base b \<Longrightarrow> br_registered b \<Longrightarrow> br.safe bc base b (ret ()) (same_place b)"
  by (rule br.safe_ret) (simp_all add: same_place_def)

lemma safe_any: "br.safe bc base b m Q \<Longrightarrow> br.safe bc base b m (\<lambda>_ _. True)"
  by (erule br.safe_weaken) simp

lemma safe_state: "br.safe bc base b m Q \<Longrightarrow> bridge_inv bc base (snd (m b)) \<and> bridge_le b (snd (m b))"
  by (simp add: br.safe_def)

lemma safe_after:
  assumes "br.safe bc base b m (same_place b)"
    and "\<And>b'. bridge_inv bc base b' \<Longrightarrow> br_registered b' \<Longrightarrow> br.safe bc base b' n (same_place b')"
  shows "br.safe bc base b (then_eff m n) (same_place b)"
proof (rule br.safe_then [OF assms(1)])
  fix x b' assume b': "bridge_inv bc base b'" "same_place b x b'"
  then show "br.safe bc base b' n (same_place b)"
    using assms(2) [OF b'(1)] by (auto simp: same_place_def intro: br.safe_weaken)
qed

section \<open>Callbacks and publishing\<close>

lemma safe_transition:
  assumes "bridge_inv bc base b" and "br_registered b \<or> br_phase b = BP_New"
    and "l \<in> {L_STOPPED, L_FAILED} \<or> br_phase b \<noteq> BP_Ended (Inr ())"
  shows "br.safe bc base b (transition l)
    (\<lambda>_ b'. br_registered b' = br_registered b \<and> br_phase b' = br_phase b \<and> br_lifecycle b' = l)"
  unfolding transition_def
  by (rule safe_same_audio [OF assms(1)]) (use assms(2,3) in \<open>auto simp: same_audio_def ended_inv_def\<close>)

lemma safe_note:
  assumes "bridge_inv bc base b" and "br_registered b" and "same_audio b (f b)"
    and "br_phase (f b) = br_phase b" and "br_lifecycle (f b) = br_lifecycle b"
  shows "br.safe bc base b (modify_eff f) (same_place b)"
  using assms(1)
  by (intro safe_same_audio)
    (use assms in \<open>simp_all add: same_place_def ended_inv_def bridge_inv_def same_audio_def\<close>)

lemma safe_report:
  assumes "bridge_inv bc base b" and "br_registered b"
  shows "br.safe bc base b (report_error bc x) (same_place b)"
  unfolding report_error_def record_transport_error_def
  by (intro safe_after [OF safe_note] br.safe_with br.safe_if safe_forward safe_skip)
    (use assms in \<open>simp_all add: same_audio_def\<close>)

lemma safe_transport_error:
  assumes "bridge_inv bc base b" and "br_registered b"
  shows "br.safe bc base b (on_transport_error bc x) (\<lambda>_ _. True)"
  unfolding on_transport_error_def
  by (rule br.safe_then [OF safe_report [OF assms]])
    (auto intro!: br.safe_with br.safe_if safe_any [OF safe_skip] safe_any [OF safe_transition] simp: same_place_def)

lemma safe_connect_failure:
  assumes "bridge_inv bc base b" and "br_registered b"
  shows "br.safe bc base b (handle_connect_failure bc m) (\<lambda>_ b'. br_registered b' \<and> br_phase b' = br_phase b)"
  unfolding handle_connect_failure_def
proof (intro br.safe_with br.safe_if)
  show "br.safe bc base b (ret ()) (\<lambda>_ b'. br_registered b' \<and> br_phase b' = br_phase b)"
    by (rule br.safe_ret) (simp_all add: assms)
  show "br.safe bc base b (then_eff (report_error bc \<lparr>xe_code = ''session_connect_failed'', xe_message = m, xe_retryable = False\<rparr>)
      (transition L_FAILED)) (\<lambda>_ b'. br_registered b' \<and> br_phase b' = br_phase b)"
    by (rule br.safe_then [OF safe_report [OF assms]], rule br.safe_weaken [OF safe_transition])
      (auto simp: same_place_def)
qed

lemma safe_audio_input:
  assumes "bridge_inv bc base b" and "br_registered b"
  shows "br.safe bc base b (on_audio_input bc k) (same_place b)"
  unfolding on_audio_input_def
  by (cases k; cases "current_live (br_rt b)")
    (auto intro!: br.safe_with br.safe_if safe_after safe_forward safe_skip assms)

lemma safe_audio_frame:
  assumes "bridge_inv bc base b" and "br_registered b"
  shows "br.safe bc base b (on_audio_frame bc f) (same_place b)"
  unfolding on_audio_frame_def
  by (intro br.safe_with br.safe_if safe_after safe_forward safe_skip assms)

lemma check_output_frame_Inr: "check_output_frame f = Inr f' \<Longrightarrow> f' = f"
  by (auto simp: check_output_frame_def map_sum_def split: if_splits sum.splits)

lemma safe_hand_over:
  assumes inv: "bridge_inv bc base b" and "br_registered b" and t: "announced b t" "t \<notin> cancelled_turns b"
  shows "br.safe bc base b (hand_over d t) (\<lambda>_ _. True)"
proof -
  let ?f = "\<lparr>xo_room_name = (case br_room b of None \<Rightarrow> [] | Some n \<Rightarrow> n), xo_audio = d,
    xo_chunk_index = next_index b t, xo_is_final = False, xo_turn_id = Some t\<rparr>"
  let ?b1 = "b\<lparr>br_indexes := (br_indexes b)(t \<mapsto> Suc (next_index b t))\<rparr>"
  let ?b2 = "?b1\<lparr>br_published := br_published b @ [?f]\<rparr>"
  have parts: "rt_inv (bc_runtime bc) (history_of base) (br_rt b)" "reachable (bc_runtime bc) base (br_rt b)" "heard_inv bc b" "publish_inv b" "index_inv b" "ended_inv b"
    using inv assms(2) by (simp_all add: bridge_inv_def listening_def)
  have n1: "next_index ?b1 u = (if u = t then Suc (next_index b t) else next_index b u)" for u
    by (simp add: next_index_def)
  have same: "announced ?b1 = announced b" "announced ?b2 = announced b" "next_index ?b2 = next_index ?b1"
    by (auto simp: announced_def next_index_def)
  have idx: "chunk_indexes u (br_published b @ [?f]) =
      chunk_indexes u (br_published b) @ (if u = t then [next_index b t] else [])" for u
    by (simp add: chunk_indexes_def)
  have "index_inv ?b1" using parts(5) by (auto simp: index_inv_def n1 less_Suc_eq)
  moreover have "index_inv ?b2"
    using parts(5) unfolding index_inv_def same n1 by (auto simp: idx sorted_wrt_append less_Suc_eq)
  moreover have "publish_inv ?b1" "publish_inv ?b2"
    using parts(4) t(1) by (auto simp: publish_inv_def same)
  ultimately have ok: "bridge_inv bc base ?b1" "bridge_inv bc base ?b2" "bridge_le b ?b1" "bridge_le b ?b2"
    using parts t(2) assms(2) by (simp_all add: bridge_inv_def listening_def heard_inv_def ended_inv_def bridge_le_def)
  have "snd (hand_over d t b) \<in> {?b1, ?b2}"
    by (cases "check_output_frame ?f")
      (auto simp: hand_over_def eff_defs Let_def dest: check_output_frame_Inr)
  with ok show ?thesis by (auto simp: br.safe_def)
qed

lemma safe_publish:
  assumes "bridge_inv bc base b" and "br_registered b" and "ev_type e = ET_TTS_CHUNK" and "e \<in> set (br_events b)"
  shows "br.safe bc base b (publish_tts_output bc resolve e) (\<lambda>_ _. True)"
proof -
  have skip: "br.safe bc base b (ret ()) (\<lambda>_ _. True)" by (rule safe_any [OF safe_skip [OF assms(1,2)]])
  have hand: "br.safe bc base b (bind_eff (lift_eff (resolve r)) (\<lambda>audio.
      case audio of None \<Rightarrow> ret () | Some d \<Rightarrow> hand_over d t)) (\<lambda>_ _. True)"
    if "ev_turn_id e = Some t" "\<not> is_turn_cancelled (rs_ctx (br_rt b)) t" for r t
  proof -
    have "announced b t" "t \<notin> cancelled_turns b"
      using assms(3,4) that by (auto simp: announced_def is_turn_cancelled_def)
    then have "br.safe bc base b (hand_over d t) (\<lambda>_ _. True)" for d by (rule safe_hand_over [OF assms(1,2)])
    with skip have "br.safe bc base b (case audio of None \<Rightarrow> ret () | Some d \<Rightarrow> hand_over d t) (\<lambda>_ _. True)" for audio
      by (cases audio) simp_all
    then show ?thesis by (cases "resolve r") (simp_all add: br.safe_def eff_defs assms(1) bridge_le_refl)
  qed
  show ?thesis
    unfolding publish_tts_output_def
    by (rule br.safe_with) (auto intro!: br.safe_if skip hand split: option.split payload.split)
qed

section \<open>run\<close>

definition step_ok :: "bridge_config \<Rightarrow> rts \<Rightarrow> bridge \<Rightarrow> bridge \<Rightarrow> bool" where
  "step_ok bc base b b' \<longleftrightarrow> bridge_inv bc base b' \<and> bridge_le b b' \<and> br_registered b'"

definition running_phase :: "bridge_config \<Rightarrow> rts \<Rightarrow> bridge \<Rightarrow> bool" where
  "running_phase bc base b \<longleftrightarrow> bridge_inv bc base b \<and> br_registered b \<and> br_phase b \<noteq> BP_Ended (Inr ())"

lemma step_ok_trans: "step_ok bc base b c \<Longrightarrow> step_ok bc base c d \<Longrightarrow> step_ok bc base b d"
  by (auto simp: step_ok_def intro: bridge_le_trans)

lemma step_ok_frame:
  assumes "bridge_inv bc base b" and "br_registered b" and "same_audio b b'" and "ended_inv b'"
  shows "step_ok bc base b b'"
  using same_audio_ok [OF assms(3,1,4)] assms(2,3) by (simp add: step_ok_def same_audio_def)

lemma step_ok_safe:
  assumes "br.safe bc base b m Q" and "br_registered b"
  shows "step_ok bc base b (snd (m b))"
  using safe_state [OF assms(1)] assms(2) by (simp add: step_ok_def bridge_le_def)

lemma end_run_ok:
  assumes "bridge_inv bc base b" and "br_registered b"
  shows "step_ok bc base b (end_run r b)"
  by (rule step_ok_frame [OF assms])
    (simp_all add: end_run_def transition_def modify_eff_def same_audio_def ended_inv_def Let_def)

lemma begin_disconnect_ok:
  assumes "bridge_inv bc base b" and "br_registered b"
  shows "step_ok bc base b (begin_disconnect r b)"
  unfolding begin_disconnect_def
  by (auto intro!: end_run_ok step_ok_frame assms simp: same_audio_def ended_inv_def)

lemma after_stop_ok:
  assumes "bridge_inv bc base b" and "br_registered b"
  shows "step_ok bc base b (after_stop x r b)"
  unfolding after_stop_def
  by (auto intro!: begin_disconnect_ok step_ok_frame assms simp: same_audio_def ended_inv_def split: sum.split)

lemma transition_ok:
  assumes "running_phase bc base b"
  shows "step_ok bc base b (snd (transition l b)) \<and> running_phase bc base (snd (transition l b))"
proof -
  have "step_ok bc base b (snd (transition l b))"
    using assms by (intro step_ok_frame) (simp_all add: running_phase_def transition_def modify_eff_def
      same_audio_def ended_inv_def)
  then show ?thesis using assms
    by (simp add: step_ok_def running_phase_def transition_def modify_eff_def)
qed

lemma teardown_ok:
  assumes "running_phase bc base b"
  shows "step_ok bc base b (teardown bc r b)"
proof -
  let ?b1 = "b\<lparr>br_publishing := []\<rparr>"
  define b2 where "b2 = (if br_lifecycle b \<in> {L_FAILED, L_STOPPING} then ?b1 else snd (transition L_STOPPING ?b1))"
  have inv: "bridge_inv bc base b" "br_registered b" and ph: "br_phase b \<noteq> BP_Ended (Inr ())"
    using assms by (simp_all add: running_phase_def)
  have "step_ok bc base b ?b1"
    using ph by (intro step_ok_frame [OF inv]) (simp_all add: same_audio_def ended_inv_def)
  moreover from this have "running_phase bc base ?b1" using ph by (simp add: running_phase_def step_ok_def)
  ultimately have b2: "step_ok bc base b b2" "running_phase bc base b2"
    using transition_ok [of bc base ?b1 L_STOPPING] unfolding b2_def by (auto intro: step_ok_trans)
  obtain x b3 where call: "runtime_call bc (Act_Stop ''transport_session_ended'') b2 = (x, b3)"
    by (cases "runtime_call bc (Act_Stop ''transport_session_ended'') b2")
  have "step_ok bc base b2 b3"
    using step_ok_safe [OF safe_runtime_call, of bc base b2 "Act_Stop ''transport_session_ended''"] b2(2) call
    by (simp add: running_phase_def)
  then have b3: "step_ok bc base b b3" "bridge_inv bc base b3" "br_registered b3"
    using step_ok_trans [OF b2(1)] by (simp_all add: step_ok_def)
  have wait: "step_ok bc base b (b3\<lparr>br_phase := BP_Stopping k r\<rparr>)" for k
    by (rule step_ok_trans [OF b3(1)], rule step_ok_frame [OF b3(2,3)]) (simp_all add: same_audio_def ended_inv_def)
  have "teardown bc r b =
     (if \<not> rs_running (br_rt b2) then begin_disconnect r b2
      else if rs_tasks (br_rt b3) (rs_next_task (br_rt b2)) \<noteq> None
      then b3\<lparr>br_phase := BP_Stopping (rs_next_task (br_rt b2)) r\<rparr> else after_stop x r b3)"
    unfolding teardown_def Let_def b2_def [symmetric] call prod.case by (rule refl)
  then show ?thesis
    using wait step_ok_trans [OF b2(1) begin_disconnect_ok] step_ok_trans [OF b3(1) after_stop_ok [OF b3(2,3)]] b2(2)
    by (simp add: running_phase_def)
qed

lemma run_failed_ok:
  assumes "running_phase bc base b"
  shows "step_ok bc base b (run_failed bc e b)"
proof -
  have inv: "bridge_inv bc base b" "br_registered b" using assms by (simp_all add: running_phase_def)
  obtain r b' where call: "handle_connect_failure bc (bc_exn_text bc e) b = (r, b')"
    by (cases "handle_connect_failure bc (bc_exn_text bc e) b")
  note safe = safe_connect_failure [OF inv, of "bc_exn_text bc e"]
  have "step_ok bc base b b'" using step_ok_safe [OF safe inv(2)] call by simp
  moreover have "br_phase b' = br_phase b"
    using call by (auto simp: handle_connect_failure_def report_error_def record_transport_error_def forward_input_def
      runtime_call_def transition_def eff_defs observe_def Let_def split: if_splits sum.splits option.splits prod.splits)
  ultimately have "step_ok bc base b b'" "running_phase bc base b'"
    using assms by (simp_all add: running_phase_def step_ok_def)
  then show ?thesis using step_ok_trans teardown_ok call by (auto simp: run_failed_def)
qed

lemma run_raised_ok:
  assumes "running_phase bc base b"
  shows "step_ok bc base b (run_raised bc e b)"
  using run_failed_ok [OF assms] transition_ok [OF assms, of L_STOPPING]
  by (auto simp: run_raised_def run_cancelled_def intro: step_ok_trans teardown_ok)

lemma listeners_inv: "rt_inv cfg base (s\<lparr>rs_listeners := ls\<rparr>) \<longleftrightarrow> rt_inv cfg base s"
  by (simp add: rt_inv_def rt_core_def events_inv_def turns_inv_def turn_entry_ok_def cancel_inv_def history_inv_def
    tasks_inv_def quiet_def turn_live_def)

lemma registered_ok:
  assumes "bridge_inv bc base b" and "\<not> br_registered b"
  shows "bridge_inv bc base (snd (register_listener bc b)) \<and> br_registered (snd (register_listener bc b))"
    and "cancelled_turns (snd (register_listener bc b)) = cancelled_turns b"
    and "br_published (snd (register_listener bc b)) = br_published b"
    and "br_phase (snd (register_listener bc b)) = BP_New"
    and "br_events (snd (register_listener bc b)) = br_events b"
  using assms
  by (auto simp: register_listener_def modify_eff_def on_event_def bridge_inv_def heard_inv_def publish_inv_def
      index_inv_def next_index_def ended_inv_def announced_def dormant_def listeners_inv filter_empty_conv listening_def)

lemma after_registering_ok:
  assumes "bridge_inv bc base b" and "br_registered b" and "br_phase b = BP_New"
  shows "step_ok bc base b (case then_eff (runtime_call bc Act_Start) (then_eff (transition L_CONNECTING)
     (modify_eff (\<lambda>b. b\<lparr>br_room := Some room, br_phase := BP_Connecting\<rparr>))) b of
       (Inl e, b') \<Rightarrow> run_raised bc e b' | (Inr _, b') \<Rightarrow> b')"
proof -
  obtain x b1 where call: "runtime_call bc Act_Start b = (x, b1)" by (cases "runtime_call bc Act_Start b")
  have b1: "step_ok bc base b b1" using step_ok_safe [OF safe_runtime_call [OF assms(1,2)] assms(2), of Act_Start] call by simp
  have "br_phase b1 = BP_New" using call assms(3) by (auto simp: runtime_call_def observe_def Let_def)
  with b1 have run: "running_phase bc base b1" by (simp add: running_phase_def step_ok_def)
  show ?thesis
  proof (cases x)
    case (Inl e)
    then show ?thesis using step_ok_trans [OF b1 run_raised_ok [OF run]] call by (simp add: then_eff_def bind_eff_def)
  next
    case (Inr u)
    let ?b2 = "snd (transition L_CONNECTING b1)"
    have b2: "step_ok bc base b ?b2" "bridge_inv bc base ?b2" "br_registered ?b2"
      using step_ok_trans [OF b1] transition_ok [OF run, of L_CONNECTING] by (simp_all add: running_phase_def)
    have "step_ok bc base b (?b2\<lparr>br_room := Some room, br_phase := BP_Connecting\<rparr>)"
      by (rule step_ok_trans [OF b2(1)], rule step_ok_frame [OF b2(2,3)]) (simp_all add: same_audio_def ended_inv_def)
    with Inr call show ?thesis by (simp add: then_eff_def bind_eff_def transition_def modify_eff_def)
  qed
qed

lemma begin_run_ok:
  assumes "bridge_inv bc base b" and "br_phase b = BP_New"
  shows "bridge_inv bc base (begin_run bc room b) \<and> bridge_le b (begin_run bc room b)"
proof -
  define b1 where "b1 = snd (transition L_INITIALIZING b)"
  define b2 where "b2 = snd (register_listener bc b1)"
  have b1: "bridge_inv bc base b1" "bridge_le b b1" "br_phase b1 = BP_New" "br_registered b1 = br_registered b"
    using same_audio_ok [of b b1 bc base] assms
    by (simp_all add: b1_def transition_def modify_eff_def same_audio_def ended_inv_def)
  have b2: "bridge_inv bc base b2" "bridge_le b b2" "br_phase b2 = BP_New" "br_registered b2"
  proof -
    have "bridge_inv bc base b2 \<and> bridge_le b1 b2 \<and> br_phase b2 = BP_New \<and> br_registered b2"
    proof (cases "br_registered b1")
      case True
      with b1 show ?thesis by (simp add: b2_def register_listener_def modify_eff_def bridge_le_refl)
    next
      case False
      from registered_ok [OF b1(1) this] show ?thesis by (simp add: b2_def bridge_le_def False)
    qed
    with b1(2) show "bridge_inv bc base b2" "bridge_le b b2" "br_phase b2 = BP_New" "br_registered b2"
      by (auto intro: bridge_le_trans)
  qed
  have "begin_run bc room b = (case then_eff (runtime_call bc Act_Start) (then_eff (transition L_CONNECTING)
     (modify_eff (\<lambda>b. b\<lparr>br_room := Some room, br_phase := BP_Connecting\<rparr>))) b2 of
       (Inl e, b') \<Rightarrow> run_raised bc e b' | (Inr _, b') \<Rightarrow> b')"
    by (simp add: begin_run_def b2_def b1_def then_eff_def bind_eff_def transition_def register_listener_def modify_eff_def)
  with after_registering_ok [OF b2(1,4,3), of room] b2(2) show ?thesis
    by (auto simp: step_ok_def intro: bridge_le_trans)
qed

lemma dormant_perform:
  assumes "dormant s" and "internal a"
  shows "dormant (perform cfg a s) \<and> rs_listeners (perform cfg a s) = rs_listeners s \<and>
    rs_ctx (perform cfg a s) = rs_ctx s \<and> on_event l (perform cfg a s) = perform cfg a (on_event l s)"
  using assms by (cases a) (auto simp: dormant_def on_event_def split: option.splits wait.splits)

lemma callback_ok:
  assumes "bridge_inv bc base b" and "\<And>b. bridge_inv bc base b \<Longrightarrow> br_registered b \<Longrightarrow> br.safe bc base b m Q"
  shows "bridge_inv bc base (callback m b) \<and> bridge_le b (callback m b)"
  using assms safe_state [OF assms(2)] by (auto simp: callback_def bridge_le_refl)

lemma bridge_step_ok:
  assumes inv: "bridge_inv bc base b"
  shows "bridge_inv bc base (bridge_step bc a b) \<and> bridge_le b (bridge_step bc a b)"
proof (cases "br_registered b")
  case False
  then have d: "dormant (br_rt b)" "br_phase b = BP_New" and e: "br_publishing b = []"
    using inv by (auto simp: bridge_inv_def heard_inv_def publish_inv_def)
  have quiet: "bridge_inv bc base b' \<and> bridge_le b b'" if "same_audio b b'" "br_phase b' = BP_New" for b'
    using same_audio_ok [OF that(1) inv] that by (simp add: ended_inv_def)
  show ?thesis
  proof (cases a)
    case (BA_Run room)
    with begin_run_ok [OF inv d(2)] d(2) show ?thesis by simp
  next
    case (BA_Runtime x)
    show ?thesis
    proof (cases "internal x")
      case True
      let ?s = "perform (bc_runtime bc) x (br_rt b)"
      note p = dormant_perform [OF d(1) True, of "bc_runtime bc" "bc_listener bc"]
      have "observe bc ?s b = b\<lparr>br_rt := ?s\<rparr>"
        using p d(1) by (simp add: observe_def dormant_def)
      moreover have "rt_inv (bc_runtime bc) (history_of base) ?s" "reachable (bc_runtime bc) base (on_event (bc_listener bc) ?s)"
        using perform_safe [of "bc_runtime bc"] inv False p
        by (auto simp: bridge_inv_def listening_def simp del: perform.simps intro: reach_step)
      ultimately show ?thesis
        using inv p False BA_Runtime True
        by (auto simp: bridge_inv_def heard_inv_def publish_inv_def announced_def index_inv_def next_index_def
            ended_inv_def bridge_le_def listening_def simp del: perform.simps)
    next
      case False
      then show ?thesis using inv BA_Runtime by (simp add: bridge_le_refl)
    qed
  qed (use d e False inv quiet in \<open>auto simp: callback_def bridge_handle_input_def eff_defs dormant_def same_audio_def bridge_le_refl\<close>)
next
  case True
  have frame: "bridge_inv bc base b' \<and> bridge_le b b'" if "same_audio b b'" "ended_inv b'" for b'
    using same_audio_ok [OF that(1) inv that(2)] True by simp
  have ok: "bridge_inv bc base b' \<and> bridge_le b b'" if "step_ok bc base b b'" for b'
    using that by (simp add: step_ok_def)
  have run: "running_phase bc base b" if "br_phase b \<noteq> BP_Ended (Inr ())"
    using inv True that by (simp add: running_phase_def)
  have same: "bridge_inv bc base b \<and> bridge_le b b" using inv by (simp add: bridge_le_refl)
  have seen: "bridge_inv bc base (observe bc (perform (bc_runtime bc) x (br_rt b)) b) \<and>
      bridge_le b (observe bc (perform (bc_runtime bc) x (br_rt b)) b)" for x
    by (rule observe_ok [OF inv True refl])
  show ?thesis
  proof (cases a)
    case (BA_Run room)
    with begin_run_ok [OF inv] same show ?thesis by simp
  next
    case (BA_Connected x)
    show ?thesis
    proof (cases "br_phase b = BP_Connecting")
      case True
      then have r: "running_phase bc base b" by (intro run) simp
      have t: "step_ok bc base b (snd (transition L_CONNECTED b))" "running_phase bc base (snd (transition L_CONNECTED b))"
        using transition_ok [OF r] by blast+
      have "step_ok bc base b ((snd (transition L_CONNECTED b))\<lparr>br_phase := BP_Waiting\<rparr>)"
        using t(2) by (intro step_ok_trans [OF t(1)] step_ok_frame)
          (simp_all add: running_phase_def same_audio_def ended_inv_def)
      with run_raised_ok [OF r] ok True BA_Connected show ?thesis by (simp add: connected_def split: sum.split)
    qed (use same BA_Connected in simp)
  next
    case (BA_Woken x)
    show ?thesis
    proof (cases "br_phase b = BP_Waiting \<and> (x = None \<longrightarrow> br_shutdown b)")
      case True
      then have r: "running_phase bc base b" by (intro run) simp
      have "step_ok bc base b (woken bc x b)"
        using run_raised_ok [OF r] teardown_ok [OF r] transition_ok [OF r, of L_STOPPING]
        by (auto simp: woken_def intro: step_ok_trans [OF _ teardown_ok] split: option.split sum.split)
      with ok True BA_Woken show ?thesis by simp
    qed (use same BA_Woken in auto)
  next
    case BA_Stopped
    then show ?thesis
      using same ok [OF after_stop_ok [OF inv True]] by (auto split: phase.split option.split)
  next
    case (BA_Disconnected x)
    then show ?thesis using same ok [OF end_run_ok [OF inv True]] by (auto split: phase.split)
  next
    case BA_Cancel
    have c: "step_ok bc base b (run_cancelled bc b)" if "br_phase b \<noteq> BP_Ended (Inr ())"
      using transition_ok [OF run [OF that], of L_STOPPING] by (auto simp: run_cancelled_def intro: step_ok_trans teardown_ok)
    have st: "bridge_inv bc base (after_stop x r (observe bc (perform (bc_runtime bc) y (br_rt b)) b)) \<and>
        bridge_le b (after_stop x r (observe bc (perform (bc_runtime bc) y (br_rt b)) b))" for x r y
    proof -
      let ?o = "observe bc (perform (bc_runtime bc) y (br_rt b)) b"
      have "step_ok bc base ?o (after_stop x r ?o)"
        using seen [of y] True by (intro after_stop_ok) (simp_all add: observe_def Let_def)
      with seen [of y] show ?thesis by (auto simp: step_ok_def intro: bridge_le_trans)
    qed
    show ?thesis
      using BA_Cancel same ok [OF c] st ok [OF end_run_ok [OF inv True]]
      by (auto simp del: perform.simps split: phase.split)
  next
    case BA_Shutdown
    then show ?thesis using inv frame [of "b\<lparr>br_shutdown := True\<rparr>"]
      by (simp add: same_audio_def ended_inv_def bridge_inv_def)
  next
    case (BA_Input i)
    have "br.safe bc base b (bridge_handle_input bc i) (\<lambda>_ _. True)"
      unfolding bridge_handle_input_def
      by (intro br.safe_with br.safe_if br.safe_throw safe_any [OF safe_forward] inv True)
    from safe_state [OF this] BA_Input show ?thesis by simp
  next
    case (BA_Runtime x)
    then show ?thesis using seen same by simp
  next
    case (BA_State c)
    have "same_audio b (snd (on_connection_state c (b\<lparr>br_conn := c\<rparr>)))" "ended_inv (snd (on_connection_state c (b\<lparr>br_conn := c\<rparr>)))"
      using inv by (simp_all add: on_connection_state_def modify_eff_def same_audio_def ended_inv_def bridge_inv_def)
    with frame BA_State True show ?thesis by (simp add: callback_def)
  next
    case (BA_Participant p)
    have "same_audio b (snd (on_participant_event p b))" "ended_inv (snd (on_participant_event p b))"
      using inv by (simp_all add: on_participant_event_def modify_eff_def same_audio_def ended_inv_def bridge_inv_def)
    with frame BA_Participant True show ?thesis by (simp add: callback_def)
  next
    case (BA_Error x)
    with callback_ok [OF inv safe_transport_error] show ?thesis by simp
  next
    case (BA_AudioInput k)
    with callback_ok [OF inv, of "on_audio_input bc k" "\<lambda>_ _. True"] safe_any [OF safe_audio_input] show ?thesis by simp
  next
    case (BA_AudioFrame f)
    with callback_ok [OF inv, of "on_audio_frame bc f" "\<lambda>_ _. True"] safe_any [OF safe_audio_frame] show ?thesis by simp
  next
    case (BA_Publish resolve)
    show ?thesis
    proof (cases "br_publishing b")
      case (Cons e es)
      let ?b = "b\<lparr>br_publishing := es\<rparr>"
      have b: "bridge_inv bc base ?b" "bridge_le b ?b"
        using frame [of ?b] inv Cons by (auto simp: same_audio_def ended_inv_def bridge_inv_def)
      have "ev_type e = ET_TTS_CHUNK" "e \<in> set (br_events ?b)"
        using inv Cons by (auto simp: bridge_inv_def publish_inv_def)
      from safe_state [OF safe_publish [OF b(1) _ this]] True have
        "bridge_inv bc base (snd (publish_tts_output bc resolve e ?b)) \<and> bridge_le ?b (snd (publish_tts_output bc resolve e ?b))"
        by simp
      with b(2) Cons BA_Publish show ?thesis by (auto intro: bridge_le_trans)
    qed (use same BA_Publish in simp)
  qed
qed

lemma bridge_run_ok:
  "bridge_inv bc base b \<Longrightarrow> bridge_inv bc base (bridge_run bc acts b) \<and> bridge_le b (bridge_run bc acts b)"
proof (induction acts arbitrary: b)
  case (Cons a acts)
  then show ?case using bridge_step_ok [of bc base b a] by (auto intro: bridge_le_trans)
qed (simp add: bridge_le_refl)

lemma init_bridge_inv:
  assumes "fresh_context c" and "bc_listener bc \<notin> set ls"
  shows "bridge_inv bc (init_runtime c (ls @ [bc_listener bc]) store) (init_bridge (init_runtime c ls store))"
proof -
  have "on_event (bc_listener bc) (init_runtime c ls store) = init_runtime c (ls @ [bc_listener bc]) store"
    by (simp add: on_event_def init_runtime_def)
  then show ?thesis
    using init_inv [OF assms(1) refl, of "bc_runtime bc" store ls] assms(2)
    by (simp add: bridge_inv_def heard_inv_def publish_inv_def index_inv_def ended_inv_def init_bridge_def
        chunk_indexes_def dormant_def listening_def reach_init) (simp add: init_runtime_def)
qed

lemma bridge_reachable_inv:
  assumes "bridge_reachable bc (init_bridge (init_runtime c ls store)) b"
    and "fresh_context c" and "bc_listener bc \<notin> set ls"
  shows "bridge_inv bc (init_runtime c (ls @ [bc_listener bc]) store) b"
  using assms(1)
proof (induction rule: bridge_reachable.induct)
  case bridge_init
  show ?case by (rule init_bridge_inv [OF assms(2,3)])
next
  case (bridge_next b a)
  then show ?case using bridge_step_ok by blast
qed

end
