(* ===== verification/BridgeProps.thy ===== *)
theory BridgeProps
  imports BridgeInv
begin

text \<open>
  The properties of the media bridge: it drives the runtime through its interface only, hears
  every event, hands synthesized audio of uncancelled turns to the transport in order, lets a
  participant take over the conversation, and what its end state says of a failure.
\<close>

section \<open>How a bridge ends\<close>

text \<open>A teardown ends as failed what had failed, and everything else as stopped.\<close>

definition end_states :: "lifecycle_state \<Rightarrow> lifecycle_state set" where
  "end_states l = (if l = L_FAILED then {L_FAILED} else {L_STOPPING, L_STOPPED})"

lemma end_run_lifecycle: "br_lifecycle (end_run r b) = (if br_lifecycle b = L_FAILED then L_FAILED else L_STOPPED)"
  by (simp add: end_run_def transition_def modify_eff_def)

lemma after_stop_lifecycle:
  assumes "br_lifecycle b \<in> {L_FAILED, L_STOPPING}"
  shows "br_lifecycle (after_stop x r b) \<in> end_states (br_lifecycle b)"
    and "br_lifecycle (begin_disconnect r b) \<in> end_states (br_lifecycle b)"
  using assms by (auto simp: after_stop_def begin_disconnect_def end_run_lifecycle end_states_def split: sum.split)

lemma runtime_call_lifecycle: "runtime_call bc a b = (x, b') \<Longrightarrow> br_lifecycle b' = br_lifecycle b"
  by (auto simp: runtime_call_def observe_def Let_def)

lemma teardown_lifecycle: "br_lifecycle (teardown bc r b) \<in> end_states (br_lifecycle b)"
proof -
  define b2 where "b2 = (if br_lifecycle b \<in> {L_FAILED, L_STOPPING} then b\<lparr>br_publishing := []\<rparr>
    else snd (transition L_STOPPING (b\<lparr>br_publishing := []\<rparr>)))"
  obtain x b3 where call: "runtime_call bc (Act_Stop ''transport_session_ended'') b2 = (x, b3)"
    by (cases "runtime_call bc (Act_Stop ''transport_session_ended'') b2")
  have b2: "br_lifecycle b2 \<in> {L_FAILED, L_STOPPING}" "end_states (br_lifecycle b2) = end_states (br_lifecycle b)"
    by (simp_all add: b2_def transition_def modify_eff_def end_states_def)
  have b3: "br_lifecycle b3 = br_lifecycle b2" by (rule runtime_call_lifecycle [OF call])
  have "teardown bc r b = (if \<not> rs_running (br_rt b2) then begin_disconnect r b2
      else if rs_tasks (br_rt b3) (rs_next_task (br_rt b2)) \<noteq> None
        then b3\<lparr>br_phase := BP_Stopping (rs_next_task (br_rt b2)) r\<rparr> else after_stop x r b3)"
    unfolding teardown_def Let_def b2_def [symmetric] call prod.case by (rule refl)
  then show ?thesis
    using after_stop_lifecycle(2) [of b2 r] after_stop_lifecycle(1) [of b3 x r] b2 b3
    by (auto simp: end_states_def)
qed

section \<open>A participant speaks\<close>

text \<open>Speech that starts while no turn is current opens a new, live turn.\<close>

lemma speech_starts_turn:
  assumes "rt_inv cfg base s" and "rs_running s" and "\<not> cx_shutdown (rs_ctx s)" and "rs_current s = None"
    and "s' = perform cfg (Act_Input speech_started_input) s"
  shows "\<exists>u e. current_live s' = Some u \<and> u \<notin> dom (rs_turns s) \<and> rs_events s' = rs_events s @ [e] \<and>
     ev_type e = ET_USER_SPEECH_STARTED \<and> ev_turn_id e = Some u \<and> rs_done s' (rs_next_task s) = Some (Inr ())"
proof -
  let ?s = "s\<lparr>rs_next_task := rs_next_task s + 1\<rparr>" and ?u = "rs_fresh s"
  obtain s1 x where begun: "begin_turn ?s = (Inr ?u, s1)" "rs_turns s1 = (rs_turns s)(?u \<mapsto> x)" "\<not> is_terminal (rt_state x)"
    "rs_current s1 = Some ?u" "cx_cancelled_turn_ids (rs_ctx s1) = cx_cancelled_turn_ids (rs_ctx s)"
    "cx_sequence (rs_ctx s1) = cx_sequence (rs_ctx s)" "rs_events s1 = rs_events s"
    using assms(4) by (simp add: begin_turn_def next_turn_sequence_def turn_op_defs create_turn_def Let_def)
  have new: "?u \<notin> dom (rs_turns s)"
    using assms(1) by (force simp: rt_inv_def rt_core_def turns_inv_def turn_entry_ok_def)
  then have fresh: "?u \<notin> dom (rs_turns s)" "?u \<notin> cx_cancelled_turn_ids (rs_ctx s)" "0 \<le> cx_sequence (rs_ctx s)"
    using assms(1) by (auto simp: rt_inv_def rt_core_def cancel_inv_def events_inv_def)
  have shape: "builder_shape ET_USER_SPEECH_STARTED (UserSpeechStartedPayload None) (Some ?u)"
    by (simp add: builder_shape_def)
  obtain e s2 where e: "emit (user_speech_started_event ?u) s1 = (Inr True, s2)" "emitted s1 e s2"
    "ev_type e = ET_USER_SPEECH_STARTED" "ev_turn_id e = Some ?u"
  proof -
    have "0 \<le> cx_sequence (rs_ctx s1)" "\<forall>u. Some ?u = Some u \<longrightarrow>
        ET_USER_SPEECH_STARTED \<in> stale_if_turn_cancelled \<longrightarrow> u \<notin> cx_cancelled_turn_ids (rs_ctx s1)"
      using fresh begun(5,6) by simp_all
    with shape show thesis
    proof (cases rule: emit_cases [where src = SRC_VAD])
      case (built e s2)
      then show thesis by (intro that [of s2 e]) (simp_all add: user_speech_started_event_def)
    qed (simp add: confidence_ok_def)
  qed
  have "\<exists>s3. handle_input cfg speech_started_input ?s = (Inr None, s3) \<and> rs_turns s3 = rs_turns s2 \<and>
      rs_current s3 = rs_current s2 \<and> rs_events s3 = rs_events s2"
    using assms(2,3) begun(1) e(1)
    by (simp add: handle_input_def speech_started_input_def input_of_kind_def handle_user_speech_started_def
        finished_def with_state_def bind_eff_def then_eff_def ret_def spawn_stt_def new_token_def modify_eff_def Let_def)
  then show ?thesis
    using begun(2-4,7) fresh(1) e(2-4)
    by (auto simp: assms(5) client_call_def settle_def current_live_def turn_live_def emitted_def
        intro!: exI [of _ ?u] exI [of _ e])
qed

lemma observed_events:
  assumes "bridge_inv bc base b" and "br_registered b" and "forward_input bc i b = (x, b')"
  shows "bridge_inv bc base b'" and "br_registered b'" and "br_rt b' = perform (bc_runtime bc) (Act_Input i) (br_rt b)"
    and "br_events b' = rs_events (perform (bc_runtime bc) (Act_Input i) (br_rt b))"
proof -
  show inv: "bridge_inv bc base b'" "br_registered b'" "br_rt b' = perform (bc_runtime bc) (Act_Input i) (br_rt b)"
    using safe_state [OF safe_forward [OF assms(1,2), of i]] assms(2,3)
    by (auto simp: forward_input_def runtime_call_def observe_def Let_def simp del: perform.simps)
  then show "br_events b' = rs_events (perform (bc_runtime bc) (Act_Input i) (br_rt b))"
    by (simp add: bridge_inv_def heard_inv_def)
qed

lemma tts_chunk_announced:
  assumes "rt_inv cfg base s" and "rs_tasks s k = Some (W_Tts p reply rq)" and "\<not> pipe_stopped s p"
    and "tk_text_range c = None" and "between_len 1 1024 (tk_audio_ref c)"
  obtains e s1 where "emitted s e s1" and "ev_type e = ET_TTS_CHUNK" and "ev_turn_id e = Some (pp_turn p)"
    and "ev_payload e = TTSChunkPayload (tk_audio_ref c) None"
    and "perform cfg (Act_Resume k (S_TtsChunk c)) s = s1\<lparr>rs_tasks := (rs_tasks s1)(k \<mapsto> W_Tts p reply rq)\<rparr>"
proof -
  have c0: "0 \<le> cx_sequence (rs_ctx s)" using assms(1) by (simp add: rt_inv_def rt_core_def events_inv_def)
  have shape: "builder_shape ET_TTS_CHUNK (TTSChunkPayload (tk_audio_ref c) None) (Some (pp_turn p))"
    by (simp add: builder_shape_def)
  have "\<forall>u. Some (pp_turn p) = Some u \<longrightarrow> ET_TTS_CHUNK \<in> stale_if_turn_cancelled \<longrightarrow> u \<notin> cx_cancelled_turn_ids (rs_ctx s)"
    using not_pipe_stopped [OF assms(3)] by simp
  from shape c0 this obtain e s1 where e: "emit (tts_chunk_event (pp_turn p) (tk_audio_ref c) None) s = (Inr True, s1)"
    "emitted s e s1" "ev_type e = ET_TTS_CHUNK" "ev_turn_id e = Some (pp_turn p)"
    "ev_payload e = TTSChunkPayload (tk_audio_ref c) None"
  proof (cases rule: emit_cases [where src = SRC_TTS])
    case (invalid x)
    then show thesis using assms(5) by simp
  next
    case (built e s1)
    then show thesis by (intro that [of s1 e]) (simp_all add: tts_chunk_event_def)
  qed
  have "in_both p (tts_chunk cfg p reply rq c) s = (Inr (Some (W_Tts p reply rq)), s1)"
    using e(1) assms(3,4)
    by (simp add: in_both_def in_origin_def in_pipeline_def on_exit_def tts_chunk_def eff_defs)
  then have "perform cfg (Act_Resume k (S_TtsChunk c)) s = s1\<lparr>rs_tasks := (rs_tasks s1)(k \<mapsto> W_Tts p reply rq)\<rparr>"
    using assms(2) by (simp add: settle_def)
  with e(2-5) show thesis by (rule that)
qed

text \<open>The runtime's own tasks take the bridge's runtime where they would take it alone.\<close>

definition same_bridge :: "bridge \<Rightarrow> bridge \<Rightarrow> bool" where
  "same_bridge b b' \<longleftrightarrow> br_conn b' = br_conn b \<and> br_lifecycle b' = br_lifecycle b \<and> br_room b' = br_room b \<and>
     br_indexes b' = br_indexes b \<and> br_published b' = br_published b"

lemma runtime_steps:
  assumes "list_all internal acts"
  shows "br_rt (bridge_run bc (map BA_Runtime acts) b) = run (bc_runtime bc) acts (br_rt b) \<and>
     same_bridge b (bridge_run bc (map BA_Runtime acts) b)"
  using assms
  by (induction acts arbitrary: b) (simp_all add: same_bridge_def observe_def Let_def del: perform.simps)

lemma input_step:
  assumes "rs_running (br_rt b)"
  shows "br_rt (bridge_step bc (BA_Input i) b) = perform (bc_runtime bc) (Act_Input i) (br_rt b) \<and>
     same_bridge b (bridge_step bc (BA_Input i) b)"
  using assms
  by (simp add: bridge_handle_input_def with_state_def forward_input_def runtime_call_def observe_def same_bridge_def
      Let_def del: perform.simps)


section \<open>Properties\<close>

lemma runtime_reachable:
  assumes "fresh_context c" and "bc_listener bc \<notin> set ls"
    and "bridge_reachable bc (init_bridge (init_runtime c ls store)) b" and "br_registered b"
  shows "reachable (bc_runtime bc) (init_runtime c (ls @ [bc_listener bc]) store) (br_rt b)"
  using bridge_reachable_inv [OF assms(3,1,2)] assms(4) by (simp add: bridge_inv_def listening_def)

text \<open>
  C11. The bridge only drives the runtime through its interface: whatever the transport does,
  the runtime of a registered bridge is in a state the runtime's own transition system reaches
  from its initial state with the bridge's listener, so that everything proved of reachable
  runtimes holds of it.
\<close>

theorem bridge_refines_runtime:
  assumes "fresh_context c" and "bc_listener bc \<notin> set ls"
    and "bridge_reachable bc (init_bridge (init_runtime c ls store)) b" and "br_registered b"
  shows "reachable (bc_runtime bc) (init_runtime c (ls @ [bc_listener bc]) store) (br_rt b)"
  using assms by (rule runtime_reachable)

text \<open>
  C14. A participant who starts to speak takes over: the live turn is cancelled, with an
  interruption as its last event, and a new live turn has been opened before the callback
  returns.
\<close>

theorem barge_in:
  assumes "fresh_context c" and "bc_listener bc \<notin> set ls"
    and "bridge_reachable bc (init_bridge (init_runtime c ls store)) b"
    and "voice_input_enabled bc b" and "current_live (br_rt b) = Some t"
    and "b' = bridge_step bc (BA_AudioInput AI_STARTED) b"
  shows "\<exists>u e1 e2. current_live (br_rt b') = Some u \<and> u \<noteq> t \<and> t \<in> cx_cancelled_turn_ids (rs_ctx (br_rt b')) \<and>
     br_events b' = br_events b @ [e1, e2] \<and> ev_type e1 = ET_AGENT_INTERRUPTED \<and> ev_turn_id e1 = Some t \<and>
     ev_type e2 = ET_USER_SPEECH_STARTED \<and> ev_turn_id e2 = Some u"
proof -
  let ?cfg = "bc_runtime bc" and ?base = "init_runtime c (ls @ [bc_listener bc]) store"
  have inv: "bridge_inv bc ?base b" by (rule bridge_reachable_inv [OF assms(3,1,2)])
  have run: "rs_running (br_rt b)" using assms(4) by (simp add: voice_input_enabled_def)
  then have reg: "br_registered b" using inv by (auto simp: bridge_inv_def heard_inv_def dormant_def split: if_splits)
  have live: "turn_live (br_rt b) t"
    using assms(5) by (auto simp: current_live_def split: option.splits if_splits)
  obtain x1 b1 where f1: "forward_input bc (cancel_turn_input (Some t)) b = (x1, b1)" by fastforce
  obtain x2 b2 where f2: "forward_input bc speech_started_input b1 = (x2, b2)" by fastforce
  note o1 = observed_events [OF inv reg f1]
  note o2 = observed_events [OF o1(1,2) f2]
  have "reachable ?cfg ?base (br_rt b)" by (rule runtime_reachable [OF assms(1-3) reg])
  from cancel_takes_effect [OF assms(1) this run live, of "Some t"] obtain x e1 where
    c: "rs_turns (br_rt b1) t = Some x" "rt_state x = T_CANCELLED" "rs_current (br_rt b1) = None"
    "rs_done (br_rt b1) (rs_next_task (br_rt b)) = Some (Inr ())" "rs_events (br_rt b1) = rs_events (br_rt b) @ [e1]"
    "ev_type e1 = ET_AGENT_INTERRUPTED" "ev_turn_id e1 = Some t" "rs_running (br_rt b1)" "\<not> cx_shutdown (rs_ctx (br_rt b1))"
    unfolding o1(3) by (auto simp del: perform.simps)
  have rt1: "rt_inv ?cfg (history_of ?base) (br_rt b1)" using o1(1) by (simp add: bridge_inv_def)
  from speech_starts_turn [OF rt1 c(8,9,3) refl] obtain u e2 where
    n: "current_live (br_rt b2) = Some u" "u \<notin> dom (rs_turns (br_rt b1))"
    "rs_events (br_rt b2) = rs_events (br_rt b1) @ [e2]" "ev_type e2 = ET_USER_SPEECH_STARTED" "ev_turn_id e2 = Some u"
    unfolding o2(3) by blast
  have "x1 = Inr ()"
    using f1 c(4) o1(3) by (auto simp: forward_input_def runtime_call_def Let_def simp del: perform.simps)
  then have "b' = b2"
    using f1 f2 assms(4,5) reg
    by (simp add: assms(6) callback_def on_audio_input_def with_state_def then_eff_def bind_eff_def)
  moreover have "t \<in> cx_cancelled_turn_ids (rs_ctx (br_rt b2))"
  proof -
    have "t \<in> cx_cancelled_turn_ids (rs_ctx (br_rt b1))"
      using rt1 c(1,2) by (simp add: rt_inv_def rt_core_def cancel_inv_def)
    moreover have "rt_le (br_rt b1) (br_rt b2)" unfolding o2(3) using perform_safe [OF rt1] by blast
    ultimately show ?thesis by (auto simp: rt_le_def)
  qed
  moreover have "br_events b2 = br_events b @ [e1, e2]"
    using o2(4) n(3) c(5) inv reg unfolding o2(3) by (simp add: bridge_inv_def heard_inv_def)
  ultimately show ?thesis using n c(1,6,7) by auto
qed

lemma published_by_run:
  assumes "fresh_context c" and "bc_listener bc \<notin> set ls"
    and "bridge_reachable bc (init_bridge (init_runtime c ls store)) b" and "b' = bridge_run bc acts b"
  shows "\<exists>new. br_published b' = br_published b @ new \<and>
     (\<forall>f \<in> set new. \<exists>t. xo_turn_id f = Some t \<and> t \<notin> cx_cancelled_turn_ids (rs_ctx (br_rt b)) \<and>
        (\<exists>e \<in> set (rs_events (br_rt b')). ev_type e = ET_TTS_CHUNK \<and> ev_turn_id e = Some t))"
proof -
  have "bridge_inv bc (init_runtime c (ls @ [bc_listener bc]) store) b' \<and> bridge_le b b'"
    unfolding assms(4) by (rule bridge_run_ok [OF bridge_reachable_inv [OF assms(3,1,2)]])
  then obtain new where new: "br_published b' = br_published b @ new"
    "\<forall>f \<in> set new. \<forall>t. xo_turn_id f = Some t \<longrightarrow> t \<notin> cancelled_turns b"
    and inv: "publish_inv b'" "heard_inv bc b'"
    by (auto simp: bridge_inv_def bridge_le_def)
  have "set (br_events b') \<subseteq> set (rs_events (br_rt b'))"
    using inv(2) by (auto simp: heard_inv_def split: if_splits)
  with new inv(1) show ?thesis
    unfolding publish_inv_def announced_def by (intro exI [of _ new] conjI ballI) (fastforce)+
qed

text \<open>
  No audio of a cancelled turn reaches the transport: from any state a bridge can be in,
  whatever the transport, the clients and the runtime's tasks do next, every frame handed to
  the transport belongs to a turn the runtime has announced audio for and that was not
  cancelled in that state.
\<close>

theorem bridge_silences_cancelled_turns:
  assumes "fresh_context c" and "bc_listener bc \<notin> set ls"
    and "bridge_reachable bc (init_bridge (init_runtime c ls store)) b" and "b' = bridge_run bc acts b"
  shows "\<exists>new. br_published b' = br_published b @ new \<and>
     (\<forall>f \<in> set new. \<exists>t. xo_turn_id f = Some t \<and> t \<notin> cx_cancelled_turn_ids (rs_ctx (br_rt b)) \<and>
        (\<exists>e \<in> set (rs_events (br_rt b')). ev_type e = ET_TTS_CHUNK \<and> ev_turn_id e = Some t))"
  using assms by (rule published_by_run)

text \<open>
  The frames handed to the transport are numbered: for every turn the chunk indexes of
  its frames increase strictly.
\<close>

theorem bridge_chunks_ordered:
  assumes "fresh_context c" and "bc_listener bc \<notin> set ls"
    and "bridge_reachable bc (init_bridge (init_runtime c ls store)) b"
  shows "sorted_wrt (<) (map xo_chunk_index (filter (\<lambda>f. xo_turn_id f = Some t) (br_published b)))"
  using bridge_reachable_inv [OF assms(3,1,2)] by (simp add: bridge_inv_def index_inv_def chunk_indexes_def)

text \<open>
  Once its listener is registered a bridge has seen every event of its runtime exactly
  once and in order, and they carry the numbers \<open>1\<close> to \<open>n\<close>.
\<close>

theorem bridge_hears_everything:
  assumes "fresh_context c" and "bc_listener bc \<notin> set ls"
    and "bridge_reachable bc (init_bridge (init_runtime c ls store)) b" and "br_registered b"
  shows "br_events b = rs_events (br_rt b) \<and> map ev_sequence (br_events b) = [1..int (length (br_events b))]"
proof -
  have "bridge_inv bc (init_runtime c (ls @ [bc_listener bc]) store) b" by (rule bridge_reachable_inv [OF assms(3,1,2)])
  then have "br_events b = rs_events (br_rt b)" "map ev_sequence (rs_events (br_rt b)) = [1..cx_sequence (rs_ctx (br_rt b))]"
    "0 \<le> cx_sequence (rs_ctx (br_rt b))"
    using assms(4) by (simp_all add: bridge_inv_def heard_inv_def rt_inv_def rt_core_def events_inv_def)
  moreover from this(2,3) have "int (length (rs_events (br_rt b))) = cx_sequence (rs_ctx (br_rt b))"
    by (metis diff_add_cancel length_map length_upto nat_0_le)
  ultimately show ?thesis by simp
qed

text \<open>
  C15. What is synthesized is heard: when the voice provider yields a chunk for a live,
  uncancelled turn while the transport is connected and its audio resolves to a valid frame,
  the bridge hands exactly that frame, with the next index of the turn, to the transport.
\<close>

theorem speech_reaches_transport:
  assumes "fresh_context cx" and "bc_listener bc \<notin> set ls"
    and "bridge_reachable bc (init_bridge (init_runtime cx ls store)) b"
    and "rs_tasks (br_rt b) k = Some (W_Tts p reply rq)" and "\<not> pipe_stopped (br_rt b) p"
    and "voice_output_enabled bc b" and "br_conn b = TC_CONNECTED" and "br_lifecycle b \<notin> silent_states"
    and "br_publishing b = []" and "br_room b = Some room" and "room \<noteq> []" and "length room \<le> 256"
    and "tk_text_range c = None" and "between_len 1 1024 (tk_audio_ref c)"
    and "resolve (tk_audio_ref c) = Inr (Some d)" and "check_tts_output_frame d = Inr d"
    and "b' = bridge_run bc [BA_Runtime (Act_Resume k (S_TtsChunk c)), BA_Publish resolve] b"
  shows "br_published b' = br_published b @
     [\<lparr>xo_room_name = room, xo_audio = d, xo_chunk_index = next_index b (pp_turn p), xo_is_final = False,
       xo_turn_id = Some (pp_turn p)\<rparr>]"
proof -
  let ?s = "perform (bc_runtime bc) (Act_Resume k (S_TtsChunk c)) (br_rt b)"
  have inv: "bridge_inv bc (init_runtime cx (ls @ [bc_listener bc]) store) b" by (rule bridge_reachable_inv [OF assms(3,1,2)])
  have reg: "br_registered b"
    using inv assms(6) by (auto simp: bridge_inv_def heard_inv_def dormant_def voice_output_enabled_def split: if_splits)
  have rt: "rt_inv (bc_runtime bc) (history_of (init_runtime cx (ls @ [bc_listener bc]) store)) (br_rt b)"
    and l: "filter (\<lambda>l. l = bc_listener bc) (rs_listeners (br_rt b)) = [bc_listener bc]"
    using inv reg by (simp_all add: bridge_inv_def heard_inv_def)
  from tts_chunk_announced [OF rt assms(4,5,13,14)] obtain e s1 where e: "emitted (br_rt b) e s1"
    "ev_type e = ET_TTS_CHUNK" "ev_turn_id e = Some (pp_turn p)" "ev_payload e = TTSChunkPayload (tk_audio_ref c) None"
    "?s = s1\<lparr>rs_tasks := (rs_tasks s1)(k \<mapsto> W_Tts p reply rq)\<rparr>" by blast
  define b1 where "b1 = observe bc ?s b"
  have "map snd (filter (\<lambda>(l, e). l = bc_listener bc) (map (\<lambda>l. (l, e)) (rs_listeners (br_rt b)))) = [e]"
    using filter_deliveries [OF l, of "[e]"] by (simp add: deliveries_def)
  then have b1: "br_publishing b1 = [e]" "br_rt b1 = ?s" "br_conn b1 = br_conn b" "br_lifecycle b1 = br_lifecycle b"
    "br_room b1 = br_room b" "br_indexes b1 = br_indexes b" "br_published b1 = br_published b"
    using e(1,2,5) assms(9) by (simp_all add: b1_def observe_def emitted_def Let_def)
  have "voice_output_enabled bc b1" "\<not> is_turn_cancelled (rs_ctx (br_rt b1)) (pp_turn p)"
    using assms(6) not_pipe_stopped [OF assms(5)] e(1,5) b1(2)
    by (simp_all add: voice_output_enabled_def emitted_def is_turn_cancelled_def)
  then have "snd (publish_tts_output bc resolve e (b1\<lparr>br_publishing := []\<rparr>)) =
      snd (hand_over d (pp_turn p) (b1\<lparr>br_publishing := []\<rparr>))"
    using e(3,4) b1(3,4) assms(7,8,15)
    by (simp add: publish_tts_output_def with_state_def voice_output_enabled_def bind_eff_def lift_eff_def)
  moreover have "b' = snd (publish_tts_output bc resolve e (b1\<lparr>br_publishing := []\<rparr>))"
    using b1(1) by (simp add: assms(17) b1_def [symmetric] del: perform.simps)
  ultimately show ?thesis
    using assms(10-12,16) b1 by (simp add: hand_over_def eff_defs Let_def check_output_frame_def next_index_def)
qed

text \<open>
  A transport failure is forgotten by a shutdown: a waiting bridge that a transport error
  has marked as failed ends as failed when the transport disconnects, but a shutdown requested
  meanwhile overwrites the mark.
\<close>

theorem shutdown_forgets_failure:
  assumes "br_phase b = BP_Waiting" and "br_lifecycle b = L_FAILED"
  shows "br_lifecycle (bridge_step bc (BA_Woken (Some (Inr ()))) (b\<lparr>br_shutdown := False\<rparr>)) = L_FAILED \<and>
     br_lifecycle (bridge_step bc (BA_Woken None) (b\<lparr>br_shutdown := True\<rparr>)) \<in> {L_STOPPING, L_STOPPED}"
proof -
  have "br_lifecycle (teardown bc (Inr ()) (b\<lparr>br_shutdown := False\<rparr>)) = L_FAILED"
    using teardown_lifecycle [of bc "Inr ()" "b\<lparr>br_shutdown := False\<rparr>"] assms by (simp add: end_states_def)
  moreover have "br_lifecycle (teardown bc (Inr ()) (snd (transition L_STOPPING (b\<lparr>br_shutdown := True\<rparr>)))) \<in> {L_STOPPING, L_STOPPED}"
    using teardown_lifecycle [of bc "Inr ()" "snd (transition L_STOPPING (b\<lparr>br_shutdown := True\<rparr>))"]
    by (simp add: transition_def modify_eff_def end_states_def)
  ultimately show ?thesis using assms by (simp add: woken_def)
qed


section \<open>Witnesses\<close>

definition sample_bridge_config :: bridge_config where
  "sample_bridge_config = \<lparr>bc_runtime = sample_runtime_config (Some sample_tts), bc_resolver = True,
     bc_exn_text = (\<lambda>_. ''error''), bc_listener = 9\<rparr>"

definition sample_audio :: tts_output_frame where
  "sample_audio = \<lparr>of_data = [1, 2], of_sample_rate_hz = 16000, of_channels = 1, of_duration_ms = 1\<rparr>"

abbreviation sample_bridge_run :: "bridge_action list \<Rightarrow> bridge" where
  "sample_bridge_run acts \<equiv> bridge_run sample_bridge_config acts
     (init_bridge (init_runtime sample_context [5] (update_session sample_session empty_store)))"

definition sample_connected :: "bridge_action list" where
  "sample_connected = [BA_Run ''room'', BA_State TC_CONNECTED, BA_Connected (Inr ())]"

lemmas bridge_defs = sample_bridge_config_def sample_audio_def sample_connected_def init_bridge_def
  begin_run_def transition_def register_listener_def on_event_def runtime_call_def observe_def connected_def
  callback_def on_connection_state_def bridge_handle_input_def forward_input_def publish_tts_output_def
  voice_output_enabled_def silent_states_def hand_over_def next_index_def check_output_frame_def
  check_tts_output_frame_def current_live_def voice_input_enabled_def tts_chunk_def check_tts_request_def
  tts_chunk_event_def sample_tts_def teardown_def begin_disconnect_def after_stop_def

lemma listener_free: "bc_listener sample_bridge_config \<notin> set [5]"
  by (simp add: sample_bridge_config_def)

lemma reachable_bridge:
  "bridge_reachable sample_bridge_config
     (init_bridge (init_runtime sample_context [5] (update_session sample_session empty_store))) (sample_bridge_run acts)"
  by (rule bridge_reachable_run [OF bridge_init])

lemma sample_registered: "br_registered (sample_bridge_run sample_connected)"
  by (simp add: bridge_defs run_defs)

lemma bridge_refines_runtime_witness:
  "reachable (sample_runtime_config (Some sample_tts))
     (init_runtime sample_context [5, 9] (update_session sample_session empty_store))
     (br_rt (sample_bridge_run sample_connected))"
  using bridge_refines_runtime [OF fresh_sample listener_free reachable_bridge sample_registered]
  by (simp add: sample_bridge_config_def)

lemma bridge_hears_everything_witness:
  "map ev_sequence (br_events (sample_bridge_run sample_connected)) = [1]"
proof -
  have len: "length (br_events (sample_bridge_run sample_connected)) = 1" by (simp add: bridge_defs run_defs)
  have "map ev_sequence (br_events (sample_bridge_run sample_connected)) =
      [1..int (length (br_events (sample_bridge_run sample_connected)))]"
    using bridge_hears_everything [OF fresh_sample listener_free reachable_bridge sample_registered] by blast
  then show ?thesis unfolding len by simp
qed

lemma bridge_run_append: "bridge_run bc (xs @ ys) b = bridge_run bc ys (bridge_run bc xs b)"
  by (induction xs arbitrary: b) simp_all

abbreviation sample_listened :: rts where
  "sample_listened \<equiv> init_runtime sample_context [5, 9] (update_session sample_session empty_store)"

abbreviation voice_config :: runtime_config where
  "voice_config \<equiv> sample_runtime_config (Some sample_tts)"

definition sample_answered :: "bridge_action list" where
  "sample_answered = sample_connected @ BA_Input (text_input ''hello'') #
     map BA_Runtime [sample_reply, Act_Resume 1 S_LlmEnd]"

lemma sample_connected_state:
  "br_rt (sample_bridge_run sample_connected) = run voice_config [Act_Start] sample_listened"
  "rs_running (br_rt (sample_bridge_run sample_connected))"
  "br_conn (sample_bridge_run sample_connected) = TC_CONNECTED"
  "br_lifecycle (sample_bridge_run sample_connected) = L_CONNECTED"
  "br_room (sample_bridge_run sample_connected) = Some ''room''"
  by (simp_all add: bridge_defs run_defs)

lemma sample_answered_runtime:
  "br_rt (sample_bridge_run sample_answered) =
     run voice_config [Act_Start, Act_Input (text_input ''hello''), sample_reply, Act_Resume 1 S_LlmEnd] sample_listened"
  "same_bridge (sample_bridge_run sample_connected) (sample_bridge_run sample_answered)"
  using input_step [OF sample_connected_state(2), of sample_bridge_config "text_input ''hello''"]
    runtime_steps [of "[sample_reply, Act_Resume 1 S_LlmEnd]" sample_bridge_config
      "bridge_step sample_bridge_config (BA_Input (text_input ''hello'')) (sample_bridge_run sample_connected)"]
    sample_connected_state(1)
  by (simp_all add: sample_answered_def bridge_run_append same_bridge_def sample_bridge_config_def
      del: perform.simps bridge_step.simps)

lemma sample_answered_waits:
  "\<exists>p rq. rs_tasks (br_rt (sample_bridge_run sample_answered)) 1 = Some (W_Tts p ''yes'' rq) \<and> pp_turn p = 1 \<and>
     \<not> pipe_stopped (br_rt (sample_bridge_run sample_answered)) p"
  "rs_running (br_rt (sample_bridge_run sample_answered))"
  "\<not> cx_shutdown (rs_ctx (br_rt (sample_bridge_run sample_answered)))"
  "list_all (\<lambda>e. ev_type e \<noteq> ET_TTS_CHUNK) (rs_events (br_rt (sample_bridge_run sample_answered)))"
  "current_live (br_rt (sample_bridge_run sample_answered)) = Some 1"
  unfolding sample_answered_runtime by (simp_all add: run_defs sample_tts_def check_tts_request_def current_live_def)


lemma sample_answered_bridge:
  "voice_output_enabled sample_bridge_config (sample_bridge_run sample_answered)"
  "br_conn (sample_bridge_run sample_answered) = TC_CONNECTED"
  "br_lifecycle (sample_bridge_run sample_answered) \<notin> silent_states"
  "br_publishing (sample_bridge_run sample_answered) = []"
  "br_room (sample_bridge_run sample_answered) = Some ''room''"
proof -
  let ?b = "sample_bridge_run sample_answered"
  show "voice_output_enabled sample_bridge_config ?b" "br_conn ?b = TC_CONNECTED"
    "br_lifecycle ?b \<notin> silent_states" "br_room ?b = Some ''room''"
    using sample_answered_runtime(2) sample_connected_state sample_answered_waits(2,3)
    by (simp_all add: same_bridge_def voice_output_enabled_def silent_states_def sample_bridge_config_def
        sample_runtime_config_def)
  have inv: "bridge_inv sample_bridge_config (init_runtime sample_context ([5] @ [bc_listener sample_bridge_config])
      (update_session sample_session empty_store)) ?b"
    by (rule bridge_reachable_inv [OF reachable_bridge fresh_sample listener_free])
  moreover have "br_registered ?b"
    using inv sample_answered_waits(2) by (auto simp: bridge_inv_def heard_inv_def dormant_def split: if_splits)
  ultimately have "\<forall>e \<in> set (br_publishing ?b). e \<in> set (rs_events (br_rt ?b)) \<and> ev_type e = ET_TTS_CHUNK"
    by (auto simp: bridge_inv_def publish_inv_def heard_inv_def)
  then show "br_publishing ?b = []"
    using sample_answered_waits(4) by (cases "br_publishing ?b") (auto simp: list_all_iff)
qed

definition voice_chunk :: tts_stream_chunk where
  "voice_chunk = \<lparr>tk_audio_ref = ''a'', tk_index = 0, tk_is_final = False, tk_text_range = None\<rparr>"

abbreviation say_it :: "bridge_action list" where
  "say_it \<equiv> [BA_Runtime (Act_Resume 1 (S_TtsChunk voice_chunk)), BA_Publish (\<lambda>_. Inr (Some sample_audio))]"

lemma speech_reaches_transport_witness:
  "\<exists>f. br_published (bridge_run sample_bridge_config say_it (sample_bridge_run sample_answered)) =
       br_published (sample_bridge_run sample_answered) @ [f] \<and> xo_turn_id f = Some 1 \<and> xo_audio f = sample_audio"
proof -
  obtain p rq where w: "rs_tasks (br_rt (sample_bridge_run sample_answered)) 1 = Some (W_Tts p ''yes'' rq)"
    "pp_turn p = 1" "\<not> pipe_stopped (br_rt (sample_bridge_run sample_answered)) p"
    using sample_answered_waits(1) by blast
  have c: "tk_text_range voice_chunk = None" "between_len 1 1024 (tk_audio_ref voice_chunk)"
    "(Inr (Some sample_audio) :: tts_output_frame option result) = Inr (Some sample_audio)"
    "check_tts_output_frame sample_audio = Inr sample_audio" "''room'' \<noteq> []" "length ''room'' \<le> 256"
    by (simp_all add: voice_chunk_def between_len_def sample_audio_def check_tts_output_frame_def)
  show ?thesis
    using speech_reaches_transport [OF fresh_sample listener_free reachable_bridge w(1,3) sample_answered_bridge
        c(5,6,1,2), where resolve = "\<lambda>_. Inr (Some sample_audio)", OF refl c(4) refl] w(2)
    by auto
qed


lemma bridge_silences_cancelled_turns_witness:
  "\<exists>new. br_published (bridge_run sample_bridge_config say_it (sample_bridge_run sample_answered)) =
     br_published (sample_bridge_run sample_answered) @ new"
  using bridge_silences_cancelled_turns [OF fresh_sample listener_free reachable_bridge refl] by blast

lemma bridge_chunks_ordered_witness:
  "sorted_wrt (<) (map xo_chunk_index (filter (\<lambda>f. xo_turn_id f = Some 1)
     (br_published (bridge_run sample_bridge_config say_it (sample_bridge_run sample_answered)))))"
  unfolding bridge_run_append [symmetric]
  using bridge_chunks_ordered [OF fresh_sample listener_free reachable_bridge] by blast


lemma barge_in_witness:
  "length (br_events (bridge_step sample_bridge_config (BA_AudioInput AI_STARTED) (sample_bridge_run sample_answered))) =
     Suc (Suc (length (br_events (sample_bridge_run sample_answered))))"
proof -
  have "voice_input_enabled sample_bridge_config (sample_bridge_run sample_answered)"
    using sample_answered_waits(2,3)
    by (simp add: voice_input_enabled_def sample_bridge_config_def sample_runtime_config_def)
  from barge_in [OF fresh_sample listener_free reachable_bridge this sample_answered_waits(5) refl]
  show ?thesis by auto
qed

lemma shutdown_forgets_failure_witness:
  "br_lifecycle (bridge_step sample_bridge_config (BA_Woken None)
     ((sample_bridge_run sample_answered)\<lparr>br_phase := BP_Waiting, br_lifecycle := L_FAILED, br_shutdown := True\<rparr>)) \<noteq> L_FAILED"
  using shutdown_forgets_failure [of "(sample_bridge_run sample_answered)\<lparr>br_phase := BP_Waiting, br_lifecycle := L_FAILED\<rparr>"
      sample_bridge_config] by auto

end
