(* ===== verification/MediaProps.thy ===== *)
theory MediaProps
  imports Media TransportProps BridgeProps
begin

text \<open>
  The bridge over the LiveKit transport: the bridge only ever does what theory Bridge lets it do
  and its view of the connection is the transport's, so that the bridge's theorems hold in the
  session; and the audio the room captures is audio the bridge has handed over.
\<close>

section \<open>Only the transport changes the connection state\<close>

interpretation cn: forward_invariant "\<lambda>b. br_conn b = c" "\<lambda>_ _. True" for c
  by unfold_locales simp_all

lemma conn_observe [simp]: "br_conn (observe bc s b) = br_conn b"
  by (simp add: observe_def Let_def)

lemma conn_runtime_call [simp]: "br_conn (snd (runtime_call bc a b)) = br_conn b"
  by (simp add: runtime_call_def Let_def del: perform.simps)

lemma conn_transition [simp]: "br_conn (snd (transition l b)) = br_conn b"
  by (simp add: transition_def modify_eff_def)

lemma conn_safe_call: "br_conn b = c \<Longrightarrow> cn.safe c b (runtime_call bc a) (\<lambda>_ _. True)"
  by (simp add: cn.safe_def)

lemma conn_safe_modify: "br_conn (f b) = c \<Longrightarrow> cn.safe c b (modify_eff f) (\<lambda>_ _. True)"
  by (simp add: cn.safe_modify)

lemma conn_safe_lift: "br_conn b = c \<Longrightarrow> cn.safe c b (lift_eff r) (\<lambda>_ _. True)"
  by (simp add: cn.safe_lift)

lemmas conn_intros = cn.safe_then cn.safe_with cn.safe_if cn.safe_ret cn.safe_throw conn_safe_call conn_safe_modify
  cn.safe_bind [OF conn_safe_lift]

lemma conn_client:
  "br_conn b = c \<Longrightarrow> cn.safe c b (bridge_handle_input bc i) (\<lambda>_ _. True)"
  "br_conn b = c \<Longrightarrow> cn.safe c b (on_participant_event p) (\<lambda>_ _. True)"
  "br_conn b = c \<Longrightarrow> cn.safe c b (on_connection_state s) (\<lambda>_ _. True)"
  "br_conn b = c \<Longrightarrow> cn.safe c b (on_transport_error bc x) (\<lambda>_ _. True)"
  "br_conn b = c \<Longrightarrow> cn.safe c b (handle_connect_failure bc msg) (\<lambda>_ _. True)"
  "br_conn b = c \<Longrightarrow> cn.safe c b (on_audio_frame bc f) (\<lambda>_ _. True)"
  unfolding bridge_handle_input_def on_participant_event_def on_connection_state_def on_transport_error_def report_error_def
    record_transport_error_def handle_connect_failure_def on_audio_frame_def transition_def forward_input_def
  by (auto simp: Let_def intro!: conn_intros)

lemma conn_audio_input: "br_conn b = c \<Longrightarrow> cn.safe c b (on_audio_input bc k) (\<lambda>_ _. True)"
  unfolding on_audio_input_def forward_input_def
  by (cases k; cases "current_live (br_rt b)"; cases "voice_input_enabled bc b") (auto intro!: conn_intros)

lemma conn_publish: "br_conn (snd (publish_tts_output bc resolve e b)) = br_conn b"
  by (auto simp: publish_tts_output_def hand_over_def eff_defs Let_def split: option.split payload.split sum.split)

lemma conn_snd:
  "br_conn (snd (bridge_handle_input bc i b)) = br_conn b" "br_conn (snd (on_participant_event p b)) = br_conn b"
  "br_conn (snd (on_connection_state s b)) = br_conn b" "br_conn (snd (on_transport_error bc x b)) = br_conn b"
  "br_conn (snd (handle_connect_failure bc msg b)) = br_conn b" "br_conn (snd (on_audio_frame bc f b)) = br_conn b"
  "br_conn (snd (on_audio_input bc k b)) = br_conn b"
  using conn_client [OF refl] conn_audio_input [OF refl] by (simp_all add: cn.safe_def)

section \<open>run and teardown\<close>

lemma conn_end_run [simp]: "br_conn (end_run r b) = br_conn b"
  by (simp add: end_run_def Let_def)

lemma conn_begin_disconnect [simp]: "br_conn (begin_disconnect r b) = br_conn b"
  by (simp add: begin_disconnect_def)

lemma conn_after_stop [simp]: "br_conn (after_stop x r b) = br_conn b"
  by (simp add: after_stop_def split: sum.split)

lemma conn_teardown [simp]: "br_conn (teardown bc r b) = br_conn b"
proof -
  have "br_conn b' = br_conn u" if "runtime_call bc a u = (x, b')" for a u x b'
    using that conn_runtime_call [of bc a u] by simp
  then show ?thesis by (auto simp: teardown_def Let_def split: prod.split)
qed

lemma conn_run_raised [simp]: "br_conn (run_raised bc e b) = br_conn b"
  using conn_snd(5) [of bc "bc_exn_text bc e" b]
  by (auto simp: run_raised_def run_cancelled_def run_failed_def split: prod.split)

lemma conn_begin_run: "br_conn (begin_run bc room b) = br_conn b"
proof -
  let ?m = "then_eff (transition L_INITIALIZING) (then_eff (register_listener bc) (then_eff (runtime_call bc Act_Start)
      (then_eff (transition L_CONNECTING) (modify_eff (\<lambda>b. b\<lparr>br_room := Some room, br_phase := BP_Connecting\<rparr>)))))"
  have "cn.safe (br_conn b) b ?m (\<lambda>_ _. True)"
    unfolding register_listener_def transition_def by (auto intro!: conn_intros)
  then show ?thesis by (auto simp: begin_run_def cn.safe_def split: prod.split sum.split)
qed

lemma bridge_step_conn: "(\<forall>c. a \<noteq> BA_State c) \<Longrightarrow> br_conn (bridge_step bc a b) = br_conn b"
  by (cases a) (auto simp: conn_begin_run connected_def woken_def callback_def conn_snd conn_publish run_cancelled_def
      split: option.split phase.split sum.split list.split)

section \<open>The bridge behind the transport's handlers\<close>

text \<open>
  The bridge has come from \<open>b0\<close> by steps of theory Bridge and sees the transport's connection state.
\<close>

definition joined :: "bridge_config \<Rightarrow> bridge \<Rightarrow> connection_state \<Rightarrow> bridge \<Rightarrow> bool" where
  "joined bc b0 c b \<longleftrightarrow> (\<exists>acts. b = bridge_run bc acts b0) \<and> br_conn b = c"

lemma joined_step: "joined bc b0 c b \<Longrightarrow> (\<forall>c. a \<noteq> BA_State c) \<Longrightarrow> joined bc b0 c (bridge_step bc a b)"
  by (auto simp: joined_def bridge_step_conn simp del: bridge_step.simps)
    (metis bridge_run.simps bridge_run_append)

lemma handled:
  "snd (notify (hs_participant (bridge_handlers bc)) p b) = bridge_step bc (BA_Participant p) b"
  "snd (notify (hs_error (bridge_handlers bc)) x b) = bridge_step bc (BA_Error x) b"
  "snd (notify (hs_frame (bridge_handlers bc)) f b) = bridge_step bc (BA_AudioFrame f) b"
  "snd (notify (hs_input (bridge_handlers bc)) e b) = bridge_step bc (BA_AudioInput (ai_kind e)) b"
  "snd (notify (hs_state (bridge_handlers bc)) c b) = bridge_step bc (BA_State c) b"
  by (auto simp: bridge_handlers_def delivered_def callback_def eff_defs split: prod.splits sum.splits)

interpretation mb: transport_client "bridge_handlers bc" "joined bc b0" for bc b0
proof
  fix s c :: connection_state and b :: bridge
  assume j: "joined bc b0 s b"
  then obtain acts where "b = bridge_run bc acts b0" by (auto simp: joined_def)
  then have "bridge_step bc (BA_State c) b = bridge_run bc (acts @ [BA_State c]) b0" by (simp add: bridge_run_append)
  moreover have "br_conn (bridge_step bc (BA_State c) b) = c" by (simp add: callback_def conn_snd)
  ultimately show "joined bc b0 c (snd (notify (hs_state (bridge_handlers bc)) c b))"
    unfolding handled joined_def by blast
qed (auto simp only: handled intro: joined_step)

section \<open>Steps of the session\<close>

lemma acts_keep:
  assumes "mb.holds bc b0 (me_transport m)" and "\<forall>c. a \<noteq> BA_State c"
  shows "mb.holds bc b0 (me_transport (bridge_acts bc a m))"
proof -
  have c: "mb.holds bc b0 (me_transport (with_client (bridge_step bc a (media_bridge m)) m))"
    using assms joined_step [of bc b0 "lk_state (me_transport m)" "media_bridge m" a]
    by (simp add: mb.holds_def with_client_def del: bridge_step.simps)
  then show ?thesis
    using mb.lk_step_keeps [OF c, of "\<lambda>e. []" LA_Disconnect]
    by (simp add: bridge_acts_def Let_def del: bridge_step.simps)
qed

lemma settle_call_keeps: "mb.holds bc b0 (me_transport m) \<Longrightarrow> mb.holds bc b0 (me_transport (settle_call bc m))"
  by (auto simp: settle_call_def acts_keep split: phase.split option.split)

lemma media_step_keeps: "mb.holds bc b0 (me_transport m) \<Longrightarrow> mb.holds bc b0 (me_transport (media_step bc a m))"
proof (cases a)
  case (MA_Run cfg)
  assume "mb.holds bc b0 (me_transport m)"
  then have r: "mb.holds bc b0 (me_transport (bridge_acts bc (BA_Run (md_room_name cfg)) m))" by (simp add: acts_keep)
  then have "mb.holds bc b0 (me_transport (run_session bc cfg m))"
    using mb.connect_keeps [OF r, of cfg] by (simp add: run_session_def Let_def)
  with MA_Run show ?thesis by (simp add: settle_call_keeps)
next
  case (MA_Publish resolve x c)
  assume "mb.holds bc b0 (me_transport m)"
  then have r: "mb.holds bc b0 (me_transport (bridge_acts bc (BA_Publish resolve) m))" by (simp add: acts_keep)
  have "mb.holds bc b0 (snd (lk_publish (bc_exn_text bc) x c f (me_transport (bridge_acts bc (BA_Publish resolve) m))))" for f
    using mb.lk_step_keeps [OF r, of "bc_exn_text bc" "LA_Publish x c f"] by simp
  with MA_Publish r show ?thesis by (simp add: publish_audio_def Let_def split: list.split)
next
  case (MA_Room l)
  assume "mb.holds bc b0 (me_transport m)"
  with MA_Room settle_call_keeps [of bc b0 "m\<lparr>me_transport := lk_step (bc_exn_text bc) l (me_transport m)\<rparr>"] show ?thesis
    by (simp add: mb.lk_step_keeps del: lk_step.simps)
qed (auto simp: acts_keep split: phase.split)

lemma media_run_keeps: "mb.holds bc b0 (me_transport m) \<Longrightarrow> mb.holds bc b0 (me_transport (media_run bc acts m))"
  by (induction acts arbitrary: m) (simp_all add: media_step_keeps)

lemma init_media_holds: "mb.holds bc (init_bridge s) (me_transport (init_media bc s))"
proof -
  have "init_bridge s = bridge_run bc [] (init_bridge s)" by simp
  then have "joined bc (init_bridge s) TC_DISCONNECTED (init_bridge s)"
    unfolding joined_def by (metis bridge.select_convs(2) init_bridge_def)
  then show ?thesis by (simp add: mb.holds_def init_media_def init_livekit_def)
qed

section \<open>What the room captures\<close>

text \<open>The audio of a frame, as the room is given it.\<close>

definition capture_of :: "output_frame \<Rightarrow> captured" where
  "capture_of f = \<lparr>cp_data = of_data (xo_audio f), cp_sample_rate_hz = of_sample_rate_hz (xo_audio f),
     cp_channels = of_channels (xo_audio f),
     cp_samples_per_channel = int (length (of_data (xo_audio f))) div (2 * of_channels (xo_audio f))\<rparr>"

definition captures :: "media \<Rightarrow> media \<Rightarrow> bool" where
  "captures m m' \<longleftrightarrow> (\<exists>new fs. br_published (media_bridge m') = br_published (media_bridge m) @ new \<and>
     lk_captured (me_transport m') = lk_captured (me_transport m) @ map capture_of fs \<and> subseq fs new)"

lemma captures_trans: "captures m n \<Longrightarrow> captures n u \<Longrightarrow> captures m u"
proof -
  assume "captures m n" and "captures n u"
  then obtain p f q g where "br_published (media_bridge n) = br_published (media_bridge m) @ p"
    "lk_captured (me_transport n) = lk_captured (me_transport m) @ map capture_of f" "subseq f p"
    "br_published (media_bridge u) = br_published (media_bridge n) @ q"
    "lk_captured (me_transport u) = lk_captured (me_transport n) @ map capture_of g" "subseq g q"
    unfolding captures_def by blast
  then show ?thesis
    unfolding captures_def by (intro exI [of _ "p @ q"] exI [of _ "f @ g"]) (simp add: list_emb_append_mono)
qed

lemma captured_emits:
  "lk_set_state c t = (r, t') \<Longrightarrow> lk_captured t' = lk_captured t"
  "lk_emit_error code msg b t = (r, t') \<Longrightarrow> lk_captured t' = lk_captured t"
  "lk_emit_participant p t = (r, t') \<Longrightarrow> lk_captured t' = lk_captured t"
  "lk_emit_frame f t = (r, t') \<Longrightarrow> lk_captured t' = lk_captured t"
  "lk_emit_input k i room t = (r, t') \<Longrightarrow> lk_captured t' = lk_captured t"
  by (auto simp: lk_set_state_def lk_emit_error_def lk_emit_participant_def lk_emit_frame_def lk_emit_input_def
      lk_call_def eff_defs split: prod.splits sum.splits)

lemma captured_snd [simp]:
  "lk_captured (snd (lk_set_state c t)) = lk_captured t" "lk_captured (snd (lk_emit_error code msg b t)) = lk_captured t"
  "lk_captured (snd (lk_emit_participant p t)) = lk_captured t" "lk_captured (snd (lk_emit_input k i room t)) = lk_captured t"
  by (metis captured_emits prod.collapse)+

lemma captured_ops [simp]:
  "lk_captured (call_result n r t) = lk_captured t" "lk_captured (call_wait_at n w t) = lk_captured t"
  "lk_captured (drop_task k a t) = lk_captured t" "lk_captured (create_pending p t) = lk_captured t"
  "lk_captured (request_cancel k t) = lk_captured t" "lk_captured (track_subscribed sid i t) = lk_captured t"
  by (simp_all add: call_result_def call_wait_at_def drop_task_def create_pending_def request_cancel_def
      track_subscribed_def Let_def)

lemma captured_cancel [simp]: "lk_captured (fold request_cancel ks t) = lk_captured t"
  by (induction ks arbitrary: t) simp_all

lemma captured_after_gather [simp]: "lk_captured (after_gather n gone t) = lk_captured t"
  by (auto simp: after_gather_def Let_def dest: captured_emits split: prod.split sum.split)

lemma captured_begin_gather [simp]: "lk_captured (begin_gather gone t) = lk_captured t"
  by (simp add: begin_gather_def cancel_audio_tasks_def Let_def)

lemma captured_end_audio [simp]: "lk_captured (end_audio exn_text k a r t) = lk_captured t"
  by (auto simp: end_audio_def Let_def split: sum.split)

lemma captured_audio [simp]: "lk_captured (audio_step exn_text k st t) = lk_captured t"
  by (auto simp: audio_step_def begin_audio_def audio_frame_def Let_def dest: captured_emits
      split: option.split audio_stimulus.split prod.split sum.split)

lemma captured_resume [simp]: "lk_captured (resume_call exn_text n x t) = lk_captured t"
  by (auto simp: resume_call_def room_connected_def room_left_def eff_defs dest: captured_emits
      split: option.split call_wait.split sum.splits prod.splits) (metis captured_emits(1,2))+

lemma captured_step: "(\<forall>x c f. a \<noteq> LA_Publish x c f) \<Longrightarrow> lk_captured (lk_step exn_text a t) = lk_captured t"
proof (cases a)
  case (LA_Room ev)
  then show ?thesis by (cases ev) (simp_all add: track_unsubscribed_def split: option.split)
qed (auto simp: lk_connect_def lk_disconnect_def run_pending_def Let_def dest: captured_emits
    split: prod.split sum.split list.split pending.split)

text \<open>Every step captures nothing but a frame it has just handed over.\<close>

definition sound :: "bridge_config \<Rightarrow> rts \<Rightarrow> media \<Rightarrow> bool" where
  "sound bc base m \<longleftrightarrow> bridge_inv bc base (media_bridge m) \<and> mb.holds bc (media_bridge m) (me_transport m)"

lemma joined_refl: "joined bc b (br_conn b) b"
  unfolding joined_def by (rule conjI [OF exI [of _ "[]"]]) simp_all

lemma joined_moves:
  assumes "mb.holds bc b t" and "bridge_inv bc base b"
  shows "bridge_inv bc base (lk_client t) \<and> (\<exists>new. br_published (lk_client t) = br_published b @ new) \<and>
     mb.holds bc (lk_client t) t"
proof -
  obtain acts where "lk_client t = bridge_run bc acts b" using assms(1) by (auto simp: mb.holds_def joined_def)
  with bridge_run_ok [OF assms(2), of acts] assms(1) show ?thesis
    by (auto simp: bridge_le_def mb.holds_def joined_def intro: exI [of _ "[]"])
qed

lemma captures_same:
  assumes "sound bc base m" and "mb.holds bc (media_bridge m) (me_transport m')"
    and "lk_captured (me_transport m') = lk_captured (me_transport m)"
  shows "captures m m' \<and> sound bc base m'"
proof -
  obtain new where "br_published (media_bridge m') = br_published (media_bridge m) @ new"
    using assms(1) joined_moves [OF assms(2)] by (auto simp: sound_def)
  then have "captures m m'"
    unfolding captures_def using assms(3) by (intro exI [of _ new] exI [of _ "[]"]) simp
  with joined_moves [OF assms(2)] assms(1) show ?thesis by (auto simp: sound_def)
qed

lemma captured_acts: "lk_captured (me_transport (bridge_acts bc a m)) = lk_captured (me_transport m)"
  by (simp add: bridge_acts_def with_client_def lk_disconnect_def Let_def del: bridge_step.simps)

lemma captured_settle: "lk_captured (me_transport (settle_call bc m)) = lk_captured (me_transport m)"
  by (simp add: settle_call_def captured_acts split: phase.split option.split)

lemma captured_run: "lk_captured (me_transport (run_session bc cfg m)) = lk_captured (me_transport m)"
proof -
  have "lk_captured (lk_connect cfg t) = lk_captured t" for t :: "bridge livekit"
    using captured_step [of "LA_Connect cfg" "\<lambda>e. []" t] by simp
  then show ?thesis by (simp add: run_session_def captured_acts Let_def)
qed

lemma publish_captures:
  "lk_publish exn_text x c f t = (r, t') \<Longrightarrow>
     lk_client t' = lk_client t \<and> (lk_captured t' = lk_captured t \<or> lk_captured t' = lk_captured t @ [capture_of f])"
  by (auto simp: lk_publish_def capture_of_def eff_defs Let_def split: if_splits sum.splits)

lemma publish_audio_captures:
  assumes "sound bc base m"
  shows "captures m (publish_audio bc resolve x c m) \<and> sound bc base (publish_audio bc resolve x c m)"
proof -
  let ?m = "bridge_acts bc (BA_Publish resolve) m"
  have s: "captures m ?m \<and> sound bc base ?m"
    using assms by (intro captures_same [OF assms]) (simp_all add: sound_def acts_keep captured_acts)
  then obtain new where new: "br_published (media_bridge ?m) = br_published (media_bridge m) @ new"
    by (auto simp: captures_def)
  show ?thesis
  proof (cases new)
    case Nil
    with s new show ?thesis by (simp add: publish_audio_def Let_def)
  next
    case (Cons f fs)
    obtain r t where p: "lk_publish (bc_exn_text bc) x c f (me_transport ?m) = (r, t)" by fastforce
    have "mb.holds bc (media_bridge ?m) t"
      using mb.lk_step_keeps [of bc "media_bridge ?m" "me_transport ?m" "bc_exn_text bc" "LA_Publish x c f"] s p
      by (simp add: sound_def)
    moreover note publish_captures [OF p] s new Cons
    moreover have "subseq [f] (f # fs)" by simp
    ultimately show ?thesis
      using p captured_acts [of bc "BA_Publish resolve" m]
      by (auto simp: publish_audio_def Let_def captures_def sound_def
          intro: exI [of _ "[f]"] exI [of _ "[]"])
  qed
qed

lemma captured_media_step:
  "(\<forall>resolve x c. a \<noteq> MA_Publish resolve x c) \<Longrightarrow>
     lk_captured (me_transport (media_step bc a m)) = lk_captured (me_transport m)"
proof (cases a)
  case (MA_Room l)
  have "lk_captured (lk_step (bc_exn_text bc) l (me_transport m)) = lk_captured (me_transport m)" if "room_driven l"
    using that by (intro captured_step) auto
  with MA_Room show ?thesis by (simp add: captured_settle)
qed (auto simp: captured_settle captured_run captured_acts split: phase.split)

lemma media_step_captures:
  assumes "sound bc base m"
  shows "captures m (media_step bc a m) \<and> sound bc base (media_step bc a m)"
proof (cases "\<exists>resolve x c. a = MA_Publish resolve x c")
  case True
  with publish_audio_captures [OF assms] show ?thesis by auto
next
  case False
  have "mb.holds bc (media_bridge m) (me_transport m)" using assms by (simp add: sound_def)
  from captures_same [OF assms media_step_keeps [OF this] captured_media_step] False show ?thesis by blast
qed

lemma media_run_captures: "sound bc base m \<Longrightarrow> captures m (media_run bc acts m) \<and> sound bc base (media_run bc acts m)"
proof (induction acts arbitrary: m)
  case (Cons a acts)
  from media_step_captures [OF Cons.prems, of a] Cons.IH [of "media_step bc a m"] show ?case
    by (auto intro: captures_trans)
qed (auto simp: captures_def)

section \<open>Properties\<close>

text \<open>
  C10. The environment of theory Bridge is what a real transport gives it: in every run of a
  session over LiveKit the bridge is in a state that theory Bridge lets it reach, and its view of
  the connection is the transport's. So all that is proved of reachable bridges holds in it.
\<close>

theorem session_refines_bridge:
  "let m = media_run bc acts (init_media bc s) in
     bridge_reachable bc (init_bridge s) (media_bridge m) \<and> br_conn (media_bridge m) = lk_state (me_transport m)"
  using media_run_keeps [OF init_media_holds, of bc s acts]
  by (auto simp: Let_def mb.holds_def joined_def bridge_reachable_run [OF bridge_reachable.bridge_init])

text \<open>
  C9. No audio of a cancelled turn is captured by the room: whatever a session does after any
  point, what the room captures is, in order, audio of frames the bridge has handed over since,
  each of a turn that the runtime has announced audio for and that was not cancelled then.
\<close>

theorem session_silences_cancelled_turns:
  assumes "fresh_context c" and "bc_listener bc \<notin> set ls"
    and "m = media_run bc acts (init_media bc (init_runtime c ls store))" and "m' = media_run bc acts' m"
  shows "\<exists>new fs. br_published (media_bridge m') = br_published (media_bridge m) @ new \<and>
     lk_captured (me_transport m') = lk_captured (me_transport m) @ map capture_of fs \<and> subseq fs new \<and>
     (\<forall>f \<in> set fs. \<exists>t. xo_turn_id f = Some t \<and> t \<notin> cx_cancelled_turn_ids (rs_ctx (br_rt (media_bridge m))) \<and>
        (\<exists>e \<in> set (rs_events (br_rt (media_bridge m'))). ev_type e = ET_TTS_CHUNK \<and> ev_turn_id e = Some t))"
proof -
  let ?b0 = "init_bridge (init_runtime c ls store)"
  have h: "mb.holds bc ?b0 (me_transport m)" unfolding assms(3) by (rule media_run_keeps [OF init_media_holds])
  then have reach: "bridge_reachable bc ?b0 (media_bridge m)"
    by (auto simp: mb.holds_def joined_def bridge_reachable_run [OF bridge_reachable.bridge_init])
  note inv = bridge_reachable_inv [OF reach assms(1,2)]
  have same: "mb.holds bc (media_bridge m) (me_transport m)" using joined_moves [OF h init_bridge_inv [OF assms(1,2)]] by blast
  then obtain new fs where n: "br_published (media_bridge m') = br_published (media_bridge m) @ new"
    "lk_captured (me_transport m') = lk_captured (me_transport m) @ map capture_of fs" "subseq fs new"
    using media_run_captures [of bc "init_runtime c (ls @ [bc_listener bc]) store" m acts'] inv
    unfolding assms(4) by (auto simp: sound_def captures_def)
  have "\<exists>acts. media_bridge m' = bridge_run bc acts (media_bridge m)"
    using media_run_keeps [OF same, of acts'] unfolding assms(4) by (simp add: mb.holds_def joined_def)
  then obtain as where "media_bridge m' = bridge_run bc as (media_bridge m)" ..
  from published_by_run [OF assms(1,2) reach this] n(1) have
    "\<forall>f \<in> set new. \<exists>t. xo_turn_id f = Some t \<and> t \<notin> cx_cancelled_turn_ids (rs_ctx (br_rt (media_bridge m))) \<and>
        (\<exists>e \<in> set (rs_events (br_rt (media_bridge m'))). ev_type e = ET_TTS_CHUNK \<and> ev_turn_id e = Some t)" by auto
  with n show ?thesis by (intro exI [of _ new] exI [of _ fs]) (auto elim: list_emb_set)
qed

section \<open>Witnesses\<close>

definition sample_session_run :: "media_action list \<Rightarrow> media" where
  "sample_session_run acts = media_run sample_bridge_config acts
     (init_media sample_bridge_config (init_runtime sample_context [5] (update_session sample_session empty_store)))"

definition sample_joined :: "media_action list" where
  "sample_joined = [MA_Run sample_media_config, MA_Room (LA_Resume 0 (Inr ())), MA_Room (LA_Resume 0 (Inr ()))]"

lemma sample_joined_state:
  "br_phase (media_bridge (sample_session_run sample_joined)) = BP_Waiting"
  "lk_state (me_transport (sample_session_run sample_joined)) = TC_CONNECTED"
  "lk_source (me_transport (sample_session_run sample_joined))"
  by (simp_all add: sample_session_run_def sample_joined_def init_media_def init_livekit_def run_session_def
      sample_media_config_def bridge_acts_def with_client_def settle_call_def outcome_at_def lk_connect_def call_wait_at_def
      call_result_def resume_call_def room_connected_def lk_set_state_def lk_call_def bridge_handlers_def delivered_def
      eff_defs Let_def bridge_defs run_defs)

lemma session_silences_cancelled_turns_witness:
  "\<exists>new fs. br_published (media_bridge (sample_session_run (sample_joined @ [MA_Input (text_input ''hello'')]))) =
       br_published (media_bridge (sample_session_run sample_joined)) @ new \<and>
     lk_captured (me_transport (sample_session_run (sample_joined @ [MA_Input (text_input ''hello'')]))) =
       lk_captured (me_transport (sample_session_run sample_joined)) @ map capture_of fs \<and> subseq fs new \<and>
     br_phase (media_bridge (sample_session_run sample_joined)) = BP_Waiting"
proof -
  have "media_run bc (xs @ ys) m = media_run bc ys (media_run bc xs m)" for bc xs ys m
    by (induction xs arbitrary: m) simp_all
  then have "sample_session_run (sample_joined @ [MA_Input (text_input ''hello'')]) =
      media_run sample_bridge_config [MA_Input (text_input ''hello'')] (sample_session_run sample_joined)"
    by (simp only: sample_session_run_def)
  from session_silences_cancelled_turns [OF fresh_sample listener_free sample_session_run_def this] sample_joined_state(1)
  show ?thesis by blast
qed

end
