(* ===== verification/Session.thy ===== *)
theory Session
  imports TransportProps
begin

text \<open>
  xymphony_runtime/session.py: the minimal session, which runs the lifecycle over a transport
  without an agent, with the transport as its environment. Its coroutine \<open>run\<close> is cut at its awaits
  as in theory Bridge; cancelled waits are gathered at once. Also worker.py, which runs a media
  bridge and turns a signal into a shutdown, and the lifecycle both kinds of session follow.
\<close>

section \<open>State\<close>

datatype session_phase =
  SP_New | SP_Connecting | SP_Waiting | SP_Disconnecting "unit result" | SP_Ended "unit result"

record transport_session =
  ss_shutdown :: bool
  ss_lifecycle :: lifecycle_state
  ss_observations :: "observation list"
  ss_conn_states :: "connection_state list"
  ss_participants :: "participant_event list"
  ss_errors :: "transport_error list"
  ss_registered :: nat
  ss_phase :: session_phase

definition init_session :: transport_session where
  "init_session = \<lparr>ss_shutdown = False, ss_lifecycle = L_INITIALIZING, ss_observations = [], ss_conn_states = [],
     ss_participants = [], ss_errors = [], ss_registered = 0, ss_phase = SP_New\<rparr>"

section \<open>Handlers\<close>

definition session_on_state :: "connection_state \<Rightarrow> transport_session \<Rightarrow> transport_session" where
  "session_on_state c s = s\<lparr>ss_conn_states := ss_conn_states s @ [c]\<rparr>"

definition session_on_participant :: "participant_event \<Rightarrow> transport_session \<Rightarrow> transport_session" where
  "session_on_participant p s = s\<lparr>ss_participants := ss_participants s @ [p],
     ss_observations := ss_observations s @ [ObsParticipant p]\<rparr>"

definition session_record_error :: "transport_error \<Rightarrow> transport_session \<Rightarrow> transport_session" where
  "session_record_error x s = s\<lparr>ss_errors := ss_errors s @ [x], ss_observations := ss_observations s @ [ObsError x]\<rparr>"

definition session_transition :: "lifecycle_state \<Rightarrow> transport_session \<Rightarrow> transport_session" where
  "session_transition l s = s\<lparr>ss_lifecycle := l, ss_observations := ss_observations s @ [ObsLifecycle l]\<rparr>"

section \<open>run\<close>

text \<open>Every call of \<open>run\<close> registers the handlers once more.\<close>

definition session_begin :: "transport_session \<Rightarrow> transport_session" where
  "session_begin s =
     (let s1 = session_transition L_INITIALIZING s;
          s2 = session_transition L_CONNECTING (s1\<lparr>ss_registered := ss_registered s1 + 1\<rparr>)
      in s2\<lparr>ss_phase := SP_Connecting\<rparr>)"

text \<open>The \<open>finally\<close> clause up to \<open>transport.disconnect()\<close>; \<open>r\<close> is the outcome \<open>run\<close> is about to have.\<close>

definition session_finally :: "unit result \<Rightarrow> transport_session \<Rightarrow> transport_session" where
  "session_finally r s =
     (let s' = (if ss_lifecycle s \<in> {L_FAILED, L_STOPPING} then s else session_transition L_STOPPING s)
      in s'\<lparr>ss_phase := SP_Disconnecting r\<rparr>)"

definition session_raised :: "(exn \<Rightarrow> string) \<Rightarrow> exn \<Rightarrow> transport_session \<Rightarrow> transport_session" where
  "session_raised exn_text e s =
     (if e = CancelledErrorE then session_finally (Inl e) (session_transition L_STOPPING s)
      else session_finally (Inr ()) (session_transition L_FAILED (session_record_error
             \<lparr>xe_code = ''session_connect_failed'', xe_message = exn_text e, xe_retryable = False\<rparr> s)))"

definition session_connected :: "(exn \<Rightarrow> string) \<Rightarrow> unit result \<Rightarrow> transport_session \<Rightarrow> transport_session" where
  "session_connected exn_text x s =
     (case x of
        Inl e \<Rightarrow> session_raised exn_text e s
      | Inr _ \<Rightarrow> (session_transition L_CONNECTED s)\<lparr>ss_phase := SP_Waiting\<rparr>)"

definition session_woken :: "(exn \<Rightarrow> string) \<Rightarrow> unit result option \<Rightarrow> transport_session \<Rightarrow> transport_session" where
  "session_woken exn_text x s =
     (case x of
        Some (Inl e) \<Rightarrow> session_raised exn_text e s
      | _ \<Rightarrow> session_finally (Inr ()) (if ss_shutdown s then session_transition L_STOPPING s else s))"

text \<open>\<open>transport.disconnect()\<close> ended with \<open>x\<close>; an exception replaces the outcome of \<open>run\<close>.\<close>

definition session_ended :: "unit result \<Rightarrow> unit result \<Rightarrow> transport_session \<Rightarrow> transport_session" where
  "session_ended x r s =
     (let s' = (if ss_lifecycle s = L_FAILED then s else session_transition L_STOPPED s)
      in s'\<lparr>ss_phase := SP_Ended (case x of Inl e \<Rightarrow> Inl e | Inr _ \<Rightarrow> r)\<rparr>)"

section \<open>Steps\<close>

text \<open>\<open>SA_Woken None\<close>: the shutdown alone has ended the wait.\<close>

datatype session_action =
    SA_Run
  | SA_Connected "unit result"
  | SA_Woken "unit result option"
  | SA_Disconnected "unit result"
  | SA_Cancel
  | SA_Shutdown
  | SA_State connection_state
  | SA_Participant participant_event
  | SA_Error transport_error

fun session_step :: "(exn \<Rightarrow> string) \<Rightarrow> session_action \<Rightarrow> transport_session \<Rightarrow> transport_session" where
  "session_step exn_text SA_Run s =
     (case ss_phase s of
        SP_New \<Rightarrow> session_begin s
      | SP_Ended r \<Rightarrow> session_begin s
      | _ \<Rightarrow> s)"
| "session_step exn_text (SA_Connected x) s = (if ss_phase s = SP_Connecting then session_connected exn_text x s else s)"
| "session_step exn_text (SA_Woken x) s =
     (if ss_phase s = SP_Waiting \<and> (x = None \<longrightarrow> ss_shutdown s) then session_woken exn_text x s else s)"
| "session_step exn_text (SA_Disconnected x) s =
     (case ss_phase s of SP_Disconnecting r \<Rightarrow> session_ended x r s | _ \<Rightarrow> s)"
| "session_step exn_text SA_Cancel s =
     (case ss_phase s of
        SP_Connecting \<Rightarrow> session_raised exn_text CancelledErrorE s
      | SP_Waiting \<Rightarrow> session_raised exn_text CancelledErrorE s
      | SP_Disconnecting r \<Rightarrow> session_ended (Inl CancelledErrorE) r s
      | _ \<Rightarrow> s)"
| "session_step exn_text SA_Shutdown s = s\<lparr>ss_shutdown := True\<rparr>"
| "session_step exn_text (SA_State c) s = (session_on_state c ^^ ss_registered s) s"
| "session_step exn_text (SA_Participant p) s = (session_on_participant p ^^ ss_registered s) s"
| "session_step exn_text (SA_Error x) s = (session_record_error x ^^ ss_registered s) s"

fun session_run :: "(exn \<Rightarrow> string) \<Rightarrow> session_action list \<Rightarrow> transport_session \<Rightarrow> transport_session" where
  "session_run exn_text [] s = s"
| "session_run exn_text (a # acts) s = session_run exn_text acts (session_step exn_text a s)"

section \<open>A session over the in-memory transport\<close>

definition session_handlers :: "transport_session handlers" where
  "session_handlers =
     \<lparr>hs_participant = [\<lambda>p. modify_eff (session_on_participant p)], hs_state = [\<lambda>c. modify_eff (session_on_state c)],
      hs_error = [\<lambda>x. modify_eff (session_record_error x)], hs_frame = [], hs_input = []\<rparr>"

definition add_handlers :: "'w handlers \<Rightarrow> 'w handlers \<Rightarrow> 'w handlers" where
  "add_handlers hs new =
     \<lparr>hs_participant = hs_participant hs @ hs_participant new, hs_state = hs_state hs @ hs_state new,
      hs_error = hs_error hs @ hs_error new, hs_frame = hs_frame hs @ hs_frame new, hs_input = hs_input hs @ hs_input new\<rparr>"

definition fake_client :: "('w \<Rightarrow> 'w) \<Rightarrow> 'w fake \<Rightarrow> 'w fake" where
  "fake_client f t = t\<lparr>fk_client := f (fk_client t)\<rparr>"

definition fake_session_close :: "transport_session fake \<Rightarrow> transport_session fake" where
  "fake_session_close t =
     (case ss_phase (fk_client t) of
        SP_Disconnecting r \<Rightarrow> (case fake_disconnect t of (x, t') \<Rightarrow> fake_client (session_ended x r) t')
      | _ \<Rightarrow> t)"

definition fake_session_begin ::
  "(exn \<Rightarrow> string) \<Rightarrow> media_config \<Rightarrow> transport_session fake \<Rightarrow> transport_session fake" where
  "fake_session_begin exn_text cfg t =
     (let t1 = fake_client session_begin (t\<lparr>fk_handlers := add_handlers (fk_handlers t) session_handlers\<rparr>) in
      case fake_connect cfg t1 of (x, t2) \<Rightarrow> fake_session_close (fake_client (session_connected exn_text x) t2))"

definition fake_session_end ::
  "(exn \<Rightarrow> string) \<Rightarrow> unit result option \<Rightarrow> transport_session fake \<Rightarrow> transport_session fake" where
  "fake_session_end exn_text x t = fake_session_close (fake_client (session_woken exn_text x) t)"

section \<open>worker.py\<close>

text \<open>
  \<open>RuntimeWorkerSession\<close> runs its bridge; a signal creates a task that shuts the bridge down, when
  the event loop supports signal handlers. Otherwise the signal is none of the session's.
\<close>

datatype worker_action = WA_Run media_config | WA_Signal | WA_Shutdown | WA_Bridge bridge_action

record worker_session =
  wk_bridge :: bridge
  wk_handling_signals :: bool
  wk_supports_signals :: bool

fun worker_step :: "bridge_config \<Rightarrow> worker_action \<Rightarrow> worker_session \<Rightarrow> worker_session" where
  "worker_step bc (WA_Run cfg) w =
     w\<lparr>wk_handling_signals := wk_supports_signals w,
       wk_bridge := bridge_step bc (BA_Run (md_room_name cfg)) (wk_bridge w)\<rparr>"
| "worker_step bc WA_Signal w =
     (if wk_handling_signals w then w\<lparr>wk_bridge := bridge_step bc BA_Shutdown (wk_bridge w)\<rparr> else w)"
| "worker_step bc WA_Shutdown w = w\<lparr>wk_bridge := bridge_step bc BA_Shutdown (wk_bridge w)\<rparr>"
| "worker_step bc (WA_Bridge a) w = w\<lparr>wk_bridge := bridge_step bc a (wk_bridge w)\<rparr>"

end
