(* ===== verification/SessionProps.thy ===== *)
theory SessionProps
  imports Session
begin

text \<open>
  The minimal session follows its lifecycle, records what its transport reports, and runs over
  the in-memory transport from beginning to end.
\<close>

section \<open>The lifecycle\<close>

text \<open>The specification: which lifecycle state may follow which. A session may be run again.\<close>

fun session_next :: "lifecycle_state \<Rightarrow> lifecycle_state \<Rightarrow> bool" where
  "session_next L_INITIALIZING l = (l = L_CONNECTING)"
| "session_next L_CONNECTING l = (l \<in> {L_CONNECTED, L_FAILED, L_STOPPING})"
| "session_next L_CONNECTED l = (l \<in> {L_FAILED, L_STOPPING})"
| "session_next L_STOPPING l = (l = L_STOPPED)"
| "session_next L_STOPPED l = (l = L_INITIALIZING)"
| "session_next L_FAILED l = (l = L_INITIALIZING)"

fun lifecycle_of :: "observation \<Rightarrow> lifecycle_state list" where
  "lifecycle_of (ObsLifecycle l) = [l]"
| "lifecycle_of _ = []"

definition lifecycles :: "transport_session \<Rightarrow> lifecycle_state list" where
  "lifecycles s = concat (map lifecycle_of (ss_observations s))"

fun phase_lifecycles :: "session_phase \<Rightarrow> lifecycle_state set" where
  "phase_lifecycles SP_New = {L_INITIALIZING}"
| "phase_lifecycles SP_Connecting = {L_CONNECTING}"
| "phase_lifecycles SP_Waiting = {L_CONNECTED}"
| "phase_lifecycles (SP_Disconnecting r) = {L_FAILED, L_STOPPING}"
| "phase_lifecycles (SP_Ended r) = {L_FAILED, L_STOPPED}"

text \<open>The record of a session that has begun is a path of the specification to its lifecycle state.\<close>

definition on_path :: "transport_session \<Rightarrow> bool" where
  "on_path s \<longleftrightarrow> lifecycles s \<noteq> [] \<and> hd (lifecycles s) = L_INITIALIZING \<and> last (lifecycles s) = ss_lifecycle s \<and>
     successively session_next (lifecycles s)"

definition path_inv :: "transport_session \<Rightarrow> bool" where
  "path_inv s \<longleftrightarrow> ss_lifecycle s \<in> phase_lifecycles (ss_phase s) \<and>
     (if ss_phase s = SP_New then lifecycles s = [] else on_path s)"

lemma lifecycles_ops [simp]:
  "lifecycles (s\<lparr>ss_phase := p\<rparr>) = lifecycles s" "lifecycles (s\<lparr>ss_registered := n\<rparr>) = lifecycles s"
  "lifecycles (s\<lparr>ss_shutdown := b\<rparr>) = lifecycles s" "lifecycles (session_on_state c s) = lifecycles s"
  "lifecycles (session_on_participant p' s) = lifecycles s" "lifecycles (session_record_error x s) = lifecycles s"
  "lifecycles (session_transition l s) = lifecycles s @ [l]"
  by (simp_all add: lifecycles_def session_on_state_def session_on_participant_def session_record_error_def
      session_transition_def)

lemma lifecycle_ops [simp]:
  "ss_lifecycle (session_on_state c s) = ss_lifecycle s" "ss_lifecycle (session_on_participant p' s) = ss_lifecycle s"
  "ss_lifecycle (session_record_error x s) = ss_lifecycle s" "ss_lifecycle (session_transition l s) = l"
  "ss_phase (session_on_state c s) = ss_phase s" "ss_phase (session_on_participant p' s) = ss_phase s"
  "ss_phase (session_record_error x s) = ss_phase s"
  by (simp_all add: session_on_state_def session_on_participant_def session_record_error_def session_transition_def)

lemma on_path_ops [simp]:
  "on_path (s\<lparr>ss_phase := p\<rparr>) = on_path s" "on_path (s\<lparr>ss_registered := n\<rparr>) = on_path s"
  "on_path (s\<lparr>ss_shutdown := b\<rparr>) = on_path s" "on_path (session_record_error x s) = on_path s"
  by (simp_all add: on_path_def)

lemma on_path_transition: "on_path s \<Longrightarrow> session_next (ss_lifecycle s) l \<Longrightarrow> on_path (session_transition l s)"
  by (auto simp: on_path_def successively_append_iff)

lemma path_callback:
  assumes "path_inv s" and "\<And>s. lifecycles (f s) = lifecycles s \<and> ss_lifecycle (f s) = ss_lifecycle s \<and> ss_phase (f s) = ss_phase s"
  shows "path_inv ((f ^^ n) s)"
proof -
  have "lifecycles ((f ^^ n) s) = lifecycles s \<and> ss_lifecycle ((f ^^ n) s) = ss_lifecycle s \<and> ss_phase ((f ^^ n) s) = ss_phase s"
    by (induction n) (simp_all add: assms(2))
  with assms(1) show ?thesis by (simp add: path_inv_def on_path_def split: if_splits)
qed

lemma path_begin: "path_inv s \<Longrightarrow> ss_phase s = SP_New \<or> (\<exists>r. ss_phase s = SP_Ended r) \<Longrightarrow> path_inv (session_begin s)"
  by (auto simp: path_inv_def session_begin_def Let_def on_path_def successively_append_iff)

lemma path_finally:
  "on_path s \<Longrightarrow> ss_lifecycle s \<in> {L_FAILED, L_STOPPING, L_CONNECTED} \<Longrightarrow> path_inv (session_finally r s)"
  by (auto simp: path_inv_def session_finally_def Let_def on_path_transition)

lemma path_raised:
  "on_path s \<Longrightarrow> ss_lifecycle s \<in> {L_CONNECTING, L_CONNECTED} \<Longrightarrow> path_inv (session_raised exn_text e s)"
  by (auto simp: session_raised_def intro!: path_finally on_path_transition)

lemma session_step_path: "path_inv s \<Longrightarrow> path_inv (session_step exn_text a s)"
proof (cases a)
  case SA_Run
  then show "path_inv s \<Longrightarrow> ?thesis" by (auto intro!: path_begin split: session_phase.split)
next
  case (SA_Connected x)
  have "path_inv ((session_transition L_CONNECTED s)\<lparr>ss_phase := SP_Waiting\<rparr>)" if "on_path s" "ss_lifecycle s = L_CONNECTING"
    using that by (simp add: path_inv_def on_path_transition)
  with SA_Connected show "path_inv s \<Longrightarrow> ?thesis"
    by (auto simp: path_inv_def [of s] session_connected_def intro!: path_raised split: sum.split)
next
  case (SA_Woken x)
  then show "path_inv s \<Longrightarrow> ?thesis"
    by (auto simp: session_woken_def path_inv_def [of s] intro!: path_raised path_finally on_path_transition
        split: option.split sum.split)
next
  case (SA_Disconnected x)
  then show "path_inv s \<Longrightarrow> ?thesis"
    by (auto simp: path_inv_def session_ended_def Let_def on_path_transition split: session_phase.split)
next
  case SA_Cancel
  then show "path_inv s \<Longrightarrow> ?thesis"
    by (cases "ss_phase s") (auto simp: path_inv_def [of s] intro!: path_raised,
        auto simp: path_inv_def session_ended_def Let_def on_path_transition)
next
  case SA_Shutdown
  then show "path_inv s \<Longrightarrow> ?thesis" by (simp add: path_inv_def)
qed (simp_all add: path_callback)

lemma session_run_path: "path_inv s \<Longrightarrow> path_inv (session_run exn_text acts s)"
  by (induction acts arbitrary: s) (simp_all add: session_step_path)

section \<open>What is recorded\<close>

text \<open>The errors and participants a session lists are those among its observations, in order.\<close>

fun errors_of :: "observation \<Rightarrow> transport_error list" where
  "errors_of (ObsError x) = [x]"
| "errors_of _ = []"

fun participants_of :: "observation \<Rightarrow> participant_event list" where
  "participants_of (ObsParticipant p) = [p]"
| "participants_of _ = []"

definition recorded :: "transport_session \<Rightarrow> bool" where
  "recorded s \<longleftrightarrow> ss_errors s = concat (map errors_of (ss_observations s)) \<and>
     ss_participants s = concat (map participants_of (ss_observations s))"

lemma recorded_ops [simp]:
  "recorded s \<Longrightarrow> recorded (s\<lparr>ss_phase := p\<rparr>)" "recorded s \<Longrightarrow> recorded (s\<lparr>ss_registered := n\<rparr>)"
  "recorded s \<Longrightarrow> recorded (s\<lparr>ss_shutdown := b\<rparr>)" "recorded s \<Longrightarrow> recorded (session_on_state c s)"
  "recorded s \<Longrightarrow> recorded (session_on_participant q s)" "recorded s \<Longrightarrow> recorded (session_record_error x s)"
  "recorded s \<Longrightarrow> recorded (session_transition l s)"
  by (simp_all add: recorded_def session_on_state_def session_on_participant_def session_record_error_def
      session_transition_def)

lemma recorded_callback: "(\<And>s. recorded s \<Longrightarrow> recorded (f s)) \<Longrightarrow> recorded s \<Longrightarrow> recorded ((f ^^ n) s)"
  by (induction n) simp_all

lemma recorded_raised: "recorded s \<Longrightarrow> recorded (session_raised exn_text e s)"
  by (simp add: session_raised_def session_finally_def Let_def)

lemma session_step_recorded: "recorded s \<Longrightarrow> recorded (session_step exn_text a s)"
  by (cases a) (auto simp: session_begin_def session_connected_def session_woken_def session_finally_def session_ended_def
      recorded_raised Let_def intro!: recorded_callback split: session_phase.split sum.split option.split)

lemma session_run_recorded: "recorded s \<Longrightarrow> recorded (session_run exn_text acts s)"
  by (induction acts arbitrary: s) (simp_all add: session_step_recorded)

text \<open>
  C16. A minimal session implements its lifecycle: whatever its transport reports and however it
  is stopped, the lifecycle states it has announced form a path of the specification that starts
  with INITIALIZING and ends with its current state, a session whose \<open>run\<close> has ended is FAILED or
  STOPPED, and its errors and participants are the observed ones in order.
\<close>

theorem session_follows_lifecycle:
  "let s = session_run exn_text acts init_session in
     successively session_next (lifecycles s) \<and>
     (lifecycles s = [] \<or> hd (lifecycles s) = L_INITIALIZING \<and> last (lifecycles s) = ss_lifecycle s) \<and>
     ss_lifecycle s \<in> phase_lifecycles (ss_phase s) \<and> recorded s"
proof -
  have "path_inv init_session \<and> recorded init_session"
    by (simp add: path_inv_def recorded_def init_session_def lifecycles_def)
  then have "path_inv (session_run exn_text acts init_session)" "recorded (session_run exn_text acts init_session)"
    by (simp_all add: session_run_path session_run_recorded)
  then show ?thesis by (auto simp: Let_def path_inv_def on_path_def split: if_splits)
qed

section \<open>A whole run over the in-memory transport\<close>

lemmas fake_run_defs = fake_session_begin_def fake_session_end_def fake_session_close_def fake_client_def
  session_begin_def session_connected_def session_woken_def session_finally_def session_raised_def session_ended_def
  session_transition_def session_record_error_def session_on_state_def session_on_participant_def add_handlers_def
  session_handlers_def no_handlers_def init_fake_def init_session_def fake_connect_def fake_disconnect_def
  fake_set_state_def fake_call_def fake_emit_error_def fake_emit_participant_def simulate_error_def eff_defs

text \<open>
  A connection that fails is reported twice, by the transport and by the session, which ends as
  FAILED, with the transport closed and its waiters woken; \<open>run\<close> itself returns.
\<close>

lemma failed_connection:
  "let t = fake_session_begin exn_text cfg ((init_fake init_session)\<lparr>fk_fail_on_connect := True\<rparr>) in
     ss_phase (fk_client t) = SP_Ended (Inr ()) \<and> ss_lifecycle (fk_client t) = L_FAILED \<and>
     map xe_code (ss_errors (fk_client t)) = [''connect_failed'', ''session_connect_failed''] \<and>
     ss_conn_states (fk_client t) = [TC_CONNECTING, TC_FAILED, TC_DISCONNECTED] \<and>
     fk_state t = TC_DISCONNECTED \<and> fk_disconnected t"
  by (simp add: fake_run_defs Let_def)

text \<open>
  An error of a connected transport is recorded but does not make the session fail: unlike the
  bridge it ends as STOPPED.
\<close>

lemma transport_error_stops:
  "let t = fake_session_end exn_text (Some (Inr ())) (snd (simulate_error code msg b
       (fake_session_begin exn_text cfg (init_fake init_session)))) in
     ss_phase (fk_client t) = SP_Ended (Inr ()) \<and> ss_lifecycle (fk_client t) = L_STOPPED \<and>
     ss_errors (fk_client t) = [\<lparr>xe_code = code, xe_message = msg, xe_retryable = b\<rparr>] \<and>
     ss_conn_states (fk_client t) = [TC_CONNECTING, TC_CONNECTED, TC_FAILED, TC_DISCONNECTED]"
  by (simp add: fake_run_defs str_truthy_def Let_def)

text \<open>A worker's bridge takes only steps of theory Bridge.\<close>

lemma worker_refines_bridge: "bridge_reachable bc b0 (wk_bridge w) \<Longrightarrow> bridge_reachable bc b0 (wk_bridge (worker_step bc a w))"
  by (cases a) (auto intro: bridge_reachable.bridge_next simp del: bridge_step.simps)

end
