(* ===== verification/LlmAdapters.thy ===== *)
theory LlmAdapters
  imports System PyNumbers "HOL-Library.AList"
begin

text \<open>
  The language-model adapters of packages/providers: openai_llm.py and groq_llm.py, which
  share their collector, their streaming loop and their error table and differ in the
  conversion of messages. The vendor SDK is a parameter: it answers the keyword arguments of
  \<open>chat.completions.create\<close> with the streamed chunks, each with the value the cancellation
  token has when it arrives, and with the way the stream ends. An adapter call is the list of
  chunks it yields and its outcome.
\<close>

section \<open>The vendor's stream\<close>

record tool_delta =
  vd_index :: int
  vd_id :: "string option"
  vd_function :: "(string option \<times> string option) option"

record vendor_choice =
  vc_content :: "string option"
  vc_tool_calls :: "tool_delta list"
  vc_finish_reason :: "string option"

text \<open>A chunk without choices is \<open>None\<close>.\<close>

type_synonym vendor_event = "bool \<times> vendor_choice option"

text \<open>
  The exceptions of the openai package the adapters tell apart, and any other one with its
  text; \<open>CancelledError\<close> is no \<open>Exception\<close> and passes through.
\<close>

datatype vendor_error = VE_Auth | VE_RateLimit | VE_Connection | VE_Status int | VE_Other string

datatype vendor_end = End_Normal | End_Error vendor_error | End_Cancelled

section \<open>Collecting tool calls\<close>

record tool_acc =
  ta_id :: string
  ta_name :: string
  ta_arguments :: string

definition empty_acc :: tool_acc where
  "empty_acc = \<lparr>ta_id = [], ta_name = [], ta_arguments = []\<rparr>"

text \<open>The dict of accumulators, in insertion order.\<close>

type_synonym collector = "(int \<times> tool_acc) list"

definition delta_name :: "tool_delta \<Rightarrow> string" where
  "delta_name d = (case vd_function d of None \<Rightarrow> [] | Some (n, _) \<Rightarrow> str_or n [])"

definition delta_arguments :: "tool_delta \<Rightarrow> string" where
  "delta_arguments d = (case vd_function d of None \<Rightarrow> [] | Some (_, x) \<Rightarrow> str_or x [])"

definition extend_acc :: "tool_delta \<Rightarrow> tool_acc \<Rightarrow> tool_acc" where
  "extend_acc d a =
     \<lparr>ta_id = str_or (vd_id d) (ta_id a),
      ta_name = ta_name a @ delta_name d, ta_arguments = ta_arguments a @ delta_arguments d\<rparr>"

definition feed_delta :: "tool_delta \<Rightarrow> collector \<Rightarrow> collector" where
  "feed_delta d acc =
     AList.update (vd_index d)
       (extend_acc d (case map_of acc (vd_index d) of None \<Rightarrow> empty_acc | Some a \<Rightarrow> a)) acc"

definition accumulated_call :: "int \<Rightarrow> tool_acc \<Rightarrow> llm_tool_call" where
  "accumulated_call i a =
     \<lparr>tc_id = (if ta_id a = [] then ''call_'' @ int_str i else ta_id a), tc_name = ta_name a,
      tc_arguments = (if ta_arguments a = [] then ''{}'' else ta_arguments a)\<rparr>"

definition to_tool_calls :: "collector \<Rightarrow> llm_tool_call list result" where
  "to_tool_calls acc =
     validate_all (\<lambda>i. check_llm_tool_call (accumulated_call i (the (map_of acc i)))) (sort (map fst acc))"

section \<open>The keyword arguments\<close>

definition number_param :: "json_dict \<Rightarrow> string \<Rightarrow> pyfloat option result" where
  "number_param ps k =
     (case map_of ps k of
        Some (JInt n) \<Rightarrow> map_sum id Some (py_float n)
      | Some (JFloat x) \<Rightarrow> Inr (Some x)
      | _ \<Rightarrow> Inr None)"

text \<open>\<open>a or b or c\<close> over \<open>params.get\<close>.\<close>

fun first_truthy :: "json_dict \<Rightarrow> string list \<Rightarrow> json option" where
  "first_truthy ps [] = None"
| "first_truthy ps (k # ks) =
     (case map_of ps k of
        None \<Rightarrow> first_truthy ps ks
      | Some j \<Rightarrow> if json_truthy j then Some j else first_truthy ps ks)"

definition or_param :: "pyfloat option \<Rightarrow> json_dict \<Rightarrow> string \<Rightarrow> pyfloat option result" where
  "or_param x ps k = (case x of Some v \<Rightarrow> Inr (Some v) | None \<Rightarrow> number_param ps k)"

definition output_tokens :: "llm_request \<Rightarrow> int option" where
  "output_tokens r =
     (case rq_max_output_tokens r of
        Some n \<Rightarrow> Some n
      | None \<Rightarrow>
          (case first_truthy (rq_params r) [''max_output_tokens'', ''max_completion_tokens'', ''max_tokens''] of
             Some (JInt n) \<Rightarrow> if 1 \<le> n then Some n else None
           | _ \<Rightarrow> None))"

definition optional_arg :: "string \<Rightarrow> json option \<Rightarrow> json_dict" where
  "optional_arg k j = (case j of None \<Rightarrow> [] | Some v \<Rightarrow> [(k, v)])"

definition chat_kwargs ::
  "(llm_request \<Rightarrow> json list) \<Rightarrow> (llm_request \<Rightarrow> json list) \<Rightarrow> string \<Rightarrow> llm_request \<Rightarrow> json_dict result" where
  "chat_kwargs to_messages to_tools model r =
     and_then (or_param (rq_temperature r) (rq_params r) ''temperature'') (\<lambda>t.
     and_then (or_param (rq_top_p r) (rq_params r) ''top_p'') (\<lambda>p.
       Inr ([(''model'', JStr (if rq_model r = [] then model else rq_model r)),
             (''messages'', JList (to_messages r)), (''stream'', JBool True)] @
            optional_arg ''temperature'' (map_option JFloat t) @
            optional_arg ''top_p'' (map_option JFloat p) @
            optional_arg ''max_completion_tokens'' (map_option JInt (output_tokens r)) @
            (if rq_tools r = [] then [] else [(''tools'', JList (to_tools r))]))))"

section \<open>Messages and tools on the wire\<close>

definition wire_text :: "string \<Rightarrow> string \<Rightarrow> json" where
  "wire_text role content = JObj [(''role'', JStr role), (''content'', JStr content)]"

definition system_messages :: "llm_request \<Rightarrow> json list" where
  "system_messages r = (if rq_system r = [] then [] else [wire_text ''system'' (rq_system r)])"

definition openai_tool_call :: "llm_tool_call \<Rightarrow> json" where
  "openai_tool_call c =
     JObj [(''id'', JStr (tc_id c)), (''type'', JStr ''function''),
           (''function'', JObj [(''name'', JStr (tc_name c)), (''arguments'', JStr (tc_arguments c))])]"

definition openai_message :: "llm_message \<Rightarrow> json" where
  "openai_message m =
     (if lm_role m = LR_ASSISTANT \<and> lm_tool_calls m \<noteq> [] then
        JObj [(''role'', JStr ''assistant''),
              (''content'', if lm_content m = [] then JNull else JStr (lm_content m)),
              (''tool_calls'', JList (map openai_tool_call (lm_tool_calls m)))]
      else if lm_role m = LR_TOOL then
        JObj [(''role'', JStr ''tool''), (''content'', JStr (lm_content m)),
              (''tool_call_id'', JStr (str_or (lm_tool_call_id m) []))]
      else wire_text (llm_role_value (lm_role m)) (lm_content m))"

definition to_openai_messages :: "llm_request \<Rightarrow> json list" where
  "to_openai_messages r = system_messages r @ map openai_message (rq_messages r)"

definition to_groq_messages :: "llm_request \<Rightarrow> json list" where
  "to_groq_messages r =
     system_messages r @ map (\<lambda>m. wire_text (llm_role_value (lm_role m)) (lm_content m)) (rq_messages r)"

definition wire_tool :: "llm_tool_definition \<Rightarrow> json" where
  "wire_tool d =
     JObj [(''type'', JStr ''function''),
           (''function'', JObj [(''name'', JStr (td_name d)), (''description'', JStr (td_description d)),
              (''parameters'', JObj (td_parameters d))])]"

definition to_openai_tools :: "llm_request \<Rightarrow> json list" where
  "to_openai_tools r = map wire_tool (rq_tools r)"

definition to_groq_tools :: "llm_request \<Rightarrow> json list" where
  "to_groq_tools r = map wire_tool (rq_tools r)"

section \<open>Errors and usage\<close>

definition provider_failure :: "string \<Rightarrow> provider_error_code \<Rightarrow> string \<Rightarrow> bool \<Rightarrow> exn" where
  "provider_failure key code msg retry =
     ProviderErr \<lparr>pe_code = code, pe_message = msg, pe_provider_key = key, pe_retryable = retry\<rparr>"

definition normalize_chat_error :: "string \<Rightarrow> vendor_error \<Rightarrow> exn" where
  "normalize_chat_error key v =
     (case v of
        VE_Auth \<Rightarrow> provider_failure key PE_AUTH ''authentication failed'' False
      | VE_RateLimit \<Rightarrow> provider_failure key PE_RATE_LIMIT ''rate limit exceeded'' True
      | VE_Connection \<Rightarrow> provider_failure key PE_TIMEOUT ''connection failed'' True
      | VE_Status n \<Rightarrow> provider_failure key PE_PROVIDER (''provider error status='' @ int_str n) (500 \<le> n)
      | VE_Other m \<Rightarrow> provider_failure key PE_UNKNOWN m False)"

definition normalize_openai_error :: "vendor_error \<Rightarrow> exn" where
  "normalize_openai_error = normalize_chat_error ''openai''"

definition normalize_groq_error :: "vendor_error \<Rightarrow> exn" where
  "normalize_groq_error = normalize_chat_error ''groq''"

text \<open>Prompt and completion counters of the vendor's usage object, each possibly missing.\<close>

definition usage_from_vendor :: "(int option \<times> int option) option \<Rightarrow> usage option result" where
  "usage_from_vendor u =
     (case u of
        Some (Some p, Some c) \<Rightarrow>
          map_sum id Some (check_usage
            \<lparr>us_input_units = p, us_output_units = c, us_unit = UU_TOKENS, us_estimated_cost_usd = None\<rparr>)
      | _ \<Rightarrow> Inr None)"

section \<open>Streaming\<close>

definition check_llm_stream_chunk :: "llm_stream_chunk \<Rightarrow> llm_stream_chunk result" where
  "check_llm_stream_chunk c =
     (case lc_finish_reason c of
        Some f \<Rightarrow> if 64 < length f then Inl (ValidationError ''finish_reason'') else Inr c
      | None \<Rightarrow> Inr c)"

text \<open>The chunk yielded for a choice, with the collector already fed; \<open>None\<close> for none.\<close>

definition yielded_chunk :: "collector \<Rightarrow> vendor_choice \<Rightarrow> llm_stream_chunk option result" where
  "yielded_chunk acc ch =
     (let delta = str_or (vc_content ch) []; fin = vc_finish_reason ch in
      if delta = [] \<and> \<not> str_truthy fin then Inr None
      else and_then (if str_truthy fin then to_tool_calls acc else Inr []) (\<lambda>calls.
             map_sum id Some (check_llm_stream_chunk
               \<lparr>lc_delta = delta, lc_finish_reason = fin, lc_tool_calls = calls\<rparr>)))"

text \<open>
  The loop of \<open>stream\<close>. An exception of a contract constructor inside it is normalized like one
  of the SDK, with its text \<open>exn_text e\<close>.
\<close>

fun chat_chunks ::
  "(vendor_error \<Rightarrow> exn) \<Rightarrow> (exn \<Rightarrow> string) \<Rightarrow> collector \<Rightarrow> vendor_event list \<Rightarrow> vendor_end \<Rightarrow>
     llm_stream_chunk list \<times> unit result" where
  "chat_chunks as_exn exn_text acc [] ending =
     ([], case ending of End_Normal \<Rightarrow> Inr () | End_Error v \<Rightarrow> Inl (as_exn v) | End_Cancelled \<Rightarrow> Inl CancelledErrorE)"
| "chat_chunks as_exn exn_text acc ((cancelled, choice) # evs) ending =
     (if cancelled then ([], Inr ())
      else case choice of
             None \<Rightarrow> chat_chunks as_exn exn_text acc evs ending
           | Some ch \<Rightarrow>
               (let acc' = fold feed_delta (vc_tool_calls ch) acc in
                case yielded_chunk acc' ch of
                  Inl e \<Rightarrow> ([], Inl (as_exn (VE_Other (exn_text e))))
                | Inr None \<Rightarrow> chat_chunks as_exn exn_text acc' evs ending
                | Inr (Some c) \<Rightarrow> (case chat_chunks as_exn exn_text acc' evs ending of (cs, r) \<Rightarrow> (c # cs, r))))"

definition chat_stream ::
  "(llm_request \<Rightarrow> json list) \<Rightarrow> (llm_request \<Rightarrow> json list) \<Rightarrow> (vendor_error \<Rightarrow> exn) \<Rightarrow>
     (exn \<Rightarrow> string) \<Rightarrow> string \<Rightarrow> (json_dict \<Rightarrow> vendor_event list \<times> vendor_end) \<Rightarrow>
     llm_request \<Rightarrow> llm_stream_chunk list \<times> unit result" where
  "chat_stream to_messages to_tools as_exn exn_text model vendor r =
     (case chat_kwargs to_messages to_tools model r of
        Inl e \<Rightarrow> ([], Inl e)
      | Inr kw \<Rightarrow> (case vendor kw of (evs, ending) \<Rightarrow> chat_chunks as_exn exn_text [] evs ending))"

definition openai_stream where
  "openai_stream = chat_stream to_openai_messages to_openai_tools normalize_openai_error"

definition groq_stream where
  "groq_stream = chat_stream to_groq_messages to_groq_tools normalize_groq_error"

text \<open>What the task that iterates the stream is resumed with, one stimulus per step.\<close>

definition stream_stimuli :: "llm_stream_chunk list \<times> unit result \<Rightarrow> stimulus list" where
  "stream_stimuli x =
     map S_LlmChunk (fst x) @ [case snd x of Inr _ \<Rightarrow> S_LlmEnd | Inl e \<Rightarrow> S_Raise e]"

section \<open>Facts about the collector\<close>

text \<open>
  The reference: the deltas of one index, joined in order; the identifier is the last one
  given. The calls of a list of deltas come in the order of their indexes.
\<close>

definition fragments :: "int \<Rightarrow> tool_delta list \<Rightarrow> tool_delta list" where
  "fragments i ds = filter (\<lambda>d. vd_index d = i) ds"

definition joined_call :: "int \<Rightarrow> tool_delta list \<Rightarrow> llm_tool_call" where
  "joined_call i ds =
     \<lparr>tc_id = (case filter (\<lambda>x. x \<noteq> []) (map (\<lambda>d. str_or (vd_id d) []) ds) of
                 [] \<Rightarrow> ''call_'' @ int_str i | ids \<Rightarrow> last ids),
      tc_name = concat (map delta_name ds),
      tc_arguments = (let x = concat (map delta_arguments ds) in if x = [] then ''{}'' else x)\<rparr>"

definition joined_calls :: "tool_delta list \<Rightarrow> llm_tool_call list" where
  "joined_calls ds = map (\<lambda>i. joined_call i (fragments i ds)) (sorted_list_of_set (vd_index ` set ds))"

lemma map_of_feed:
  "map_of (feed_delta d acc) =
     (map_of acc)(vd_index d \<mapsto> extend_acc d (case map_of acc (vd_index d) of None \<Rightarrow> empty_acc | Some a \<Rightarrow> a))"
  by (simp add: feed_delta_def update_conv')

lemma map_of_collected:
  "map_of (fold feed_delta ds acc) i =
     (if fragments i ds = [] then map_of acc i
      else Some (fold extend_acc (fragments i ds) (case map_of acc i of None \<Rightarrow> empty_acc | Some a \<Rightarrow> a)))"
  by (induction ds arbitrary: acc) (auto simp: fragments_def map_of_feed)

lemma keys_collected:
  "distinct (map fst acc) \<Longrightarrow> distinct (map fst (fold feed_delta ds acc)) \<and>
     fst ` set (fold feed_delta ds acc) = fst ` set acc \<union> vd_index ` set ds"
  by (induction ds arbitrary: acc) (auto simp: feed_delta_def distinct_update dom_update)

lemma sorted_keys_collected: "sort (map fst (fold feed_delta ds [])) = sorted_list_of_set (vd_index ` set ds)"
  using keys_collected [of "[]" ds]
  by (intro sorted_distinct_set_unique) (simp_all add: sorted_list_of_set.set_sorted_key_list_of_set)

lemma fold_extend:
  "ta_name (fold extend_acc ds a) = ta_name a @ concat (map delta_name ds)"
  "ta_arguments (fold extend_acc ds a) = ta_arguments a @ concat (map delta_arguments ds)"
  "ta_id (fold extend_acc ds a) =
     (case filter (\<lambda>x. x \<noteq> []) (map (\<lambda>d. str_or (vd_id d) []) ds) of [] \<Rightarrow> ta_id a | ids \<Rightarrow> last ids)"
  by (induction ds arbitrary: a) (auto simp: extend_acc_def str_or_def split: option.splits list.splits)

lemma accumulated_joined: "accumulated_call i (fold extend_acc ds empty_acc) = joined_call i ds"
proof -
  let ?ids = "filter (\<lambda>x. x \<noteq> []) (map (\<lambda>d. str_or (vd_id d) []) ds)"
  have "last ?ids \<noteq> []" if "?ids \<noteq> []" using last_in_set [OF that] by auto
  then show ?thesis
    by (cases ?ids) (simp_all add: accumulated_call_def joined_call_def fold_extend empty_acc_def Let_def)
qed

lemma collected_calls: "to_tool_calls (fold feed_delta ds []) = validate_all check_llm_tool_call (joined_calls ds)"
proof -
  have "accumulated_call i (the (map_of (fold feed_delta ds []) i)) = joined_call i (fragments i ds)"
    if "i \<in> vd_index ` set ds" for i
  proof -
    have "fragments i ds \<noteq> []" using that by (auto simp: fragments_def filter_empty_conv)
    then show ?thesis by (simp add: map_of_collected accumulated_joined)
  qed
  then show ?thesis
    unfolding to_tool_calls_def sorted_keys_collected joined_calls_def validate_all_map
    by (intro validate_all_cong refl) simp
qed

end
