(* ===== verification/LlmAdapterProps.thy ===== *)
theory LlmAdapterProps
  imports RuntimeProps LlmAdapters
begin

text \<open>
  The language-model adapters are correct: no fragment of a tool call and no piece of text is
  lost, the requests the runtime makes are legal conversations for OpenAI, and a vendor's
  answer completes the turn that asked for it. The Groq conversion is not: it drops the
  identifiers of tool calls.
\<close>

section \<open>The stream\<close>

definition event_text :: "vendor_event \<Rightarrow> string" where
  "event_text ev = (case snd ev of None \<Rightarrow> [] | Some ch \<Rightarrow> str_or (vc_content ch) [])"

definition event_deltas :: "vendor_event \<Rightarrow> tool_delta list" where
  "event_deltas ev = (case snd ev of None \<Rightarrow> [] | Some ch \<Rightarrow> vc_tool_calls ch)"

definition finishes :: "vendor_event \<Rightarrow> bool" where
  "finishes ev \<longleftrightarrow> (case snd ev of None \<Rightarrow> False | Some ch \<Rightarrow> str_truthy (vc_finish_reason ch))"

definition seen_events :: "vendor_event list \<Rightarrow> vendor_event list" where
  "seen_events = takeWhile (\<lambda>ev. \<not> fst ev)"

text \<open>The calls handed over at each finish reason: all that has been collected so far.\<close>

fun delivered_calls :: "tool_delta list \<Rightarrow> vendor_event list \<Rightarrow> llm_tool_call list" where
  "delivered_calls ds [] = []"
| "delivered_calls ds (ev # evs) =
     (if finishes ev then joined_calls (ds @ event_deltas ev) else []) @
     delivered_calls (ds @ event_deltas ev) evs"

lemma check_calls_Inr: "validate_all check_llm_tool_call xs = Inr ys \<Longrightarrow> ys = xs"
  by (induction xs arbitrary: ys) (auto simp: check_llm_tool_call_def map_sum_def split: sum.splits if_splits)

lemma yielded_chunk_Inr:
  assumes "yielded_chunk (fold feed_delta ds []) ch = Inr x"
  shows "x = None \<Longrightarrow> str_or (vc_content ch) [] = [] \<and> \<not> str_truthy (vc_finish_reason ch)"
    and "x = Some c \<Longrightarrow> c = \<lparr>lc_delta = str_or (vc_content ch) [], lc_finish_reason = vc_finish_reason ch,
      lc_tool_calls = (if str_truthy (vc_finish_reason ch) then joined_calls ds else [])\<rparr>"
  using assms
  by (auto simp: yielded_chunk_def Let_def and_then_Inr collected_calls map_sum_def check_llm_stream_chunk_def
      dest!: check_calls_Inr split: if_splits sum.splits option.splits)

lemma chat_chunks_sound:
  assumes "chat_chunks as_exn exn_text (fold feed_delta ds []) evs ending = (cs, r)"
  shows "prefix (concat (map lc_delta cs)) (concat (map event_text (seen_events evs))) \<and>
    (r = Inr () \<longrightarrow> concat (map lc_delta cs) = concat (map event_text (seen_events evs)) \<and>
      concat (map lc_tool_calls cs) = delivered_calls ds (seen_events evs))"
  using assms
proof (induction evs arbitrary: ds cs r)
  case (Cons ev evs)
  obtain b ch where ev: "ev = (b, ch)" by (cases ev)
  note facts = event_text_def event_deltas_def finishes_def
  show ?case
  proof (cases "b \<or> ch = None")
    case True
    with Cons.prems Cons.IH [of ds cs r] show ?thesis
      by (cases b) (auto simp: ev seen_events_def facts)
  next
    case False
    then obtain x where x: "\<not> b" "ch = Some x" by auto
    let ?ds = "ds @ vc_tool_calls x"
    have acc: "fold feed_delta (vc_tool_calls x) (fold feed_delta ds []) = fold feed_delta ?ds []" by simp
    note run = Cons.prems [unfolded ev x(2) chat_chunks.simps option.case Let_def acc]
    show ?thesis
    proof (cases "yielded_chunk (fold feed_delta ?ds []) x")
      case (Inl e)
      with run x show ?thesis by (auto simp: ev)
    next
      case (Inr y)
      obtain cs' r' where rest: "chat_chunks as_exn exn_text (fold feed_delta ?ds []) evs ending = (cs', r')"
        by (cases "chat_chunks as_exn exn_text (fold feed_delta ?ds []) evs ending")
      note IH = Cons.IH [OF rest] and y = yielded_chunk_Inr [OF Inr]
      show ?thesis
      proof (cases y)
        case None
        with run rest Inr x(1) have "cs' = cs" "r' = r" by simp_all
        with IH y(1) [OF None] x show ?thesis by (simp add: ev seen_events_def facts)
      next
        case (Some c)
        with run rest Inr x(1) have "cs = c # cs'" "r' = r" by simp_all
        with IH y(2) [OF Some] x show ?thesis by (simp add: ev seen_events_def facts)
      qed
    qed
  qed
qed (simp add: seen_events_def)

text \<open>
  C8. However a vendor cuts tool calls into deltas and interleaves the deltas of several
  calls, the adapters' collector returns the calls of the reference: one per index, in the
  order of the indexes, its name and arguments the deltas of that index joined in order, its
  identifier the last one given.
\<close>

theorem collector_reassembles:
  "to_tool_calls (fold feed_delta ds []) = validate_all check_llm_tool_call (joined_calls ds)"
  by (rule collected_calls)

lemma delivered_calls_none: "\<forall>ev \<in> set evs. \<not> finishes ev \<Longrightarrow> delivered_calls ds evs = []"
  by (induction evs arbitrary: ds) auto

lemma delivered_calls_append:
  "delivered_calls ds (xs @ ys) = delivered_calls ds xs @ delivered_calls (ds @ concat (map event_deltas xs)) ys"
  by (induction xs arbitrary: ds) auto

text \<open>
  The adapters neither lose, duplicate nor reorder text, and hand over each tool call once:
  when a stream whose only finish reason comes with its last event ends normally and is not
  cancelled, the yielded deltas concatenate to the vendor's text and the yielded tool calls
  are the reassembled ones.
\<close>

theorem finished_stream_delivers:
  assumes "openai_stream exn_text model vendor r = (cs, Inr ())"
    and "chat_kwargs to_openai_messages to_openai_tools model r = Inr kw"
    and "vendor kw = (evs @ [ev], ending)"
    and "\<forall>e \<in> set (evs @ [ev]). \<not> fst e" and "\<forall>e \<in> set evs. \<not> finishes e" and "finishes ev"
  shows "concat (map lc_delta cs) = concat (map event_text (evs @ [ev])) \<and>
     concat (map lc_tool_calls cs) = joined_calls (concat (map event_deltas (evs @ [ev])))"
proof -
  have "chat_chunks normalize_openai_error exn_text (fold feed_delta [] []) (evs @ [ev]) ending = (cs, Inr ())"
    using assms(1-3) by (simp add: openai_stream_def chat_stream_def)
  moreover have "seen_events (evs @ [ev]) = evs @ [ev]" using assms(4) by (simp add: seen_events_def takeWhile_append)
  ultimately show ?thesis
    using chat_chunks_sound [of normalize_openai_error exn_text "[]"] assms(6)
    by (simp add: delivered_calls_append delivered_calls_none [OF assms(5)])
qed

text \<open>
  A stream that ends without a finish reason, because the vendor's connection closed
  cleanly or the vendor omits it, loses every tool call it carried: the adapter returns
  normally, and no yielded chunk has a tool call.
\<close>

theorem unfinished_stream_loses_calls:
  assumes "openai_stream exn_text model vendor r = (cs, Inr ())"
    and "chat_kwargs to_openai_messages to_openai_tools model r = Inr kw" and "vendor kw = (evs, ending)"
    and "\<forall>e \<in> set evs. \<not> finishes e"
  shows "concat (map lc_tool_calls cs) = []"
proof -
  have "chat_chunks normalize_openai_error exn_text (fold feed_delta [] []) evs ending = (cs, Inr ())"
    using assms(1-3) by (simp add: openai_stream_def chat_stream_def)
  moreover have "\<forall>e \<in> set (seen_events evs). \<not> finishes e"
    using assms(4) by (auto simp: seen_events_def dest: set_takeWhileD)
  ultimately show ?thesis
    using chat_chunks_sound [of normalize_openai_error exn_text "[]"] by (simp add: delivered_calls_none)
qed

section \<open>Conversations on the wire\<close>

text \<open>
  What the chat completions interface requires: the calls of an assistant message are
  answered at once, by one tool message each with the call's identifier.
\<close>

definition wire_field :: "string \<Rightarrow> json \<Rightarrow> json option" where
  "wire_field k j = (case j of JObj kvs \<Rightarrow> map_of kvs k | _ \<Rightarrow> None)"

definition wire_call_ids :: "json \<Rightarrow> json option list" where
  "wire_call_ids j =
     (case wire_field ''tool_calls'' j of Some (JList cs) \<Rightarrow> map (wire_field ''id'') cs | _ \<Rightarrow> [])"

fun tools_answered :: "json option list \<Rightarrow> json list \<Rightarrow> bool" where
  "tools_answered pending [] = (pending = [])"
| "tools_answered pending (m # ms) =
     (if wire_field ''role'' m = Some (JStr ''tool'')
      then (case pending of
              [] \<Rightarrow> False
            | i # rest \<Rightarrow> i \<noteq> None \<and> wire_field ''tool_call_id'' m = i \<and> tools_answered rest ms)
      else pending = [] \<and> tools_answered (wire_call_ids m) ms)"

lemma role_value_tool: "llm_role_value x = ''tool'' \<longleftrightarrow> x = LR_TOOL"
  by (cases x) simp_all

lemma wire_text_fields [simp]:
  "wire_field ''role'' (wire_text x y) = Some (JStr x)" "wire_call_ids (wire_text x y) = []"
  by (simp_all add: wire_field_def wire_text_def wire_call_ids_def)

lemma plain_on_wire: "plain_message m \<Longrightarrow> openai_message m = wire_text (llm_role_value (lm_role m)) (lm_content m)"
  by (simp add: plain_message_def openai_message_def)

lemma wire_texts_answered:
  "list_all (\<lambda>m. lm_role m \<noteq> LR_TOOL) ms \<Longrightarrow>
     tools_answered [] (map (\<lambda>m. wire_text (llm_role_value (lm_role m)) (lm_content m)) ms @ rest) =
     tools_answered [] rest"
  by (induction ms) (simp_all add: role_value_tool)

lemma plain_answered:
  assumes "list_all plain_message ms"
  shows "tools_answered [] (map openai_message ms @ rest) = tools_answered [] rest"
    and "list_all (\<lambda>m. lm_role m \<noteq> LR_TOOL) ms"
  using assms by (induction ms) (simp_all add: plain_on_wire role_value_tool, simp_all add: plain_message_def)

lemma system_answered: "tools_answered [] (system_messages r @ rest) = tools_answered [] rest"
  by (simp add: system_messages_def)

lemma tool_results_answered:
  assumes "map (\<lambda>m. (lm_role m, lm_tool_call_id m, lm_tool_calls m)) ts = map (\<lambda>c. (LR_TOOL, Some (tc_id c), [])) cs"
  shows "tools_answered (map (\<lambda>c. Some (JStr (tc_id c))) cs) (map openai_message ts @ rest) = tools_answered [] rest"
  using assms
proof (induction ts arbitrary: cs)
  case (Cons t ts)
  then obtain c cs' where "cs = c # cs'" by (cases cs) auto
  with Cons show ?case by (auto simp: openai_message_def wire_field_def str_or_def)
qed simp

lemma round_answered:
  assumes "is_round ms"
  shows "tools_answered [] (map openai_message ms @ rest) = tools_answered [] rest"
proof -
  obtain a ts where ms: "ms = a # ts" "lm_role a = LR_ASSISTANT" "lm_tool_calls a \<noteq> []"
    and ts: "map (\<lambda>m. (lm_role m, lm_tool_call_id m, lm_tool_calls m)) ts =
      map (\<lambda>c. (LR_TOOL, Some (tc_id c), [])) (lm_tool_calls a)"
    using assms by (auto simp: is_round_def)
  have "wire_field ''role'' (openai_message a) = Some (JStr ''assistant'')"
    "wire_call_ids (openai_message a) = map (\<lambda>c. Some (JStr (tc_id c))) (lm_tool_calls a)"
    using ms by (simp_all add: openai_message_def wire_field_def wire_call_ids_def openai_tool_call_def)
  then show ?thesis using tool_results_answered [OF ts] ms(1) by simp
qed

lemma rounds_answered: "rounds n extra \<Longrightarrow> tools_answered [] (map openai_message extra)"
proof -
  have "\<forall>r \<in> set rs. is_round r \<Longrightarrow> tools_answered [] (map openai_message (concat rs))" for rs
    by (induction rs) (simp_all add: round_answered)
  then show "rounds n extra \<Longrightarrow> tools_answered [] (map openai_message extra)" by (auto simp: rounds_def)
qed

lemma waiting_shape:
  assumes "fresh_context c" and "reachable cfg (init_runtime c ls store) s"
    and "rs_tasks s k = Some (W_Llm l rq parts fin calls)"
  obtains front n where "rq_messages rq = front @ llm_text_message LR_USER (pp_text (ll_pipe l)) # ll_extra l"
    and "list_all plain_message front" and "rounds n (ll_extra l)"
proof -
  have "wait_ok cfg (dom (rs_turns s)) (cx_shutdown (rs_ctx s)) (W_Llm l rq parts fin calls)"
    using reachable_inv(1) [OF assms(2,1)] assms(3) unfolding rt_inv_def rt_core_def tasks_inv_def by blast
  then show thesis using that by (auto simp: loop_bounded_def loop_ok_def request_shape_def)
qed

text \<open>
  C7. Whatever conversation a session has had, every request its runtime puts to a model is
  a legal OpenAI conversation once converted: each assistant message with tool calls is
  followed at once by one tool message per call with that call's identifier, and no other
  tool message occurs.
\<close>

theorem openai_tool_rounds_answered:
  assumes "fresh_context c" and "reachable cfg (init_runtime c ls store) s"
    and "rs_tasks s k = Some (W_Llm l rq parts fin calls)"
  shows "tools_answered [] (to_openai_messages rq)"
proof -
  obtain front n where "rq_messages rq = front @ llm_text_message LR_USER (pp_text (ll_pipe l)) # ll_extra l"
    and "list_all plain_message front" and "rounds n (ll_extra l)"
    by (rule waiting_shape [OF assms])
  moreover have "plain_message (llm_text_message LR_USER (pp_text (ll_pipe l)))"
    by (simp add: plain_message_def llm_text_message_def)
  ultimately show ?thesis
    using plain_answered(1) [of "front @ [llm_text_message LR_USER (pp_text (ll_pipe l))]" "map openai_message (ll_extra l)"]
    by (simp add: to_openai_messages_def system_answered rounds_answered)
qed

text \<open>
  The Groq conversion keeps only roles and contents: once a turn has made a tool round,
  the request put to Groq has tool messages without an identifier, after an assistant
  message without calls, which the interface does not admit.
\<close>

theorem groq_tool_rounds_unanswered:
  assumes "fresh_context c" and "reachable cfg (init_runtime c ls store) s"
    and "rs_tasks s k = Some (W_Llm l rq parts fin calls)" and "0 < ll_iteration l"
  shows "\<not> tools_answered [] (to_groq_messages rq)"
proof -
  let ?w = "\<lambda>m. wire_text (llm_role_value (lm_role m)) (lm_content m)"
  let ?user = "llm_text_message LR_USER (pp_text (ll_pipe l))"
  have "wait_ok cfg (dom (rs_turns s)) (cx_shutdown (rs_ctx s)) (W_Llm l rq parts fin calls)"
    using reachable_inv(1) [OF assms(2,1)] assms(3) unfolding rt_inv_def rt_core_def tasks_inv_def by blast
  then obtain front rs where ms: "rq_messages rq = front @ ?user # concat rs" and plain: "list_all plain_message front"
    and rs: "length rs = nat (ll_iteration l)" "\<forall>r \<in> set rs. is_round r"
    by (auto simp: loop_bounded_def loop_ok_def request_shape_def rounds_def)
  obtain r rs' where r: "rs = r # rs'" "is_round r" using rs assms(4) by (cases rs) auto
  then obtain a ts where a: "r = a # ts" "lm_role a = LR_ASSISTANT" "lm_tool_calls a \<noteq> []"
    and ts: "map (\<lambda>m. (lm_role m, lm_tool_call_id m, lm_tool_calls m)) ts =
      map (\<lambda>c. (LR_TOOL, Some (tc_id c), [])) (lm_tool_calls a)"
    by (auto simp: is_round_def)
  obtain t ts' where "ts = t # ts'" "lm_role t = LR_TOOL"
    using a(3) ts by (cases ts; cases "lm_tool_calls a") auto
  then have "to_groq_messages rq = system_messages rq @ map ?w (front @ [?user, a]) @ ?w t # map ?w (ts' @ concat rs')"
    and "lm_role t = LR_TOOL"
    using ms r(1) a(1) by (simp_all add: to_groq_messages_def)
  moreover have "list_all (\<lambda>m. lm_role m \<noteq> LR_TOOL) (front @ [?user, a])"
    using plain_answered(2) [OF plain] a(2) by (simp add: llm_text_message_def)
  ultimately show ?thesis
    by (simp only: system_answered wire_texts_answered) simp
qed

section \<open>Vendor errors\<close>

definition failed_turn :: "string \<Rightarrow> time \<Rightarrow> runtime_turn \<Rightarrow> runtime_turn" where
  "failed_turn code now x = x\<lparr>rt_state := T_FAILED, rt_error_code := Some code, rt_ended_at := Some now\<rparr>"

lemma on_turn_fail:
  "rs_turns s t = Some x \<Longrightarrow> rt_state x = T_ACTIVE \<Longrightarrow>
     on_turn t (turn_fail code now) s = (Inr (), s\<lparr>rs_turns := (rs_turns s)(t \<mapsto> failed_turn code now x)\<rparr>)"
  by (simp add: on_turn_def turn_fail_def turn_transition_def eff_defs failed_turn_def)

lemma fail_turn_active:
  assumes "rs_turns s t = Some x" and "rt_state x = T_ACTIVE" and "0 \<le> cx_sequence (rs_ctx s)"
    and "s1 = s\<lparr>rs_turns := (rs_turns s)(t \<mapsto> failed_turn code (rs_clock s) x)\<rparr>"
  shows "check_payload (ErrorPayload code msg retry) = Inr p \<Longrightarrow>
      \<exists>e s2. fail_turn t code msg retry s =
          (Inr (), s2\<lparr>rs_current := (if rs_current s2 = Some t then None else rs_current s2)\<rparr>) \<and>
        emitted s1 e s2 \<and> ev_payload e = ErrorPayload code msg retry \<and> ev_turn_id e = Some t"
    and "check_payload (ErrorPayload code msg retry) = Inl v \<Longrightarrow>
      fail_turn t code msg retry s = (Inl v, s1\<lparr>rs_fresh := rs_fresh s1 + 1\<rparr>)"
proof -
  have c0: "0 \<le> cx_sequence (rs_ctx s1)" using assms(3,4) by simp
  have ns: "\<forall>u. Some t = Some u \<longrightarrow> ET_ERROR \<in> stale_if_turn_cancelled \<longrightarrow> u \<notin> cx_cancelled_turn_ids (rs_ctx s1)"
    by (simp add: stale_if_turn_cancelled_def)
  note unfold = fail_turn_def with_state_def then_eff_def bind_eff_def on_turn_fail [OF assms(1,2)]
    assms(4) [symmetric] error_event_def
  note cases = emit_cases [OF shape_error [of code msg retry "Some t"] c0 ns, of SRC_RUNTIME]
  show "check_payload (ErrorPayload code msg retry) = Inr p \<Longrightarrow>
      \<exists>e s2. fail_turn t code msg retry s =
          (Inr (), s2\<lparr>rs_current := (if rs_current s2 = Some t then None else rs_current s2)\<rparr>) \<and>
        emitted s1 e s2 \<and> ev_payload e = ErrorPayload code msg retry \<and> ev_turn_id e = Some t"
    by (cases rule: cases) (auto simp: unfold clear_current_def modify_eff_def)
  show "check_payload (ErrorPayload code msg retry) = Inl v \<Longrightarrow>
      fail_turn t code msg retry s = (Inl v, s1\<lparr>rs_fresh := rs_fresh s1 + 1\<rparr>)"
    by (cases rule: cases) (auto simp: unfold)
qed

lemma chat_chunks_errors:
  assumes "chat_chunks as_exn exn_text acc evs ending = (cs, Inl e)"
  shows "e = CancelledErrorE \<and> ending = End_Cancelled \<or> (\<exists>v. e = as_exn v)"
  using assms
proof (induction evs arbitrary: acc cs)
  case (Cons ev evs)
  obtain b ch where ev: "ev = (b, ch)" by (cases ev)
  show ?case
    using Cons
    by (cases b; cases ch) (auto simp: ev Let_def split: sum.splits option.splits prod.splits)
qed (auto split: vendor_end.splits)

text \<open>
  Past the building of the request's arguments, an adapter raises nothing but a
  \<open>ProviderError\<close> of its own key (a cancellation of the task apart), and declares it
  retryable only for a rate limit, a lost connection or a status of at least 500.
\<close>

theorem adapter_raises_provider_errors:
  assumes "openai_stream exn_text model vendor r = (cs, Inl e)"
    and "chat_kwargs to_openai_messages to_openai_tools model r = Inr kw" and "snd (vendor kw) \<noteq> End_Cancelled"
  shows "\<exists>pe v. e = ProviderErr pe \<and> e = normalize_openai_error v \<and> pe_provider_key pe = ''openai'' \<and>
     (pe_retryable pe \<longleftrightarrow> v = VE_RateLimit \<or> v = VE_Connection \<or> (\<exists>n. v = VE_Status n \<and> 500 \<le> n))"
proof -
  obtain evs ending where "vendor kw = (evs, ending)" by (cases "vendor kw")
  with assms have "chat_chunks normalize_openai_error exn_text [] evs ending = (cs, Inl e)" and "ending \<noteq> End_Cancelled"
    by (simp_all add: openai_stream_def chat_stream_def)
  from chat_chunks_errors [OF this(1)] this(2) obtain v where "e = normalize_openai_error v" by blast
  moreover obtain pe where "normalize_openai_error v = ProviderErr pe" "pe_provider_key pe = ''openai''"
    "pe_retryable pe \<longleftrightarrow> v = VE_RateLimit \<or> v = VE_Connection \<or> (\<exists>n. v = VE_Status n \<and> 500 \<le> n)"
    by (cases v) (simp_all add: normalize_openai_error_def normalize_chat_error_def provider_failure_def)
  ultimately show ?thesis by blast
qed

lemma raised_at_model:
  assumes "rs_tasks s k = Some (W_Llm l rq parts fin calls)" and "pp_origin (ll_pipe l) = FromText"
    and "\<not> pipe_stopped s (ll_pipe l)"
    and "fail_turn_provider (pp_turn (ll_pipe l)) pe s = (r, s2)"
  shows "perform cfg (Act_Resume k (S_Raise (ProviderErr pe))) s =
     (let s3 = s2\<lparr>rs_llm_tokens := (rs_llm_tokens s2)(pp_turn (ll_pipe l) := None),
                  rs_tts_tokens := (rs_tts_tokens s2)(pp_turn (ll_pipe l) := None)\<rparr>
      in s3\<lparr>rs_tasks := (rs_tasks s3)(k := None), rs_done := (rs_done s3)(k \<mapsto> r)\<rparr>)"
proof -
  let ?m = "llm_raise (ll_pipe l) (ProviderErr pe)"
  define x :: "wait option result" where "x = (case r of Inr _ \<Rightarrow> Inr None | Inl e \<Rightarrow> Inl e)"
  have m: "?m s = (x, s2)"
    using assms(3,4) by (cases r) (simp_all add: llm_raise_def eff_defs finished_def x_def)
  have "in_both (ll_pipe l) ?m s = (x, s2\<lparr>rs_llm_tokens := (rs_llm_tokens s2)(pp_turn (ll_pipe l) := None),
       rs_tts_tokens := (rs_tts_tokens s2)(pp_turn (ll_pipe l) := None)\<rparr>)"
    by (rule leave_text_pipeline, rule assms(2), rule m) (cases r, simp_all add: x_def)
  then show ?thesis using assms(1) by (cases r) (simp_all add: settle_def x_def)
qed

text \<open>
  A provider failure reaches the client: it fails the live turn with the error's code and
  frees the current turn, and exactly one event is admitted, an error with the code, the
  message and the retry advice of the provider. The task ends normally.
\<close>

theorem provider_error_fails_turn:
  assumes "fresh_context c" and "reachable cfg (init_runtime c ls store) s"
    and "rs_tasks s k = Some (W_Llm l rq parts fin calls)" and "pp_origin (ll_pipe l) = FromText"
    and "turn_live s (pp_turn (ll_pipe l))" and "\<not> pipe_stopped s (ll_pipe l)"
    and "between_len 1 4000 (pe_message pe)"
    and "s' = perform cfg (Act_Resume k (S_Raise (ProviderErr pe))) s"
  shows "rs_done s' k = Some (Inr ()) \<and> rs_tasks s' k = None \<and> rs_current s' = None \<and>
     (\<exists>x. rs_turns s' (pp_turn (ll_pipe l)) = Some x \<and> rt_state x = T_FAILED \<and>
        rt_error_code x = Some (provider_error_code_value (pe_code pe))) \<and>
     (\<exists>e. rs_events s' = rs_events s @ [e] \<and> ev_turn_id e = Some (pp_turn (ll_pipe l)) \<and>
        ev_payload e = ErrorPayload (provider_error_code_value (pe_code pe)) (pe_message pe) (pe_retryable pe))"
proof -
  let ?t = "pp_turn (ll_pipe l)" and ?code = "provider_error_code_value (pe_code pe)"
  note inv = reachable_inv(1) [OF assms(2,1)]
  obtain x where x: "rs_turns s ?t = Some x" "rt_state x = T_ACTIVE"
    using live_state [of cfg _ s ?t] inv assms(5) by blast
  have cur: "rs_current s = Some ?t" and c0: "0 \<le> cx_sequence (rs_ctx s)"
    using inv assms(5) by (simp_all add: rt_inv_def rt_core_def turns_inv_def events_inv_def)
  have "check_payload (ErrorPayload ?code (pe_message pe) (pe_retryable pe)) =
      Inr (ErrorPayload ?code (pe_message pe) (pe_retryable pe))"
    using assms(7) by (cases "pe_code pe") (simp_all add: between_len_def)
  from fail_turn_active(1) [OF x c0 refl this] obtain e s2 where e:
    "fail_turn_provider ?t pe s = (Inr (), s2\<lparr>rs_current := (if rs_current s2 = Some ?t then None else rs_current s2)\<rparr>)"
    "emitted (s\<lparr>rs_turns := (rs_turns s)(?t \<mapsto> failed_turn ?code (rs_clock s) x)\<rparr>) e s2"
    "ev_payload e = ErrorPayload ?code (pe_message pe) (pe_retryable pe)" "ev_turn_id e = Some ?t"
    unfolding fail_turn_provider_def by blast
  show ?thesis
    unfolding assms(8) raised_at_model [OF assms(3,4,6) e(1)]
    using e(2-4) cur by (simp add: emitted_def failed_turn_def Let_def)
qed

text \<open>
  An exception without a text, such as a bare \<open>TimeoutError()\<close> of the vendor's transport,
  becomes a provider error with an empty message, which no error event may carry: the turn
  fails, but no event tells the client, the current turn is not released and the task dies
  with a validation error.
\<close>

theorem untold_provider_error:
  assumes "fresh_context c" and "reachable cfg (init_runtime c ls store) s"
    and "rs_tasks s k = Some (W_Llm l rq parts fin calls)" and "pp_origin (ll_pipe l) = FromText"
    and "turn_live s (pp_turn (ll_pipe l))" and "\<not> pipe_stopped s (ll_pipe l)"
    and "s' = perform cfg (Act_Resume k (S_Raise (normalize_openai_error (VE_Other [])))) s"
  shows "rs_done s' k = Some (Inl (ValidationError ''message'')) \<and> rs_events s' = rs_events s \<and>
     rs_current s' = Some (pp_turn (ll_pipe l)) \<and>
     (\<exists>x. rs_turns s' (pp_turn (ll_pipe l)) = Some x \<and> rt_state x = T_FAILED)"
proof -
  let ?t = "pp_turn (ll_pipe l)"
  let ?pe = "\<lparr>pe_code = PE_UNKNOWN, pe_message = [], pe_provider_key = ''openai'', pe_retryable = False\<rparr>"
  note inv = reachable_inv(1) [OF assms(2,1)]
  obtain x where x: "rs_turns s ?t = Some x" "rt_state x = T_ACTIVE"
    using live_state [of cfg _ s ?t] inv assms(5) by blast
  have cur: "rs_current s = Some ?t" and c0: "0 \<le> cx_sequence (rs_ctx s)"
    using inv assms(5) by (simp_all add: rt_inv_def rt_core_def turns_inv_def events_inv_def)
  have "check_payload (ErrorPayload ''unknown'' [] False) = Inl (ValidationError ''message'')"
    by (simp add: between_len_def)
  from fail_turn_active(2) [OF x c0 refl this] have e: "fail_turn_provider ?t ?pe s =
      (Inl (ValidationError ''message''), s\<lparr>rs_turns := (rs_turns s)(?t \<mapsto> failed_turn ''unknown'' (rs_clock s) x),
         rs_fresh := rs_fresh s + 1\<rparr>)"
    by (simp add: fail_turn_provider_def)
  have "normalize_openai_error (VE_Other []) = ProviderErr ?pe"
    by (simp add: normalize_openai_error_def normalize_chat_error_def provider_failure_def)
  with cur raised_at_model [OF assms(3,4,6) e] show ?thesis
    unfolding assms(7) by (simp add: failed_turn_def Let_def)
qed

section \<open>From the vendor's stream to the conversation\<close>

lemma in_both_waits: "m s = (Inr (Some w), s') \<Longrightarrow> in_both p m s = (Inr (Some w), s')"
  by (simp add: in_both_def in_origin_def in_pipeline_def on_exit_def)

definition streaming :: "rts \<Rightarrow> nat \<Rightarrow> llm_loop \<Rightarrow> llm_request \<Rightarrow> string \<Rightarrow> bool" where
  "streaming s k l rq said \<longleftrightarrow> (\<exists>parts fin. rs_tasks s k = Some (W_Llm l rq parts fin []) \<and>
     concat parts = said \<and> between_len 1 64 fin) \<and>
     turn_live s (pp_turn (ll_pipe l)) \<and> \<not> pipe_stopped s (ll_pipe l)"

definition plain_chunk :: "llm_stream_chunk \<Rightarrow> bool" where
  "plain_chunk c \<longleftrightarrow> lc_tool_calls c = [] \<and> (\<forall>f. lc_finish_reason c = Some f \<longrightarrow> length f \<le> 64)"

lemma chunk_step:
  assumes "rt_inv cfg base s" and "streaming s k l rq said" and "plain_chunk c"
  shows "streaming (perform cfg (Act_Resume k (S_LlmChunk c)) s) k l rq (said @ lc_delta c)"
    and "rs_store (perform cfg (Act_Resume k (S_LlmChunk c)) s) = rs_store s"
proof -
  let ?t = "pp_turn (ll_pipe l)" and ?s' = "perform cfg (Act_Resume k (S_LlmChunk c)) s"
  obtain parts fin where w: "rs_tasks s k = Some (W_Llm l rq parts fin [])" "concat parts = said" "between_len 1 64 fin"
    and live: "turn_live s ?t" "\<not> pipe_stopped s (ll_pipe l)"
    using assms(2) by (auto simp: streaming_def)
  let ?w = "W_Llm l rq (if lc_delta c \<noteq> [] then parts @ [lc_delta c] else parts)
              (str_or (lc_finish_reason c) fin) ([] @ lc_tool_calls c)"
  have c0: "0 \<le> cx_sequence (rs_ctx s)" using assms(1) by (simp add: rt_inv_def rt_core_def events_inv_def)
  have ns: "\<forall>u. Some ?t = Some u \<longrightarrow> ET_LLM_TOKEN \<in> stale_if_turn_cancelled \<longrightarrow> u \<notin> cx_cancelled_turn_ids (rs_ctx s)"
    using not_pipe_stopped [OF live(2)] by simp
  have shape: "builder_shape ET_LLM_TOKEN (LLMTokenPayload (lc_delta c)) (Some ?t)" by (simp add: builder_shape_def)
  obtain s1 where s1: "llm_chunk cfg l rq parts fin [] c s = (Inr (Some ?w), s1)" "s1 = s \<or> (\<exists>e. emitted s e s1)"
  proof (cases "lc_delta c = []")
    case True
    with live(2) show thesis by (intro that [of s]) (simp_all add: llm_chunk_def eff_defs)
  next
    case False
    from shape c0 ns show thesis
    proof (cases rule: emit_cases [where src = SRC_LLM])
      case (invalid x)
      then show thesis by simp
    next
      case (built e s1)
      with False live(2) show thesis
        by (intro that [of s1]) (auto simp: llm_chunk_def llm_token_event_def eff_defs)
    qed
  qed
  have s': "?s' = s1\<lparr>rs_tasks := (rs_tasks s1)(k \<mapsto> ?w)\<rparr>"
    using w(1) in_both_waits [where m = "llm_chunk cfg l rq parts fin [] c", OF s1(1)] by (simp add: settle_def)
  show "rs_store ?s' = rs_store s" using s1(2) unfolding s' by (auto simp: emitted_def)
  have "turn_live s1 ?t" "\<not> pipe_stopped s1 (ll_pipe l)"
    using s1(2) live by (auto simp: emitted_def turn_live_def pipe_stopped_def stopped_def is_turn_cancelled_def)
  then show "streaming ?s' k l rq (said @ lc_delta c)"
    using w assms(3) unfolding s'
    by (auto simp: streaming_def plain_chunk_def turn_live_def pipe_stopped_def stopped_def str_or_def
        between_len_def Suc_le_eq split: option.splits)
qed

lemma chunks_run:
  assumes "fresh_context c" and "reachable cfg (init_runtime c ls store) s" and "streaming s k l rq said"
    and "list_all plain_chunk cs" and "s' = run cfg (map (\<lambda>x. Act_Resume k (S_LlmChunk x)) cs) s"
  shows "reachable cfg (init_runtime c ls store) s' \<and> streaming s' k l rq (said @ concat (map lc_delta cs)) \<and>
     rs_store s' = rs_store s"
  using assms(2-5)
proof (induction cs arbitrary: s said)
  case (Cons x cs)
  note step = chunk_step [OF reachable_inv(1) [OF Cons.prems(1) assms(1)] Cons.prems(2)]
  show ?case
    using Cons.IH [OF reach_step [OF Cons.prems(1)] step(1) [of x]] step(2) [of x] Cons.prems(3,4) by simp
qed simp

lemma chat_chunks_plain:
  assumes "\<forall>ev \<in> set evs. \<not> fst ev \<and> event_deltas ev = [] \<and>
      (\<forall>ch f. snd ev = Some ch \<longrightarrow> vc_finish_reason ch = Some f \<longrightarrow> length f \<le> 64)"
  shows "\<exists>cs. chat_chunks as_exn exn_text [] evs End_Normal = (cs, Inr ()) \<and> list_all plain_chunk cs"
  using assms
proof (induction evs)
  case (Cons ev evs)
  then obtain cs where cs: "chat_chunks as_exn exn_text [] evs End_Normal = (cs, Inr ())" "list_all plain_chunk cs" by auto
  obtain b ch where ev: "ev = (b, ch)" by (cases ev)
  show ?case
  proof (cases ch)
    case None
    with Cons.prems cs show ?thesis by (simp add: ev)
  next
    case (Some x)
    have "\<exists>y. yielded_chunk [] x = Inr y \<and> (\<forall>c. y = Some c \<longrightarrow> plain_chunk c)"
      using Cons.prems
      by (auto simp: ev Some event_deltas_def yielded_chunk_def Let_def to_tool_calls_def
          check_llm_stream_chunk_def plain_chunk_def split: option.split)
    with Cons.prems cs show ?thesis
      by (auto simp: ev Some event_deltas_def split: option.split)
  qed
qed simp

text \<open>With a voice the end of the stream is the beginning of the speech.\<close>

definition speaking :: "rts \<Rightarrow> nat \<Rightarrow> pipe \<Rightarrow> string \<Rightarrow> bool" where
  "speaking s k p reply \<longleftrightarrow> (\<exists>tq. rs_tasks s k = Some (W_Tts p reply tq)) \<and>
     turn_live s (pp_turn p) \<and> \<not> pipe_stopped s p"

text \<open>What the runtime accepts from a voice: a reference of at most 1024 characters and a sound range.\<close>

definition sound_chunk :: "tts_stream_chunk \<Rightarrow> bool" where
  "sound_chunk c \<longleftrightarrow> between_len 1 1024 (tk_audio_ref c) \<and>
     (\<forall>r. tk_text_range c = Some r \<longrightarrow> 0 \<le> tr_start r \<and> tr_start r \<le> tr_end r)"

lemma reply_spoken:
  assumes "rt_inv cfg base s" and "rs_tasks s k = Some (W_Llm l rq parts fin [])"
    and "turn_live s (pp_turn (ll_pipe l))" and "\<not> pipe_stopped s (ll_pipe l)"
    and "rc_llm cfg \<noteq> None" "rc_tts cfg = Some tc" and "between_len 1 64 fin"
    and "check_tts_request \<lparr>tq_provider_key = tg_provider_key tc, tq_voice_ref = tg_voice_ref tc,
           tq_text = concat parts, tq_params = tg_params tc\<rparr> = Inr tq"
  shows "speaking (perform cfg (Act_Resume k S_LlmEnd) s) k (ll_pipe l) (concat parts)"
    and "rs_store (perform cfg (Act_Resume k S_LlmEnd) s) = rs_store s"
proof -
  let ?p = "ll_pipe l" and ?t = "pp_turn (ll_pipe l)" and ?m = "with_llm cfg (\<lambda>lc. llm_end cfg lc l parts fin [])"
  obtain lc where lc: "rc_llm cfg = Some lc" using assms(5) by blast
  obtain x where x: "rs_turns s ?t = Some x" "rt_state x = T_ACTIVE"
    using live_state [of cfg _ s ?t] assms(1,3) by blast
  obtain e s1 where e: "emit (llm_response_event ?t (concat parts) fin None) s = (Inr True, s1)" "emitted s e s1"
    using llm_response_emitted [OF assms(1) not_pipe_stopped [OF assms(4)] assms(7)] by blast
  have "\<not> turn_terminal s1 ?t" using e(2) x by (auto simp: emitted_def turn_terminal_def)
  then have "?m s = (Inr (Some (W_Tts ?p (concat parts) tq)), s1)"
    using lc assms(4,6,8) e(1) by (simp add: with_llm_def llm_end_def after_llm_def eff_defs)
  from in_both_waits [of ?m, OF this] have s': "perform cfg (Act_Resume k S_LlmEnd) s =
      s1\<lparr>rs_tasks := (rs_tasks s1)(k \<mapsto> W_Tts ?p (concat parts) tq)\<rparr>"
    using assms(2) by (simp add: settle_def)
  show "speaking (perform cfg (Act_Resume k S_LlmEnd) s) k ?p (concat parts)"
    using e(2) assms(3,4) unfolding s'
    by (auto simp: speaking_def emitted_def turn_live_def pipe_stopped_def stopped_def is_turn_cancelled_def)
  show "rs_store (perform cfg (Act_Resume k S_LlmEnd) s) = rs_store s"
    using e(2) unfolding s' by (simp add: emitted_def)
qed

lemma speech_step:
  assumes "rt_inv cfg base s" and "speaking s k p reply" and "sound_chunk c"
  shows "speaking (perform cfg (Act_Resume k (S_TtsChunk c)) s) k p reply"
    and "rs_store (perform cfg (Act_Resume k (S_TtsChunk c)) s) = rs_store s"
proof -
  obtain tq where w: "rs_tasks s k = Some (W_Tts p reply tq)" "turn_live s (pp_turn p)" "\<not> pipe_stopped s p"
    using assms(2) by (auto simp: speaking_def)
  define rng where "rng = map_option (\<lambda>r. \<lparr>rg_start = tr_start r, rg_end = tr_end r\<rparr>) (tk_text_range c)"
  have c0: "0 \<le> cx_sequence (rs_ctx s)" using assms(1) by (simp add: rt_inv_def rt_core_def events_inv_def)
  have ns: "\<forall>u. Some (pp_turn p) = Some u \<longrightarrow> ET_TTS_CHUNK \<in> stale_if_turn_cancelled \<longrightarrow> u \<notin> cx_cancelled_turn_ids (rs_ctx s)"
    using not_pipe_stopped [OF w(3)] by simp
  have shape: "builder_shape ET_TTS_CHUNK (TTSChunkPayload (tk_audio_ref c) rng) (Some (pp_turn p))"
    by (simp add: builder_shape_def)
  from shape c0 ns obtain e s1 where e: "emit (tts_chunk_event (pp_turn p) (tk_audio_ref c) rng) s = (Inr True, s1)" "emitted s e s1"
  proof (cases rule: emit_cases [where src = SRC_TTS])
    case (invalid x)
    then show thesis using assms(3) by (simp add: sound_chunk_def)
  next
    case (built e s1)
    then show thesis by (intro that [of s1 e]) (simp_all add: tts_chunk_event_def)
  qed
  have "tts_chunk cfg p reply tq c s = (Inr (Some (W_Tts p reply tq)), s1)"
    using e(1) w(3) assms(3)
    by (auto simp: tts_chunk_def sound_chunk_def check_text_range_def rng_def eff_defs split: option.splits)
  from in_both_waits [of "tts_chunk cfg p reply tq c", OF this] have s': "perform cfg (Act_Resume k (S_TtsChunk c)) s =
      s1\<lparr>rs_tasks := (rs_tasks s1)(k \<mapsto> W_Tts p reply tq)\<rparr>"
    using w(1) by (simp add: settle_def)
  show "speaking (perform cfg (Act_Resume k (S_TtsChunk c)) s) k p reply"
    using e(2) w unfolding s'
    by (auto simp: speaking_def emitted_def turn_live_def pipe_stopped_def stopped_def is_turn_cancelled_def)
  show "rs_store (perform cfg (Act_Resume k (S_TtsChunk c)) s) = rs_store s"
    using e(2) unfolding s' by (simp add: emitted_def)
qed

lemma speech_runs:
  assumes "fresh_context c" and "reachable cfg (init_runtime c ls store) s" and "speaking s k p reply"
    and "list_all sound_chunk cs" and "s' = run cfg (map (\<lambda>x. Act_Resume k (S_TtsChunk x)) cs) s"
  shows "reachable cfg (init_runtime c ls store) s' \<and> speaking s' k p reply \<and> rs_store s' = rs_store s"
  using assms(2-5)
proof (induction cs arbitrary: s)
  case (Cons x cs)
  note step = speech_step [OF reachable_inv(1) [OF Cons.prems(1) assms(1)] Cons.prems(2)]
  show ?case
    using Cons.IH [OF reach_step [OF Cons.prems(1)] step(1) [of x]] step(2) [of x] Cons.prems(3,4) by simp
qed simp

text \<open>When the voice has ended the exchange is kept and the turn is complete.\<close>

lemma speech_completes:
  assumes "fresh_context c" and "reachable cfg (init_runtime c ls store) s" and "speaking s k p reply"
    and "pp_origin p = FromText" and "rc_conversation_repository cfg" and "pp_text p \<noteq> []" "reply \<noteq> []"
    and "s' = perform cfg (Act_Resume k S_TtsEnd) s"
  shows "rs_done s' k = Some (Inr ()) \<and> rs_tasks s' k = None \<and> rs_current s' = None \<and>
     (\<exists>x. rs_turns s' (pp_turn p) = Some x \<and> rt_state x = T_COMPLETED) \<and>
     map message_text (bucket (rs_store s') (cx_session_id c)) =
       map message_text (bucket (rs_store s) (cx_session_id c)) @ [Some (pp_text p), Some reply]"
proof -
  let ?t = "pp_turn p"
  note inv = reachable_inv [OF assms(2,1)]
  obtain tq where w: "rs_tasks s k = Some (W_Tts p reply tq)" "turn_live s ?t" "\<not> pipe_stopped s p"
    using assms(3) by (auto simp: speaking_def)
  have sid: "cx_session_id (rs_ctx s) = cx_session_id c" using inv(2) by (simp add: rt_le_def init_runtime_def)
  obtain x where x: "rs_turns s ?t = Some x" "rt_state x = T_ACTIVE"
    using live_state [of cfg _ s ?t] inv(1) w(2) by blast
  have cur: "rs_current s = Some ?t" using inv(1) w(2) by (simp add: rt_inv_def rt_core_def turns_inv_def)
  obtain n where ex: "then_eff (persist_turn_exchange cfg ?t (pp_text p) reply) (complete_turn ?t) s =
     (Inr (), s\<lparr>rs_fresh := rs_fresh s + n, rs_store := exchange_store cfg s ?t (pp_text p) reply,
        rs_turns := (rs_turns s)(?t \<mapsto> completed_turn (rs_clock s) x),
        rs_current := (if rs_current s = Some ?t then None else rs_current s)\<rparr>)" (is "_ = (_, ?s2)")
    using exchange_active [OF x not_pipe_stopped [OF w(3)]] by blast
  have "\<not> turn_terminal s ?t" using x by (auto simp: turn_terminal_def)
  then have m: "finish_exchange cfg p reply s = (Inr None, ?s2)"
    using ex by (simp add: finish_exchange_def finished_def with_state_def then_eff_def bind_eff_def ret_def)
  let ?s3 = "?s2\<lparr>rs_llm_tokens := (rs_llm_tokens ?s2)(?t := None), rs_tts_tokens := (rs_tts_tokens ?s2)(?t := None)\<rparr>"
  have b: "in_both p (finish_exchange cfg p reply) s = (Inr None, ?s3)"
    by (rule leave_text_pipeline, rule assms(4), rule m) simp
  have s': "s' = ?s3\<lparr>rs_tasks := (rs_tasks ?s3)(k := None), rs_done := (rs_done ?s3)(k \<mapsto> Inr ())\<rparr>"
    unfolding assms(8) perform.simps w(1) option.case resume.simps stimulus.case settle_def b by simp
  have "map message_text (bucket (exchange_store cfg s ?t (pp_text p) reply) (cx_session_id c)) =
      map message_text (bucket (rs_store s) (cx_session_id c)) @ [Some (pp_text p), Some reply]"
    using sid assms(5,6,7)
    by (simp add: exchange_store_def message_text_exchange) (simp add: exchange_message_def)
  then show ?thesis using cur unfolding s' by (simp add: completed_turn_def)
qed

lemma run_append: "run cfg (xs @ ys) s = run cfg ys (run cfg xs s)"
  by (induction xs arbitrary: s) simp_all

text \<open>What follows the vendor's stream: with a voice, the chunks it yields and its end.\<close>

definition speech_stimuli :: "runtime_config \<Rightarrow> tts_stream_chunk list \<Rightarrow> stimulus list" where
  "speech_stimuli cfg audio = (case rc_tts cfg of None \<Rightarrow> [] | Some _ \<Rightarrow> map S_TtsChunk audio @ [S_TtsEnd])"

text \<open>
  C6. An answer gets through, with a voice and without: when a vendor answers the request of a
  live, uncancelled text turn with a stream that ends normally and carries text but no tool calls,
  then resuming the task with what the adapter yields and, where a voice is configured that
  accepts the answer, with the sound chunks of its speech until the voice ends, completes the
  turn, frees the current turn, and appends the user's text and the vendor's text to the
  conversation. Without a voice the end of the vendor's stream is enough.
\<close>

theorem vendor_answer_completes_turn:
  assumes "fresh_context c" and "reachable cfg (init_runtime c ls store) s"
    and "rs_tasks s k = Some (W_Llm l rq [] ''stop'' [])" and "pp_origin (ll_pipe l) = FromText"
    and "turn_live s (pp_turn (ll_pipe l))" and "\<not> pipe_stopped s (ll_pipe l)"
    and "rc_llm cfg \<noteq> None" "rc_conversation_repository cfg" and "pp_text (ll_pipe l) \<noteq> []"
    and "chat_kwargs to_openai_messages to_openai_tools model rq = Inr kw" and "vendor kw = (evs, End_Normal)"
    and "\<forall>ev \<in> set evs. \<not> fst ev \<and> event_deltas ev = [] \<and>
      (\<forall>ch f. snd ev = Some ch \<longrightarrow> vc_finish_reason ch = Some f \<longrightarrow> length f \<le> 64)"
    and "concat (map event_text evs) \<noteq> []"
    and "\<And>tc. rc_tts cfg = Some tc \<Longrightarrow> list_all sound_chunk audio \<and>
      check_tts_request \<lparr>tq_provider_key = tg_provider_key tc, tq_voice_ref = tg_voice_ref tc,
        tq_text = concat (map event_text evs), tq_params = tg_params tc\<rparr> = Inr tq"
    and "s' = run cfg (map (Act_Resume k)
      (stream_stimuli (openai_stream exn_text model vendor rq) @ speech_stimuli cfg audio)) s"
  shows "rs_done s' k = Some (Inr ()) \<and> rs_tasks s' k = None \<and> rs_current s' = None \<and>
     (\<exists>x. rs_turns s' (pp_turn (ll_pipe l)) = Some x \<and> rt_state x = T_COMPLETED) \<and>
     map message_text (bucket (rs_store s') (cx_session_id c)) =
       map message_text (bucket (rs_store s) (cx_session_id c)) @
       [Some (pp_text (ll_pipe l)), Some (concat (map event_text evs))]"
proof -
  obtain cs where cs: "chat_chunks normalize_openai_error exn_text [] evs End_Normal = (cs, Inr ())" "list_all plain_chunk cs"
    using chat_chunks_plain [OF assms(12), of normalize_openai_error exn_text] by blast
  have stream: "openai_stream exn_text model vendor rq = (cs, Inr ())"
    using cs(1) assms(10,11) by (simp add: openai_stream_def chat_stream_def)
  have "seen_events evs = evs" using assms(12) by (simp add: seen_events_def takeWhile_eq_all_conv)
  then have said: "concat (map lc_delta cs) = concat (map event_text evs)"
    using chat_chunks_sound [of normalize_openai_error exn_text "[]"] cs(1) by simp
  define s1 where "s1 = run cfg (map (\<lambda>x. Act_Resume k (S_LlmChunk x)) cs) s"
  define s2 where "s2 = perform cfg (Act_Resume k S_LlmEnd) s1"
  have s': "s' = run cfg (map (Act_Resume k) (speech_stimuli cfg audio)) s2"
    unfolding assms(15) stream s2_def s1_def by (simp add: stream_stimuli_def comp_def run_append)
  have "streaming s k l rq []"
    using assms(3,5,6) by (simp add: streaming_def between_len_def)
  from chunks_run [OF assms(1,2) this cs(2) s1_def] obtain parts fin where
    r: "reachable cfg (init_runtime c ls store) s1" and w: "rs_tasks s1 k = Some (W_Llm l rq parts fin [])"
    and parts: "concat parts = concat (map event_text evs)" "between_len 1 64 fin"
    and live: "turn_live s1 (pp_turn (ll_pipe l))" "\<not> pipe_stopped s1 (ll_pipe l)" and st: "rs_store s1 = rs_store s"
    by (auto simp: streaming_def said)
  have ne: "concat parts \<noteq> []" using parts(1) assms(13) by simp
  show ?thesis
  proof (cases "rc_tts cfg")
    case None
    with s' have "s' = perform cfg (Act_Resume k S_LlmEnd) s1" by (simp add: speech_stimuli_def s2_def)
    from reply_completes [OF assms(1) r w assms(4) live assms(7) None assms(8) parts(2) assms(9) ne this] parts(1) st
    show ?thesis by simp
  next
    case (Some tc)
    define s3 where "s3 = run cfg (map (\<lambda>x. Act_Resume k (S_TtsChunk x)) audio) s2"
    note spoken = reply_spoken [OF reachable_inv(1) [OF r assms(1)] w live assms(7) Some parts(2), unfolded parts(1),
        OF conjunct2 [OF assms(14) [OF Some]], folded s2_def]
    have r2: "reachable cfg (init_runtime c ls store) s2" unfolding s2_def by (rule reach_step [OF r])
    have e: "s' = perform cfg (Act_Resume k S_TtsEnd) s3"
      unfolding s' s3_def by (simp add: speech_stimuli_def Some comp_def run_append)
    have q: "reachable cfg (init_runtime c ls store) s3" "speaking s3 k (ll_pipe l) (concat (map event_text evs))"
        "rs_store s3 = rs_store s2"
      using speech_runs [OF assms(1) r2 spoken(1) conjunct1 [OF assms(14) [OF Some]] s3_def] by simp_all
    show ?thesis
      using speech_completes [OF assms(1) q(1,2) assms(4,8,9,13) e] unfolding q(3) spoken(2) st .
  qed
qed

section \<open>Witnesses\<close>

lemmas kwargs_defs = chat_kwargs_def or_param_def number_param_def optional_arg_def output_tokens_def

definition asked :: rts where
  "asked = sample_run None [Act_Start, Act_Input (text_input ''hello'')]"

definition sample_tool_chunk :: llm_stream_chunk where
  "sample_tool_chunk = \<lparr>lc_delta = [], lc_finish_reason = Some ''tool_calls'',
     lc_tool_calls = [\<lparr>tc_id = ''a'', tc_name = ''f'', tc_arguments = ''{}''\<rparr>]\<rparr>"

definition after_round :: rts where
  "after_round = sample_run None [Act_Start, Act_Input (text_input ''hello''),
     Act_Resume 1 (S_LlmChunk sample_tool_chunk), Act_Resume 1 S_LlmEnd]"

lemma asked_waits:
  "\<exists>l rq kw. rs_tasks asked 1 = Some (W_Llm l rq [] ''stop'' []) \<and> pp_origin (ll_pipe l) = FromText \<and>
     turn_live asked (pp_turn (ll_pipe l)) \<and> \<not> pipe_stopped asked (ll_pipe l) \<and> pp_text (ll_pipe l) = ''hello'' \<and>
     chat_kwargs to_openai_messages to_openai_tools ''m'' rq = Inr kw"
  by (simp add: asked_def run_defs kwargs_defs)

lemma round_waits:
  "\<exists>l rq. rs_tasks after_round 1 = Some (W_Llm l rq [] ''stop'' []) \<and> ll_iteration l = 1"
  by (simp add: after_round_def sample_tool_chunk_def run_defs finish_round_def round_messages_def
      failure_result_def check_tool_result_def quoted_def max_len_ok_def)

lemma reachable_asked:
  "reachable (sample_runtime_config None)
     (init_runtime sample_context [5] (update_session sample_session empty_store)) asked"
  unfolding asked_def by (rule reachable_sample)

lemma reachable_after_round:
  "reachable (sample_runtime_config None)
     (init_runtime sample_context [5] (update_session sample_session empty_store)) after_round"
  unfolding after_round_def by (rule reachable_sample)

definition sample_delta :: "int \<Rightarrow> string option \<Rightarrow> string option \<Rightarrow> string \<Rightarrow> tool_delta" where
  "sample_delta i x n a = \<lparr>vd_index = i, vd_id = x, vd_function = Some (n, Some a)\<rparr>"

text \<open>Two calls whose deltas are interleaved, and a stream that may lack its finish reason.\<close>

definition sample_events :: "string option \<Rightarrow> vendor_event list" where
  "sample_events fin =
     [(False, Some \<lparr>vc_content = Some ''hi'', vc_tool_calls = [sample_delta 1 (Some ''b'') (Some ''g'') ''{''], vc_finish_reason = None\<rparr>),
      (False, None),
      (False, Some \<lparr>vc_content = None, vc_tool_calls = [sample_delta 0 None (Some ''f'') [], sample_delta 1 None None ''}''],
         vc_finish_reason = None\<rparr>),
      (False, Some \<lparr>vc_content = None, vc_tool_calls = [], vc_finish_reason = fin\<rparr>)]"

definition sample_request :: llm_request where
  "sample_request = \<lparr>rq_provider_key = ''openai'', rq_model = ''m'', rq_messages = [], rq_system = [],
     rq_params = [(''temperature'', JInt 1)], rq_tools = [], rq_temperature = None,
     rq_max_output_tokens = None, rq_top_p = None\<rparr>"

lemmas stream_defs = openai_stream_def chat_stream_def to_openai_messages_def system_messages_def
  to_openai_tools_def Let_def yielded_chunk_def to_tool_calls_def feed_delta_def extend_acc_def
  delta_name_def delta_arguments_def empty_acc_def accumulated_call_def check_llm_tool_call_def
  check_llm_stream_chunk_def str_or_def str_truthy_def kwargs_defs sample_delta_def sample_events_def
  sample_request_def int_str_def nat_str.simps

lemma char_zero: "char_of (48 :: nat) = CHR ''0''"
  by code_simp

lemma sample_kwargs:
  "chat_kwargs to_openai_messages to_openai_tools ''gpt'' sample_request =
     Inr [(''model'', JStr ''m''), (''messages'', JList []), (''stream'', JBool True), (''temperature'', JFloat (Fin 1))]"
  using py_float_small [of 1] by (simp add: stream_defs)

lemma sample_streams:
  "openai_stream (\<lambda>_. []) ''gpt'' (\<lambda>_. (sample_events None, End_Normal)) sample_request =
     ([\<lparr>lc_delta = ''hi'', lc_finish_reason = None, lc_tool_calls = []\<rparr>], Inr ())"
  "openai_stream (\<lambda>_. []) ''gpt'' (\<lambda>_. (sample_events (Some ''tool_calls''), End_Normal)) sample_request =
     ([\<lparr>lc_delta = ''hi'', lc_finish_reason = None, lc_tool_calls = []\<rparr>,
       \<lparr>lc_delta = [], lc_finish_reason = Some ''tool_calls'',
        lc_tool_calls = [\<lparr>tc_id = ''call_0'', tc_name = ''f'', tc_arguments = ''{}''\<rparr>,
          \<lparr>tc_id = ''b'', tc_name = ''g'', tc_arguments = ''{}''\<rparr>]\<rparr>], Inr ())"
  "openai_stream (\<lambda>_. []) ''gpt'' (\<lambda>_. ([], End_Error (VE_Status 503))) sample_request =
     ([], Inl (normalize_openai_error (VE_Status 503)))"
  unfolding openai_stream_def chat_stream_def sample_kwargs by (simp_all add: stream_defs char_zero)

lemma finished_stream_delivers_witness:
  "\<exists>cs. openai_stream (\<lambda>_. []) ''gpt'' (\<lambda>_. (sample_events (Some ''tool_calls''), End_Normal)) sample_request =
       (cs, Inr ()) \<and>
     concat (map lc_delta cs) = ''hi'' \<and> concat (map lc_tool_calls cs) =
       joined_calls [sample_delta 1 (Some ''b'') (Some ''g'') ''{'', sample_delta 0 None (Some ''f'') [], sample_delta 1 None None ''}'']"
proof -
  let ?evs = "butlast (sample_events (Some ''tool_calls''))" and ?ev = "last (sample_events (Some ''tool_calls''))"
  have split: "(sample_events (Some ''tool_calls''), End_Normal) = (?evs @ [?ev], End_Normal)"
    by (simp add: sample_events_def)
  have live: "\<forall>e \<in> set (?evs @ [?ev]). \<not> fst e" "\<forall>e \<in> set ?evs. \<not> finishes e" "finishes ?ev"
    by (simp_all add: sample_events_def finishes_def str_truthy_def)
  have deltas: "concat (map event_deltas (?evs @ [?ev])) =
      [sample_delta 1 (Some ''b'') (Some ''g'') ''{'', sample_delta 0 None (Some ''f'') [], sample_delta 1 None None ''}'']"
    and said: "concat (map event_text (?evs @ [?ev])) = ''hi''"
    by (simp_all add: sample_events_def event_deltas_def event_text_def str_or_def)
  show ?thesis
    using finished_stream_delivers [OF sample_streams(2) sample_kwargs split live] sample_streams(2)
    unfolding deltas said by blast
qed

lemma unfinished_stream_loses_calls_witness:
  "\<exists>cs. openai_stream (\<lambda>_. []) ''gpt'' (\<lambda>_. (sample_events None, End_Normal)) sample_request = (cs, Inr ()) \<and>
     concat (map lc_tool_calls cs) = [] \<and> concat (map event_deltas (sample_events None)) \<noteq> []"
proof -
  have "\<forall>e \<in> set (sample_events None). \<not> finishes e"
    by (simp add: sample_events_def finishes_def str_truthy_def)
  from unfinished_stream_loses_calls [OF sample_streams(1) sample_kwargs refl this] sample_streams(1)
  show ?thesis by (intro exI conjI) (assumption, assumption, simp add: sample_events_def event_deltas_def)
qed

lemma openai_tool_rounds_answered_witness:
  "\<exists>l rq. rs_tasks after_round 1 = Some (W_Llm l rq [] ''stop'' []) \<and> 0 < ll_iteration l \<and>
     tools_answered [] (to_openai_messages rq)"
proof -
  obtain l rq where w: "rs_tasks after_round 1 = Some (W_Llm l rq [] ''stop'' [])" "ll_iteration l = 1"
    using round_waits by blast
  from openai_tool_rounds_answered [OF fresh_sample reachable_after_round w(1)] w show ?thesis
    by (intro exI [of _ l] exI [of _ rq]) simp
qed

lemma groq_tool_rounds_unanswered_witness:
  "\<exists>l rq. rs_tasks after_round 1 = Some (W_Llm l rq [] ''stop'' []) \<and> \<not> tools_answered [] (to_groq_messages rq)"
proof -
  obtain l rq where w: "rs_tasks after_round 1 = Some (W_Llm l rq [] ''stop'' [])" "ll_iteration l = 1"
    using round_waits by blast
  from groq_tool_rounds_unanswered [OF fresh_sample reachable_after_round w(1)] w show ?thesis by auto
qed

lemma adapter_raises_provider_errors_witness:
  "\<exists>pe. openai_stream (\<lambda>_. []) ''gpt'' (\<lambda>_. ([], End_Error (VE_Status 503))) sample_request =
     ([], Inl (ProviderErr pe)) \<and> pe_provider_key pe = ''openai''"
proof -
  have "snd ([] :: vendor_event list, End_Error (VE_Status 503)) \<noteq> End_Cancelled" by simp
  from adapter_raises_provider_errors [OF sample_streams(3) sample_kwargs this] obtain pe where
    "normalize_openai_error (VE_Status 503) = ProviderErr pe" "pe_provider_key pe = ''openai''" by blast
  then show ?thesis using sample_streams(3) by simp
qed

lemma provider_error_fails_turn_witness:
  "\<exists>pe. normalize_openai_error VE_RateLimit = ProviderErr pe \<and>
     length (rs_events (perform (sample_runtime_config None) (Act_Resume 1 (S_Raise (ProviderErr pe))) asked)) =
       Suc (length (rs_events asked))"
proof -
  obtain l rq where w: "rs_tasks asked 1 = Some (W_Llm l rq [] ''stop'' [])" "pp_origin (ll_pipe l) = FromText"
    "turn_live asked (pp_turn (ll_pipe l))" "\<not> pipe_stopped asked (ll_pipe l)"
    using asked_waits by blast
  obtain pe where pe: "normalize_openai_error VE_RateLimit = ProviderErr pe" "between_len 1 4000 (pe_message pe)"
    by (simp add: normalize_openai_error_def normalize_chat_error_def provider_failure_def between_len_def)
  from provider_error_fails_turn [OF fresh_sample reachable_asked w pe(2) refl] pe(1) show ?thesis by auto
qed

lemma untold_provider_error_witness:
  "rs_events (perform (sample_runtime_config None) (Act_Resume 1 (S_Raise (normalize_openai_error (VE_Other [])))) asked) =
     rs_events asked"
proof -
  obtain l rq where w: "rs_tasks asked 1 = Some (W_Llm l rq [] ''stop'' [])" "pp_origin (ll_pipe l) = FromText"
    "turn_live asked (pp_turn (ll_pipe l))" "\<not> pipe_stopped asked (ll_pipe l)"
    using asked_waits by blast
  from untold_provider_error [OF fresh_sample reachable_asked w refl] show ?thesis by blast
qed

text \<open>A turn of a runtime with a voice, and what the voice says.\<close>

definition asked_aloud :: rts where
  "asked_aloud = sample_run (Some sample_tts) [Act_Start, Act_Input (text_input ''hello'')]"

lemma asked_aloud_waits:
  "\<exists>l rq kw. rs_tasks asked_aloud 1 = Some (W_Llm l rq [] ''stop'' []) \<and> pp_origin (ll_pipe l) = FromText \<and>
     turn_live asked_aloud (pp_turn (ll_pipe l)) \<and> \<not> pipe_stopped asked_aloud (ll_pipe l) \<and>
     pp_text (ll_pipe l) = ''hello'' \<and> chat_kwargs to_openai_messages to_openai_tools ''m'' rq = Inr kw"
  by (simp add: asked_aloud_def run_defs kwargs_defs)

definition sample_speech :: "tts_stream_chunk list" where
  "sample_speech = [\<lparr>tk_audio_ref = ''a0'', tk_index = 0, tk_is_final = False, tk_text_range = None\<rparr>,
     \<lparr>tk_audio_ref = ''a1'', tk_index = 1, tk_is_final = True, tk_text_range = Some \<lparr>tr_start = 0, tr_end = 3\<rparr>\<rparr>]"

lemma vendor_answer_completes_turn_witness:
  "\<exists>l rq. rs_tasks asked_aloud 1 = Some (W_Llm l rq [] ''stop'' []) \<and>
     rs_current (run (sample_runtime_config (Some sample_tts)) (map (Act_Resume 1) (stream_stimuli (openai_stream (\<lambda>_. []) ''m''
       (\<lambda>_. ([(False, Some \<lparr>vc_content = Some ''yes'', vc_tool_calls = [], vc_finish_reason = Some ''stop''\<rparr>)],
              End_Normal)) rq) @ speech_stimuli (sample_runtime_config (Some sample_tts)) sample_speech)) asked_aloud) = None"
proof -
  let ?cfg = "sample_runtime_config (Some sample_tts)"
  let ?evs = "[(False, Some \<lparr>vc_content = Some ''yes'', vc_tool_calls = [], vc_finish_reason = Some ''stop''\<rparr>)] :: vendor_event list"
  obtain l rq kw where w: "rs_tasks asked_aloud 1 = Some (W_Llm l rq [] ''stop'' [])" "pp_origin (ll_pipe l) = FromText"
    "turn_live asked_aloud (pp_turn (ll_pipe l))" "\<not> pipe_stopped asked_aloud (ll_pipe l)"
    and hello: "pp_text (ll_pipe l) = ''hello''" and kw: "chat_kwargs to_openai_messages to_openai_tools ''m'' rq = Inr kw"
    using asked_aloud_waits by blast
  have r: "reachable ?cfg (init_runtime sample_context [5] (update_session sample_session empty_store)) asked_aloud"
    unfolding asked_aloud_def by (rule reachable_sample)
  have cfg: "rc_llm ?cfg \<noteq> None" "rc_conversation_repository ?cfg" "pp_text (ll_pipe l) \<noteq> []"
    by (simp_all add: sample_runtime_config_def hello)
  have evs: "\<forall>ev \<in> set ?evs. \<not> fst ev \<and> event_deltas ev = [] \<and>
      (\<forall>ch f. snd ev = Some ch \<longrightarrow> vc_finish_reason ch = Some f \<longrightarrow> length f \<le> 64)" "concat (map event_text ?evs) \<noteq> []"
    by (simp_all add: event_deltas_def event_text_def str_or_def)
  have voice: "list_all sound_chunk sample_speech \<and>
      check_tts_request \<lparr>tq_provider_key = tg_provider_key tc, tq_voice_ref = tg_voice_ref tc,
        tq_text = concat (map event_text ?evs), tq_params = tg_params tc\<rparr> =
      Inr \<lparr>tq_provider_key = ''tts'', tq_voice_ref = ''v'', tq_text = ''yes'', tq_params = []\<rparr>"
    if "rc_tts ?cfg = Some tc" for tc
    using that by (auto simp: sample_runtime_config_def sample_tts_def sample_speech_def sound_chunk_def between_len_def
        check_tts_request_def event_text_def str_or_def)
  have "(\<lambda>_ :: json_dict. (?evs, End_Normal)) kw = (?evs, End_Normal)" by simp
  from vendor_answer_completes_turn [OF fresh_sample r w cfg kw this evs voice refl] w(1) show ?thesis by blast
qed

end
