(* ===== verification/VoiceAdapterProps.thy ===== *)
theory VoiceAdapterProps
  imports VoiceAdapters
begin

text \<open>
  The speech adapters are correct up to what their contracts leave open: buffering loses at
  most the end of an utterance shorter than the vendor's minimum, and every synthesized chunk
  keeps its bytes; the reference of the final chunk, kept from one utterance to the next,
  replays the first of them.
\<close>

section \<open>Decimal numerals\<close>

definition digits_value :: "string \<Rightarrow> nat" where
  "digits_value s = foldl (\<lambda>a c. 10 * a + (of_char c - 48)) 0 s"

lemma of_digit_char: "(of_char (digit_char n) :: nat) = 48 + n mod 10"
  by simp

lemma digits_value_nat_str: "digits_value (nat_str n) = n"
proof (induction n rule: nat_str.induct)
  case (1 n)
  then show ?case
    by (subst nat_str.simps) (simp add: digits_value_def of_digit_char del: digit_char.simps)
qed

lemma nat_str_inj: "nat_str m = nat_str n \<longleftrightarrow> m = n"
  using digits_value_nat_str by metis

lemma nat_str_digits: "c \<in> set (nat_str n) \<Longrightarrow> 48 \<le> (of_char c :: nat) \<and> (of_char c :: nat) < 58"
proof (induction n rule: nat_str.induct)
  case (1 n)
  then show ?case
    by (subst (asm) (2) nat_str.simps) (auto simp: of_digit_char split: if_splits simp del: digit_char.simps)
qed

lemma colon_not_digit: "CHR '':'' \<notin> set (nat_str n)"
  using nat_str_digits [of "CHR '':''" n] by auto

lemma numeral_not_final: "nat_str i \<noteq> nat_str j @ '':final''" "nat_str j @ '':final'' \<noteq> nat_str i"
  using colon_not_digit [of i] by (metis in_set_conv_decomp)+

lemma ref_simps [simp]:
  "chunk_ref voice i = chunk_ref voice j \<longleftrightarrow> i = j"
  "final_ref voice i = final_ref voice j \<longleftrightarrow> i = j"
  "chunk_ref voice i \<noteq> final_ref voice j" "final_ref voice j \<noteq> chunk_ref voice i"
  using numeral_not_final [of i j] by (simp_all add: chunk_ref_def final_ref_def nat_str_inj)

section \<open>Sending\<close>

definition frames_data :: "stt_audio_frame list \<Rightarrow> nat list" where
  "frames_data fs = concat (map af_data fs)"

definition frames_ms :: "stt_audio_frame list \<Rightarrow> int" where
  "frames_ms fs = sum_list (map af_duration_ms fs)"

definition holds :: "send_buffer \<Rightarrow> stt_audio_frame list \<Rightarrow> bool" where
  "holds b fs \<longleftrightarrow> sb_data b = frames_data fs \<and> sb_duration_ms b = frames_ms fs"

lemma holds_simps [simp]:
  "holds empty_buffer []" "holds (b\<lparr>sb_data := [], sb_duration_ms := 0\<rparr>) []"
  "holds b fs \<Longrightarrow> holds (buffer_frame f b) (fs @ [f])"
  by (simp_all add: holds_def empty_buffer_def buffer_frame_def frames_data_def frames_ms_def)

lemma send_buffered_Inr:
  assumes "send_buffered transmit sent b = Inr sent'" and "holds b fs"
  shows "frames_data sent' = frames_data sent @ frames_data fs"
  using assms
  by (auto simp: send_buffered_def and_then_Inr buffered_frame_def check_stt_audio_frame_def frames_data_def
      holds_def split: if_splits)

lemma send_audio_data:
  assumes "send_audio transmit False sent b (map (Pair False) fs) = (sent', Inr ok)" and "holds b pending"
  shows "ok \<and> (\<exists>kept dropped. pending @ fs = kept @ dropped \<and>
     frames_data sent' = frames_data sent @ frames_data kept \<and> frames_ms dropped < 50)"
  using assms
proof (induction fs arbitrary: sent b pending)
  case Nil
  then show ?case
  proof (cases "min_chunk_ms \<le> sb_duration_ms b")
    case True
    with Nil obtain s where s: "send_buffered transmit sent b = Inr s" "s = sent'" "ok"
      by (auto split: sum.splits)
    with send_buffered_Inr [OF s(1) Nil.prems(2)] show ?thesis
      by (intro conjI exI [of _ pending] exI [of _ "[]"]) (simp_all add: frames_ms_def)
  next
    case False
    with Nil show ?thesis
      by (intro conjI exI [of _ "[]"] exI [of _ pending])
        (simp_all add: holds_def min_chunk_ms_def frames_data_def)
  qed
next
  case (Cons f fs)
  let ?b = "buffer_frame f b"
  have h: "holds ?b (pending @ [f])" using Cons.prems(2) by simp
  show ?case
  proof (cases "target_chunk_ms \<le> sb_duration_ms ?b")
    case True
    with Cons.prems(1) obtain s where s: "send_buffered transmit sent ?b = Inr s"
      and rest: "send_audio transmit False s (?b\<lparr>sb_data := [], sb_duration_ms := 0\<rparr>) (map (Pair False) fs) = (sent', Inr ok)"
      by (auto simp: Let_def split: sum.splits)
    from Cons.IH [OF rest holds_simps(2)] obtain kept dropped where
      "ok" "fs = kept @ dropped" "frames_data sent' = frames_data s @ frames_data kept" "frames_ms dropped < 50" by auto
    with send_buffered_Inr [OF s h] show ?thesis
      by (intro conjI exI [of _ "pending @ f # kept"] exI [of _ dropped]) (simp_all add: frames_data_def)
  next
    case False
    with Cons.prems(1) have "send_audio transmit False sent ?b (map (Pair False) fs) = (sent', Inr ok)"
      by (simp add: Let_def)
    from Cons.IH [OF this h] show ?thesis by simp
  qed
qed

text \<open>
  The speech-to-text adapter sends the microphone's audio in order and complete, except
  for an end of less than 50 ms: when a session is neither cancelled nor refuses a frame, the
  bytes sent are the bytes of all frames but a last few, together shorter than the vendor's
  minimum, and the session is finished.
\<close>

theorem assemblyai_sends_audio:
  assumes "send_audio transmit False [] empty_buffer (map (Pair False) fs) = (sent, Inr finished)"
  shows "finished \<and> (\<exists>kept dropped. fs = kept @ dropped \<and>
     concat (map af_data sent) = concat (map af_data kept) \<and> sum_list (map af_duration_ms dropped) < 50)"
  using send_audio_data [OF assms holds_simps(1)] by (simp add: frames_data_def frames_ms_def)

section \<open>Synthesized audio\<close>

lemma tts_loop_all:
  assumes "tts_loop voice i (map (Pair False) ds) None m = (cs, m', Some (Inr n))"
  shows "n = i + length ds \<and> map tk_audio_ref cs = map (chunk_ref voice) [i..<i + length ds] \<and>
    (\<forall>k < length ds. m' (chunk_ref voice (i + k)) = Some (ds ! k)) \<and>
    (\<forall>r. (\<forall>k < length ds. r \<noteq> chunk_ref voice (i + k)) \<longrightarrow> m' r = m r)"
  using assms
proof (induction ds arbitrary: i m cs)
  case (Cons d ds)
  let ?m = "m(chunk_ref voice i \<mapsto> d)"
  have up: "[i..<i + length (d # ds)] = i # [Suc i..<Suc i + length ds]" by (subst upt_conv_Cons) simp_all
  obtain c cs' where c: "cs = c # cs'" "tk_audio_ref c = chunk_ref voice i"
    and run: "tts_loop voice (Suc i) (map (Pair False) ds) None ?m = (cs', m', Some (Inr n))"
    using Cons.prems by (auto simp: Let_def check_tts_stream_chunk_def split: if_splits prod.splits)
  from Cons.IH [OF run] have n: "n = Suc i + length ds"
    and refs: "map tk_audio_ref cs' = map (chunk_ref voice) [Suc i..<Suc i + length ds]"
    and at: "\<And>k. k < length ds \<Longrightarrow> m' (chunk_ref voice (Suc i + k)) = Some (ds ! k)"
    and else: "\<And>r. \<forall>k < length ds. r \<noteq> chunk_ref voice (Suc i + k) \<Longrightarrow> m' r = ?m r" by blast+
  have "m' (chunk_ref voice i) = Some d" by (subst else) simp_all
  then have "m' (chunk_ref voice (i + k)) = Some ((d # ds) ! k)" if "k < length (d # ds)" for k
    using that at [of "k - 1"] by (cases k) auto
  moreover have "m' r = m r" if other: "\<forall>k < length (d # ds). r \<noteq> chunk_ref voice (i + k)" for r
  proof -
    have "\<forall>k < length ds. r \<noteq> chunk_ref voice (Suc i + k)" using other by auto
    moreover have "r \<noteq> chunk_ref voice i" using other by force
    ultimately show ?thesis using else by simp
  qed
  ultimately show ?case using n refs c unfolding up by simp
qed auto

lemma tts_loop_ok:
  assumes "tts_loop voice i (map (Pair False) ds) None m = (cs, m', Some (Inr n))"
  shows "n = i + length ds" and "map tk_audio_ref cs = map (chunk_ref voice) [i..<i + length ds]"
    and "\<And>k. k < length ds \<Longrightarrow> m' (chunk_ref voice (i + k)) = Some (ds ! k)"
    and "\<And>r. \<forall>k < length ds. r \<noteq> chunk_ref voice (i + k) \<Longrightarrow> m' r = m r"
  using tts_loop_all [OF assms] by blast+

lemma tts_loop_uncancelled: "snd (snd (tts_loop voice i (map (Pair False) ds) failure m)) \<noteq> None"
proof (induction ds arbitrary: i m)
  case (Cons d ds)
  let ?rest = "tts_loop voice (Suc i) (map (Pair False) ds) failure (m(chunk_ref voice i \<mapsto> d))"
  have "snd (snd ?rest) \<noteq> None" by (rule Cons.IH)
  then show ?case by (cases ?rest) (simp add: Let_def split: sum.split)
qed simp

lemma elevenlabs_refs:
  assumes "elevenlabs_stream exn_text dv rq (map (Pair False) ds) None False m = (cs, Inr (), m')"
    and "voice = (if tq_voice_ref rq = [] then dv else tq_voice_ref rq)" and "ds \<noteq> []"
  shows "map (\<lambda>c. m' (tk_audio_ref c)) cs =
      map Some ds @ [Some (case m (final_ref voice (length ds - 1)) of None \<Rightarrow> last ds | Some old \<Rightarrow> old)]"
    and "m' (final_ref voice (length ds - 1)) =
      Some (case m (final_ref voice (length ds - 1)) of None \<Rightarrow> last ds | Some old \<Rightarrow> old)"
proof -
  let ?r = "final_ref voice (length ds - 1)"
  obtain cs1 m1 out where loop: "tts_loop voice 0 (map (Pair False) ds) None m = (cs1, m1, out)"
    by (cases "tts_loop voice 0 (map (Pair False) ds) None m")
  have "out \<noteq> None" using tts_loop_uncancelled [of voice 0 ds None m] loop by simp
  then obtain n where out: "out = Some (Inr n)"
    using assms(1,2) loop by (cases out; cases "the out") (auto simp: elevenlabs_stream_def Let_def)
  note l = tts_loop_ok [OF loop [unfolded out]]
  have n: "n = length ds" using l(1) by simp
  have r1: "m1 ?r = m ?r" by (rule l(4)) simp
  have last: "m1 (chunk_ref voice (length ds - 1)) = Some (last ds)"
    using l(3) [of "length ds - 1"] assms(3) by (simp add: last_conv_nth)
  obtain c where cs: "cs = cs1 @ [c]" and fin: "tts_final voice (length ds) m1 = (Inr c, m')"
    using assms(1,2) loop out n by (auto simp: elevenlabs_stream_def Let_def split: prod.splits sum.splits)
  have "check_tts_stream_chunk x = Inr c \<Longrightarrow> tk_audio_ref c = tk_audio_ref x" for x
    by (auto simp: check_tts_stream_chunk_def split: if_splits)
  from this [of "\<lparr>tk_audio_ref = ?r, tk_index = int (length ds - 1), tk_is_final = True, tk_text_range = None\<rparr>"]
  have c: "tk_audio_ref c = ?r" and m': "m' = (if m ?r = None then m1(?r \<mapsto> last ds) else m1)"
    using fin assms(3) unfolding tts_final_def Let_def r1 last by auto
  have at: "m' (chunk_ref voice k) = Some (ds ! k)" if "k < length ds" for k
    using l(3) [OF that] unfolding m' by simp
  have "map (\<lambda>c. m' (tk_audio_ref c)) cs1 = map m' (map tk_audio_ref cs1)" by simp
  also have "\<dots> = map (\<lambda>k. m' (chunk_ref voice k)) [0..<length ds]" unfolding l(2) by simp
  also have "\<dots> = map (\<lambda>k. Some (ds ! k)) [0..<length ds]" by (intro map_cong refl at) simp
  also have "\<dots> = map Some ds" by (rule nth_equalityI) simp_all
  finally have front: "map (\<lambda>c. m' (tk_audio_ref c)) cs1 = map Some ds" .
  show final: "m' ?r = Some (case m ?r of None \<Rightarrow> last ds | Some old \<Rightarrow> old)"
    unfolding m' using r1 by (cases "m ?r") simp_all
  then show "map (\<lambda>c. m' (tk_audio_ref c)) cs = map Some ds @ [Some (case m ?r of None \<Rightarrow> last ds | Some old \<Rightarrow> old)]"
    using front cs c by simp
qed

text \<open>
  Every chunk of a first utterance keeps its bytes: after a synthesis that ends normally
  the references of the yielded chunks stand for the generated pieces of audio, in order, and
  the additional final chunk for the last piece once more, so that whoever plays every chunk
  plays the end of the utterance twice.
\<close>

theorem first_utterance_audio:
  assumes "elevenlabs_stream exn_text dv rq (map (Pair False) ds) None False (\<lambda>_. None) = (cs, Inr (), m)"
    and "ds \<noteq> []"
  shows "map (\<lambda>c. m (tk_audio_ref c)) cs = map Some (ds @ [last ds])"
  using elevenlabs_refs(1) [OF assms(1) refl assms(2)] by simp

text \<open>
  The reference of the final chunk is never renewed: when a second utterance of the same
  voice has as many pieces as the first, its final chunk replays the end of the first one.
\<close>

theorem second_utterance_replays_first:
  assumes "elevenlabs_stream exn_text dv rq (map (Pair False) ds) None False (\<lambda>_. None) = (cs, Inr (), m)"
    and "elevenlabs_stream exn_text dv rq' (map (Pair False) ds') None False m = (cs', Inr (), m')"
    and "tq_voice_ref rq' = tq_voice_ref rq" and "ds \<noteq> []" and "length ds' = length ds"
  shows "map (\<lambda>c. m' (tk_audio_ref c)) cs' = map Some (ds' @ [last ds])"
proof -
  let ?voice = "if tq_voice_ref rq = [] then dv else tq_voice_ref rq"
  have "ds' \<noteq> []" using assms(4,5) by auto
  moreover have "?voice = (if tq_voice_ref rq' = [] then dv else tq_voice_ref rq')" using assms(3) by simp
  ultimately show ?thesis
    using elevenlabs_refs(2) [OF assms(1) refl assms(4)] elevenlabs_refs(1) [OF assms(2)] assms(5) by simp
qed

text \<open>
  What is resolved is a valid frame whose duration is that of its samples, at least a
  millisecond; a piece of more than 65536 bytes cannot be resolved at all.
\<close>

lemma resolve_output_audio_cases:
  assumes "m r = Some d"
  shows "length d \<le> 65536 \<Longrightarrow> resolve_output_audio m r =
      Inr (Some \<lparr>of_data = d, of_sample_rate_hz = 16000, of_channels = 1, of_duration_ms = pcm_duration_ms d\<rparr>)"
    and "65536 < length d \<Longrightarrow> resolve_output_audio m r = Inl (ValidationError ''data'')"
  using assms by (simp_all add: resolve_output_audio_def pcm_frame_def check_tts_output_frame_def pcm_duration_ms_def)

section \<open>Witnesses\<close>

definition mic_frame :: "int \<Rightarrow> nat list \<Rightarrow> stt_audio_frame" where
  "mic_frame ms d = \<lparr>af_data = d, af_sample_rate_hz = 16000, af_channels = 1, af_duration_ms = ms\<rparr>"

lemma assemblyai_sends_audio_witness:
  "\<exists>sent. send_audio (\<lambda>_ _. Inr ()) False [] empty_buffer
       (map (Pair False) [mic_frame 60 [1], mic_frame 60 [2], mic_frame 20 [3]]) = (sent, Inr True) \<and>
     (\<exists>kept dropped. [mic_frame 60 [1], mic_frame 60 [2], mic_frame 20 [3]] = kept @ dropped \<and>
       concat (map af_data sent) = concat (map af_data kept) \<and> sum_list (map af_duration_ms dropped) < 50)"
proof -
  have r: "send_audio (\<lambda>_ _. Inr ()) False [] empty_buffer
       (map (Pair False) [mic_frame 60 [1], mic_frame 60 [2], mic_frame 20 [3]]) = ([mic_frame 120 [1, 2]], Inr True)"
    by (simp add: mic_frame_def empty_buffer_def buffer_frame_def send_buffered_def buffered_frame_def
        check_stt_audio_frame_def target_chunk_ms_def min_chunk_ms_def Let_def)
  from assemblyai_sends_audio [OF r] r show ?thesis by blast
qed

definition speech :: tts_request where
  "speech = \<lparr>tq_provider_key = ''elevenlabs'', tq_voice_ref = ''v'', tq_text = ''hi'', tq_params = []\<rparr>"

lemmas speech_defs = elevenlabs_stream_def tts_final_def check_tts_stream_chunk_def Let_def speech_def
  chunk_ref_def final_ref_def nat_str.simps

lemma first_utterance_audio_witness:
  "\<exists>cs m. elevenlabs_stream (\<lambda>_. []) ''d'' speech (map (Pair False) [[1], [2]]) None False (\<lambda>_. None) = (cs, Inr (), m) \<and>
     map (\<lambda>c. m (tk_audio_ref c)) cs = [Some [1], Some [2], Some [2]]"
proof -
  obtain cs m where r: "elevenlabs_stream (\<lambda>_. []) ''d'' speech (map (Pair False) [[1], [2]]) None False (\<lambda>_. None) = (cs, Inr (), m)"
    by (simp add: speech_defs)
  from first_utterance_audio [OF r] r show ?thesis by auto
qed

lemma second_utterance_replays_first_witness:
  "\<exists>cs m. elevenlabs_stream (\<lambda>_. []) ''d'' speech (map (Pair False) [[1]]) None False (\<lambda>_. None) = (cs, Inr (), m) \<and>
     (\<exists>cs' m'. elevenlabs_stream (\<lambda>_. []) ''d'' speech (map (Pair False) [[7]]) None False m = (cs', Inr (), m') \<and>
        map (\<lambda>c. m' (tk_audio_ref c)) cs' = [Some [7], Some [1]])"
proof -
  obtain cs m where r: "elevenlabs_stream (\<lambda>_. []) ''d'' speech (map (Pair False) [[1]]) None False (\<lambda>_. None) = (cs, Inr (), m)"
    by (simp add: speech_defs)
  obtain cs' m' where r': "elevenlabs_stream (\<lambda>_. []) ''d'' speech (map (Pair False) [[7]]) None False m = (cs', Inr (), m')"
    by (simp add: speech_defs split: if_splits option.splits)
  from second_utterance_replays_first [OF r r' refl] r r' show ?thesis by auto
qed

end
