(* ===== verification/Fakes.thy ===== *)
theory Fakes
  imports LlmAdapters VoiceAdapters
begin

text \<open>
  The scripted providers of packages/providers: fake_llm.py, fake_stt.py, fake_tts.py. A stream is
  what an iteration of it yields and how it ends. \<open>cancelled i\<close> says whether the token is found
  cancelled at one of the two checks before the \<open>i\<close>-th chunk; the delay between them has no other
  effect.
\<close>

section \<open>fake_llm.py\<close>

record fake_llm_response =
  fr_chunks :: "string list"
  fr_tool_calls :: "llm_tool_call list"
  fr_finish_reason :: "string option"
  fr_fail_with :: "provider_error option"

record fake_llm =
  fl_chunks :: "string list"
  fl_tool_calls :: "llm_tool_call list"
  fl_fail_with :: "provider_error option"
  fl_responses :: "fake_llm_response list option"
  fl_requests :: "llm_request list"
  fl_call_count :: nat

definition create_fake_llm ::
  "string list option \<Rightarrow> llm_tool_call list option \<Rightarrow> provider_error option \<Rightarrow> fake_llm_response list option \<Rightarrow> fake_llm" where
  "create_fake_llm chunks calls fail responses =
     \<lparr>fl_chunks = (case chunks of None \<Rightarrow> [''hello'', '' world''] | Some [] \<Rightarrow> [''hello'', '' world''] | Some cs \<Rightarrow> cs),
      fl_tool_calls = (case calls of None \<Rightarrow> [] | Some cs \<Rightarrow> cs), fl_fail_with = fail, fl_responses = responses,
      fl_requests = [], fl_call_count = 0\<rparr>"

definition default_finish :: "llm_tool_call list \<Rightarrow> string" where
  "default_finish calls = (if calls = [] then ''stop'' else ''tool_calls'')"

definition yield_then :: "'a result \<Rightarrow> 'a list \<times> unit result \<Rightarrow> 'a list \<times> unit result" where
  "yield_then c rest = (case c of Inl e \<Rightarrow> ([], Inl e) | Inr x \<Rightarrow> (x # fst rest, snd rest))"

text \<open>The loop over the chunks from index \<open>i\<close>; the last one carries the reason and the calls.\<close>

fun fake_llm_loop ::
  "(nat \<Rightarrow> bool) \<Rightarrow> string \<Rightarrow> llm_tool_call list \<Rightarrow> nat \<Rightarrow> string list \<Rightarrow> llm_stream_chunk list \<times> unit result" where
  "fake_llm_loop cancelled finish calls i [] = ([], Inr ())"
| "fake_llm_loop cancelled finish calls i (d # ds) =
     (if cancelled i then ([], Inr ())
      else yield_then
        (check_llm_stream_chunk \<lparr>lc_delta = d, lc_finish_reason = (if ds = [] then Some finish else None),
           lc_tool_calls = (if ds = [] then calls else [])\<rparr>)
        (fake_llm_loop cancelled finish calls (i + 1) ds))"

definition fake_llm_script ::
  "(nat \<Rightarrow> bool) \<Rightarrow> string \<Rightarrow> llm_tool_call list \<Rightarrow> string list \<Rightarrow> llm_stream_chunk list \<times> unit result" where
  "fake_llm_script cancelled finish calls chunks =
     (if chunks = [] then
        (if cancelled 0 then ([], Inr ())
         else yield_then (check_llm_stream_chunk \<lparr>lc_delta = [], lc_finish_reason = Some finish, lc_tool_calls = calls\<rparr>)
                ([], Inr ()))
      else fake_llm_loop cancelled finish calls 0 chunks)"

text \<open>Which scripted response a call gets: the last one is repeated, an empty script answers ok.\<close>

definition fake_response :: "fake_llm_response list \<Rightarrow> nat \<Rightarrow> fake_llm_response" where
  "fake_response rs n =
     (if n < length rs then rs ! n
      else if rs \<noteq> [] then last rs
      else \<lparr>fr_chunks = [''ok''], fr_tool_calls = [], fr_finish_reason = None, fr_fail_with = None\<rparr>)"

definition fake_llm_stream ::
  "(nat \<Rightarrow> bool) \<Rightarrow> llm_request \<Rightarrow> fake_llm \<Rightarrow> (llm_stream_chunk list \<times> unit result) \<times> fake_llm" where
  "fake_llm_stream cancelled rq p =
     (let p1 = p\<lparr>fl_requests := fl_requests p @ [rq]\<rparr> in
      case fl_responses p of
        Some rs \<Rightarrow>
          let r = fake_response rs (fl_call_count p); p2 = p1\<lparr>fl_call_count := fl_call_count p + 1\<rparr> in
          (case fr_fail_with r of
             Some e \<Rightarrow> (([], Inl (ProviderErr e)), p2)
           | None \<Rightarrow>
               (fake_llm_script cancelled
                  (if str_truthy (fr_finish_reason r) then str_or (fr_finish_reason r) [] else default_finish (fr_tool_calls r))
                  (fr_tool_calls r) (fr_chunks r), p2))
      | None \<Rightarrow>
          (case fl_fail_with p of
             Some e \<Rightarrow> (([], Inl (ProviderErr e)), p1)
           | None \<Rightarrow>
               (fake_llm_script cancelled (default_finish (fl_tool_calls p)) (fl_tool_calls p) (fl_chunks p), p1)))"

definition cancelled_provider_error :: provider_error where
  "cancelled_provider_error = \<lparr>pe_code = PE_CANCELLED, pe_message = ''cancelled'', pe_provider_key = ''fake'', pe_retryable = False\<rparr>"

section \<open>fake_stt.py\<close>

record fake_stt =
  ft_chunks :: "stt_transcript_chunk list"
  ft_fail_with :: "provider_error option"
  ft_requests :: "stt_request list"
  ft_received_frames :: "stt_audio_frame list"

definition fake_transcripts :: "stt_transcript_chunk list" where
  "fake_transcripts =
     [\<lparr>sc_text = ''hel'', sc_is_final = False, sc_start_ms = 0, sc_end_ms = 100, sc_confidence = None\<rparr>,
      \<lparr>sc_text = ''hello'', sc_is_final = True, sc_start_ms = 0, sc_end_ms = 200, sc_confidence = None\<rparr>]"

definition create_fake_stt :: "stt_transcript_chunk list option \<Rightarrow> provider_error option \<Rightarrow> fake_stt" where
  "create_fake_stt chunks fail =
     \<lparr>ft_chunks = (case chunks of None \<Rightarrow> fake_transcripts | Some [] \<Rightarrow> fake_transcripts | Some cs \<Rightarrow> cs),
      ft_fail_with = fail, ft_requests = [], ft_received_frames = []\<rparr>"

text \<open>
  The frames that arrive, each with the token's value, and how the iterator ends; then the
  transcripts, with the token's value before each.
\<close>

definition fake_transcribe ::
  "stt_request \<Rightarrow> (bool \<times> stt_audio_frame) list \<Rightarrow> unit result \<Rightarrow> (nat \<Rightarrow> bool) \<Rightarrow> fake_stt \<Rightarrow>
     (stt_transcript_chunk list \<times> unit result) \<times> fake_stt" where
  "fake_transcribe rq audio ending cancelled p =
     (let p1 = p\<lparr>ft_requests := ft_requests p @ [rq]\<rparr> in
      case ft_fail_with p of
        Some e \<Rightarrow> (([], Inl (ProviderErr e)), p1)
      | None \<Rightarrow>
          (case until_cancelled audio of (frames, halted) \<Rightarrow>
             let p2 = p1\<lparr>ft_received_frames := ft_received_frames p @ frames\<rparr> in
             if halted then (([], Inr ()), p2)
             else case ending of
                    Inl e \<Rightarrow> (([], Inl e), p2)
                  | Inr _ \<Rightarrow> ((fst (until_cancelled (map (\<lambda>(i, c). (cancelled i, c)) (enumerate 0 (ft_chunks p)))), Inr ()), p2)))"

section \<open>fake_tts.py\<close>

record fake_tts =
  fs_chunks :: "string list"
  fs_chunk_audio :: chunk_audio
  fs_fail_with :: "provider_error option"
  fs_requests :: "tts_request list"

definition create_fake_tts :: "string list option \<Rightarrow> chunk_audio \<Rightarrow> provider_error option \<Rightarrow> fake_tts" where
  "create_fake_tts chunks audio fail =
     \<lparr>fs_chunks = (case chunks of None \<Rightarrow> [''fake-audio-0'', ''fake-audio-1''] | Some [] \<Rightarrow> [''fake-audio-0'', ''fake-audio-1'']
        | Some cs \<Rightarrow> cs),
      fs_chunk_audio = audio, fs_fail_with = fail, fs_requests = []\<rparr>"

text \<open>The bytes of a character in UTF-8; strings have code points below 256.\<close>

definition utf8 :: "char \<Rightarrow> nat list" where
  "utf8 c = (let n = of_char c in if n < (128 :: nat) then [n] else [192 + n div 64, 128 + n mod 64])"

definition synthetic_pcm :: "string \<Rightarrow> nat list" where
  "synthetic_pcm r = concat (replicate 160 [sum_list (concat (map utf8 r)) mod 256, 0])"

definition fake_resolve :: "fake_tts \<Rightarrow> string \<Rightarrow> tts_output_frame option result" where
  "fake_resolve p r =
     (case fs_chunk_audio p r of
        Some d \<Rightarrow> map_sum id Some (pcm_frame d)
      | None \<Rightarrow> if r \<in> set (fs_chunks p) then map_sum id Some (pcm_frame (synthetic_pcm r)) else Inr None)"

fun fake_tts_loop :: "(nat \<Rightarrow> bool) \<Rightarrow> nat \<Rightarrow> string list \<Rightarrow> tts_stream_chunk list \<times> unit result" where
  "fake_tts_loop cancelled i [] = ([], Inr ())"
| "fake_tts_loop cancelled i (r # rs) =
     (if cancelled i then ([], Inr ())
      else yield_then
        (check_tts_stream_chunk \<lparr>tk_audio_ref = r, tk_index = int i, tk_is_final = (rs = []), tk_text_range = None\<rparr>)
        (fake_tts_loop cancelled (i + 1) rs))"

definition fake_tts_stream ::
  "(nat \<Rightarrow> bool) \<Rightarrow> tts_request \<Rightarrow> fake_tts \<Rightarrow> (tts_stream_chunk list \<times> unit result) \<times> fake_tts" where
  "fake_tts_stream cancelled rq p =
     (let p1 = p\<lparr>fs_requests := fs_requests p @ [rq]\<rparr> in
      case fs_fail_with p of
        Some e \<Rightarrow> (([], Inl (ProviderErr e)), p1)
      | None \<Rightarrow> (fake_tts_loop cancelled 0 (fs_chunks p), p1))"

section \<open>What the scripts yield\<close>

lemma yield_then_Inr [simp]: "yield_then (Inr x) rest = (x # fst rest, snd rest)"
  by (simp add: yield_then_def)

text \<open>An uncancelled script is spoken in full, and its calls come once, with the last chunk.\<close>

lemma fake_llm_loop_complete:
  assumes "length finish \<le> 64" and "\<forall>i. \<not> cancelled i" and "chunks \<noteq> []"
  shows "map lc_delta (fst (fake_llm_loop cancelled finish calls i chunks)) = chunks \<and>
     concat (map lc_tool_calls (fst (fake_llm_loop cancelled finish calls i chunks))) = calls \<and>
     snd (fake_llm_loop cancelled finish calls i chunks) = Inr ()"
  using assms(3)
proof (induction chunks arbitrary: i)
  case (Cons d ds)
  with assms(1,2) Cons.IH [of "i + 1"] show ?case by (cases "ds = []") (simp_all add: check_llm_stream_chunk_def)
qed simp

text \<open>A cancelled one is a prefix of it.\<close>

lemma fake_llm_loop_prefix:
  "length finish \<le> 64 \<Longrightarrow> \<exists>rest. map lc_delta (fst (fake_llm_loop cancelled finish calls i chunks)) @ rest = chunks"
proof (induction chunks arbitrary: i)
  case (Cons d ds)
  then obtain rest where "map lc_delta (fst (fake_llm_loop cancelled finish calls (i + 1) ds)) @ rest = ds" by blast
  with Cons.prems show ?case by (auto simp: check_llm_stream_chunk_def)
qed simp

text \<open>What the voice of the tests yields can be heard: every reference resolves to a frame.\<close>

lemma synthetic_frame: "\<exists>f. pcm_frame (synthetic_pcm r) = Inr f \<and> of_duration_ms f = 10"
proof -
  have "length (synthetic_pcm r) = 320" by (simp add: synthetic_pcm_def length_concat sum_list_replicate)
  then show ?thesis by (simp add: pcm_frame_def pcm_duration_ms_def check_tts_output_frame_def)
qed

lemma fake_tts_audible:
  assumes "c \<in> set (fst (fst (fake_tts_stream cancelled rq p)))" and "fs_chunk_audio p (tk_audio_ref c) = None"
  shows "\<exists>f. fake_resolve p (tk_audio_ref c) = Inr (Some f) \<and> of_duration_ms f = 10"
proof -
  have "tk_audio_ref ` set (fst (fake_tts_loop cancelled i rs)) \<subseteq> set rs" for i rs
    by (induction rs arbitrary: i) (auto simp: yield_then_def check_tts_stream_chunk_def)
  then have "tk_audio_ref c \<in> set (fs_chunks p)"
    using assms(1) by (auto simp: fake_tts_stream_def Let_def split: option.splits)
  with assms(2) synthetic_frame [of "tk_audio_ref c"] show ?thesis by (auto simp: fake_resolve_def)
qed

end
