(* ===== verification/AgentContract.thy ===== *)
theory AgentContract
  imports Tools
begin

text \<open>
  The configuration contracts of an agent: the provider bindings
  (xymphony_contracts/providers.py), \<open>Agent\<close> and \<open>AgentVersion\<close> with their validators
  (agent.py), the managed tool definition (tool_definition.py), and the JSON form in which
  bindings are stored: \<open>dump_...\<close> is \<open>model_dump(mode="json")\<close> and \<open>validate_...\<close> is
  \<open>model_validate\<close>.
\<close>

section \<open>providers.py\<close>

definition secret_param_names :: "string list" where
  "secret_param_names = [''api_key'', ''apikey'', ''secret'', ''password'', ''token'',
     ''access_token'', ''authorization'', ''private_key'']"

definition normalize_param_name :: "string \<Rightarrow> string" where
  "normalize_param_name k = map (\<lambda>c. if c = CHR ''-'' then CHR ''_'' else c) (py_lower k)"

definition reject_secret_params :: "json_dict \<Rightarrow> json_dict result" where
  "reject_secret_params ps =
     (if list_ex (\<lambda>(k, _). normalize_param_name k \<in> set secret_param_names) ps
      then Inl (ValidationError ''provider params must not contain credentials'') else Inr ps)"

text \<open>\<open>PROVIDER_KEY_PATTERN\<close>: a lower-case letter, then at most 63 of a-z, 0-9 and underscore.\<close>

definition lower_letter :: "char \<Rightarrow> bool" where
  "lower_letter c \<longleftrightarrow> c \<in> set ''abcdefghijklmnopqrstuvwxyz''"

fun provider_key_ok :: "string \<Rightarrow> bool" where
  "provider_key_ok [] = False"
| "provider_key_ok (c # cs) \<longleftrightarrow> lower_letter c \<and> length cs \<le> 63 \<and>
     list_all (\<lambda>d. lower_letter d \<or> d \<in> set ''0123456789_'') cs"

record llm_binding =
  lb_provider_key :: string
  lb_model :: string
  lb_params :: json_dict

record stt_binding =
  sb_provider_key :: string
  sb_model :: string
  sb_params :: json_dict

record tts_binding =
  vb_provider_key :: string
  vb_voice_ref :: string
  vb_params :: json_dict

text \<open>\<open>str_strip_whitespace\<close>: the declared string fields are stripped before they are validated.\<close>

definition check_provider_fields :: "string \<Rightarrow> string \<Rightarrow> json_dict \<Rightarrow> json_dict result" where
  "check_provider_fields key sel ps =
     (if \<not> provider_key_ok key then Inl (ValidationError ''provider_key'')
      else if sel = [] \<or> 256 < length sel then Inl (ValidationError ''model'')
      else reject_secret_params ps)"

definition check_llm_binding :: "llm_binding \<Rightarrow> llm_binding result" where
  "check_llm_binding b =
     (let b' = b\<lparr>lb_provider_key := py_strip (lb_provider_key b), lb_model := py_strip (lb_model b)\<rparr>
      in map_sum id (\<lambda>_. b') (check_provider_fields (lb_provider_key b') (lb_model b') (lb_params b')))"

definition check_stt_binding :: "stt_binding \<Rightarrow> stt_binding result" where
  "check_stt_binding b =
     (let b' = b\<lparr>sb_provider_key := py_strip (sb_provider_key b), sb_model := py_strip (sb_model b)\<rparr>
      in map_sum id (\<lambda>_. b') (check_provider_fields (sb_provider_key b') (sb_model b') (sb_params b')))"

definition check_tts_binding :: "tts_binding \<Rightarrow> tts_binding result" where
  "check_tts_binding b =
     (let b' = b\<lparr>vb_provider_key := py_strip (vb_provider_key b), vb_voice_ref := py_strip (vb_voice_ref b)\<rparr>
      in map_sum id (\<lambda>_. b') (check_provider_fields (vb_provider_key b') (vb_voice_ref b') (vb_params b')))"

definition check_tool_binding :: "tool_binding \<Rightarrow> tool_binding result" where
  "check_tool_binding b =
     (let b' = b\<lparr>tb_tool_name := py_strip (tb_tool_name b)\<rparr>
      in if tb_tool_name b' = [] \<or> 128 < length (tb_tool_name b')
         then Inl (ValidationError ''tool_name'')
         else map_sum id (\<lambda>_. b') (reject_secret_params (tb_params b')))"

section \<open>Stored form of the bindings\<close>

definition dump_llm_binding :: "llm_binding \<Rightarrow> json" where
  "dump_llm_binding b = JObj [(''provider_key'', JStr (lb_provider_key b)),
     (''model'', JStr (lb_model b)), (''params'', JObj (lb_params b))]"

definition dump_stt_binding :: "stt_binding \<Rightarrow> json" where
  "dump_stt_binding b = JObj [(''provider_key'', JStr (sb_provider_key b)),
     (''model'', JStr (sb_model b)), (''params'', JObj (sb_params b))]"

definition dump_tts_binding :: "tts_binding \<Rightarrow> json" where
  "dump_tts_binding b = JObj [(''provider_key'', JStr (vb_provider_key b)),
     (''voice_ref'', JStr (vb_voice_ref b)), (''params'', JObj (vb_params b))]"

definition dump_tool_binding :: "tool_binding \<Rightarrow> json" where
  "dump_tool_binding b = JObj [(''tool_name'', JStr (tb_tool_name b)),
     (''enabled'', JBool (tb_enabled b)), (''params'', JObj (tb_params b))]"

text \<open>The fields of a stored object: unknown keys are forbidden, missing ones have their default.\<close>

definition object_fields :: "string list \<Rightarrow> json \<Rightarrow> (string \<Rightarrow> json option) result" where
  "object_fields allowed j =
     (case j of
        JObj kvs \<Rightarrow>
          if list_all (\<lambda>(k, _). k \<in> set allowed) kvs then Inr (map_of kvs)
          else Inl (ValidationError ''extra fields not permitted'')
      | _ \<Rightarrow> Inl (ValidationError ''expected an object''))"

definition str_field :: "(string \<Rightarrow> json option) \<Rightarrow> string \<Rightarrow> string result" where
  "str_field d k = (case d k of Some (JStr s) \<Rightarrow> Inr s | _ \<Rightarrow> Inl (ValidationError k))"

definition params_field :: "(string \<Rightarrow> json option) \<Rightarrow> json_dict result" where
  "params_field d = (case d ''params'' of None \<Rightarrow> Inr [] | Some (JObj ps) \<Rightarrow> Inr ps
     | _ \<Rightarrow> Inl (ValidationError ''params''))"

definition enabled_field :: "(string \<Rightarrow> json option) \<Rightarrow> bool result" where
  "enabled_field d = (case d ''enabled'' of None \<Rightarrow> Inr True | Some (JBool b) \<Rightarrow> Inr b
     | _ \<Rightarrow> Inl (ValidationError ''enabled''))"

definition provider_fields :: "string \<Rightarrow> json \<Rightarrow> (string \<times> string \<times> json_dict) result" where
  "provider_fields sel j =
     (case object_fields [''provider_key'', sel, ''params''] j of
        Inl e \<Rightarrow> Inl e
      | Inr d \<Rightarrow>
          (case str_field d ''provider_key'' of
             Inl e \<Rightarrow> Inl e
           | Inr k \<Rightarrow>
               (case str_field d sel of
                  Inl e \<Rightarrow> Inl e
                | Inr m \<Rightarrow> map_sum id (\<lambda>ps. (k, m, ps)) (params_field d))))"

definition validate_llm_binding :: "json \<Rightarrow> llm_binding result" where
  "validate_llm_binding j =
     (case provider_fields ''model'' j of
        Inl e \<Rightarrow> Inl e
      | Inr (k, m, ps) \<Rightarrow> check_llm_binding \<lparr>lb_provider_key = k, lb_model = m, lb_params = ps\<rparr>)"

definition validate_stt_binding :: "json \<Rightarrow> stt_binding result" where
  "validate_stt_binding j =
     (case provider_fields ''model'' j of
        Inl e \<Rightarrow> Inl e
      | Inr (k, m, ps) \<Rightarrow> check_stt_binding \<lparr>sb_provider_key = k, sb_model = m, sb_params = ps\<rparr>)"

definition validate_tts_binding :: "json \<Rightarrow> tts_binding result" where
  "validate_tts_binding j =
     (case provider_fields ''voice_ref'' j of
        Inl e \<Rightarrow> Inl e
      | Inr (k, m, ps) \<Rightarrow> check_tts_binding \<lparr>vb_provider_key = k, vb_voice_ref = m, vb_params = ps\<rparr>)"

definition validate_tool_binding :: "json \<Rightarrow> tool_binding result" where
  "validate_tool_binding j =
     (case object_fields [''tool_name'', ''enabled'', ''params''] j of
        Inl e \<Rightarrow> Inl e
      | Inr d \<Rightarrow>
          (case str_field d ''tool_name'' of
             Inl e \<Rightarrow> Inl e
           | Inr n \<Rightarrow>
               (case enabled_field d of
                  Inl e \<Rightarrow> Inl e
                | Inr b \<Rightarrow>
                    (case params_field d of
                       Inl e \<Rightarrow> Inl e
                     | Inr ps \<Rightarrow> check_tool_binding \<lparr>tb_tool_name = n, tb_enabled = b, tb_params = ps\<rparr>))))"

section \<open>enums.py: agent statuses\<close>

datatype agent_status = AS_DRAFT | AS_ACTIVE | AS_ARCHIVED

datatype agent_version_status = AV_DRAFT | AV_PUBLISHED | AV_DEPRECATED

datatype tool_type = TT_FUNCTION | TT_API | TT_WEBHOOK

section \<open>agent.py\<close>

record agent =
  ag_id :: uuid
  ag_organization_id :: uuid
  ag_project_id :: uuid
  ag_name :: string
  ag_description :: string
  ag_status :: agent_status
  ag_tags :: "string list"
  ag_created_by :: "uuid option"
  ag_created_at :: time
  ag_updated_at :: time

definition check_agent :: "agent \<Rightarrow> agent result" where
  "check_agent a =
     (if ag_name a = [] \<or> 200 < length (ag_name a) then Inl (ValidationError ''name'')
      else if 4000 < length (ag_description a) then Inl (ValidationError ''description'')
      else Inr a)"

record agent_version =
  av_id :: uuid
  av_organization_id :: uuid
  av_project_id :: uuid
  av_agent_id :: uuid
  av_version_n :: int
  av_status :: agent_version_status
  av_instructions :: string
  av_personality :: string
  av_locale :: string
  av_llm :: llm_binding
  av_stt :: stt_binding
  av_tts :: tts_binding
  av_tools :: "tool_binding list"
  av_config_hash :: "string option"
  av_created_by :: "uuid option"
  av_created_at :: time
  av_published_at :: "time option"

text \<open>The loop of the tools validators: the first name seen twice is an error.\<close>

fun validate_tools :: "string set \<Rightarrow> tool_binding list \<Rightarrow> unit result" where
  "validate_tools seen [] = Inr ()"
| "validate_tools seen (b # bs) =
     (if tb_tool_name b \<in> seen
      then Inl (ValidationError (''duplicate tool binding: '' @ tb_tool_name b))
      else validate_tools (insert (tb_tool_name b) seen) bs)"

definition published_requires_timestamp :: "agent_version \<Rightarrow> unit result" where
  "published_requires_timestamp v =
     (if av_status v = AV_PUBLISHED \<and> av_published_at v = None
      then Inl (ValidationError ''published AgentVersion requires published_at'')
      else if av_status v \<noteq> AV_PUBLISHED \<and> av_published_at v \<noteq> None
      then Inl (ValidationError ''published_at is only valid when status is published'')
      else Inr ())"

definition check_agent_version :: "agent_version \<Rightarrow> agent_version result" where
  "check_agent_version v =
     (if av_version_n v < 1 then Inl (ValidationError ''version_n'')
      else if av_instructions v = [] \<or> 32000 < length (av_instructions v)
      then Inl (ValidationError ''instructions'')
      else if 8000 < length (av_personality v) then Inl (ValidationError ''personality'')
      else if length (av_locale v) < 2 \<or> 16 < length (av_locale v) then Inl (ValidationError ''locale'')
      else case validate_tools {} (av_tools v) of
             Inl e \<Rightarrow> Inl e
           | Inr _ \<Rightarrow>
               if (case av_config_hash v of None \<Rightarrow> False | Some h \<Rightarrow> \<not> config_hash_ok h)
               then Inl (ValidationError ''config_hash must be a lowercase SHA-256 hex digest'')
               else map_sum id (\<lambda>_. v) (published_requires_timestamp v))"

definition compiled_system_prompt :: "agent_version \<Rightarrow> string" where
  "compiled_system_prompt v =
     (let personality = py_strip (av_personality v); instructions = py_strip (av_instructions v)
      in if personality = [] then instructions
         else if instructions = [] then personality
         else personality @ [CHR 0x0A, CHR 0x0A] @ instructions)"

text \<open>
  The payload whose canonical JSON text is hashed. \<open>str\<close> of a UUID and the SHA-256 digest of
  the text are parameters (\<open>uuid_str\<close>, \<open>digest\<close>).
\<close>

definition config_payload :: "(uuid \<Rightarrow> string) \<Rightarrow> agent_version \<Rightarrow> json" where
  "config_payload uuid_str v = JObj [
     (''organization_id'', JStr (uuid_str (av_organization_id v))),
     (''project_id'', JStr (uuid_str (av_project_id v))),
     (''agent_id'', JStr (uuid_str (av_agent_id v))),
     (''version_n'', JInt (av_version_n v)),
     (''instructions'', JStr (av_instructions v)),
     (''personality'', JStr (av_personality v)),
     (''locale'', JStr (av_locale v)),
     (''llm'', dump_llm_binding (av_llm v)),
     (''stt'', dump_stt_binding (av_stt v)),
     (''tts'', dump_tts_binding (av_tts v)),
     (''tools'', JList (map dump_tool_binding (av_tools v)))]"

record hash_env =
  he_uuid_str :: "uuid \<Rightarrow> string"
  he_digest :: "json \<Rightarrow> string"

definition compute_config_hash :: "hash_env \<Rightarrow> agent_version \<Rightarrow> string" where
  "compute_config_hash h v = he_digest h (config_payload (he_uuid_str h) v)"

definition with_config_hash :: "hash_env \<Rightarrow> agent_version \<Rightarrow> agent_version" where
  "with_config_hash h v = v\<lparr>av_config_hash := Some (compute_config_hash h v)\<rparr>"

section \<open>tool_definition.py\<close>

record tool_definition =
  tf_id :: uuid
  tf_organization_id :: uuid
  tf_project_id :: uuid
  tf_name :: string
  tf_description :: string
  tf_tool_type :: tool_type
  tf_parameters :: json_dict
  tf_config :: json_dict
  tf_enabled :: bool
  tf_created_by :: "uuid option"
  tf_created_at :: time
  tf_updated_at :: time

definition check_tool_definition :: "tool_definition \<Rightarrow> tool_definition result" where
  "check_tool_definition t =
     (if tf_name t = [] \<or> 128 < length (tf_name t) then Inl (ValidationError ''name'')
      else if 4000 < length (tf_description t) then Inl (ValidationError ''description'')
      else Inr t)"

section \<open>Facts\<close>

lemma validate_tools_iff:
  "validate_tools seen bs = Inr () \<longleftrightarrow>
     distinct (map tb_tool_name bs) \<and> seen \<inter> tb_tool_name ` set bs = {}"
  by (induction bs arbitrary: seen) auto

lemma check_agent_version_Inr:
  "check_agent_version v = Inr w \<longleftrightarrow>
     w = v \<and> 1 \<le> av_version_n v \<and> av_instructions v \<noteq> [] \<and> length (av_instructions v) \<le> 32000 \<and>
     length (av_personality v) \<le> 8000 \<and> 2 \<le> length (av_locale v) \<and> length (av_locale v) \<le> 16 \<and>
     distinct (map tb_tool_name (av_tools v)) \<and>
     (\<forall>h. av_config_hash v = Some h \<longrightarrow> config_hash_ok h) \<and>
     (av_status v = AV_PUBLISHED \<longleftrightarrow> av_published_at v \<noteq> None)"
proof -
  have "validate_tools {} (av_tools v) = Inr () \<longleftrightarrow> distinct (map tb_tool_name (av_tools v))"
    by (simp add: validate_tools_iff)
  then show ?thesis
    by (cases "validate_tools {} (av_tools v)")
      (auto simp: check_agent_version_def published_requires_timestamp_def split: option.splits)
qed

lemma reject_secret_params_Inr: "reject_secret_params ps = Inr qs \<Longrightarrow> qs = ps"
  by (simp add: reject_secret_params_def split: if_splits)

lemma check_provider_fields_Inr: "check_provider_fields k m ps = Inr qs \<Longrightarrow> qs = ps"
  by (auto simp: check_provider_fields_def dest: reject_secret_params_Inr split: if_splits)

text \<open>Validation returns a value it accepts again unchanged.\<close>

lemma check_binding_idem:
  "check_llm_binding a = Inr a' \<Longrightarrow> check_llm_binding a' = Inr a'"
  "check_stt_binding b = Inr b' \<Longrightarrow> check_stt_binding b' = Inr b'"
  "check_tts_binding c = Inr c' \<Longrightarrow> check_tts_binding c' = Inr c'"
  "check_tool_binding e = Inr e' \<Longrightarrow> check_tool_binding e' = Inr e'"
proof -
  have idem: "py_strip x = y \<Longrightarrow> py_strip y = y" for x y by auto
  show "check_llm_binding a = Inr a' \<Longrightarrow> check_llm_binding a' = Inr a'"
    by (cases "check_provider_fields (py_strip (lb_provider_key a)) (py_strip (lb_model a)) (lb_params a)")
      (auto simp: check_llm_binding_def Let_def)
  show "check_stt_binding b = Inr b' \<Longrightarrow> check_stt_binding b' = Inr b'"
    by (cases "check_provider_fields (py_strip (sb_provider_key b)) (py_strip (sb_model b)) (sb_params b)")
      (auto simp: check_stt_binding_def Let_def)
  show "check_tts_binding c = Inr c' \<Longrightarrow> check_tts_binding c' = Inr c'"
    by (cases "check_provider_fields (py_strip (vb_provider_key c)) (py_strip (vb_voice_ref c)) (vb_params c)")
      (auto simp: check_tts_binding_def Let_def)
  show "check_tool_binding e = Inr e' \<Longrightarrow> check_tool_binding e' = Inr e'"
    by (cases "reject_secret_params (tb_params e)")
      (auto simp: check_tool_binding_def Let_def split: if_splits)
qed

text \<open>What was stored is read back as the constructor's validation of it.\<close>

lemma provider_fields_dump:
  "sel \<noteq> ''provider_key'' \<Longrightarrow> sel \<noteq> ''params'' \<Longrightarrow>
   provider_fields sel (JObj [(''provider_key'', JStr k), (sel, JStr m), (''params'', JObj ps)]) = Inr (k, m, ps)"
  by (simp add: provider_fields_def object_fields_def str_field_def params_field_def)

lemma validate_dump [simp]:
  "validate_llm_binding (dump_llm_binding a) = check_llm_binding a"
  "validate_stt_binding (dump_stt_binding b) = check_stt_binding b"
  "validate_tts_binding (dump_tts_binding c) = check_tts_binding c"
  "validate_tool_binding (dump_tool_binding e) = check_tool_binding e"
  subgoal by (cases a) (simp add: validate_llm_binding_def dump_llm_binding_def provider_fields_dump)
  subgoal by (cases b) (simp add: validate_stt_binding_def dump_stt_binding_def provider_fields_dump)
  subgoal by (cases c) (simp add: validate_tts_binding_def dump_tts_binding_def provider_fields_dump)
  subgoal by (cases e) (simp add: validate_tool_binding_def dump_tool_binding_def object_fields_def
    str_field_def params_field_def enabled_field_def)
  done

definition bindings_ok :: "llm_binding \<Rightarrow> stt_binding \<Rightarrow> tts_binding \<Rightarrow> tool_binding list \<Rightarrow> bool" where
  "bindings_ok l s t bs \<longleftrightarrow> check_llm_binding l = Inr l \<and> check_stt_binding s = Inr s \<and>
     check_tts_binding t = Inr t \<and> list_all (\<lambda>b. check_tool_binding b = Inr b) bs"

end
