(* ===== verification/ControlStore.thy ===== *)
theory ControlStore
  imports AgentContract Persistence "HOL-Library.Product_Lexorder"
begin

text \<open>
  The control plane's database: the tables of xymphony_api/models.py as lists of rows in order
  of insertion, the constraints the models declare, checked where a flush sends a row, the
  row-to-contract conversions (mapping.py) and the repositories (repositories.py). A session
  with \<open>autoflush=False\<close> whose writes are each followed by \<open>flush\<close> reads what it wrote, so one
  state carries both. UUIDs and clock readings are arguments. The engine orders rows that a
  query leaves unordered by insertion.
\<close>

section \<open>models.py\<close>

record organization_row =
  or_id :: uuid
  or_name :: string
  or_slug :: string
  or_created_at :: time

record project_row =
  pr_id :: uuid
  pr_organization_id :: uuid
  pr_name :: string
  pr_slug :: string
  pr_created_at :: time

record agent_row =
  ar_id :: uuid
  ar_organization_id :: uuid
  ar_project_id :: uuid
  ar_name :: string
  ar_description :: string
  ar_status :: string
  ar_tags :: "string list"
  ar_created_by :: "uuid option"
  ar_created_at :: time
  ar_updated_at :: time

record version_row =
  vr_id :: uuid
  vr_organization_id :: uuid
  vr_project_id :: uuid
  vr_agent_id :: uuid
  vr_version_n :: int
  vr_status :: string
  vr_instructions :: string
  vr_personality :: string
  vr_locale :: string
  vr_llm :: json
  vr_stt :: json
  vr_tts :: json
  vr_tools :: "json list"
  vr_config_hash :: string
  vr_created_by :: "uuid option"
  vr_created_at :: time
  vr_published_at :: "time option"

record session_row =
  sr_id :: uuid
  sr_organization_id :: uuid
  sr_project_id :: uuid
  sr_agent_id :: uuid
  sr_agent_version_id :: uuid
  sr_deployment_id :: "uuid option"
  sr_status :: string
  sr_channel :: string
  sr_livekit_room :: "string option"
  sr_config_hash :: string
  sr_started_at :: time
  sr_updated_at :: time
  sr_ended_at :: "time option"
  sr_end_reason :: "string option"
  sr_usage :: "json option"
  sr_error_code :: "string option"

record message_row =
  mr_id :: uuid
  mr_session_id :: uuid
  mr_turn_id :: uuid
  mr_organization_id :: uuid
  mr_role :: string
  mr_status :: string
  mr_parts :: "json list"
  mr_sequence :: int
  mr_created_at :: time

record summary_row =
  ur_id :: uuid
  ur_session_id :: uuid
  ur_organization_id :: uuid
  ur_agent_version_id :: uuid
  ur_through_sequence :: int
  ur_summary_text :: string
  ur_source_message_count :: int
  ur_created_at :: time

record tool_row =
  dr_id :: uuid
  dr_organization_id :: uuid
  dr_project_id :: uuid
  dr_name :: string
  dr_description :: string
  dr_tool_type :: string
  dr_parameters :: json_dict
  dr_config :: json_dict
  dr_enabled :: bool
  dr_created_by :: "uuid option"
  dr_created_at :: time
  dr_updated_at :: time

record version_tool_row =
  vt_agent_version_id :: uuid
  vt_tool_definition_id :: uuid
  vt_enabled :: bool
  vt_created_at :: time

record knowledge_base_row =
  kb_id :: uuid
  kb_organization_id :: uuid
  kb_project_id :: uuid
  kb_name :: string
  kb_description :: string
  kb_created_at :: time
  kb_updated_at :: time

record document_row =
  dc_id :: uuid
  dc_knowledge_base_id :: uuid
  dc_name :: string
  dc_content :: string
  dc_created_at :: time
  dc_updated_at :: time

type_synonym embedding = "rat list"

record chunk_row =
  hr_id :: uuid
  hr_document_id :: uuid
  hr_chunk_index :: int
  hr_content :: string
  hr_search_vector :: "string list option"
  hr_embedding :: "embedding option"
  hr_created_at :: time

record version_kb_row =
  vk_agent_version_id :: uuid
  vk_knowledge_base_id :: uuid
  vk_created_at :: time

record db =
  db_organizations :: "organization_row list"
  db_projects :: "project_row list"
  db_agents :: "agent_row list"
  db_versions :: "version_row list"
  db_sessions :: "session_row list"
  db_messages :: "message_row list"
  db_summaries :: "summary_row list"
  db_tools :: "tool_row list"
  db_version_tools :: "version_tool_row list"
  db_knowledge_bases :: "knowledge_base_row list"
  db_documents :: "document_row list"
  db_chunks :: "chunk_row list"
  db_version_kbs :: "version_kb_row list"

definition empty_db :: db where
  "empty_db = \<lparr>db_organizations = [], db_projects = [], db_agents = [], db_versions = [],
     db_sessions = [], db_messages = [], db_summaries = [], db_tools = [], db_version_tools = [],
     db_knowledge_bases = [], db_documents = [], db_chunks = [], db_version_kbs = []\<rparr>"

section \<open>Declared constraints\<close>

text \<open>
  \<open>..._violation d r\<close> is the error of sending row \<open>r\<close> to a database holding the rows \<open>d\<close>
  beside it: primary keys, unique constraints (those of migration 0005 on knowledge bases and
  chunks too), foreign keys and the lengths of the columns that no contract bounds.
\<close>

definition has_row :: "('r \<Rightarrow> 'k) \<Rightarrow> 'k \<Rightarrow> 'r list \<Rightarrow> bool" where
  "has_row key k rows \<longleftrightarrow> list_ex (\<lambda>r. key r = k) rows"

definition organization_violation :: "db \<Rightarrow> organization_row \<Rightarrow> exn option" where
  "organization_violation d r =
     (if has_row or_id (or_id r) (db_organizations d) then Some (IntegrityErr ''organizations_pkey'')
      else if has_row or_slug (or_slug r) (db_organizations d)
      then Some (IntegrityErr ''organizations_slug_key'')
      else if 200 < length (or_name r) \<or> 80 < length (or_slug r) then Some (DataErr ''organizations'')
      else None)"

definition project_violation :: "db \<Rightarrow> project_row \<Rightarrow> exn option" where
  "project_violation d r =
     (if has_row pr_id (pr_id r) (db_projects d) then Some (IntegrityErr ''projects_pkey'')
      else if has_row (\<lambda>p. (pr_organization_id p, pr_slug p)) (pr_organization_id r, pr_slug r) (db_projects d)
      then Some (IntegrityErr ''uq_projects_org_slug'')
      else if \<not> has_row or_id (pr_organization_id r) (db_organizations d)
      then Some (IntegrityErr ''projects_organization_id_fkey'')
      else if 200 < length (pr_name r) \<or> 80 < length (pr_slug r) then Some (DataErr ''projects'')
      else None)"

definition agent_violation :: "db \<Rightarrow> agent_row \<Rightarrow> exn option" where
  "agent_violation d r =
     (if has_row ar_id (ar_id r) (db_agents d) then Some (IntegrityErr ''agents_pkey'')
      else if \<not> has_row or_id (ar_organization_id r) (db_organizations d)
      then Some (IntegrityErr ''agents_organization_id_fkey'')
      else if \<not> has_row pr_id (ar_project_id r) (db_projects d)
      then Some (IntegrityErr ''agents_project_id_fkey'')
      else if 200 < length (ar_name r) then Some (DataErr ''agents'')
      else None)"

definition version_violation :: "db \<Rightarrow> version_row \<Rightarrow> exn option" where
  "version_violation d r =
     (if has_row vr_id (vr_id r) (db_versions d) then Some (IntegrityErr ''agent_versions_pkey'')
      else if has_row (\<lambda>v. (vr_agent_id v, vr_version_n v)) (vr_agent_id r, vr_version_n r) (db_versions d)
      then Some (IntegrityErr ''uq_agent_versions_agent_n'')
      else if \<not> has_row ar_id (vr_agent_id r) (db_agents d)
      then Some (IntegrityErr ''agent_versions_agent_id_fkey'')
      else if 16 < length (vr_locale r) \<or> 64 < length (vr_config_hash r) then Some (DataErr ''agent_versions'')
      else None)"

definition session_violation :: "db \<Rightarrow> session_row \<Rightarrow> exn option" where
  "session_violation d r =
     (if has_row sr_id (sr_id r) (db_sessions d) then Some (IntegrityErr ''sessions_pkey'')
      else if \<not> has_row or_id (sr_organization_id r) (db_organizations d)
      then Some (IntegrityErr ''sessions_organization_id_fkey'')
      else if \<not> has_row pr_id (sr_project_id r) (db_projects d)
      then Some (IntegrityErr ''sessions_project_id_fkey'')
      else if \<not> has_row ar_id (sr_agent_id r) (db_agents d)
      then Some (IntegrityErr ''sessions_agent_id_fkey'')
      else if \<not> has_row vr_id (sr_agent_version_id r) (db_versions d)
      then Some (IntegrityErr ''sessions_agent_version_id_fkey'')
      else if \<not> max_len_ok 256 (sr_livekit_room r) \<or> 64 < length (sr_config_hash r) \<or>
        \<not> max_len_ok 128 (sr_error_code r)
      then Some (DataErr ''sessions'')
      else None)"

definition message_violation :: "db \<Rightarrow> message_row \<Rightarrow> exn option" where
  "message_violation d r =
     (if has_row mr_id (mr_id r) (db_messages d) then Some (IntegrityErr ''conversation_messages_pkey'')
      else if has_row (\<lambda>m. (mr_session_id m, mr_sequence m)) (mr_session_id r, mr_sequence r) (db_messages d)
      then Some (IntegrityErr ''uq_conversation_messages_session_seq'')
      else if \<not> has_row sr_id (mr_session_id r) (db_sessions d)
      then Some (IntegrityErr ''conversation_messages_session_id_fkey'')
      else None)"

definition summary_violation :: "db \<Rightarrow> summary_row \<Rightarrow> exn option" where
  "summary_violation d r =
     (if has_row ur_id (ur_id r) (db_summaries d) then Some (IntegrityErr ''conversation_summaries_pkey'')
      else if has_row ur_session_id (ur_session_id r) (db_summaries d)
      then Some (IntegrityErr ''uq_conversation_summaries_session_id'')
      else if \<not> has_row sr_id (ur_session_id r) (db_sessions d)
      then Some (IntegrityErr ''conversation_summaries_session_id_fkey'')
      else None)"

definition tool_violation :: "db \<Rightarrow> tool_row \<Rightarrow> exn option" where
  "tool_violation d r =
     (if has_row dr_id (dr_id r) (db_tools d) then Some (IntegrityErr ''tool_definitions_pkey'')
      else if has_row (\<lambda>t. (dr_project_id t, dr_name t)) (dr_project_id r, dr_name r) (db_tools d)
      then Some (IntegrityErr ''uq_tool_defs_project_name'')
      else if \<not> has_row or_id (dr_organization_id r) (db_organizations d)
      then Some (IntegrityErr ''tool_definitions_organization_id_fkey'')
      else if \<not> has_row pr_id (dr_project_id r) (db_projects d)
      then Some (IntegrityErr ''tool_definitions_project_id_fkey'')
      else if 128 < length (dr_name r) then Some (DataErr ''tool_definitions'')
      else None)"

definition version_tool_key :: "version_tool_row \<Rightarrow> uuid \<times> uuid" where
  "version_tool_key r = (vt_agent_version_id r, vt_tool_definition_id r)"

definition version_tool_violation :: "db \<Rightarrow> version_tool_row \<Rightarrow> exn option" where
  "version_tool_violation d r =
     (if has_row version_tool_key (version_tool_key r) (db_version_tools d)
      then Some (IntegrityErr ''agent_version_tools_pkey'')
      else if \<not> has_row vr_id (vt_agent_version_id r) (db_versions d)
      then Some (IntegrityErr ''agent_version_tools_agent_version_id_fkey'')
      else if \<not> has_row dr_id (vt_tool_definition_id r) (db_tools d)
      then Some (IntegrityErr ''agent_version_tools_tool_definition_id_fkey'')
      else None)"

definition knowledge_base_violation :: "db \<Rightarrow> knowledge_base_row \<Rightarrow> exn option" where
  "knowledge_base_violation d r =
     (if has_row kb_id (kb_id r) (db_knowledge_bases d) then Some (IntegrityErr ''knowledge_bases_pkey'')
      else if \<not> has_row pr_id (kb_project_id r) (db_projects d)
      then Some (IntegrityErr ''knowledge_bases_project_id_fkey'')
      else if has_row (\<lambda>k. (kb_project_id k, kb_name k)) (kb_project_id r, kb_name r) (db_knowledge_bases d)
      then Some (IntegrityErr ''uq_knowledge_bases_project_name'')
      else if 200 < length (kb_name r) then Some (DataErr ''knowledge_bases'')
      else None)"

definition document_violation :: "db \<Rightarrow> document_row \<Rightarrow> exn option" where
  "document_violation d r =
     (if has_row dc_id (dc_id r) (db_documents d) then Some (IntegrityErr ''documents_pkey'')
      else if \<not> has_row kb_id (dc_knowledge_base_id r) (db_knowledge_bases d)
      then Some (IntegrityErr ''documents_knowledge_base_id_fkey'')
      else if 255 < length (dc_name r) then Some (DataErr ''documents'')
      else None)"

definition chunk_violation :: "db \<Rightarrow> chunk_row \<Rightarrow> exn option" where
  "chunk_violation d r =
     (if has_row hr_id (hr_id r) (db_chunks d) then Some (IntegrityErr ''document_chunks_pkey'')
      else if \<not> has_row dc_id (hr_document_id r) (db_documents d)
      then Some (IntegrityErr ''document_chunks_document_id_fkey'')
      else if has_row (\<lambda>h. (hr_document_id h, hr_chunk_index h)) (hr_document_id r, hr_chunk_index r) (db_chunks d)
      then Some (IntegrityErr ''uq_document_chunks_document_index'')
      else if (case hr_embedding r of None \<Rightarrow> False | Some e \<Rightarrow> length e \<noteq> 384)
      then Some (DataErr ''document_chunks'')
      else None)"

definition version_kb_key :: "version_kb_row \<Rightarrow> uuid \<times> uuid" where
  "version_kb_key r = (vk_agent_version_id r, vk_knowledge_base_id r)"

definition version_kb_violation :: "db \<Rightarrow> version_kb_row \<Rightarrow> exn option" where
  "version_kb_violation d r =
     (if has_row version_kb_key (version_kb_key r) (db_version_kbs d)
      then Some (IntegrityErr ''agent_version_knowledge_bases_pkey'')
      else if \<not> has_row vr_id (vk_agent_version_id r) (db_versions d)
      then Some (IntegrityErr ''agent_version_knowledge_bases_agent_version_id_fkey'')
      else if \<not> has_row kb_id (vk_knowledge_base_id r) (db_knowledge_bases d)
      then Some (IntegrityErr ''agent_version_knowledge_bases_knowledge_base_id_fkey'')
      else None)"

end
