(* ===== verification/ControlRepos.thy ===== *)
theory ControlRepos
  imports ControlStore
begin

text \<open>
  Rows and contracts (xymphony_api/mapping.py) and the repositories (repositories.py), one
  function per method, over the tables of \<open>ControlStore\<close>.
\<close>

section \<open>Enumeration columns\<close>

text \<open>\<open>Status(row.status)\<close>: the member with this value, or \<open>ValueError\<close>.\<close>

definition parse_enum :: "('a \<Rightarrow> string) \<Rightarrow> 'a list \<Rightarrow> string \<Rightarrow> 'a result" where
  "parse_enum val members s =
     (case List.find (\<lambda>x. val x = s) members of
        Some x \<Rightarrow> Inr x | None \<Rightarrow> Inl (ValueErrorE (s @ '' is not a valid value'')))"

fun agent_status_value :: "agent_status \<Rightarrow> string" where
  "agent_status_value AS_DRAFT = ''draft''"
| "agent_status_value AS_ACTIVE = ''active''"
| "agent_status_value AS_ARCHIVED = ''archived''"

fun version_status_value :: "agent_version_status \<Rightarrow> string" where
  "version_status_value AV_DRAFT = ''draft''"
| "version_status_value AV_PUBLISHED = ''published''"
| "version_status_value AV_DEPRECATED = ''deprecated''"

fun session_status_value :: "session_status \<Rightarrow> string" where
  "session_status_value SS_INITIALIZING = ''initializing''"
| "session_status_value SS_ACTIVE = ''active''"
| "session_status_value SS_COMPLETED = ''completed''"
| "session_status_value SS_FAILED = ''failed''"
| "session_status_value SS_TERMINATED = ''terminated''"

fun channel_value :: "channel \<Rightarrow> string" where
  "channel_value CH_PLAYGROUND = ''playground''"
| "channel_value CH_WEB_EMBED = ''web_embed''"
| "channel_value CH_PUBLIC_API = ''public_api''"
| "channel_value CH_TELEPHONY = ''telephony''"

fun end_reason_value :: "session_end_reason \<Rightarrow> string" where
  "end_reason_value SE_USER_STOP = ''user_stop''"
| "end_reason_value SE_MAX_DURATION = ''max_duration''"
| "end_reason_value SE_MAX_TURNS = ''max_turns''"
| "end_reason_value SE_DISCONNECT = ''disconnect''"
| "end_reason_value SE_PROVIDER_FAILED = ''provider_failed''"
| "end_reason_value SE_WORKER_DRAINING = ''worker_draining''"
| "end_reason_value SE_ERROR = ''error''"

fun message_status_value :: "message_status \<Rightarrow> string" where
  "message_status_value MS_COMMITTED = ''committed''"
| "message_status_value MS_INTERRUPTED = ''interrupted''"

fun tool_type_value :: "tool_type \<Rightarrow> string" where
  "tool_type_value TT_FUNCTION = ''function''"
| "tool_type_value TT_API = ''api''"
| "tool_type_value TT_WEBHOOK = ''webhook''"

fun part_type_value :: "content_part_type \<Rightarrow> string" where
  "part_type_value CP_TEXT = ''text''"
| "part_type_value CP_AUDIO_REF = ''audio_ref''"
| "part_type_value CP_IMAGE = ''image''"
| "part_type_value CP_FILE = ''file''"
| "part_type_value CP_VIDEO = ''video''"

fun usage_unit_value :: "usage_unit \<Rightarrow> string" where
  "usage_unit_value UU_TOKENS = ''tokens''"
| "usage_unit_value UU_CHARACTERS = ''characters''"
| "usage_unit_value UU_SECONDS = ''seconds''"
| "usage_unit_value UU_BYTES = ''bytes''"

definition parse_agent_status :: "string \<Rightarrow> agent_status result" where
  "parse_agent_status = parse_enum agent_status_value [AS_DRAFT, AS_ACTIVE, AS_ARCHIVED]"

definition parse_version_status :: "string \<Rightarrow> agent_version_status result" where
  "parse_version_status = parse_enum version_status_value [AV_DRAFT, AV_PUBLISHED, AV_DEPRECATED]"

definition parse_session_status :: "string \<Rightarrow> session_status result" where
  "parse_session_status = parse_enum session_status_value
     [SS_INITIALIZING, SS_ACTIVE, SS_COMPLETED, SS_FAILED, SS_TERMINATED]"

definition parse_channel :: "string \<Rightarrow> channel result" where
  "parse_channel = parse_enum channel_value [CH_PLAYGROUND, CH_WEB_EMBED, CH_PUBLIC_API, CH_TELEPHONY]"

definition parse_end_reason :: "string \<Rightarrow> session_end_reason result" where
  "parse_end_reason = parse_enum end_reason_value [SE_USER_STOP, SE_MAX_DURATION, SE_MAX_TURNS,
     SE_DISCONNECT, SE_PROVIDER_FAILED, SE_WORKER_DRAINING, SE_ERROR]"

definition parse_message_role :: "string \<Rightarrow> message_role result" where
  "parse_message_role = parse_enum message_role_value [MR_USER, MR_ASSISTANT, MR_SYSTEM, MR_TOOL]"

definition parse_message_status :: "string \<Rightarrow> message_status result" where
  "parse_message_status = parse_enum message_status_value [MS_COMMITTED, MS_INTERRUPTED]"

definition parse_tool_type :: "string \<Rightarrow> tool_type result" where
  "parse_tool_type = parse_enum tool_type_value [TT_FUNCTION, TT_API, TT_WEBHOOK]"

definition parse_part_type :: "string \<Rightarrow> content_part_type result" where
  "parse_part_type = parse_enum part_type_value [CP_TEXT, CP_AUDIO_REF, CP_IMAGE, CP_FILE, CP_VIDEO]"

definition parse_usage_unit :: "string \<Rightarrow> usage_unit result" where
  "parse_usage_unit = parse_enum usage_unit_value [UU_TOKENS, UU_CHARACTERS, UU_SECONDS, UU_BYTES]"

lemma parse_value [simp]:
  "parse_agent_status (agent_status_value a) = Inr a"
  "parse_version_status (version_status_value b) = Inr b"
  "parse_session_status (session_status_value c) = Inr c"
  "parse_channel (channel_value d) = Inr d"
  "parse_end_reason (end_reason_value e) = Inr e"
  "parse_message_role (message_role_value f) = Inr f"
  "parse_message_status (message_status_value g) = Inr g"
  "parse_tool_type (tool_type_value h) = Inr h"
  "parse_part_type (part_type_value i) = Inr i"
  "parse_usage_unit (usage_unit_value j) = Inr j"
  subgoal by (cases a) (simp_all add: parse_agent_status_def parse_enum_def)
  subgoal by (cases b) (simp_all add: parse_version_status_def parse_enum_def)
  subgoal by (cases c) (simp_all add: parse_session_status_def parse_enum_def)
  subgoal by (cases d) (simp_all add: parse_channel_def parse_enum_def)
  subgoal by (cases e) (simp_all add: parse_end_reason_def parse_enum_def)
  subgoal by (cases f) (simp_all add: parse_message_role_def parse_enum_def)
  subgoal by (cases g) (simp_all add: parse_message_status_def parse_enum_def)
  subgoal by (cases h) (simp_all add: parse_tool_type_def parse_enum_def)
  subgoal by (cases i) (simp_all add: parse_part_type_def parse_enum_def)
  subgoal by (cases j) (simp_all add: parse_usage_unit_def parse_enum_def)
  done

section \<open>mapping.py\<close>

definition dict_field :: "(string \<Rightarrow> json option) \<Rightarrow> string \<Rightarrow> json_dict result" where
  "dict_field d k = (case d k of None \<Rightarrow> Inr [] | Some (JObj kvs) \<Rightarrow> Inr kvs
     | _ \<Rightarrow> Inl (ValidationError k))"

definition int_field :: "(string \<Rightarrow> json option) \<Rightarrow> string \<Rightarrow> int result" where
  "int_field d k = (case d k of Some (JInt n) \<Rightarrow> Inr n | _ \<Rightarrow> Inl (ValidationError k))"

definition cost_field :: "(string \<Rightarrow> json option) \<Rightarrow> rat option result" where
  "cost_field d = (case d ''estimated_cost_usd'' of
       None \<Rightarrow> Inr None | Some JNull \<Rightarrow> Inr None | Some (JFloat (Fin c)) \<Rightarrow> Inr (Some c)
     | _ \<Rightarrow> Inl (ValidationError ''estimated_cost_usd''))"

definition dump_content_part :: "content_part \<Rightarrow> json" where
  "dump_content_part p = JObj [(''type'', JStr (part_type_value (cp_type p))),
     (''payload'', JObj (cp_payload p)), (''metadata'', JObj (cp_metadata p))]"

definition validate_content_part :: "json \<Rightarrow> content_part result" where
  "validate_content_part j =
     and_then (object_fields [''type'', ''payload'', ''metadata''] j) (\<lambda>d.
     and_then (and_then (str_field d ''type'') parse_part_type) (\<lambda>t.
     and_then (dict_field d ''payload'') (\<lambda>p.
     and_then (dict_field d ''metadata'') (\<lambda>m.
       Inr \<lparr>cp_type = t, cp_payload = p, cp_metadata = m\<rparr>))))"

definition dump_usage :: "usage \<Rightarrow> json" where
  "dump_usage u = JObj [(''input_units'', JInt (us_input_units u)),
     (''output_units'', JInt (us_output_units u)),
     (''unit'', JStr (usage_unit_value (us_unit u))),
     (''estimated_cost_usd'', case us_estimated_cost_usd u of None \<Rightarrow> JNull | Some c \<Rightarrow> JFloat (Fin c))]"

definition validate_usage :: "json \<Rightarrow> usage result" where
  "validate_usage j =
     and_then (object_fields [''input_units'', ''output_units'', ''unit'', ''estimated_cost_usd''] j) (\<lambda>d.
     and_then (int_field d ''input_units'') (\<lambda>i.
     and_then (int_field d ''output_units'') (\<lambda>q.
     and_then (and_then (str_field d ''unit'') parse_usage_unit) (\<lambda>u.
     and_then (cost_field d) (\<lambda>c.
       check_usage \<lparr>us_input_units = i, us_output_units = q, us_unit = u, us_estimated_cost_usd = c\<rparr>)))))"

definition agent_to_contract :: "agent_row \<Rightarrow> agent result" where
  "agent_to_contract r =
     and_then (parse_agent_status (ar_status r)) (\<lambda>st.
       check_agent \<lparr>ag_id = ar_id r, ag_organization_id = ar_organization_id r,
         ag_project_id = ar_project_id r, ag_name = ar_name r, ag_description = ar_description r,
         ag_status = st, ag_tags = ar_tags r, ag_created_by = ar_created_by r,
         ag_created_at = ar_created_at r, ag_updated_at = ar_updated_at r\<rparr>)"

definition version_to_contract :: "version_row \<Rightarrow> agent_version result" where
  "version_to_contract r =
     and_then (parse_version_status (vr_status r)) (\<lambda>st.
     and_then (validate_llm_binding (vr_llm r)) (\<lambda>l.
     and_then (validate_stt_binding (vr_stt r)) (\<lambda>s.
     and_then (validate_tts_binding (vr_tts r)) (\<lambda>t.
     and_then (validate_all validate_tool_binding (vr_tools r)) (\<lambda>bs.
       check_agent_version \<lparr>av_id = vr_id r, av_organization_id = vr_organization_id r,
         av_project_id = vr_project_id r, av_agent_id = vr_agent_id r, av_version_n = vr_version_n r,
         av_status = st, av_instructions = vr_instructions r, av_personality = vr_personality r,
         av_locale = vr_locale r, av_llm = l, av_stt = s, av_tts = t, av_tools = bs,
         av_config_hash = Some (vr_config_hash r), av_created_by = vr_created_by r,
         av_created_at = vr_created_at r, av_published_at = vr_published_at r\<rparr>)))))"

definition end_reason_of :: "string option \<Rightarrow> session_end_reason option result" where
  "end_reason_of x =
     (if str_truthy x then map_sum id Some (parse_end_reason (the x)) else Inr None)"

definition usage_of :: "json option \<Rightarrow> usage option result" where
  "usage_of x = (case x of None \<Rightarrow> Inr None | Some j \<Rightarrow> map_sum id Some (validate_usage j))"

definition session_to_contract :: "session_row \<Rightarrow> session result" where
  "session_to_contract r =
     and_then (usage_of (sr_usage r)) (\<lambda>u.
     and_then (parse_session_status (sr_status r)) (\<lambda>st.
     and_then (parse_channel (sr_channel r)) (\<lambda>ch.
     and_then (end_reason_of (sr_end_reason r)) (\<lambda>er.
       check_session \<lparr>ss_id = sr_id r, ss_organization_id = sr_organization_id r,
         ss_project_id = sr_project_id r, ss_agent_id = sr_agent_id r,
         ss_agent_version_id = sr_agent_version_id r, ss_deployment_id = sr_deployment_id r,
         ss_status = st, ss_channel = ch, ss_livekit_room = sr_livekit_room r,
         ss_config_hash = sr_config_hash r, ss_started_at = sr_started_at r,
         ss_ended_at = sr_ended_at r, ss_end_reason = er, ss_usage = u,
         ss_error_code = sr_error_code r\<rparr>))))"

definition message_to_contract :: "message_row \<Rightarrow> message result" where
  "message_to_contract r =
     and_then (validate_all validate_content_part (mr_parts r)) (\<lambda>ps.
     and_then (parse_message_role (mr_role r)) (\<lambda>ro.
     and_then (parse_message_status (mr_status r)) (\<lambda>st.
       check_message \<lparr>ms_id = mr_id r, ms_session_id = mr_session_id r, ms_turn_id = mr_turn_id r,
         ms_organization_id = mr_organization_id r, ms_role = ro, ms_status = st, ms_parts = ps,
         ms_created_at = mr_created_at r, ms_metadata = [(''sequence'', JInt (mr_sequence r))]\<rparr>)))"

definition summary_to_contract :: "summary_row \<Rightarrow> conversation_summary result" where
  "summary_to_contract r =
     check_summary \<lparr>su_id = ur_id r, su_session_id = ur_session_id r,
       su_organization_id = ur_organization_id r, su_agent_version_id = ur_agent_version_id r,
       su_through_sequence = ur_through_sequence r, su_summary_text = ur_summary_text r,
       su_source_message_count = ur_source_message_count r, su_created_at = ur_created_at r\<rparr>"

definition tool_definition_to_contract :: "tool_row \<Rightarrow> tool_definition result" where
  "tool_definition_to_contract r =
     and_then (parse_tool_type (dr_tool_type r)) (\<lambda>ty.
       check_tool_definition \<lparr>tf_id = dr_id r, tf_organization_id = dr_organization_id r,
         tf_project_id = dr_project_id r, tf_name = dr_name r, tf_description = dr_description r,
         tf_tool_type = ty, tf_parameters = dr_parameters r, tf_config = dr_config r,
         tf_enabled = dr_enabled r, tf_created_by = dr_created_by r,
         tf_created_at = dr_created_at r, tf_updated_at = dr_updated_at r\<rparr>)"

section \<open>Sending rows\<close>

text \<open>\<open>session.add(row); session.flush()\<close>: the row is appended, or the flush raises.\<close>

definition add_row ::
  "(db \<Rightarrow> 'r \<Rightarrow> exn option) \<Rightarrow> (('r list \<Rightarrow> 'r list) \<Rightarrow> db \<Rightarrow> db) \<Rightarrow> 'r \<Rightarrow> (db, unit) eff" where
  "add_row violation upd r =
     with_state (\<lambda>d. case violation d r of
         Some e \<Rightarrow> throw e
       | None \<Rightarrow> modify_eff (upd (\<lambda>rs. rs @ [r])))"

text \<open>\<open>flush\<close> after fields of one row were assigned: the changed row replaces the old one.\<close>

definition replace_row ::
  "(db \<Rightarrow> 'r \<Rightarrow> exn option) \<Rightarrow> (('r list \<Rightarrow> 'r list) \<Rightarrow> db \<Rightarrow> db) \<Rightarrow> ('r \<Rightarrow> 'k) \<Rightarrow> 'r \<Rightarrow> (db, unit) eff" where
  "replace_row violation upd key r =
     with_state (\<lambda>d. case violation (upd (filter (\<lambda>x. key x \<noteq> key r)) d) r of
         Some e \<Rightarrow> throw e
       | None \<Rightarrow> modify_eff (upd (map (\<lambda>x. if key x = key r then r else x))))"

definition drop_rows ::
  "(('r list \<Rightarrow> 'r list) \<Rightarrow> db \<Rightarrow> db) \<Rightarrow> ('r \<Rightarrow> bool) \<Rightarrow> db \<Rightarrow> db" where
  "drop_rows upd P = upd (filter (\<lambda>x. \<not> P x))"

lemmas row_defs = add_row_def replace_row_def drop_rows_def eff_defs

section \<open>repositories.py\<close>

text \<open>\<open>session.scalar\<close> and \<open>session.get\<close>: the first row that satisfies the condition.\<close>

definition scalar :: "'r list \<Rightarrow> ('r \<Rightarrow> bool) \<Rightarrow> 'r option" where
  "scalar rows P = List.find P rows"

text \<open>\<open>order_by(key.desc()).limit(n)\<close>.\<close>

definition newest_first :: "('r \<Rightarrow> 'k::linorder) \<Rightarrow> 'r list \<Rightarrow> 'r list" where
  "newest_first key rows = rev (sort_key key rows)"

definition limit_rows :: "int \<Rightarrow> 'r list \<Rightarrow> 'r list" where
  "limit_rows n rows = take (nat n) rows"

text \<open>\<open>TenantRepository\<close>.\<close>

definition get_organization :: "uuid \<Rightarrow> db \<Rightarrow> organization_row option" where
  "get_organization i d = scalar (db_organizations d) (\<lambda>r. or_id r = i)"

definition get_project :: "uuid \<Rightarrow> db \<Rightarrow> project_row option" where
  "get_project i d = scalar (db_projects d) (\<lambda>r. pr_id r = i)"

definition add_organization :: "organization_row \<Rightarrow> (db, unit) eff" where
  "add_organization = add_row organization_violation db_organizations_update"

definition add_project :: "project_row \<Rightarrow> (db, unit) eff" where
  "add_project = add_row project_violation db_projects_update"

text \<open>\<open>AgentRepository\<close>.\<close>

definition agent_get :: "uuid \<Rightarrow> db \<Rightarrow> agent_row option" where
  "agent_get i d = scalar (db_agents d) (\<lambda>r. ar_id r = i)"

definition agent_get_in_project :: "uuid \<Rightarrow> uuid \<Rightarrow> uuid \<Rightarrow> db \<Rightarrow> agent_row option" where
  "agent_get_in_project pj org i d =
     scalar (db_agents d) (\<lambda>r. ar_id r = i \<and> ar_project_id r = pj \<and> ar_organization_id r = org)"

definition agent_before :: "agent_row \<Rightarrow> agent_row \<Rightarrow> bool" where
  "agent_before c r \<longleftrightarrow> ar_created_at r < ar_created_at c \<or>
     (ar_created_at r = ar_created_at c \<and> ar_id r < ar_id c)"

definition agent_list_in_project ::
  "uuid \<Rightarrow> uuid \<Rightarrow> int \<Rightarrow> uuid option \<Rightarrow> db \<Rightarrow> agent_row list" where
  "agent_list_in_project pj org limit cursor d =
     (let rows = filter (\<lambda>r. ar_project_id r = pj \<and> ar_organization_id r = org) (db_agents d);
          rows' = (case cursor of None \<Rightarrow> rows | Some c \<Rightarrow>
                     (case agent_get c d of None \<Rightarrow> rows | Some cr \<Rightarrow> filter (agent_before cr) rows))
      in limit_rows limit (newest_first (\<lambda>r. (ar_created_at r, ar_id r)) rows'))"

definition agent_add :: "agent_row \<Rightarrow> (db, unit) eff" where
  "agent_add = add_row agent_violation db_agents_update"

definition agent_flush :: "agent_row \<Rightarrow> (db, unit) eff" where
  "agent_flush = replace_row agent_violation db_agents_update ar_id"

text \<open>
  Deleting an agent: the relationship cascade deletes its versions and their tool
  associations first; a session pinned to one of them restricts that. The foreign keys then
  cascade to knowledge-base associations and to the agent's sessions with their children.
\<close>

definition agent_delete :: "agent_row \<Rightarrow> (db, unit) eff" where
  "agent_delete a = with_state (\<lambda>d.
     let vids = map vr_id (filter (\<lambda>v. vr_agent_id v = ar_id a) (db_versions d));
         sids = map sr_id (filter (\<lambda>s. sr_agent_id s = ar_id a) (db_sessions d))
     in if list_ex (\<lambda>s. sr_agent_version_id s \<in> set vids) (db_sessions d)
        then throw (IntegrityErr ''sessions_agent_version_id_fkey'')
        else modify_eff
          (drop_rows db_version_tools_update (\<lambda>t. vt_agent_version_id t \<in> set vids) \<circ>
           drop_rows db_version_kbs_update (\<lambda>k. vk_agent_version_id k \<in> set vids) \<circ>
           drop_rows db_versions_update (\<lambda>v. vr_agent_id v = ar_id a) \<circ>
           drop_rows db_messages_update (\<lambda>m. mr_session_id m \<in> set sids) \<circ>
           drop_rows db_summaries_update (\<lambda>u. ur_session_id u \<in> set sids) \<circ>
           drop_rows db_sessions_update (\<lambda>s. sr_agent_id s = ar_id a) \<circ>
           drop_rows db_agents_update (\<lambda>r. ar_id r = ar_id a)))"

text \<open>\<open>AgentVersionRepository\<close>.\<close>

definition version_get :: "uuid \<Rightarrow> db \<Rightarrow> version_row option" where
  "version_get i d = scalar (db_versions d) (\<lambda>r. vr_id r = i)"

definition version_get_for_agent :: "uuid \<Rightarrow> uuid \<Rightarrow> uuid \<Rightarrow> uuid \<Rightarrow> db \<Rightarrow> version_row option" where
  "version_get_for_agent ag org pj i d =
     scalar (db_versions d) (\<lambda>r. vr_id r = i \<and> vr_agent_id r = ag \<and>
       vr_organization_id r = org \<and> vr_project_id r = pj)"

definition version_list_for_agent :: "uuid \<Rightarrow> uuid \<Rightarrow> uuid \<Rightarrow> int \<Rightarrow> db \<Rightarrow> version_row list" where
  "version_list_for_agent ag org pj limit d =
     limit_rows limit (newest_first vr_version_n (filter (\<lambda>r. vr_agent_id r = ag \<and>
       vr_organization_id r = org \<and> vr_project_id r = pj) (db_versions d)))"

definition next_version_n :: "uuid \<Rightarrow> db \<Rightarrow> int" where
  "next_version_n ag d =
     (case map vr_version_n (filter (\<lambda>r. vr_agent_id r = ag) (db_versions d)) of
        [] \<Rightarrow> 1 | n # ns \<Rightarrow> foldl max n ns + 1)"

definition version_add :: "version_row \<Rightarrow> (db, unit) eff" where
  "version_add = add_row version_violation db_versions_update"

definition version_flush :: "version_row \<Rightarrow> (db, unit) eff" where
  "version_flush = replace_row version_violation db_versions_update vr_id"

definition version_get_latest_published :: "uuid \<Rightarrow> uuid \<Rightarrow> uuid \<Rightarrow> db \<Rightarrow> version_row option" where
  "version_get_latest_published ag org pj d =
     (case limit_rows 1 (newest_first vr_version_n (filter (\<lambda>r. vr_agent_id r = ag \<and>
        vr_organization_id r = org \<and> vr_project_id r = pj \<and> vr_status r = ''published'') (db_versions d))) of
        [] \<Rightarrow> None | r # _ \<Rightarrow> Some r)"

text \<open>\<open>SessionRepository\<close>.\<close>

definition session_row_create :: "session_row \<Rightarrow> (db, unit) eff" where
  "session_row_create = add_row session_violation db_sessions_update"

definition session_row_get :: "uuid \<Rightarrow> uuid option \<Rightarrow> uuid option \<Rightarrow> db \<Rightarrow> session_row option" where
  "session_row_get i org pj d =
     scalar (db_sessions d) (\<lambda>r. sr_id r = i \<and> (org = None \<or> Some (sr_organization_id r) = org) \<and>
       (pj = None \<or> Some (sr_project_id r) = pj))"

definition session_row_update :: "session_row \<Rightarrow> (db, unit) eff" where
  "session_row_update = replace_row session_violation db_sessions_update sr_id"

text \<open>\<open>ConversationRepository\<close>, \<open>ConversationSummaryRepository\<close>.\<close>

definition message_row_append :: "message_row \<Rightarrow> (db, unit) eff" where
  "message_row_append = add_row message_violation db_messages_update"

definition message_rows_for_session :: "uuid \<Rightarrow> uuid option \<Rightarrow> db \<Rightarrow> message_row list" where
  "message_rows_for_session sid org d =
     sort_key mr_sequence (filter (\<lambda>r. mr_session_id r = sid \<and>
       (org = None \<or> Some (mr_organization_id r) = org)) (db_messages d))"

definition row_next_sequence :: "uuid \<Rightarrow> db \<Rightarrow> int" where
  "row_next_sequence sid d =
     (case map mr_sequence (filter (\<lambda>r. mr_session_id r = sid) (db_messages d)) of
        [] \<Rightarrow> 1 | n # ns \<Rightarrow> foldl max n ns + 1)"

definition summary_row_get :: "uuid \<Rightarrow> uuid option \<Rightarrow> db \<Rightarrow> summary_row option" where
  "summary_row_get sid org d =
     scalar (db_summaries d) (\<lambda>r. ur_session_id r = sid \<and>
       (org = None \<or> Some (ur_organization_id r) = org))"

definition summary_row_upsert :: "summary_row \<Rightarrow> (db, summary_row) eff" where
  "summary_row_upsert r = with_state (\<lambda>d.
     case summary_row_get (ur_session_id r) None d of
       None \<Rightarrow> then_eff (add_row summary_violation db_summaries_update r) (ret r)
     | Some existing \<Rightarrow>
         let merged = existing\<lparr>ur_organization_id := ur_organization_id r,
               ur_agent_version_id := ur_agent_version_id r,
               ur_through_sequence := ur_through_sequence r,
               ur_summary_text := ur_summary_text r,
               ur_source_message_count := ur_source_message_count r,
               ur_created_at := ur_created_at r\<rparr>
         in then_eff (replace_row summary_violation db_summaries_update ur_id merged) (ret merged))"

text \<open>\<open>ToolDefinitionRepository\<close>, \<open>AgentVersionToolRepository\<close>.\<close>

definition tool_add :: "tool_row \<Rightarrow> (db, unit) eff" where
  "tool_add = add_row tool_violation db_tools_update"

definition tool_flush :: "tool_row \<Rightarrow> (db, unit) eff" where
  "tool_flush = replace_row tool_violation db_tools_update dr_id"

definition tool_get :: "uuid \<Rightarrow> db \<Rightarrow> tool_row option" where
  "tool_get i d = scalar (db_tools d) (\<lambda>r. dr_id r = i)"

definition tool_get_in_project :: "uuid \<Rightarrow> uuid \<Rightarrow> uuid \<Rightarrow> db \<Rightarrow> tool_row option" where
  "tool_get_in_project pj org i d =
     scalar (db_tools d) (\<lambda>r. dr_id r = i \<and> dr_project_id r = pj \<and> dr_organization_id r = org)"

definition tool_get_by_name :: "uuid \<Rightarrow> uuid \<Rightarrow> string \<Rightarrow> db \<Rightarrow> tool_row option" where
  "tool_get_by_name pj org n d =
     scalar (db_tools d) (\<lambda>r. dr_project_id r = pj \<and> dr_organization_id r = org \<and> dr_name r = n)"

definition tool_before :: "tool_row \<Rightarrow> tool_row \<Rightarrow> bool" where
  "tool_before c r \<longleftrightarrow> dr_created_at r < dr_created_at c \<or>
     (dr_created_at r = dr_created_at c \<and> dr_id r < dr_id c)"

definition tool_list_in_project ::
  "uuid \<Rightarrow> uuid \<Rightarrow> int \<Rightarrow> uuid option \<Rightarrow> db \<Rightarrow> tool_row list" where
  "tool_list_in_project pj org limit cursor d =
     (let rows = filter (\<lambda>r. dr_project_id r = pj \<and> dr_organization_id r = org) (db_tools d);
          rows' = (case cursor of None \<Rightarrow> rows | Some c \<Rightarrow>
                     (case tool_get c d of None \<Rightarrow> rows | Some cr \<Rightarrow> filter (tool_before cr) rows))
      in limit_rows limit (newest_first (\<lambda>r. (dr_created_at r, dr_id r)) rows'))"

definition tool_delete :: "tool_row \<Rightarrow> (db, unit) eff" where
  "tool_delete t = modify_eff
     (drop_rows db_version_tools_update (\<lambda>x. vt_tool_definition_id x = dr_id t) \<circ>
      drop_rows db_tools_update (\<lambda>x. dr_id x = dr_id t))"

definition version_tool_get :: "uuid \<Rightarrow> uuid \<Rightarrow> db \<Rightarrow> version_tool_row option" where
  "version_tool_get v t d = scalar (db_version_tools d) (\<lambda>x. version_tool_key x = (v, t))"

definition version_tool_attach :: "time \<Rightarrow> uuid \<Rightarrow> uuid \<Rightarrow> bool \<Rightarrow> (db, unit) eff" where
  "version_tool_attach now v t en = with_state (\<lambda>d.
     case version_tool_get v t d of
       Some existing \<Rightarrow>
         replace_row version_tool_violation db_version_tools_update version_tool_key
           (existing\<lparr>vt_enabled := en\<rparr>)
     | None \<Rightarrow>
         add_row version_tool_violation db_version_tools_update
           \<lparr>vt_agent_version_id = v, vt_tool_definition_id = t, vt_enabled = en, vt_created_at = now\<rparr>)"

definition version_tool_detach :: "uuid \<Rightarrow> uuid \<Rightarrow> (db, bool) eff" where
  "version_tool_detach v t = with_state (\<lambda>d.
     case version_tool_get v t d of
       None \<Rightarrow> ret False
     | Some _ \<Rightarrow> then_eff (modify_eff
         (drop_rows db_version_tools_update (\<lambda>x. version_tool_key x = (v, t)))) (ret True))"

definition version_tool_list :: "uuid \<Rightarrow> db \<Rightarrow> version_tool_row list" where
  "version_tool_list v d =
     sort_key vt_created_at (filter (\<lambda>x. vt_agent_version_id x = v) (db_version_tools d))"

text \<open>\<open>KnowledgeBaseRepository\<close>, \<open>DocumentRepository\<close>.\<close>

definition kb_create ::
  "uuid \<Rightarrow> time \<Rightarrow> uuid \<Rightarrow> uuid \<Rightarrow> string \<Rightarrow> string \<Rightarrow> (db, knowledge_base_row) eff" where
  "kb_create uid now org pj n desc =
     (let row = \<lparr>kb_id = uid, kb_organization_id = org, kb_project_id = pj, kb_name = n,
            kb_description = desc, kb_created_at = now, kb_updated_at = now\<rparr>
      in then_eff (add_row knowledge_base_violation db_knowledge_bases_update row) (ret row))"

definition kb_get :: "uuid \<Rightarrow> db \<Rightarrow> knowledge_base_row option" where
  "kb_get i d = scalar (db_knowledge_bases d) (\<lambda>r. kb_id r = i)"

definition kb_list_in_project :: "uuid \<Rightarrow> uuid \<Rightarrow> db \<Rightarrow> knowledge_base_row list" where
  "kb_list_in_project pj org d =
     newest_first kb_created_at (filter (\<lambda>r. kb_project_id r = pj \<and> kb_organization_id r = org)
       (db_knowledge_bases d))"

definition document_row_create ::
  "uuid \<Rightarrow> time \<Rightarrow> uuid \<Rightarrow> string \<Rightarrow> string \<Rightarrow> (db, document_row) eff" where
  "document_row_create uid now kb n c =
     (let row = \<lparr>dc_id = uid, dc_knowledge_base_id = kb, dc_name = n, dc_content = c,
            dc_created_at = now, dc_updated_at = now\<rparr>
      in then_eff (add_row document_violation db_documents_update row) (ret row))"

definition document_get :: "uuid \<Rightarrow> db \<Rightarrow> document_row option" where
  "document_get i d = scalar (db_documents d) (\<lambda>r. dc_id r = i)"

definition document_list_in_kb :: "uuid \<Rightarrow> db \<Rightarrow> document_row list" where
  "document_list_in_kb kb d =
     newest_first dc_created_at (filter (\<lambda>r. dc_knowledge_base_id r = kb) (db_documents d))"

definition document_delete :: "document_row \<Rightarrow> (db, unit) eff" where
  "document_delete r = modify_eff
     (drop_rows db_chunks_update (\<lambda>h. hr_document_id h = dc_id r) \<circ>
      drop_rows db_documents_update (\<lambda>x. dc_id x = dc_id r))"

text \<open>\<open>DocumentChunkRepository\<close>; the rows of one \<open>add_all\<close> are sent in order.\<close>

fun add_chunks :: "chunk_row list \<Rightarrow> (db, unit) eff" where
  "add_chunks [] = ret ()"
| "add_chunks (r # rs) = then_eff (add_row chunk_violation db_chunks_update r) (add_chunks rs)"

definition chunk_rows ::
  "(nat \<Rightarrow> uuid) \<Rightarrow> time \<Rightarrow> uuid \<Rightarrow> (int \<times> string \<times> embedding) list \<Rightarrow> chunk_row list" where
  "chunk_rows uids now doc chunks =
     map (\<lambda>(i, ix, content, emb). \<lparr>hr_id = uids i, hr_document_id = doc, hr_chunk_index = ix,
         hr_content = content, hr_search_vector = None, hr_embedding = Some emb, hr_created_at = now\<rparr>)
       (zip [0..<length chunks] chunks)"

definition chunk_create_many ::
  "(nat \<Rightarrow> uuid) \<Rightarrow> time \<Rightarrow> uuid \<Rightarrow> (int \<times> string \<times> embedding) list \<Rightarrow> (db, unit) eff" where
  "chunk_create_many uids now doc chunks = add_chunks (chunk_rows uids now doc chunks)"

definition chunk_list_for_document :: "uuid \<Rightarrow> db \<Rightarrow> chunk_row list" where
  "chunk_list_for_document doc d =
     sort_key hr_chunk_index (filter (\<lambda>h. hr_document_id h = doc) (db_chunks d))"

definition chunk_delete_for_document :: "uuid \<Rightarrow> db \<Rightarrow> db" where
  "chunk_delete_for_document doc = drop_rows db_chunks_update (\<lambda>h. hr_document_id h = doc)"

text \<open>
  The hybrid search: the distance operator of the vector extension and the text-search rank
  (\<open>None\<close> for a null search vector) are parameters of the query.
\<close>

record search_env =
  se_cosine_distance :: "embedding \<Rightarrow> embedding \<Rightarrow> rat"
  se_rank :: "string list option \<Rightarrow> string \<Rightarrow> rat option"

definition combined_score :: "search_env \<Rightarrow> string \<Rightarrow> embedding \<Rightarrow> chunk_row \<Rightarrow> embedding \<Rightarrow> rat" where
  "combined_score se query qe h e =
     7 / 10 * (1 - se_cosine_distance se e qe) +
     3 / 10 * (case se_rank se (hr_search_vector h) query of None \<Rightarrow> 0 | Some r \<Rightarrow> r)"

definition search_candidates ::
  "search_env \<Rightarrow> uuid \<Rightarrow> string \<Rightarrow> embedding \<Rightarrow> db \<Rightarrow> (chunk_row \<times> rat) list" where
  "search_candidates se v query qe d =
     concat (map (\<lambda>h. concat (map (\<lambda>dc. concat (map (\<lambda>k.
         if dc_id dc = hr_document_id h \<and> vk_knowledge_base_id k = dc_knowledge_base_id dc \<and>
            vk_agent_version_id k = v
         then (case hr_embedding h of None \<Rightarrow> [] | Some e \<Rightarrow> [(h, combined_score se query qe h e)])
         else []) (db_version_kbs d))) (db_documents d))) (db_chunks d))"

definition search_hybrid_scored ::
  "search_env \<Rightarrow> uuid \<Rightarrow> string \<Rightarrow> embedding \<Rightarrow> int \<Rightarrow> db \<Rightarrow> (chunk_row \<times> rat) list" where
  "search_hybrid_scored se v query qe limit d =
     limit_rows limit (newest_first snd (search_candidates se v query qe d))"

definition search_hybrid ::
  "search_env \<Rightarrow> uuid \<Rightarrow> string \<Rightarrow> embedding \<Rightarrow> int \<Rightarrow> db \<Rightarrow> chunk_row list" where
  "search_hybrid se v query qe limit d = map fst (search_hybrid_scored se v query qe limit d)"

text \<open>\<open>AgentVersionKnowledgeBaseRepository\<close>.\<close>

definition version_kb_get :: "uuid \<Rightarrow> uuid \<Rightarrow> db \<Rightarrow> version_kb_row option" where
  "version_kb_get v k d = scalar (db_version_kbs d) (\<lambda>x. version_kb_key x = (v, k))"

definition version_kb_attach :: "time \<Rightarrow> uuid \<Rightarrow> uuid \<Rightarrow> (db, unit) eff" where
  "version_kb_attach now v k = with_state (\<lambda>d.
     case version_kb_get v k d of
       Some _ \<Rightarrow> ret ()
     | None \<Rightarrow> add_row version_kb_violation db_version_kbs_update
         \<lparr>vk_agent_version_id = v, vk_knowledge_base_id = k, vk_created_at = now\<rparr>)"

definition version_kb_detach :: "uuid \<Rightarrow> uuid \<Rightarrow> (db, bool) eff" where
  "version_kb_detach v k = with_state (\<lambda>d.
     case version_kb_get v k d of
       None \<Rightarrow> ret False
     | Some _ \<Rightarrow> then_eff (modify_eff
         (drop_rows db_version_kbs_update (\<lambda>x. version_kb_key x = (v, k)))) (ret True))"

end
