(* ===== verification/Retrieval.thy ===== *)
theory Retrieval
  imports ControlRepos Runtime
begin

text \<open>
  The retriever of the control plane (retrieval.py) over the hybrid search of theory ControlRepos,
  with the embedding calls of packages/rag (embeddings.py). The sentence encoder and the text of
  a UUID are parameters.
\<close>

definition embed :: "(string \<Rightarrow> embedding) \<Rightarrow> string \<Rightarrow> embedding" where
  "embed encode s = encode s"

definition embed_many :: "(string \<Rightarrow> embedding) \<Rightarrow> string list \<Rightarrow> embedding list" where
  "embed_many encode ss = (if ss = [] then [] else map encode ss)"

definition retrieve ::
  "(uuid \<Rightarrow> string) \<Rightarrow> (string \<Rightarrow> embedding) \<Rightarrow> search_env \<Rightarrow> uuid \<Rightarrow> string \<Rightarrow> int \<Rightarrow> db \<Rightarrow> retrieval_result list" where
  "retrieve uuid_str encode se version query limit d =
     map (\<lambda>(row, score). \<lparr>rr_content = hr_content row, rr_score = score, rr_document_id = uuid_str (hr_document_id row),
            rr_chunk_id = uuid_str (hr_id row)\<rparr>)
       (search_hybrid_scored se version query (embed encode query) limit d)"

section \<open>What is retrieved\<close>

lemma search_candidates_member:
  "(h, s) \<in> set (search_candidates se v query qe d) \<longleftrightarrow>
     h \<in> set (db_chunks d) \<and>
     (\<exists>dc \<in> set (db_documents d). \<exists>k \<in> set (db_version_kbs d). dc_id dc = hr_document_id h \<and>
        vk_knowledge_base_id k = dc_knowledge_base_id dc \<and> vk_agent_version_id k = v) \<and>
     (\<exists>e. hr_embedding h = Some e \<and> s = combined_score se query qe h e)"
  by (auto simp: search_candidates_def split: option.splits if_splits) force+

lemma newest_first_sorted: "sorted_wrt (\<lambda>x y. key y \<le> key x) (newest_first key rows)"
proof -
  have "sorted_wrt (\<lambda>x y. key x \<le> key y) (sort_key key rows)"
    using sorted_sort_key [of key rows] by (simp add: sorted_map)
  then show ?thesis by (simp add: newest_first_def sorted_wrt_rev)
qed

text \<open>The embedded chunks of the documents in the knowledge bases attached to a version.\<close>

definition version_sources :: "uuid \<Rightarrow> db \<Rightarrow> chunk_row set" where
  "version_sources v d = {h \<in> set (db_chunks d). hr_embedding h \<noteq> None \<and>
     (\<exists>dc \<in> set (db_documents d). \<exists>k \<in> set (db_version_kbs d). dc_id dc = hr_document_id h \<and>
        vk_knowledge_base_id k = dc_knowledge_base_id dc \<and> vk_agent_version_id k = v)}"

text \<open>
  C32. Retrieval stays within the knowledge of its agent version: it returns at most \<open>limit\<close>
  passages, best first, and each is the content of an embedded chunk of a document in a knowledge
  base attached to that version. Unless there are more matches than the limit, none is missing.
\<close>

theorem retrieval_scoped:
  "let rs = retrieve uuid_str encode se version query limit d in
     length rs \<le> nat limit \<and> sorted_wrt (\<lambda>x y. rr_score y \<le> rr_score x) rs \<and>
     set (map rr_content rs) \<subseteq> hr_content ` version_sources version d \<and>
     (nat limit < length (search_candidates se version query (embed encode query) d) \<or>
      set (map rr_content rs) = hr_content ` version_sources version d)"
proof -
  let ?c = "search_candidates se version query (embed encode query) d"
  let ?f = "\<lambda>(row, score). \<lparr>rr_content = hr_content row, rr_score = score, rr_document_id = uuid_str (hr_document_id row),
            rr_chunk_id = uuid_str (hr_id row)\<rparr>"
  define rs where "rs = retrieve uuid_str encode se version query limit d"
  have rs: "rs = map ?f (take (nat limit) (newest_first snd ?c))"
    by (simp add: rs_def retrieve_def search_hybrid_scored_def limit_rows_def)
  have src: "fst ` set ?c = version_sources version d"
  proof (rule set_eqI)
    fix h
    have "h \<in> fst ` set ?c \<longleftrightarrow> (\<exists>s. (h, s) \<in> set ?c)" by force
    then show "h \<in> fst ` set ?c \<longleftrightarrow> h \<in> version_sources version d"
      unfolding search_candidates_member version_sources_def by auto
  qed
  have set_all: "set (newest_first snd ?c) = set ?c" by (simp add: newest_first_def)
  have content: "set (map rr_content (map ?f xs)) = hr_content ` fst ` set xs" for xs :: "(chunk_row \<times> rat) list"
    by (force simp: image_iff)
  have "set (take (nat limit) (newest_first snd ?c)) \<subseteq> set ?c" using set_take_subset set_all by fastforce
  then have sub: "set (map rr_content rs) \<subseteq> hr_content ` version_sources version d"
    unfolding rs content src [symmetric] by auto
  have "sorted_wrt (\<lambda>x y. snd y \<le> snd x) (take (nat limit) (newest_first snd ?c))"
    by (simp add: newest_first_sorted sorted_wrt_take)
  then have "sorted_wrt (\<lambda>x y. rr_score y \<le> rr_score x) rs" unfolding rs sorted_wrt_map by (simp add: case_prod_beta)
  moreover have "nat limit < length ?c \<or> set (map rr_content rs) = hr_content ` version_sources version d"
    unfolding rs content src [symmetric] by (cases "nat limit < length ?c") (simp_all add: set_all newest_first_def)
  ultimately show ?thesis using sub rs unfolding Let_def rs_def [symmetric] by simp
qed

end
