(* ===== verification/Chunking.thy ===== *)
theory Chunking
  imports Prelude
begin

text \<open>
  The document chunker of the retrieval subsystem, xymphony_rag/chunking.py. Its loop need not
  end, so \<open>chunk_loop\<close> is a partial function whose value \<open>None\<close> is a call that never returns.
  The lemmas give the bounds of the split position, what the pieces are when the call returns,
  and the texts on which it does not.
\<close>

section \<open>The code\<close>

definition default_chunk_size :: int where
  "default_chunk_size = 1000"

definition default_chunk_overlap :: int where
  "default_chunk_overlap = 150"

definition separators :: "string list" where
  "separators =
     [[CHR 0x0A, CHR 0x0A], [CHR 0x0A], ''. '', ''? '', ''! '', '' '']"

fun find_separator :: "string \<Rightarrow> nat \<Rightarrow> string list \<Rightarrow> nat option" where
  "find_separator s boundary [] = None"
| "find_separator s boundary (sep # seps) =
     (case py_rfind sep s boundary of
        Some position \<Rightarrow>
          if 0 < position then Some (position + length sep) else find_separator s boundary seps
      | None \<Rightarrow> find_separator s boundary seps)"

definition find_split_position :: "string \<Rightarrow> nat \<Rightarrow> string list \<Rightarrow> nat" where
  "find_split_position s chunk_size seps =
     (let boundary = min chunk_size (length s) in
      case find_separator s boundary seps of Some n \<Rightarrow> n | None \<Rightarrow> boundary)"

text \<open>One pass of the loop body: the piece cut off and the text that remains.\<close>

definition next_piece :: "nat \<Rightarrow> string \<Rightarrow> string" where
  "next_piece limit remaining = py_strip (take (find_split_position remaining limit separators) remaining)"

definition next_remaining :: "nat \<Rightarrow> nat \<Rightarrow> string \<Rightarrow> string" where
  "next_remaining limit overlap remaining =
     py_strip (drop (find_split_position remaining limit separators - overlap) remaining)"

definition push_piece :: "string list \<Rightarrow> string \<Rightarrow> string list" where
  "push_piece chunks piece = (if piece = [] then chunks else chunks @ [piece])"

partial_function (option) chunk_loop ::
  "nat \<Rightarrow> nat \<Rightarrow> nat \<Rightarrow> string list \<Rightarrow> string \<Rightarrow> string list option" where
  "chunk_loop limit overlap whole chunks remaining =
     (if limit < length remaining then
        let chunks' = push_piece chunks (next_piece limit remaining);
            remaining' = next_remaining limit overlap remaining
        in if whole \<le> length remaining' then Some (push_piece chunks' remaining')
           else chunk_loop limit overlap whole chunks' remaining'
      else Some (push_piece chunks remaining))"

definition normalize_text :: "string \<Rightarrow> string" where
  "normalize_text s = py_join '' '' (py_split s)"

definition chunk_text :: "string \<Rightarrow> int \<Rightarrow> int \<Rightarrow> string list result option" where
  "chunk_text s limit overlap =
     (if py_strip s = [] then Some (Inr [])
      else if limit \<le> 0 then Some (Inl (ValueErrorE ''chunk_size must be greater than 0''))
      else if overlap < 0 then Some (Inl (ValueErrorE ''chunk_overlap cannot be negative''))
      else if limit \<le> overlap
        then Some (Inl (ValueErrorE ''chunk_overlap must be smaller than chunk_size''))
      else
        let normalized = normalize_text s in
        if int (length normalized) \<le> limit then Some (Inr [normalized])
        else map_option Inr (chunk_loop (nat limit) (nat overlap) (length normalized) [] normalized))"

declare chunk_loop.simps [code]

section \<open>The split position\<close>

lemma rfind_down_le: "rfind_down sub s n = Some p \<Longrightarrow> p \<le> n"
  by (induction n) (auto split: if_splits)

lemma find_separator_bounds:
  assumes "find_separator s b seps = Some n" and "[] \<notin> set seps"
  shows "0 < n" and "n \<le> min b (length s)"
  using assms
  by (induction seps) (auto simp: py_rfind_def Let_def dest!: rfind_down_le split: option.splits if_splits)

lemma find_split_position_bounds:
  assumes "0 < limit" and "limit < length s"
  shows "0 < find_split_position s limit separators" and "find_split_position s limit separators \<le> limit"
proof -
  have sep: "[] \<notin> set separators" by (simp add: separators_def)
  note b = find_separator_bounds [of s "min limit (length s)" separators, OF _ sep]
  show "0 < find_split_position s limit separators"
    using assms b(1) by (cases "find_separator s (min limit (length s)) separators")
      (simp_all add: find_split_position_def)
  show "find_split_position s limit separators \<le> limit"
    using b(2) by (cases "find_separator s (min limit (length s)) separators")
      (simp_all add: find_split_position_def)
qed

lemma py_split_words: "w \<in> set (py_split s) \<Longrightarrow> w \<noteq> [] \<and> (\<forall>c \<in> set w. \<not> py_isspace c)"
proof (induction s rule: py_split.induct)
  case (1 s)
  show ?case
  proof (cases "dropWhile py_isspace s")
    case Nil
    with "1.prems" show ?thesis by (simp add: py_split.simps [of s])
  next
    case (Cons c u)
    have c: "\<not> py_isspace c" using hd_dropWhile [of py_isspace s] Cons by force
    have "w = takeWhile (\<lambda>c. \<not> py_isspace c) (c # u) \<or>
      w \<in> set (py_split (dropWhile (\<lambda>c. \<not> py_isspace c) (c # u)))"
      using "1.prems" Cons by (simp add: py_split.simps [of s] c)
    then show ?thesis
    proof
      assume "w = takeWhile (\<lambda>c. \<not> py_isspace c) (c # u)"
      then have "w \<noteq> []" and "\<And>x. x \<in> set w \<Longrightarrow> \<not> py_isspace x"
        using c set_takeWhileD by (simp, fast)
      then show ?thesis by blast
    next
      assume "w \<in> set (py_split (dropWhile (\<lambda>c. \<not> py_isspace c) (c # u)))"
      then have "w \<in> set (py_split (dropWhile (\<lambda>c. \<not> py_isspace c) (dropWhile py_isspace s)))"
        using Cons by simp
      moreover have "dropWhile py_isspace s \<noteq> []" using Cons by simp
      ultimately show ?thesis by (intro "1.IH" [OF refl])
    qed
  qed
qed

lemma py_join_trimmed:
  assumes "\<forall>w \<in> set ws. w \<noteq> [] \<and> (\<forall>c \<in> set w. \<not> py_isspace c)"
  shows "trimmed (py_join sep ws)" and "ws \<noteq> [] \<Longrightarrow> py_join sep ws \<noteq> []"
proof -
  have "(ws \<noteq> [] \<longrightarrow> py_join sep ws \<noteq> []) \<and> trimmed (py_join sep ws)"
    using assms
    by (induction sep ws rule: py_join.induct) (auto simp: trimmed_def last_append hd_append)
  then show "trimmed (py_join sep ws)" and "ws \<noteq> [] \<Longrightarrow> py_join sep ws \<noteq> []" by auto
qed

lemma normalize_trimmed: "trimmed (normalize_text s)"
  unfolding normalize_text_def using py_split_words by (intro py_join_trimmed) blast

lemma normalize_Nil: "normalize_text s = [] \<longleftrightarrow> py_strip s = []"
proof -
  have "py_split s = [] \<longleftrightarrow> py_strip s = []"
    unfolding py_split.simps [of s] py_strip_Nil_iff by (simp add: Let_def)
  moreover have "py_split s \<noteq> [] \<longrightarrow> normalize_text s \<noteq> []"
    unfolding normalize_text_def using py_split_words py_join_trimmed(2) by blast
  moreover have "py_split s = [] \<longrightarrow> normalize_text s = []" by (simp add: normalize_text_def)
  ultimately show ?thesis by blast
qed

section \<open>What a call returns\<close>

text \<open>
  \<open>covers s u cs ps\<close>: the pieces \<open>cs\<close> stand in \<open>s\<close> at the positions \<open>ps\<close>, in order,
  and every character before \<open>u\<close> that is not a space lies in one of them.
\<close>

definition covers :: "string \<Rightarrow> nat \<Rightarrow> string list \<Rightarrow> nat list \<Rightarrow> bool" where
  "covers s u cs ps \<longleftrightarrow>
     length ps = length cs \<and> sorted ps \<and>
     (\<forall>i < length cs. cs ! i \<noteq> [] \<and> take (length (cs ! i)) (drop (ps ! i) s) = cs ! i) \<and>
     (\<forall>j < u. \<not> py_isspace (s ! j) \<longrightarrow> (\<exists>i < length cs. ps ! i \<le> j \<and> j < ps ! i + length (cs ! i)))"

lemma covers_Nil: "covers s 0 [] []"
  by (simp add: covers_def)

text \<open>Adding a piece at the end extends the covered prefix past it and the spaces after it.\<close>

lemma covers_snoc:
  assumes c: "covers s u cs ps" and le: "\<forall>p \<in> set ps. p \<le> u"
    and piece: "piece = take m (drop u s)" and ne: "piece \<noteq> []" and m: "u + m \<le> length s"
    and rest: "\<forall>j. u + m \<le> j \<and> j < v \<longrightarrow> py_isspace (s ! j)"
  shows "covers s v (cs @ [piece]) (ps @ [u])"
proof -
  have len: "length piece = m" using piece m by simp
  have "\<exists>i < length (cs @ [piece]). (ps @ [u]) ! i \<le> j \<and> j < (ps @ [u]) ! i + length ((cs @ [piece]) ! i)"
    if j: "j < v" "\<not> py_isspace (s ! j)" for j
  proof (cases "j < u")
    case True
    then obtain i where "i < length cs" "ps ! i \<le> j" "j < ps ! i + length (cs ! i)"
      using c j by (auto simp: covers_def)
    moreover have "length ps = length cs" using c by (simp add: covers_def)
    ultimately show ?thesis by (intro exI [of _ i]) (simp add: nth_append)
  next
    case False
    then have "j < u + m" using rest j by (meson not_le)
    with False c len show ?thesis
      by (intro exI [of _ "length cs"]) (simp add: covers_def nth_append)
  qed
  moreover have "sorted (ps @ [u])" using c le by (simp add: covers_def sorted_append)
  ultimately show ?thesis
    using c piece ne len by (simp add: covers_def nth_append less_Suc_eq)
qed

definition fits :: "nat \<Rightarrow> string \<Rightarrow> string list \<Rightarrow> bool" where
  "fits limit s cs \<longleftrightarrow>
     (\<forall>c \<in> set (butlast cs). length c \<le> limit) \<and> (length (last cs) \<le> limit \<or> last cs = s)"

text \<open>One pass over a trimmed remainder longer than the limit.\<close>

lemma pass:
  assumes "trimmed r" and "0 < limit" and "limit < length r"
  obtains m n where "next_piece limit r = take m r" and "0 < m" and "m \<le> limit"
    and "next_remaining limit overlap r = drop n r" and "n < length r"
    and "find_split_position r limit separators - overlap \<le> n"
    and "\<forall>j. m \<le> j \<and> j < n \<longrightarrow> py_isspace (r ! j)" and "trimmed (drop n r)"
proof -
  let ?k = "find_split_position r limit separators"
  note b = find_split_position_bounds [OF assms(2,3)]
  have k: "?k < length r" using b(2) assms(3) by simp
  obtain m where m: "py_strip (take ?k r) = take m r" "0 < m" "m \<le> ?k"
      "\<forall>j. m \<le> j \<and> j < ?k \<longrightarrow> py_isspace (r ! j)"
    using strip_take [OF assms(1) b(1)] k by (metis less_imp_le)
  let ?w = "takeWhile py_isspace (drop (?k - overlap) r)"
  let ?n = "?k - overlap + length ?w"
  have k': "?k - overlap < length r" using k by simp
  note d = strip_drop [OF assms(1) k']
  have sp: "py_isspace (r ! j)" if "?k - overlap \<le> j" "j < ?n" for j
  proof -
    have i: "j - (?k - overlap) < length ?w" using that by linarith
    then have "py_isspace (?w ! (j - (?k - overlap)))" using nth_mem set_takeWhileD by metis
    moreover have "?w ! (j - (?k - overlap)) = r ! j"
      using takeWhile_nth [OF i] that k' by simp
    ultimately show ?thesis by simp
  qed
  have "\<forall>j. m \<le> j \<and> j < ?n \<longrightarrow> py_isspace (r ! j)"
    using m(4) sp by (metis diff_le_self le_trans not_le)
  then show thesis
    using that [of m ?n] m(1-3) b d by (simp add: next_piece_def next_remaining_def)
qed

definition loop_inv :: "nat \<Rightarrow> string \<Rightarrow> string list \<Rightarrow> string \<Rightarrow> bool" where
  "loop_inv limit s cs r \<longleftrightarrow>
     (\<exists>u ps. r = drop u s \<and> u < length s \<and> trimmed r \<and> covers s u cs ps \<and>
       (\<forall>p \<in> set ps. p \<le> u) \<and> (\<forall>c \<in> set cs. length c \<le> limit))"

lemma loop_inv_step:
  assumes "loop_inv limit s cs r" and "0 < limit" and "limit < length r"
  shows "loop_inv limit s (push_piece cs (next_piece limit r)) (next_remaining limit overlap r)"
proof -
  obtain u ps where r: "r = drop u s" "u < length s" "trimmed r" "covers s u cs ps"
      "\<forall>p \<in> set ps. p \<le> u" "\<forall>c \<in> set cs. length c \<le> limit"
    using assms(1) by (auto simp: loop_inv_def)
  obtain m n where p: "next_piece limit r = take m r" "0 < m" "m \<le> limit"
      "next_remaining limit overlap r = drop n r" "n < length r"
      "\<forall>j. m \<le> j \<and> j < n \<longrightarrow> py_isspace (r ! j)" "trimmed (drop n r)"
    using pass [OF r(3) assms(2,3)] by metis
  have ne: "take m r \<noteq> []" using p(2) assms(3) by auto
  have sp: "py_isspace (s ! j)" if "u + m \<le> j" "j < u + n" for j
    using p(6) [rule_format, of "j - u"] that r(1,2) by (simp add: le_diff_conv2)
  have "covers s (u + n) (cs @ [take m r]) (ps @ [u])"
    using r(4,5) ne sp p(3) assms(3) r(1) by (intro covers_snoc [where m = m]) auto
  moreover have "next_remaining limit overlap r = drop (u + n) s" and "u + n < length s"
    using p(4,5) r(1) by (simp_all add: add.commute)
  moreover have "push_piece cs (next_piece limit r) = cs @ [take m r]"
    using p(1) ne by (simp add: push_piece_def)
  ultimately show ?thesis
    using p(3,4,7) r(5,6) unfolding loop_inv_def
    by (intro exI [of _ "u + n"] exI [of _ "ps @ [u]"]) auto
qed

text \<open>The last piece is the remainder itself, whether the loop ends by its guard or by the break.\<close>

lemma loop_inv_end:
  assumes "loop_inv limit s cs r" and "length r \<le> limit \<or> length s \<le> length r"
  shows "(\<exists>ps. covers s (length s) (push_piece cs r) ps) \<and> fits limit s (push_piece cs r)"
proof -
  obtain u ps where r: "r = drop u s" "u < length s" "covers s u cs ps"
      "\<forall>p \<in> set ps. p \<le> u" "\<forall>c \<in> set cs. length c \<le> limit"
    using assms(1) by (auto simp: loop_inv_def)
  have p: "push_piece cs r = cs @ [r]" using r(1,2) by (simp add: push_piece_def)
  have "covers s (length s) (cs @ [r]) (ps @ [u])"
    using r by (intro covers_snoc [where m = "length r"]) auto
  moreover have "length r \<le> limit \<or> r = s" using assms(2) r(1,2) by (cases "u = 0") auto
  ultimately show ?thesis using r(5) p by (auto simp: fits_def)
qed

lemma chunk_loop_result:
  assumes ret: "chunk_loop limit overlap (length s) cs r = Some out"
    and inv: "loop_inv limit s cs r" and pos: "0 < limit"
  shows "(\<exists>ps. covers s (length s) out ps) \<and> fits limit s out"
proof -
  have "0 < limit \<and> whole = length s \<and> loop_inv limit s cs r \<longrightarrow>
      (\<exists>ps. covers s (length s) out ps) \<and> fits limit s out"
    if "chunk_loop limit overlap whole cs r = Some out" for whole
  proof (rule chunk_loop.raw_induct [OF _ that, where P = "\<lambda>limit overlap whole cs r out.
      0 < limit \<and> whole = length s \<and> loop_inv limit s cs r \<longrightarrow>
      (\<exists>ps. covers s (length s) out ps) \<and> fits limit s out"], intro impI)
    fix f :: "nat \<Rightarrow> nat \<Rightarrow> nat \<Rightarrow> string list \<Rightarrow> string \<Rightarrow> string list option"
    fix limit overlap whole cs r out
    let ?cs = "push_piece cs (next_piece limit r)" and ?r = "next_remaining limit overlap r"
    assume IH: "\<And>limit overlap whole cs r out. f limit overlap whole cs r = Some out \<Longrightarrow>
        0 < limit \<and> whole = length s \<and> loop_inv limit s cs r \<longrightarrow>
        (\<exists>ps. covers s (length s) out ps) \<and> fits limit s out"
      and eq: "(if limit < length r then
          let chunks' = ?cs; remaining' = ?r in
          if whole \<le> length remaining' then Some (push_piece chunks' remaining')
          else f limit overlap whole chunks' remaining'
        else Some (push_piece cs r)) = Some out"
      and pre: "0 < limit \<and> whole = length s \<and> loop_inv limit s cs r"
    show "(\<exists>ps. covers s (length s) out ps) \<and> fits limit s out"
    proof (cases "limit < length r")
      case False
      then show ?thesis using eq pre loop_inv_end [of limit s cs r] by simp
    next
      case True
      note inv' = loop_inv_step [OF _ _ True, of s cs overlap]
      show ?thesis
      proof (cases "whole \<le> length ?r")
        case True
        then show ?thesis
          using eq pre inv' loop_inv_end [of limit s ?cs ?r] \<open>limit < length r\<close> by (simp add: Let_def)
      next
        case False
        then show ?thesis using eq pre inv' IH [of limit overlap whole ?cs ?r out] \<open>limit < length r\<close>
          by (simp add: Let_def)
      qed
    qed
  qed
  then show ?thesis using ret inv pos by blast
qed

text \<open>With a split that advances at every remainder, the loop returns.\<close>

lemma chunk_loop_returns:
  assumes "loop_inv limit s cs r" and "0 < limit" and "length r < length s \<or> r = s"
    and adv: "\<And>u. limit < length (drop u s) \<Longrightarrow> overlap < find_split_position (drop u s) limit separators"
  shows "\<exists>out. chunk_loop limit overlap (length s) cs r = Some out \<and> (\<forall>c \<in> set out. length c \<le> limit)"
  using assms(1,3)
proof (induction "length r" arbitrary: cs r rule: less_induct)
  case less
  obtain u where r: "r = drop u s" "u < length s" "trimmed r" "\<forall>c \<in> set cs. length c \<le> limit"
    using less.prems(1) by (auto simp: loop_inv_def)
  show ?case
  proof (cases "limit < length r")
    case False
    then show ?thesis using r(4) by (auto simp: chunk_loop.simps push_piece_def)
  next
    case True
    let ?r = "next_remaining limit overlap r"
    obtain n where n: "?r = drop n r" "find_split_position r limit separators - overlap \<le> n"
      using pass [OF r(3) assms(2) True] by metis
    moreover have "overlap < find_split_position r limit separators" using adv [of u] True r(1) by simp
    ultimately have sh: "length ?r < length r" using True by simp
    moreover have "length r \<le> length s" using r(1) by simp
    ultimately have "length ?r < length s" by simp
    moreover note inv' = loop_inv_step [OF less.prems(1) assms(2) True, of overlap]
    ultimately show ?thesis
      using less.hyps [OF sh inv'] True by (simp add: chunk_loop.simps [of limit overlap "length s" cs r] Let_def)
  qed
qed

text \<open>A remainder whose split lies within the overlap is handed to the next pass unchanged.\<close>

lemma stuck_remaining:
  assumes "trimmed r" and "find_split_position r limit separators \<le> overlap"
  shows "next_remaining limit overlap r = r"
proof (cases "r = []")
  case False
  then show ?thesis
    using assms rstrip_trimmed_end [of r] dropWhile_eq_self_iff [of py_isspace r]
    by (simp add: next_remaining_def py_strip_def py_lstrip_def trimmed_def)
qed (simp add: next_remaining_def)

lemma chunk_loop_diverges:
  assumes "trimmed r" and "limit < length r" and "length r < whole"
    and "find_split_position r limit separators \<le> overlap"
  shows "chunk_loop limit overlap whole cs r = None"
proof (rule ccontr)
  assume "chunk_loop limit overlap whole cs r \<noteq> None"
  then obtain out where ret: "chunk_loop limit overlap whole cs r = Some out" by auto
  have "\<not> (trimmed r \<and> limit < length r \<and> length r < whole \<and>
      find_split_position r limit separators \<le> overlap)"
    by (rule chunk_loop.raw_induct [OF _ ret, where P = "\<lambda>limit overlap whole cs r out.
      \<not> (trimmed r \<and> limit < length r \<and> length r < whole \<and>
        find_split_position r limit separators \<le> overlap)"])
      (auto simp: Let_def stuck_remaining split: if_splits)
  then show False using assms by simp
qed

section \<open>Properties\<close>

lemma loop_inv_start: "normalize_text s \<noteq> [] \<Longrightarrow> loop_inv limit (normalize_text s) [] (normalize_text s)"
  using normalize_trimmed [of s]
  by (auto simp: loop_inv_def intro!: exI [of _ 0] exI [of _ "[]"] covers_Nil)

lemma chunk_text_long:
  assumes "0 < limit" "0 \<le> overlap" "overlap < limit" "limit < int (length (normalize_text s))"
  shows "chunk_text s limit overlap =
    map_option Inr (chunk_loop (nat limit) (nat overlap) (length (normalize_text s)) [] (normalize_text s))"
  using assms normalize_Nil [of s] by (auto simp: chunk_text_def Let_def)

lemma covers_single: "s \<noteq> [] \<Longrightarrow> covers s (length s) [s] [0]"
  by (simp add: covers_def)

text \<open>
  C26. When chunk_text returns for a text that is not blank, its pieces are not empty, stand
  in the normalized text in order, leave out only spaces, and are within the chunk size, the
  last one possibly being the whole normalized text.
\<close>

theorem chunks_cover_text:
  assumes "chunk_text s limit overlap = Some (Inr chunks)" and "py_strip s \<noteq> []"
  shows "(\<exists>ps. covers (normalize_text s) (length (normalize_text s)) chunks ps)
    \<and> fits (nat limit) (normalize_text s) chunks"
proof (cases "int (length (normalize_text s)) \<le> limit")
  case True
  then have "chunks = [normalize_text s]"
    using assms by (auto simp: chunk_text_def Let_def split: if_splits)
  then show ?thesis using assms(2) normalize_Nil [of s] covers_single by (auto simp: fits_def)
next
  case False
  have v: "0 < limit" "0 \<le> overlap" "overlap < limit"
    using assms by (auto simp: chunk_text_def split: if_splits)
  with False assms(1)
  have "chunk_loop (nat limit) (nat overlap) (length (normalize_text s)) [] (normalize_text s) = Some chunks"
    by (simp add: chunk_text_long)
  then show ?thesis
    using chunk_loop_result [OF _ loop_inv_start] v(1) assms(2) normalize_Nil [of s] by simp
qed

lemma chunks_cover_text_witness:
  "\<exists>ps. covers ''aaa bbbb cccc ddd'' 17 [''aaa bbbb'', ''cccc ddd''] ps"
proof -
  have n: "normalize_text ''aaa bbbb cccc ddd'' = ''aaa bbbb cccc ddd''"
    by (simp add: normalize_text_def py_split.simps py_isspace_def)
  have "chunk_text ''aaa bbbb cccc ddd'' 10 0 = Some (Inr [''aaa bbbb'', ''cccc ddd''])"
    by (simp add: chunk_text_def n py_strip_Nil_iff py_isspace_def chunk_loop.simps next_piece_def
      next_remaining_def find_split_position_def separators_def py_rfind_def occurs_at_def
      push_piece_def py_strip_def py_lstrip_def py_rstrip_def eval_nat_numeral)
  then have "\<exists>ps. covers ''aaa bbbb cccc ddd'' (length ''aaa bbbb cccc ddd'') [''aaa bbbb'', ''cccc ddd''] ps"
    using chunks_cover_text [of "''aaa bbbb cccc ddd''" 10 0] unfolding n
    by (simp only: py_strip_Nil_iff) (simp add: py_isspace_def)
  then show ?thesis by (simp add: eval_nat_numeral)
qed

text \<open>
  C27. With valid sizes, chunk_text returns and keeps every piece within the chunk size for
  every text whose remainders all split beyond the overlap; with no overlap that is every text.
\<close>

theorem chunk_text_terminates:
  assumes "0 < limit" "0 \<le> overlap" "overlap < limit"
    and "overlap = 0 \<or> (\<forall>u. limit < int (length (drop u (normalize_text s))) \<longrightarrow>
      overlap < int (find_split_position (drop u (normalize_text s)) (nat limit) separators))"
  shows "\<exists>chunks. chunk_text s limit overlap = Some (Inr chunks) \<and> (\<forall>c \<in> set chunks. int (length c) \<le> limit)"
proof (cases "py_strip s = [] \<or> int (length (normalize_text s)) \<le> limit")
  case True
  then show ?thesis using assms(1-3) by (auto simp: chunk_text_def Let_def)
next
  case False
  let ?n = "normalize_text s"
  have adv: "nat overlap < find_split_position (drop u ?n) (nat limit) separators"
    if "nat limit < length (drop u ?n)" for u
  proof (cases "overlap = 0")
    case True
    then show ?thesis using find_split_position_bounds(1) [of "nat limit" "drop u ?n"] assms(1) that by simp
  next
    case False
    have "limit < int (length (drop u ?n))" using that assms(1) by linarith
    then have "overlap < int (find_split_position (drop u ?n) (nat limit) separators)"
      using assms(4) False by blast
    then show ?thesis using assms(2) by linarith
  qed
  have "loop_inv (nat limit) ?n [] ?n" using False normalize_Nil by (intro loop_inv_start) blast
  from chunk_loop_returns [OF this _ _ adv] assms(1) obtain out where
    "chunk_loop (nat limit) (nat overlap) (length ?n) [] ?n = Some out" "\<forall>c \<in> set out. length c \<le> nat limit"
    by auto
  then show ?thesis using False assms by (auto simp: chunk_text_long)
qed

lemma chunk_text_terminates_witness:
  "\<exists>chunks. chunk_text ''aaa bbbb cccc ddd'' 10 0 = Some (Inr chunks) \<and> (\<forall>c \<in> set chunks. int (length c) \<le> 10)"
  using chunk_text_terminates [of 10 0 "''aaa bbbb cccc ddd''"] by simp

text \<open>
  A text longer than the chunk size whose first split lies within the overlap comes back
  as its first piece and, beyond the chunk size, the whole text again.
\<close>

theorem oversize_chunk:
  assumes "0 < limit" "0 \<le> overlap" "overlap < limit" "limit < int (length (normalize_text s))"
    and "int (find_split_position (normalize_text s) (nat limit) separators) \<le> overlap"
  shows "chunk_text s limit overlap = Some (Inr [next_piece (nat limit) (normalize_text s), normalize_text s])"
proof -
  let ?n = "normalize_text s"
  have "nat limit < length ?n" "0 < nat limit" using assms(1,4) by simp_all
  then have "next_piece (nat limit) ?n \<noteq> []"
    using pass [OF normalize_trimmed, of "nat limit" s 0] by (metis take_eq_Nil length_greater_0_conv not_less0 not_gr_zero)
  moreover have "next_remaining (nat limit) (nat overlap) ?n = ?n"
    using assms by (intro stuck_remaining normalize_trimmed) simp
  moreover have "?n \<noteq> []" using assms(1,4) by auto
  ultimately show ?thesis
    using assms by (simp add: chunk_text_long chunk_loop.simps Let_def push_piece_def)
qed

lemma oversize_chunk_witness:
  "chunk_text ''Dr. aaaaaa bb cc'' 10 5 = Some (Inr [''Dr.'', ''Dr. aaaaaa bb cc''])"
proof -
  have n: "normalize_text ''Dr. aaaaaa bb cc'' = ''Dr. aaaaaa bb cc''"
    by (simp add: normalize_text_def py_split.simps py_isspace_def)
  have k: "find_split_position ''Dr. aaaaaa bb cc'' 10 separators = 4"
    by (simp add: find_split_position_def separators_def py_rfind_def occurs_at_def eval_nat_numeral)
  show ?thesis
    using oversize_chunk [of 10 5 "''Dr. aaaaaa bb cc''"]
    by (simp add: n k next_piece_def py_strip_def py_lstrip_def py_rstrip_def py_isspace_def)
qed

text \<open>
  A text made of a short word, a long one and a longer one makes chunk_text loop for ever:
  its second pass leaves a remainder whose split lies within the overlap.
\<close>

theorem chunk_text_hangs:
  "chunk_text ''aaaaaaaa b cccccccccccccccc'' 10 5 = None"
proof -
  let ?s = "''aaaaaaaa b cccccccccccccccc''" and ?s1 = "''aaaa b cccccccccccccccc''"
  let ?r = "''aa b cccccccccccccccc''"
  have n: "normalize_text ?s = ?s"
    by (simp add: normalize_text_def py_split.simps py_isspace_def)
  have k: "find_split_position ?s 10 separators = 9" "find_split_position ?s1 10 separators = 7"
      "find_split_position ?r 10 separators = 5"
    by (simp_all add: find_split_position_def separators_def py_rfind_def occurs_at_def eval_nat_numeral)
  have "trimmed ?r" by (simp add: trimmed_def py_isspace_def)
  then have "chunk_loop 10 5 (length ?s) cs ?r = None" for cs
    by (rule chunk_loop_diverges) (simp_all add: k)
  moreover have "next_remaining 10 5 ?s = ?s1" and "next_remaining 10 5 ?s1 = ?r"
    by (simp_all add: next_remaining_def k py_strip_def py_lstrip_def py_rstrip_def py_isspace_def)
  ultimately show ?thesis
    by (simp add: chunk_text_long n chunk_loop.simps [of _ _ _ _ ?s] chunk_loop.simps [of _ _ _ _ ?s1] Let_def)
qed

end
