(* ===== verification/ControlServices.thy ===== *)
theory ControlServices
  imports ControlRepos Chunking
begin

text \<open>
  The control-plane services (xymphony_api/services.py) over the repositories, with the
  request schemas (schemas.py), the transaction of a request (db.py) and the error handlers
  (errors.py). Each service method is a computation on the database; fresh UUIDs and the clock
  are arguments. Ingestion may never return (the chunker may not), so its value is optional.
\<close>

section \<open>schemas.py\<close>

definition opt_ok :: "('a \<Rightarrow> bool) \<Rightarrow> 'a option \<Rightarrow> bool" where
  "opt_ok P x = (case x of None \<Rightarrow> True | Some a \<Rightarrow> P a)"

definition len_between :: "nat \<Rightarrow> nat \<Rightarrow> string \<Rightarrow> bool" where
  "len_between lo hi s \<longleftrightarrow> lo \<le> length s \<and> length s \<le> hi"

record agent_create_request =
  acr_name :: string
  acr_description :: string
  acr_status :: agent_status
  acr_tags :: "string list"

definition check_agent_create :: "agent_create_request \<Rightarrow> agent_create_request result" where
  "check_agent_create r =
     (if \<not> len_between 1 200 (acr_name r) then Inl (ValidationError ''name'')
      else if 4000 < length (acr_description r) then Inl (ValidationError ''description'')
      else Inr r)"

record agent_update_request =
  aur_name :: "string option"
  aur_description :: "string option"
  aur_status :: "agent_status option"
  aur_tags :: "string list option"

definition check_agent_update :: "agent_update_request \<Rightarrow> agent_update_request result" where
  "check_agent_update r =
     (if \<not> opt_ok (len_between 1 200) (aur_name r) then Inl (ValidationError ''name'')
      else if \<not> opt_ok (len_between 0 4000) (aur_description r) then Inl (ValidationError ''description'')
      else Inr r)"

definition check_tools :: "tool_binding list \<Rightarrow> tool_binding list result" where
  "check_tools bs =
     and_then (validate_all check_tool_binding bs) (\<lambda>cs. and_then (validate_tools {} cs) (\<lambda>_. Inr cs))"

record version_create_request =
  vcr_instructions :: string
  vcr_personality :: string
  vcr_locale :: string
  vcr_llm :: llm_binding
  vcr_stt :: stt_binding
  vcr_tts :: tts_binding
  vcr_tools :: "tool_binding list"

definition check_version_create :: "version_create_request \<Rightarrow> version_create_request result" where
  "check_version_create r =
     (if \<not> len_between 1 32000 (vcr_instructions r) then Inl (ValidationError ''instructions'')
      else if 8000 < length (vcr_personality r) then Inl (ValidationError ''personality'')
      else if \<not> len_between 2 16 (vcr_locale r) then Inl (ValidationError ''locale'')
      else and_then (check_llm_binding (vcr_llm r)) (\<lambda>l.
           and_then (check_stt_binding (vcr_stt r)) (\<lambda>s.
           and_then (check_tts_binding (vcr_tts r)) (\<lambda>t.
           and_then (check_tools (vcr_tools r)) (\<lambda>bs.
             Inr (r\<lparr>vcr_llm := l, vcr_stt := s, vcr_tts := t, vcr_tools := bs\<rparr>))))))"

record version_update_request =
  vur_instructions :: "string option"
  vur_personality :: "string option"
  vur_locale :: "string option"
  vur_llm :: "llm_binding option"
  vur_stt :: "stt_binding option"
  vur_tts :: "tts_binding option"
  vur_tools :: "tool_binding list option"

definition check_opt :: "('a \<Rightarrow> 'a result) \<Rightarrow> 'a option \<Rightarrow> 'a option result" where
  "check_opt f x = (case x of None \<Rightarrow> Inr None | Some a \<Rightarrow> map_sum id Some (f a))"

definition check_version_update :: "version_update_request \<Rightarrow> version_update_request result" where
  "check_version_update r =
     (if \<not> opt_ok (len_between 1 32000) (vur_instructions r) then Inl (ValidationError ''instructions'')
      else if \<not> opt_ok (len_between 0 8000) (vur_personality r) then Inl (ValidationError ''personality'')
      else if \<not> opt_ok (len_between 2 16) (vur_locale r) then Inl (ValidationError ''locale'')
      else and_then (check_opt check_llm_binding (vur_llm r)) (\<lambda>l.
           and_then (check_opt check_stt_binding (vur_stt r)) (\<lambda>s.
           and_then (check_opt check_tts_binding (vur_tts r)) (\<lambda>t.
           and_then (check_opt check_tools (vur_tools r)) (\<lambda>bs.
             Inr (r\<lparr>vur_llm := l, vur_stt := s, vur_tts := t, vur_tools := bs\<rparr>))))))"

record session_create_request =
  scr_agent_id :: uuid
  scr_agent_version_id :: "uuid option"
  scr_channel :: channel
  scr_livekit_room :: "string option"

definition check_session_create :: "session_create_request \<Rightarrow> session_create_request result" where
  "check_session_create r =
     (if \<not> max_len_ok 256 (scr_livekit_room r) then Inl (ValidationError ''livekit_room'') else Inr r)"

record tool_create_request =
  tcr_name :: string
  tcr_description :: string
  tcr_tool_type :: tool_type
  tcr_parameters :: json_dict
  tcr_config :: json_dict
  tcr_enabled :: bool

definition check_tool_create :: "tool_create_request \<Rightarrow> tool_create_request result" where
  "check_tool_create r =
     (if \<not> len_between 1 128 (tcr_name r) then Inl (ValidationError ''name'')
      else if 4000 < length (tcr_description r) then Inl (ValidationError ''description'')
      else Inr r)"

record tool_update_request =
  tur_name :: "string option"
  tur_description :: "string option"
  tur_tool_type :: "tool_type option"
  tur_parameters :: "json_dict option"
  tur_config :: "json_dict option"
  tur_enabled :: "bool option"

definition check_tool_update :: "tool_update_request \<Rightarrow> tool_update_request result" where
  "check_tool_update r =
     (if \<not> opt_ok (len_between 1 128) (tur_name r) then Inl (ValidationError ''name'')
      else if \<not> opt_ok (len_between 0 4000) (tur_description r) then Inl (ValidationError ''description'')
      else Inr r)"

section \<open>db.py, errors.py\<close>

text \<open>\<open>session_scope\<close>: commit what the request did, or roll back and re-raise.\<close>

definition session_scope :: "(db, 'a) eff \<Rightarrow> (db, 'a) eff" where
  "session_scope m = (\<lambda>d. case m d of (Inl e, _) \<Rightarrow> (Inl e, d) | (Inr a, d') \<Rightarrow> (Inr a, d'))"

text \<open>The status code of the response to an exception.\<close>

fun http_status :: "exn \<Rightarrow> nat" where
  "http_status (NotFoundErr _) = 404"
| "http_status (ConflictErr _ _) = 409"
| "http_status (AppErr _ _ n) = n"
| "http_status _ = 500"

section \<open>AgentService\<close>

definition require :: "exn \<Rightarrow> (db \<Rightarrow> 'r option) \<Rightarrow> (db, 'r) eff" where
  "require e f = with_state (\<lambda>d. case f d of None \<Rightarrow> throw e | Some r \<Rightarrow> ret r)"

definition require_project :: "uuid \<Rightarrow> (db, project_row) eff" where
  "require_project pj = require (NotFoundErr ''Project not found'') (get_project pj)"

definition require_agent :: "uuid \<Rightarrow> uuid \<Rightarrow> (db, project_row \<times> agent_row) eff" where
  "require_agent pj ag =
     bind_eff (require_project pj) (\<lambda>p.
     bind_eff (require (NotFoundErr ''Agent not found'')
         (agent_get_in_project (pr_id p) (pr_organization_id p) ag)) (\<lambda>a. ret (p, a)))"

definition api_create_agent :: "uuid \<Rightarrow> time \<Rightarrow> uuid \<Rightarrow> agent_create_request \<Rightarrow> (db, agent) eff" where
  "api_create_agent uid now pj body =
     bind_eff (require_project pj) (\<lambda>p.
       let row = \<lparr>ar_id = uid, ar_organization_id = pr_organization_id p, ar_project_id = pr_id p,
             ar_name = acr_name body, ar_description = acr_description body,
             ar_status = agent_status_value (acr_status body), ar_tags = acr_tags body,
             ar_created_by = None, ar_created_at = now, ar_updated_at = now\<rparr>
       in then_eff (agent_add row) (lift_eff (agent_to_contract row)))"

text \<open>\<open>limit + 1\<close> rows are read; the extra one says that there is a next page.\<close>

definition page :: "('r \<Rightarrow> uuid) \<Rightarrow> int \<Rightarrow> 'r list \<Rightarrow> 'r list \<times> uuid option" where
  "page key limit rows =
     (if limit < int (length rows)
      then (let rs = take (nat limit) rows in (rs, Some (key (last rs)))) else (rows, None))"

definition api_list_agents ::
  "uuid \<Rightarrow> int \<Rightarrow> uuid option \<Rightarrow> (db, agent list \<times> uuid option) eff" where
  "api_list_agents pj limit cursor =
     bind_eff (require_project pj) (\<lambda>p. with_state (\<lambda>d.
       let (rows, next_cursor) = page ar_id limit
             (agent_list_in_project (pr_id p) (pr_organization_id p) (limit + 1) cursor d)
       in lift_eff (map_sum id (\<lambda>items. (items, next_cursor)) (validate_all agent_to_contract rows))))"

definition api_get_agent :: "uuid \<Rightarrow> uuid \<Rightarrow> (db, agent) eff" where
  "api_get_agent pj ag = bind_eff (require_agent pj ag) (\<lambda>(_, row). lift_eff (agent_to_contract row))"

definition set_if :: "'v option \<Rightarrow> ('v \<Rightarrow> 'r \<Rightarrow> 'r) \<Rightarrow> 'r \<Rightarrow> 'r" where
  "set_if x f r = (case x of None \<Rightarrow> r | Some v \<Rightarrow> f v r)"

definition apply_agent_update :: "time \<Rightarrow> agent_update_request \<Rightarrow> agent_row \<Rightarrow> agent_row" where
  "apply_agent_update now body =
     (\<lambda>r. r\<lparr>ar_updated_at := now\<rparr>) \<circ>
     set_if (aur_tags body) (\<lambda>v r. r\<lparr>ar_tags := v\<rparr>) \<circ>
     set_if (aur_status body) (\<lambda>v r. r\<lparr>ar_status := agent_status_value v\<rparr>) \<circ>
     set_if (aur_description body) (\<lambda>v r. r\<lparr>ar_description := v\<rparr>) \<circ>
     set_if (aur_name body) (\<lambda>v r. r\<lparr>ar_name := v\<rparr>)"

definition api_update_agent :: "time \<Rightarrow> uuid \<Rightarrow> uuid \<Rightarrow> agent_update_request \<Rightarrow> (db, agent) eff" where
  "api_update_agent now pj ag body =
     bind_eff (require_agent pj ag) (\<lambda>(_, row).
       let row' = apply_agent_update now body row
       in then_eff (agent_flush row') (lift_eff (agent_to_contract row')))"

definition api_delete_agent :: "uuid \<Rightarrow> uuid \<Rightarrow> (db, unit) eff" where
  "api_delete_agent pj ag = bind_eff (require_agent pj ag) (\<lambda>(_, row). agent_delete row)"

definition row_of_version :: "agent_version \<Rightarrow> version_row" where
  "row_of_version v = \<lparr>vr_id = av_id v, vr_organization_id = av_organization_id v,
     vr_project_id = av_project_id v, vr_agent_id = av_agent_id v, vr_version_n = av_version_n v,
     vr_status = version_status_value (av_status v), vr_instructions = av_instructions v,
     vr_personality = av_personality v, vr_locale = av_locale v,
     vr_llm = dump_llm_binding (av_llm v), vr_stt = dump_stt_binding (av_stt v),
     vr_tts = dump_tts_binding (av_tts v), vr_tools = map dump_tool_binding (av_tools v),
     vr_config_hash = the (av_config_hash v), vr_created_by = None,
     vr_created_at = av_created_at v, vr_published_at = None\<rparr>"

definition api_create_version ::
  "hash_env \<Rightarrow> uuid \<Rightarrow> time \<Rightarrow> uuid \<Rightarrow> uuid \<Rightarrow> version_create_request \<Rightarrow> (db, agent_version) eff" where
  "api_create_version h uid now pj ag body =
     bind_eff (require_agent pj ag) (\<lambda>(p, a). with_state (\<lambda>d.
       bind_eff (lift_eff (check_agent_version
           \<lparr>av_id = uid, av_organization_id = pr_organization_id p, av_project_id = pr_id p,
            av_agent_id = ar_id a, av_version_n = next_version_n (ar_id a) d, av_status = AV_DRAFT,
            av_instructions = vcr_instructions body, av_personality = vcr_personality body,
            av_locale = vcr_locale body, av_llm = vcr_llm body, av_stt = vcr_stt body,
            av_tts = vcr_tts body, av_tools = vcr_tools body, av_config_hash = None,
            av_created_by = None, av_created_at = now, av_published_at = None\<rparr>)) (\<lambda>v.
         let row = row_of_version (with_config_hash h v)
         in then_eff (version_add row) (lift_eff (version_to_contract row)))))"

definition api_list_versions :: "uuid \<Rightarrow> uuid \<Rightarrow> int \<Rightarrow> (db, agent_version list) eff" where
  "api_list_versions pj ag limit =
     bind_eff (require_agent pj ag) (\<lambda>(p, a). with_state (\<lambda>d.
       lift_eff (validate_all version_to_contract
         (version_list_for_agent (ar_id a) (pr_organization_id p) (pr_id p) limit d))))"

definition require_version :: "uuid \<Rightarrow> uuid \<Rightarrow> uuid \<Rightarrow> (db, version_row) eff" where
  "require_version pj ag vid =
     bind_eff (require_project pj) (\<lambda>p.
       require (NotFoundErr ''Agent version not found'')
         (version_get_for_agent ag (pr_organization_id p) (pr_id p) vid))"

definition api_get_version :: "uuid \<Rightarrow> uuid \<Rightarrow> uuid \<Rightarrow> (db, agent_version) eff" where
  "api_get_version pj ag vid =
     bind_eff (require_version pj ag vid) (\<lambda>row. lift_eff (version_to_contract row))"

definition apply_version_update :: "version_update_request \<Rightarrow> agent_version \<Rightarrow> agent_version" where
  "apply_version_update body =
     set_if (vur_tools body) (\<lambda>x v. v\<lparr>av_tools := x\<rparr>) \<circ>
     set_if (vur_tts body) (\<lambda>x v. v\<lparr>av_tts := x\<rparr>) \<circ>
     set_if (vur_stt body) (\<lambda>x v. v\<lparr>av_stt := x\<rparr>) \<circ>
     set_if (vur_llm body) (\<lambda>x v. v\<lparr>av_llm := x\<rparr>) \<circ>
     set_if (vur_locale body) (\<lambda>x v. v\<lparr>av_locale := x\<rparr>) \<circ>
     set_if (vur_personality body) (\<lambda>x v. v\<lparr>av_personality := x\<rparr>) \<circ>
     set_if (vur_instructions body) (\<lambda>x v. v\<lparr>av_instructions := x\<rparr>)"

definition store_version_config :: "agent_version \<Rightarrow> version_row \<Rightarrow> version_row" where
  "store_version_config v row = row\<lparr>vr_instructions := av_instructions v,
     vr_personality := av_personality v, vr_locale := av_locale v,
     vr_llm := dump_llm_binding (av_llm v), vr_stt := dump_stt_binding (av_stt v),
     vr_tts := dump_tts_binding (av_tts v), vr_tools := map dump_tool_binding (av_tools v),
     vr_config_hash := the (av_config_hash v)\<rparr>"

definition api_update_version ::
  "hash_env \<Rightarrow> uuid \<Rightarrow> uuid \<Rightarrow> uuid \<Rightarrow> version_update_request \<Rightarrow> (db, agent_version) eff" where
  "api_update_version h pj ag vid body =
     bind_eff (require_version pj ag vid) (\<lambda>row.
       if vr_status row \<noteq> version_status_value AV_DRAFT
       then throw (ConflictErr ''conflict_published_immutable''
         ''Published AgentVersion cannot be mutated; create a new version'')
       else bind_eff (lift_eff (version_to_contract row)) (\<lambda>current.
         let row' = store_version_config (with_config_hash h (apply_version_update body current)) row
         in then_eff (version_flush row') (lift_eff (version_to_contract row'))))"

definition api_publish_version :: "time \<Rightarrow> uuid \<Rightarrow> uuid \<Rightarrow> uuid \<Rightarrow> (db, agent_version) eff" where
  "api_publish_version now pj ag vid =
     bind_eff (require_version pj ag vid) (\<lambda>row.
       if vr_status row = version_status_value AV_PUBLISHED then lift_eff (version_to_contract row)
       else let row' = row\<lparr>vr_status := version_status_value AV_PUBLISHED, vr_published_at := Some now\<rparr>
            in then_eff (version_flush row') (lift_eff (version_to_contract row')))"

section \<open>SessionService\<close>

text \<open>The version a session is pinned to: the one named, or the latest published one.\<close>

definition pinned_version :: "project_row \<Rightarrow> agent_row \<Rightarrow> uuid option \<Rightarrow> (db, version_row) eff" where
  "pinned_version p a vid =
     (case vid of
        Some i \<Rightarrow> require (NotFoundErr ''Agent version not found'')
          (version_get_for_agent (ar_id a) (pr_organization_id p) (pr_id p) i)
      | None \<Rightarrow> require (ConflictErr ''no_published_version''
          ''Agent has no published version; publish a version or specify agent_version_id'')
          (version_get_latest_published (ar_id a) (pr_organization_id p) (pr_id p)))"

definition session_row_of ::
  "uuid \<Rightarrow> time \<Rightarrow> session_create_request \<Rightarrow> project_row \<Rightarrow> agent_row \<Rightarrow> version_row \<Rightarrow> session_row" where
  "session_row_of uid now body p a v =
     \<lparr>sr_id = uid, sr_organization_id = pr_organization_id p, sr_project_id = pr_id p,
      sr_agent_id = ar_id a, sr_agent_version_id = vr_id v, sr_deployment_id = None,
      sr_status = session_status_value SS_INITIALIZING,
      sr_channel = channel_value (scr_channel body), sr_livekit_room = scr_livekit_room body,
      sr_config_hash = vr_config_hash v, sr_started_at = now, sr_updated_at = now,
      sr_ended_at = None, sr_end_reason = None, sr_usage = None, sr_error_code = None\<rparr>"

definition api_create_session ::
  "uuid \<Rightarrow> time \<Rightarrow> uuid \<Rightarrow> session_create_request \<Rightarrow> (db, session) eff" where
  "api_create_session uid now pj body =
     bind_eff (require_agent pj (scr_agent_id body)) (\<lambda>(p, a).
     bind_eff (pinned_version p a (scr_agent_version_id body)) (\<lambda>v.
       let row = session_row_of uid now body p a v
       in then_eff (session_row_create row) (lift_eff (session_to_contract row))))"

definition require_session :: "uuid \<Rightarrow> uuid \<Rightarrow> (db, project_row \<times> session_row) eff" where
  "require_session pj sid =
     bind_eff (require_project pj) (\<lambda>p.
     bind_eff (require (NotFoundErr ''Session not found'')
         (session_row_get sid (Some (pr_organization_id p)) (Some (pr_id p)))) (\<lambda>s. ret (p, s)))"

definition api_get_session :: "uuid \<Rightarrow> uuid \<Rightarrow> (db, session) eff" where
  "api_get_session pj sid =
     bind_eff (require_session pj sid) (\<lambda>(_, row). lift_eff (session_to_contract row))"

definition api_update_session_status ::
  "time \<Rightarrow> uuid \<Rightarrow> uuid \<Rightarrow> session_status \<Rightarrow> (db, session) eff" where
  "api_update_session_status now pj sid st =
     bind_eff (require_session pj sid) (\<lambda>(_, row).
       let row' = row\<lparr>sr_status := session_status_value st, sr_updated_at := now\<rparr>
       in then_eff (session_row_update row') (lift_eff (session_to_contract row')))"

definition api_list_messages :: "uuid \<Rightarrow> uuid \<Rightarrow> (db, message list) eff" where
  "api_list_messages pj sid =
     bind_eff (require_session pj sid) (\<lambda>(p, _). with_state (\<lambda>d.
       lift_eff (validate_all message_to_contract
         (message_rows_for_session sid (Some (pr_organization_id p)) d))))"

section \<open>ToolService\<close>

definition tool_name_exists :: "string \<Rightarrow> exn" where
  "tool_name_exists n = ConflictErr ''tool_name_exists''
     (''A tool named '' @ quoted n @ '' already exists in this project'')"

definition api_create_tool ::
  "uuid \<Rightarrow> time \<Rightarrow> uuid \<Rightarrow> tool_create_request \<Rightarrow> (db, tool_definition) eff" where
  "api_create_tool uid now pj body =
     bind_eff (require_project pj) (\<lambda>p. with_state (\<lambda>d.
       if tool_get_by_name (pr_id p) (pr_organization_id p) (tcr_name body) d \<noteq> None
       then throw (tool_name_exists (tcr_name body))
       else let row = \<lparr>dr_id = uid, dr_organization_id = pr_organization_id p, dr_project_id = pr_id p,
                  dr_name = tcr_name body, dr_description = tcr_description body,
                  dr_tool_type = tool_type_value (tcr_tool_type body),
                  dr_parameters = tcr_parameters body, dr_config = tcr_config body,
                  dr_enabled = tcr_enabled body, dr_created_by = None,
                  dr_created_at = now, dr_updated_at = now\<rparr>
            in then_eff (tool_add row) (lift_eff (tool_definition_to_contract row))))"

definition api_list_tools ::
  "uuid \<Rightarrow> int \<Rightarrow> uuid option \<Rightarrow> (db, tool_definition list \<times> uuid option) eff" where
  "api_list_tools pj limit cursor =
     bind_eff (require_project pj) (\<lambda>p. with_state (\<lambda>d.
       let (rows, next_cursor) = page dr_id limit
             (tool_list_in_project (pr_id p) (pr_organization_id p) (limit + 1) cursor d)
       in lift_eff (map_sum id (\<lambda>items. (items, next_cursor))
            (validate_all tool_definition_to_contract rows))))"

definition require_tool :: "uuid \<Rightarrow> uuid \<Rightarrow> (db, project_row \<times> tool_row) eff" where
  "require_tool pj tid =
     bind_eff (require_project pj) (\<lambda>p.
     bind_eff (require (NotFoundErr ''Tool not found'')
         (tool_get_in_project (pr_id p) (pr_organization_id p) tid)) (\<lambda>t. ret (p, t)))"

definition api_get_tool :: "uuid \<Rightarrow> uuid \<Rightarrow> (db, tool_definition) eff" where
  "api_get_tool pj tid =
     bind_eff (require_tool pj tid) (\<lambda>(_, row). lift_eff (tool_definition_to_contract row))"

definition apply_tool_update :: "time \<Rightarrow> tool_update_request \<Rightarrow> tool_row \<Rightarrow> tool_row" where
  "apply_tool_update now body =
     (\<lambda>r. r\<lparr>dr_updated_at := now\<rparr>) \<circ>
     set_if (tur_enabled body) (\<lambda>v r. r\<lparr>dr_enabled := v\<rparr>) \<circ>
     set_if (tur_config body) (\<lambda>v r. r\<lparr>dr_config := v\<rparr>) \<circ>
     set_if (tur_parameters body) (\<lambda>v r. r\<lparr>dr_parameters := v\<rparr>) \<circ>
     set_if (tur_tool_type body) (\<lambda>v r. r\<lparr>dr_tool_type := tool_type_value v\<rparr>) \<circ>
     set_if (tur_description body) (\<lambda>v r. r\<lparr>dr_description := v\<rparr>) \<circ>
     set_if (tur_name body) (\<lambda>v r. r\<lparr>dr_name := v\<rparr>)"

definition rename_conflict :: "project_row \<Rightarrow> tool_row \<Rightarrow> string option \<Rightarrow> db \<Rightarrow> exn option" where
  "rename_conflict p row name d =
     (case name of None \<Rightarrow> None | Some n \<Rightarrow>
        if n \<noteq> dr_name row \<and> tool_get_by_name (pr_id p) (pr_organization_id p) n d \<noteq> None
        then Some (tool_name_exists n) else None)"

definition api_update_tool ::
  "time \<Rightarrow> uuid \<Rightarrow> uuid \<Rightarrow> tool_update_request \<Rightarrow> (db, tool_definition) eff" where
  "api_update_tool now pj tid body =
     bind_eff (require_tool pj tid) (\<lambda>(p, row). with_state (\<lambda>d.
       case rename_conflict p row (tur_name body) d of
         Some e \<Rightarrow> throw e
       | None \<Rightarrow>
           let row' = apply_tool_update now body row
           in then_eff (tool_flush row') (lift_eff (tool_definition_to_contract row'))))"

definition api_delete_tool :: "uuid \<Rightarrow> uuid \<Rightarrow> (db, unit) eff" where
  "api_delete_tool pj tid = bind_eff (require_tool pj tid) (\<lambda>(_, row). tool_delete row)"

definition require_agent_version :: "uuid \<Rightarrow> uuid \<Rightarrow> uuid \<Rightarrow> (db, version_row) eff" where
  "require_agent_version pj ag vid =
     bind_eff (require_agent pj ag) (\<lambda>(p, a).
       require (NotFoundErr ''Agent version not found'')
         (version_get_for_agent (ar_id a) (pr_organization_id p) (pr_id p) vid))"

definition require_draft_version :: "uuid \<Rightarrow> uuid \<Rightarrow> uuid \<Rightarrow> (db, version_row) eff" where
  "require_draft_version pj ag vid =
     bind_eff (require_agent_version pj ag vid) (\<lambda>v.
       if vr_status v \<noteq> version_status_value AV_DRAFT
       then throw (ConflictErr ''conflict_published_immutable''
         ''Published AgentVersion is immutable; cannot modify tool associations'')
       else ret v)"

definition api_attach_tool ::
  "time \<Rightarrow> uuid \<Rightarrow> uuid \<Rightarrow> uuid \<Rightarrow> uuid \<Rightarrow> (db, tool_definition) eff" where
  "api_attach_tool now pj ag vid tid =
     bind_eff (require_draft_version pj ag vid) (\<lambda>v.
     bind_eff (require_tool pj tid) (\<lambda>(_, t).
       then_eff (version_tool_attach now (vr_id v) (dr_id t) True)
         (lift_eff (tool_definition_to_contract t))))"

definition api_detach_tool :: "uuid \<Rightarrow> uuid \<Rightarrow> uuid \<Rightarrow> uuid \<Rightarrow> (db, unit) eff" where
  "api_detach_tool pj ag vid tid =
     bind_eff (require_draft_version pj ag vid) (\<lambda>v.
     bind_eff (version_tool_detach (vr_id v) tid) (\<lambda>removed.
       if removed then ret () else throw (NotFoundErr ''Tool is not attached to this version'')))"

text \<open>\<open>assoc.tool_definition\<close> follows the foreign key; a dangling one would be \<open>None\<close>.\<close>

definition associated_tool :: "db \<Rightarrow> version_tool_row \<Rightarrow> tool_definition result" where
  "associated_tool d x =
     (case tool_get (vt_tool_definition_id x) d of
        None \<Rightarrow> Inl (TypeErrorE ''NoneType'') | Some t \<Rightarrow> tool_definition_to_contract t)"

definition api_list_version_tools ::
  "uuid \<Rightarrow> uuid \<Rightarrow> uuid \<Rightarrow> (db, tool_definition list) eff" where
  "api_list_version_tools pj ag vid =
     bind_eff (require_agent_version pj ag vid) (\<lambda>v. with_state (\<lambda>d.
       lift_eff (validate_all (associated_tool d) (version_tool_list (vr_id v) d))))"

section \<open>KnowledgeBaseService, DocumentService, DocumentIngestionService\<close>

definition api_create_knowledge_base ::
  "uuid \<Rightarrow> time \<Rightarrow> uuid \<Rightarrow> string \<Rightarrow> string \<Rightarrow> (db, knowledge_base_row) eff" where
  "api_create_knowledge_base uid now pj n desc =
     bind_eff (require_project pj) (\<lambda>p. kb_create uid now (pr_organization_id p) (pr_id p) n desc)"

definition api_list_knowledge_bases :: "uuid \<Rightarrow> (db, knowledge_base_row list) eff" where
  "api_list_knowledge_bases pj =
     bind_eff (require_project pj) (\<lambda>p. with_state (\<lambda>d.
       ret (kb_list_in_project (pr_id p) (pr_organization_id p) d)))"

text \<open>The embedding model and the text-search vector of the database are parameters.\<close>

record ingest_env =
  ie_embed_many :: "string list \<Rightarrow> embedding list"
  ie_tsvector :: "string \<Rightarrow> string list"

definition set_search_vectors :: "ingest_env \<Rightarrow> uuid \<Rightarrow> db \<Rightarrow> db" where
  "set_search_vectors en doc = db_chunks_update (map (\<lambda>h.
     if hr_document_id h = doc then h\<lparr>hr_search_vector := Some (ie_tsvector en (hr_content h))\<rparr> else h))"

definition chunk_data :: "string list \<Rightarrow> embedding list \<Rightarrow> (int \<times> string \<times> embedding) list" where
  "chunk_data chunks embeddings = map (\<lambda>(i, c, e). (int i, c, e)) (enumerate 0 (zip chunks embeddings))"

definition store_chunks ::
  "ingest_env \<Rightarrow> (nat \<Rightarrow> uuid) \<Rightarrow> time \<Rightarrow> uuid \<Rightarrow> string list \<Rightarrow> (db, unit) eff" where
  "store_chunks en uids now doc chunks =
     (let embeddings = ie_embed_many en chunks in
      if length embeddings \<noteq> length chunks then throw (ValueErrorE ''zip() arguments differ in length'')
      else then_eff (chunk_create_many uids now doc (chunk_data chunks embeddings))
             (modify_eff (set_search_vectors en doc)))"

definition ingest_document ::
  "ingest_env \<Rightarrow> (nat \<Rightarrow> uuid) \<Rightarrow> time \<Rightarrow> uuid \<Rightarrow> db \<Rightarrow> (document_row result \<times> db) option" where
  "ingest_document en uids now doc d =
     (case document_get doc d of
        None \<Rightarrow> Some (Inl (NotFoundErr ''Document not found''), d)
      | Some r \<Rightarrow>
          let d' = chunk_delete_for_document (dc_id r) d in
          (case chunk_text (dc_content r) default_chunk_size default_chunk_overlap of
             None \<Rightarrow> None
           | Some (Inl e) \<Rightarrow> Some (Inl e, d')
           | Some (Inr chunks) \<Rightarrow>
               if chunks = [] then Some (Inr r, d')
               else Some (then_eff (store_chunks en uids now (dc_id r) chunks) (ret r) d')))"

definition require_knowledge_base :: "uuid \<Rightarrow> (db, knowledge_base_row) eff" where
  "require_knowledge_base kb = require (NotFoundErr ''Knowledge base not found'') (kb_get kb)"

definition api_create_document ::
  "ingest_env \<Rightarrow> uuid \<Rightarrow> (nat \<Rightarrow> uuid) \<Rightarrow> time \<Rightarrow> uuid \<Rightarrow> string \<Rightarrow> string \<Rightarrow> db \<Rightarrow>
   (document_row result \<times> db) option" where
  "api_create_document en uid uids now kb n content d =
     (case bind_eff (require_knowledge_base kb) (\<lambda>k. document_row_create uid now (kb_id k) n content) d of
        (Inl e, d') \<Rightarrow> Some (Inl e, d')
      | (Inr doc, d') \<Rightarrow>
          map_option (\<lambda>(r, d''). (map_sum id (\<lambda>_. doc) r, d'')) (ingest_document en uids now (dc_id doc) d'))"

definition api_list_documents :: "uuid \<Rightarrow> (db, document_row list) eff" where
  "api_list_documents kb =
     bind_eff (require_knowledge_base kb) (\<lambda>k. with_state (\<lambda>d. ret (document_list_in_kb (kb_id k) d)))"

end
