(* ===== verification/ControlVersions.thy ===== *)
theory ControlVersions
  imports ControlServices
begin

text \<open>
  Agent versions as rows and as contracts: what a stored version reads back as, what a valid
  request makes of it, and the numbering of versions.
\<close>

section \<open>Valid versions\<close>

definition hash_ok :: "hash_env \<Rightarrow> bool" where
  "hash_ok h \<longleftrightarrow> (\<forall>j. config_hash_ok (he_digest h j))"

definition version_bindings_ok :: "agent_version \<Rightarrow> bool" where
  "version_bindings_ok v \<longleftrightarrow> bindings_ok (av_llm v) (av_stt v) (av_tts v) (av_tools v)"

lemma validate_binding_ok:
  "validate_llm_binding j = Inr a \<Longrightarrow> check_llm_binding a = Inr a"
  "validate_stt_binding j = Inr b \<Longrightarrow> check_stt_binding b = Inr b"
  "validate_tts_binding j = Inr c \<Longrightarrow> check_tts_binding c = Inr c"
  "validate_tool_binding j = Inr e \<Longrightarrow> check_tool_binding e = Inr e"
  by (auto simp: validate_llm_binding_def validate_stt_binding_def validate_tts_binding_def
    validate_tool_binding_def intro: check_binding_idem split: sum.splits)

lemma version_to_contract_Inr:
  assumes "version_to_contract r = Inr v"
  shows "check_agent_version v = Inr v" and "version_bindings_ok v"
    and "parse_version_status (vr_status r) = Inr (av_status v)"
    and "av_id v = vr_id r" "av_organization_id v = vr_organization_id r"
    "av_project_id v = vr_project_id r" "av_agent_id v = vr_agent_id r"
    "av_version_n v = vr_version_n r" "av_instructions v = vr_instructions r"
    "av_personality v = vr_personality r" "av_locale v = vr_locale r"
    "av_config_hash v = Some (vr_config_hash r)" "av_created_by v = vr_created_by r"
    "av_created_at v = vr_created_at r" "av_published_at v = vr_published_at r"
  using assms validate_binding_ok(4) validate_all_Inr_all [of validate_tool_binding "vr_tools r"]
  by (auto simp: version_to_contract_def and_then_Inr check_agent_version_Inr version_bindings_ok_def
    bindings_ok_def dest: validate_binding_ok)

text \<open>The configuration of a valid version, stored in a row with its other fields, reads back.\<close>

lemma stored_version_reads_back:
  assumes "check_agent_version v = Inr v" and "version_bindings_ok v"
    and "parse_version_status (vr_status r) = Inr (av_status v)"
    and "av_id v = vr_id r" "av_organization_id v = vr_organization_id r"
    "av_project_id v = vr_project_id r" "av_agent_id v = vr_agent_id r"
    "av_version_n v = vr_version_n r" "av_created_by v = vr_created_by r"
    "av_created_at v = vr_created_at r" "av_published_at v = vr_published_at r"
    and "av_config_hash v = Some x"
  shows "version_to_contract (store_version_config v r) = Inr v"
proof -
  have "validate_all validate_tool_binding (map dump_tool_binding (av_tools v)) = Inr (av_tools v)"
    using assms(2) by (intro validate_all_dump) (simp add: version_bindings_ok_def bindings_ok_def list_all_iff)
  moreover have "v = \<lparr>av_id = vr_id r, av_organization_id = vr_organization_id r,
      av_project_id = vr_project_id r, av_agent_id = vr_agent_id r, av_version_n = vr_version_n r,
      av_status = av_status v, av_instructions = av_instructions v, av_personality = av_personality v,
      av_locale = av_locale v, av_llm = av_llm v, av_stt = av_stt v, av_tts = av_tts v,
      av_tools = av_tools v, av_config_hash = Some (the (av_config_hash v)),
      av_created_by = vr_created_by r, av_created_at = vr_created_at r, av_published_at = vr_published_at r\<rparr>"
    using assms(4-12) by (cases v) simp
  ultimately show ?thesis
    using assms(1-3) by (simp add: version_to_contract_def store_version_config_def version_bindings_ok_def bindings_ok_def)
qed

lemma with_config_hash_ok:
  assumes "check_agent_version v = Inr v" and "hash_ok h"
  shows "check_agent_version (with_config_hash h v) = Inr (with_config_hash h v)"
  using assms by (simp add: check_agent_version_Inr with_config_hash_def hash_ok_def compute_config_hash_def)

lemma with_config_hash_frame [simp]:
  "av_id (with_config_hash h v) = av_id v" "av_organization_id (with_config_hash h v) = av_organization_id v"
  "av_project_id (with_config_hash h v) = av_project_id v" "av_agent_id (with_config_hash h v) = av_agent_id v"
  "av_version_n (with_config_hash h v) = av_version_n v" "av_status (with_config_hash h v) = av_status v"
  "av_created_by (with_config_hash h v) = av_created_by v" "av_created_at (with_config_hash h v) = av_created_at v"
  "av_published_at (with_config_hash h v) = av_published_at v"
  "version_bindings_ok (with_config_hash h v) = version_bindings_ok v"
  by (simp_all add: with_config_hash_def version_bindings_ok_def)

lemma config_hash_simps [simp]:
  "compute_config_hash h (with_config_hash h' v) = compute_config_hash h v"
  "vr_config_hash (row_of_version (with_config_hash h v)) = compute_config_hash h v"
  "vr_config_hash (store_version_config (with_config_hash h v) r) = compute_config_hash h v"
  "compute_config_hash h (v\<lparr>av_status := st, av_published_at := t\<rparr>) = compute_config_hash h v"
  by (simp_all add: compute_config_hash_def config_payload_def with_config_hash_def row_of_version_def
    store_version_config_def)

text \<open>A new draft.\<close>

lemma row_of_version_reads_back:
  assumes "check_agent_version v = Inr v" and "version_bindings_ok v" and "hash_ok h"
    and "av_created_by v = None" and "av_published_at v = None"
  shows "version_to_contract (row_of_version (with_config_hash h v)) = Inr (with_config_hash h v)"
proof -
  let ?v = "with_config_hash h v"
  have "row_of_version ?v = store_version_config ?v (row_of_version ?v)"
    by (simp add: row_of_version_def store_version_config_def)
  moreover have "version_to_contract (store_version_config ?v (row_of_version ?v)) = Inr ?v"
    by (rule stored_version_reads_back [where x = "compute_config_hash h v"])
      (use assms with_config_hash_ok in \<open>simp_all add: row_of_version_def with_config_hash_def version_bindings_ok_def\<close>)
  ultimately show ?thesis by simp
qed

section \<open>Computations and lookups\<close>

lemma bind_Inr: "bind_eff m f d = (Inr y, d') \<longleftrightarrow> (\<exists>x d1. m d = (Inr x, d1) \<and> f x d1 = (Inr y, d'))"
  by (cases "m d"; cases "fst (m d)") (auto simp: bind_eff_def)

lemma then_Inr: "then_eff m n d = (Inr y, d') \<longleftrightarrow> (\<exists>x d1. m d = (Inr x, d1) \<and> n d1 = (Inr y, d'))"
  by (simp add: then_eff_def bind_Inr)

lemma require_Inr: "require e f d = (Inr r, d') \<longleftrightarrow> f d = Some r \<and> d' = d"
  by (auto simp: require_def eff_defs split: option.splits)

lemma lift_Inr: "lift_eff r d = (Inr y, d') \<longleftrightarrow> r = Inr y \<and> d' = d"
  by (auto simp: lift_eff_def)

lemma ret_Inr: "ret x d = (Inr y, d') \<longleftrightarrow> x = y \<and> d' = d"
  by (auto simp: ret_def)

lemma add_row_Inr: "add_row violation upd r d = (Inr u, d') \<longleftrightarrow> violation d r = None \<and> d' = upd (\<lambda>rs. rs @ [r]) d"
  by (auto simp: add_row_def eff_defs split: option.splits)

lemmas run_Inr = bind_Inr then_Inr require_Inr lift_Inr ret_Inr add_row_Inr

lemma foldl_max_bounds: "(m :: int) \<le> foldl max m ns" "k \<in> set ns \<Longrightarrow> k \<le> foldl max m ns"
proof (induction ns arbitrary: m)
  case (Cons n ns)
  { case 1 show ?case using Cons(1) [of "max m n"] by simp }
  { case 2 then show ?case using Cons(1,2) [of "max m n"] by auto }
qed simp_all

lemma scalar_snoc: "\<forall>x \<in> set rows. \<not> P x \<Longrightarrow> P r \<Longrightarrow> scalar (rows @ [r]) P = Some r"
  by (induction rows) (auto simp: scalar_def)

section \<open>Requests\<close>

lemma check_tools_Inr:
  assumes "check_tools bs = Inr cs"
  shows "distinct (map tb_tool_name cs)" and "list_all (\<lambda>b. check_tool_binding b = Inr b) cs"
  using assms validate_all_Inr_all [of check_tool_binding bs cs "\<lambda>b. check_tool_binding b = Inr b"]
  by (auto simp: check_tools_def and_then_Inr validate_tools_iff intro: check_binding_idem(4))

lemma check_version_create_Inr:
  assumes "check_version_create b = Inr r"
  shows "vcr_instructions r \<noteq> []" "length (vcr_instructions r) \<le> 32000"
    "length (vcr_personality r) \<le> 8000" "2 \<le> length (vcr_locale r)" "length (vcr_locale r) \<le> 16"
    "distinct (map tb_tool_name (vcr_tools r))"
    "bindings_ok (vcr_llm r) (vcr_stt r) (vcr_tts r) (vcr_tools r)"
proof -
  obtain l s t bs where "check_llm_binding (vcr_llm b) = Inr l" "check_stt_binding (vcr_stt b) = Inr s"
      "check_tts_binding (vcr_tts b) = Inr t" "check_tools (vcr_tools b) = Inr bs"
      and r: "r = b\<lparr>vcr_llm := l, vcr_stt := s, vcr_tts := t, vcr_tools := bs\<rparr>"
      and len: "len_between 1 32000 (vcr_instructions b)" "length (vcr_personality b) \<le> 8000"
        "len_between 2 16 (vcr_locale b)"
    using assms by (auto simp: check_version_create_def and_then_Inr split: if_splits)
  then have "bindings_ok l s t bs" "distinct (map tb_tool_name bs)"
    using check_tools_Inr by (auto simp: bindings_ok_def dest: check_binding_idem)
  then show "vcr_instructions r \<noteq> []" "length (vcr_instructions r) \<le> 32000"
    "length (vcr_personality r) \<le> 8000" "2 \<le> length (vcr_locale r)" "length (vcr_locale r) \<le> 16"
    "distinct (map tb_tool_name (vcr_tools r))"
    "bindings_ok (vcr_llm r) (vcr_stt r) (vcr_tts r) (vcr_tools r)"
    using r len by (auto simp: len_between_def)
qed

lemma set_if_None [simp]: "set_if None f r = r" and set_if_Some [simp]: "set_if (Some x) f r = f x r"
  by (simp_all add: set_if_def)

lemma check_opt_Inr:
  "check_opt f x = Inr y \<longleftrightarrow> (x = None \<and> y = None) \<or> (\<exists>a b. x = Some a \<and> f a = Inr b \<and> y = Some b)"
  by (cases x; cases "f (the x)") (auto simp: check_opt_def)

lemma apply_version_update_frame [simp]:
  "av_id (apply_version_update b v) = av_id v"
  "av_organization_id (apply_version_update b v) = av_organization_id v"
  "av_project_id (apply_version_update b v) = av_project_id v"
  "av_agent_id (apply_version_update b v) = av_agent_id v"
  "av_version_n (apply_version_update b v) = av_version_n v"
  "av_status (apply_version_update b v) = av_status v"
  "av_created_by (apply_version_update b v) = av_created_by v"
  "av_created_at (apply_version_update b v) = av_created_at v"
  "av_published_at (apply_version_update b v) = av_published_at v"
  by (simp_all add: apply_version_update_def set_if_def split: option.splits)

lemma apply_version_update_config:
  "av_instructions (apply_version_update b v) = (case vur_instructions b of None \<Rightarrow> av_instructions v | Some x \<Rightarrow> x)"
  "av_personality (apply_version_update b v) = (case vur_personality b of None \<Rightarrow> av_personality v | Some x \<Rightarrow> x)"
  "av_locale (apply_version_update b v) = (case vur_locale b of None \<Rightarrow> av_locale v | Some x \<Rightarrow> x)"
  "av_llm (apply_version_update b v) = (case vur_llm b of None \<Rightarrow> av_llm v | Some x \<Rightarrow> x)"
  "av_stt (apply_version_update b v) = (case vur_stt b of None \<Rightarrow> av_stt v | Some x \<Rightarrow> x)"
  "av_tts (apply_version_update b v) = (case vur_tts b of None \<Rightarrow> av_tts v | Some x \<Rightarrow> x)"
  "av_tools (apply_version_update b v) = (case vur_tools b of None \<Rightarrow> av_tools v | Some x \<Rightarrow> x)"
  "av_config_hash (apply_version_update b v) = av_config_hash v"
  by (simp_all add: apply_version_update_def set_if_def split: option.splits)

lemma check_version_update_Inr:
  assumes "check_version_update b = Inr r"
  shows "opt_ok (\<lambda>x. x \<noteq> [] \<and> length x \<le> 32000) (vur_instructions r)" "opt_ok (len_between 0 8000) (vur_personality r)"
    "opt_ok (len_between 2 16) (vur_locale r)" "opt_ok (\<lambda>l. check_llm_binding l = Inr l) (vur_llm r)"
    "opt_ok (\<lambda>s. check_stt_binding s = Inr s) (vur_stt r)" "opt_ok (\<lambda>t. check_tts_binding t = Inr t) (vur_tts r)"
    "opt_ok (\<lambda>bs. distinct (map tb_tool_name bs) \<and> list_all (\<lambda>b. check_tool_binding b = Inr b) bs) (vur_tools r)"
proof -
  obtain l s t bs where c: "check_opt check_llm_binding (vur_llm b) = Inr l"
      "check_opt check_stt_binding (vur_stt b) = Inr s" "check_opt check_tts_binding (vur_tts b) = Inr t"
      "check_opt check_tools (vur_tools b) = Inr bs"
      and r: "r = b\<lparr>vur_llm := l, vur_stt := s, vur_tts := t, vur_tools := bs\<rparr>"
      and len: "opt_ok (len_between 1 32000) (vur_instructions b)" "opt_ok (len_between 0 8000) (vur_personality b)"
        "opt_ok (len_between 2 16) (vur_locale b)"
    using assms by (auto simp: check_version_update_def and_then_Inr split: if_splits)
  show "opt_ok (\<lambda>x. x \<noteq> [] \<and> length x \<le> 32000) (vur_instructions r)"
    "opt_ok (len_between 0 8000) (vur_personality r)" "opt_ok (len_between 2 16) (vur_locale r)"
    using r len by (auto simp: opt_ok_def len_between_def split: option.splits)
  show "opt_ok (\<lambda>l. check_llm_binding l = Inr l) (vur_llm r)"
    "opt_ok (\<lambda>s. check_stt_binding s = Inr s) (vur_stt r)" "opt_ok (\<lambda>t. check_tts_binding t = Inr t) (vur_tts r)"
    using c r by (auto simp: check_opt_Inr opt_ok_def dest: check_binding_idem)
  show "opt_ok (\<lambda>bs. distinct (map tb_tool_name bs) \<and> list_all (\<lambda>b. check_tool_binding b = Inr b) bs) (vur_tools r)"
    using c(4) r check_tools_Inr by (auto simp: check_opt_Inr opt_ok_def)
qed

lemma apply_version_update_ok:
  assumes "check_version_update b = Inr r" and "check_agent_version v = Inr v" and "version_bindings_ok v"
  shows "check_agent_version (apply_version_update r v) = Inr (apply_version_update r v)"
    and "version_bindings_ok (apply_version_update r v)"
  using check_version_update_Inr [OF assms(1)] assms(2,3)
  by (simp_all add: check_agent_version_Inr version_bindings_ok_def bindings_ok_def
    apply_version_update_config opt_ok_def len_between_def split: option.splits)

end
