(* ===== verification/ControlInv.thy ===== *)
theory ControlInv
  imports ControlVersions
begin

text \<open>
  The requests a client can make of the control plane, the response of the routes to them, and
  the invariant of the database: references stay within one tenant, keys are unique, every
  stored version reads back as a valid contract. The safety argument is the
  \<open>forward_invariant\<close> calculus interpreted on the database, moving forward meaning that a
  given published version stays as it is.
\<close>

section \<open>Routes\<close>

record api_env =
  ev_hash :: hash_env
  ev_ingest :: ingest_env

text \<open>A write request; fresh UUIDs and the clock are part of it.\<close>

datatype api_request =
    CreateAgent uuid time uuid agent_create_request
  | UpdateAgent time uuid uuid agent_update_request
  | DeleteAgent uuid uuid
  | CreateVersion uuid time uuid uuid version_create_request
  | UpdateVersion uuid uuid uuid version_update_request
  | PublishVersion time uuid uuid uuid
  | CreateSession uuid time uuid session_create_request
  | CreateTool uuid time uuid tool_create_request
  | UpdateTool time uuid uuid tool_update_request
  | DeleteTool uuid uuid
  | AttachTool time uuid uuid uuid uuid
  | DetachTool uuid uuid uuid uuid
  | CreateKnowledgeBase uuid time uuid string string
  | CreateDocument uuid "nat \<Rightarrow> uuid" time uuid string string

text \<open>The framework validates the body before the route runs; an invalid one is status 422.\<close>

definition with_body :: "'b result \<Rightarrow> ('b \<Rightarrow> (db, 'a) eff) \<Rightarrow> (db, unit) eff" where
  "with_body checked route =
     (case checked of
        Inl _ \<Rightarrow> throw (AppErr ''validation_error'' ''Request validation failed'' 422)
      | Inr body \<Rightarrow> session_scope (then_eff (route body) (ret ())))"

fun api_step :: "api_env \<Rightarrow> api_request \<Rightarrow> db \<Rightarrow> (unit result \<times> db) option" where
  "api_step en (CreateAgent uid now pj b) d =
     Some (with_body (check_agent_create b) (api_create_agent uid now pj) d)"
| "api_step en (UpdateAgent now pj ag b) d =
     Some (with_body (check_agent_update b) (api_update_agent now pj ag) d)"
| "api_step en (DeleteAgent pj ag) d = Some (session_scope (api_delete_agent pj ag) d)"
| "api_step en (CreateVersion uid now pj ag b) d =
     Some (with_body (check_version_create b) (api_create_version (ev_hash en) uid now pj ag) d)"
| "api_step en (UpdateVersion pj ag vid b) d =
     Some (with_body (check_version_update b) (api_update_version (ev_hash en) pj ag vid) d)"
| "api_step en (PublishVersion now pj ag vid) d =
     Some (session_scope (then_eff (api_publish_version now pj ag vid) (ret ())) d)"
| "api_step en (CreateSession uid now pj b) d =
     Some (with_body (check_session_create b) (api_create_session uid now pj) d)"
| "api_step en (CreateTool uid now pj b) d =
     Some (with_body (check_tool_create b) (api_create_tool uid now pj) d)"
| "api_step en (UpdateTool now pj tid b) d =
     Some (with_body (check_tool_update b) (api_update_tool now pj tid) d)"
| "api_step en (DeleteTool pj tid) d = Some (session_scope (api_delete_tool pj tid) d)"
| "api_step en (AttachTool now pj ag vid tid) d =
     Some (session_scope (then_eff (api_attach_tool now pj ag vid tid) (ret ())) d)"
| "api_step en (DetachTool pj ag vid tid) d = Some (session_scope (api_detach_tool pj ag vid tid) d)"
| "api_step en (CreateKnowledgeBase uid now pj n desc) d =
     Some (session_scope (then_eff (api_create_knowledge_base uid now pj n desc) (ret ())) d)"
| "api_step en (CreateDocument uid uids now kb n c) d =
     (case api_create_document (ev_ingest en) uid uids now kb n c d of
        None \<Rightarrow> None
      | Some r \<Rightarrow> Some (session_scope (then_eff (\<lambda>_. r) (ret ())) d))"

text \<open>The database after a sequence of requests; one that never returns commits nothing.\<close>

fun api_run :: "api_env \<Rightarrow> api_request list \<Rightarrow> db \<Rightarrow> db" where
  "api_run en [] d = d"
| "api_run en (r # rs) d =
     api_run en rs (case api_step en r d of None \<Rightarrow> d | Some (_, d') \<Rightarrow> d')"

section \<open>The invariant\<close>

text \<open>What other tables refer to: the identity of a row with its tenant.\<close>

definition project_key :: "project_row \<Rightarrow> uuid \<times> uuid" where
  "project_key p = (pr_id p, pr_organization_id p)"

definition agent_key :: "agent_row \<Rightarrow> uuid \<times> uuid \<times> uuid" where
  "agent_key a = (ar_id a, ar_organization_id a, ar_project_id a)"

definition version_key :: "version_row \<Rightarrow> uuid \<times> uuid \<times> uuid \<times> uuid" where
  "version_key v = (vr_id v, vr_agent_id v, vr_organization_id v, vr_project_id v)"

definition tool_key :: "tool_row \<Rightarrow> uuid \<times> uuid \<times> uuid" where
  "tool_key t = (dr_id t, dr_organization_id t, dr_project_id t)"

lemmas key_defs = project_key_def agent_key_def version_key_def tool_key_def

definition agents_ok :: "db \<Rightarrow> bool" where
  "agents_ok d \<longleftrightarrow> distinct (map pr_id (db_projects d)) \<and> distinct (map ar_id (db_agents d)) \<and>
     (\<forall>a \<in> set (db_agents d). (ar_project_id a, ar_organization_id a) \<in> project_key ` set (db_projects d))"

definition version_row_ok :: "hash_env \<Rightarrow> version_row \<Rightarrow> bool" where
  "version_row_ok h r \<longleftrightarrow>
     (\<exists>v. version_to_contract r = Inr v \<and> vr_config_hash r = compute_config_hash h v)"

definition versions_ok :: "hash_env \<Rightarrow> db \<Rightarrow> bool" where
  "versions_ok h d \<longleftrightarrow> distinct (map vr_id (db_versions d)) \<and>
     distinct (map (\<lambda>v. (vr_agent_id v, vr_version_n v)) (db_versions d)) \<and>
     (\<forall>v \<in> set (db_versions d). version_row_ok h v \<and>
        (vr_agent_id v, vr_organization_id v, vr_project_id v) \<in> agent_key ` set (db_agents d))"

definition sessions_ok :: "db \<Rightarrow> bool" where
  "sessions_ok d \<longleftrightarrow> distinct (map sr_id (db_sessions d)) \<and>
     (\<forall>s \<in> set (db_sessions d). (sr_agent_version_id s, sr_agent_id s, sr_organization_id s,
        sr_project_id s) \<in> version_key ` set (db_versions d))"

definition tools_ok :: "db \<Rightarrow> bool" where
  "tools_ok d \<longleftrightarrow> distinct (map dr_id (db_tools d)) \<and>
     distinct (map (\<lambda>t. (dr_project_id t, dr_name t)) (db_tools d)) \<and>
     (\<forall>t \<in> set (db_tools d). (dr_project_id t, dr_organization_id t) \<in> project_key ` set (db_projects d))"

definition version_tools_ok :: "db \<Rightarrow> bool" where
  "version_tools_ok d \<longleftrightarrow> distinct (map version_tool_key (db_version_tools d)) \<and>
     (\<forall>x \<in> set (db_version_tools d). \<exists>ag org pj.
        (vt_agent_version_id x, ag, org, pj) \<in> version_key ` set (db_versions d) \<and>
        (vt_tool_definition_id x, org, pj) \<in> tool_key ` set (db_tools d))"

definition control_inv :: "hash_env \<Rightarrow> db \<Rightarrow> bool" where
  "control_inv h d \<longleftrightarrow> agents_ok d \<and> versions_ok h d \<and> sessions_ok d \<and> tools_ok d \<and> version_tools_ok d"

lemmas inv_defs = control_inv_def agents_ok_def versions_ok_def sessions_ok_def tools_ok_def
  version_tools_ok_def

text \<open>A database with tenants and nothing else satisfies it.\<close>

definition seeded :: "db \<Rightarrow> bool" where
  "seeded d \<longleftrightarrow> distinct (map pr_id (db_projects d)) \<and> db_agents d = [] \<and> db_versions d = [] \<and>
     db_sessions d = [] \<and> db_tools d = [] \<and> db_version_tools d = []"

lemma seeded_inv: "seeded d \<Longrightarrow> control_inv h d"
  by (simp add: seeded_def inv_defs)

text \<open>Moving forward: the published version \<open>v\<close> and every session stay as they are.\<close>

definition keeps :: "version_row \<Rightarrow> db \<Rightarrow> db \<Rightarrow> bool" where
  "keeps v d d' \<longleftrightarrow> (vr_status v = ''published'' \<and> v \<in> set (db_versions d) \<longrightarrow> v \<in> set (db_versions d')) \<and>
     set (db_sessions d) \<subseteq> set (db_sessions d')"

definition pinned :: "version_row \<Rightarrow> db \<Rightarrow> bool" where
  "pinned v d \<longleftrightarrow> vr_id v \<in> sr_agent_version_id ` set (db_sessions d)"

interpretation ctl: forward_invariant "control_inv h" "keeps v" for h v
  by unfold_locales (auto simp: keeps_def)

section \<open>Tables\<close>

lemma has_row_iff: "has_row key k rows \<longleftrightarrow> k \<in> key ` set rows"
  by (auto simp: has_row_def list_ex_iff)

lemma scalar_Some: "scalar rows P = Some r \<Longrightarrow> r \<in> set rows \<and> P r"
  by (metis find_Some_iff nth_mem scalar_def)

lemma map_replace_key:
  "\<forall>x \<in> set xs. key x = key r \<longrightarrow> g x = g r \<Longrightarrow>
   map g (map (\<lambda>x. if key x = key r then r else x) xs) = map g xs"
  by (induction xs) auto

lemma distinct_map_replace:
  "distinct (map key xs) \<Longrightarrow> distinct (map g xs) \<Longrightarrow> \<forall>x \<in> set xs. key x \<noteq> key r \<longrightarrow> g x \<noteq> g r \<Longrightarrow>
   distinct (map g (map (\<lambda>x. if key x = key r then r else x) xs))"
proof (induction xs)
  case (Cons a xs)
  then have "distinct (map g (map (\<lambda>x. if key x = key r then r else x) xs))" by simp
  moreover have "map (\<lambda>x. if key x = key r then r else x) xs = xs" if "key a = key r"
    using Cons.prems(1) that by (intro map_idI) (auto simp: image_iff)
  moreover have "g r \<notin> g ` set xs" if "key a = key r"
    using Cons.prems that by (metis distinct.simps(2) image_iff list.set_intros(2) list.set_map list.simps(9))
  ultimately show ?case using Cons.prems by (cases "key a = key r") (auto simp: image_iff split: if_splits)
qed simp

lemma distinct_map_filter_key: "distinct (map g xs) \<Longrightarrow> distinct (map g (filter P xs))"
  by (simp add: distinct_map_filter)

section \<open>Steps of the calculus\<close>

lemma safe_require:
  "control_inv h d \<Longrightarrow> ctl.safe h v d (require e f) (\<lambda>r d'. d' = d \<and> f d = Some r)"
  unfolding require_def
  by (rule ctl.safe_with) (auto split: option.splits intro: ctl.safe_throw ctl.safe_ret)

lemma safe_require_project:
  "control_inv h d \<Longrightarrow> ctl.safe h v d (require_project pj)
     (\<lambda>p d'. d' = d \<and> p \<in> set (db_projects d) \<and> pr_id p = pj)"
  unfolding require_project_def
  by (rule ctl.safe_weaken [OF safe_require]) (auto simp: get_project_def dest: scalar_Some)

text \<open>After a lookup that leaves the state, continue in the same state.\<close>

lemma safe_lookup:
  assumes "ctl.safe h v d m (\<lambda>a d'. d' = d \<and> P a)" and "\<And>a. P a \<Longrightarrow> ctl.safe h v d (f a) Q"
  shows "ctl.safe h v d (bind_eff m f) Q"
  using assms(1) by (rule ctl.safe_bind) (use assms(2) in auto)

lemma safe_ret_pair:
  "control_inv h d \<Longrightarrow> P a \<Longrightarrow> ctl.safe h v d (ret a) (\<lambda>a d'. d' = d \<and> P a)"
  by (rule ctl.safe_ret) auto

lemma safe_require_agent:
  assumes "control_inv h d"
  shows "ctl.safe h v d (require_agent pj ag) (\<lambda>r d'. d' = d \<and> (case r of (p, a) \<Rightarrow>
    p \<in> set (db_projects d) \<and> pr_id p = pj \<and> a \<in> set (db_agents d) \<and> ar_id a = ag \<and>
    ar_project_id a = pr_id p \<and> ar_organization_id a = pr_organization_id p))"
  unfolding require_agent_def
  by (intro safe_lookup [OF safe_require_project] safe_lookup [OF safe_require] safe_ret_pair assms)
    (auto simp: agent_get_in_project_def dest: scalar_Some)

lemma safe_require_session:
  assumes "control_inv h d"
  shows "ctl.safe h v d (require_session pj sid) (\<lambda>r d'. d' = d \<and> snd r \<in> set (db_sessions d))"
  unfolding require_session_def
  by (intro safe_lookup [OF safe_require_project] safe_lookup [OF safe_require] safe_ret_pair assms)
    (auto simp: session_row_get_def dest: scalar_Some)

lemma safe_require_tool:
  assumes "control_inv h d"
  shows "ctl.safe h v d (require_tool pj tid) (\<lambda>r d'. d' = d \<and> (case r of (p, t) \<Rightarrow>
    p \<in> set (db_projects d) \<and> pr_id p = pj \<and> t \<in> set (db_tools d) \<and> dr_id t = tid \<and>
    dr_project_id t = pr_id p \<and> dr_organization_id t = pr_organization_id p))"
  unfolding require_tool_def
  by (intro safe_lookup [OF safe_require_project] safe_lookup [OF safe_require] safe_ret_pair assms)
    (auto simp: tool_get_in_project_def dest: scalar_Some)

lemma version_get_for_agent_Some:
  "version_get_for_agent ag org pj vid d = Some x \<Longrightarrow> x \<in> set (db_versions d) \<and> vr_id x = vid \<and>
     vr_agent_id x = ag \<and> vr_organization_id x = org \<and> vr_project_id x = pj"
  by (auto simp: version_get_for_agent_def dest: scalar_Some)

lemma safe_require_version:
  assumes "control_inv h d"
  shows "ctl.safe h v d (require_version pj ag vid) (\<lambda>r d'. d' = d \<and> r \<in> set (db_versions d) \<and>
    vr_id r = vid \<and> vr_project_id r = pj)"
  unfolding require_version_def
  by (intro safe_lookup [OF safe_require_project] assms,
      rule ctl.safe_weaken [OF safe_require [OF assms]]) (auto dest: version_get_for_agent_Some)

lemma safe_require_agent_version:
  assumes "control_inv h d"
  shows "ctl.safe h v d (require_agent_version pj ag vid) (\<lambda>r d'. d' = d \<and> r \<in> set (db_versions d) \<and>
    vr_id r = vid \<and> vr_project_id r = pj \<and>
    (\<exists>p \<in> set (db_projects d). pr_id p = pj \<and> vr_organization_id r = pr_organization_id p))"
  unfolding require_agent_version_def
  by (intro safe_lookup [OF safe_require_agent] assms, clarsimp,
      rule ctl.safe_weaken [OF safe_require [OF assms]]) (auto dest: version_get_for_agent_Some)

lemma safe_require_draft_version:
  assumes "control_inv h d"
  shows "ctl.safe h v d (require_draft_version pj ag vid) (\<lambda>r d'. d' = d \<and> r \<in> set (db_versions d) \<and>
    vr_id r = vid \<and> vr_project_id r = pj \<and>
    (\<exists>p \<in> set (db_projects d). pr_id p = pj \<and> vr_organization_id r = pr_organization_id p))"
  unfolding require_draft_version_def
  by (intro safe_lookup [OF safe_require_agent_version] ctl.safe_if ctl.safe_throw safe_ret_pair assms)

lemma safe_add_row:
  assumes "control_inv h d"
    and "violation d r = None \<Longrightarrow> control_inv h (upd (\<lambda>rs. rs @ [r]) d) \<and> keeps v d (upd (\<lambda>rs. rs @ [r]) d)"
  shows "ctl.safe h v d (add_row violation upd r) (\<lambda>_ _. True)"
  unfolding add_row_def
  by (rule ctl.safe_with) (use assms in \<open>auto split: option.splits intro: ctl.safe_throw ctl.safe_modify\<close>)

lemma safe_replace_row:
  assumes "control_inv h d"
    and "violation (upd (filter (\<lambda>x. key x \<noteq> key r)) d) r = None \<Longrightarrow>
      control_inv h (upd (map (\<lambda>x. if key x = key r then r else x)) d) \<and>
      keeps v d (upd (map (\<lambda>x. if key x = key r then r else x)) d)"
  shows "ctl.safe h v d (replace_row violation upd key r) (\<lambda>_ _. True)"
  unfolding replace_row_def
  by (rule ctl.safe_with)
    (use assms in \<open>auto split: option.splits intro: ctl.safe_throw ctl.safe_modify\<close>)

lemma safe_then_lift:
  "ctl.safe h v d m (\<lambda>_ _. True) \<Longrightarrow> ctl.safe h v d (then_eff m (lift_eff r)) (\<lambda>_ _. True)"
  by (erule ctl.safe_then) (auto intro: ctl.safe_lift)

lemma safe_session_scope:
  assumes "control_inv h d" and "ctl.safe h v d m Q"
  shows "ctl.safe h v d (session_scope m) Q"
  using assms ctl.le_refl
  by (cases "m d") (auto simp: ctl.safe_def session_scope_def split: sum.splits)

section \<open>Rows sent to the database\<close>

lemma image_replace:
  assumes "\<forall>x \<in> set xs. key x = key r \<longrightarrow> g x = g r"
  shows "g ` set (map (\<lambda>x. if key x = key r then r else x) xs) = g ` set xs"
  using map_replace_key [OF assms] by (metis set_map)

lemma agent_add_inv:
  assumes "control_inv h d" and "agent_violation d r = None"
    and "(ar_project_id r, ar_organization_id r) \<in> project_key ` set (db_projects d)"
  shows "control_inv h (db_agents_update (\<lambda>rs. rs @ [r]) d)"
  using assms by (auto simp: inv_defs agent_violation_def has_row_iff split: if_splits)

lemma version_add_inv:
  assumes "control_inv h d" and "version_violation d r = None" and "version_row_ok h r"
    and "(vr_agent_id r, vr_organization_id r, vr_project_id r) \<in> agent_key ` set (db_agents d)"
  shows "control_inv h (db_versions_update (\<lambda>rs. rs @ [r]) d)"
  using assms
  by (simp add: inv_defs version_violation_def has_row_iff split: if_splits) blast

lemma session_add_inv:
  assumes "control_inv h d" and "session_violation d r = None"
    and "(sr_agent_version_id r, sr_agent_id r, sr_organization_id r, sr_project_id r)
      \<in> version_key ` set (db_versions d)"
  shows "control_inv h (db_sessions_update (\<lambda>rs. rs @ [r]) d)"
  using assms by (auto simp: inv_defs session_violation_def has_row_iff split: if_splits)

lemma tool_add_inv:
  assumes "control_inv h d" and "tool_violation d r = None"
    and "(dr_project_id r, dr_organization_id r) \<in> project_key ` set (db_projects d)"
  shows "control_inv h (db_tools_update (\<lambda>rs. rs @ [r]) d)"
  using assms
  by (simp add: inv_defs tool_violation_def has_row_iff split: if_splits) blast

lemma version_tool_add_inv:
  assumes "control_inv h d" and "version_tool_violation d r = None"
    and "(vt_agent_version_id r, ag, org, pj) \<in> version_key ` set (db_versions d)"
    and "(vt_tool_definition_id r, org, pj) \<in> tool_key ` set (db_tools d)"
  shows "control_inv h (db_version_tools_update (\<lambda>rs. rs @ [r]) d)"
  using assms
  by (simp add: inv_defs version_tool_violation_def has_row_iff split: if_splits) blast

lemma agent_flush_inv:
  assumes "control_inv h d" and "\<forall>x \<in> set (db_agents d). ar_id x = ar_id r \<longrightarrow> agent_key x = agent_key r"
    and "(ar_project_id r, ar_organization_id r) \<in> project_key ` set (db_projects d)"
  shows "control_inv h (db_agents_update (map (\<lambda>x. if ar_id x = ar_id r then r else x)) d)"
proof -
  have k: "agent_key ` set (map (\<lambda>x. if ar_id x = ar_id r then r else x) (db_agents d)) =
      agent_key ` set (db_agents d)"
    using assms(2) by (rule image_replace)
  have i: "map ar_id (map (\<lambda>x. if ar_id x = ar_id r then r else x) (db_agents d)) = map ar_id (db_agents d)"
    by (rule map_replace_key) simp
  show ?thesis using assms(1,3) by (simp add: inv_defs k i del: map_map set_map) auto
qed

lemma version_flush_inv:
  assumes "control_inv h d" and "version_row_ok h r"
    and "\<forall>x \<in> set (db_versions d). vr_id x = vr_id r \<longrightarrow>
      version_key x = version_key r \<and> vr_version_n x = vr_version_n r"
    and "(vr_agent_id r, vr_organization_id r, vr_project_id r) \<in> agent_key ` set (db_agents d)"
  shows "control_inv h (db_versions_update (map (\<lambda>x. if vr_id x = vr_id r then r else x)) d)"
proof -
  let ?f = "\<lambda>x. if vr_id x = vr_id r then r else x"
  have k: "version_key ` set (map ?f (db_versions d)) = version_key ` set (db_versions d)"
    using assms(3) by (intro image_replace) simp
  have i: "map vr_id (map ?f (db_versions d)) = map vr_id (db_versions d)"
    by (rule map_replace_key) simp
  have n: "map (\<lambda>v. (vr_agent_id v, vr_version_n v)) (map ?f (db_versions d)) =
      map (\<lambda>v. (vr_agent_id v, vr_version_n v)) (db_versions d)"
    using assms(3) by (intro map_replace_key) (simp add: key_defs)
  show ?thesis using assms(1,2,4) by (simp add: inv_defs k i n del: map_map set_map) auto
qed

lemma session_flush_inv:
  assumes "control_inv h d" and "(sr_agent_version_id r, sr_agent_id r, sr_organization_id r, sr_project_id r)
      \<in> version_key ` set (db_versions d)"
  shows "control_inv h (db_sessions_update (map (\<lambda>x. if sr_id x = sr_id r then r else x)) d)"
proof -
  have i: "map sr_id (map (\<lambda>x. if sr_id x = sr_id r then r else x) (db_sessions d)) = map sr_id (db_sessions d)"
    by (rule map_replace_key) simp
  show ?thesis using assms by (simp add: inv_defs i del: map_map set_map) auto
qed

lemma tool_flush_inv:
  assumes "control_inv h d"
    and "tool_violation (db_tools_update (filter (\<lambda>x. dr_id x \<noteq> dr_id r)) d) r = None"
    and "\<forall>x \<in> set (db_tools d). dr_id x = dr_id r \<longrightarrow> tool_key x = tool_key r"
    and "(dr_project_id r, dr_organization_id r) \<in> project_key ` set (db_projects d)"
  shows "control_inv h (db_tools_update (map (\<lambda>x. if dr_id x = dr_id r then r else x)) d)"
proof -
  let ?f = "\<lambda>x. if dr_id x = dr_id r then r else x" and ?g = "\<lambda>t. (dr_project_id t, dr_name t)"
  have k: "tool_key ` set (map ?f (db_tools d)) = tool_key ` set (db_tools d)"
    using assms(3) by (rule image_replace)
  have i: "map dr_id (map ?f (db_tools d)) = map dr_id (db_tools d)"
    by (rule map_replace_key) simp
  have "\<forall>x \<in> set (db_tools d). dr_id x \<noteq> dr_id r \<longrightarrow> ?g x \<noteq> ?g r"
    using assms(2) by (simp add: tool_violation_def has_row_iff image_iff split: if_splits) metis
  then have n: "distinct (map ?g (map ?f (db_tools d)))"
    using assms(1) by (intro distinct_map_replace) (simp_all add: inv_defs)
  show ?thesis using assms(1,4) n by (simp add: inv_defs k i del: map_map set_map) auto
qed

lemma version_tool_flush_inv:
  assumes "control_inv h d" and "x \<in> set (db_version_tools d)"
  shows "control_inv h (db_version_tools_update
    (map (\<lambda>y. if version_tool_key y = version_tool_key x then x\<lparr>vt_enabled := e\<rparr> else y)) d)"
proof -
  let ?f = "\<lambda>y. if version_tool_key y = version_tool_key x then x\<lparr>vt_enabled := e\<rparr> else y"
  have "map version_tool_key (map ?f (db_version_tools d)) = map version_tool_key (db_version_tools d)"
    by (induction "db_version_tools d") (auto simp: version_tool_key_def)
  moreover have "set (map ?f (db_version_tools d)) \<subseteq> insert (x\<lparr>vt_enabled := e\<rparr>) (set (db_version_tools d))"
    by auto
  ultimately show ?thesis using assms by (simp add: inv_defs del: map_map set_map) force
qed

text \<open>Deleting rows that nothing else refers to, or together with what refers to them.\<close>

lemma version_tool_drop_inv: "control_inv h d \<Longrightarrow> control_inv h (drop_rows db_version_tools_update P d)"
  by (auto simp: inv_defs drop_rows_def distinct_map_filter_key)

lemma tool_drop_inv:
  assumes "control_inv h d"
  shows "control_inv h (drop_rows db_version_tools_update (\<lambda>x. vt_tool_definition_id x = tid)
    (drop_rows db_tools_update (\<lambda>x. dr_id x = tid) d))"
proof -
  have "(vt_tool_definition_id x, org, pj) \<in> tool_key ` set (filter (\<lambda>x. dr_id x \<noteq> tid) (db_tools d))"
    if "(vt_tool_definition_id x, org, pj) \<in> tool_key ` set (db_tools d)" "vt_tool_definition_id x \<noteq> tid" for x org pj
    using that by (auto simp: key_defs)
  then show ?thesis
    using assms by (simp add: inv_defs drop_rows_def distinct_map_filter_key) blast
qed

lemma inv_frame [simp]:
  "control_inv h (db_messages_update f1 d) = control_inv h d"
  "control_inv h (db_summaries_update f2 d) = control_inv h d"
  "control_inv h (db_version_kbs_update f3 d) = control_inv h d"
  "control_inv h (db_knowledge_bases_update f4 d) = control_inv h d"
  "control_inv h (db_documents_update f5 d) = control_inv h d"
  "control_inv h (db_chunks_update f6 d) = control_inv h d"
  by (simp_all add: inv_defs)

section \<open>Requests keep the invariant\<close>

lemma keeps_frame [simp]:
  "keeps v d (db_agents_update f1 d)" "keeps v d (db_sessions_update (\<lambda>rs. rs @ [s]) d)"
  "keeps v d (db_tools_update f3 d)" "keeps v d (db_version_tools_update f4 d)"
  "keeps v d (db_versions_update (\<lambda>rs. rs @ [r]) d)"
  "keeps v d (db_knowledge_bases_update f5 d)" "keeps v d (db_documents_update f6 d)"
  "keeps v d (db_chunks_update f7 d)"
  by (simp_all add: keeps_def subset_insertI)

lemma project_key_image: "p \<in> set (db_projects d) \<Longrightarrow> (pr_id p, pr_organization_id p) \<in> project_key ` set (db_projects d)"
  by (auto simp: key_defs)

lemma safe_create_agent:
  assumes "control_inv h d"
  shows "ctl.safe h v d (api_create_agent uid now pj b) (\<lambda>_ _. True)"
  unfolding api_create_agent_def Let_def agent_add_def
  by (intro safe_lookup [OF safe_require_project] safe_then_lift safe_add_row assms)
    (auto intro!: agent_add_inv simp: project_key_image assms)

lemma agent_update_frame [simp]:
  "ar_id (apply_agent_update now b r) = ar_id r"
  "ar_organization_id (apply_agent_update now b r) = ar_organization_id r"
  "ar_project_id (apply_agent_update now b r) = ar_project_id r"
  by (auto simp: apply_agent_update_def set_if_def split: option.splits)

lemma distinct_key_eq: "distinct (map key xs) \<Longrightarrow> x \<in> set xs \<Longrightarrow> y \<in> set xs \<Longrightarrow> key x = key y \<Longrightarrow> x = y"
  by (auto simp: distinct_map inj_on_def)

lemma safe_update_agent:
  assumes inv: "control_inv h d"
  shows "ctl.safe h v d (api_update_agent now pj ag b) (\<lambda>_ _. True)"
proof -
  have "control_inv h (db_agents_update (map (\<lambda>x. if ar_id x = ar_id r then apply_agent_update now b r else x)) d)"
    if r: "r \<in> set (db_agents d)" for r
  proof -
    have "agent_key x = agent_key (apply_agent_update now b r)"
      if "x \<in> set (db_agents d)" "ar_id x = ar_id r" for x
    proof -
      have "x = r" using distinct_key_eq [of ar_id "db_agents d" x r] inv that r by (simp add: inv_defs)
      then show ?thesis by (simp add: key_defs)
    qed
    then show ?thesis
      using agent_flush_inv [OF inv, of "apply_agent_update now b r"] inv r by (simp add: inv_defs)
  qed
  then show ?thesis
    unfolding api_update_agent_def Let_def agent_flush_def
    by (intro safe_lookup [OF safe_require_agent [OF inv]])
      (clarsimp, intro safe_then_lift safe_replace_row inv, simp)
qed

lemma image_filter_mem:
  "k \<in> g ` set xs \<Longrightarrow> (\<And>x. x \<in> set xs \<Longrightarrow> g x = k \<Longrightarrow> P x) \<Longrightarrow> k \<in> g ` set (filter P xs)"
  by auto

text \<open>The five tables of the invariant after an agent is deleted with what belongs to it.\<close>

lemma agent_drop_inv:
  assumes inv: "control_inv h d"
    and vids: "\<And>x. x \<in> set (db_versions d) \<Longrightarrow> vr_agent_id x = i \<Longrightarrow> vr_id x \<in> vids"
  shows "control_inv h (d\<lparr>db_agents := filter (\<lambda>r. ar_id r \<noteq> i) (db_agents d),
    db_sessions := filter (\<lambda>s. sr_agent_id s \<noteq> i) (db_sessions d),
    db_versions := filter (\<lambda>x. vr_agent_id x \<noteq> i) (db_versions d),
    db_version_tools := filter (\<lambda>t. vt_agent_version_id t \<notin> vids) (db_version_tools d)\<rparr>)"
    (is "control_inv h ?d")
proof -
  have ag: "agents_ok ?d" and tl: "tools_ok ?d"
    using inv by (simp_all add: inv_defs distinct_map_filter_key)
  have ve: "versions_ok h ?d"
    using inv by (auto simp: inv_defs distinct_map_filter_key key_defs intro!: image_filter_mem)
  have se: "sessions_ok ?d"
    using inv by (auto simp: inv_defs distinct_map_filter_key key_defs intro!: image_filter_mem)
  have "\<exists>ag org pj. (vt_agent_version_id x, ag, org, pj) \<in> version_key ` set (filter (\<lambda>y. vr_agent_id y \<noteq> i) (db_versions d))
      \<and> (vt_tool_definition_id x, org, pj) \<in> tool_key ` set (db_tools d)"
    if x: "x \<in> set (db_version_tools d)" "vt_agent_version_id x \<notin> vids" for x
  proof -
    obtain ag org pj where k: "(vt_agent_version_id x, ag, org, pj) \<in> version_key ` set (db_versions d)"
        "(vt_tool_definition_id x, org, pj) \<in> tool_key ` set (db_tools d)"
      using inv x(1) unfolding inv_defs by blast
    have "(vt_agent_version_id x, ag, org, pj) \<in> version_key ` set (filter (\<lambda>y. vr_agent_id y \<noteq> i) (db_versions d))"
      by (rule image_filter_mem [OF k(1)]) (use vids x(2) in \<open>simp add: key_defs, metis\<close>)
    with k(2) show ?thesis by blast
  qed
  then have "version_tools_ok ?d"
    using inv by (simp add: inv_defs distinct_map_filter_key)
  then show ?thesis using ag tl ve se by (simp add: control_inv_def)
qed

lemma safe_delete_agent:
  assumes inv: "control_inv h d" and v: "vr_agent_id v \<noteq> ag \<or> pinned v d"
  shows "ctl.safe h v d (api_delete_agent pj ag) (\<lambda>_ _. True)"
  unfolding api_delete_agent_def
proof (rule safe_lookup [OF safe_require_agent [OF inv]], clarsimp)
  fix p a
  assume a: "a \<in> set (db_agents d)" "ag = ar_id a"
  let ?vids = "set (map vr_id (filter (\<lambda>v. vr_agent_id v = ar_id a) (db_versions d)))"
  have kept: "keeps v d (d\<lparr>db_agents := ags, db_sessions := filter (\<lambda>s. sr_agent_id s \<noteq> ar_id a) (db_sessions d),
      db_versions := filter (\<lambda>x. vr_agent_id x \<noteq> ar_id a) (db_versions d), db_version_tools := vts\<rparr>)"
    if free: "\<not> list_ex (\<lambda>s. sr_agent_version_id s \<in> ?vids) (db_sessions d)" for ags vts
  proof -
    have "sr_agent_id s \<noteq> ar_id a" if "s \<in> set (db_sessions d)" for s
    proof
      assume s: "sr_agent_id s = ar_id a"
      have "(sr_agent_version_id s, sr_agent_id s, sr_organization_id s, sr_project_id s)
          \<in> version_key ` set (db_versions d)"
        using inv that unfolding inv_defs by blast
      then have "sr_agent_version_id s \<in> ?vids" using s by (auto simp: key_defs)
      then show False using free that by (auto simp: list_ex_iff)
    qed
    moreover have "vr_agent_id v \<noteq> ar_id a" if "v \<in> set (db_versions d)"
    proof
      assume "vr_agent_id v = ar_id a"
      then have "vr_id v \<in> ?vids" and "vr_id v \<in> sr_agent_version_id ` set (db_sessions d)"
        using v a(2) that by (simp_all add: pinned_def)
      then show False using free by (auto simp: list_ex_iff simp del: set_map)
    qed
    ultimately show ?thesis by (auto simp: keeps_def)
  qed
  show "ctl.safe h v d (agent_delete a) (\<lambda>_ _. True)"
    unfolding agent_delete_def Let_def
    by (intro ctl.safe_with ctl.safe_if ctl.safe_throw ctl.safe_modify inv TrueI)
      (use kept agent_drop_inv [OF inv, of "ar_id a" ?vids]
        in \<open>simp_all add: drop_rows_def keeps_def inv_defs\<close>)
qed

lemma agent_key_image: "a \<in> set (db_agents d) \<Longrightarrow> ar_organization_id a = org \<Longrightarrow> ar_project_id a = pj \<Longrightarrow>
    (ar_id a, org, pj) \<in> agent_key ` set (db_agents d)"
  by (auto simp: key_defs)

lemma version_key_image: "x \<in> set (db_versions d) \<Longrightarrow> version_key x \<in> version_key ` set (db_versions d)"
  by simp

lemma safe_create_version:
  assumes inv: "control_inv h d" and h: "hash_ok h" and b: "check_version_create b0 = Inr b"
  shows "ctl.safe h v d (api_create_version h uid now pj ag b) (\<lambda>_ _. True)"
  unfolding api_create_version_def
proof (rule safe_lookup [OF safe_require_agent [OF inv]], clarsimp, rule ctl.safe_with)
  fix p a
  assume a: "a \<in> set (db_agents d)" "ar_project_id a = pr_id p" "ar_organization_id a = pr_organization_id p"
  let ?v = "\<lparr>av_id = uid, av_organization_id = pr_organization_id p, av_project_id = pr_id p,
      av_agent_id = ar_id a, av_version_n = next_version_n (ar_id a) d, av_status = AV_DRAFT,
      av_instructions = vcr_instructions b, av_personality = vcr_personality b,
      av_locale = vcr_locale b, av_llm = vcr_llm b, av_stt = vcr_stt b, av_tts = vcr_tts b,
      av_tools = vcr_tools b, av_config_hash = None, av_created_by = None, av_created_at = now,
      av_published_at = None\<rparr>"
  have ok: "version_row_ok h (row_of_version (with_config_hash h x))" if "check_agent_version ?v = Inr x" for x
  proof -
    have "x = ?v" using that by (simp add: check_agent_version_Inr)
    moreover have "version_bindings_ok ?v"
      using check_version_create_Inr(7) [OF b] by (simp add: version_bindings_ok_def)
    ultimately show ?thesis
      using row_of_version_reads_back [of ?v h] that h by (auto simp: version_row_ok_def)
  qed
  have fields: "vr_agent_id (row_of_version (with_config_hash h x)) = ar_id a"
      "vr_organization_id (row_of_version (with_config_hash h x)) = pr_organization_id p"
      "vr_project_id (row_of_version (with_config_hash h x)) = pr_id p" if "check_agent_version ?v = Inr x" for x
    using that by (auto simp: check_agent_version_Inr row_of_version_def)
  show "ctl.safe h v d (bind_eff (lift_eff (check_agent_version ?v)) (\<lambda>x.
      let row = row_of_version (with_config_hash h x)
      in then_eff (version_add row) (lift_eff (version_to_contract row)))) (\<lambda>_ _. True)"
    unfolding Let_def version_add_def
    by (rule safe_lookup [where P = "\<lambda>x. check_agent_version ?v = Inr x"], rule ctl.safe_lift [OF inv], simp,
        intro safe_then_lift safe_add_row inv conjI version_add_inv)
      (simp_all add: ok fields agent_key_image a)
qed

lemma version_replace_inv:
  assumes inv: "control_inv h d" and r: "r \<in> set (db_versions d)" and ok: "version_row_ok h r'"
    and same: "version_key r' = version_key r" "vr_version_n r' = vr_version_n r"
  shows "control_inv h (db_versions_update (map (\<lambda>x. if vr_id x = vr_id r' then r' else x)) d)"
proof (rule version_flush_inv [OF inv ok])
  have "distinct (map vr_id (db_versions d))" using inv by (simp add: inv_defs)
  then have "x = r" if "x \<in> set (db_versions d)" "vr_id x = vr_id r'" for x
    using distinct_key_eq [of vr_id "db_versions d" x r] that r same by (simp add: key_defs)
  then show "\<forall>x \<in> set (db_versions d). vr_id x = vr_id r' \<longrightarrow>
      version_key x = version_key r' \<and> vr_version_n x = vr_version_n r'"
    using same by auto
  have "vr_agent_id r' = vr_agent_id r" "vr_organization_id r' = vr_organization_id r" "vr_project_id r' = vr_project_id r"
    using same by (simp_all add: key_defs)
  then show "(vr_agent_id r', vr_organization_id r', vr_project_id r') \<in> agent_key ` set (db_agents d)"
    using inv r unfolding inv_defs by auto
qed

lemma version_replace_keeps:
  assumes "control_inv h d" and "r \<in> set (db_versions d)" and "vr_status r \<noteq> ''published''" and "vr_id r' = vr_id r"
  shows "keeps v d (db_versions_update (map (\<lambda>x. if vr_id x = vr_id r' then r' else x)) d)"
proof -
  have "vr_id v \<noteq> vr_id r" if "vr_status v = ''published''" "v \<in> set (db_versions d)"
    using distinct_key_eq [of vr_id "db_versions d" v r] that assms by (auto simp: inv_defs)
  then show ?thesis using assms(4) by (force simp: keeps_def)
qed

lemma store_version_config_frame [simp]:
  "vr_id (store_version_config v r) = vr_id r" "vr_version_n (store_version_config v r) = vr_version_n r"
  "version_key (store_version_config v r) = version_key r" "vr_status (store_version_config v r) = vr_status r"
  by (simp_all add: store_version_config_def key_defs)

lemma safe_update_version:
  assumes inv: "control_inv h d" and h: "hash_ok h" and b: "check_version_update b0 = Inr b"
  shows "ctl.safe h v d (api_update_version h pj ag vid b) (\<lambda>_ _. True)"
  unfolding api_update_version_def
proof (rule safe_lookup [OF safe_require_version [OF inv]], rule ctl.safe_if)
  fix r :: version_row
  show "ctl.safe h v d (throw e) (\<lambda>_ _. True)" for e using inv by (rule ctl.safe_throw)
  assume r: "r \<in> set (db_versions d) \<and> vr_id r = vid \<and> vr_project_id r = pj"
    and st: "\<not> vr_status r \<noteq> version_status_value AV_DRAFT"
  have ok: "version_row_ok h (store_version_config (with_config_hash h (apply_version_update b c)) r)"
    if c: "version_to_contract r = Inr c" for c
  proof -
    note cc = version_to_contract_Inr [OF c]
    note ap = apply_version_update_ok [OF b cc(1,2)]
    have "version_to_contract (store_version_config (with_config_hash h (apply_version_update b c)) r)
        = Inr (with_config_hash h (apply_version_update b c))"
      by (rule stored_version_reads_back [where x = "compute_config_hash h (apply_version_update b c)"])
        (use ap h cc with_config_hash_ok in \<open>simp_all add: with_config_hash_def version_bindings_ok_def\<close>)
    then show ?thesis by (auto simp: version_row_ok_def)
  qed
  have np: "vr_status r \<noteq> ''published''" using st by simp
  show "ctl.safe h v d (bind_eff (lift_eff (version_to_contract r)) (\<lambda>current.
      let row' = store_version_config (with_config_hash h (apply_version_update b current)) r
      in then_eff (version_flush row') (lift_eff (version_to_contract row')))) (\<lambda>_ _. True)"
    unfolding Let_def version_flush_def
    by (rule safe_lookup [where P = "\<lambda>c. version_to_contract r = Inr c"], rule ctl.safe_lift [OF inv], simp,
        intro safe_then_lift safe_replace_row conjI inv version_replace_inv [OF inv] version_replace_keeps [OF inv])
      (use r np in \<open>auto simp: ok\<close>)
qed

lemma published_row_ok:
  assumes "version_row_ok h r" and "vr_status r \<noteq> ''published''"
  shows "version_row_ok h (r\<lparr>vr_status := ''published'', vr_published_at := Some now\<rparr>)"
proof -
  have p: "parse_version_status ''published'' = Inr AV_PUBLISHED"
    using parse_value(2) [of AV_PUBLISHED] by simp
  obtain v where c: "version_to_contract r = Inr v" and hash: "vr_config_hash r = compute_config_hash h v"
    using assms(1) by (auto simp: version_row_ok_def)
  have "version_to_contract (r\<lparr>vr_status := ''published'', vr_published_at := Some now\<rparr>) =
      Inr (v\<lparr>av_status := AV_PUBLISHED, av_published_at := Some now\<rparr>)"
    using p c by (auto simp: version_to_contract_def and_then_Inr check_agent_version_Inr)
  then show ?thesis using hash by (simp add: version_row_ok_def)
qed

lemma safe_publish_version:
  assumes inv: "control_inv h d"
  shows "ctl.safe h v d (api_publish_version now pj ag vid) (\<lambda>_ _. True)"
  unfolding api_publish_version_def
proof (rule safe_lookup [OF safe_require_version [OF inv]], rule ctl.safe_if)
  fix r :: version_row
  show "ctl.safe h v d (lift_eff (version_to_contract r)) (\<lambda>_ _. True)" using inv by (rule ctl.safe_lift) simp
  assume r: "r \<in> set (db_versions d) \<and> vr_id r = vid \<and> vr_project_id r = pj"
    and st: "vr_status r \<noteq> version_status_value AV_PUBLISHED"
  then have ok: "version_row_ok h (r\<lparr>vr_status := ''published'', vr_published_at := Some now\<rparr>)"
    using inv by (intro published_row_ok) (simp_all add: inv_defs)
  show "ctl.safe h v d (let row' = r\<lparr>vr_status := version_status_value AV_PUBLISHED, vr_published_at := Some now\<rparr>
      in then_eff (version_flush row') (lift_eff (version_to_contract row'))) (\<lambda>_ _. True)"
    unfolding Let_def version_flush_def
    by (intro safe_then_lift safe_replace_row conjI inv version_replace_inv [OF inv] version_replace_keeps [OF inv])
      (use r st ok in \<open>auto simp: key_defs\<close>)
qed

lemma version_get_latest_published_Some:
  assumes "version_get_latest_published ag org pj d = Some r"
  shows "r \<in> set (db_versions d)" "vr_agent_id r = ag" "vr_organization_id r = org" "vr_project_id r = pj"
    "vr_status r = ''published''"
proof -
  let ?rows = "filter (\<lambda>r. vr_agent_id r = ag \<and> vr_organization_id r = org \<and> vr_project_id r = pj \<and>
      vr_status r = ''published'') (db_versions d)"
  have "r \<in> set (limit_rows 1 (newest_first vr_version_n ?rows))"
    using assms by (auto simp: version_get_latest_published_def split: list.splits)
  then have "r \<in> set ?rows"
    by (auto simp: limit_rows_def newest_first_def dest: in_set_takeD)
  then show "r \<in> set (db_versions d)" "vr_agent_id r = ag" "vr_organization_id r = org"
    "vr_project_id r = pj" "vr_status r = ''published''" by auto
qed

lemma safe_pinned_version:
  assumes inv: "control_inv h d"
  shows "ctl.safe h v d (pinned_version p a vid) (\<lambda>r d'. d' = d \<and> r \<in> set (db_versions d) \<and>
    vr_agent_id r = ar_id a \<and> vr_organization_id r = pr_organization_id p \<and> vr_project_id r = pr_id p)"
  unfolding pinned_version_def
  by (cases vid; simp; rule ctl.safe_weaken [OF safe_require [OF inv]])
    (auto dest: version_get_for_agent_Some version_get_latest_published_Some)

lemma safe_create_session:
  assumes inv: "control_inv h d"
  shows "ctl.safe h v d (api_create_session uid now pj b) (\<lambda>_ _. True)"
  unfolding api_create_session_def
proof (rule safe_lookup [OF safe_require_agent [OF inv]], clarsimp, rule safe_lookup [OF safe_pinned_version [OF inv]])
  fix p :: project_row and a :: agent_row and r :: version_row
  assume r: "r \<in> set (db_versions d) \<and> vr_agent_id r = ar_id a \<and>
      vr_organization_id r = pr_organization_id p \<and> vr_project_id r = pr_id p"
  then have "(vr_id r, ar_id a, pr_organization_id p, pr_id p) \<in> version_key ` set (db_versions d)"
    by (auto simp: key_defs)
  then show "ctl.safe h v d (let row = session_row_of uid now b p a r
      in then_eff (session_row_create row) (lift_eff (session_to_contract row))) (\<lambda>_ _. True)"
    unfolding Let_def session_row_create_def
    by (intro safe_then_lift safe_add_row inv conjI session_add_inv) (simp_all add: session_row_of_def)
qed

lemma safe_create_tool:
  assumes inv: "control_inv h d"
  shows "ctl.safe h v d (api_create_tool uid now pj b) (\<lambda>_ _. True)"
  unfolding api_create_tool_def Let_def tool_add_def
  by (intro safe_lookup [OF safe_require_project] ctl.safe_with ctl.safe_if ctl.safe_throw safe_then_lift
      safe_add_row inv conjI tool_add_inv) (auto simp: project_key_image)

lemma tool_update_frame [simp]:
  "dr_id (apply_tool_update now b r) = dr_id r" "tool_key (apply_tool_update now b r) = tool_key r"
  "dr_project_id (apply_tool_update now b r) = dr_project_id r"
  "dr_organization_id (apply_tool_update now b r) = dr_organization_id r"
  by (simp_all add: apply_tool_update_def set_if_def key_defs split: option.splits)

lemma safe_update_tool:
  assumes inv: "control_inv h d"
  shows "ctl.safe h v d (api_update_tool now pj tid b) (\<lambda>_ _. True)"
  unfolding api_update_tool_def
proof (rule safe_lookup [OF safe_require_tool [OF inv]], clarsimp, rule ctl.safe_with)
  fix p r
  assume r: "r \<in> set (db_tools d)" "p \<in> set (db_projects d)" "dr_project_id r = pr_id p"
    "dr_organization_id r = pr_organization_id p"
  let ?r = "apply_tool_update now b r"
  have "distinct (map dr_id (db_tools d))" using inv by (simp add: inv_defs)
  then have same: "\<forall>x \<in> set (db_tools d). dr_id x = dr_id ?r \<longrightarrow> tool_key x = tool_key ?r"
    using r(1) by (simp, metis distinct_key_eq)
  have "(dr_project_id ?r, dr_organization_id ?r) \<in> project_key ` set (db_projects d)"
    using r(2-4) by (simp add: project_key_image)
  note flush = tool_flush_inv [OF inv _ same this]
  have "ctl.safe h v d (then_eff (tool_flush ?r) (lift_eff (tool_definition_to_contract ?r))) (\<lambda>_ _. True)"
    unfolding tool_flush_def
    by (intro safe_then_lift safe_replace_row inv conjI flush) simp_all
  then show "ctl.safe h v d (case rename_conflict p r (tur_name b) d of
        None \<Rightarrow> let row' = ?r in then_eff (tool_flush row') (lift_eff (tool_definition_to_contract row'))
      | Some e \<Rightarrow> throw e) (\<lambda>_ _. True)"
    using ctl.safe_throw [OF inv] by (cases "rename_conflict p r (tur_name b) d") (simp_all add: Let_def)
qed

lemma safe_delete_tool:
  assumes inv: "control_inv h d"
  shows "ctl.safe h v d (api_delete_tool pj tid) (\<lambda>_ _. True)"
  unfolding api_delete_tool_def tool_delete_def
  by (rule safe_lookup [OF safe_require_tool [OF inv]], clarsimp, rule ctl.safe_modify)
    (simp_all add: tool_drop_inv inv, simp add: drop_rows_def keeps_def)

lemma safe_attach_tool:
  assumes inv: "control_inv h d"
  shows "ctl.safe h v d (api_attach_tool now pj ag vid tid) (\<lambda>_ _. True)"
  unfolding api_attach_tool_def
proof (intro safe_lookup [OF safe_require_draft_version [OF inv]] safe_lookup [OF safe_require_tool [OF inv]])
  fix r and x :: "project_row \<times> tool_row"
  assume r: "r \<in> set (db_versions d) \<and> vr_id r = vid \<and> vr_project_id r = pj \<and>
      (\<exists>p \<in> set (db_projects d). pr_id p = pj \<and> vr_organization_id r = pr_organization_id p)"
    and x: "case x of (p, t) \<Rightarrow> p \<in> set (db_projects d) \<and> pr_id p = pj \<and> t \<in> set (db_tools d) \<and>
      dr_id t = tid \<and> dr_project_id t = pr_id p \<and> dr_organization_id t = pr_organization_id p"
  obtain p t where "x = (p, t)" by (cases x)
  with x have pt: "x = (p, t)" "p \<in> set (db_projects d)" "pr_id p = pj" "t \<in> set (db_tools d)"
      "dr_id t = tid" "dr_project_id t = pj" "dr_organization_id t = pr_organization_id p"
    by simp_all
  obtain p' where p': "p' \<in> set (db_projects d)" "pr_id p' = pj" "vr_organization_id r = pr_organization_id p'"
    using r by blast
  have "distinct (map pr_id (db_projects d))" using inv by (simp add: inv_defs)
  then have "p' = p" using p'(1,2) pt(2,3) by (metis distinct_key_eq)
  then have org: "vr_organization_id r = pr_organization_id p" using p'(3) by simp
  have "version_key r \<in> version_key ` set (db_versions d)" using r by blast
  then have v: "(vr_id r, vr_agent_id r, pr_organization_id p, pj) \<in> version_key ` set (db_versions d)"
    using r org by (simp add: version_key_def)
  have "tool_key t \<in> tool_key ` set (db_tools d)" using pt(4) by blast
  then have t: "(dr_id t, pr_organization_id p, pj) \<in> tool_key ` set (db_tools d)"
    using pt(6,7) by (simp add: tool_key_def)
  have "ctl.safe h v d (version_tool_attach now (vr_id r) (dr_id t) True) (\<lambda>_ _. True)"
    unfolding version_tool_attach_def
  proof (rule ctl.safe_with, cases "version_tool_get (vr_id r) (dr_id t) d")
    case None
    have "ctl.safe h v d (add_row version_tool_violation db_version_tools_update \<lparr>vt_agent_version_id = vr_id r,
        vt_tool_definition_id = dr_id t, vt_enabled = True, vt_created_at = now\<rparr>) (\<lambda>_ _. True)"
      by (intro safe_add_row inv conjI version_tool_add_inv) (use v t in simp_all)
    with None show "ctl.safe h v d (case version_tool_get (vr_id r) (dr_id t) d of
        None \<Rightarrow> add_row version_tool_violation db_version_tools_update \<lparr>vt_agent_version_id = vr_id r,
          vt_tool_definition_id = dr_id t, vt_enabled = True, vt_created_at = now\<rparr>
      | Some existing \<Rightarrow> replace_row version_tool_violation db_version_tools_update version_tool_key
          (existing\<lparr>vt_enabled := True\<rparr>)) (\<lambda>_ _. True)" by simp
  next
    case (Some y)
    then have y: "y \<in> set (db_version_tools d)" by (auto simp: version_tool_get_def dest: scalar_Some)
    have k: "version_tool_key (y\<lparr>vt_enabled := True\<rparr>) = version_tool_key y" by (simp add: version_tool_key_def)
    have "ctl.safe h v d (replace_row version_tool_violation db_version_tools_update version_tool_key
        (y\<lparr>vt_enabled := True\<rparr>)) (\<lambda>_ _. True)"
      by (rule safe_replace_row [OF inv]) (simp add: k version_tool_flush_inv [OF inv y])
    with Some show "ctl.safe h v d (case version_tool_get (vr_id r) (dr_id t) d of
        None \<Rightarrow> add_row version_tool_violation db_version_tools_update \<lparr>vt_agent_version_id = vr_id r,
          vt_tool_definition_id = dr_id t, vt_enabled = True, vt_created_at = now\<rparr>
      | Some existing \<Rightarrow> replace_row version_tool_violation db_version_tools_update version_tool_key
          (existing\<lparr>vt_enabled := True\<rparr>)) (\<lambda>_ _. True)" by simp
  qed
  then show "ctl.safe h v d (case x of (_, t) \<Rightarrow> then_eff (version_tool_attach now (vr_id r) (dr_id t) True)
      (lift_eff (tool_definition_to_contract t))) (\<lambda>_ _. True)"
    by (simp add: pt(1) safe_then_lift)
qed

lemma safe_detach_tool:
  assumes inv: "control_inv h d"
  shows "ctl.safe h v d (api_detach_tool pj ag vid tid) (\<lambda>_ _. True)"
proof -
  have "ctl.safe h v d (version_tool_detach x tid) (\<lambda>_ _. True)" for x
  proof -
    have "ctl.safe h v d (then_eff (modify_eff (drop_rows db_version_tools_update
        (\<lambda>y. version_tool_key y = (x, tid)))) (ret True)) (\<lambda>_ _. True)"
      by (rule ctl.safe_then [OF ctl.safe_modify [where Q = "\<lambda>_ _. True"]])
        (use version_tool_drop_inv [OF inv] in \<open>auto simp: keeps_def drop_rows_def intro: ctl.safe_ret\<close>)
    then show ?thesis
      unfolding version_tool_detach_def
      by (intro ctl.safe_with) (auto split: option.splits intro: ctl.safe_ret inv)
  qed
  note detach = ctl.safe_bind [OF this]
  show ?thesis
    unfolding api_detach_tool_def
    by (rule safe_lookup [OF safe_require_draft_version [OF inv]], rule detach)
      (auto intro: ctl.safe_if ctl.safe_ret ctl.safe_throw)
qed

lemma safe_create_kb:
  assumes inv: "control_inv h d"
  shows "ctl.safe h v d (api_create_knowledge_base uid now pj n desc) (\<lambda>_ _. True)"
  unfolding api_create_knowledge_base_def kb_create_def Let_def
  by (rule safe_lookup [OF safe_require_project [OF inv]], rule ctl.safe_then [OF safe_add_row [OF inv]])
    (auto simp: inv intro: ctl.safe_ret)

lemma safe_create_document_row:
  assumes inv: "control_inv h d"
  shows "ctl.safe h v d (bind_eff (require_knowledge_base kb) (\<lambda>k. document_row_create uid now (kb_id k) n c)) (\<lambda>_ _. True)"
  unfolding document_row_create_def Let_def require_knowledge_base_def
  by (rule safe_lookup [OF safe_require [OF inv]], rule ctl.safe_then [OF safe_add_row [OF inv]])
    (auto simp: inv intro: ctl.safe_ret)

lemma safe_add_chunks: "control_inv h d \<Longrightarrow> ctl.safe h v d (add_chunks rs) (\<lambda>_ _. True)"
proof (induction rs arbitrary: d)
  case (Cons r rs)
  show ?case unfolding add_chunks.simps
    by (rule ctl.safe_then [OF safe_add_row]) (use Cons in auto)
qed (auto intro: ctl.safe_ret)

lemma safe_store_chunks:
  assumes inv: "control_inv h d"
  shows "ctl.safe h v d (then_eff (store_chunks en uids now doc chunks) (ret r)) (\<lambda>_ _. True)"
proof -
  have "ctl.safe h v d (store_chunks en uids now doc chunks) (\<lambda>_ _. True)"
    unfolding store_chunks_def Let_def chunk_create_many_def
    by (intro ctl.safe_if ctl.safe_throw [OF inv] ctl.safe_then [OF safe_add_chunks [OF inv]] ctl.safe_modify)
      (simp_all add: set_search_vectors_def)
  then show ?thesis by (rule ctl.safe_then) (auto intro: ctl.safe_ret)
qed

lemma ingest_inv:
  assumes "control_inv h d" and "ingest_document en uids now doc d = Some (r, d')"
  shows "control_inv h d' \<and> keeps v d d'"
proof (cases "document_get doc d")
  case None
  with assms show ?thesis using ctl.le_refl by (auto simp: ingest_document_def)
next
  case (Some row)
  let ?d = "chunk_delete_for_document (dc_id row) d"
  have d: "control_inv h ?d" "keeps v d ?d"
    using assms(1) by (simp_all add: chunk_delete_for_document_def drop_rows_def)
  consider "r = r" "d' = ?d" | chunks where
      "then_eff (store_chunks en uids now (dc_id row) chunks) (ret row) ?d = (r, d')"
    using assms(2) Some by (auto simp: ingest_document_def Let_def split: option.splits sum.splits if_splits)
  then show ?thesis
  proof cases
    case 1
    with d show ?thesis by simp
  next
    case 2
    note s = ctl.safeD(1,2) [OF safe_store_chunks [OF d(1)] 2]
    with d(2) show ?thesis using ctl.le_trans [OF d(2) s(2)] by simp
  qed
qed

lemma create_document_inv:
  assumes inv: "control_inv h d" and ret: "api_create_document en uid uids now kb n c d = Some (r, d')"
  shows "control_inv h d' \<and> keeps v d d'"
proof (cases "bind_eff (require_knowledge_base kb) (\<lambda>k. document_row_create uid now (kb_id k) n c) d")
  case (Pair x d1)
  note s = ctl.safeD(1,2) [OF safe_create_document_row [OF inv] Pair]
  show ?thesis
  proof (cases x)
    case (Inl e)
    with ret Pair s show ?thesis by (simp add: api_create_document_def)
  next
    case (Inr doc)
    then obtain r' where "ingest_document en uids now (dc_id doc) d1 = Some (r', d')"
      using ret Pair by (auto simp: api_create_document_def)
    from ingest_inv [OF s(1) this] show ?thesis using ctl.le_trans [OF s(2)] by blast
  qed
qed

section \<open>Requests in sequence\<close>

fun deletes_agent :: "uuid \<Rightarrow> api_request \<Rightarrow> bool" where
  "deletes_agent i (DeleteAgent _ ag) = (ag = i)"
| "deletes_agent i _ = False"

lemma safe_with_body:
  assumes "control_inv h d" and "\<And>b. checked = Inr b \<Longrightarrow> ctl.safe h v d (route b) (\<lambda>_ _. True)"
  shows "ctl.safe h v d (with_body checked route) (\<lambda>_ _. True)"
  using assms
  by (auto simp: with_body_def split: sum.splits
    intro!: ctl.safe_throw safe_session_scope ctl.safe_then [where P = "\<lambda>_ _. True"] ctl.safe_ret)

lemma safe_scope_then:
  assumes "control_inv h d" and "ctl.safe h v d m (\<lambda>_ _. True)"
  shows "ctl.safe h v d (session_scope (then_eff m (ret ()))) (\<lambda>_ _. True)"
  by (intro safe_session_scope assms(1) ctl.safe_then [OF assms(2)] ctl.safe_ret) simp_all

lemma api_step_safe:
  assumes inv: "control_inv (ev_hash en) d" and h: "hash_ok (ev_hash en)"
    and ret: "api_step en req d = Some (r, d')" and nd: "\<not> deletes_agent (vr_agent_id v) req \<or> pinned v d"
  shows "control_inv (ev_hash en) d' \<and> keeps v d d'"
proof -
  have fin: ?thesis if "ctl.safe (ev_hash en) v d m (\<lambda>_ _. True)" "m d = (r, d')" for m :: "(db, unit) eff"
    using ctl.safeD(1,2) [OF that] by simp
  note body = safe_with_body [OF inv] and scope = safe_scope_then [OF inv]
  show ?thesis
  proof (cases req)
    case (CreateAgent uid now pj b)
    show ?thesis by (rule fin [OF body [OF safe_create_agent [OF inv]]]) (use ret CreateAgent in simp)
  next
    case (UpdateAgent now pj ag b)
    show ?thesis by (rule fin [OF body [OF safe_update_agent [OF inv]]]) (use ret UpdateAgent in simp)
  next
    case (DeleteAgent pj ag)
    show ?thesis
      by (rule fin [OF safe_session_scope [OF inv safe_delete_agent [OF inv]]])
        (use ret nd DeleteAgent in auto)
  next
    case (CreateVersion uid now pj ag b)
    show ?thesis by (rule fin [OF body [OF safe_create_version [OF inv h]]]) (use ret CreateVersion in auto)
  next
    case (UpdateVersion pj ag vid b)
    show ?thesis by (rule fin [OF body [OF safe_update_version [OF inv h]]]) (use ret UpdateVersion in auto)
  next
    case (PublishVersion now pj ag vid)
    show ?thesis by (rule fin [OF scope [OF safe_publish_version [OF inv]]]) (use ret PublishVersion in simp)
  next
    case (CreateSession uid now pj b)
    show ?thesis by (rule fin [OF body [OF safe_create_session [OF inv]]]) (use ret CreateSession in simp)
  next
    case (CreateTool uid now pj b)
    show ?thesis by (rule fin [OF body [OF safe_create_tool [OF inv]]]) (use ret CreateTool in simp)
  next
    case (UpdateTool now pj tid b)
    show ?thesis by (rule fin [OF body [OF safe_update_tool [OF inv]]]) (use ret UpdateTool in simp)
  next
    case (DeleteTool pj tid)
    show ?thesis by (rule fin [OF safe_session_scope [OF inv safe_delete_tool [OF inv]]]) (use ret DeleteTool in simp)
  next
    case (AttachTool now pj ag vid tid)
    show ?thesis by (rule fin [OF scope [OF safe_attach_tool [OF inv]]]) (use ret AttachTool in simp)
  next
    case (DetachTool pj ag vid tid)
    show ?thesis by (rule fin [OF safe_session_scope [OF inv safe_detach_tool [OF inv]]]) (use ret DetachTool in simp)
  next
    case (CreateKnowledgeBase uid now pj n desc)
    show ?thesis by (rule fin [OF scope [OF safe_create_kb [OF inv]]]) (use ret CreateKnowledgeBase in simp)
  next
    case (CreateDocument uid uids now kb n c)
    then obtain x where x: "api_create_document (ev_ingest en) uid uids now kb n c d = Some x"
        and s: "session_scope (then_eff (\<lambda>_. x) (ret ())) d = (r, d')"
      using ret by (auto split: option.splits)
    have "ctl.safe (ev_hash en) v d (\<lambda>_. x) (\<lambda>_ _. True)"
      using create_document_inv [OF inv, of _ _ _ _ _ _ _ "fst x" "snd x"] x by (auto simp: ctl.safe_def)
    then show ?thesis using fin [OF scope s] by blast
  qed
qed

lemma api_step_inv:
  assumes "control_inv (ev_hash en) d" and "hash_ok (ev_hash en)" and "api_step en req d = Some (r, d')"
  shows "control_inv (ev_hash en) d'"
proof -
  have "\<not> (deletes_agent 0 req \<and> deletes_agent 1 req)" by (cases req) auto
  then obtain i where i: "\<not> deletes_agent i req" by blast
  define v where "v = (undefined :: version_row)\<lparr>vr_agent_id := i\<rparr>"
  have "vr_agent_id v = i" by (simp add: v_def)
  then show ?thesis using api_step_safe [OF assms, of v] i by simp
qed

lemma api_run_inv: "control_inv (ev_hash en) d \<Longrightarrow> hash_ok (ev_hash en) \<Longrightarrow> control_inv (ev_hash en) (api_run en reqs d)"
proof (induction reqs arbitrary: d)
  case (Cons r rs)
  then show ?case using api_step_inv [OF Cons.prems] by (auto split: option.splits)
qed simp

lemma api_run_keeps:
  assumes "control_inv (ev_hash en) d" and "hash_ok (ev_hash en)" and "\<forall>r \<in> set reqs. \<not> deletes_agent (vr_agent_id v) r"
  shows "keeps v d (api_run en reqs d)"
  using assms
proof (induction reqs arbitrary: d)
  case Nil
  show ?case using ctl.le_refl by simp
next
  case (Cons r rs)
  show ?case
  proof (cases "api_step en r d")
    case None
    with Cons show ?thesis by simp
  next
    case (Some x)
    then obtain a d' where x: "api_step en r d = Some (a, d')" by (cases x) auto
    have s: "control_inv (ev_hash en) d' \<and> keeps v d d'"
      using api_step_safe [OF Cons.prems(1,2) x, of v] Cons.prems(3) by simp
    then have "keeps v d' (api_run en rs d')" using Cons by simp
    then have "keeps v d (api_run en rs d')" using s ctl.le_trans by blast
    then show ?thesis using x by simp
  qed
qed

text \<open>The version a session is pinned to outlives every sequence of requests.\<close>

lemma api_run_keeps_pinned:
  assumes "control_inv (ev_hash en) d" and "hash_ok (ev_hash en)" and "pinned v d"
  shows "keeps v d (api_run en reqs d)"
  using assms
proof (induction reqs arbitrary: d)
  case Nil
  show ?case using ctl.le_refl by simp
next
  case (Cons r rs)
  show ?case
  proof (cases "api_step en r d")
    case None
    with Cons show ?thesis by simp
  next
    case (Some x)
    then obtain a d' where x: "api_step en r d = Some (a, d')" by (cases x) auto
    have s: "control_inv (ev_hash en) d' \<and> keeps v d d'"
      using api_step_safe [OF Cons.prems(1,2) x, of v] Cons.prems(3) by simp
    moreover have "pinned v d'" using s Cons.prems(3) by (auto simp: pinned_def keeps_def)
    ultimately have "keeps v d' (api_run en rs d')" using Cons by simp
    then have "keeps v d (api_run en rs d')" using s ctl.le_trans by blast
    then show ?thesis using x by simp
  qed
qed

end
