(* ===== verification/ControlTables.thy ===== *)
theory ControlTables
  imports ControlInv
begin

text \<open>
  The tables that theory ControlInv leaves out: organizations and projects, conversations,
  knowledge bases, documents, chunks and the knowledge bases of a version. A request that
  succeeds writes a few of them and otherwise keeps what they refer to; one that fails is
  rolled back. With the invariant of ControlInv this is the whole database.
\<close>

section \<open>The invariant of the other tables\<close>

definition session_key :: "session_row \<Rightarrow> uuid \<times> uuid" where
  "session_key s = (sr_id s, sr_organization_id s)"

definition kb_key :: "knowledge_base_row \<Rightarrow> uuid \<times> uuid \<times> uuid" where
  "kb_key k = (kb_id k, kb_organization_id k, kb_project_id k)"

definition tenants_ok :: "db \<Rightarrow> bool" where
  "tenants_ok d \<longleftrightarrow> distinct (map or_id (db_organizations d)) \<and> distinct (map or_slug (db_organizations d)) \<and>
     distinct (map pr_id (db_projects d)) \<and>
     distinct (map (\<lambda>p. (pr_organization_id p, pr_slug p)) (db_projects d)) \<and>
     (\<forall>p \<in> set (db_projects d). pr_organization_id p \<in> or_id ` set (db_organizations d))"

text \<open>A message and a summary belong to a session and to its organization.\<close>

definition messages_ok :: "db \<Rightarrow> bool" where
  "messages_ok d \<longleftrightarrow> distinct (map mr_id (db_messages d)) \<and>
     distinct (map (\<lambda>m. (mr_session_id m, mr_sequence m)) (db_messages d)) \<and>
     (\<forall>m \<in> set (db_messages d). (mr_session_id m, mr_organization_id m) \<in> session_key ` set (db_sessions d))"

definition summaries_ok :: "db \<Rightarrow> bool" where
  "summaries_ok d \<longleftrightarrow> distinct (map ur_id (db_summaries d)) \<and> distinct (map ur_session_id (db_summaries d)) \<and>
     (\<forall>u \<in> set (db_summaries d). (ur_session_id u, ur_organization_id u) \<in> session_key ` set (db_sessions d))"

text \<open>A knowledge base belongs to a project and to its organization.\<close>

definition knowledge_bases_ok :: "db \<Rightarrow> bool" where
  "knowledge_bases_ok d \<longleftrightarrow> distinct (map kb_id (db_knowledge_bases d)) \<and>
     distinct (map (\<lambda>k. (kb_project_id k, kb_name k)) (db_knowledge_bases d)) \<and>
     (\<forall>k \<in> set (db_knowledge_bases d). (kb_project_id k, kb_organization_id k) \<in> project_key ` set (db_projects d))"

definition documents_ok :: "db \<Rightarrow> bool" where
  "documents_ok d \<longleftrightarrow> distinct (map dc_id (db_documents d)) \<and>
     (\<forall>x \<in> set (db_documents d). dc_knowledge_base_id x \<in> kb_id ` set (db_knowledge_bases d))"

definition chunks_ok :: "db \<Rightarrow> bool" where
  "chunks_ok d \<longleftrightarrow> distinct (map hr_id (db_chunks d)) \<and>
     distinct (map (\<lambda>h. (hr_document_id h, hr_chunk_index h)) (db_chunks d)) \<and>
     (\<forall>h \<in> set (db_chunks d). hr_document_id h \<in> dc_id ` set (db_documents d))"

text \<open>A version uses knowledge bases of its own project and organization.\<close>

definition version_kbs_ok :: "db \<Rightarrow> bool" where
  "version_kbs_ok d \<longleftrightarrow> distinct (map version_kb_key (db_version_kbs d)) \<and>
     (\<forall>x \<in> set (db_version_kbs d). \<exists>ag org pj.
        (vk_agent_version_id x, ag, org, pj) \<in> version_key ` set (db_versions d) \<and>
        (vk_knowledge_base_id x, org, pj) \<in> kb_key ` set (db_knowledge_bases d))"

definition content_inv :: "db \<Rightarrow> bool" where
  "content_inv d \<longleftrightarrow> tenants_ok d \<and> messages_ok d \<and> summaries_ok d \<and> knowledge_bases_ok d \<and>
     documents_ok d \<and> chunks_ok d \<and> version_kbs_ok d"

lemmas content_defs = content_inv_def tenants_ok_def messages_ok_def summaries_ok_def knowledge_bases_ok_def
  documents_ok_def chunks_ok_def version_kbs_ok_def

text \<open>The whole database, and a database with nothing but tenants.\<close>

definition db_inv :: "hash_env \<Rightarrow> db \<Rightarrow> bool" where
  "db_inv h d \<longleftrightarrow> control_inv h d \<and> content_inv d"

definition tenants_only :: "db \<Rightarrow> bool" where
  "tenants_only d \<longleftrightarrow> tenants_ok d \<and> seeded d \<and> db_messages d = [] \<and> db_summaries d = [] \<and>
     db_knowledge_bases d = [] \<and> db_documents d = [] \<and> db_chunks d = [] \<and> db_version_kbs d = []"

lemma tenants_only_inv: "tenants_only d \<Longrightarrow> db_inv h d"
  by (simp add: tenants_only_def db_inv_def seeded_inv content_defs)

section \<open>What lookups return\<close>

lemma project_found: "require_project pj d = (Inr p, d') \<longleftrightarrow> get_project pj d = Some p \<and> d' = d"
  by (simp add: require_project_def require_Inr)

lemma agent_found:
  "require_agent pj ag d = (Inr (p, a), d') \<Longrightarrow>
     get_project pj d = Some p \<and> ar_project_id a = pr_id p \<and> ar_organization_id a = pr_organization_id p \<and> d' = d"
  by (auto simp: require_agent_def run_Inr project_found agent_get_in_project_def dest: scalar_Some)

lemma version_found:
  "require_version pj ag vid d = (Inr v, d') \<Longrightarrow>
     (\<exists>p. get_project pj d = Some p \<and> vr_project_id v = pr_id p \<and> vr_organization_id v = pr_organization_id p) \<and> d' = d"
  by (auto simp: require_version_def run_Inr project_found dest: version_get_for_agent_Some)

lemma agent_version_found:
  "require_agent_version pj ag vid d = (Inr v, d') \<Longrightarrow> d' = d \<and> v \<in> set (db_versions d) \<and>
     (\<exists>p. get_project pj d = Some p \<and> vr_project_id v = pr_id p \<and> vr_organization_id v = pr_organization_id p)"
  by (auto simp: require_agent_version_def run_Inr dest!: agent_found version_get_for_agent_Some)

lemma draft_version_found: "require_draft_version pj ag vid d = (Inr v, d') \<Longrightarrow> d' = d"
  by (auto simp: require_draft_version_def run_Inr throw_def split: if_splits dest!: agent_version_found)

lemma tool_found:
  "require_tool pj tid d = (Inr (p, t), d') \<Longrightarrow>
     get_project pj d = Some p \<and> dr_project_id t = pr_id p \<and> dr_organization_id t = pr_organization_id p \<and> d' = d"
  by (auto simp: require_tool_def run_Inr project_found tool_get_in_project_def dest: scalar_Some)

lemma version_row_found: "require_version pj ag vid d = (Inr v, d') \<Longrightarrow> d' = d \<and> v \<in> set (db_versions d)"
  by (auto simp: require_version_def run_Inr project_found dest: version_get_for_agent_Some)

lemma pinned_found: "pinned_version p a vid d = (Inr v, d') \<Longrightarrow> d' = d"
  by (auto simp: pinned_version_def require_Inr split: option.splits)

lemma replace_row_Inr:
  "replace_row violation upd key r d = (Inr u, d') \<longleftrightarrow>
     violation (upd (filter (\<lambda>x. key x \<noteq> key r)) d) r = None \<and> d' = upd (map (\<lambda>x. if key x = key r then r else x)) d"
  by (auto simp: replace_row_def eff_defs split: option.splits)

section \<open>Requests that leave these tables alone\<close>

text \<open>The tables are the same, and what they refer to is still there.\<close>

definition same_content :: "db \<Rightarrow> db \<Rightarrow> bool" where
  "same_content d d' \<longleftrightarrow>
     db_organizations d' = db_organizations d \<and> db_projects d' = db_projects d \<and> db_messages d' = db_messages d \<and>
     db_summaries d' = db_summaries d \<and> db_knowledge_bases d' = db_knowledge_bases d \<and>
     db_documents d' = db_documents d \<and> db_chunks d' = db_chunks d \<and> db_version_kbs d' = db_version_kbs d \<and>
     version_key ` set (db_versions d) \<subseteq> version_key ` set (db_versions d') \<and>
     session_key ` set (db_sessions d) \<subseteq> session_key ` set (db_sessions d')"

lemma content_kept:
  assumes inv: "content_inv d" and same: "same_content d d'"
  shows "content_inv d'"
proof -
  have s: "k \<in> session_key ` set (db_sessions d')" if "k \<in> session_key ` set (db_sessions d)" for k
    using same that unfolding same_content_def by blast
  have v: "k \<in> version_key ` set (db_versions d')" if "k \<in> version_key ` set (db_versions d)" for k
    using same that unfolding same_content_def by blast
  have "messages_ok d'" and "summaries_ok d'"
    using inv same s by (simp_all add: content_inv_def messages_ok_def summaries_ok_def same_content_def)
  moreover have "version_kbs_ok d'"
    using inv same v unfolding content_inv_def version_kbs_ok_def same_content_def by metis
  moreover have "tenants_ok d'" "knowledge_bases_ok d'" "documents_ok d'" "chunks_ok d'"
    using inv same by (simp_all add: content_defs same_content_def)
  ultimately show ?thesis by (simp add: content_inv_def)
qed

lemma same_content_refl [simp]: "same_content d d"
  by (simp add: same_content_def)

lemma same_content_writes [simp]:
  "same_content d (db_agents_update f1 d)" "same_content d (db_tools_update f2 d)"
  "same_content d (db_version_tools_update f3 d)" "same_content d (db_versions_update (\<lambda>rs. rs @ [v]) d)"
  "same_content d (db_sessions_update (\<lambda>rs. rs @ [s]) d)"
  "same_content d (db_version_tools_update f3 (db_tools_update f2 d))"
  by (auto simp: same_content_def)

lemma same_content_version:
  assumes "control_inv h d" and "r \<in> set (db_versions d)" and "version_key r' = version_key r" and "vr_id r = i"
  shows "same_content d (db_versions_update (map (\<lambda>x. if vr_id x = i then r' else x)) d)"
proof -
  have "distinct (map vr_id (db_versions d))" using assms(1) by (simp add: inv_defs)
  moreover have i: "i = vr_id r'" using assms(3,4) by (simp add: key_defs)
  ultimately have "x = r" if "x \<in> set (db_versions d)" "vr_id x = vr_id r'" for x
    using distinct_key_eq [of vr_id "db_versions d" x r] assms(2,4) that by simp
  then have "\<forall>x \<in> set (db_versions d). vr_id x = vr_id r' \<longrightarrow> version_key x = version_key r'"
    using assms(3) by simp
  from image_replace [OF this] show ?thesis by (simp add: i same_content_def del: set_map)
qed

lemma version_key_published: "version_key (v\<lparr>vr_status := st, vr_published_at := t\<rparr>) = version_key v"
  by (simp add: key_defs)

lemma agents_same_content:
  "api_create_agent uid now pj b d = (Inr a, d') \<Longrightarrow> same_content d d'"
  "api_update_agent now pj ag u d = (Inr a, d') \<Longrightarrow> same_content d d'"
  by (auto simp: api_create_agent_def api_update_agent_def agent_add_def agent_flush_def run_Inr Let_def
      replace_row_Inr project_found dest!: agent_found)

lemma versions_same_content:
  "api_create_version h uid now pj ag b d = (Inr v, d') \<Longrightarrow> same_content d d'"
  "control_inv h d \<Longrightarrow> api_update_version h pj ag vid u d = (Inr v, d') \<Longrightarrow> same_content d d'"
  "control_inv h d \<Longrightarrow> api_publish_version now pj ag vid d = (Inr v, d') \<Longrightarrow> same_content d d'"
  by (auto simp: api_create_version_def api_update_version_def api_publish_version_def version_add_def
      version_flush_def run_Inr replace_row_Inr Let_def with_state_def throw_def version_key_published
      split: if_splits dest!: agent_found version_row_found intro!: same_content_version)

lemma sessions_same_content: "api_create_session uid now pj b d = (Inr s, d') \<Longrightarrow> same_content d d'"
  by (auto simp: api_create_session_def session_row_create_def run_Inr Let_def dest!: agent_found pinned_found)

lemma tools_same_content:
  "api_create_tool uid now pj b d = (Inr t, d') \<Longrightarrow> same_content d d'"
  "api_update_tool now pj tid u d = (Inr t, d') \<Longrightarrow> same_content d d'"
  "api_delete_tool pj tid d = (Inr r, d') \<Longrightarrow> same_content d d'"
  "api_attach_tool now pj ag vid tid d = (Inr t, d') \<Longrightarrow> same_content d d'"
  "api_detach_tool pj ag vid tid d = (Inr r, d') \<Longrightarrow> same_content d d'"
  by (auto simp: api_create_tool_def api_update_tool_def api_delete_tool_def api_attach_tool_def api_detach_tool_def
      tool_add_def tool_flush_def tool_delete_def version_tool_attach_def version_tool_detach_def drop_rows_def
      modify_eff_def run_Inr replace_row_Inr Let_def with_state_def throw_def project_found
      split: if_splits option.splits dest!: tool_found draft_version_found)

section \<open>Requests that write these tables\<close>

lemma session_outside:
  assumes "k \<in> session_key ` set (db_sessions d)" and "fst k \<notin> sr_id ` {s \<in> set (db_sessions d). sr_agent_id s = i}"
  shows "k \<in> session_key ` {s \<in> set (db_sessions d). sr_agent_id s \<noteq> i}"
  using assms by (auto simp: session_key_def image_iff)

lemma version_outside:
  assumes "k \<in> version_key ` set (db_versions d)" and "fst k \<notin> vr_id ` {v \<in> set (db_versions d). vr_agent_id v = i}"
  shows "k \<in> version_key ` {v \<in> set (db_versions d). vr_agent_id v \<noteq> i}"
  using assms by (auto simp: key_defs image_iff)

text \<open>Deleting an agent takes the conversations of its sessions and the associations of its versions with it.\<close>

lemma agent_delete_content:
  assumes inv: "content_inv d" and del: "agent_delete a d = (Inr u, d')"
  shows "content_inv d'"
proof -
  let ?vids = "vr_id ` {v \<in> set (db_versions d). vr_agent_id v = ar_id a}"
    and ?sids = "sr_id ` {s \<in> set (db_sessions d). sr_agent_id s = ar_id a}"
  have d': "db_organizations d' = db_organizations d \<and> db_projects d' = db_projects d \<and>
      db_knowledge_bases d' = db_knowledge_bases d \<and> db_documents d' = db_documents d \<and> db_chunks d' = db_chunks d \<and>
      db_messages d' = filter (\<lambda>m. mr_session_id m \<notin> ?sids) (db_messages d) \<and>
      db_summaries d' = filter (\<lambda>x. ur_session_id x \<notin> ?sids) (db_summaries d) \<and>
      db_version_kbs d' = filter (\<lambda>x. vk_agent_version_id x \<notin> ?vids) (db_version_kbs d) \<and>
      set (db_sessions d') = {s \<in> set (db_sessions d). sr_agent_id s \<noteq> ar_id a} \<and>
      set (db_versions d') = {v \<in> set (db_versions d). vr_agent_id v \<noteq> ar_id a}"
    using del by (auto simp: agent_delete_def with_state_def Let_def throw_def modify_eff_def drop_rows_def split: if_splits)
  have "(sid, org) \<in> session_key ` set (db_sessions d')" if "(sid, org) \<in> session_key ` set (db_sessions d)" "sid \<notin> ?sids"
    for sid org
    using session_outside [OF that(1), of "ar_id a"] that(2) d' by simp
  then have m: "messages_ok d'" and s: "summaries_ok d'"
    using inv d' by (simp_all add: content_defs distinct_map_filter_key)
  have "\<exists>ag org pj. (vk_agent_version_id x, ag, org, pj) \<in> version_key ` set (db_versions d') \<and>
      (vk_knowledge_base_id x, org, pj) \<in> kb_key ` set (db_knowledge_bases d')" if x: "x \<in> set (db_version_kbs d')" for x
  proof -
    obtain ag org pj where k: "(vk_agent_version_id x, ag, org, pj) \<in> version_key ` set (db_versions d)"
        "(vk_knowledge_base_id x, org, pj) \<in> kb_key ` set (db_knowledge_bases d)"
      using inv x d' by (simp add: content_defs) blast
    then show ?thesis using version_outside [OF k(1), of "ar_id a"] x d' by auto
  qed
  then have "version_kbs_ok d'" using inv d' by (simp add: content_defs distinct_map_filter_key)
  with m s inv d' show ?thesis by (simp add: content_defs)
qed

lemma knowledge_base_content:
  assumes "content_inv d" and "api_create_knowledge_base uid now pj n desc d = (Inr k, d')"
  shows "content_inv d'"
proof -
  obtain p where p: "get_project pj d = Some p"
      and free: "knowledge_base_violation d k = None" and d': "d' = db_knowledge_bases_update (\<lambda>rs. rs @ [k]) d"
      and k: "kb_project_id k = pr_id p" "kb_organization_id k = pr_organization_id p"
    using assms(2) by (auto simp: api_create_knowledge_base_def kb_create_def run_Inr Let_def project_found)
  have "(pr_id p, pr_organization_id p) \<in> project_key ` set (db_projects d)"
    using p by (auto simp: get_project_def intro: project_key_image dest!: scalar_Some)
  with assms(1) free k show ?thesis
    by (simp add: d' content_defs knowledge_base_violation_def has_row_iff split: if_splits) blast
qed

text \<open>A document: its row, and then the chunks of its text in place of any it had.\<close>

lemma document_row_content:
  assumes "content_inv d" and "document_row_create uid now kb n c d = (Inr r, d')"
  shows "content_inv d'"
proof -
  have "document_violation d r = None" "d' = db_documents_update (\<lambda>rs. rs @ [r]) d" "dc_knowledge_base_id r = kb"
    using assms(2) by (auto simp: document_row_create_def run_Inr Let_def)
  with assms(1) show ?thesis
    by (simp add: content_defs document_violation_def has_row_iff split: if_splits)
qed

lemma chunks_dropped_content: "content_inv d \<Longrightarrow> content_inv (drop_rows db_chunks_update P d)"
  by (auto simp: content_defs drop_rows_def distinct_map_filter_key)

lemma add_chunks_content: "content_inv d \<Longrightarrow> add_chunks rs d = (Inr u, d') \<Longrightarrow> content_inv d'"
proof (induction rs arbitrary: d)
  case (Cons r rs)
  then have free: "chunk_violation d r = None" and rest: "add_chunks rs (db_chunks_update (\<lambda>hs. hs @ [r]) d) = (Inr u, d')"
    by (auto simp: run_Inr)
  have "content_inv (db_chunks_update (\<lambda>hs. hs @ [r]) d)"
    using Cons.prems(1) free by (simp add: content_defs chunk_violation_def has_row_iff split: if_splits)
  from Cons.IH [OF this rest] show ?case .
qed (simp add: ret_Inr)

lemma search_vectors_content: "content_inv d \<Longrightarrow> content_inv (set_search_vectors en doc d)"
proof -
  define f where "f h = (if hr_document_id h = doc then h\<lparr>hr_search_vector := Some (ie_tsvector en (hr_content h))\<rparr> else h)"
    for h :: chunk_row
  have "set_search_vectors en doc = db_chunks_update (map f)" by (simp add: set_search_vectors_def f_def [abs_def])
  moreover have "hr_id (f h) = hr_id h" "hr_document_id (f h) = hr_document_id h" "hr_chunk_index (f h) = hr_chunk_index h" for h
    by (simp_all add: f_def)
  ultimately show "content_inv d \<Longrightarrow> ?thesis" by (simp add: content_defs comp_def)
qed

lemma ingest_content:
  assumes "content_inv d" and "ingest_document en uids now doc d = Some (Inr r, d')"
  shows "content_inv d'"
proof -
  obtain row where row: "document_get doc d = Some row"
    using assms(2) by (auto simp: ingest_document_def split: option.splits)
  let ?d = "chunk_delete_for_document (dc_id row) d"
  have del: "content_inv ?d" unfolding chunk_delete_for_document_def using assms(1) by (rule chunks_dropped_content)
  consider "d' = ?d" | chunks u where "store_chunks en uids now (dc_id row) chunks ?d = (Inr u, d')"
    using assms(2) row by (auto simp: ingest_document_def Let_def run_Inr split: option.splits sum.splits if_splits)
  then show ?thesis
  proof cases
    case 1
    with del show ?thesis by simp
  next
    case 2
    then obtain rs v d1 where "add_chunks rs ?d = (Inr v, d1)" "d' = set_search_vectors en (dc_id row) d1"
      by (auto simp: store_chunks_def Let_def then_Inr chunk_create_many_def throw_def modify_eff_def split: if_splits)
    then show ?thesis using add_chunks_content [OF del] search_vectors_content by blast
  qed
qed

lemma map_sum_Inr: "map_sum f g x = Inr y \<longleftrightarrow> (\<exists>z. x = Inr z \<and> y = g z)"
  by (cases x) auto

lemma document_content:
  assumes "content_inv d" and "api_create_document en uid uids now kb n c d = Some (Inr r, d')"
  shows "content_inv d'"
proof -
  obtain doc d1 x where doc: "bind_eff (require_knowledge_base kb) (\<lambda>k. document_row_create uid now (kb_id k) n c) d = (Inr doc, d1)"
      and ing: "ingest_document en uids now (dc_id doc) d1 = Some (Inr x, d')"
    using assms(2) unfolding api_create_document_def
    by (auto simp: map_sum_Inr split: prod.splits sum.splits)
  have "content_inv d1"
    using doc assms(1) document_row_content by (auto simp: require_knowledge_base_def run_Inr)
  then show ?thesis using ing by (rule ingest_content)
qed

section \<open>Any request\<close>

lemma scope_Inr: "session_scope m d = (r, d') \<Longrightarrow> d' = d \<or> (\<exists>a. m d = (Inr a, d'))"
  by (auto simp: session_scope_def split: prod.splits sum.splits)

lemma body_Inr: "with_body checked route d = (r, d') \<Longrightarrow> d' = d \<or> (\<exists>b a. checked = Inr b \<and> route b d = (Inr a, d'))"
  by (auto simp: with_body_def throw_def then_Inr split: sum.splits dest!: scope_Inr) (auto simp: ret_def)

lemma scope_then_Inr: "session_scope (then_eff m (ret ())) d = (r, d') \<Longrightarrow> d' = d \<or> (\<exists>a. m d = (Inr a, d'))"
  by (auto simp: then_Inr ret_def dest!: scope_Inr)

lemma api_step_content:
  assumes "db_inv (ev_hash en) d" and "api_step en req d = Some (r, d')"
  shows "content_inv d'"
proof -
  have c: "control_inv (ev_hash en) d" "content_inv d" using assms(1) by (simp_all add: db_inv_def)
  note same = content_kept [OF c(2)]
  show ?thesis
  proof (cases req)
    case (DeleteAgent pj ag)
    then show ?thesis
      using assms(2) c(2) agent_delete_content
      by (auto simp: api_delete_agent_def run_Inr dest!: scope_Inr agent_found)
  next
    case (CreateKnowledgeBase uid now pj n desc)
    then show ?thesis using assms(2) c(2) knowledge_base_content by (auto dest!: scope_then_Inr)
  next
    case (CreateDocument uid uids now kb n c)
    then show ?thesis
      using assms(2) \<open>content_inv d\<close> document_content by (auto split: option.splits dest!: scope_then_Inr)
  qed (use assms(2) c(2) in \<open>auto dest!: scope_Inr body_Inr scope_then_Inr
      intro: same [OF agents_same_content(1)] same [OF agents_same_content(2)] same [OF versions_same_content(1)]
        same [OF versions_same_content(2) [OF c(1)]] same [OF versions_same_content(3) [OF c(1)]]
        same [OF sessions_same_content] same [OF tools_same_content(1)] same [OF tools_same_content(2)]
        same [OF tools_same_content(3)] same [OF tools_same_content(4)] same [OF tools_same_content(5)]\<close>)
qed

lemma api_run_db_inv:
  "db_inv (ev_hash en) d \<Longrightarrow> hash_ok (ev_hash en) \<Longrightarrow> db_inv (ev_hash en) (api_run en reqs d)"
proof (induction reqs arbitrary: d)
  case (Cons r rs)
  have "db_inv (ev_hash en) d'" if "api_step en r d = Some (x, d')" for x d'
    using api_step_content [OF Cons.prems(1) that] api_step_inv [OF _ Cons.prems(2) that] Cons.prems(1)
    by (simp add: db_inv_def)
  then show ?case using Cons by (auto split: option.splits)
qed simp

end
