(* ===== verification/ControlProps.thy ===== *)
theory ControlProps
  imports ControlTables
begin

text \<open>
  Properties of the control plane: what any sequence of requests keeps, what a session is
  pinned to, how pages of a listing compose, what ingestion stores, and the deletions and
  updates the service gets wrong.
\<close>

section \<open>A concrete tenant\<close>

definition sample_digest :: "json \<Rightarrow> string" where
  "sample_digest j =
     (case j of JObj kvs \<Rightarrow>
        (case map_of kvs ''instructions'' of
           Some (JStr s) \<Rightarrow> replicate 64 (if length s = 4 then CHR ''a'' else CHR ''b'')
         | _ \<Rightarrow> replicate 64 (CHR ''0''))
      | _ \<Rightarrow> replicate 64 (CHR ''0''))"

definition sample_ctl_env :: api_env where
  "sample_ctl_env = \<lparr>ev_hash = \<lparr>he_uuid_str = nat_str, he_digest = sample_digest\<rparr>,
     ev_ingest = \<lparr>ie_embed_many = map (\<lambda>_. replicate 384 0), ie_tsvector = (\<lambda>s. [s])\<rparr>\<rparr>"

definition sample_db :: db where
  "sample_db = empty_db\<lparr>
     db_organizations := [\<lparr>or_id = 1, or_name = ''Acme'', or_slug = ''acme'', or_created_at = 0\<rparr>],
     db_projects := [\<lparr>pr_id = 10, pr_organization_id = 1, pr_name = ''Main'', pr_slug = ''main'', pr_created_at = 0\<rparr>]\<rparr>"

definition sample_agent_body :: agent_create_request where
  "sample_agent_body = \<lparr>acr_name = ''Desk'', acr_description = [], acr_status = AS_DRAFT, acr_tags = []\<rparr>"

definition sample_version_body :: version_create_request where
  "sample_version_body = \<lparr>vcr_instructions = ''help'', vcr_personality = [], vcr_locale = ''en'',
     vcr_llm = \<lparr>lb_provider_key = ''fake'', lb_model = ''m'', lb_params = []\<rparr>,
     vcr_stt = \<lparr>sb_provider_key = ''fake'', sb_model = ''m'', sb_params = []\<rparr>,
     vcr_tts = \<lparr>vb_provider_key = ''fake'', vb_voice_ref = ''v'', vb_params = []\<rparr>,
     vcr_tools = []\<rparr>"

definition sample_update_body :: version_update_request where
  "sample_update_body = \<lparr>vur_instructions = Some ''help me'', vur_personality = None, vur_locale = None,
     vur_llm = None, vur_stt = None, vur_tts = None, vur_tools = None\<rparr>"

definition sample_session_body :: "uuid option \<Rightarrow> session_create_request" where
  "sample_session_body v = \<lparr>scr_agent_id = 100, scr_agent_version_id = v, scr_channel = CH_PLAYGROUND,
     scr_livekit_room = None\<rparr>"

definition sample_tool_body :: tool_create_request where
  "sample_tool_body = \<lparr>tcr_name = ''find'', tcr_description = [], tcr_tool_type = TT_FUNCTION,
     tcr_parameters = [], tcr_config = [], tcr_enabled = True\<rparr>"

definition agent_and_draft :: "api_request list" where
  "agent_and_draft = [CreateAgent 100 5 10 sample_agent_body, CreateVersion 200 6 10 100 sample_version_body]"

lemma sample_hash_ok: "hash_ok (ev_hash sample_ctl_env)"
  by (auto simp: hash_ok_def sample_ctl_env_def sample_digest_def config_hash_ok_def list_all_iff
    split: json.splits option.splits)

lemma sample_seeded: "seeded sample_db"
  by (simp add: seeded_def sample_db_def empty_db_def)

lemma config_hash_ok_replicate: "config_hash_ok (replicate 64 c) \<longleftrightarrow> c \<in> set ''0123456789abcdef''"
  by (simp add: config_hash_ok_def list_all_iff)

lemmas ctl_run_defs = agent_and_draft_def sample_db_def empty_db_def sample_agent_body_def
  sample_version_body_def sample_update_body_def sample_session_body_def sample_tool_body_def
  with_body_def session_scope_def eff_defs
  check_agent_create_def len_between_def api_create_agent_def require_project_def require_def
  get_project_def scalar_def Let_def agent_add_def add_row_def replace_row_def drop_rows_def
  agent_violation_def has_row_def agent_to_contract_def check_agent_def
  parse_agent_status_def parse_version_status_def parse_session_status_def parse_channel_def
  parse_tool_type_def parse_enum_def
  check_version_create_def check_llm_binding_def check_stt_binding_def check_tts_binding_def
  check_provider_fields_def reject_secret_params_def lower_letter_def py_strip_def py_lstrip_def
  py_rstrip_def py_isspace_def check_tools_def api_create_version_def require_agent_def
  agent_get_in_project_def next_version_n_def check_agent_version_def
  published_requires_timestamp_def with_config_hash_def row_of_version_def version_add_def
  version_violation_def version_to_contract_def validate_llm_binding_def validate_stt_binding_def
  validate_tts_binding_def dump_llm_binding_def dump_stt_binding_def dump_tts_binding_def
  provider_fields_def object_fields_def str_field_def params_field_def config_hash_ok_replicate
  compute_config_hash_def config_payload_def sample_ctl_env_def sample_digest_def
  api_publish_version_def require_version_def version_get_for_agent_def version_flush_def
  check_version_update_def opt_ok_def check_opt_def api_update_version_def
  apply_version_update_def store_version_config_def set_if_def
  check_session_create_def max_len_ok_def api_create_session_def pinned_version_def
  version_get_latest_published_def limit_rows_def newest_first_def session_row_of_def
  session_row_create_def session_violation_def session_to_contract_def usage_of_def
  end_reason_of_def str_truthy_def check_session_def terminal_fields_match_status_def
  session_terminal_def
  check_tool_create_def api_create_tool_def tool_get_by_name_def tool_add_def tool_violation_def
  tool_definition_to_contract_def check_tool_definition_def api_attach_tool_def
  require_draft_version_def require_agent_version_def require_tool_def tool_get_in_project_def
  version_tool_attach_def version_tool_get_def version_tool_violation_def version_tool_key_def
  api_delete_tool_def tool_delete_def api_list_version_tools_def associated_tool_def tool_get_def
  version_tool_list_def

lemma draft_ids:
  "map (\<lambda>v. (vr_id v, vr_status v)) (db_versions (api_run sample_ctl_env agent_and_draft sample_db)) = [(200, ''draft'')]"
  by (simp add: ctl_run_defs)

section \<open>Any sequence of requests\<close>

text \<open>
  C28. From a database that holds tenants only, and from any that satisfies the invariant, every
  sequence of requests leaves a database that satisfies it: in all thirteen tables keys are
  unique; agents, versions, sessions, tools, messages, summaries, knowledge bases, the tools of a
  version and its knowledge bases refer to rows of their own tenant only; documents and chunks
  refer to an existing knowledge base and document; and every stored version reads as a valid
  contract whose configuration hash is the hash of what is stored.
\<close>

theorem control_plane_invariant:
  assumes "tenants_only d \<or> db_inv (ev_hash en) d" and "hash_ok (ev_hash en)"
  shows "db_inv (ev_hash en) (api_run en reqs d)"
  using assms by (auto intro: api_run_db_inv tenants_only_inv)

lemma control_plane_invariant_witness:
  "db_inv (ev_hash sample_ctl_env) (api_run sample_ctl_env
     (agent_and_draft @ [CreateKnowledgeBase 50 7 10 ''Docs'' [], CreateDocument 60 (\<lambda>i. 600 + i) 8 50 ''a'' ''hello'']) sample_db)"
proof -
  have "tenants_only sample_db"
    by (simp add: tenants_only_def sample_seeded) (simp add: sample_db_def empty_db_def tenants_ok_def)
  then show ?thesis by (intro control_plane_invariant sample_hash_ok) simp
qed

text \<open>
  C31. A published version is immutable: whatever requests follow, it stays in the database
  exactly as it is, unless its agent is deleted.
\<close>

theorem published_version_immutable:
  assumes "seeded d" and "hash_ok (ev_hash en)"
    and "v \<in> set (db_versions (api_run en before d))" and "vr_status v = ''published''"
    and "\<forall>r \<in> set after. \<not> deletes_agent (vr_agent_id v) r"
  shows "v \<in> set (db_versions (api_run en (before @ after) d))"
proof -
  have app: "api_run en (before @ after) d = api_run en after (api_run en before d)"
    by (induction before arbitrary: d) simp_all
  have "control_inv (ev_hash en) (api_run en before d)"
    using assms(1,2) by (intro api_run_inv seeded_inv)
  from api_run_keeps [OF this assms(2,5)] show ?thesis
    using assms(3,4) app by (simp add: keeps_def)
qed

lemma published_version_immutable_witness:
  "\<exists>v. vr_status v = ''published'' \<and> v \<in> set (db_versions (api_run sample_ctl_env
     ((agent_and_draft @ [PublishVersion 7 10 100 200]) @ [UpdateVersion 10 100 200 sample_update_body]) sample_db))"
proof -
  let ?b = "agent_and_draft @ [PublishVersion 7 10 100 200]"
  have "map vr_status (db_versions (api_run sample_ctl_env ?b sample_db)) = [''published'']"
    by (simp add: ctl_run_defs)
  then obtain v where v: "db_versions (api_run sample_ctl_env ?b sample_db) = [v]" "vr_status v = ''published''"
    by (cases "db_versions (api_run sample_ctl_env ?b sample_db)") auto
  then show ?thesis
    using published_version_immutable [OF sample_seeded sample_hash_ok, of v ?b "[UpdateVersion 10 100 200 sample_update_body]"]
    by (intro exI [of _ v]) simp
qed

section \<open>Sessions\<close>

lemma newest_first_hd:
  assumes "newest_first (key :: _ \<Rightarrow> int) rows = r # rs" and "x \<in> set rows"
  shows "key x \<le> key r"
proof -
  have "sorted (map key (sort_key key rows))" by simp
  moreover have "sort_key key rows = rev rs @ [r]"
    using assms(1) unfolding newest_first_def by (metis rev.simps(2) rev_rev_ident)
  moreover have "x \<in> set (sort_key key rows)" using assms(2) by simp
  ultimately show ?thesis by (auto simp: sorted_append)
qed

lemma version_get_latest_published_max:
  assumes "version_get_latest_published ag org pj d = Some r" and "x \<in> set (db_versions d)"
    and "vr_agent_id x = ag" "vr_organization_id x = org" "vr_project_id x = pj" "vr_status x = ''published''"
  shows "vr_version_n x \<le> vr_version_n r"
proof -
  let ?rows = "filter (\<lambda>r. vr_agent_id r = ag \<and> vr_organization_id r = org \<and> vr_project_id r = pj \<and>
      vr_status r = ''published'') (db_versions d)"
  obtain rs where "newest_first vr_version_n ?rows = r # rs"
    using assms(1) by (cases "newest_first vr_version_n ?rows")
      (auto simp: version_get_latest_published_def limit_rows_def)
  then show ?thesis by (rule newest_first_hd) (use assms in simp)
qed

lemma pinned_version_state: "pinned_version p a vid d = (Inr v, d') \<Longrightarrow> d' = d \<and> pinned_version p a vid d = (Inr v, d)"
  by (auto simp: pinned_version_def require_Inr split: option.splits)

lemma api_create_session_Inr:
  assumes "api_create_session uid now pj body d = (Inr s, d')"
  obtains p a v where "get_project pj d = Some p"
    and "agent_get_in_project (pr_id p) (pr_organization_id p) (scr_agent_id body) d = Some a"
    and "pinned_version p a (scr_agent_version_id body) d = (Inr v, d)"
    and "session_violation d (session_row_of uid now body p a v) = None"
    and "d' = db_sessions_update (\<lambda>rs. rs @ [session_row_of uid now body p a v]) d"
    and "session_to_contract (session_row_of uid now body p a v) = Inr s"
  using assms
  by (auto simp: api_create_session_def require_agent_def require_project_def run_Inr Let_def
    session_row_create_def dest: pinned_version_state)

text \<open>
  A session that create_session returns is pinned to a version of the agent in the same
  tenant: the one asked for, or else the published version with the highest number; it carries
  that version's configuration hash and is the one row added.
\<close>

theorem create_session_pins_version:
  assumes "api_create_session uid now pj body d = (Inr s, d')"
  shows "\<exists>v \<in> set (db_versions d). ss_agent_version_id s = vr_id v \<and> ss_config_hash s = vr_config_hash v \<and>
    vr_agent_id v = scr_agent_id body \<and> vr_project_id v = pj \<and> vr_organization_id v = ss_organization_id s \<and>
    ss_status s = SS_INITIALIZING \<and>
    (case scr_agent_version_id body of
       Some i \<Rightarrow> vr_id v = i
     | None \<Rightarrow> vr_status v = ''published'' \<and> (\<forall>x \<in> set (db_versions d). vr_agent_id x = vr_agent_id v \<and>
         vr_organization_id x = vr_organization_id v \<and> vr_project_id x = pj \<and> vr_status x = ''published'' \<longrightarrow>
         vr_version_n x \<le> vr_version_n v)) \<and>
    (\<exists>row. d' = d\<lparr>db_sessions := db_sessions d @ [row]\<rparr> \<and> session_to_contract row = Inr s)"
proof -
  obtain p a v where p: "get_project pj d = Some p"
      and a: "agent_get_in_project (pr_id p) (pr_organization_id p) (scr_agent_id body) d = Some a"
      and v: "pinned_version p a (scr_agent_version_id body) d = (Inr v, d)"
      and d': "d' = db_sessions_update (\<lambda>rs. rs @ [session_row_of uid now body p a v]) d"
      and s: "session_to_contract (session_row_of uid now body p a v) = Inr s"
    using assms by (rule api_create_session_Inr)
  have ids: "pr_id p = pj" "ar_id a = scr_agent_id body"
    using p a by (auto simp: get_project_def agent_get_in_project_def dest: scalar_Some)
  have row: "ss_agent_version_id s = vr_id v" "ss_config_hash s = vr_config_hash v"
      "ss_organization_id s = pr_organization_id p" "ss_status s = SS_INITIALIZING"
    using s parse_value(3) [of SS_INITIALIZING]
    by (auto simp: session_to_contract_def session_row_of_def and_then_Inr dest!: check_session_Inr(1))
  have added: "\<exists>row. d' = d\<lparr>db_sessions := db_sessions d @ [row]\<rparr> \<and> session_to_contract row = Inr s"
    by (rule exI [of _ "session_row_of uid now body p a v"]) (simp add: d' s)
  show ?thesis
  proof (cases "scr_agent_version_id body")
    case None
    then have l: "version_get_latest_published (ar_id a) (pr_organization_id p) (pr_id p) d = Some v"
      using v by (simp add: pinned_version_def require_Inr)
    note f = version_get_latest_published_Some [OF l]
    show ?thesis
      by (rule bexI [OF _ f(1)]) (use None f ids row added version_get_latest_published_max [OF l] in auto)
  next
    case (Some i)
    then have "version_get_for_agent (ar_id a) (pr_organization_id p) (pr_id p) i d = Some v"
      using v by (simp add: pinned_version_def require_Inr)
    note f = version_get_for_agent_Some [OF this]
    show ?thesis
      by (rule bexI [OF _ conjunct1 [OF f]]) (use Some f ids row added in auto)
  qed
qed

definition sample_version_row :: version_row where
  "sample_version_row = \<lparr>vr_id = 200, vr_organization_id = 1, vr_project_id = 10, vr_agent_id = 100,
     vr_version_n = 1, vr_status = ''published'', vr_instructions = ''help'', vr_personality = [],
     vr_locale = ''en'', vr_llm = JObj [], vr_stt = JObj [], vr_tts = JObj [], vr_tools = [],
     vr_config_hash = replicate 64 (CHR ''a''), vr_created_by = None, vr_created_at = 6, vr_published_at = Some 7\<rparr>"

definition sample_agent_row :: agent_row where
  "sample_agent_row = \<lparr>ar_id = 100, ar_organization_id = 1, ar_project_id = 10, ar_name = ''Desk'',
     ar_description = [], ar_status = ''draft'', ar_tags = [], ar_created_by = None, ar_created_at = 5,
     ar_updated_at = 5\<rparr>"

definition sample_published_db :: db where
  "sample_published_db = sample_db\<lparr>db_agents := [sample_agent_row], db_versions := [sample_version_row]\<rparr>"

lemma create_session_pins_version_witness:
  "\<exists>s d'. api_create_session 400 8 10 (sample_session_body None) sample_published_db = (Inr s, d') \<and>
    ss_agent_version_id s = 200 \<and> ss_status s = SS_INITIALIZING"
proof -
  let ?r = "api_create_session 400 8 10 (sample_session_body None) sample_published_db"
  have "map_sum id ss_id (fst ?r) = Inr 400"
    by (simp add: ctl_run_defs sample_published_db_def sample_version_row_def sample_agent_row_def)
  then obtain s d' where r: "?r = (Inr s, d')"
    by (cases ?r; cases "fst ?r") auto
  from create_session_pins_version [OF r] obtain v where
    "v \<in> set (db_versions sample_published_db)" "ss_agent_version_id s = vr_id v" "ss_status s = SS_INITIALIZING" by auto
  then show ?thesis using r by (simp add: sample_published_db_def sample_version_row_def)
qed

section \<open>Pages\<close>

text \<open>Following the cursors of a listing, at most \<open>n\<close> pages.\<close>

fun collect_pages :: "nat \<Rightarrow> uuid \<Rightarrow> uuid \<Rightarrow> int \<Rightarrow> uuid option \<Rightarrow> db \<Rightarrow> agent_row list option" where
  "collect_pages 0 pj org limit cursor d = None"
| "collect_pages (Suc n) pj org limit cursor d =
     (let (rows, next_cursor) = page ar_id limit (agent_list_in_project pj org (limit + 1) cursor d) in
      case next_cursor of
        None \<Rightarrow> Some rows
      | Some c \<Rightarrow> map_option ((@) rows) (collect_pages n pj org limit (Some c) d))"

definition agent_order :: "agent_row \<Rightarrow> time \<times> uuid" where
  "agent_order r = (ar_created_at r, ar_id r)"

definition project_agents :: "uuid \<Rightarrow> uuid \<Rightarrow> db \<Rightarrow> agent_row list" where
  "project_agents pj org d =
     newest_first agent_order (filter (\<lambda>r. ar_project_id r = pj \<and> ar_organization_id r = org) (db_agents d))"

lemma agent_before_iff: "agent_before c r \<longleftrightarrow> agent_order r < agent_order c"
  by (auto simp: agent_before_def agent_order_def)

lemma newest_first_filter: "newest_first key (filter P rows) = filter P (newest_first key rows)"
  by (simp add: newest_first_def filter_sort rev_filter [symmetric])

lemma newest_first_strict:
  assumes "distinct (map key rows)" and "i < j" and "j < length (newest_first key rows)"
  shows "key (newest_first key rows ! j) < key (newest_first key rows ! i)"
proof -
  let ?s = "sort_key key rows"
  have "distinct (map key ?s)" using assms(1) by (simp add: distinct_map)
  then have "sorted_wrt (<) (map key ?s)" by (simp add: strict_sorted_iff)
  then show ?thesis
    using assms(2,3) sorted_wrt_nth_less [of "(<)" "map key ?s" "length ?s - Suc j" "length ?s - Suc i"]
    by (simp add: newest_first_def rev_nth)
qed

lemma filter_below:
  assumes "distinct (map key rows)" and "i < length (newest_first key rows)"
  shows "filter (\<lambda>r. key r < key (newest_first key rows ! i)) (newest_first key rows) = drop (Suc i) (newest_first key rows)"
proof -
  let ?l = "newest_first key rows"
  have "\<not> key (?l ! j) < key (?l ! i)" if "j \<le> i" for j
    using newest_first_strict [OF assms(1), of j i] assms(2) that by (cases "j = i") (auto dest: less_asym)
  then have "filter (\<lambda>r. key r < key (?l ! i)) (take (Suc i) ?l) = []"
    using assms(2) by (auto simp: filter_empty_conv in_set_conv_nth)
  moreover have "filter (\<lambda>r. key r < key (?l ! i)) (drop (Suc i) ?l) = drop (Suc i) ?l"
    using newest_first_strict [OF assms(1), of i] unfolding filter_id_conv set_conv_nth by auto
  ultimately show ?thesis
    by (metis append_Nil append_take_drop_id filter_append)
qed

lemma project_agents_distinct:
  assumes "control_inv h d"
  shows "distinct (map agent_order (filter P (db_agents d)))"
  using assms by (auto simp: inv_defs agent_order_def distinct_map inj_on_def intro: distinct_filter)

lemma find_key: "x \<in> set xs \<Longrightarrow> distinct (map key xs) \<Longrightarrow> List.find (\<lambda>y. key y = key x) xs = Some x"
  by (induction xs) auto

lemma agent_list_after:
  assumes inv: "control_inv h d" and i: "i < length (project_agents pj org d)"
  shows "agent_list_in_project pj org n (Some (ar_id (project_agents pj org d ! i))) d =
    limit_rows n (drop (Suc i) (project_agents pj org d))"
proof -
  let ?l = "project_agents pj org d"
  have "?l ! i \<in> set (db_agents d)"
    using nth_mem [OF i] by (auto simp: project_agents_def newest_first_def)
  moreover have "distinct (map ar_id (db_agents d))" using inv by (simp add: inv_defs)
  ultimately have "agent_get (ar_id (?l ! i)) d = Some (?l ! i)"
    unfolding agent_get_def scalar_def by (intro find_key)
  then show ?thesis
    using filter_below [OF project_agents_distinct [OF inv], of i "\<lambda>r. ar_project_id r = pj \<and> ar_organization_id r = org"] i
    by (simp add: agent_list_in_project_def agent_before_iff newest_first_filter project_agents_def
      agent_order_def [abs_def, symmetric] Let_def)
qed

lemma page_prefix:
  assumes "1 \<le> limit"
  shows "page key limit (limit_rows (limit + 1) l) =
    (if nat limit < length l then (take (nat limit) l, Some (key (l ! (nat limit - 1)))) else (l, None))"
proof -
  have n: "nat (limit + 1) = Suc (nat limit)" using assms by simp
  show ?thesis
  proof (cases "nat limit < length l")
    case True
    have "last (take (nat limit) l) = l ! (nat limit - 1)"
      using True assms by (subst last_conv_nth) auto
    then show ?thesis using True assms by (auto simp: page_def limit_rows_def n Let_def min_def)
  next
    case False
    then show ?thesis using assms by (auto simp: page_def limit_rows_def n)
  qed
qed

lemma collect_from:
  assumes inv: "control_inv h d" and lim: "1 \<le> limit" and k: "k \<le> length (project_agents pj org d)"
    and cur: "k = 0 \<and> cursor = None \<or> 0 < k \<and> cursor = Some (ar_id (project_agents pj org d ! (k - 1)))"
    and fuel: "length (project_agents pj org d) - k < n"
  shows "collect_pages n pj org limit cursor d = Some (drop k (project_agents pj org d))"
  using k cur fuel
proof (induction n arbitrary: k cursor)
  case (Suc n)
  let ?l = "project_agents pj org d"
  have rows: "agent_list_in_project pj org (limit + 1) cursor d = limit_rows (limit + 1) (drop k ?l)"
  proof (cases "k = 0")
    case True
    then show ?thesis
      using Suc.prems(2) by (simp add: agent_list_in_project_def project_agents_def agent_order_def [abs_def])
  next
    case False
    then show ?thesis using Suc.prems agent_list_after [OF inv, of "k - 1" pj org] by simp
  qed
  show ?case
  proof (cases "nat limit < length (drop k ?l)")
    case False
    then show ?thesis by (simp add: rows page_prefix [OF lim])
  next
    case True
    let ?k = "k + nat limit"
    have "collect_pages n pj org limit (Some (ar_id (?l ! (?k - 1)))) d = Some (drop ?k ?l)"
      using Suc.prems(3) True lim by (intro Suc.IH) auto
    moreover have "drop k ?l ! (nat limit - 1) = ?l ! (?k - 1)" using True lim by simp
    moreover have "take (nat limit) (drop k ?l) @ drop ?k ?l = drop k ?l"
      by (metis add.commute append_take_drop_id drop_drop)
    ultimately show ?thesis using True by (simp add: rows page_prefix [OF lim])
  qed
qed simp

text \<open>
  Following the cursors of the agent listing page by page gives every agent of the project
  once, newest first, for any page size, as long as nothing is written in between.
\<close>

theorem agent_pages_complete:
  assumes "control_inv h d" and "1 \<le> limit" and "length (project_agents pj org d) < n"
  shows "collect_pages n pj org limit None d = Some (project_agents pj org d)"
  using collect_from [OF assms(1,2), of 0 pj org None n] assms(3) by simp

definition sample_listing_db :: db where
  "sample_listing_db = sample_db\<lparr>db_agents := [sample_agent_row,
     sample_agent_row\<lparr>ar_id := 101, ar_created_at := 9\<rparr>]\<rparr>"

lemma agent_pages_complete_witness:
  "collect_pages 3 10 1 1 None sample_listing_db =
     Some [sample_agent_row\<lparr>ar_id := 101, ar_created_at := 9\<rparr>, sample_agent_row]"
proof -
  have "control_inv (ev_hash sample_ctl_env) sample_listing_db"
    by (simp add: inv_defs key_defs sample_listing_db_def sample_db_def empty_db_def sample_agent_row_def)
  moreover have "project_agents 10 1 sample_listing_db =
      [sample_agent_row\<lparr>ar_id := 101, ar_created_at := 9\<rparr>, sample_agent_row]"
    by (simp add: project_agents_def newest_first_def sample_listing_db_def agent_order_def sample_agent_row_def)
  ultimately show ?thesis
    using agent_pages_complete [of "ev_hash sample_ctl_env" sample_listing_db 1 10 1 3] by simp
qed

section \<open>Deletions\<close>

text \<open>
  An agent that has a session cannot be deleted: the request fails in the database with
  status 500 and changes nothing.
\<close>

theorem delete_agent_with_session_fails:
  assumes "control_inv h d" and "s \<in> set (db_sessions d)"
  shows "api_step en (DeleteAgent (sr_project_id s) (sr_agent_id s)) d =
      Some (Inl (IntegrityErr ''sessions_agent_version_id_fkey''), d) \<and>
    http_status (IntegrityErr ''sessions_agent_version_id_fkey'') = 500"
proof -
  obtain v where v: "v \<in> set (db_versions d)" "vr_id v = sr_agent_version_id s" "vr_agent_id v = sr_agent_id s"
      "vr_organization_id v = sr_organization_id s" "vr_project_id v = sr_project_id s"
    using assms by (auto simp: inv_defs key_defs)
  then obtain a where a: "a \<in> set (db_agents d)" "ar_id a = sr_agent_id s" "ar_organization_id a = sr_organization_id s"
      "ar_project_id a = sr_project_id s"
    using assms(1) unfolding inv_defs by (auto simp: key_defs)
  then obtain p where p: "p \<in> set (db_projects d)" "pr_id p = sr_project_id s" "pr_organization_id p = sr_organization_id s"
    using assms(1) unfolding inv_defs by (auto simp: key_defs)
  have gp: "get_project (sr_project_id s) d = Some p"
    unfolding get_project_def scalar_def p(2) [symmetric]
    by (rule find_key) (use assms(1) p(1) in \<open>simp_all add: inv_defs\<close>)
  have "List.find (\<lambda>r. ar_id r = ar_id a) (db_agents d) = Some a"
    by (rule find_key) (use assms(1) a(1) in \<open>simp_all add: inv_defs\<close>)
  then have ga: "agent_get_in_project (pr_id p) (pr_organization_id p) (sr_agent_id s) d = Some a"
    using a p by (auto simp: agent_get_in_project_def scalar_def find_Some_iff)
  have "list_ex (\<lambda>x. sr_agent_version_id x \<in> set (map vr_id (filter (\<lambda>v. vr_agent_id v = ar_id a) (db_versions d))))
      (db_sessions d)"
    using assms(2) v a(2) by (force simp: list_ex_iff)
  then show ?thesis
    using gp ga by (simp add: api_delete_agent_def require_agent_def require_project_def require_def
      agent_delete_def session_scope_def eff_defs Let_def)
qed

lemma delete_agent_with_session_fails_witness:
  "api_step sample_ctl_env (DeleteAgent 10 100) (api_run sample_ctl_env
     (agent_and_draft @ [CreateSession 400 8 10 (sample_session_body (Some 200))]) sample_db) =
   Some (Inl (IntegrityErr ''sessions_agent_version_id_fkey''), api_run sample_ctl_env
     (agent_and_draft @ [CreateSession 400 8 10 (sample_session_body (Some 200))]) sample_db)"
proof -
  let ?d = "api_run sample_ctl_env (agent_and_draft @ [CreateSession 400 8 10 (sample_session_body (Some 200))]) sample_db"
  have "map (\<lambda>s. (sr_project_id s, sr_agent_id s)) (db_sessions ?d) = [(10, 100)]"
    by (simp add: ctl_run_defs)
  then obtain s where s: "s \<in> set (db_sessions ?d)" "sr_project_id s = 10" "sr_agent_id s = 100"
    by (cases "db_sessions ?d") auto
  have "control_inv (ev_hash sample_ctl_env) ?d"
    by (intro api_run_inv seeded_inv sample_seeded sample_hash_ok)
  from delete_agent_with_session_fails [OF this s(1)] show ?thesis using s(2,3) by simp
qed

text \<open>
  Deleting a tool removes it from a published version too, although the association
  routes refuse to change a published version: the version's tools go from one to none.
\<close>

definition publish_with_tool :: "api_request list" where
  "publish_with_tool = agent_and_draft @
     [CreateTool 300 7 10 sample_tool_body, AttachTool 8 10 100 200 300, PublishVersion 9 10 100 200]"

theorem published_tools_not_immutable:
  "map_sum id (map tf_name) (fst (api_list_version_tools 10 100 200
     (api_run sample_ctl_env publish_with_tool sample_db))) = Inr [''find''] \<and>
   map_sum id (map tf_name) (fst (api_list_version_tools 10 100 200
     (api_run sample_ctl_env (publish_with_tool @ [DeleteTool 10 300]) sample_db))) = Inr [] \<and>
   map (\<lambda>v. vr_status v) (db_versions (api_run sample_ctl_env (publish_with_tool @ [DeleteTool 10 300]) sample_db))
     = [''published'']"
  by (simp add: ctl_run_defs publish_with_tool_def)

end
