(* ===== verification/ControlData.thy ===== *)
theory ControlData
  imports ControlProps
begin

text \<open>
  What the control plane stores: the version a creation returns and reads back, and the chunks
  an ingestion leaves.
\<close>

section \<open>Versions\<close>

lemma next_version_n_greater:
  assumes "x \<in> set (db_versions d)" and "vr_agent_id x = ag"
  shows "vr_version_n x < next_version_n ag d"
proof (cases "map vr_version_n (filter (\<lambda>r. vr_agent_id r = ag) (db_versions d))")
  case Nil
  then show ?thesis using assms by (auto simp: filter_empty_conv)
next
  case (Cons n ns)
  have "vr_version_n x \<in> set (n # ns)" unfolding Cons [symmetric] using assms by simp
  then show ?thesis using Cons foldl_max_bounds [of n ns] foldl_max_bounds(2) [of "vr_version_n x" ns n]
    by (auto simp: next_version_n_def)
qed

lemma created_version_row:
  assumes "api_create_version h uid now pj ag body d = (Inr v, d')" and "hash_ok h"
    and "check_version_create b0 = Inr body"
  shows "\<exists>p. get_project pj d = Some p \<and> v = with_config_hash h v \<and> av_id v = uid \<and> av_agent_id v = ag \<and>
    av_organization_id v = pr_organization_id p \<and> av_project_id v = pj \<and>
    av_version_n v = next_version_n ag d \<and> av_status v = AV_DRAFT \<and>
    version_violation d (row_of_version v) = None \<and>
    d' = db_versions_update (\<lambda>rs. rs @ [row_of_version v]) d \<and>
    version_to_contract (row_of_version v) = Inr v"
proof -
  define draft where "draft p a = \<lparr>av_id = uid, av_organization_id = pr_organization_id p,
      av_project_id = pr_id p, av_agent_id = ar_id a, av_version_n = next_version_n (ar_id a) d,
      av_status = AV_DRAFT, av_instructions = vcr_instructions body, av_personality = vcr_personality body,
      av_locale = vcr_locale body, av_llm = vcr_llm body, av_stt = vcr_stt body, av_tts = vcr_tts body,
      av_tools = vcr_tools body, av_config_hash = None, av_created_by = None, av_created_at = now,
      av_published_at = None\<rparr>" for p :: project_row and a :: agent_row
  obtain p a where p: "get_project pj d = Some p"
      and a: "agent_get_in_project (pr_id p) (pr_organization_id p) ag d = Some a"
      and c: "check_agent_version (draft p a) = Inr (draft p a)"
      and free: "version_violation d (row_of_version (with_config_hash h (draft p a))) = None"
      and d': "d' = db_versions_update (\<lambda>rs. rs @ [row_of_version (with_config_hash h (draft p a))]) d"
      and v: "version_to_contract (row_of_version (with_config_hash h (draft p a))) = Inr v"
    using assms(1) unfolding api_create_version_def draft_def
    by (auto simp: require_agent_def require_project_def run_Inr with_state_def Let_def version_add_def
      check_agent_version_Inr)
  have "version_bindings_ok (draft p a)"
    using check_version_create_Inr(7) [OF assms(3)] by (simp add: draft_def version_bindings_ok_def)
  then have "v = with_config_hash h (draft p a)"
    using v row_of_version_reads_back [OF c _ assms(2)] by (simp add: draft_def)
  moreover have "pr_id p = pj" "ar_id a = ag"
    using p a by (auto simp: get_project_def agent_get_in_project_def dest: scalar_Some)
  ultimately show ?thesis
    using p free d' v by (intro exI [of _ p]) (auto simp: with_config_hash_def compute_config_hash_def
      config_payload_def draft_def)
qed

text \<open>
  C35. What create_version makes of a validated request is a draft with a number above every
  other version of the agent and the hash of its own configuration, and get_version reads the
  same value back.
\<close>

theorem created_version_reads_back:
  assumes "api_create_version h uid now pj ag body d = (Inr v, d')" and "hash_ok h"
    and "check_version_create b0 = Inr body"
  shows "av_status v = AV_DRAFT \<and> av_config_hash v = Some (compute_config_hash h v) \<and>
    (\<forall>x \<in> set (db_versions d). vr_agent_id x = ag \<longrightarrow> vr_version_n x < av_version_n v) \<and>
    api_get_version pj ag uid d' = (Inr v, d')"
proof -
  obtain p where p: "get_project pj d = Some p" and h: "v = with_config_hash h v"
      and ids: "av_id v = uid" "av_agent_id v = ag" "av_organization_id v = pr_organization_id p" "av_project_id v = pj"
      and n: "av_version_n v = next_version_n ag d" and s: "av_status v = AV_DRAFT"
      and free: "version_violation d (row_of_version v) = None"
      and d': "d' = db_versions_update (\<lambda>rs. rs @ [row_of_version v]) d"
      and v: "version_to_contract (row_of_version v) = Inr v"
    using created_version_row [OF assms] by auto
  have fields: "vr_id (row_of_version v) = uid" "vr_agent_id (row_of_version v) = ag"
      "vr_organization_id (row_of_version v) = pr_organization_id p" "vr_project_id (row_of_version v) = pj"
    using ids by (simp_all add: row_of_version_def)
  have pp: "pr_id p = pj" using p by (auto simp: get_project_def dest: scalar_Some)
  have "uid \<notin> vr_id ` set (db_versions d)"
    using free fields(1) by (simp add: version_violation_def has_row_iff split: if_splits)
  then have "\<forall>x \<in> set (db_versions d). vr_id x \<noteq> uid" by force
  then have "version_get_for_agent ag (pr_organization_id p) (pr_id p) uid d' = Some (row_of_version v)"
    using d' fields pp by (auto simp: version_get_for_agent_def intro!: scalar_snoc)
  moreover have "get_project pj d' = Some p" using p d' by (simp add: get_project_def)
  ultimately have "api_get_version pj ag uid d' = (Inr v, d')"
    using v by (simp add: api_get_version_def require_version_def require_project_def require_def eff_defs)
  moreover have "av_config_hash v = Some (compute_config_hash h v)"
    using arg_cong [OF h, of av_config_hash] by (simp add: with_config_hash_def)
  ultimately show ?thesis using s n next_version_n_greater by auto
qed


lemma created_version_reads_back_witness:
  "\<exists>v d'. api_create_version (ev_hash sample_ctl_env) 200 6 10 100 sample_version_body
      (api_run sample_ctl_env [CreateAgent 100 5 10 sample_agent_body] sample_db) = (Inr v, d') \<and>
    av_status v = AV_DRAFT \<and> api_get_version 10 100 200 d' = (Inr v, d')"
proof -
  let ?r = "api_create_version (ev_hash sample_ctl_env) 200 6 10 100 sample_version_body
      (api_run sample_ctl_env [CreateAgent 100 5 10 sample_agent_body] sample_db)"
  have body: "check_version_create sample_version_body = Inr sample_version_body"
    by (simp add: ctl_run_defs)
  have "map_sum id av_id (fst ?r) = Inr 200" by (simp add: ctl_run_defs)
  then obtain v d' where r: "?r = (Inr v, d')" by (cases ?r; cases "fst ?r") auto
  show ?thesis using created_version_reads_back [OF r sample_hash_ok body] r by blast
qed

section \<open>Ingestion\<close>

lemma add_chunks_Inr:
  "add_chunks rs d = (Inr u, d') \<Longrightarrow> d' = db_chunks_update (\<lambda>hs. hs @ rs) d"
proof (induction rs arbitrary: d)
  case (Cons r rs)
  then have "add_chunks rs (db_chunks_update (\<lambda>hs. hs @ [r]) d) = (Inr u, d')"
    by (auto simp: then_Inr add_row_Inr)
  from Cons.IH [OF this] show ?case by (cases d) simp
qed (simp add: ret_Inr)

text \<open>The rows of a batch: their document, and their number and text in order.\<close>

lemma chunk_rows_of_batch:
  assumes "length es = length chunks"
  shows "map (\<lambda>h. (hr_chunk_index h, hr_content h)) (chunk_rows uids now doc (chunk_data chunks es))
      = zip (map int [0..<length chunks]) chunks"
  using assms by (auto simp: chunk_rows_def chunk_data_def nth_enumerate_eq intro!: nth_equalityI)

lemma chunk_rows_document: "\<forall>h \<in> set (chunk_rows uids now doc xs). hr_document_id h = doc"
  by (auto simp: chunk_rows_def)

lemma sorted_chunk_indices:
  assumes "map (\<lambda>h. (hr_chunk_index h, hr_content h)) rows = zip (map int [0..<n]) cs" and "length cs = n"
  shows "sort_key hr_chunk_index rows = rows"
proof (rule sort_key_id_if_sorted)
  have "map hr_chunk_index rows = map fst (map (\<lambda>h. (hr_chunk_index h, hr_content h)) rows)" by simp
  also have "\<dots> = map int [0..<n]" unfolding assms(1) using assms(2) by simp
  finally show "sorted (map hr_chunk_index rows)" by (simp add: sorted_iff_nth_mono)
qed

text \<open>The text-search vectors are written to the chunks of the document only.\<close>

lemma set_search_vectors_chunks:
  assumes "db_chunks d = filter (\<lambda>h. hr_document_id h \<noteq> doc) other @ rows"
    and "\<forall>h \<in> set rows. hr_document_id h = doc"
  shows "filter (\<lambda>h. hr_document_id h \<noteq> doc) (db_chunks (set_search_vectors en doc d))
      = filter (\<lambda>h. hr_document_id h \<noteq> doc) other"
    and "filter (\<lambda>h. hr_document_id h = doc) (db_chunks (set_search_vectors en doc d))
      = map (\<lambda>h. h\<lparr>hr_search_vector := Some (ie_tsvector en (hr_content h))\<rparr>) rows"
  using assms
  by (auto simp: set_search_vectors_def filter_map filter_empty_conv comp_def intro!: map_idI)

text \<open>
  C36. An ingestion that succeeds replaces the chunks of the document by the pieces of its text,
  numbered from zero in order, and leaves the chunks of other documents as they are; ingesting
  again therefore stores the same pieces.
\<close>

theorem ingestion_replaces_chunks:
  assumes "ingest_document en uids now doc d = Some (Inr r, d')"
  shows "\<exists>chunks. chunk_text (dc_content r) default_chunk_size default_chunk_overlap = Some (Inr chunks) \<and>
    map (\<lambda>h. (hr_chunk_index h, hr_content h)) (chunk_list_for_document doc d') =
      zip (map int [0..<length chunks]) chunks \<and>
    filter (\<lambda>h. hr_document_id h \<noteq> doc) (db_chunks d') = filter (\<lambda>h. hr_document_id h \<noteq> doc) (db_chunks d)"
proof -
  let ?d = "chunk_delete_for_document doc d"
  obtain row where row: "document_get doc d = Some row"
    using assms by (auto simp: ingest_document_def split: option.splits)
  have id: "dc_id row = doc" using scalar_Some row by (fastforce simp: document_get_def)
  obtain chunks where ct: "chunk_text (dc_content r) default_chunk_size default_chunk_overlap = Some (Inr chunks)"
      and st: "chunks = [] \<and> d' = ?d \<or> (\<exists>u. store_chunks en uids now doc chunks ?d = (Inr u, d'))"
    using assms row id
    by (auto simp: ingest_document_def Let_def then_Inr ret_Inr split: option.splits sum.splits if_splits)
  have del: "db_chunks ?d = filter (\<lambda>h. hr_document_id h \<noteq> doc) (db_chunks d)"
    by (simp add: chunk_delete_for_document_def drop_rows_def)
  from st show ?thesis
  proof
    assume "chunks = [] \<and> d' = ?d"
    then show ?thesis using ct del by (simp add: chunk_list_for_document_def)
  next
    assume "\<exists>u. store_chunks en uids now doc chunks ?d = (Inr u, d')"
    then obtain u d1 where len: "length (ie_embed_many en chunks) = length chunks"
        and add: "add_chunks (chunk_rows uids now doc (chunk_data chunks (ie_embed_many en chunks))) ?d = (Inr u, d1)"
        and d': "d' = set_search_vectors en doc d1"
      by (auto simp: store_chunks_def Let_def then_Inr chunk_create_many_def throw_def modify_eff_def split: if_splits)
    let ?rows = "chunk_rows uids now doc (chunk_data chunks (ie_embed_many en chunks))"
    have d1: "db_chunks d1 = filter (\<lambda>h. hr_document_id h \<noteq> doc) (db_chunks d) @ ?rows"
      using add_chunks_Inr [OF add] del by simp
    let ?own = "map (\<lambda>h. h\<lparr>hr_search_vector := Some (ie_tsvector en (hr_content h))\<rparr>) ?rows"
    have own: "filter (\<lambda>h. hr_document_id h = doc) (db_chunks d') = ?own"
      unfolding d' by (rule set_search_vectors_chunks(2) [OF d1 chunk_rows_document])
    have others: "filter (\<lambda>h. hr_document_id h \<noteq> doc) (db_chunks d') = filter (\<lambda>h. hr_document_id h \<noteq> doc) (db_chunks d)"
      unfolding d' by (rule set_search_vectors_chunks(1) [OF d1 chunk_rows_document])
    have prs: "map (\<lambda>h. (hr_chunk_index h, hr_content h)) ?own = zip (map int [0..<length chunks]) chunks"
      using chunk_rows_of_batch [OF len] by (simp add: comp_def)
    have "chunk_list_for_document doc d' = ?own"
      unfolding chunk_list_for_document_def own by (rule sorted_chunk_indices [OF prs refl])
    then show ?thesis using ct prs others by auto
  qed
qed


definition sample_document_db :: db where
  "sample_document_db = sample_db\<lparr>
     db_knowledge_bases := [\<lparr>kb_id = 50, kb_organization_id = 1, kb_project_id = 10, kb_name = ''Docs'',
       kb_description = [], kb_created_at = 3, kb_updated_at = 3\<rparr>],
     db_documents := [\<lparr>dc_id = 60, dc_knowledge_base_id = 50, dc_name = ''a'', dc_content = ''hello'',
       dc_created_at = 4, dc_updated_at = 4\<rparr>]\<rparr>"

lemma ingestion_replaces_chunks_witness:
  "\<exists>r d'. ingest_document (ev_ingest sample_ctl_env) (\<lambda>i. 600 + i) 9 60 sample_document_db = Some (Inr r, d') \<and>
    (\<exists>chunks. chunk_text (dc_content r) default_chunk_size default_chunk_overlap = Some (Inr chunks) \<and>
      map (\<lambda>h. (hr_chunk_index h, hr_content h)) (chunk_list_for_document 60 d') =
        zip (map int [0..<length chunks]) chunks)"
proof -
  have hello: "chunk_text ''hello'' default_chunk_size default_chunk_overlap = Some (Inr [''hello''])"
  proof -
    have "normalize_text ''hello'' = ''hello''"
      by (simp add: normalize_text_def py_split.simps py_isspace_def)
    then show ?thesis
      by (simp add: chunk_text_def py_strip_Nil_iff py_isspace_def chunk_loop.simps default_chunk_size_def
        default_chunk_overlap_def push_piece_def)
  qed
  let ?r = "ingest_document (ev_ingest sample_ctl_env) (\<lambda>i. 600 + i) 9 60 sample_document_db"
  have "map_option (\<lambda>(r, d). (map_sum id dc_id r, length (db_chunks d))) ?r = Some (Inr 60, 1)"
    by (simp add: ingest_document_def document_get_def scalar_def sample_document_db_def sample_db_def
      empty_db_def hello chunk_delete_for_document_def drop_rows_def store_chunks_def Let_def sample_ctl_env_def
      chunk_create_many_def chunk_rows_def chunk_data_def eff_defs add_row_def chunk_violation_def has_row_def
      set_search_vectors_def)
  then obtain r d' where r: "?r = Some (Inr r, d')"
    by (cases ?r; cases "fst (the ?r)") auto
  show ?thesis using ingestion_replaces_chunks [OF r] r by blast
qed

end
