(* ===== verification/SqlPersistence.thy ===== *)
theory SqlPersistence
  imports ControlInv
begin

text \<open>
  The SQL adapters of the persistence ports (xymphony_api/persistence/postgres.py) over the
  repositories of \<open>ControlRepos\<close>, and their relation to the in-memory adapters of \<open>Persistence\<close>.
\<close>

section \<open>PostgresSessionRepository\<close>

definition requested_row :: "uuid \<Rightarrow> time \<Rightarrow> create_session_request \<Rightarrow> session_row" where
  "requested_row uid now r = \<lparr>sr_id = (case cr_session_id r of None \<Rightarrow> uid | Some i \<Rightarrow> i),
     sr_organization_id = cr_organization_id r, sr_project_id = cr_project_id r,
     sr_agent_id = cr_agent_id r, sr_agent_version_id = cr_agent_version_id r,
     sr_deployment_id = cr_deployment_id r, sr_status = session_status_value SS_INITIALIZING,
     sr_channel = channel_value (cr_channel r), sr_livekit_room = cr_livekit_room r,
     sr_config_hash = cr_config_hash r, sr_started_at = now, sr_updated_at = now,
     sr_ended_at = None, sr_end_reason = None, sr_usage = None, sr_error_code = None\<rparr>"

definition sql_create_session :: "uuid \<Rightarrow> time \<Rightarrow> create_session_request \<Rightarrow> (db, session) eff" where
  "sql_create_session uid now r =
     (let row = requested_row uid now r
      in then_eff (session_row_create row) (lift_eff (session_to_contract row)))"

definition sql_get_session :: "uuid \<Rightarrow> uuid option \<Rightarrow> uuid option \<Rightarrow> (db, session option) eff" where
  "sql_get_session sid org pj = with_state (\<lambda>d.
     case session_row_get sid org pj d of
       None \<Rightarrow> ret None
     | Some row \<Rightarrow> lift_eff (map_sum id Some (session_to_contract row)))"

definition store_session :: "time \<Rightarrow> session \<Rightarrow> session_row \<Rightarrow> session_row" where
  "store_session now s row = row\<lparr>sr_status := session_status_value (ss_status s),
     sr_channel := channel_value (ss_channel s), sr_livekit_room := ss_livekit_room s,
     sr_config_hash := ss_config_hash s, sr_ended_at := ss_ended_at s,
     sr_end_reason := map_option end_reason_value (ss_end_reason s),
     sr_error_code := ss_error_code s, sr_updated_at := now,
     sr_usage := (case ss_usage s of None \<Rightarrow> sr_usage row | Some u \<Rightarrow> Some (dump_usage u))\<rparr>"

definition sql_update_session :: "time \<Rightarrow> session \<Rightarrow> (db, session) eff" where
  "sql_update_session now s = with_state (\<lambda>d.
     case session_row_get (ss_id s) (Some (ss_organization_id s)) (Some (ss_project_id s)) d of
       None \<Rightarrow> throw (LookupErr ''session not found'')
     | Some row \<Rightarrow>
         let row' = store_session now s row
         in then_eff (session_row_update row') (lift_eff (session_to_contract row')))"

section \<open>PostgresConversationRepository\<close>

definition message_row_of :: "int \<Rightarrow> message \<Rightarrow> message_row" where
  "message_row_of n m = \<lparr>mr_id = ms_id m, mr_session_id = ms_session_id m, mr_turn_id = ms_turn_id m,
     mr_organization_id = ms_organization_id m, mr_role = message_role_value (ms_role m),
     mr_status = message_status_value (ms_status m), mr_parts = map dump_content_part (ms_parts m),
     mr_sequence = n, mr_created_at = ms_created_at m\<rparr>"

definition sql_append_message :: "message \<Rightarrow> (db, message) eff" where
  "sql_append_message m = with_state (\<lambda>d.
     let row = message_row_of (row_next_sequence (ms_session_id m) d) m
     in then_eff (message_row_append row) (lift_eff (message_to_contract row)))"

definition sql_list_messages :: "uuid \<Rightarrow> uuid option \<Rightarrow> (db, message list) eff" where
  "sql_list_messages sid org = with_state (\<lambda>d.
     lift_eff (validate_all message_to_contract (message_rows_for_session sid org d)))"

definition sql_next_sequence :: "uuid \<Rightarrow> (db, int) eff" where
  "sql_next_sequence sid = with_state (\<lambda>d. ret (row_next_sequence sid d))"

section \<open>PostgresConversationSummaryRepository\<close>

definition sql_get_latest :: "uuid \<Rightarrow> uuid option \<Rightarrow> (db, conversation_summary option) eff" where
  "sql_get_latest sid org = with_state (\<lambda>d.
     case summary_row_get sid org d of
       None \<Rightarrow> ret None
     | Some row \<Rightarrow> lift_eff (map_sum id Some (summary_to_contract row)))"

definition summary_row_of :: "conversation_summary \<Rightarrow> summary_row" where
  "summary_row_of s = \<lparr>ur_id = su_id s, ur_session_id = su_session_id s,
     ur_organization_id = su_organization_id s, ur_agent_version_id = su_agent_version_id s,
     ur_through_sequence = su_through_sequence s, ur_summary_text = su_summary_text s,
     ur_source_message_count = su_source_message_count s, ur_created_at = su_created_at s\<rparr>"

definition sql_upsert_summary :: "conversation_summary \<Rightarrow> (db, conversation_summary) eff" where
  "sql_upsert_summary s =
     bind_eff (summary_row_upsert (summary_row_of s)) (\<lambda>saved. lift_eff (summary_to_contract saved))"

section \<open>The ledger\<close>

text \<open>The rows of a session in the order they were added.\<close>

definition session_messages :: "uuid \<Rightarrow> db \<Rightarrow> message_row list" where
  "session_messages sid d = filter (\<lambda>r. mr_session_id r = sid) (db_messages d)"

text \<open>
  What a row keeps of a stored message: everything but its metadata, of which only the sequence
  number has a column.
\<close>

definition as_stored :: "message \<Rightarrow> message" where
  "as_stored m = m\<lparr>ms_metadata :=
     (case map_of (ms_metadata m) ''sequence'' of None \<Rightarrow> [] | Some n \<Rightarrow> [(''sequence'', n)])\<rparr>"

lemma as_stored_fields [simp]:
  "ms_organization_id (as_stored m) = ms_organization_id m" "ms_session_id (as_stored m) = ms_session_id m"
  by (simp_all add: as_stored_def)

text \<open>
  The database represents an in-memory ledger: the rows of every session are numbered from 1 in
  the order of their arrival and read back as the messages of the ledger, as stored.
\<close>

definition represents :: "db \<Rightarrow> mem_store \<Rightarrow> bool" where
  "represents d st \<longleftrightarrow> (\<forall>sid.
     map mr_sequence (session_messages sid d) = map (\<lambda>i. int i + 1) [0..<length (session_messages sid d)] \<and>
     validate_all message_to_contract (session_messages sid d) = Inr (map as_stored (bucket st sid)))"

lemma validate_dump_content_part: "validate_content_part (dump_content_part p) = Inr p"
  by (simp add: validate_content_part_def dump_content_part_def object_fields_def and_then_def
    str_field_def dict_field_def)

lemma message_row_reads_back:
  assumes "check_message m = Inr m"
  shows "message_to_contract (message_row_of n m) = Inr (as_stored (stamp_sequence n m))"
proof -
  have "validate_all validate_content_part (map dump_content_part ps) = Inr ps" for ps
    by (induction ps) (simp_all add: validate_dump_content_part)
  then show ?thesis using assms
    by (auto simp: message_to_contract_def message_row_of_def and_then_def stamp_sequence_def
      as_stored_def update_conv check_message_def split: if_splits)
qed


lemma foldl_max_sorted: "sorted (n # ns) \<Longrightarrow> foldl max (n :: int) ns = last (n # ns)"
  by (induction ns arbitrary: n) (auto simp: max_def)

lemma represents_next:
  assumes "represents d st"
  shows "row_next_sequence sid d = next_sequence sid st"
proof -
  let ?rs = "session_messages sid d"
  have seqs: "map mr_sequence ?rs = map (\<lambda>i. int i + 1) [0..<length ?rs]"
      and len: "length (bucket st sid) = length ?rs"
    using assms validate_all_length [of message_to_contract ?rs] by (fastforce simp: represents_def)+
  show ?thesis
  proof (cases "map mr_sequence ?rs")
    case Nil
    then show ?thesis using len by (simp add: row_next_sequence_def next_sequence_def session_messages_def)
  next
    case (Cons n ns)
    have "sorted (map mr_sequence ?rs)" unfolding seqs by (simp add: sorted_iff_nth_mono)
    then have "foldl max n ns = last (map mr_sequence ?rs)" unfolding Cons by (rule foldl_max_sorted)
    also have "\<dots> = int (length ?rs)"
    proof -
      obtain k where "length ?rs = Suc k" using Cons by (cases ?rs) auto
      then show ?thesis unfolding seqs by simp
    qed
    finally show ?thesis using Cons len
      by (simp add: row_next_sequence_def next_sequence_def session_messages_def)
  qed
qed

lemma validate_all_filter:
  assumes "validate_all f xs = Inr ys" and "\<And>x y. f x = Inr y \<Longrightarrow> Q y = P x"
  shows "validate_all f (filter P xs) = Inr (filter Q ys)"
  using assms by (induction xs arbitrary: ys) (auto simp: map_sum_def split: sum.splits)

lemma message_to_contract_Inr:
  "message_to_contract r = Inr m \<Longrightarrow> ms_organization_id m = mr_organization_id r \<and> ms_session_id m = mr_session_id r"
  by (auto simp: message_to_contract_def and_then_Inr check_message_def split: if_splits)

lemma represents_list:
  assumes "represents d st"
  shows "sql_list_messages sid org d = (Inr (map as_stored (list_messages sid org st)), d)"
proof -
  let ?rs = "session_messages sid d"
  have seqs: "map mr_sequence ?rs = map (\<lambda>i. int i + 1) [0..<length ?rs]"
      and v: "validate_all message_to_contract ?rs = Inr (map as_stored (bucket st sid))"
    using assms by (simp_all add: represents_def)
  have "sorted (map mr_sequence ?rs)" unfolding seqs by (simp add: sorted_iff_nth_mono)
  then have sorted: "sorted (map mr_sequence (filter P ?rs))" for P by (rule sorted_filter)
  have rows: "message_rows_for_session sid org d = filter (\<lambda>r. org = None \<or> Some (mr_organization_id r) = org) ?rs"
  proof -
    have "filter (\<lambda>r. mr_session_id r = sid \<and> (org = None \<or> Some (mr_organization_id r) = org)) (db_messages d)
        = filter (\<lambda>r. org = None \<or> Some (mr_organization_id r) = org) ?rs"
      by (simp add: session_messages_def conj_commute)
    then show ?thesis
      unfolding message_rows_for_session_def using sorted by (simp add: sort_key_id_if_sorted)
  qed
  have "validate_all message_to_contract (filter (\<lambda>r. org = None \<or> Some (mr_organization_id r) = org) ?rs)
      = Inr (filter (\<lambda>m. org = None \<or> Some (ms_organization_id m) = org) (map as_stored (bucket st sid)))"
    by (rule validate_all_filter [OF v]) (auto dest: message_to_contract_Inr)
  moreover have "filter (\<lambda>m. org = None \<or> Some (ms_organization_id m) = org) (map as_stored (bucket st sid)) =
      map as_stored (list_messages sid org st)"
    by (cases org) (simp_all add: list_messages_def filter_map comp_def)
  ultimately show ?thesis by (simp add: sql_list_messages_def rows eff_defs lift_eff_def)
qed

text \<open>One append, on both sides.\<close>

lemma represents_append:
  assumes rep: "represents d st" and m: "check_message m = Inr m"
    and fresh: "ms_id m \<notin> mr_id ` set (db_messages d)" and ses: "ms_session_id m \<in> sr_id ` set (db_sessions d)"
  shows "\<exists>d'. sql_append_message m d = (Inr (as_stored (fst (append_message m st))), d') \<and>
    represents d' (snd (append_message m st)) \<and> db_sessions d' = db_sessions d \<and>
    mr_id ` set (db_messages d') = insert (ms_id m) (mr_id ` set (db_messages d))"
proof -
  define n where "n = next_sequence (ms_session_id m) st"
  have n: "row_next_sequence (ms_session_id m) d = n" using represents_next [OF rep] by (simp add: n_def)
  let ?row = "message_row_of n m"
  let ?d = "db_messages_update (\<lambda>rs. rs @ [?row]) d"
  note reads = message_row_reads_back [OF m, of n]
  have seqs: "map mr_sequence (session_messages sid d) = map (\<lambda>i. int i + 1) [0..<length (session_messages sid d)]"
      and v: "validate_all message_to_contract (session_messages sid d) = Inr (map as_stored (bucket st sid))" for sid
    using rep by (simp_all add: represents_def)
  have len: "n = int (length (session_messages (ms_session_id m) d)) + 1"
    using validate_all_length [OF v, of "ms_session_id m"] by (simp add: n_def next_sequence_def)
  have "(ms_session_id m, n) \<notin> (\<lambda>x. (mr_session_id x, mr_sequence x)) ` set (db_messages d)"
  proof
    assume "(ms_session_id m, n) \<in> (\<lambda>x. (mr_session_id x, mr_sequence x)) ` set (db_messages d)"
    then have "n \<in> set (map mr_sequence (session_messages (ms_session_id m) d))"
      by (auto simp: session_messages_def)
    then show False unfolding seqs len by auto
  qed
  then have "message_violation d ?row = None"
    using fresh ses by (simp add: message_violation_def has_row_iff message_row_of_def)
  then have app: "sql_append_message m d = (Inr (as_stored (stamp_sequence n m)), ?d)"
    using reads n by (simp add: sql_append_message_def message_row_append_def add_row_def eff_defs Let_def)
  have rows: "session_messages sid ?d =
      (if sid = ms_session_id m then session_messages sid d @ [?row] else session_messages sid d)" for sid
    by (simp add: session_messages_def message_row_of_def)
  have "represents ?d (snd (append_message m st))"
    unfolding represents_def rows
    using seqs v reads len
    by (auto simp: validate_all_append and_then_def n_def next_sequence_def message_row_of_def)
  moreover have "fst (append_message m st) = stamp_sequence n m"
    by (simp add: append_message_def Let_def n_def next_sequence_def)
  ultimately show ?thesis using app by (auto simp: message_row_of_def)
qed

fun sql_append_all :: "message list \<Rightarrow> (db, unit) eff" where
  "sql_append_all [] = ret ()"
| "sql_append_all (m # ms) = then_eff (sql_append_message m) (sql_append_all ms)"

lemma represents_append_all:
  assumes "represents d st" and "list_all (\<lambda>m. check_message m = Inr m) ms"
    and "distinct (map ms_id ms)" and "ms_id ` set ms \<inter> mr_id ` set (db_messages d) = {}"
    and "ms_session_id ` set ms \<subseteq> sr_id ` set (db_sessions d)"
  shows "\<exists>d'. sql_append_all ms d = (Inr (), d') \<and> represents d' (append_all ms st)"
  using assms
proof (induction ms arbitrary: d st)
  case (Cons m ms)
  obtain d1 where a: "sql_append_message m d = (Inr (as_stored (fst (append_message m st))), d1)"
      and r: "represents d1 (snd (append_message m st))" and "db_sessions d1 = db_sessions d"
      and "mr_id ` set (db_messages d1) = insert (ms_id m) (mr_id ` set (db_messages d))"
    using represents_append [of d st m] Cons.prems by auto
  then obtain d' where "sql_append_all ms d1 = (Inr (), d')" "represents d' (append_all ms (snd (append_message m st)))"
    using Cons.IH [OF r] Cons.prems by auto
  then show ?case using a by (simp add: then_Inr)
qed (simp add: ret_def)

end
