(* ===== verification/Worker.thy ===== *)
theory Worker
  imports PyNumbers SqlPersistence Runtime
begin

text \<open>
  The bootstrap of a voice worker (xymphony_runtime_worker/bootstrap.py) and the provider
  registry (xymphony_providers/registry.py): from a session in the database to the
  configuration of its runtime. The environment variables are the function \<open>getenv\<close>; an error
  message stands without the offending value it quotes.
\<close>

section \<open>The session and its version\<close>

definition load_session_bundle :: "uuid \<Rightarrow> (db, session \<times> agent_version) eff" where
  "load_session_bundle sid =
     bind_eff (sql_get_session sid None None) (\<lambda>found. with_state (\<lambda>d.
       case found of
         None \<Rightarrow> throw (LookupErr ''session not found'')
       | Some s \<Rightarrow>
           (case version_get (ss_agent_version_id s) d of
              None \<Rightarrow> throw (LookupErr ''agent version not found'')
            | Some r \<Rightarrow>
                if vr_id r \<noteq> ss_agent_version_id s
                then throw (LookupErr ''session agent_version_id mismatch'')
                else lift_eff (map_sum id (\<lambda>v. (s, v)) (version_to_contract r)))))"

text \<open>The remaining fields take the defaults of \<open>RuntimeContext\<close>.\<close>

definition runtime_context_from_session :: "session \<Rightarrow> runtime_context" where
  "runtime_context_from_session s =
     \<lparr>cx_session_id = ss_id s, cx_organization_id = ss_organization_id s,
      cx_project_id = ss_project_id s, cx_agent_id = ss_agent_id s,
      cx_agent_version_id = ss_agent_version_id s, cx_config_hash = ss_config_hash s,
      cx_deployment_id = ss_deployment_id s, cx_channel = ss_channel s,
      cx_session_status = SS_ACTIVE, cx_shutdown = False, cx_cancelled_turn_ids = {},
      cx_sequence = 0, cx_turn_sequence = 0\<rparr>"

section \<open>Model parameters\<close>

definition llm_max_input_tokens :: "json_dict \<Rightarrow> int option result" where
  "llm_max_input_tokens params =
     (case map_of params ''max_input_tokens'' of
        None \<Rightarrow> Inr None
      | Some (JInt n) \<Rightarrow>
          if n < 1 then Inl (ValueErrorE ''max_input_tokens must be >= 1'') else Inr (Some n)
      | Some _ \<Rightarrow> Inl (ValueErrorE ''max_input_tokens must be an integer >= 1''))"

text \<open>\<open>float(val)\<close> of an \<open>int | float\<close> that is no \<open>bool\<close>; \<open>None\<close> for any other value.\<close>

definition to_float :: "json \<Rightarrow> pyfloat option result" where
  "to_float j =
     (case j of
        JInt n \<Rightarrow> map_sum id Some (py_float n)
      | JFloat x \<Rightarrow> Inr (Some x)
      | _ \<Rightarrow> Inr None)"

text \<open>\<open>x < lo or x > hi\<close>: false for NaN.\<close>

fun outside :: "rat \<Rightarrow> rat \<Rightarrow> pyfloat \<Rightarrow> bool" where
  "outside lo hi (Fin x) = (x < lo \<or> hi < x)"
| "outside lo hi NaN = False"
| "outside lo hi _ = True"

definition llm_temperature :: "json_dict \<Rightarrow> pyfloat option result" where
  "llm_temperature params =
     (case map_of params ''temperature'' of
        None \<Rightarrow> Inr None
      | Some j \<Rightarrow> and_then (to_float j) (\<lambda>x.
          case x of
            None \<Rightarrow> Inl (ValueErrorE ''temperature must be a numeric value between 0.0 and 2.0'')
          | Some f \<Rightarrow> if outside 0 2 f then Inl (ValueErrorE ''temperature must be between 0.0 and 2.0'')
                      else Inr (Some f)))"

definition llm_top_p :: "json_dict \<Rightarrow> pyfloat option result" where
  "llm_top_p params =
     (case map_of params ''top_p'' of
        None \<Rightarrow> Inr None
      | Some j \<Rightarrow> and_then (to_float j) (\<lambda>x.
          case x of
            None \<Rightarrow> Inl (ValueErrorE ''top_p must be a numeric value between 0.0 and 1.0'')
          | Some f \<Rightarrow> if outside 0 1 f then Inl (ValueErrorE ''top_p must be between 0.0 and 1.0'')
                      else Inr (Some f)))"

definition output_token_keys :: "string list" where
  "output_token_keys = [''max_output_tokens'', ''max_completion_tokens'', ''max_tokens'']"

definition llm_max_output_tokens :: "json_dict \<Rightarrow> int option result" where
  "llm_max_output_tokens params =
     (case map (\<lambda>k. the (map_of params k)) (filter (\<lambda>k. map_of params k \<noteq> None) output_token_keys) of
        [] \<Rightarrow> Inr None
      | first # others \<Rightarrow>
          if \<not> list_all (\<lambda>other. py_eq other first) others
          then Inl (ValueErrorE ''conflicting max output tokens parameters in llm.params'')
          else (case first of
                  JInt n \<Rightarrow> if n < 1 then Inl (ValueErrorE ''max_output_tokens must be >= 1'')
                            else Inr (Some n)
                | _ \<Rightarrow> Inl (ValueErrorE ''max_output_tokens must be an integer >= 1'')))"

section \<open>Providers\<close>

definition normalize_llm_provider_key :: "string \<Rightarrow> string" where
  "normalize_llm_provider_key k = (if k = ''openai_compatible'' then ''openai'' else k)"

definition unsupported :: "string \<Rightarrow> string \<Rightarrow> exn" where
  "unsupported kind k = ProviderErr \<lparr>pe_code = PE_INVALID_REQUEST,
     pe_message = ''unsupported '' @ kind @ '' provider_key: '' @ k, pe_provider_key = k,
     pe_retryable = False\<rparr>"

text \<open>A provider is its key and the model or voice it was made with; the constructors refuse an
  empty credential.\<close>

type_synonym provider = "string \<times> string"

definition with_credential ::
  "(string \<Rightarrow> string option) \<Rightarrow> string \<Rightarrow> string \<Rightarrow> provider \<Rightarrow> provider result" where
  "with_credential getenv var message p =
     (case getenv var of
        None \<Rightarrow> Inl (ValueErrorE message)
      | Some k \<Rightarrow> if k = [] then Inl (ValueErrorE message) else Inr p)"

definition env_or :: "(string \<Rightarrow> string option) \<Rightarrow> string \<Rightarrow> string \<Rightarrow> string" where
  "env_or getenv var fallback = (case getenv var of None \<Rightarrow> fallback | Some v \<Rightarrow> v)"

definition create_llm_provider :: "(string \<Rightarrow> string option) \<Rightarrow> string \<Rightarrow> string \<Rightarrow> provider result" where
  "create_llm_provider getenv key model =
     (let k = normalize_llm_provider_key key in
      if k = ''openai'' then with_credential getenv ''OPENAI_API_KEY''
        ''OPENAI_API_KEY is required for OpenAI LLM provider'' (k, env_or getenv ''OPENAI_MODEL'' model)
      else if k = ''groq'' then with_credential getenv ''GROQ_API_KEY''
        ''GROQ_API_KEY is required for Groq LLM provider'' (k, env_or getenv ''GROQ_MODEL'' model)
      else Inl (unsupported ''llm'' k))"

definition create_stt_provider :: "(string \<Rightarrow> string option) \<Rightarrow> string \<Rightarrow> string \<Rightarrow> provider result" where
  "create_stt_provider getenv k model =
     (if k = ''assemblyai'' then with_credential getenv ''ASSEMBLYAI_API_KEY''
        ''ASSEMBLYAI_API_KEY is required for AssemblyAI STT provider''
        (k, env_or getenv ''ASSEMBLYAI_MODEL'' model)
      else Inl (unsupported ''stt'' k))"

definition create_tts_provider :: "(string \<Rightarrow> string option) \<Rightarrow> string \<Rightarrow> string \<Rightarrow> provider result" where
  "create_tts_provider getenv k voice =
     (if k = ''elevenlabs'' then with_credential getenv ''ELEVENLABS_API_KEY''
        ''ELEVENLABS_API_KEY is required for ElevenLabs TTS provider''
        (k, env_or getenv ''ELEVENLABS_VOICE_ID'' voice)
      else Inl (unsupported ''tts'' k))"

section \<open>Runtime configurations\<close>

definition llm_config_from_version :: "agent_version \<Rightarrow> llm_runtime_config result" where
  "llm_config_from_version v =
     (let params = lb_params (av_llm v) in
      and_then (llm_max_input_tokens params) (\<lambda>mi.
      and_then (llm_temperature params) (\<lambda>t.
      and_then (llm_max_output_tokens params) (\<lambda>mo.
      and_then (llm_top_p params) (\<lambda>tp.
        Inr \<lparr>lg_provider_key = normalize_llm_provider_key (lb_provider_key (av_llm v)),
          lg_model = lb_model (av_llm v), lg_system_instructions = compiled_system_prompt v,
          lg_params = params, lg_max_input_tokens = mi, lg_temperature = t,
          lg_max_output_tokens = mo, lg_top_p = tp, lg_max_tool_iterations = 4\<rparr>)))))"

definition runtime_configs_from_version ::
  "agent_version \<Rightarrow> (llm_runtime_config \<times> stt_runtime_config \<times> tts_runtime_config) result" where
  "runtime_configs_from_version v =
     map_sum id (\<lambda>lc. (lc,
       \<lparr>sg_provider_key = sb_provider_key (av_stt v), sg_model = sb_model (av_stt v),
        sg_language = av_locale v, sg_params = sb_params (av_stt v)\<rparr>,
       \<lparr>tg_provider_key = vb_provider_key (av_tts v), tg_voice_ref = vb_voice_ref (av_tts v),
        tg_params = vb_params (av_tts v)\<rparr>)) (llm_config_from_version v)"

text \<open>\<open>supplied or create(...)\<close>\<close>

definition or_create :: "provider option \<Rightarrow> provider result \<Rightarrow> provider result" where
  "or_create supplied created = (case supplied of Some p \<Rightarrow> Inr p | None \<Rightarrow> created)"

record provider_overrides =
  po_llm :: "provider option"
  po_stt :: "provider option"
  po_tts :: "provider option"

definition create_providers_from_version ::
  "(string \<Rightarrow> string option) \<Rightarrow> agent_version \<Rightarrow> provider_overrides \<Rightarrow>
   (provider \<times> provider \<times> provider) result" where
  "create_providers_from_version getenv v po =
     and_then (runtime_configs_from_version v) (\<lambda>(lc, sc, tc).
     and_then (or_create (po_llm po) (create_llm_provider getenv (lg_provider_key lc) (lg_model lc))) (\<lambda>l.
     and_then (or_create (po_stt po) (create_stt_provider getenv (sg_provider_key sc) (sg_model sc))) (\<lambda>s.
     and_then (or_create (po_tts po) (create_tts_provider getenv (tg_provider_key tc) (tg_voice_ref tc))) (\<lambda>t.
       Inr (l, s, t)))))"

section \<open>The worker\<close>

definition worker_tools :: "registry option \<Rightarrow> tool_binding list \<Rightarrow> registry option result" where
  "worker_tools catalog bindings =
     (if filter tb_enabled bindings \<noteq> []
      then (case catalog of
              None \<Rightarrow> Inl (ValueErrorE ''no tool_registry catalog was provided'')
            | Some c \<Rightarrow> map_sum id Some (build_agent_tool_registry c bindings True))
      else Inr (if bindings = [] then catalog else None))"

record voice_worker =
  vw_session :: session
  vw_version :: agent_version
  vw_context :: runtime_context
  vw_config :: runtime_config
  vw_providers :: "provider \<times> provider \<times> provider"

definition build_voice_worker ::
  "(string \<Rightarrow> string option) \<Rightarrow> tool_env \<Rightarrow> session \<Rightarrow> agent_version \<Rightarrow> bool \<Rightarrow> provider_overrides \<Rightarrow>
   registry option \<Rightarrow> voice_worker result" where
  "build_voice_worker getenv env s v summaries po catalog =
     (if ss_agent_version_id s \<noteq> av_id v
      then Inl (ValueErrorE ''session is not pinned to the supplied agent version'')
      else
        and_then (runtime_configs_from_version v) (\<lambda>(lc, sc, tc).
        and_then (create_providers_from_version getenv v po) (\<lambda>ps.
        and_then (worker_tools catalog (av_tools v)) (\<lambda>reg.
          Inr \<lparr>vw_session = s, vw_version = v, vw_context = runtime_context_from_session s,
            vw_config = \<lparr>rc_llm = Some lc, rc_stt = Some sc, rc_tts = Some tc,
              rc_session_repository = True, rc_conversation_repository = True,
              rc_summary_repository = summaries, rc_tools = reg, rc_tool_env = env,
              rc_retriever = False, rc_rag = \<lparr>ra_enabled = True, ra_limit = 5, ra_timeout = 2\<rparr>,
              rc_memory_store = None,
              rc_memory = \<lparr>mc_enabled = True, mc_recall_limit = 10, mc_recall_timeout = 3/2\<rparr>\<rparr>,
            vw_providers = ps\<rparr>))))"

definition build_voice_worker_from_db ::
  "(string \<Rightarrow> string option) \<Rightarrow> tool_env \<Rightarrow> registry \<Rightarrow> uuid \<Rightarrow> provider_overrides \<Rightarrow>
   registry option \<Rightarrow> (db, voice_worker) eff" where
  "build_voice_worker_from_db getenv env defaults sid po tools =
     bind_eff (load_session_bundle sid) (\<lambda>(s, v).
       let catalog = (if tools = None \<and> list_ex tb_enabled (av_tools v) then Some defaults else tools)
       in lift_eff (build_voice_worker getenv env s v True po catalog))"

end
