(* ===== verification/WorkerProps.thy ===== *)
theory WorkerProps
  imports ControlData Worker
begin

text \<open>
  From the control plane to a worker: the SQL ledger against the in-memory one, sessions
  written and read back, and what a worker built from the database runs.
\<close>

section \<open>Persistence\<close>

text \<open>
  C38. The SQL conversation adapter implements the in-memory one: on a database without messages,
  appending any valid messages with fresh ids to existing sessions succeeds, and afterwards every
  session has the same next sequence number as the in-memory ledger after the same appends and
  lists, whole or for one tenant, the same messages with the same numbers, less any other
  metadata, which the in-memory ledger keeps and the table has no column for.
\<close>

theorem sql_ledger_refines_memory:
  assumes "db_messages d = []" and "distinct (map ms_id ms)"
    and "list_all (\<lambda>m. check_message m = Inr m \<and>
      has_row sr_id (ms_session_id m) (db_sessions d)) ms"
  shows "\<exists>d'. sql_append_all ms d = (Inr (), d') \<and>
    (\<forall>sid org. sql_list_messages sid org d' = (Inr (map as_stored (list_messages sid org (append_all ms empty_store))), d') \<and>
      sql_next_sequence sid d' = (Inr (next_sequence sid (append_all ms empty_store)), d'))"
proof -
  have "represents d empty_store"
    using assms(1) by (simp add: represents_def session_messages_def bucket_def empty_store_def)
  then obtain d' where "sql_append_all ms d = (Inr (), d')" "represents d' (append_all ms empty_store)"
    using represents_append_all [of d empty_store ms] assms by (auto simp: list_all_iff has_row_iff)
  then show ?thesis
    using represents_list represents_next by (auto simp: sql_next_sequence_def eff_defs)
qed

text \<open>The constraints hold of a stored row beside the others.\<close>

definition consistent :: "db \<Rightarrow> session_row \<Rightarrow> bool" where
  "consistent d r \<longleftrightarrow> session_violation (db_sessions_update (filter (\<lambda>x. sr_id x \<noteq> sr_id r)) d) r = None"

lemma validate_dump_usage: "check_usage u = Inr u \<Longrightarrow> validate_usage (dump_usage u) = Inr u"
  by (cases u; cases "us_estimated_cost_usd u")
    (simp_all add: validate_usage_def dump_usage_def object_fields_def and_then_def int_field_def
      str_field_def cost_field_def)

lemma stored_session_reads_back:
  assumes "check_session s = Inr s" and "case ss_usage s of None \<Rightarrow> sr_usage r = None | Some u \<Rightarrow> check_usage u = Inr u"
    and "ss_id s = sr_id r" "ss_organization_id s = sr_organization_id r" "ss_project_id s = sr_project_id r"
    "ss_agent_id s = sr_agent_id r" "ss_agent_version_id s = sr_agent_version_id r"
    "ss_deployment_id s = sr_deployment_id r" "ss_started_at s = sr_started_at r"
  shows "session_to_contract (store_session now s r) = Inr s"
proof -
  have "end_reason_of (map_option end_reason_value (ss_end_reason s)) = Inr (ss_end_reason s)"
  proof (cases "ss_end_reason s")
    case (Some e)
    have "end_reason_value e \<noteq> []" by (cases e) simp_all
    then show ?thesis using Some by (simp add: end_reason_of_def str_truthy_def)
  qed (simp add: end_reason_of_def str_truthy_def)
  moreover have "usage_of (sr_usage (store_session now s r)) = Inr (ss_usage s)"
    using assms(2) by (cases "ss_usage s") (simp_all add: store_session_def usage_of_def validate_dump_usage)
  ultimately show ?thesis
    using assms by (simp add: session_to_contract_def store_session_def and_then_def) (cases s; simp)
qed

lemma scalar_all: "\<exists>x \<in> set rows. P x \<Longrightarrow> \<forall>x \<in> set rows. P x \<longrightarrow> x = y \<Longrightarrow> scalar rows P = Some y"
  by (induction rows) (auto simp: scalar_def)

lemma scalar_map_frame: "\<forall>x. P (f x) = P x \<and> (P x \<longrightarrow> f x = x) \<Longrightarrow> scalar (map f rows) P = scalar rows P"
  by (induction rows) (auto simp: scalar_def)

text \<open>
  Writing back a session whose stored row it was read from, with any of its status, channel,
  room, end, usage and error fields changed to a valid contract, succeeds, returns that session,
  and every tenant-scoped lookup then returns it, while other sessions read as before.
\<close>

theorem sql_session_write_reads_back:
  assumes "session_row_get (ss_id s) (Some (ss_organization_id s)) (Some (ss_project_id s)) d = Some r"
    and "consistent d r" and "check_session s = Inr s"
    and "case ss_usage s of None \<Rightarrow> sr_usage r = None | Some u \<Rightarrow> check_usage u = Inr u"
    and "ss_agent_id s = sr_agent_id r" "ss_agent_version_id s = sr_agent_version_id r"
    "ss_deployment_id s = sr_deployment_id r" "ss_started_at s = sr_started_at r"
  shows "\<exists>d'. sql_update_session now s d = (Inr s, d') \<and>
    sql_get_session (ss_id s) (Some (ss_organization_id s)) (Some (ss_project_id s)) d' = (Inr (Some s), d') \<and>
    (\<forall>sid org pj. sid \<noteq> ss_id s \<longrightarrow> fst (sql_get_session sid org pj d') = fst (sql_get_session sid org pj d))"
proof -
  have keys: "r \<in> set (db_sessions d)" "sr_id r = ss_id s" "sr_organization_id r = ss_organization_id s"
      "sr_project_id r = ss_project_id s"
    using assms(1) by (auto simp: session_row_get_def dest: scalar_Some)
  let ?r = "store_session now s r"
  have reads: "session_to_contract ?r = Inr s"
    using assms keys by (intro stored_session_reads_back) simp_all
  have same: "sr_id ?r = sr_id r" "sr_organization_id ?r = sr_organization_id r" "sr_project_id ?r = sr_project_id r"
    by (simp_all add: store_session_def)
  let ?d = "db_sessions_update (map (\<lambda>x. if sr_id x = sr_id ?r then ?r else x)) d"
  have "session_violation (db_sessions_update (filter (\<lambda>x. sr_id x \<noteq> sr_id ?r)) d) ?r = None"
    using assms(2,3) same
    by (simp add: consistent_def session_violation_def check_session_def config_hash_ok_def store_session_def
      split: if_splits)
  then have upd: "sql_update_session now s d = (Inr s, ?d)"
    using assms(1) reads same keys
    by (simp add: sql_update_session_def session_row_update_def replace_row_def eff_defs Let_def)
  have "session_row_get (ss_id s) (Some (ss_organization_id s)) (Some (ss_project_id s)) ?d = Some ?r"
    unfolding session_row_get_def by (rule scalar_all) (use keys same in auto)
  moreover have "session_row_get sid org pj ?d = session_row_get sid org pj d" if "sid \<noteq> ss_id s" for sid org pj
    using that keys same by (simp add: session_row_get_def scalar_map_frame)
  ultimately have "sql_get_session (ss_id s) (Some (ss_organization_id s)) (Some (ss_project_id s)) ?d = (Inr (Some s), ?d)"
    and "\<forall>sid org pj. sid \<noteq> ss_id s \<longrightarrow> fst (sql_get_session sid org pj ?d) = fst (sql_get_session sid org pj d)"
    using reads by (auto simp: sql_get_session_def eff_defs lift_eff_def split: option.splits)
  with upd show ?thesis by blast
qed


section \<open>The configuration a worker runs\<close>

lemma scalar_distinct:
  assumes "distinct (map key rows)" and "r \<in> set rows" and "key r = k"
  shows "scalar rows (\<lambda>x. key x = k) = Some r"
  by (rule scalar_all) (use assms distinct_key_eq [of key rows _ r] in \<open>auto 0 3\<close>)

lemma load_session_bundle_eq:
  assumes "control_inv h d" and "r \<in> set (db_sessions d)" and "session_to_contract r = Inr s"
    and "v \<in> set (db_versions d)" and "vr_id v = sr_agent_version_id r" and "version_to_contract v = Inr c"
  shows "load_session_bundle (ss_id s) d = (Inr (s, c), d)"
proof -
  have s: "ss_id s = sr_id r" "ss_agent_version_id s = sr_agent_version_id r"
    using assms(3) by (auto simp: session_to_contract_def and_then_Inr dest!: check_session_Inr(1))
  have "distinct (map sr_id (db_sessions d))" "distinct (map vr_id (db_versions d))"
    using assms(1) by (simp_all add: inv_defs)
  then have "session_row_get (sr_id r) None None d = Some r" "version_get (vr_id v) d = Some v"
    using assms(2,4) scalar_distinct [of sr_id "db_sessions d" r] scalar_distinct [of vr_id "db_versions d" v]
    by (simp_all add: session_row_get_def version_get_def)
  then show ?thesis
    using assms s by (simp add: load_session_bundle_def sql_get_session_def eff_defs lift_eff_def)
qed

text \<open>
  C37. A session created without naming a version runs what was published: after any further
  requests to the control plane, even deletions of its agent, loading the session for a worker
  gives back that session and the published version it was pinned to, whose configuration still
  has the hash recorded in the session.
\<close>

theorem worker_runs_pinned_config:
  assumes "seeded d0" and "hash_ok (ev_hash en)" and "d = api_run en before d0"
    and "api_create_session uid now pj body d = (Inr s, d1)" and "scr_agent_version_id body = None"
  shows "\<exists>v. load_session_bundle (ss_id s) (api_run en after d1) = (Inr (s, v), api_run en after d1) \<and>
    av_id v = ss_agent_version_id s \<and> av_status v = AV_PUBLISHED \<and>
    av_config_hash v = Some (ss_config_hash s) \<and> ss_config_hash s = compute_config_hash (ev_hash en) v"
proof -
  have inv: "control_inv (ev_hash en) d"
    using api_run_inv [OF seeded_inv [OF assms(1)] assms(2)] assms(3) by simp
  obtain p a v where pin: "pinned_version p a (scr_agent_version_id body) d = (Inr v, d)"
      and d1: "d1 = db_sessions_update (\<lambda>rs. rs @ [session_row_of uid now body p a v]) d"
      and s: "session_to_contract (session_row_of uid now body p a v) = Inr s"
    using assms(4) by (rule api_create_session_Inr)
  let ?r = "session_row_of uid now body p a v" and ?d = "api_run en after d1"
  have "version_get_latest_published (ar_id a) (pr_organization_id p) (pr_id p) d = Some v"
    using pin assms(5) by (simp add: pinned_version_def require_Inr)
  note pub = version_get_latest_published_Some [OF this]
  obtain c where c: "version_to_contract v = Inr c" and hash: "vr_config_hash v = compute_config_hash (ev_hash en) c"
    using inv pub(1) by (auto simp: inv_defs version_row_ok_def)
  have fields: "ss_agent_version_id s = vr_id v" "ss_config_hash s = vr_config_hash v"
    using s by (auto simp: session_to_contract_def session_row_of_def and_then_Inr dest!: check_session_Inr(1))
  have inv1: "control_inv (ev_hash en) d1"
    using ctl.safeD(1) [OF safe_create_session [OF inv] assms(4)] .
  have "pinned v d1" by (simp add: pinned_def d1 session_row_of_def)
  note keep = api_run_keeps_pinned [OF inv1 assms(2) this, of "after", unfolded keeps_def]
  have "load_session_bundle (ss_id s) ?d = (Inr (s, c), ?d)"
  proof (rule load_session_bundle_eq)
    show "control_inv (ev_hash en) ?d" by (rule api_run_inv [OF inv1 assms(2)])
    show "?r \<in> set (db_sessions ?d)" by (rule subsetD [OF conjunct2 [OF keep]]) (simp add: d1)
    show "v \<in> set (db_versions ?d)" by (rule mp [OF conjunct1 [OF keep]]) (simp add: d1 pub)
    show "vr_id v = sr_agent_version_id ?r" by (simp add: session_row_of_def)
  qed (rule s, rule c)
  moreover have "av_status c = AV_PUBLISHED"
    using version_to_contract_Inr(3) [OF c] pub(5) parse_value(2) [of AV_PUBLISHED] by simp
  moreover have "av_id c = ss_agent_version_id s" "av_config_hash c = Some (ss_config_hash s)"
    using version_to_contract_Inr(4,12) [OF c] fields by simp_all
  moreover have "ss_config_hash s = compute_config_hash (ev_hash en) c" using fields(2) hash by (rule trans)
  ultimately show ?thesis by blast
qed


lemma worker_runs_pinned_config_witness:
  "\<exists>s d1 v. api_create_session 400 8 10 (sample_session_body None)
      (api_run sample_ctl_env (agent_and_draft @ [PublishVersion 7 10 100 200]) sample_db) = (Inr s, d1) \<and>
    fst (load_session_bundle (ss_id s) (api_run sample_ctl_env [DeleteAgent 10 100] d1)) = Inr (s, v) \<and>
    av_status v = AV_PUBLISHED"
proof -
  let ?reqs = "agent_and_draft @ [PublishVersion 7 10 100 200]"
  let ?r = "api_create_session 400 8 10 (sample_session_body None) (api_run sample_ctl_env ?reqs sample_db)"
  have "map_sum id ss_id (fst ?r) = Inr 400" by (simp add: ctl_run_defs)
  then obtain s d1 where r: "?r = (Inr s, d1)" by (cases ?r; cases "fst ?r") auto
  have "scr_agent_version_id (sample_session_body None) = None" by (simp add: sample_session_body_def)
  from worker_runs_pinned_config [OF sample_seeded sample_hash_ok refl r this, of "[DeleteAgent 10 100]"]
  show ?thesis using r by auto
qed

section \<open>Built workers\<close>

lemma llm_config_from_version_Inr:
  assumes "llm_config_from_version v = Inr lc"
  shows "lg_system_instructions lc = compiled_system_prompt v" and "lg_model lc = lb_model (av_llm v)"
    and "lg_params lc = lb_params (av_llm v)" and "lg_max_tool_iterations lc = 4"
    and "opt_ok (\<lambda>n. 1 \<le> n) (lg_max_input_tokens lc)" and "opt_ok (\<lambda>n. 1 \<le> n) (lg_max_output_tokens lc)"
    and "opt_ok (\<lambda>x. x = NaN \<or> float_within 0 2 x) (lg_temperature lc)"
    and "opt_ok (\<lambda>x. x = NaN \<or> float_within 0 1 x) (lg_top_p lc)"
proof -
  have out: "x = NaN \<or> float_within lo hi x" if "\<not> outside lo hi x" for lo hi x
    using that by (cases x) auto
  obtain mi t mo tp where p: "llm_max_input_tokens (lb_params (av_llm v)) = Inr mi"
      "llm_temperature (lb_params (av_llm v)) = Inr t" "llm_max_output_tokens (lb_params (av_llm v)) = Inr mo"
      "llm_top_p (lb_params (av_llm v)) = Inr tp"
      and lc: "lc = \<lparr>lg_provider_key = normalize_llm_provider_key (lb_provider_key (av_llm v)),
          lg_model = lb_model (av_llm v), lg_system_instructions = compiled_system_prompt v,
          lg_params = lb_params (av_llm v), lg_max_input_tokens = mi, lg_temperature = t,
          lg_max_output_tokens = mo, lg_top_p = tp, lg_max_tool_iterations = 4\<rparr>"
    using assms by (auto simp: llm_config_from_version_def Let_def and_then_Inr)
  have "opt_ok (\<lambda>n. 1 \<le> n) mi"
    using p(1) by (auto simp: llm_max_input_tokens_def opt_ok_def split: option.splits json.splits if_splits)
  moreover have "opt_ok (\<lambda>n. 1 \<le> n) mo"
    using p(3) by (auto simp: llm_max_output_tokens_def opt_ok_def split: list.splits json.splits if_splits)
  moreover have "opt_ok (\<lambda>x. x = NaN \<or> float_within 0 2 x) t"
    using p(2) out by (auto simp: llm_temperature_def opt_ok_def and_then_Inr split: option.splits if_splits)
  moreover have "opt_ok (\<lambda>x. x = NaN \<or> float_within 0 1 x) tp"
    using p(4) out by (auto simp: llm_top_p_def opt_ok_def and_then_Inr split: option.splits if_splits)
  ultimately show "lg_system_instructions lc = compiled_system_prompt v" "lg_model lc = lb_model (av_llm v)"
    "lg_params lc = lb_params (av_llm v)" "lg_max_tool_iterations lc = 4"
    "opt_ok (\<lambda>n. 1 \<le> n) (lg_max_input_tokens lc)" "opt_ok (\<lambda>n. 1 \<le> n) (lg_max_output_tokens lc)"
    "opt_ok (\<lambda>x. x = NaN \<or> float_within 0 2 x) (lg_temperature lc)"
    "opt_ok (\<lambda>x. x = NaN \<or> float_within 0 1 x) (lg_top_p lc)"
    by (simp_all add: lc)
qed

text \<open>
  C39. A worker that is built runs the version its session is pinned to: a fresh context carrying
  the session's tenant and hash, the compiled prompt and parameters of the version with a token
  limit of at least one and a temperature and nucleus within their ranges (or not a number), the
  voice of the version, and no retrieval.
\<close>

theorem worker_config_sound:
  assumes "build_voice_worker getenv env s v summaries po catalog = Inr w"
  shows "ss_agent_version_id s = av_id v \<and> fresh_context (vw_context w) \<and>
    cx_session_id (vw_context w) = ss_id s \<and> cx_organization_id (vw_context w) = ss_organization_id s \<and>
    cx_config_hash (vw_context w) = ss_config_hash s \<and>
    (\<exists>lc. rc_llm (vw_config w) = Some lc \<and> lg_system_instructions lc = compiled_system_prompt v \<and>
      lg_params lc = lb_params (av_llm v) \<and>
      opt_ok (\<lambda>n. 1 \<le> n) (lg_max_input_tokens lc) \<and> opt_ok (\<lambda>n. 1 \<le> n) (lg_max_output_tokens lc) \<and>
      opt_ok (\<lambda>x. x = NaN \<or> float_within 0 2 x) (lg_temperature lc) \<and>
      opt_ok (\<lambda>x. x = NaN \<or> float_within 0 1 x) (lg_top_p lc)) \<and>
    map_option tg_voice_ref (rc_tts (vw_config w)) = Some (vb_voice_ref (av_tts v)) \<and>
    map_option sg_language (rc_stt (vw_config w)) = Some (av_locale v) \<and>
    \<not> rag_enabled (vw_config w) \<and> \<not> memory_enabled (vw_config w)"
proof -
  obtain lc where lc: "llm_config_from_version v = Inr lc" and "rc_llm (vw_config w) = Some lc"
      and "ss_agent_version_id s = av_id v" "vw_context w = runtime_context_from_session s"
      "map_option tg_voice_ref (rc_tts (vw_config w)) = Some (vb_voice_ref (av_tts v))"
      "map_option sg_language (rc_stt (vw_config w)) = Some (av_locale v)"
      "\<not> rc_retriever (vw_config w)" "rc_memory_store (vw_config w) = None"
    using assms
    by (cases "llm_config_from_version v")
      (auto simp: build_voice_worker_def and_then_Inr runtime_configs_from_version_def split: if_splits)
  then show ?thesis
    using llm_config_from_version_Inr [OF lc]
    by (simp add: runtime_context_from_session_def fresh_context_def rag_enabled_def memory_enabled_def)
qed

text \<open>
  The tools of a worker are exactly the enabled bindings of its version, each resolved in
  the catalog; a version whose bindings are all disabled gets none; and a version without any
  binding gets the whole catalog that was supplied.
\<close>

theorem worker_tools_exact:
  assumes "worker_tools catalog bindings = Inr reg" and "opt_ok registry_ok catalog"
  shows "(if bindings = [] then reg = catalog
     else if filter tb_enabled bindings = [] then reg = None
     else \<exists>c r. catalog = Some c \<and> reg = Some r \<and> registry_ok r \<and>
       (\<forall>n t. registry_get n r = Some t \<longleftrightarrow>
          registry_get n c = Some t \<and> n \<in> set (map tb_tool_name (filter tb_enabled bindings))) \<and>
       (\<forall>n \<in> set (map tb_tool_name (filter tb_enabled bindings)). registry_get n r \<noteq> None))"
proof (cases "filter tb_enabled bindings = []")
  case True
  then show ?thesis using assms(1) by (auto simp: worker_tools_def)
next
  case False
  then obtain c r where c: "catalog = Some c" "reg = Some r" "build_agent_tool_registry c bindings True = Inr r"
    using assms(1) by (auto simp: worker_tools_def map_sum_def split: option.splits sum.splits)
  then have b: "build_agent_registry c bindings True [] = Inr r" and ok: "registry_ok c"
    using assms(2) by (simp_all add: build_agent_tool_registry_def opt_ok_def)
  note exact = build_agent_registry_Inr [OF b ok registry_ok_Nil]
  have "bindings \<noteq> []" using False by auto
  then show ?thesis
    using False c(1,2) exact build_agent_registry_strict [of c bindings "[]" r] b
    by (auto simp: registry_get_def split: if_splits)
qed


section \<open>A version that cannot be run\<close>

lemma trimmed_compiled: "trimmed (compiled_system_prompt v)"
  using trimmed_py_strip [of "av_personality v"] trimmed_py_strip [of "av_instructions v"]
  by (auto simp: compiled_system_prompt_def Let_def trimmed_def)

lemma build_system_prompt_length:
  "py_strip i \<noteq> [] \<Longrightarrow> length (py_strip i) \<le> length (build_system_prompt i s k m)"
proof -
  assume i: "py_strip i \<noteq> []"
  have "length x \<le> length (py_join sep (x # xs))" for x sep xs by (cases xs) simp_all
  then show ?thesis using i by (simp add: build_system_prompt_def)
qed

text \<open>
  Personality and instructions that compile to more than 32000 characters make a version
  with which no request can be assembled: whatever the history, the user says and the summary,
  knowledge and memory hold, assembling raises.
\<close>

theorem long_prompt_never_answers:
  assumes "llm_config_from_version v = Inr lc" and "32000 < length (compiled_system_prompt v)"
  shows "\<exists>e. assemble est history user_text lc summary knowledge memory tools extra = Inl e"
proof -
  have i: "lg_system_instructions lc = compiled_system_prompt v"
    by (rule llm_config_from_version_Inr(1) [OF assms(1)])
  have strip: "py_strip (compiled_system_prompt v) = compiled_system_prompt v"
    by (rule py_strip_trimmed [OF trimmed_compiled])
  have "32000 < length (build_system_prompt (lg_system_instructions lc) s k m)" for s k m
    using build_system_prompt_length [of "compiled_system_prompt v" s k m] assms(2) strip unfolding i by force
  then show ?thesis
    by (auto simp: assemble_def check_llm_request_def split: sum.splits)
qed

text \<open>
  A session pinned to a draft does not keep its configuration: an update of the draft after
  the session was created changes what the session runs, and the hash the session recorded is no
  longer that of its version.
\<close>

definition draft_session :: "api_request list" where
  "draft_session = agent_and_draft @ [CreateSession 400 8 10 (sample_session_body (Some 200)),
     UpdateVersion 10 100 200 sample_update_body]"

theorem draft_pin_goes_stale:
  "map (\<lambda>s. (sr_agent_version_id s, hd (sr_config_hash s)))
     (db_sessions (api_run sample_ctl_env draft_session sample_db)) = [(200, CHR ''a'')] \<and>
   map (\<lambda>v. (vr_id v, vr_instructions v, hd (vr_config_hash v)))
     (db_versions (api_run sample_ctl_env draft_session sample_db)) = [(200, ''help me'', CHR ''b'')]"
  by (simp add: ctl_run_defs draft_session_def)


section \<open>Concrete workers\<close>

definition sample_session_row :: session_row where
  "sample_session_row = \<lparr>sr_id = 400, sr_organization_id = 1, sr_project_id = 10, sr_agent_id = 100,
     sr_agent_version_id = 200, sr_deployment_id = None, sr_status = ''active'', sr_channel = ''playground'',
     sr_livekit_room = None, sr_config_hash = replicate 64 (CHR ''a''), sr_started_at = 8, sr_updated_at = 8,
     sr_ended_at = None, sr_end_reason = None, sr_usage = None, sr_error_code = None\<rparr>"

definition sample_session_db :: db where
  "sample_session_db = sample_published_db\<lparr>db_sessions := [sample_session_row]\<rparr>"

lemmas sample_session_defs = sample_session_db_def sample_session_row_def sample_published_db_def
  sample_db_def empty_db_def sample_version_row_def sample_agent_row_def

definition sample_ended_session :: session where
  "sample_ended_session = \<lparr>ss_id = 400, ss_organization_id = 1, ss_project_id = 10, ss_agent_id = 100,
     ss_agent_version_id = 200, ss_deployment_id = None, ss_status = SS_TERMINATED,
     ss_channel = CH_PLAYGROUND, ss_livekit_room = None, ss_config_hash = replicate 64 (CHR ''a''),
     ss_started_at = 8, ss_ended_at = Some 9, ss_end_reason = Some SE_USER_STOP, ss_usage = None,
     ss_error_code = None\<rparr>"

lemma sql_ledger_refines_memory_witness:
  "\<exists>d'. sql_append_all [\<lparr>ms_id = 1, ms_session_id = 400, ms_turn_id = 4, ms_organization_id = 1,
      ms_role = MR_USER, ms_status = MS_COMMITTED, ms_parts = [text_content_part ''hi''],
      ms_created_at = 2, ms_metadata = [(''lang'', JStr ''en'')]\<rparr>] sample_session_db = (Inr (), d') \<and>
    map_sum id (map ms_metadata) (fst (sql_list_messages 400 None d')) = Inr [[(''sequence'', JInt 1)]] \<and>
    sql_next_sequence 400 d' = (Inr 2, d')"
proof -
  let ?m = "\<lparr>ms_id = 1, ms_session_id = 400, ms_turn_id = 4, ms_organization_id = 1,
      ms_role = MR_USER, ms_status = MS_COMMITTED, ms_parts = [text_content_part ''hi''],
      ms_created_at = 2, ms_metadata = [(''lang'', JStr ''en'')]\<rparr>"
  have "next_sequence 400 (append_all [?m] empty_store) = 2"
    and "map ms_metadata (map as_stored (list_messages 400 None (append_all [?m] empty_store))) = [[(''sequence'', JInt 1)]]"
    by (simp_all add: next_sequence_def bucket_def empty_store_def append_message_def Let_def list_messages_def
      as_stored_def stamp_sequence_def)
  then show ?thesis
    using sql_ledger_refines_memory [of sample_session_db "[?m]"]
    by (fastforce simp: sample_session_defs check_message_def has_row_def)
qed

lemma sql_session_write_reads_back_witness:
  "\<exists>d'. sql_update_session 9 sample_ended_session sample_session_db = (Inr sample_ended_session, d') \<and>
    sql_get_session 400 (Some 1) (Some 10) d' = (Inr (Some sample_ended_session), d')"
proof -
  have get: "session_row_get (ss_id sample_ended_session) (Some (ss_organization_id sample_ended_session))
      (Some (ss_project_id sample_ended_session)) sample_session_db = Some sample_session_row"
    by (simp add: session_row_get_def scalar_def sample_session_defs sample_ended_session_def)
  have "consistent sample_session_db sample_session_row"
    by (simp add: consistent_def session_violation_def has_row_def sample_session_defs max_len_ok_def)
  moreover have "check_session sample_ended_session = Inr sample_ended_session"
    by (simp add: check_session_def sample_ended_session_def max_len_ok_def config_hash_ok_replicate
      terminal_fields_match_status_def session_terminal_def)
  ultimately have "\<exists>d'. sql_update_session 9 sample_ended_session sample_session_db = (Inr sample_ended_session, d') \<and>
      sql_get_session (ss_id sample_ended_session) (Some (ss_organization_id sample_ended_session))
        (Some (ss_project_id sample_ended_session)) d' = (Inr (Some sample_ended_session), d') \<and>
      (\<forall>sid org pj. sid \<noteq> ss_id sample_ended_session \<longrightarrow>
        fst (sql_get_session sid org pj d') = fst (sql_get_session sid org pj sample_session_db))"
    by (rule sql_session_write_reads_back [OF get]) (simp_all add: sample_ended_session_def sample_session_row_def)
  moreover have "ss_id sample_ended_session = 400" "ss_organization_id sample_ended_session = 1"
      "ss_project_id sample_ended_session = 10"
    by (simp_all add: sample_ended_session_def)
  ultimately show ?thesis by metis
qed

definition sample_contract :: agent_version where
  "sample_contract = \<lparr>av_id = 200, av_organization_id = 1, av_project_id = 10, av_agent_id = 100,
     av_version_n = 1, av_status = AV_PUBLISHED, av_instructions = ''help'', av_personality = [],
     av_locale = ''en'', av_llm = \<lparr>lb_provider_key = ''groq'', lb_model = ''m'', lb_params = []\<rparr>,
     av_stt = \<lparr>sb_provider_key = ''fake'', sb_model = ''m'', sb_params = []\<rparr>,
     av_tts = \<lparr>vb_provider_key = ''fake'', vb_voice_ref = ''v'', vb_params = []\<rparr>,
     av_tools = [], av_config_hash = None, av_created_by = None, av_created_at = 6,
     av_published_at = Some 7\<rparr>"

definition sample_overrides :: provider_overrides where
  "sample_overrides = \<lparr>po_llm = None, po_stt = Some (''fake'', ''m''), po_tts = Some (''fake'', ''v'')\<rparr>"

lemmas sample_worker_defs = sample_contract_def sample_overrides_def llm_config_from_version_def
  llm_max_input_tokens_def llm_temperature_def llm_top_p_def llm_max_output_tokens_def
  output_token_keys_def and_then_def Let_def

lemma worker_config_sound_witness:
  "\<exists>w. build_voice_worker (\<lambda>_. Some ''key'') sample_env sample_ended_session sample_contract True sample_overrides None = Inr w \<and>
    fresh_context (vw_context w) \<and> \<not> rag_enabled (vw_config w)"
proof -
  obtain w where w: "build_voice_worker (\<lambda>_. Some ''key'') sample_env sample_ended_session sample_contract True sample_overrides None = Inr w"
    by (simp add: build_voice_worker_def runtime_configs_from_version_def create_providers_from_version_def
      sample_worker_defs or_create_def create_llm_provider_def normalize_llm_provider_key_def
      with_credential_def worker_tools_def sample_ended_session_def)
  then show ?thesis using worker_config_sound [OF w] by blast
qed

lemma worker_tools_exact_witness:
  "\<exists>r. worker_tools (Some (sample_catalog (HReturn PVNone)))
      [\<lparr>tb_tool_name = ''ask'', tb_enabled = True, tb_params = []\<rparr>] = Inr (Some r) \<and>
    registry_get ''ask'' r \<noteq> None \<and> registry_get ''echo'' r = None"
proof -
  let ?bs = "[\<lparr>tb_tool_name = ''ask'', tb_enabled = True, tb_params = []\<rparr>]"
  obtain r where r: "worker_tools (Some (sample_catalog (HReturn PVNone))) ?bs = Inr (Some r)"
    by (simp add: worker_tools_def build_agent_tool_registry_def sample_catalog_get registry_register_def
      registry_has_def)
  then show ?thesis
    using worker_tools_exact [OF r] sample_catalog_ok
    by (cases "registry_get ''echo'' r") (auto simp: opt_ok_def)
qed

definition long_contract :: agent_version where
  "long_contract = sample_contract\<lparr>av_instructions := replicate 32000 (CHR ''a''),
     av_personality := replicate 8000 (CHR ''b'')\<rparr>"

lemma py_strip_replicate: "\<not> py_isspace c \<Longrightarrow> py_strip (replicate n c) = replicate n c"
  by (rule py_strip_trimmed) (auto simp: trimmed_def hd_replicate last_replicate)

lemma long_prompt_never_answers_witness:
  "\<exists>lc e. check_agent_version long_contract = Inr long_contract \<and> llm_config_from_version long_contract = Inr lc \<and>
    assemble approximate_token_count [] ''hi'' lc None None None [] [] = Inl e"
proof -
  have "check_agent_version long_contract = Inr long_contract"
    by (simp add: check_agent_version_Inr long_contract_def sample_contract_def)
  moreover obtain lc where lc: "llm_config_from_version long_contract = Inr lc"
    by (simp add: sample_worker_defs long_contract_def)
  moreover have "length (compiled_system_prompt long_contract) = 40002"
    by (simp add: compiled_system_prompt_def long_contract_def py_strip_replicate py_isspace_def)
  then have "32000 < length (compiled_system_prompt long_contract)" by simp
  ultimately show ?thesis using long_prompt_never_answers [OF lc] by blast
qed

end
