(* ===== verification/WorkerStore.thy ===== *)
theory WorkerStore
  imports SqlPersistence
begin

text \<open>
  The repositories a worker's runtime writes through (bootstrap.py, \<open>_Committing...Repository\<close>): the
  SQL adapters of theory SqlPersistence, with a commit after each write. They share one database
  session for the whole conversation. As SQLAlchemy documents it, a flush that the database
  refuses rolls the transaction back, and the session then refuses every further operation until
  its \<open>rollback\<close> is called.
\<close>

section \<open>A database session\<close>

record work =
  wk_view :: db
  wk_committed :: db
  wk_rolled_back :: bool

definition open_work :: "db \<Rightarrow> work" where
  "open_work d = \<lparr>wk_view = d, wk_committed = d, wk_rolled_back = False\<rparr>"

definition pending_rollback :: exn where
  "pending_rollback = HandlerError ''PendingRollbackError'' ''This Session has been rolled back''"

fun refused_by_database :: "exn \<Rightarrow> bool" where
  "refused_by_database (IntegrityErr m) = True"
| "refused_by_database (DataErr m) = True"
| "refused_by_database _ = False"

text \<open>An operation of an adapter within the session.\<close>

definition in_session :: "(db, 'a) eff \<Rightarrow> (work, 'a) eff" where
  "in_session m = (\<lambda>w.
     if wk_rolled_back w then (Inl pending_rollback, w)
     else case m (wk_view w) of
            (Inr a, d) \<Rightarrow> (Inr a, w\<lparr>wk_view := d\<rparr>)
          | (Inl e, d) \<Rightarrow>
              if refused_by_database e then (Inl e, w\<lparr>wk_view := wk_committed w, wk_rolled_back := True\<rparr>)
              else (Inl e, w\<lparr>wk_view := d\<rparr>))"

definition commit :: "(work, unit) eff" where
  "commit = (\<lambda>w. if wk_rolled_back w then (Inl pending_rollback, w) else (Inr (), w\<lparr>wk_committed := wk_view w\<rparr>))"

definition rollback :: "work \<Rightarrow> work" where
  "rollback w = w\<lparr>wk_view := wk_committed w, wk_rolled_back := False\<rparr>"

definition committing :: "(db, 'a) eff \<Rightarrow> (work, 'a) eff" where
  "committing m = bind_eff (in_session m) (\<lambda>a. then_eff commit (ret a))"

section \<open>The repositories\<close>

definition worker_create_session :: "uuid \<Rightarrow> time \<Rightarrow> create_session_request \<Rightarrow> (work, session) eff" where
  "worker_create_session uid now r = committing (sql_create_session uid now r)"

definition worker_get_session :: "uuid \<Rightarrow> uuid option \<Rightarrow> uuid option \<Rightarrow> (work, session option) eff" where
  "worker_get_session sid org pj = in_session (sql_get_session sid org pj)"

definition worker_update_session :: "time \<Rightarrow> session \<Rightarrow> (work, session) eff" where
  "worker_update_session now s = committing (sql_update_session now s)"

definition worker_append_message :: "message \<Rightarrow> (work, message) eff" where
  "worker_append_message m = committing (sql_append_message m)"

definition worker_list_messages :: "uuid \<Rightarrow> uuid option \<Rightarrow> (work, message list) eff" where
  "worker_list_messages sid org = in_session (sql_list_messages sid org)"

definition worker_next_sequence :: "uuid \<Rightarrow> (work, int) eff" where
  "worker_next_sequence sid = in_session (sql_next_sequence sid)"

definition worker_get_latest :: "uuid \<Rightarrow> uuid option \<Rightarrow> (work, conversation_summary option) eff" where
  "worker_get_latest sid org = in_session (sql_get_latest sid org)"

definition worker_upsert_summary :: "conversation_summary \<Rightarrow> (work, conversation_summary) eff" where
  "worker_upsert_summary s = committing (sql_upsert_summary s)"

text \<open>Any operation, without its value; and a list of them, each tried whatever became of the others.\<close>

datatype worker_call =
    WO_CreateSession uuid time create_session_request
  | WO_GetSession uuid "uuid option" "uuid option"
  | WO_UpdateSession time session
  | WO_Append message
  | WO_List uuid "uuid option"
  | WO_NextSequence uuid
  | WO_GetLatest uuid "uuid option"
  | WO_Upsert conversation_summary

definition no_value :: "('s, 'a) eff \<Rightarrow> ('s, unit) eff" where
  "no_value m = then_eff m (ret ())"

fun worker_op :: "worker_call \<Rightarrow> (work, unit) eff" where
  "worker_op (WO_CreateSession uid now r) = no_value (worker_create_session uid now r)"
| "worker_op (WO_GetSession sid org pj) = no_value (worker_get_session sid org pj)"
| "worker_op (WO_UpdateSession now s) = no_value (worker_update_session now s)"
| "worker_op (WO_Append m) = no_value (worker_append_message m)"
| "worker_op (WO_List sid org) = no_value (worker_list_messages sid org)"
| "worker_op (WO_NextSequence sid) = no_value (worker_next_sequence sid)"
| "worker_op (WO_GetLatest sid org) = no_value (worker_get_latest sid org)"
| "worker_op (WO_Upsert s) = no_value (worker_upsert_summary s)"

fun worker_ops :: "worker_call list \<Rightarrow> work \<Rightarrow> unit result list \<times> work" where
  "worker_ops [] w = ([], w)"
| "worker_ops (x # xs) w = (case worker_op x w of (r, w') \<Rightarrow> (case worker_ops xs w' of (rs, w'') \<Rightarrow> (r # rs, w'')))"

section \<open>Durability\<close>

lemma committing_done:
  "m d = (Inr a, d') \<Longrightarrow> committing m \<lparr>wk_view = d, wk_committed = c, wk_rolled_back = False\<rparr> =
     (Inr a, \<lparr>wk_view = d', wk_committed = d', wk_rolled_back = False\<rparr>)"
  by (simp add: committing_def in_session_def commit_def eff_defs)

lemma committing_refused:
  "m d = (Inl e, d') \<Longrightarrow> refused_by_database e \<Longrightarrow>
     committing m \<lparr>wk_view = d, wk_committed = c, wk_rolled_back = False\<rparr> =
       (Inl e, \<lparr>wk_view = c, wk_committed = c, wk_rolled_back = True\<rparr>)"
  by (simp add: committing_def in_session_def eff_defs)

lemma no_value_Inl: "m w = (Inl e, w') \<Longrightarrow> no_value m w = (Inl e, w')"
  by (simp add: no_value_def eff_defs)

lemma op_rolled_back: "wk_rolled_back w \<Longrightarrow> worker_op x w = (Inl pending_rollback, w)"
  by (cases x) (simp_all add: worker_create_session_def worker_get_session_def worker_update_session_def
      worker_append_message_def worker_list_messages_def worker_next_sequence_def worker_get_latest_def
      worker_upsert_summary_def committing_def in_session_def no_value_def eff_defs)

lemma ops_rolled_back: "wk_rolled_back w \<Longrightarrow> worker_ops xs w = (replicate (length xs) (Inl pending_rollback), w)"
  by (induction xs) (simp_all add: op_rolled_back)

lemma appends_committed:
  assumes "represents d st" and "list_all (\<lambda>m. check_message m = Inr m) ms"
    and "distinct (map ms_id ms)" and "ms_id ` set ms \<inter> mr_id ` set (db_messages d) = {}"
    and "ms_session_id ` set ms \<subseteq> sr_id ` set (db_sessions d)"
  shows "\<exists>d'. worker_ops (map WO_Append ms) (open_work d) = (replicate (length ms) (Inr ()), open_work d') \<and>
     represents d' (append_all ms st) \<and> mr_id ` set (db_messages d') = mr_id ` set (db_messages d) \<union> ms_id ` set ms"
  using assms
proof (induction ms arbitrary: d st)
  case (Cons m ms)
  obtain d1 where a: "sql_append_message m d = (Inr (as_stored (fst (append_message m st))), d1)"
      and r: "represents d1 (snd (append_message m st))" and s: "db_sessions d1 = db_sessions d"
      and i: "mr_id ` set (db_messages d1) = insert (ms_id m) (mr_id ` set (db_messages d))"
    using represents_append [of d st m] Cons.prems by auto
  then obtain d' where "worker_ops (map WO_Append ms) (open_work d1) = (replicate (length ms) (Inr ()), open_work d')"
    "represents d' (append_all ms (snd (append_message m st)))"
    "mr_id ` set (db_messages d') = mr_id ` set (db_messages d1) \<union> ms_id ` set ms"
    using Cons.IH [OF r] Cons.prems by auto
  moreover have "worker_op (WO_Append m) (open_work d) = (Inr (), open_work d1)"
    using committing_done [of "sql_append_message m", OF a]
    by (simp add: worker_append_message_def open_work_def no_value_def eff_defs)
  ultimately show ?case using i by auto
qed (simp add: open_work_def)

text \<open>
  C33. What a worker's runtime has been told is stored is stored: after appending any valid
  messages, each one acknowledged, the committed ledger of every session is the in-memory one, its
  messages as stored (without metadata other than the sequence number). But nothing calls \<open>rollback\<close> during the conversation: once the database refuses an append, such as
  one with an id it already has, every later operation of the worker fails and the committed
  ledger stays as it was.
\<close>

theorem worker_ledger_durable:
  assumes "db_messages d = []" and "distinct (map ms_id ms)"
    and "list_all (\<lambda>m. check_message m = Inr m \<and>
      has_row sr_id (ms_session_id m) (db_sessions d)) ms"
    and "m \<in> set ms"
  shows "\<exists>d'. worker_ops (map WO_Append ms) (open_work d) = (replicate (length ms) (Inr ()), open_work d') \<and>
     represents d' (append_all ms empty_store) \<and>
     (\<exists>e. worker_ops (map WO_Append ms @ WO_Append m # ops) (open_work d) =
        (replicate (length ms) (Inr ()) @ Inl e # replicate (length ops) (Inl pending_rollback),
         (open_work d')\<lparr>wk_rolled_back := True\<rparr>))"
proof -
  have "represents d empty_store"
    using assms(1) by (simp add: represents_def session_messages_def bucket_def empty_store_def)
  then obtain d' where w: "worker_ops (map WO_Append ms) (open_work d) = (replicate (length ms) (Inr ()), open_work d')"
    and r: "represents d' (append_all ms empty_store)" and i: "mr_id ` set (db_messages d') = ms_id ` set ms"
    using appends_committed [of d empty_store ms] assms(1-3) by (auto simp: list_all_iff has_row_iff)
  have "ms_id m \<in> mr_id ` set (db_messages d')" using i assms(4) by blast
  then obtain e d2 where "sql_append_message m d' = (Inl e, d2)" "refused_by_database e"
    by (simp add: sql_append_message_def message_row_append_def add_row_def message_violation_def message_row_of_def
        has_row_iff eff_defs Let_def)
  then have refused: "worker_op (WO_Append m) (open_work d') = (Inl e, (open_work d')\<lparr>wk_rolled_back := True\<rparr>)"
    using committing_refused [of "sql_append_message m" d' e d2 d']
    by (simp add: worker_append_message_def no_value_Inl open_work_def)
  have "worker_ops (xs @ ys) u = (case worker_ops xs u of (rs, v) \<Rightarrow> (case worker_ops ys v of (ss, x) \<Rightarrow> (rs @ ss, x)))"
    for xs ys u by (induction xs arbitrary: u) (simp_all split: prod.split)
  then have "worker_ops (map WO_Append ms @ WO_Append m # ops) (open_work d) =
      (replicate (length ms) (Inr ()) @ Inl e # replicate (length ops) (Inl pending_rollback),
       (open_work d')\<lparr>wk_rolled_back := True\<rparr>)"
    by (simp add: w refused [unfolded worker_op.simps] ops_rolled_back)
  with w r show ?thesis by blast
qed

section \<open>Witness\<close>

definition stored_message :: message where
  "stored_message = \<lparr>ms_id = 1, ms_session_id = 400, ms_turn_id = 4, ms_organization_id = 1, ms_role = MR_USER,
     ms_status = MS_COMMITTED, ms_parts = [text_content_part ''hi''], ms_created_at = 2, ms_metadata = []\<rparr>"

definition stored_session_db :: db where
  "stored_session_db = empty_db\<lparr>db_sessions := [\<lparr>sr_id = 400, sr_organization_id = 1, sr_project_id = 10, sr_agent_id = 100,
     sr_agent_version_id = 200, sr_deployment_id = None, sr_status = session_status_value SS_INITIALIZING,
     sr_channel = channel_value CH_PLAYGROUND, sr_livekit_room = None, sr_config_hash = replicate 64 (CHR ''a''),
     sr_started_at = 8, sr_updated_at = 8, sr_ended_at = None, sr_end_reason = None, sr_usage = None,
     sr_error_code = None\<rparr>]\<rparr>"

lemma worker_ledger_durable_witness:
  "\<exists>e. fst (worker_ops [WO_Append stored_message, WO_Append stored_message, WO_NextSequence 400] (open_work stored_session_db)) =
     [Inr (), Inl e, Inl pending_rollback]"
proof -
  have "db_messages stored_session_db = []" by (simp add: stored_session_db_def empty_db_def)
  moreover have "list_all (\<lambda>m. check_message m = Inr m \<and>
      has_row sr_id (ms_session_id m) (db_sessions stored_session_db)) [stored_message]"
    by (simp add: stored_session_db_def stored_message_def check_message_def has_row_def text_content_part_def)
  ultimately obtain d' e where
    "worker_ops (map WO_Append [stored_message] @ WO_Append stored_message # [WO_NextSequence 400]) (open_work stored_session_db) =
      (replicate (length [stored_message]) (Inr ()) @ Inl e # replicate (length [WO_NextSequence 400]) (Inl pending_rollback),
       (open_work d')\<lparr>wk_rolled_back := True\<rparr>)"
    using worker_ledger_durable [of stored_session_db "[stored_message]" stored_message "[WO_NextSequence 400]"] by force
  then show ?thesis by (simp del: worker_ops.simps worker_op.simps)
qed

end
