(* ===== verification/PyUuid.thy ===== *)
theory PyUuid
  imports Prelude
begin

text \<open>
  The text form of a UUID as Python writes and reads it: \<open>str(u)\<close>, and \<open>UUID(text)\<close> with the
  liberties it takes (prefixes, braces, dashes anywhere, and those of \<open>int(text, 16)\<close>). A
  cursor of the control plane leaves as the one and comes back through the other.
\<close>

section \<open>str.replace, str.strip, int(_, 16)\<close>

text \<open>\<open>s.replace(p, "")\<close> for a \<open>p\<close> that is not empty.\<close>

fun remove_all :: "string \<Rightarrow> string \<Rightarrow> string" where
  "remove_all p [] = []"
| "remove_all p (c # cs) =
     (if take (length p) (c # cs) = p \<and> p \<noteq> [] then remove_all p (drop (length p - 1) cs)
      else c # remove_all p cs)"

definition strip_chars :: "string \<Rightarrow> string \<Rightarrow> string" where
  "strip_chars cs s = rev (dropWhile (\<lambda>c. c \<in> set cs) (rev (dropWhile (\<lambda>c. c \<in> set cs) s)))"

definition hex_digits :: string where
  "hex_digits = ''0123456789abcdef''"

definition hex_char :: "nat \<Rightarrow> char" where
  "hex_char n = hex_digits ! n"

definition hex_value :: "char \<Rightarrow> int option" where
  "hex_value c =
     (let n = of_char c :: int in
      if 48 \<le> n \<and> n \<le> 57 then Some (n - 48)
      else if 97 \<le> n \<and> n \<le> 102 then Some (n - 87)
      else if 65 \<le> n \<and> n \<le> 70 then Some (n - 55)
      else None)"

text \<open>Digits with single underscores between them; \<open>wanted\<close> says that a digit must come next.\<close>

fun base16 :: "bool \<Rightarrow> int \<Rightarrow> string \<Rightarrow> int option" where
  "base16 wanted acc [] = (if wanted then None else Some acc)"
| "base16 wanted acc (c # cs) =
     (if c = CHR ''_'' then (if wanted then None else base16 True acc cs)
      else case hex_value c of None \<Rightarrow> None | Some v \<Rightarrow> base16 False (16 * acc + v) cs)"

text \<open>In a text of ASCII characters only, the separators 28 to 31 are not blanks for \<open>int\<close>.\<close>

definition int_space :: "string \<Rightarrow> char \<Rightarrow> bool" where
  "int_space s c \<longleftrightarrow> py_isspace c \<and>
     (list_all (\<lambda>x. (of_char x :: nat) < 128) s \<longrightarrow> \<not> (28 \<le> (of_char c :: nat) \<and> (of_char c :: nat) \<le> 31))"

definition unprefixed :: "string \<Rightarrow> string" where
  "unprefixed s =
     (if take 2 s \<in> {''0x'', ''0X''}
      then (let t = drop 2 s in if take 1 t = ''_'' then drop 1 t else t) else s)"

definition int_of_hex :: "string \<Rightarrow> int option" where
  "int_of_hex text =
     (let s = rev (dropWhile (int_space text) (rev (dropWhile (int_space text) text))) in
      if take 1 s = ''-'' then map_option uminus (base16 True 0 (unprefixed (drop 1 s)))
      else if take 1 s = ''+'' then base16 True 0 (unprefixed (drop 1 s))
      else base16 True 0 (unprefixed s))"

section \<open>UUID\<close>

definition parse_uuid :: "string \<Rightarrow> uuid option" where
  "parse_uuid text =
     (let h = remove_all ''-'' (strip_chars ''{}'' (remove_all ''uuid:'' (remove_all ''urn:'' text))) in
      if length h \<noteq> 32 then None
      else case int_of_hex h of
          None \<Rightarrow> None
        | Some n \<Rightarrow> if 0 \<le> n \<and> n < 2 ^ 128 then Some (nat n) else None)"

text \<open>The 32 hexadecimal digits of a UUID, in groups of 8, 4, 4, 4 and 12.\<close>

definition hex32 :: "uuid \<Rightarrow> string" where
  "hex32 u = map (\<lambda>i. hex_char (u div 16 ^ (31 - i) mod 16)) [0..<32]"

definition uuid_text :: "uuid \<Rightarrow> string" where
  "uuid_text u =
     (let h = hex32 u in
      take 8 h @ ''-'' @ take 4 (drop 8 h) @ ''-'' @ take 4 (drop 12 h) @ ''-'' @ take 4 (drop 16 h) @ ''-'' @ drop 20 h)"

section \<open>Reading back what was written\<close>

lemma remove_all_absent: "p = c # q \<Longrightarrow> c \<notin> set s \<Longrightarrow> remove_all p s = s"
  by (induction s) auto

lemma remove_char: "remove_all [c] s = filter (\<lambda>x. x \<noteq> c) s"
  by (induction s) auto

lemma strip_chars_absent: "set s \<inter> set cs = {} \<Longrightarrow> strip_chars cs s = s"
  by (simp add: strip_chars_def dropWhile_eq_self_iff) (metis disjoint_iff hd_in_set dropWhile_eq_self_iff rev_rev_ident set_rev)

lemma hex_chars:
  assumes "n < 16"
  shows "hex_char n \<in> set hex_digits" and "hex_value (hex_char n) = Some (int n)" and "hex_char n \<noteq> CHR ''_''"
proof -
  have "list_all (\<lambda>n. List.member hex_digits (hex_char n) \<and> hex_value (hex_char n) = Some (int n) \<and>
      hex_char n \<noteq> CHR ''_'') [0..<16]" by code_simp
  then show "hex_char n \<in> set hex_digits" "hex_value (hex_char n) = Some (int n)" "hex_char n \<noteq> CHR ''_''"
    using assms by (auto simp: list_all_iff)
qed

lemma hex32_length [simp]: "length (hex32 u) = 32"
  by (simp add: hex32_def)

lemma hex32_chars: "set (hex32 u) \<subseteq> set hex_digits"
  by (auto simp: hex32_def intro: hex_chars(1))

lemma base16_digits:
  assumes "\<forall>n \<in> set ns. n < 16" and "ns \<noteq> [] \<or> \<not> wanted"
  shows "base16 wanted acc (map hex_char ns) = Some (foldl (\<lambda>a n. 16 * a + int n) acc ns)"
  using assms by (induction ns arbitrary: acc wanted) (auto simp: hex_chars)

text \<open>The first \<open>k\<close> of \<open>m\<close> digits are the number without its last \<open>m - k\<close> digits.\<close>

lemma leading_digits:
  assumes "u < 16 ^ m" and "k \<le> m"
  shows "foldl (\<lambda>a n. 16 * a + int n) 0 (map (\<lambda>i. u div 16 ^ (m - 1 - i) mod 16) [0..<k]) = int (u div 16 ^ (m - k))"
  using assms(2)
proof (induction k)
  case 0
  then show ?case using assms(1) by simp
next
  case (Suc k)
  let ?e = "m - Suc k"
  have s: "m - k = Suc ?e" using Suc.prems by simp
  have "u div 16 ^ (m - k) = u div 16 ^ ?e div 16" unfolding s power_Suc2 by (rule div_mult2_eq)
  then have "16 * (u div 16 ^ (m - k)) + u div 16 ^ ?e mod 16 = u div 16 ^ ?e" by simp
  then have "16 * int (u div 16 ^ (m - k)) + int (u div 16 ^ ?e mod 16) = int (u div 16 ^ ?e)"
    by (metis of_nat_add of_nat_mult of_nat_numeral)
  then show ?case using Suc by simp
qed

lemma int_of_hex32:
  assumes "u < 2 ^ 128"
  shows "int_of_hex (hex32 u) = Some (int u)"
proof -
  let ?ns = "map (\<lambda>i. u div 16 ^ (31 - i) mod 16) [0..<32]"
  have h: "hex32 u = map hex_char ?ns" by (simp add: hex32_def)
  have ne: "hex32 u \<noteq> []" by (metis hex32_length length_0_conv zero_neq_numeral)
  have plain: "\<not> int_space t c \<and> c \<noteq> CHR ''-'' \<and> c \<noteq> CHR ''+'' \<and> c \<noteq> CHR ''x'' \<and> c \<noteq> CHR ''X''"
    if "c \<in> set hex_digits" for t c
    using that by (auto simp: hex_digits_def int_space_def py_isspace_def)
  have blank: "dropWhile (int_space t) s = s" if "set s \<subseteq> set hex_digits" for t s
    using that plain by (cases s) auto
  have sign: "take 1 (hex32 u) \<noteq> ''-''" "take 1 (hex32 u) \<noteq> ''+''"
    using plain hex32_chars [of u] ne by (cases "hex32 u"; auto)+
  have prefix: "unprefixed (hex32 u) = hex32 u"
    using plain hex32_chars [of u] by (cases "hex32 u"; cases "tl (hex32 u)") (auto simp: unprefixed_def)
  have "int_of_hex (hex32 u) = base16 True 0 (hex32 u)"
    using sign by (simp add: int_of_hex_def Let_def blank hex32_chars prefix)
  also have "\<dots> = Some (foldl (\<lambda>a n. 16 * a + int n) 0 ?ns)"
    unfolding h by (rule base16_digits) auto
  also have "foldl (\<lambda>a n. 16 * a + int n) 0 ?ns = int u"
    using leading_digits [of u 32 32] assms by simp
  finally show ?thesis .
qed

lemma uuid_text_digits: "filter (\<lambda>x. x \<noteq> CHR ''-'') (uuid_text u) = hex32 u"
proof -
  let ?h = "hex32 u"
  have nodash: "filter (\<lambda>x. x \<noteq> CHR ''-'') s = s" if "set s \<subseteq> set ?h" for s
    using that hex32_chars [of u] by (intro filter_True) (auto simp: hex_digits_def)
  have split: "take 8 ?h @ take 4 (drop 8 ?h) @ take 4 (drop 12 ?h) @ take 4 (drop 16 ?h) @ drop 20 ?h = ?h"
    using append_take_drop_id [of 4 "drop 16 ?h"] append_take_drop_id [of 4 "drop 12 ?h"]
      append_take_drop_id [of 4 "drop 8 ?h"] append_take_drop_id [of 8 ?h]
    by simp
  have parts: "set (take 8 ?h) \<subseteq> set ?h" "set (take 4 (drop n ?h)) \<subseteq> set ?h" "set (drop 20 ?h) \<subseteq> set ?h" for n
    by (auto dest: in_set_takeD in_set_dropD)
  show ?thesis
    using split by (simp add: uuid_text_def Let_def nodash [OF parts(1)] nodash [OF parts(2)] nodash [OF parts(3)])
qed

lemma uuid_text_nonempty [simp]: "uuid_text u \<noteq> []"
  by (simp add: uuid_text_def Let_def)

lemma uuid_text_chars: "set (uuid_text u) \<subseteq> insert (CHR ''-'') (set hex_digits)"
  using hex32_chars [of u] by (auto simp: uuid_text_def Let_def dest!: in_set_takeD in_set_dropD)

lemma parse_uuid_text:
  assumes "u < 2 ^ 128"
  shows "parse_uuid (uuid_text u) = Some u"
proof -
  let ?t = "uuid_text u"
  have c: "CHR ''u'' \<notin> set ?t" "set ?t \<inter> set ''{}'' = {}"
    using uuid_text_chars [of u] by (auto simp: hex_digits_def)
  have "remove_all ''urn:'' ?t = ?t" "remove_all ''uuid:'' ?t = ?t"
    using c(1) by (auto intro: remove_all_absent)
  then have "remove_all ''-'' (strip_chars ''{}'' (remove_all ''uuid:'' (remove_all ''urn:'' ?t))) = hex32 u"
    using strip_chars_absent [OF c(2)] by (simp add: remove_char uuid_text_digits)
  then show ?thesis using assms by (simp add: parse_uuid_def int_of_hex32 Let_def)
qed

end
