(* ===== verification/RoutesProps.thy ===== *)
theory RoutesProps
  imports ControlProps Routes
begin

text \<open>
  What the HTTP surface adds to the requests of theory ControlInv: a refused call leaves the
  database alone and says so with the identifier of the request, a response shows rows of the
  project in the path only, and the pages of a listing, followed by the cursors in the
  responses, are the listing.
\<close>

section \<open>Reading and the transaction\<close>

definition reads :: "(db, 'a) eff \<Rightarrow> bool" where
  "reads m \<longleftrightarrow> (\<forall>d. snd (m d) = d)"

named_theorems reading

lemma reads_basic [reading]: "reads (ret a)" "reads (throw e)" "reads (lift_eff r)"
  by (simp_all add: reads_def eff_defs)

lemma reads_with [reading]: "(\<And>d. reads (f d)) \<Longrightarrow> reads (with_state f)"
  by (simp add: reads_def with_state_def)

lemma reads_bind [reading]: "reads m \<Longrightarrow> (\<And>a. reads (f a)) \<Longrightarrow> reads (bind_eff m f)"
  by (simp add: reads_def bind_eff_def split: prod.split sum.split) (metis prod.sel(2))

lemma reads_require [reading]: "reads (require e f)"
  by (simp add: reads_def require_def eff_defs split: option.split)

lemmas reading_defs = require_project_def require_agent_def require_version_def require_session_def
  require_tool_def require_agent_version_def require_knowledge_base_def

lemma routes_that_read [reading]:
  "reads (api_list_agents pj n c)" "reads (api_get_agent pj ag)" "reads (api_list_versions pj ag n)"
  "reads (api_get_version pj ag vid)" "reads (api_get_session pj sid)" "reads (api_list_messages pj sid)"
  "reads (api_list_tools pj n c)" "reads (api_get_tool pj tid)" "reads (api_list_version_tools pj ag vid)"
  "reads (api_list_knowledge_bases pj)" "reads (api_list_documents pj)"
  unfolding api_list_agents_def api_get_agent_def api_list_versions_def api_get_version_def
    api_get_session_def api_list_messages_def api_list_tools_def api_get_tool_def
    api_list_version_tools_def api_list_knowledge_bases_def api_list_documents_def reading_defs
  by (auto intro!: reading simp: Let_def split: prod.split)

lemma in_scope_cases:
  "in_scope ok body m d = (x, d') \<Longrightarrow>
     (\<exists>a. m d = (Inr a, d') \<and> x = O_Answer ok (body a)) \<or> (\<exists>e. x = O_Raised e \<and> d' = d)"
  by (auto simp: in_scope_def session_scope_def split: prod.splits sum.splits)

lemma routed_cases:
  "routed checked ok body route d = (x, d') \<Longrightarrow>
     (\<exists>b a. checked = Inr b \<and> route b d = (Inr a, d') \<and> x = O_Answer ok (body a)) \<or>
     ((\<exists>e. x = O_Raised e \<or> x = O_Invalid e) \<and> d' = d)"
  by (auto simp: routed_def split: sum.splits dest!: in_scope_cases)

lemma paged_cases:
  "paged limit cursor list body d = (x, d') \<Longrightarrow>
     (\<exists>n c a. pagination_limit limit = Inr n \<and> optional_cursor cursor = Inr c \<and> list n c d = (Inr a, d') \<and>
        x = O_Answer 200 (body a)) \<or>
     ((\<exists>e. x = O_Raised e \<or> x = O_Invalid e) \<and> d' = d)"
  by (auto simp: paged_def split: sum.splits dest!: routed_cases)

lemma read_state: "reads m \<Longrightarrow> m d = (r, d') \<Longrightarrow> d' = d"
  by (metis reads_def snd_conv)

definition is_write :: "api_call \<Rightarrow> bool" where
  "is_write call \<longleftrightarrow> (\<exists>r. call = Write r)"

lemma read_call_keeps:
  "route_call sv call d = Some (x, d') \<Longrightarrow> \<not> is_write call \<Longrightarrow> d' = d"
  by (cases call)
    (auto simp: is_write_def split: if_splits sum.splits dest!: in_scope_cases routed_cases paged_cases
      dest: read_state [OF routes_that_read(1)] read_state [OF routes_that_read(2)]
        read_state [OF routes_that_read(3)] read_state [OF routes_that_read(4)]
        read_state [OF routes_that_read(5)] read_state [OF routes_that_read(6)]
        read_state [OF routes_that_read(7)] read_state [OF routes_that_read(8)]
        read_state [OF routes_that_read(9)] read_state [OF routes_that_read(10)]
        read_state [OF routes_that_read(11)] read_state [OF reads_basic(1)])

section \<open>The server implements the requests\<close>

fun as_result :: "outcome \<Rightarrow> unit result" where
  "as_result (O_Answer _ _) = Inr ()"
| "as_result (O_Invalid _) = Inl (AppErr ''validation_error'' ''Request validation failed'' 422)"
| "as_result (O_Raised e) = Inl e"

lemma in_scope_result:
  "map_prod as_result id (in_scope ok body m d) = session_scope (then_eff m (ret ())) d"
  by (cases "m d"; cases "fst (m d)") (auto simp: in_scope_def session_scope_def eff_defs)

lemma routed_result: "map_prod as_result id (routed checked ok body route d) = with_body checked route d"
  by (simp add: routed_def with_body_def in_scope_result throw_def split: sum.split)

lemma then_ret_unit: "then_eff m (ret ()) = m"
  by (auto simp: eff_defs fun_eq_iff split: prod.split sum.split)

lemma route_write_refines: "map_option (map_prod as_result id) (route_write en r d) = api_step en r d"
  by (cases r) (simp_all add: in_scope_result routed_result then_ret_unit split: option.split)

fun writes_of :: "(string option \<times> uuid \<times> api_call) list \<Rightarrow> api_request list" where
  "writes_of [] = []"
| "writes_of ((_, _, Write r) # rest) = r # writes_of rest"
| "writes_of (_ # rest) = writes_of rest"

lemma serve_write:
  "(case serve sv header fresh (Write r) d of None \<Rightarrow> d | Some (_, d') \<Rightarrow> d') =
     (case api_step (sv_api sv) r d of None \<Rightarrow> d | Some (_, d') \<Rightarrow> d')"
  unfolding route_write_refines [symmetric] by (auto simp: serve_def split: option.split)

lemma serve_read:
  "\<not> is_write call \<Longrightarrow> (case serve sv header fresh call d of None \<Rightarrow> d | Some (_, d') \<Rightarrow> d') = d"
  by (auto simp: serve_def dest: read_call_keeps split: option.split)

text \<open>Serving a history of calls changes the database as its write requests do, reads and refusals as nothing.\<close>

theorem server_refines_requests: "serve_all sv calls d = api_run (sv_api sv) (writes_of calls) d"
proof (induction calls arbitrary: d)
  case (Cons a calls)
  obtain header fresh call where a: "a = (header, fresh, call)" by (cases a)
  show ?case
  proof (cases call)
    case (Write r)
    then show ?thesis using Cons serve_write [where sv = sv and header = header and fresh = fresh and r = r and d = d] a by simp
  qed (simp_all add: a Cons serve_read is_write_def)
qed simp

section \<open>All or nothing\<close>

definition settled_call :: "db \<Rightarrow> outcome \<Rightarrow> db \<Rightarrow> bool" where
  "settled_call d x d' \<longleftrightarrow>
     (\<exists>status body. x = O_Answer status body \<and> status \<in> {200, 201, 204} \<and> (\<forall>b. body \<noteq> B_Error b)) \<or>
     ((\<exists>e. x = O_Raised e \<or> x = O_Invalid e) \<and> d' = d)"

lemma write_settled: "route_write en r d = Some (x, d') \<Longrightarrow> settled_call d x d'"
  by (cases r) (auto simp: settled_call_def split: option.splits dest!: in_scope_cases routed_cases)

lemma call_settled: "route_call sv call d = Some (x, d') \<Longrightarrow> settled_call d x d'"
proof (cases call)
  case (Write r)
  assume "route_call sv call d = Some (x, d')"
  with Write show ?thesis by (simp add: write_settled)
qed (auto simp: settled_call_def split: if_splits sum.splits prod.splits
    dest!: in_scope_cases routed_cases paged_cases)

text \<open>The body of an error: a code, a message and the identifier of the request it answers.\<close>

definition reports :: "string \<Rightarrow> api_body \<Rightarrow> bool" where
  "reports rid body \<longleftrightarrow>
     (\<exists>code message details. body = B_Error (error_body code message rid details))"

lemma reports_error [simp]: "reports rid (B_Error (error_body code message rid details))"
  unfolding reports_def by blast

lemma exception_response:
  "handle_exception e rid = Some r \<Longrightarrow> rp_request_id r = rid \<and> reports rid (rp_body r)"
  by (cases e) (auto simp: error_response_def)

lemma exception_status: "handle_exception e rid = Some r \<Longrightarrow> rp_status r = http_status e"
  by (cases e) (auto simp: error_response_def)

text \<open>
  C30. A call is all or nothing: a response that carries an error, and an exception that leaves
  the application, leave the database as it was; an error names the request it answers, every
  other response has the status of a success, and a call that is not a write changes nothing.
\<close>

theorem serve_all_or_nothing:
  assumes "serve sv header fresh call d = Some (x, d')"
  shows "(case x of
      Inl e \<Rightarrow> d' = d
    | Inr r \<Rightarrow> rp_request_id r = request_id_of header fresh \<and>
        (rp_status r \<in> {200, 201, 204} \<and> (\<forall>b. rp_body r \<noteq> B_Error b) \<or>
         d' = d \<and> reports (request_id_of header fresh) (rp_body r))) \<and>
    (\<not> is_write call \<longrightarrow> d' = d)"
proof -
  obtain y where y: "route_call sv call d = Some (y, d')" and x: "x = respond sv (request_id_of header fresh) y"
    using assms by (auto simp: serve_def)
  have "\<not> is_write call \<longrightarrow> d' = d" using read_call_keeps [OF y] by blast
  then show ?thesis
    using call_settled [OF y] x
    by (auto simp: settled_call_def error_response_def dest!: exception_response split: option.splits)
qed


definition sample_server :: server where
  "sample_server = \<lparr>sv_api = sample_ctl_env, sv_settings = default_settings, sv_jwt = (\<lambda>c. tg_identity c),
     sv_errors = (\<lambda>e. []), sv_str = (\<lambda>j. ''ctx'')\<rparr>"

lemma serve_all_or_nothing_witness:
  "\<exists>r. serve sample_server (Some ''req-1'') 7 (Write (DeleteAgent 10 5)) sample_db = Some (Inr r, sample_db) \<and>
     rp_status r = 404 \<and> reports ''req-1'' (rp_body r)"
proof -
  let ?r = "error_response 404 ''not_found'' ''Agent not found'' [] ''req-1''"
  have r: "serve sample_server (Some ''req-1'') 7 (Write (DeleteAgent 10 5)) sample_db = Some (Inr ?r, sample_db)"
    by (simp add: serve_def in_scope_def session_scope_def api_delete_agent_def require_agent_def
      require_project_def require_def eff_defs get_project_def agent_get_in_project_def scalar_def
      sample_db_def empty_db_def request_id_of_def)
  then show ?thesis using serve_all_or_nothing [OF r] by (auto simp: error_response_def request_id_of_def)
qed


section \<open>What a response shows\<close>

text \<open>The body shows rows of this project and of its organization.\<close>

definition agent_in :: "project_row \<Rightarrow> agent \<Rightarrow> bool" where
  "agent_in p a \<longleftrightarrow> ag_project_id a = pr_id p \<and> ag_organization_id a = pr_organization_id p"

definition version_in :: "project_row \<Rightarrow> agent_version \<Rightarrow> bool" where
  "version_in p v \<longleftrightarrow> av_project_id v = pr_id p \<and> av_organization_id v = pr_organization_id p"

definition session_in :: "project_row \<Rightarrow> session \<Rightarrow> bool" where
  "session_in p s \<longleftrightarrow> ss_project_id s = pr_id p \<and> ss_organization_id s = pr_organization_id p"

definition tool_in :: "project_row \<Rightarrow> tool_definition \<Rightarrow> bool" where
  "tool_in p t \<longleftrightarrow> tf_project_id t = pr_id p \<and> tf_organization_id t = pr_organization_id p"

text \<open>A message carries no project: its session does, in the database the response is read from.\<close>

definition session_of :: "db \<Rightarrow> project_row \<Rightarrow> uuid \<Rightarrow> bool" where
  "session_of d p sid \<longleftrightarrow> list_ex (\<lambda>s. sr_id s = sid \<and> sr_project_id s = pr_id p \<and>
     sr_organization_id s = pr_organization_id p) (db_sessions d)"

definition message_in :: "db \<Rightarrow> project_row \<Rightarrow> message \<Rightarrow> bool" where
  "message_in d p m \<longleftrightarrow> ms_organization_id m = pr_organization_id p \<and> session_of d p (ms_session_id m)"

fun inside :: "db \<Rightarrow> project_row \<Rightarrow> api_body \<Rightarrow> bool" where
  "inside d p (B_Agent a) = agent_in p a"
| "inside d p (B_Agents xs c) = list_all (agent_in p) xs"
| "inside d p (B_Version v) = version_in p v"
| "inside d p (B_Versions vs c) = list_all (version_in p) vs"
| "inside d p (B_Session s) = session_in p s"
| "inside d p (B_Messages ms) = list_all (message_in d p) ms"
| "inside d p (B_Tool t) = tool_in p t"
| "inside d p (B_Tools ts c) = list_all (tool_in p) ts"
| "inside d p (B_VersionTools ts) = list_all (tool_in p) ts"
| "inside d p (B_KnowledgeBase k) = (kr_project_id k = pr_id p)"
| "inside d p (B_KnowledgeBases ks) = list_all (\<lambda>k. kr_project_id k = pr_id p) ks"
| "inside d p B_Empty = True"
| "inside d p _ = False"

text \<open>The project in the path of a call; documents and the development token have none.\<close>

fun request_project :: "api_request \<Rightarrow> uuid option" where
  "request_project (CreateAgent _ _ pj _) = Some pj"
| "request_project (UpdateAgent _ pj _ _) = Some pj"
| "request_project (DeleteAgent pj _) = Some pj"
| "request_project (CreateVersion _ _ pj _ _) = Some pj"
| "request_project (UpdateVersion pj _ _ _) = Some pj"
| "request_project (PublishVersion _ pj _ _) = Some pj"
| "request_project (CreateSession _ _ pj _) = Some pj"
| "request_project (CreateTool _ _ pj _) = Some pj"
| "request_project (UpdateTool _ pj _ _) = Some pj"
| "request_project (DeleteTool pj _) = Some pj"
| "request_project (AttachTool _ pj _ _ _) = Some pj"
| "request_project (DetachTool pj _ _ _) = Some pj"
| "request_project (CreateKnowledgeBase _ _ pj _ _) = Some pj"
| "request_project (CreateDocument _ _ _ _ _ _) = None"

fun call_project :: "api_call \<Rightarrow> uuid option" where
  "call_project (Write r) = request_project r"
| "call_project (ListAgents pj _ _) = Some pj"
| "call_project (GetAgent pj _) = Some pj"
| "call_project (ListVersions pj _ _) = Some pj"
| "call_project (GetVersion pj _ _) = Some pj"
| "call_project (GetSession pj _) = Some pj"
| "call_project (ListMessages pj _) = Some pj"
| "call_project (ListTools pj _ _) = Some pj"
| "call_project (GetTool pj _) = Some pj"
| "call_project (ListVersionTools pj _ _) = Some pj"
| "call_project (ListKnowledgeBases pj) = Some pj"
| "call_project (ListDocuments _) = None"
| "call_project (MintToken _ _) = None"
| "call_project Health = None"

lemma agent_shown: "agent_to_contract r = Inr a \<Longrightarrow>
    agent_in p a \<longleftrightarrow> ar_project_id r = pr_id p \<and> ar_organization_id r = pr_organization_id p"
  by (auto simp: agent_in_def agent_to_contract_def and_then_Inr check_agent_def split: if_splits)

lemma version_shown: "version_to_contract r = Inr v \<Longrightarrow>
    version_in p v \<longleftrightarrow> vr_project_id r = pr_id p \<and> vr_organization_id r = pr_organization_id p"
  by (auto simp: version_in_def version_to_contract_def and_then_Inr check_agent_version_Inr)

lemma session_shown: "session_to_contract r = Inr s \<Longrightarrow>
    session_in p s \<longleftrightarrow> sr_project_id r = pr_id p \<and> sr_organization_id r = pr_organization_id p"
  by (auto simp: session_in_def session_to_contract_def and_then_Inr dest!: check_session_Inr(1))

lemma tool_shown: "tool_definition_to_contract r = Inr t \<Longrightarrow>
    tool_in p t \<longleftrightarrow> dr_project_id r = pr_id p \<and> dr_organization_id r = pr_organization_id p"
  by (auto simp: tool_in_def tool_definition_to_contract_def and_then_Inr check_tool_definition_def split: if_splits)

lemma message_shown: "message_to_contract r = Inr m \<Longrightarrow>
    message_in d p m \<longleftrightarrow> mr_organization_id r = pr_organization_id p \<and> session_of d p (mr_session_id r)"
  by (auto simp: message_in_def message_to_contract_def and_then_Inr check_message_def split: if_splits)

lemmas shown = agent_shown version_shown session_shown tool_shown message_shown

lemma validate_all_rows:
  assumes "validate_all f rows = Inr xs" and "\<forall>r \<in> set rows. \<forall>x. f r = Inr x \<longrightarrow> P x"
  shows "list_all P xs"
  using assms by (induction rows arbitrary: xs) (auto split: sum.splits simp: map_sum_def)

lemma page_rows: "set (fst (page key n rows)) \<subseteq> set rows"
  by (auto simp: page_def Let_def split: if_splits dest: in_set_takeD)

lemma listed_rows: "set (limit_rows n rows) \<subseteq> set rows" "set (newest_first key rows) = set rows"
  by (auto simp: limit_rows_def newest_first_def dest: in_set_takeD)

text \<open>What each operation returns about a project.\<close>

lemma session_found:
  "require_session pj sid d = (Inr (p, s), d') \<Longrightarrow>
     get_project pj d = Some p \<and> sr_project_id s = pr_id p \<and> sr_organization_id s = pr_organization_id p \<and>
     session_of d p sid \<and> d' = d"
  by (auto simp: require_session_def run_Inr project_found session_row_get_def session_of_def list_ex_iff
      dest!: scalar_Some)

lemmas found = project_found agent_found version_found agent_version_found session_found tool_found

lemma agents_shown:
  "api_create_agent uid now pj b d = (Inr a, d') \<Longrightarrow> \<exists>p. get_project pj d = Some p \<and> agent_in p a"
  "api_update_agent now pj ag u d = (Inr a, d') \<Longrightarrow> \<exists>p. get_project pj d = Some p \<and> agent_in p a"
  "api_get_agent pj ag d = (Inr a, d') \<Longrightarrow> \<exists>p. get_project pj d = Some p \<and> agent_in p a"
  by (auto simp: api_create_agent_def api_update_agent_def api_get_agent_def run_Inr Let_def project_found shown
      apply_agent_update_def set_if_def split: option.splits dest!: agent_found)

lemma agent_page_shown:
  assumes "api_list_agents pj n c d = (Inr (xs, next_cursor), d')"
  shows "\<exists>p. get_project pj d = Some p \<and> list_all (agent_in p) xs"
proof -
  obtain p where p: "get_project pj d = Some p"
      and xs: "validate_all agent_to_contract (fst (page ar_id n
        (agent_list_in_project (pr_id p) (pr_organization_id p) (n + 1) c d))) = Inr xs"
    using assms by (auto simp: api_list_agents_def run_Inr project_found with_state_def map_sum_Inr case_prod_beta)
  have "\<forall>r \<in> set (fst (page ar_id n (agent_list_in_project (pr_id p) (pr_organization_id p) (n + 1) c d))).
      ar_project_id r = pr_id p \<and> ar_organization_id r = pr_organization_id p"
    using page_rows listed_rows(1)
    by (fastforce simp: agent_list_in_project_def Let_def listed_rows(2) split: option.splits)
  then have "list_all (agent_in p) xs" by (intro validate_all_rows [OF xs]) (auto simp: shown)
  with p show ?thesis by blast
qed

lemma tool_page_shown:
  assumes "api_list_tools pj n c d = (Inr (xs, next_cursor), d')"
  shows "\<exists>p. get_project pj d = Some p \<and> list_all (tool_in p) xs"
proof -
  obtain p where p: "get_project pj d = Some p"
      and xs: "validate_all tool_definition_to_contract (fst (page dr_id n
        (tool_list_in_project (pr_id p) (pr_organization_id p) (n + 1) c d))) = Inr xs"
    using assms by (auto simp: api_list_tools_def run_Inr project_found with_state_def map_sum_Inr case_prod_beta)
  have "\<forall>r \<in> set (fst (page dr_id n (tool_list_in_project (pr_id p) (pr_organization_id p) (n + 1) c d))).
      dr_project_id r = pr_id p \<and> dr_organization_id r = pr_organization_id p"
    using page_rows listed_rows(1)
    by (fastforce simp: tool_list_in_project_def Let_def listed_rows(2) split: option.splits)
  then have "list_all (tool_in p) xs" by (intro validate_all_rows [OF xs]) (auto simp: shown)
  with p show ?thesis by blast
qed

lemma store_keeps_tenant [simp]:
  "vr_project_id (store_version_config v r) = vr_project_id r"
  "vr_organization_id (store_version_config v r) = vr_organization_id r"
  by (simp_all add: store_version_config_def)

lemma versions_shown:
  "api_create_version h uid now pj ag b d = (Inr v, d') \<Longrightarrow> \<exists>p. get_project pj d = Some p \<and> version_in p v"
  "api_update_version h pj ag vid u d = (Inr v, d') \<Longrightarrow> \<exists>p. get_project pj d = Some p \<and> version_in p v"
  "api_publish_version now pj ag vid d = (Inr v, d') \<Longrightarrow> \<exists>p. get_project pj d = Some p \<and> version_in p v"
  "api_get_version pj ag vid d = (Inr v, d') \<Longrightarrow> \<exists>p. get_project pj d = Some p \<and> version_in p v"
  by (auto simp: api_create_version_def api_update_version_def api_publish_version_def api_get_version_def
      run_Inr Let_def with_state_def throw_def check_agent_version_Inr with_config_hash_def row_of_version_def shown
      split: if_splits dest!: agent_found version_found)

lemma version_list_shown:
  assumes "api_list_versions pj ag n d = (Inr xs, d')"
  shows "\<exists>p. get_project pj d = Some p \<and> list_all (version_in p) xs"
proof -
  obtain p a d1 where a: "require_agent pj ag d = (Inr (p, a), d1)"
      and v: "validate_all version_to_contract
        (version_list_for_agent (ar_id a) (pr_organization_id p) (pr_id p) n d1) = Inr xs"
    using assms by (auto simp: api_list_versions_def run_Inr with_state_def)
  have p: "get_project pj d = Some p" and xs: "validate_all version_to_contract
        (version_list_for_agent (ar_id a) (pr_organization_id p) (pr_id p) n d) = Inr xs"
    using agent_found [OF a] v by simp_all
  have "list_all (version_in p) xs"
    using listed_rows(1)
    by (intro validate_all_rows [OF xs]) (fastforce simp: shown version_list_for_agent_def listed_rows(2))
  with p show ?thesis by blast
qed

lemma sessions_shown:
  "api_create_session uid now pj b d = (Inr s, d') \<Longrightarrow> \<exists>p. get_project pj d = Some p \<and> session_in p s"
  "api_get_session pj sid d = (Inr s, d') \<Longrightarrow> \<exists>p. get_project pj d = Some p \<and> session_in p s"
  by (auto simp: api_get_session_def run_Inr session_row_of_def shown
      elim!: api_create_session_Inr dest!: session_found)

lemma messages_shown:
  assumes "api_list_messages pj sid d = (Inr xs, d')"
  shows "\<exists>p. get_project pj d = Some p \<and> list_all (message_in d p) xs"
proof -
  obtain p s where p: "get_project pj d = Some p" "session_of d p sid"
      and xs: "validate_all message_to_contract (message_rows_for_session sid (Some (pr_organization_id p)) d) = Inr xs"
    using assms by (auto simp: api_list_messages_def run_Inr with_state_def dest!: session_found)
  have "list_all (message_in d p) xs"
    using p(2) by (intro validate_all_rows [OF xs]) (auto simp: shown message_rows_for_session_def)
  with p show ?thesis by blast
qed

lemma tools_shown:
  "api_create_tool uid now pj b d = (Inr t, d') \<Longrightarrow> \<exists>p. get_project pj d = Some p \<and> tool_in p t"
  "api_update_tool now pj tid u d = (Inr t, d') \<Longrightarrow> \<exists>p. get_project pj d = Some p \<and> tool_in p t"
  "api_get_tool pj tid d = (Inr t, d') \<Longrightarrow> \<exists>p. get_project pj d = Some p \<and> tool_in p t"
  "api_attach_tool now pj ag vid tid d = (Inr t, d') \<Longrightarrow> \<exists>p. get_project pj d = Some p \<and> tool_in p t"
  by (auto simp: api_create_tool_def api_update_tool_def api_get_tool_def api_attach_tool_def run_Inr Let_def
      with_state_def throw_def shown project_found apply_tool_update_def set_if_def
      split: if_splits option.splits dest!: tool_found draft_version_found)

lemma same_key: "distinct (map key xs) \<Longrightarrow> x \<in> set xs \<Longrightarrow> y \<in> set xs \<Longrightarrow> key x = key y \<Longrightarrow> x = y"
  by (auto simp: distinct_map inj_on_def)

lemma version_tools_shown:
  assumes inv: "control_inv h d" and "api_list_version_tools pj ag vid d = (Inr ts, d')"
  shows "\<exists>p. get_project pj d = Some p \<and> list_all (tool_in p) ts"
proof -
  obtain v where v: "require_agent_version pj ag vid d = (Inr v, d)"
      and ts: "validate_all (associated_tool d) (version_tool_list (vr_id v) d) = Inr ts"
    using assms(2) by (auto simp: api_list_version_tools_def run_Inr with_state_def dest: agent_version_found)
  obtain p where p: "get_project pj d = Some p" and mem: "v \<in> set (db_versions d)"
      and keys: "vr_project_id v = pr_id p" "vr_organization_id v = pr_organization_id p"
    using agent_version_found [OF v] by auto
  have "tool_in p t" if x: "x \<in> set (version_tool_list (vr_id v) d)" and t: "associated_tool d x = Inr t" for x t
  proof -
    have x': "x \<in> set (db_version_tools d)" "vt_agent_version_id x = vr_id v"
      using x by (simp_all add: version_tool_list_def)
    from inv x'(1) obtain w r where w: "w \<in> set (db_versions d)" "vr_id w = vt_agent_version_id x"
        and r: "r \<in> set (db_tools d)" "dr_id r = vt_tool_definition_id x"
        and wr: "dr_organization_id r = vr_organization_id w" "dr_project_id r = vr_project_id w"
      by (fastforce simp: inv_defs key_defs)
    have "w = v" using inv w(1) mem w(2) x'(2) by (intro same_key [of vr_id]) (simp_all add: inv_defs)
    obtain r' where r': "tool_get (vt_tool_definition_id x) d = Some r'" "tool_definition_to_contract r' = Inr t"
      using t by (auto simp: associated_tool_def split: option.splits)
    have "r' \<in> set (db_tools d)" "dr_id r' = dr_id r"
      using r'(1) r(2) by (auto simp: tool_get_def dest: scalar_Some)
    then have "r' = r" using inv r(1) by (intro same_key [of dr_id]) (simp_all add: inv_defs)
    then show ?thesis using r'(2) wr \<open>w = v\<close> keys by (simp add: shown)
  qed
  then have "list_all (tool_in p) ts" by (intro validate_all_rows [OF ts]) blast
  with p show ?thesis by blast
qed

lemma knowledge_bases_shown:
  "api_create_knowledge_base uid now pj n desc d = (Inr k, d') \<Longrightarrow>
     \<exists>p. get_project pj d = Some p \<and> kb_project_id k = pr_id p"
  "api_list_knowledge_bases pj d = (Inr ks, d') \<Longrightarrow>
     \<exists>p. get_project pj d = Some p \<and> list_all (\<lambda>k. kb_project_id k = pr_id p) ks"
  by (auto simp: api_create_knowledge_base_def api_list_knowledge_bases_def kb_create_def run_Inr Let_def
      with_state_def project_found kb_list_in_project_def listed_rows(2) list_all_iff)

lemma deletions_shown:
  "api_delete_agent pj ag d = (Inr u, d') \<Longrightarrow> \<exists>p. get_project pj d = Some p"
  "api_delete_tool pj tid d = (Inr u, d') \<Longrightarrow> \<exists>p. get_project pj d = Some p"
  "api_detach_tool pj ag vid tid d = (Inr u, d') \<Longrightarrow> \<exists>p. get_project pj d = Some p"
  by (auto simp: api_delete_agent_def api_delete_tool_def api_detach_tool_def require_draft_version_def run_Inr
      dest!: agent_found tool_found agent_version_found split: if_splits)

lemma write_inside:
  assumes "route_write en r d = Some (O_Answer status body, d')" and "request_project r = Some pj"
  shows "\<exists>p. get_project pj d = Some p \<and> inside d p body"
  using assms
  by (cases r) (auto simp: knowledge_base_response_of_def
    dest!: in_scope_cases routed_cases agents_shown versions_shown sessions_shown tools_shown
      knowledge_bases_shown deletions_shown)

lemma call_inside:
  assumes "control_inv h d" and "route_call sv call d = Some (O_Answer status body, d')" and "call_project call = Some pj"
  shows "\<exists>p. get_project pj d = Some p \<and> inside d p body"
proof (cases call)
  case (Write r)
  with assms(2,3) show ?thesis by (simp add: write_inside)
qed (use assms in \<open>auto simp: knowledge_base_response_of_def list_all_iff
    dest!: in_scope_cases routed_cases paged_cases agents_shown agent_page_shown versions_shown version_list_shown
      sessions_shown messages_shown tools_shown tool_page_shown version_tools_shown [OF assms(1)] knowledge_bases_shown\<close>)

text \<open>
  C29. Tenants are kept apart at the HTTP surface: in any database the requests can build, a
  response to a call on a project that is not an error shows agents, versions, sessions, tools
  and knowledge bases of that project and its organization only, and messages of that
  organization whose session is a session of that project.
\<close>

theorem responses_stay_in_project:
  assumes "seeded d0" and "hash_ok (ev_hash (sv_api sv))"
    and "serve sv header fresh call (serve_all sv history d0) = Some (Inr r, d')"
    and "call_project call = Some pj" and "\<forall>b. rp_body r \<noteq> B_Error b"
  shows "\<exists>p. get_project pj (serve_all sv history d0) = Some p \<and>
     inside (serve_all sv history d0) p (rp_body r)"
proof -
  let ?d = "serve_all sv history d0"
  have inv: "control_inv (ev_hash (sv_api sv)) ?d"
    unfolding server_refines_requests by (intro api_run_inv seeded_inv assms(1,2))
  obtain y where y: "route_call sv call ?d = Some (y, d')" and r: "respond sv (request_id_of header fresh) y = Inr r"
    using assms(3) by (auto simp: serve_def)
  obtain status body where "y = O_Answer status body"
    using r assms(5) by (cases y) (auto simp: error_response_def reports_def split: option.splits dest!: exception_response)
  then show ?thesis using call_inside [OF inv _ assms(4)] y r by auto
qed

lemma responses_stay_in_project_witness:
  "\<exists>r p. serve sample_server None 7 (GetAgent 10 100)
       (serve_all sample_server [(None, 6, Write (CreateAgent 100 5 10 sample_agent_body))] sample_db) =
     Some (Inr r, serve_all sample_server [(None, 6, Write (CreateAgent 100 5 10 sample_agent_body))] sample_db) \<and>
     rp_status r = 200 \<and> pr_id p = 10 \<and>
     inside (serve_all sample_server [(None, 6, Write (CreateAgent 100 5 10 sample_agent_body))] sample_db) p (rp_body r)"
proof -
  let ?h = "[(None, 6, Write (CreateAgent 100 5 10 sample_agent_body))]"
  let ?d = "serve_all sample_server ?h sample_db"
  let ?a = "\<lparr>ag_id = 100, ag_organization_id = 1, ag_project_id = 10, ag_name = ''Desk'', ag_description = [],
      ag_status = AS_DRAFT, ag_tags = [], ag_created_by = None, ag_created_at = 5, ag_updated_at = 5\<rparr>"
  let ?r = "\<lparr>rp_status = 200, rp_body = B_Agent ?a, rp_request_id = uuid_text 7\<rparr>"
  have r: "serve sample_server None 7 (GetAgent 10 100) ?d = Some (Inr ?r, ?d)"
    by (simp add: server_refines_requests serve_def in_scope_def api_get_agent_def request_id_of_def
      sample_server_def ctl_run_defs)
  have ok: "hash_ok (ev_hash (sv_api sample_server))" by (simp add: sample_server_def sample_hash_ok)
  obtain p where "get_project 10 ?d = Some p" "inside ?d p (rp_body ?r)"
    using responses_stay_in_project [OF sample_seeded ok r] by auto
  then show ?thesis using r by (auto simp: get_project_def dest!: scalar_Some)
qed

section \<open>Pages over HTTP\<close>

text \<open>A cursor that is no UUID is refused with 422.\<close>

lemma bad_cursor_refused:
  assumes "s \<noteq> []" and "parse_uuid s = None"
  shows "\<exists>r. serve sv (Some rid) fresh (ListAgents pj limit (Some s)) d = Some (Inr r, d) \<and> rp_status r = 422"
  using assms by (simp add: serve_def paged_def optional_cursor_def error_response_def)

text \<open>A client that follows the cursors of the responses, at most \<open>n\<close> pages.\<close>

fun follow_pages :: "nat \<Rightarrow> server \<Rightarrow> uuid \<Rightarrow> int option \<Rightarrow> string option \<Rightarrow> db \<Rightarrow> agent list option" where
  "follow_pages 0 sv pj limit cursor d = None"
| "follow_pages (Suc n) sv pj limit cursor d =
     (case serve sv None 0 (ListAgents pj limit cursor) d of
        Some (Inr r, d') \<Rightarrow>
          (case rp_body r of
             B_Agents items next_cursor \<Rightarrow>
               (case next_cursor of
                  None \<Rightarrow> Some items
                | Some c \<Rightarrow> map_option ((@) items) (follow_pages n sv pj limit (Some c) d'))
           | _ \<Rightarrow> None)
      | _ \<Rightarrow> None)"

lemma page_cursor:
  assumes "page ar_id n (agent_list_in_project pj org (n + 1) cursor d) = (rs, Some c)" and "1 \<le> n"
  shows "c \<in> ar_id ` set (db_agents d)"
proof -
  let ?l = "agent_list_in_project pj org (n + 1) cursor d"
  have c: "c = ar_id (last (take (nat n) ?l))" and len: "n < int (length ?l)"
    using assms(1) by (auto simp: page_def Let_def split: if_splits)
  have "last (take (nat n) ?l) \<in> set (take (nat n) ?l)" using len assms(2) by (intro last_in_set) auto
  then have "last (take (nat n) ?l) \<in> set ?l" by (rule in_set_takeD)
  then have "last (take (nat n) ?l) \<in> set (db_agents d)"
    using listed_rows(1) by (fastforce simp: agent_list_in_project_def Let_def listed_rows(2) split: option.splits)
  then show ?thesis unfolding c by (rule imageI)
qed

lemma listing_response:
  assumes "get_project pj d = Some p" and "pagination_limit limit = Inr n" and "optional_cursor t = Inr cursor"
    and "page ar_id n (agent_list_in_project (pr_id p) (pr_organization_id p) (n + 1) cursor d) = (rs, nc)"
    and "validate_all agent_to_contract rs = Inr xs"
  shows "serve sv None 0 (ListAgents pj limit t) d =
    Some (Inr \<lparr>rp_status = 200, rp_body = B_Agents xs (map_option uuid_text nc), rp_request_id = uuid_text 0\<rparr>, d)"
  using assms by (simp add: serve_def paged_def routed_def in_scope_def session_scope_def api_list_agents_def
    require_project_def require_def eff_defs request_id_of_def)

lemma follow_collects:
  assumes p: "get_project pj d = Some p" and n: "pagination_limit limit = Inr n"
    and ids: "\<forall>a \<in> set (db_agents d). ar_id a < 2 ^ 128"
    and "collect_pages k (pr_id p) (pr_organization_id p) n cursor d = Some rows"
    and "validate_all agent_to_contract rows = Inr items"
    and "optional_cursor t = Inr cursor"
  shows "follow_pages k sv pj limit t d = Some items"
  using assms(4-)
proof (induction k arbitrary: cursor t rows items)
  case (Suc k)
  obtain rs nc where pg: "page ar_id n (agent_list_in_project (pr_id p) (pr_organization_id p) (n + 1) cursor d) = (rs, nc)"
    by fastforce
  note listing = listing_response [OF p n Suc.prems(3) pg]
  show ?case
  proof (cases nc)
    case None
    then show ?thesis using Suc.prems(1,2) pg listing by simp
  next
    case (Some c)
    obtain rest where rest: "collect_pages k (pr_id p) (pr_organization_id p) n (Some c) d = Some rest"
        and rows: "rows = rs @ rest"
      using Suc.prems(1) pg Some by auto
    obtain xs ys where xs: "validate_all agent_to_contract rs = Inr xs"
        and ys: "validate_all agent_to_contract rest = Inr ys" and items: "items = xs @ ys"
      using Suc.prems(2) by (auto simp: rows validate_all_append and_then_Inr map_sum_Inr)
    have "1 \<le> n" using n by (auto simp: pagination_limit_def split: option.splits if_splits)
    then have "c < 2 ^ 128" using page_cursor [OF pg [unfolded Some]] ids by auto
    then have "optional_cursor (Some (uuid_text c)) = Inr (Some c)"
      by (simp add: optional_cursor_def parse_uuid_text)
    then have "follow_pages k sv pj limit (Some (uuid_text c)) d = Some ys" by (rule Suc.IH [OF rest ys])
    then show ?thesis using listing [OF xs] Some items by simp
  qed
qed simp

text \<open>
  C34. A client that follows the cursors of the responses gets every agent of the project once,
  newest first, whatever page size it asks for, as long as nothing is written in between.
\<close>

theorem http_agent_pages_complete:
  assumes "control_inv h d" and "get_project pj d = Some p" and "pagination_limit limit = Inr n"
    and "\<forall>a \<in> set (db_agents d). ar_id a < 2 ^ 128"
    and "validate_all agent_to_contract (project_agents pj (pr_organization_id p) d) = Inr items"
    and "length items < k"
  shows "follow_pages k sv pj limit None d = Some items"
proof -
  have "1 \<le> n" using assms(3) by (auto simp: pagination_limit_def split: option.splits if_splits)
  moreover have id: "pr_id p = pj" using assms(2) by (auto simp: get_project_def dest: scalar_Some)
  moreover have "length (project_agents pj (pr_organization_id p) d) < k"
    using validate_all_length [OF assms(5)] assms(6) by simp
  ultimately have "collect_pages k (pr_id p) (pr_organization_id p) n None d = Some (project_agents pj (pr_organization_id p) d)"
    using collect_from [OF assms(1), of n 0 pj "pr_organization_id p" None k] by simp
  then show ?thesis
    by (rule follow_collects [OF assms(2,3,4) _ assms(5)]) (simp add: optional_cursor_def)
qed

lemma http_agent_pages_complete_witness:
  "map_option (map ag_id) (follow_pages 3 sample_server 10 (Some 1) None sample_listing_db) = Some [101, 100]"
proof -
  have inv: "control_inv (ev_hash sample_ctl_env) sample_listing_db"
    by (simp add: inv_defs key_defs sample_listing_db_def sample_db_def empty_db_def sample_agent_row_def)
  have p: "get_project 10 sample_listing_db = Some (hd (db_projects sample_db))"
    by (simp add: get_project_def scalar_def sample_listing_db_def sample_db_def empty_db_def)
  have l: "pagination_limit (Some 1) = Inr 1" by (simp add: pagination_limit_def)
  have ids: "\<forall>a \<in> set (db_agents sample_listing_db). ar_id a < 2 ^ 128"
    by (simp add: sample_listing_db_def sample_agent_row_def)
  have rows: "project_agents 10 (pr_organization_id (hd (db_projects sample_db))) sample_listing_db =
      [sample_agent_row\<lparr>ar_id := 101, ar_created_at := 9\<rparr>, sample_agent_row]"
    by (simp add: project_agents_def newest_first_def sample_listing_db_def agent_order_def sample_agent_row_def
      sample_db_def empty_db_def)
  have "map_sum id (map ag_id) (validate_all agent_to_contract
      (project_agents 10 (pr_organization_id (hd (db_projects sample_db))) sample_listing_db)) = Inr [101, 100]"
    unfolding rows by (simp add: sample_agent_row_def agent_to_contract_def parse_agent_status_def parse_enum_def check_agent_def)
  then obtain items where items: "validate_all agent_to_contract
      (project_agents 10 (pr_organization_id (hd (db_projects sample_db))) sample_listing_db) = Inr items"
      and ids': "map ag_id items = [101, 100]"
    by (auto simp: map_sum_Inr)
  have "length items < 3" using arg_cong [OF ids', of length] by simp
  then show ?thesis
    using http_agent_pages_complete [OF inv p l ids items, of 3 sample_server] ids' by simp
qed

section \<open>The development token\<close>

text \<open>
  A token is minted in development only and with every credential configured; it grants joining
  the room asked for, and the response shows the address of the server and neither key nor secret.
\<close>

lemma token_minted:
  assumes "mint_livekit_token to_jwt s room identity = Inr t"
  shows "se_xymphony_env s = ''development'' \<and> livekit_configured s \<and> lt_room_name t = room \<and>
    lt_identity t = identity \<and> Some (lt_url t) = se_livekit_url s \<and>
    (\<exists>c. lt_token t = to_jwt c \<and> vg_room (tg_grants c) = room \<and> tg_identity c = identity \<and> tg_ttl_seconds c = 3600)"
  using assms
  by (auto simp: mint_livekit_token_def and_then_Inr require_development_def credentials_of_def Let_def
    mint_participant_token_def livekit_configured_def str_truthy_def str_or_def split: if_splits option.splits)

end
