(* ===== verification/Spec2Isabelle.thy ===== *)
theory Spec2Isabelle
  imports BuiltinProps MediaProps SessionProps LlmAdapterProps VoiceAdapterProps Fakes Retrieval WorkerProps WorkerStore RoutesProps
begin

text \<open>
  Xymphony Voice: a model of the Python packages of the voice-agent platform and its properties.

  \<^bold>\<open>The program.\<close> An agent is configured through a control plane (\<open>apps/api\<close>): its versions are
  drafts that are published and then pinned by sessions. A worker runs a session with the agent
  runtime (\<open>packages/agent-runtime\<close>): it takes inputs (speech, audio frames, text, cancellations),
  runs turns through speech-to-text, the language model with tools (\<open>packages/tools\<close>) and
  text-to-speech, emits events and records the conversation. A media bridge connects it to a
  transport, and adapters (\<open>packages/providers\<close>) to the vendors' models and voices. The values that cross these borders
  are the validated contracts of \<open>packages/contracts\<close>. \<open>packages/rag\<close> cuts documents into the
  chunks that retrieval searches.

  \<^bold>\<open>Theories and the code they model.\<close>

  \<^item> \<open>Prelude\<close>: Python values (results with an exception, JSON, strings and \<open>strip\<close>, \<open>split\<close>,
    \<open>rfind\<close>), the state-and-exception computations \<open>eff\<close>, and the \<open>forward_invariant\<close> locale: an
    invariant together with a relation that every step only moves forward.
  \<^item> \<open>Contracts\<close>: \<open>enums.py\<close>, \<open>content.py\<close>, \<open>session.py\<close>, \<open>summary.py\<close>, \<open>llm.py\<close>, \<open>stt.py\<close>,
    \<open>tts.py\<close>, \<open>tools.py\<close>, \<open>provider.py\<close>, \<open>usage.py\<close>; a \<open>check_...\<close> function is the validation of a
    constructor call.
  \<^item> \<open>Events\<close>: \<open>events.py\<close>, the runtime's \<open>context.py\<close> (sequence counters, cancelled turns) and
    \<open>dispatch.py\<close> (event builders). \<open>Turns\<close>: \<open>turn.py\<close>, \<open>lifecycle.py\<close>. \<open>Conversation\<close>:
    \<open>conversation.py\<close>. \<open>Budget\<close>: \<open>context_budget.py\<close>, \<open>llm_context.py\<close>, \<open>token_estimate.py\<close> and the
    memory and retrieval sections. \<open>Persistence\<close>: \<open>persistence/memory.py\<close> against the ports of
    \<open>persistence/__init__.py\<close>, stated as locales. \<open>Summarization\<close>: \<open>summarization.py\<close>. \<open>Tools\<close>:
    \<open>domain.py\<close>, \<open>registry.py\<close>, \<open>validation.py\<close>, \<open>executor.py\<close>.
  \<^item> \<open>Runtime\<close>, \<open>Pipeline\<close>, \<open>System\<close>: \<open>AgentRuntime\<close> of \<open>runtime.py\<close>. Asynchronous code is cut at
    its awaits: each segment between two awaits is one function on the runtime state, which holds
    the suspended tasks as data. \<open>System\<close> composes them into a step relation in which the client's
    calls, the chunks of the providers and the resumptions of tasks come in any order.
  \<^item> \<open>RuntimeInv\<close>, \<open>RuntimeSafety\<close>, \<open>RuntimeProps\<close>: its invariants and properties.
  \<^item> \<open>Bridge\<close>: \<open>bridge.py\<close>, \<open>observations.py\<close>, \<open>media_transport.py\<close>; \<open>bridge_step\<close> is the step function
    of bridge and runtime together, the transport being the environment. \<open>BridgeInv\<close>,
    \<open>BridgeProps\<close>: its invariant and properties.
  \<^item> \<open>Transports\<close>: \<open>fake_transport.py\<close>, \<open>livekit_transport.py\<close> and \<open>livekit_token.py\<close>; the room of the
    SDK is the environment (\<open>room_event\<close>, \<open>audio_stimulus\<close>, the outcomes of awaited calls).
    \<open>TransportProps\<close>: the contract of a transport with its client and with its caller, as the locales
    \<open>transport_client\<close> and \<open>transport_port\<close>, kept by both transports; what a client hears, for any
    client, by a tap before its own handlers.
    \<open>Media\<close>: the bridge as the client of the LiveKit transport, \<open>media_step\<close> being the step function
    of room, transport, bridge and runtime together. \<open>MediaProps\<close>: its properties.
  \<^item> \<open>Session\<close>, \<open>SessionProps\<close>: the minimal session of \<open>session.py\<close>, alone and over the in-memory
    transport, and \<open>worker.py\<close>.
  \<^item> \<open>LlmAdapters\<close>: \<open>openai_llm.py\<close>, \<open>groq_llm.py\<close>. \<open>VoiceAdapters\<close>: \<open>assemblyai_stt.py\<close>,
    \<open>elevenlabs_tts.py\<close>. \<open>LlmAdapterProps\<close>, \<open>VoiceAdapterProps\<close>: their properties, also together
    with the runtime that consumes their streams. \<open>Fakes\<close>: the scripted providers of the tests.
    \<open>PyNumbers\<close>: \<open>float\<close> of an integer, rounded to the nearest double.
  \<^item> \<open>Builtins\<close>: \<open>builtins.py\<close> and \<open>handlers/\<close> of \<open>packages/tools\<close>: Python's integer and float
    arithmetic, the two calculators, the clock, text statistics, customer and weather lookup, and
    their registration. \<open>BuiltinProps\<close>: the calculators against exact arithmetic, and under the executor.
  \<^item> \<open>Chunking\<close>: \<open>chunking.py\<close> of \<open>packages/rag\<close>.
  \<^item> \<open>AgentContract\<close>: \<open>agent.py\<close>, \<open>providers.py\<close>, \<open>tool_definition.py\<close>. \<open>ControlStore\<close>: \<open>models.py\<close>;
    a table is a list of rows, and \<open>..._violation\<close> says which declared constraint a row breaks.
    \<open>ControlRepos\<close>: \<open>repositories.py\<close>, \<open>mapping.py\<close>. \<open>ControlServices\<close>: \<open>schemas.py\<close>, \<open>services.py\<close>
    (\<open>api_<operation>\<close>), \<open>db.py\<close> (\<open>session_scope\<close>: commit or roll back), \<open>errors.py\<close>.
    \<open>ControlInv\<close>: the write routes as one function on requests (\<open>api_step\<close>, \<open>api_run\<close>) and the
    invariant of agents, versions, sessions and tools; \<open>ControlTables\<close>: that of the other tables, and
    of the whole database. \<open>ControlVersions\<close>, \<open>ControlProps\<close>, \<open>ControlData\<close>: its lemmas and
    properties.
  \<^item> \<open>Routes\<close>: the HTTP surface (\<open>routes/\<close>, \<open>deps.py\<close>, \<open>errors.py\<close>, \<open>config.py\<close>, \<open>main.py\<close>), one definition
    per route; \<open>serve\<close> is the whole handling of a call. \<open>PyUuid\<close>: \<open>str\<close> of a UUID and its parser, which
    cursors go through. \<open>RoutesProps\<close>: the server changes the database as its write requests do, a
    refused call changes nothing, responses stay within the project of the path, pages are complete.
  \<^item> \<open>SqlPersistence\<close>: \<open>persistence/postgres.py\<close>. \<open>Worker\<close>: the worker's \<open>bootstrap.py\<close> and the provider
    registry. \<open>WorkerProps\<close>: the SQL ledger against the in-memory one, and what a worker built
    from the database runs. \<open>WorkerStore\<close>: the worker's repositories, which commit after each write,
    on one database session. \<open>Retrieval\<close>: \<open>retrieval.py\<close> of the control plane and \<open>embeddings.py\<close>.

  \<^bold>\<open>What the lemmas show.\<close> The runtime theories prove, for every interleaving, what a client sees
  (no output of a cancelled turn, gapless events), what is recorded (completed turns only) and the
  turn discipline (one live turn). The request path is shown to keep prompt, history and user message
  within the token budget, to fall back in the intended order, to cover by the rolling summary what
  it drops from the history, except where it gives up, and to call a tool only with conforming
  arguments. The control plane is shown to keep all its tables consistent, published
  versions unchanged, sessions pinned and pages complete. Theorems of kind error state the
  behaviours of the code that its documentation does not promise: a stuck turn, a doubled reply, a
  chunker that never returns, a deletion that fails, a failure that a shutdown hides. The bridge
  is shown to drive the runtime through its interface only, so the runtime's theorems hold under
  it, and to keep the audio of cancelled turns from the transport; the model adapters to
  reassemble tool calls and to answer a turn, with a voice and without. Over the LiveKit transport the bridge is shown to
  meet exactly the environment its theory assumes, so these results reach from the provider's
  stream to the audio the room captures.

  \<^bold>\<open>Termination and bounds.\<close> The chunker's loop is a partial function into \<open>option\<close>; not returning
  is \<open>None\<close>, and returning is proved as such. Following the cursors of a list uses as many steps as
  there are rows, which is proved to be enough. All other recursion is structural. Python's
  integers are \<open>int\<close>, times are integers, UUIDs are natural numbers, and the unspecified order of rows
  without an \<open>ORDER BY\<close> does not matter to any statement.

  \<^bold>\<open>Parameters.\<close> The providers' streams, the retriever and the memory store are inputs of the step
  relation, as are the room's events and a vendor's answer to a request; tool handlers, the token counter, the digest of a configuration, the embedding model,
  vector distance and text search are functions the definitions take. \<open>json.loads\<close> is one that fails
  with its decoding error only, the embedder embeds each text on its own, and the database answers the
  probe of the health check.

  \<^bold>\<open>Not modelled.\<close> The vendors' SDKs, argument parsing and the order of start and close of the
  worker process, logging, cross-origin headers, the serialization of response bodies, the development
  page and the schema migrations, which only declare the tables that \<open>ControlStore\<close> models. Where a handler
  is awaited by a transport, or cancelled tasks by their owner, nothing is interleaved; background
  tasks of the bridge are published in the order of their events and gathered at once.
\<close>

end
